(* ===== verification/Go_Prelude.thy ===== *)
theory Go_Prelude
  imports
    Complex_Main
    "HOL-Library.AList"
    "HOL-Library.Word"
    "HOL-Library.List_Lexorder"
    "HOL-Library.Char_ord"
    "HOL-Library.Sublist"
begin

text \<open>
  What the components share: the Go run-time notions the sources rely on.

  \<^item> \<open>time.Time\<close> is an integer number of nanoseconds (\<open>go_time\<close>), with 0 for the zero
    \<open>time.Time\<close> that \<open>IsZero\<close> recognises; \<open>time.Duration\<close> is an integer number of
    nanoseconds, and \<open>time_sub\<close> saturates at the 64-bit bounds as \<open>Time.Sub\<close> does.
  \<^item> A Go \<open>map\<close> is an association list with distinct keys (\<open>gomap_wf\<close>): \<open>map_of\<close> reads it,
    \<open>AList.update\<close> writes it, \<open>AList.delete\<close> deletes from it, \<open>length\<close> is \<open>len\<close>. Go leaves
    the iteration order open; the list order stands for one such order, and where the
    order could be observed a property says that it is not.
  \<^item> A Go string is a list of bytes (\<open>string\<close>), ordered bytewise.
  \<^item> \<open>interface{}\<close> values decoded from JSON are the datatype \<open>json\<close>.
  \<^item> A method that may fail and changes state is a function from the state to a result and
    the next state (\<open>stage\<close>), sequenced by \<open>sbind\<close>, which stops at the first error.
\<close>

named_theorems gomap_simps \<open>reading a Go map after an update\<close>
named_theorems stage_simps \<open>running a stage one step\<close>
named_theorems go_time_simps \<open>instants, durations and their comparisons\<close>

section \<open>Time\<close>

type_synonym go_time = int
type_synonym duration = int

definition go_second :: duration where
  "go_second = 1000000000"

definition go_minute :: duration where
  "go_minute = 60 * go_second"

definition go_hour :: duration where
  "go_hour = 60 * go_minute"

definition min_duration :: duration where
  "min_duration = - (2 ^ 63)"

definition max_duration :: duration where
  "max_duration = 2 ^ 63 - 1"

definition time_is_zero :: "go_time \<Rightarrow> bool" where
  "time_is_zero t \<longleftrightarrow> t = 0"

definition time_after :: "go_time \<Rightarrow> go_time \<Rightarrow> bool" where
  "time_after t u \<longleftrightarrow> u < t"

definition time_before :: "go_time \<Rightarrow> go_time \<Rightarrow> bool" where
  "time_before t u \<longleftrightarrow> t < u"

definition time_add :: "go_time \<Rightarrow> duration \<Rightarrow> go_time" where
  "time_add t d = t + d"

definition time_sub :: "go_time \<Rightarrow> go_time \<Rightarrow> duration" where
  "time_sub t u = max min_duration (min max_duration (t - u))"

text \<open>\<open>int(d.Seconds())\<close>: whole seconds, rounded towards zero.\<close>

definition whole_seconds :: "duration \<Rightarrow> int" where
  "whole_seconds d = sgn d * (\<bar>d\<bar> div go_second)"

text \<open>\<open>Unix()\<close>: seconds since 1970; the zero \<open>time.Time\<close> is 62135596800 seconds earlier.\<close>

definition unix_seconds :: "go_time \<Rightarrow> int" where
  "unix_seconds t = t div go_second - 62135596800"

lemma go_second_pos [simp]: "0 < go_second"
  by (simp add: go_second_def)

lemma time_sub_bounds:
  "min_duration \<le> time_sub t u \<and> time_sub t u \<le> max_duration"
  by (simp add: time_sub_def min_duration_def max_duration_def)

lemma time_sub_gt_iff [go_time_simps]:
  "min_duration \<le> d \<Longrightarrow> d < max_duration \<Longrightarrow> d < time_sub t u \<longleftrightarrow> d < t - u"
  by (auto simp: time_sub_def min_def max_def)

lemma whole_seconds_nonneg: "0 \<le> d \<Longrightarrow> 0 \<le> whole_seconds d"
  by (simp add: whole_seconds_def sgn_if pos_imp_zdiv_nonneg_iff)

lemma whole_seconds_le: "0 \<le> d \<Longrightarrow> whole_seconds d * go_second \<le> d"
proof -
  assume "0 \<le> d"
  then have "whole_seconds d = d div go_second"
    by (auto simp: whole_seconds_def sgn_if)
  moreover have "d div go_second * go_second \<le> d"
    by (simp add: go_second_def)
  ultimately show ?thesis by simp
qed

lemma whole_seconds_multiple: "whole_seconds (n * go_second) = n"
  by (simp add: whole_seconds_def go_second_def sgn_if abs_mult)

lemma unix_seconds_add: "unix_seconds (time_add t (n * go_second)) = unix_seconds t + n"
  by (simp add: unix_seconds_def time_add_def go_second_def)

section \<open>Maps\<close>

type_synonym ('k, 'v) gomap = "('k \<times> 'v) list"

definition gomap_wf :: "('k, 'v) gomap \<Rightarrow> bool" where
  "gomap_wf m \<longleftrightarrow> distinct (map fst m)"

definition gomap_has :: "('k, 'v) gomap \<Rightarrow> 'k \<Rightarrow> bool" where
  "gomap_has m k \<longleftrightarrow> map_of m k \<noteq> None"

lemma gomap_wf_Nil [simp]: "gomap_wf []"
  by (simp add: gomap_wf_def)

lemma gomap_wf_update [simp, intro]: "gomap_wf m \<Longrightarrow> gomap_wf (AList.update k v m)"
  by (simp add: gomap_wf_def distinct_update)

lemma gomap_wf_delete [simp, intro]: "gomap_wf m \<Longrightarrow> gomap_wf (AList.delete k m)"
  by (simp add: gomap_wf_def distinct_delete)

lemma gomap_wf_filter [simp, intro]: "gomap_wf m \<Longrightarrow> gomap_wf (filter P m)"
  by (simp add: gomap_wf_def distinct_map_filter)

lemma map_of_update [gomap_simps]:
  "map_of (AList.update k v m) x = (if x = k then Some v else map_of m x)"
  by (simp add: update_conv')

lemma map_of_delete [gomap_simps]:
  "map_of (AList.delete k m) x = (if x = k then None else map_of m x)"
  by (simp add: delete_conv')

lemma map_of_filter [gomap_simps]:
  "gomap_wf m \<Longrightarrow>
   map_of (filter (\<lambda>(k, v). P k v) m) x =
     (case map_of m x of None \<Rightarrow> None | Some v \<Rightarrow> if P x v then Some v else None)"
  by (induction m) (auto simp: gomap_wf_def dom_map_of_conv_image_fst split: option.splits
      dest: map_of_SomeD, (force dest: map_of_SomeD)+)

lemma gomap_wf_map_of_iff:
  "gomap_wf m \<Longrightarrow> map_of m k = Some v \<longleftrightarrow> (k, v) \<in> set m"
  by (simp add: gomap_wf_def)

lemma length_update_fresh: "map_of m k = None \<Longrightarrow> length (AList.update k v m) = Suc (length m)"
  by (induction m) (auto split: if_splits)

lemma length_update_same: "map_of m k \<noteq> None \<Longrightarrow> length (AList.update k v m) = length m"
  by (induction m) (auto split: if_splits)

lemma set_update_subset: "set (AList.update k v m) \<subseteq> insert (k, v) (set m)"
  by (induction m) auto

lemma set_delete_subset: "set (AList.delete k m) \<subseteq> set m"
  by (auto simp: AList.delete_eq)

text \<open>\<open>for k, v := range kvs { m[k] = v }\<close>.\<close>

fun put_all :: "('k, 'v) gomap \<Rightarrow> ('k, 'v) gomap \<Rightarrow> ('k, 'v) gomap" where
  "put_all [] m = m"
| "put_all ((k, v) # kvs) m = put_all kvs (AList.update k v m)"

lemma map_of_put_all:
  "map_of (put_all kvs m) k =
     (case map_of (rev kvs) k of Some v \<Rightarrow> Some v | None \<Rightarrow> map_of m k)"
  by (induction kvs m rule: put_all.induct)
    (auto simp: gomap_simps map_add_def split: option.splits)

section \<open>Results and stages\<close>

type_synonym ('s, 'e, 'a) stage = "'s \<Rightarrow> ('e + 'a) \<times> 's"

definition sreturn :: "'a \<Rightarrow> ('s, 'e, 'a) stage" where
  "sreturn a = (\<lambda>s. (Inr a, s))"

definition sfail :: "'e \<Rightarrow> ('s, 'e, 'a) stage" where
  "sfail e = (\<lambda>s. (Inl e, s))"

definition smodify :: "('s \<Rightarrow> 's) \<Rightarrow> ('s, 'e, unit) stage" where
  "smodify f = (\<lambda>s. (Inr (), f s))"

definition sbind :: "('s, 'e, 'a) stage \<Rightarrow> ('a \<Rightarrow> ('s, 'e, 'b) stage) \<Rightarrow> ('s, 'e, 'b) stage" where
  "sbind m f = (\<lambda>s. case m s of (Inl e, s') \<Rightarrow> (Inl e, s') | (Inr a, s') \<Rightarrow> f a s')"

definition slift :: "('e + 'a) \<Rightarrow> ('s, 'e, 'a) stage" where
  "slift r = (\<lambda>s. (r, s))"

lemma sreturn_apply [stage_simps]: "sreturn a s = (Inr a, s)"
  by (simp add: sreturn_def)

lemma sfail_apply [stage_simps]: "sfail e s = (Inl e, s)"
  by (simp add: sfail_def)

lemma smodify_apply [stage_simps]: "smodify f s = (Inr (), f s)"
  by (simp add: smodify_def)

lemma slift_apply [stage_simps]: "slift r s = (r, s)"
  by (simp add: slift_def)

lemma sbind_apply:
  "sbind m f s = (case m s of (Inl e, s') \<Rightarrow> (Inl e, s') | (Inr a, s') \<Rightarrow> f a s')"
  by (simp add: sbind_def)

lemma sbind_Inl [stage_simps]: "m s = (Inl e, s') \<Longrightarrow> sbind m f s = (Inl e, s')"
  by (simp add: sbind_def)

lemma sbind_Inr [stage_simps]: "m s = (Inr a, s') \<Longrightarrow> sbind m f s = f a s'"
  by (simp add: sbind_def)

text \<open>Sequencing of results without state.\<close>

definition rbind :: "'e + 'a \<Rightarrow> ('a \<Rightarrow> 'e + 'b) \<Rightarrow> 'e + 'b" where
  "rbind r f = (case r of Inl e \<Rightarrow> Inl e | Inr a \<Rightarrow> f a)"

lemma rbind_simps [simp, stage_simps]: "rbind (Inl e) f = Inl e" "rbind (Inr a) f = f a"
  by (simp_all add: rbind_def)

lemma rbind_Inr_iff: "rbind r f = Inr b \<longleftrightarrow> (\<exists>a. r = Inr a \<and> f a = Inr b)"
  by (cases r) auto

text \<open>Every successful run of a sequence is a successful run of both parts.\<close>

lemma sbind_InrE:
  assumes "sbind m f s = (Inr b, s'')"
  obtains a s' where "m s = (Inr a, s')" and "f a s' = (Inr b, s'')"
  using assms by (auto simp: sbind_def split: prod.splits sum.splits)

lemma sbind_assoc: "sbind (sbind m f) g = sbind m (\<lambda>a. sbind (f a) g)"
  by (rule ext) (simp add: sbind_def split: prod.splits sum.splits)

lemma sbind_sreturn: "sbind (sreturn a) f = f a"
  by (rule ext) (simp add: sbind_def sreturn_def)

text \<open>
  A stage keeps an observation of the state when no run changes it, whether it succeeds
  or fails.
\<close>

definition keeps :: "('s \<Rightarrow> 'o) \<Rightarrow> ('s, 'e, 'a) stage \<Rightarrow> bool" where
  "keeps obs m \<longleftrightarrow> (\<forall>s. obs (snd (m s)) = obs s)"

lemma keepsI: "(\<And>s. obs (snd (m s)) = obs s) \<Longrightarrow> keeps obs m"
  by (simp add: keeps_def)

lemma keepsD: "keeps obs m \<Longrightarrow> m s = (r, s') \<Longrightarrow> obs s' = obs s"
  unfolding keeps_def by (metis snd_conv)

named_theorems keeps_rules \<open>stages that keep an observation\<close>

lemma keeps_sreturn [keeps_rules]: "keeps obs (sreturn a)"
  by (simp add: keeps_def sreturn_def)

lemma keeps_sfail [keeps_rules]: "keeps obs (sfail e)"
  by (simp add: keeps_def sfail_def)

lemma keeps_slift [keeps_rules]: "keeps obs (slift r)"
  by (simp add: keeps_def slift_def)

lemma keeps_smodify: "(\<And>s. obs (f s) = obs s) \<Longrightarrow> keeps obs (smodify f)"
  by (simp add: keeps_def smodify_def)

lemma keeps_sbind [keeps_rules]:
  "keeps obs m \<Longrightarrow> (\<And>a. keeps obs (f a)) \<Longrightarrow> keeps obs (sbind m f)"
  unfolding keeps_def sbind_def by (simp split: prod.split sum.split) (metis snd_conv)

lemma snd_sbind_keeps:
  "(\<And>a. keeps obs (f a)) \<Longrightarrow> obs (snd (sbind m f s)) = obs (snd (m s))"
  by (auto simp: sbind_def keeps_def split: prod.split sum.split)

section \<open>Dynamic values\<close>

datatype json =
    JNull
  | JBool bool
  | JNum rat
  | JStr string
  | JArr "json list"
  | JObj "(string \<times> json) list"

type_synonym claims = "(string, json) gomap"

fun as_str :: "json \<Rightarrow> string option" where
  "as_str (JStr s) = Some s"
| "as_str _ = None"

fun as_num :: "json \<Rightarrow> rat option" where
  "as_num (JNum r) = Some r"
| "as_num _ = None"

fun as_arr :: "json \<Rightarrow> json list option" where
  "as_arr (JArr xs) = Some xs"
| "as_arr _ = None"

fun as_obj :: "json \<Rightarrow> (string \<times> json) list option" where
  "as_obj (JObj kvs) = Some kvs"
| "as_obj _ = None"

text \<open>
  \<open>token.Get(name, &dst)\<close> of the JWT library, by the type of the destination: it
  succeeds when the claim is present with a value of that type.
\<close>

definition get_str :: "claims \<Rightarrow> string \<Rightarrow> string option" where
  "get_str c k = Option.bind (map_of c k) as_str"

definition get_num :: "claims \<Rightarrow> string \<Rightarrow> rat option" where
  "get_num c k = Option.bind (map_of c k) as_num"

definition get_arr :: "claims \<Rightarrow> string \<Rightarrow> json list option" where
  "get_arr c k = Option.bind (map_of c k) as_arr"

definition get_obj :: "claims \<Rightarrow> string \<Rightarrow> (string \<times> json) list option" where
  "get_obj c k = Option.bind (map_of c k) as_obj"

text \<open>A string member of a decoded object, empty when absent or of another type.\<close>

definition str_member :: "(string \<times> json) list \<Rightarrow> string \<Rightarrow> string" where
  "str_member kvs k =
     (case map_of kvs k of
        None \<Rightarrow> '''' | Some v \<Rightarrow> case as_str v of None \<Rightarrow> '''' | Some s \<Rightarrow> s)"

text \<open>The strings of a slice of dynamic values: \<open>if s, ok := c.(string); ok\<close>.\<close>

definition strings_of :: "json list \<Rightarrow> string list" where
  "strings_of js = List.map_filter as_str js"

lemma strings_of_simps [simp]:
  "strings_of [] = []"
  "strings_of (JStr s # js) = s # strings_of js"
  "strings_of (JNull # js) = strings_of js"
  "strings_of (JBool b # js) = strings_of js"
  "strings_of (JNum r # js) = strings_of js"
  "strings_of (JArr a # js) = strings_of js"
  "strings_of (JObj ob # js) = strings_of js"
  by (simp_all add: strings_of_def map_filter_simps)

lemma strings_of_map_JStr [simp]: "strings_of (map JStr ss) = ss"
  by (induction ss) auto

text \<open>
  \<open>int(x)\<close> for a \<open>float64\<close>: truncation towards zero. Outside the 64-bit range Go leaves
  the value to the implementation; the model takes the value of amd64.
\<close>

definition rat_trunc :: "rat \<Rightarrow> int" where
  "rat_trunc r = (if 0 \<le> r then \<lfloor>r\<rfloor> else \<lceil>r\<rceil>)"

definition float_to_int :: "rat \<Rightarrow> int" where
  "float_to_int r =
     (let n = rat_trunc r in if - (2 ^ 63) \<le> n \<and> n < 2 ^ 63 then n else - (2 ^ 63))"

lemma float_to_int_of_int:
  "- (2 ^ 63) \<le> n \<Longrightarrow> n < 2 ^ 63 \<Longrightarrow> float_to_int (of_int n) = n"
  by (simp add: float_to_int_def rat_trunc_def)

lemma float_to_int_bounds: "- (2 ^ 63) \<le> float_to_int r \<and> float_to_int r < 2 ^ 63"
  by (simp add: float_to_int_def Let_def)

section \<open>Strings\<close>

definition has_prefix :: "string \<Rightarrow> string \<Rightarrow> bool" where
  "has_prefix s p \<longleftrightarrow> take (length p) s = p"

text \<open>\<open>strings.Count(s, sub)\<close> for a non-empty \<open>sub\<close>: non-overlapping occurrences.\<close>

function str_count :: "string \<Rightarrow> string \<Rightarrow> nat" where
  "str_count s p =
     (if p = [] \<or> s = [] then 0
      else if has_prefix s p then Suc (str_count (drop (length p) s) p)
      else str_count (tl s) p)"
  by pat_completeness auto
termination
  by (relation "measure (\<lambda>(s, p). length s)") auto

declare str_count.simps [simp del]

text \<open>
  \<open>strings.Index(s, sep)\<close> on one byte: the prefix before it, or \<open>None\<close> without it.
\<close>

fun cut_before :: "char \<Rightarrow> string \<Rightarrow> string option" where
  "cut_before c [] = None"
| "cut_before c (x # xs) = (if x = c then Some [] else map_option ((#) x) (cut_before c xs))"

lemma cut_before_Some:
  "cut_before c s = Some p \<Longrightarrow> \<exists>q. s = p @ c # q \<and> c \<notin> set p"
  by (induction s arbitrary: p) (auto split: if_splits)

lemma cut_before_None: "cut_before c s = None \<longleftrightarrow> c \<notin> set s"
  by (induction s) auto

lemma cut_before_append: "c \<notin> set p \<Longrightarrow> cut_before c (p @ c # q) = Some p"
  by (induction p) auto

text \<open>\<open>%d\<close> of an integer.\<close>

fun show_nat :: "nat \<Rightarrow> string" where
  "show_nat n =
     (if n < 10 then [char_of (48 + n)] else show_nat (n div 10) @ [char_of (48 + n mod 10)])"

declare show_nat.simps [simp del]

definition show_int :: "int \<Rightarrow> string" where
  "show_int i = (if i < 0 then CHR ''-'' # show_nat (nat (- i)) else show_nat (nat i))"

lemma has_prefix_append [simp]: "has_prefix (p @ q) p"
  by (simp add: has_prefix_def)

lemma subseq_set: "subseq xs ys \<Longrightarrow> set xs \<subseteq> set ys"
  by (induction rule: list_emb.induct) auto

lemma sorted_wrt_subseq: "subseq xs ys \<Longrightarrow> sorted_wrt R ys \<Longrightarrow> sorted_wrt R xs"
proof (induction rule: list_emb.induct)
  case (list_emb_Cons2 x y xs ys)
  then show ?case using subseq_set [of xs ys] by auto
qed auto

section \<open>Hexadecimal\<close>

text \<open>\<open>hex.EncodeToString\<close> and \<open>hex.DecodeString\<close> of \<open>encoding/hex\<close>; bytes are characters.\<close>

definition hex_digit :: "nat \<Rightarrow> char" where
  "hex_digit n = (if n < 10 then char_of (48 + n) else char_of (87 + n))"

definition hex_value :: "char \<Rightarrow> nat option" where
  "hex_value c =
     (let n = (of_char c :: nat)
      in if 48 \<le> n \<and> n \<le> 57 then Some (n - 48)
         else if 97 \<le> n \<and> n \<le> 102 then Some (n - 87)
         else if 65 \<le> n \<and> n \<le> 70 then Some (n - 55)
         else None)"

definition hex_encode :: "string \<Rightarrow> string" where
  "hex_encode bytes =
     concat (map (\<lambda>c. [hex_digit (of_char c div 16), hex_digit (of_char c mod 16)]) bytes)"

fun hex_decode :: "string \<Rightarrow> string option" where
  "hex_decode [] = Some []"
| "hex_decode [c] = None"
| "hex_decode (c # d # cs) =
     (case (hex_value c, hex_value d, hex_decode cs) of
        (Some h, Some l, Some bytes) \<Rightarrow> Some (char_of (16 * h + l) # bytes)
      | _ \<Rightarrow> None)"

lemma hex_value_digit: "n < 16 \<Longrightarrow> hex_value (hex_digit n) = Some n"
  by (auto simp: hex_value_def hex_digit_def Let_def)

lemma hex_decode_encode: "hex_decode (hex_encode bytes) = Some bytes"
proof (induction bytes)
  case Nil
  then show ?case by (simp add: hex_encode_def)
next
  case (Cons c bytes)
  have "(of_char c :: nat) < 256" by (rule nat_of_char_less_256)
  then have "(of_char c :: nat) div 16 < 16" by presburger
  with Cons show ?case by (simp add: hex_encode_def hex_value_digit)
qed

lemma length_hex_encode: "length (hex_encode bytes) = 2 * length bytes"
  by (induction bytes) (simp_all add: hex_encode_def)

end
