(* ===== verification/Core_Types.thy ===== *)
theory Core_Types
  imports Go_Prelude
begin

text \<open>
  The shared data types of \<open>src/pkg/core/interfaces.go\<close>: the token exchange request and
  response, the attestation header, workload identities, policy input and decision,
  security events and streams, signals, revocation entries and audit events. A struct is
  a record with the fields of the source; a pointer that may be \<open>nil\<close> is an option. Field
  names carry a short prefix of the struct, since Isabelle's selectors are global.
\<close>

section \<open>Attestation header\<close>

record server_attest_platform =
  ap_source :: string
  ap_cred_type :: string
  ap_metadata :: "(string, string) gomap option"

record server_attest_hardware =
  ah_type :: string
  ah_quote :: string
  ah_pcrs :: "(int, string) gomap"
  ah_firmware :: string
  ah_nonce :: string
  ah_measurements :: "(string, string) gomap"

record server_attest_workload =
  aw_pid :: int
  aw_binary_hash :: string
  aw_image_digest :: string
  aw_namespace :: string
  aw_pod_name :: string
  aw_node_name :: string
  aw_labels :: "(string, string) gomap"

record server_attestation =
  att_platform :: server_attest_platform
  att_hardware :: "server_attest_hardware list"
  att_workload :: "server_attest_workload option"
  att_agent_version :: string
  att_timestamp :: go_time

text \<open>\<open>AssuranceLevel\<close> has a nil-safe receiver: the model takes an option.\<close>

definition AssuranceLevel :: "server_attestation option \<Rightarrow> string" where
  "AssuranceLevel a =
     (case a of
        None \<Rightarrow> ''none''
      | Some att \<Rightarrow> if 0 < length (att_hardware att) then ''hardware'' else ''software'')"

section \<open>Token exchange\<close>

record execution_scope =
  xs_method :: string
  xs_uri :: string
  xs_exec_act :: string
  xs_input_hash :: string
  xs_output_hash :: string
  xs_target :: string
  xs_workflow_id :: string
  xs_payload_hash :: string
  xs_nonce :: string

record token_exchange_request =
  rq_grant_type :: string
  rq_subject_token :: string
  rq_subject_token_type :: string
  rq_audience :: string
  rq_scope :: string
  rq_actor_token :: string
  rq_actor_token_type :: string
  rq_requested_token_type :: string
  rq_dpop_proof :: string
  rq_attestation :: "server_attestation option"
  rq_execution_scope :: "execution_scope option"

record token_exchange_response =
  rs_access_token :: string
  rs_issued_token_type :: string
  rs_token_type :: string
  rs_expires_in :: int
  rs_scope :: string
  rs_delegation_depth :: int

section \<open>Identity and policy\<close>

text \<open>A trust domain of the configuration (\<open>config.go\<close>).\<close>

record trust_domain =
  bd_name :: string
  bd_enabled :: bool
  bd_jwks_url :: string
  bd_issuer :: string

record attestation_evidence =
  ae_method :: string
  ae_timestamp :: go_time
  ae_node_id :: string
  ae_namespace :: string

record workload_identity =
  wi_id :: string
  wi_trust_domain :: string
  wi_attestation :: "attestation_evidence option"
  wi_claims :: claims

record policy_input =
  pi_action :: string
  pi_subject :: "workload_identity option"
  pi_target :: string
  pi_context :: claims

record policy_decision =
  pd_allowed :: bool
  pd_reason :: string
  pd_claims :: claims

section \<open>Signals\<close>

record subject_identifier =
  si_format :: string
  si_spiffe_id :: string
  si_email :: string
  si_uri :: string

record security_event =
  se_issuer :: string
  se_jti :: string
  se_issued_at :: int
  se_audience :: string
  se_subject_id :: "subject_identifier option"
  se_events :: "(string, claims) gomap"
  se_transaction_id :: string

record stream_config =
  sc_issuer :: string
  sc_audience :: string
  sc_events_requested :: "string list"
  sc_events_delivered :: "string list"
  sc_delivery_method :: string
  sc_endpoint_url :: string

record ssf_stream =
  st_id :: string
  st_issuer :: string
  st_audience :: string
  st_events_supported :: "string list"
  st_status :: string

record stream_status =
  ss_stream_id :: string
  ss_status :: string
  ss_subject :: string

record ssf_configuration =
  cf_issuer :: string
  cf_jwks_uri :: string
  cf_delivery_methods_supported :: "string list"
  cf_configuration_endpoint :: string
  cf_status_endpoint :: string
  cf_add_subject_endpoint :: string
  cf_remove_subject_endpoint :: string

record revocation_entry =
  re_subject_id :: string
  re_reason :: string
  re_revoked_at :: go_time
  re_expires_at :: go_time
  re_event_jti :: string

record revocation_snapshot =
  rv_entries :: "revocation_entry list"
  rv_count :: int
  rv_hash :: string

record signal =
  sg_type :: string
  sg_source :: string
  sg_timestamp :: go_time
  sg_payload :: claims

section \<open>Audit\<close>

record audit_event =
  au_timestamp :: go_time
  au_type :: string
  au_action :: string
  au_subject :: string
  au_target :: string
  au_decision :: string
  au_reason :: string
  au_metadata :: claims
  au_unit_id :: string

text \<open>
  The event an \<open>&core.AuditEvent{...}\<close> literal denotes: the fields it names, the zero
  value elsewhere.
\<close>

definition audit_lit ::
  "string \<Rightarrow> string \<Rightarrow> string \<Rightarrow> string \<Rightarrow> string \<Rightarrow> string \<Rightarrow> claims \<Rightarrow> audit_event" where
  "audit_lit typ act sub tgt dec rsn meta =
     \<lparr>au_timestamp = 0, au_type = typ, au_action = act, au_subject = sub, au_target = tgt,
      au_decision = dec, au_reason = rsn, au_metadata = meta, au_unit_id = ''''\<rparr>"

lemma audit_lit_sel [simp]:
  "au_type (audit_lit typ act sub tgt dec rsn meta) = typ"
  "au_action (audit_lit typ act sub tgt dec rsn meta) = act"
  "au_subject (audit_lit typ act sub tgt dec rsn meta) = sub"
  "au_target (audit_lit typ act sub tgt dec rsn meta) = tgt"
  "au_decision (audit_lit typ act sub tgt dec rsn meta) = dec"
  "au_reason (audit_lit typ act sub tgt dec rsn meta) = rsn"
  "au_metadata (audit_lit typ act sub tgt dec rsn meta) = meta"
  by (simp_all add: audit_lit_def)

lemma AssuranceLevel_range:
  "AssuranceLevel a \<in> {''none'', ''software'', ''hardware''}"
  by (simp add: AssuranceLevel_def split: option.split)

end
