(* ===== verification/Delegation.thy ===== *)
theory Delegation
  imports Core_Types
begin

text \<open>
  \<open>src/pkg/exchange/delegation.go\<close>: the delegation context read from a verified actor
  token, the chain rules (depth, capabilities, blast radius) and the on-behalf-of chain.
  The properties say what one hop enforces and what a whole chain of hops keeps.
\<close>

section \<open>Model\<close>

datatype delegation_error =
    ActorMissingSubject
  | DepthExhausted
  | CapabilityNotInParent string "string list"
  | BlastRadiusExceeds string string

record delegation_context =
  dc_parent_subject :: string
  dc_depth :: int
  dc_caps :: "string list"
  dc_blast_radius :: string
  dc_obo_chain :: "json list"

definition parseDelegationContext :: "claims \<Rightarrow> delegation_error + delegation_context" where
  "parseDelegationContext actor =
     (case get_str actor ''sub'' of
        None \<Rightarrow> Inl ActorMissingSubject
      | Some sub \<Rightarrow>
          if sub = '''' then Inl ActorMissingSubject
          else Inr
            \<lparr>dc_parent_subject = sub,
             dc_depth =
               (case get_num actor ''delegation_depth'' of
                  None \<Rightarrow> -1 | Some depth \<Rightarrow> float_to_int depth),
             dc_caps =
               (case get_arr actor ''caps'' of None \<Rightarrow> [] | Some caps \<Rightarrow> strings_of caps),
             dc_blast_radius =
               (case get_str actor ''blast_radius'' of None \<Rightarrow> '''' | Some br \<Rightarrow> br),
             dc_obo_chain =
               (case get_arr actor ''obo'' of None \<Rightarrow> [] | Some obo \<Rightarrow> obo)\<rparr>)"

text \<open>The hierarchy from narrowest to broadest; \<open>workspace\<close> is an alias of \<open>cluster\<close>.\<close>

definition blastRadiusLevels :: "(string, int) gomap" where
  "blastRadiusLevels =
     [(''function'', 0), (''service'', 1), (''namespace'', 2), (''cluster'', 3),
      (''workspace'', 3), (''trust_domain'', 4), (''fabric'', 5)]"

definition parseBlastRadiusLevel :: "string \<Rightarrow> int option" where
  "parseBlastRadiusLevel br =
     (case cut_before CHR '':'' br of
        Some pre \<Rightarrow> map_of blastRadiusLevels pre
      | None \<Rightarrow> map_of blastRadiusLevels br)"

definition isBlastRadiusNarrowerOrEqual :: "string \<Rightarrow> string \<Rightarrow> bool" where
  "isBlastRadiusNarrowerOrEqual child parent =
     (case (parseBlastRadiusLevel child, parseBlastRadiusLevel parent) of
        (Some childLevel, Some parentLevel) \<Rightarrow> childLevel \<le> parentLevel
      | _ \<Rightarrow> child = parent)"

text \<open>The loop of rule 2: the first requested capability that the parent lacks.\<close>

fun first_missing_cap :: "string list \<Rightarrow> string list \<Rightarrow> string option" where
  "first_missing_cap parentSet [] = None"
| "first_missing_cap parentSet (c # cs) =
     (if c \<notin> set parentSet then Some c else first_missing_cap parentSet cs)"

definition validateDelegation ::
  "delegation_context \<Rightarrow> string list \<Rightarrow> string \<Rightarrow> delegation_error option" where
  "validateDelegation dc requestedCaps requestedBlastRadius =
     (if dc_depth dc = 0 then Some DepthExhausted
      else
        case (if 0 < length (dc_caps dc) \<and> 0 < length requestedCaps
              then first_missing_cap (dc_caps dc) requestedCaps else None) of
          Some c \<Rightarrow> Some (CapabilityNotInParent c (dc_caps dc))
        | None \<Rightarrow>
            if dc_blast_radius dc \<noteq> '''' \<and> requestedBlastRadius \<noteq> ''''
               \<and> \<not> isBlastRadiusNarrowerOrEqual requestedBlastRadius (dc_blast_radius dc)
            then Some (BlastRadiusExceeds requestedBlastRadius (dc_blast_radius dc))
            else None)"

definition buildOBOChain :: "delegation_context \<Rightarrow> json list" where
  "buildOBOChain dc = dc_obo_chain dc @ [JStr (dc_parent_subject dc)]"

section \<open>Blast radius levels\<close>

lemma level_bounds: "parseBlastRadiusLevel br = Some l \<Longrightarrow> 0 \<le> l \<and> l \<le> 5"
  by (auto simp: parseBlastRadiusLevel_def blastRadiusLevels_def
      split: option.splits if_splits)

lemma parseBlastRadiusLevel_qualified:
  "CHR '':'' \<notin> set pre \<Longrightarrow> parseBlastRadiusLevel (pre @ CHR '':'' # q) = map_of blastRadiusLevels pre"
  by (simp add: parseBlastRadiusLevel_def cut_before_append)

text \<open>
  \<open>isBlastRadiusNarrowerOrEqual\<close> is a preorder: the order of a chain of delegations.
\<close>

locale narrowing =
  fixes narrower :: "'a \<Rightarrow> 'a \<Rightarrow> bool"
  assumes narrower_refl: "narrower x x"
    and narrower_trans: "narrower x y \<Longrightarrow> narrower y z \<Longrightarrow> narrower x z"
begin

text \<open>A chain of grants in which each is narrower than the one before it.\<close>

fun descending :: "'a list \<Rightarrow> bool" where
  "descending [] = True"
| "descending [x] = True"
| "descending (x # y # zs) = (narrower y x \<and> descending (y # zs))"

lemma descending_hd: "descending (x # ys) \<Longrightarrow> y \<in> set ys \<Longrightarrow> narrower y x"
proof (induction ys arbitrary: x)
  case Nil
  then show ?case by simp
next
  case (Cons z zs)
  then show ?case by (auto intro: narrower_trans)
qed

lemma descending_snoc:
  "descending (xs @ [y]) \<longleftrightarrow> descending xs \<and> (xs = [] \<or> narrower y (last xs))"
  by (induction xs rule: descending.induct) auto

lemma descending_last: "descending (x # ys) \<Longrightarrow> narrower (last (x # ys)) x"
proof (cases ys rule: rev_cases)
  case Nil
  then show ?thesis by (simp add: narrower_refl)
next
  case (snoc zs z)
  assume "descending (x # ys)"
  then have "narrower z x" by (rule descending_hd) (simp add: snoc)
  then show ?thesis by (simp add: snoc)
qed

text \<open>A chain written with its latest grant first.\<close>

lemma descending_rev: "descending (rev xs) \<Longrightarrow> xs \<noteq> [] \<Longrightarrow> narrower (hd xs) (last xs)"
proof (cases xs rule: rev_cases)
  case (snoc ys y)
  assume "descending (rev xs)"
  then have "narrower (last (y # rev ys)) y" using snoc by (intro descending_last) simp
  then show ?thesis using snoc by (cases ys) (auto simp: last_rev)
qed simp

end

lemma narrower_refl_br: "isBlastRadiusNarrowerOrEqual x x"
  by (simp add: isBlastRadiusNarrowerOrEqual_def split: option.split)

lemma narrower_trans_br:
  "isBlastRadiusNarrowerOrEqual x y \<Longrightarrow> isBlastRadiusNarrowerOrEqual y z \<Longrightarrow>
   isBlastRadiusNarrowerOrEqual x z"
  by (auto simp: isBlastRadiusNarrowerOrEqual_def split: option.splits)

interpretation blast: narrowing isBlastRadiusNarrowerOrEqual
  by unfold_locales (rule narrower_refl_br, rule narrower_trans_br)

interpretation caps: narrowing "\<lambda>child parent. set child \<subseteq> set parent"
  by unfold_locales auto

section \<open>One hop\<close>

lemma first_missing_cap_None: "first_missing_cap ps cs = None \<longleftrightarrow> set cs \<subseteq> set ps"
  by (induction cs) auto

lemma first_missing_cap_Some: "first_missing_cap ps cs = Some c \<Longrightarrow> c \<in> set cs - set ps"
  by (induction cs) (auto split: if_splits)

lemma validateDelegation_None_iff:
  "validateDelegation dc rc br = None \<longleftrightarrow>
     dc_depth dc \<noteq> 0
     \<and> (dc_caps dc = [] \<or> rc = [] \<or> set rc \<subseteq> set (dc_caps dc))
     \<and> (dc_blast_radius dc = '''' \<or> br = '''' \<or>
        isBlastRadiusNarrowerOrEqual br (dc_blast_radius dc))"
  by (auto simp: validateDelegation_def first_missing_cap_None split: option.splits)
    (auto dest: first_missing_cap_Some)

lemma parseDelegationContext_depth_bounds:
  "parseDelegationContext actor = Inr dc \<Longrightarrow> - (2 ^ 63) \<le> dc_depth dc \<and> dc_depth dc < 2 ^ 63"
  using float_to_int_bounds
  by (auto simp: parseDelegationContext_def split: option.splits if_splits)

lemma parseDelegationContext_subject:
  "parseDelegationContext actor = Inr dc \<Longrightarrow>
   get_str actor ''sub'' = Some (dc_parent_subject dc) \<and> dc_parent_subject dc \<noteq> ''''"
  by (auto simp: parseDelegationContext_def split: option.splits if_splits)

text \<open>
  What a delegated token may carry, relative to the token it was delegated from: the depth
  goes down, the chain grows by the parent, capabilities and blast radius do not grow where
  both tokens carry them.
\<close>

definition narrows :: "delegation_context \<Rightarrow> delegation_context \<Rightarrow> bool" where
  "narrows p c \<longleftrightarrow>
     dc_depth p \<noteq> 0 \<and> dc_depth c = (if dc_depth p < 0 then -1 else dc_depth p - 1)
     \<and> dc_obo_chain c = buildOBOChain p
     \<and> (dc_caps p = [] \<or> dc_caps c = [] \<or> set (dc_caps c) \<subseteq> set (dc_caps p))
     \<and> (dc_blast_radius p = '''' \<or> dc_blast_radius c = '''' \<or>
        isBlastRadiusNarrowerOrEqual (dc_blast_radius c) (dc_blast_radius p))"

end
