(* ===== verification/Execution_Scope.thy ===== *)
theory Execution_Scope
  imports Core_Types
begin

text \<open>
  \<open>src/pkg/exchange/execution.go\<close>: execution-scoped tokens. The nonce tracker with its
  opportunistic clean-up, the well-formedness check of a requested scope, and the check a
  resource server makes of a token against the action at hand.

  The interface \<open>replay_guard\<close> states what a replay cache promises; the nonce tracker is an
  instance, and the replay property of whole runs is proved once, in the locale.
\<close>

section \<open>Model\<close>

definition ExecutionScopeTTL :: duration where
  "ExecutionScopeTTL = 30 * go_second"

definition nonceHighWaterMark :: nat where
  "nonceHighWaterMark = 10000"

definition cleanupInterval :: nat where
  "cleanupInterval = 100"

datatype execution_error =
    MethodRequired
  | UriRequired
  | NonceRequired
  | NonceReplay string
  | MissingHtm
  | HtmMismatch string string
  | MissingHtu
  | HtuMismatch string string
  | MissingInpHash
  | InpHashMismatch

record nonce_tracker =
  nt_seen :: "(string, go_time) gomap"
  nt_max_age :: duration
  nt_ops :: "64 word"

definition newNonceTracker :: nonce_tracker where
  "newNonceTracker = \<lparr>nt_seen = [], nt_max_age = ExecutionScopeTTL * 2, nt_ops = 0\<rparr>"

definition nonce_cleanupLocked :: "go_time \<Rightarrow> nonce_tracker \<Rightarrow> nonce_tracker" where
  "nonce_cleanupLocked now n =
     n\<lparr>nt_seen := filter (\<lambda>(k, ts). \<not> time_sub now ts > nt_max_age n) (nt_seen n)\<rparr>"

definition nonce_check ::
  "go_time \<Rightarrow> string \<Rightarrow> nonce_tracker \<Rightarrow> execution_error option \<times> nonce_tracker" where
  "nonce_check now nonce n =
     (let n1 = n\<lparr>nt_ops := nt_ops n + 1\<rparr>;
          n2 = (if nonceHighWaterMark \<le> length (nt_seen n1)
                   \<or> unat (nt_ops n1) mod cleanupInterval = 0
                then nonce_cleanupLocked now n1 else n1)
      in case map_of (nt_seen n2) nonce of
           Some _ \<Rightarrow> (Some (NonceReplay nonce), n2)
         | None \<Rightarrow> (None, n2\<lparr>nt_seen := AList.update nonce now (nt_seen n2)\<rparr>))"

definition nonce_size :: "nonce_tracker \<Rightarrow> nat" where
  "nonce_size n = length (nt_seen n)"

definition validateExecutionScope :: "execution_scope \<Rightarrow> execution_error option" where
  "validateExecutionScope scope =
     (if xs_method scope = '''' then Some MethodRequired
      else if xs_uri scope = '''' then Some UriRequired
      else if xs_nonce scope = '''' then Some NonceRequired
      else None)"

definition VerifyExecutionScope :: "claims \<Rightarrow> execution_scope \<Rightarrow> execution_error option" where
  "VerifyExecutionScope token scope =
     (case get_str token ''htm'' of
        None \<Rightarrow> Some MissingHtm
      | Some htm \<Rightarrow>
          if htm \<noteq> xs_method scope then Some (HtmMismatch htm (xs_method scope))
          else
            case get_str token ''htu'' of
              None \<Rightarrow> Some MissingHtu
            | Some htu \<Rightarrow>
                if htu \<noteq> xs_uri scope then Some (HtuMismatch htu (xs_uri scope))
                else
                  let wantHash = (if xs_input_hash scope = '''' then xs_payload_hash scope
                                  else xs_input_hash scope)
                  in if wantHash = '''' then None
                     else
                       case (case get_str token ''inp_hash'' of
                               Some h \<Rightarrow> Some h
                             | None \<Rightarrow> get_str token ''payload_hash'') of
                         None \<Rightarrow> Some MissingInpHash
                       | Some tokenHash \<Rightarrow>
                           if tokenHash \<noteq> wantHash then Some InpHashMismatch else None)"

section \<open>Replay guards\<close>

text \<open>
  A replay guard remembers the instant at which it accepted a nonce that it tracks, and
  while that instant is within the window it rejects the nonce and keeps the record.
\<close>

locale replay_guard =
  fixes check :: "go_time \<Rightarrow> 'n \<Rightarrow> 's \<Rightarrow> 'e option \<times> 's"
    and recorded :: "'s \<Rightarrow> 'n \<Rightarrow> go_time option"
    and window :: "'s \<Rightarrow> duration"
    and tracked :: "'n \<Rightarrow> bool"
    and invar :: "'s \<Rightarrow> bool"
  assumes check_invar: "invar s \<Longrightarrow> invar (snd (check t n s))"
    and check_window: "window (snd (check t n s)) = window s"
    and accept_records:
      "invar s \<Longrightarrow> tracked n \<Longrightarrow> fst (check t n s) = None \<Longrightarrow>
       recorded (snd (check t n s)) n = Some t"
    and within_rejects:
      "invar s \<Longrightarrow> tracked n \<Longrightarrow> recorded s n = Some t0 \<Longrightarrow> t - t0 \<le> window s \<Longrightarrow>
       fst (check t n s) \<noteq> None"
    and within_keeps:
      "invar s \<Longrightarrow> recorded s n = Some t0 \<Longrightarrow> t - t0 \<le> window s \<Longrightarrow>
       recorded (snd (check t m s)) n = Some t0"
begin

text \<open>The checks that are accepted when a guard serves a sequence of checks.\<close>

fun accepted :: "'s \<Rightarrow> (go_time \<times> 'n) list \<Rightarrow> (go_time \<times> 'n) list" where
  "accepted s [] = []"
| "accepted s ((t, n) # es) =
     (if fst (check t n s) = None then [(t, n)] else []) @ accepted (snd (check t n s)) es"

lemma accepted_subset: "set (accepted s es) \<subseteq> set es"
  by (induction s es rule: accepted.induct) auto

lemma recorded_blocks:
  "invar s \<Longrightarrow> tracked n \<Longrightarrow> recorded s n = Some t0 \<Longrightarrow> sorted (map fst es) \<Longrightarrow>
   (t, n) \<in> set (accepted s es) \<Longrightarrow> window s < t - t0"
proof (induction s es arbitrary: t rule: accepted.induct)
  case (1 s)
  then show ?case by simp
next
  case (2 s t1 m es)
  show ?case
  proof (cases "t1 - t0 \<le> window s")
    case True
    with 2 have "(t, n) \<in> set (accepted (snd (check t1 m s)) es)"
      using within_rejects [of s n t0 t1] by (auto split: if_splits)
    with 2 True show ?thesis
      using check_invar within_keeps check_window by fastforce
  next
    case False
    from 2 have "(t, n) \<in> set ((t1, m) # es)" using accepted_subset by blast
    with 2 have "t1 \<le> t" by auto
    with False show ?thesis by simp
  qed
qed

lemma accepted_no_replay:
  "invar s \<Longrightarrow> sorted (map fst es) \<Longrightarrow>
   sorted_wrt (\<lambda>a b. tracked (snd a) \<and> snd a = snd b \<longrightarrow> window s < fst b - fst a)
     (accepted s es)"
proof (induction s es rule: accepted.induct)
  case (1 s)
  then show ?case by simp
next
  case (2 s t1 m es)
  let ?s' = "snd (check t1 m s)"
  from 2 have tail:
    "sorted_wrt (\<lambda>a b. tracked (snd a) \<and> snd a = snd b \<longrightarrow> window s < fst b - fst a)
      (accepted ?s' es)"
    using check_invar check_window by auto
  have "window s < fst b - t1"
    if "fst (check t1 m s) = None" and "b \<in> set (accepted ?s' es)" and "snd b = m"
      and "tracked m" for b
  proof -
    have "window ?s' < fst b - t1"
    proof (rule recorded_blocks)
      show "invar ?s'" using 2(2) by (rule check_invar)
      show "tracked m" by (rule that(4))
      show "recorded ?s' m = Some t1" using 2(2) that(4,1) by (rule accept_records)
      show "sorted (map fst es)" using 2(3) by simp
      show "(fst b, m) \<in> set (accepted ?s' es)" using that(2,3) by auto
    qed
    then show ?thesis by (simp add: check_window)
  qed
  with tail show ?case by auto
qed

end

section \<open>The nonce tracker is a replay guard\<close>

definition nonce_invar :: "nonce_tracker \<Rightarrow> bool" where
  "nonce_invar n \<longleftrightarrow>
     gomap_wf (nt_seen n) \<and> 0 \<le> nt_max_age n \<and> nt_max_age n < max_duration"

lemma nonce_invar_new: "nonce_invar newNonceTracker"
  by (simp add: nonce_invar_def newNonceTracker_def ExecutionScopeTTL_def go_second_def
      max_duration_def)

lemma nonce_seen_cleanup:
  assumes "nonce_invar n"
  shows "map_of (nt_seen (nonce_cleanupLocked now n)) k =
    (case map_of (nt_seen n) k of
       None \<Rightarrow> None | Some ts \<Rightarrow> if now - ts \<le> nt_max_age n then Some ts else None)"
proof -
  have "(\<not> time_sub now ts > nt_max_age n) = (now - ts \<le> nt_max_age n)" for ts
    using assms time_sub_gt_iff [of "nt_max_age n" now ts]
    by (auto simp: nonce_invar_def min_duration_def)
  then show ?thesis
    using assms map_of_filter [of "nt_seen n" "\<lambda>k ts. \<not> time_sub now ts > nt_max_age n" k]
    by (simp add: nonce_cleanupLocked_def nonce_invar_def split: option.split)
qed

lemma nonce_cleanup_invar: "nonce_invar n \<Longrightarrow> nonce_invar (nonce_cleanupLocked now n)"
  by (simp add: nonce_invar_def nonce_cleanupLocked_def)

text \<open>The tracker after the opportunistic clean-up of a check.\<close>

definition nonce_swept :: "go_time \<Rightarrow> nonce_tracker \<Rightarrow> nonce_tracker" where
  "nonce_swept now n =
     (let n1 = n\<lparr>nt_ops := nt_ops n + 1\<rparr>
      in if nonceHighWaterMark \<le> length (nt_seen n1) \<or> unat (nt_ops n1) mod cleanupInterval = 0
         then nonce_cleanupLocked now n1 else n1)"

lemma nonce_check_swept:
  "nonce_check now nonce n =
     (case map_of (nt_seen (nonce_swept now n)) nonce of
        Some _ \<Rightarrow> (Some (NonceReplay nonce), nonce_swept now n)
      | None \<Rightarrow> (None, (nonce_swept now n)
                   \<lparr>nt_seen := AList.update nonce now (nt_seen (nonce_swept now n))\<rparr>))"
  unfolding nonce_check_def nonce_swept_def Let_def ..

lemma nonce_swept_invar: "nonce_invar n \<Longrightarrow> nonce_invar (nonce_swept now n)"
  by (auto simp: nonce_swept_def Let_def intro!: nonce_cleanup_invar)
    (auto simp: nonce_invar_def)

lemma nonce_swept_max_age [simp]: "nt_max_age (nonce_swept now n) = nt_max_age n"
  by (simp add: nonce_swept_def nonce_cleanupLocked_def Let_def)

lemma nonce_swept_keeps:
  "nonce_invar n \<Longrightarrow> map_of (nt_seen n) k = Some t0 \<Longrightarrow> now - t0 \<le> nt_max_age n \<Longrightarrow>
   map_of (nt_seen (nonce_swept now n)) k = Some t0"
  using nonce_seen_cleanup [of "n\<lparr>nt_ops := nt_ops n + 1\<rparr>" now k]
  by (auto simp: nonce_swept_def Let_def nonce_invar_def)

lemma nonce_swept_subset:
  "nonce_invar n \<Longrightarrow> map_of (nt_seen n) k = None \<Longrightarrow>
   map_of (nt_seen (nonce_swept now n)) k = None"
  using nonce_seen_cleanup [of "n\<lparr>nt_ops := nt_ops n + 1\<rparr>" now k]
  by (auto simp: nonce_swept_def Let_def nonce_invar_def)

lemma nonce_check_invar: "nonce_invar n \<Longrightarrow> nonce_invar (snd (nonce_check now nonce n))"
  using nonce_swept_invar [of n now]
  by (auto simp: nonce_check_swept nonce_invar_def split: option.split)

interpretation nonces: replay_guard
  nonce_check "\<lambda>n. map_of (nt_seen n)" nt_max_age "\<lambda>n. True" nonce_invar
proof unfold_locales
  fix s t n
  show "nonce_invar s \<Longrightarrow> nonce_invar (snd (nonce_check t n s))"
    by (rule nonce_check_invar)
  show "nt_max_age (snd (nonce_check t n s)) = nt_max_age s"
    by (simp add: nonce_check_swept split: option.split)
  show "map_of (nt_seen (snd (nonce_check t n s))) n = Some t"
    if "nonce_invar s" and "fst (nonce_check t n s) = None"
    using that by (auto simp: nonce_check_swept gomap_simps split: option.splits)
next
  fix s n t0 t
  assume "nonce_invar s" and "map_of (nt_seen s) n = Some t0" and "t - t0 \<le> nt_max_age s"
  then have kept: "map_of (nt_seen (nonce_swept t s)) n = Some t0"
    by (rule nonce_swept_keeps)
  then show "fst (nonce_check t n s) \<noteq> None"
    by (simp add: nonce_check_swept)
  show "map_of (nt_seen (snd (nonce_check t m s))) n = Some t0" for m
    using kept by (auto simp: nonce_check_swept gomap_simps split: option.splits)
qed

section \<open>Guarantees\<close>

text \<open>
  The nonce tracker accepts a nonce that it has not recorded, at any fill level, and
  refuses one that it accepted within its window, in between any number of other checks.
\<close>

theorem nonce_tracker_fresh_and_replay:
  assumes "nonce_invar n" and "sorted (map fst es)"
  shows "(map_of (nt_seen n) k = None \<longrightarrow> fst (nonce_check t k n) = None)
    \<and> (\<forall>t0. map_of (nt_seen n) k = Some t0 \<longrightarrow> t - t0 \<le> nt_max_age n \<longrightarrow>
         fst (nonce_check t k n) = Some (NonceReplay k))
    \<and> sorted_wrt (\<lambda>a b. snd a = snd b \<longrightarrow> nt_max_age n < fst b - fst a) (nonces.accepted n es)"
proof (intro conjI allI impI)
  show "fst (nonce_check t k n) = None" if "map_of (nt_seen n) k = None"
    using nonce_swept_subset [OF assms(1) that, of t] by (simp add: nonce_check_swept)
  show "fst (nonce_check t k n) = Some (NonceReplay k)"
    if "map_of (nt_seen n) k = Some t0" "t - t0 \<le> nt_max_age n" for t0
    using nonce_swept_keeps [OF assms(1) that] by (simp add: nonce_check_swept)
  show "sorted_wrt (\<lambda>a b. snd a = snd b \<longrightarrow> nt_max_age n < fst b - fst a) (nonces.accepted n es)"
    using nonces.accepted_no_replay [OF assms] by simp
qed

theorem nonce_tracker_fresh_and_replay_witness:
  "fst (nonce_check 20 ''a'' (snd (nonce_check 10 ''a'' newNonceTracker))) = Some (NonceReplay ''a'')"
proof -
  have "map_of (nt_seen (snd (nonce_check 10 ''a'' newNonceTracker))) ''a'' = Some 10"
    "20 - 10 \<le> nt_max_age (snd (nonce_check 10 ''a'' newNonceTracker))"
    by code_simp+
  then show ?thesis
    using nonce_tracker_fresh_and_replay [OF nonce_check_invar [OF nonce_invar_new], of "[]"] by simp
qed

end
