(* ===== verification/Attestation.thy ===== *)
theory Attestation
  imports Core_Types
begin

text \<open>
  \<open>src/pkg/exchange/attestation.go\<close>: the \<open>X-Starfly-Attestation\<close> header. \<open>json.Unmarshal\<close>
  into the header's struct is the parameter \<open>decode\<close>; \<open>time.Since\<close> and \<open>time.Now\<close> are
  two readings of the clock, in the order the code takes them.
\<close>

definition DefaultAttestationFreshnessWindow :: duration where
  "DefaultAttestationFreshnessWindow = 5 * go_minute"

datatype attestation_error =
    AttestationMalformed
  | MissingPlatformSource
  | MissingPlatformCredType
  | MissingAgentVersion
  | MissingTimestamp
  | StaleTimestamp
  | FutureTimestamp

definition ParseAttestationHeader ::
  "(string \<Rightarrow> server_attestation option) \<Rightarrow> string
   \<Rightarrow> attestation_error + server_attestation option" where
  "ParseAttestationHeader decode header =
     (if header = '''' then Inr None
      else case decode header of
             None \<Rightarrow> Inl AttestationMalformed
           | Some att \<Rightarrow>
               if ap_source (att_platform att) = '''' then Inl MissingPlatformSource
               else Inr (Some att))"

definition ValidateAttestation ::
  "go_time \<Rightarrow> go_time \<Rightarrow> server_attestation option \<Rightarrow> duration
   \<Rightarrow> attestation_error option" where
  "ValidateAttestation now1 now2 a freshnessWindow =
     (case a of
        None \<Rightarrow> None
      | Some att \<Rightarrow>
          let window = (if freshnessWindow = 0 then DefaultAttestationFreshnessWindow
                        else freshnessWindow)
          in if ap_source (att_platform att) = '''' then Some MissingPlatformSource
             else if ap_cred_type (att_platform att) = '''' then Some MissingPlatformCredType
             else if att_agent_version att = '''' then Some MissingAgentVersion
             else if time_is_zero (att_timestamp att) then Some MissingTimestamp
             else if time_sub now1 (att_timestamp att) > window then Some StaleTimestamp
             else if time_after (att_timestamp att) (time_add now2 (30 * go_second))
               then Some FutureTimestamp
             else None)"

lemma fresh_window_bounds:
  "min_duration \<le> DefaultAttestationFreshnessWindow"
  "DefaultAttestationFreshnessWindow < max_duration"
  by (simp_all add: DefaultAttestationFreshnessWindow_def go_minute_def go_second_def
      min_duration_def max_duration_def)

text \<open>
  What an accepted header guarantees: the required fields are present and the timestamp
  lies in the freshness window, up to the tolerated clock skew.
\<close>

lemma ValidateAttestation_default_iff:
  "ValidateAttestation now1 now2 (Some att) 0 = None \<longleftrightarrow>
     ap_source (att_platform att) \<noteq> '''' \<and> ap_cred_type (att_platform att) \<noteq> ''''
     \<and> att_agent_version att \<noteq> '''' \<and> att_timestamp att \<noteq> 0
     \<and> now1 - DefaultAttestationFreshnessWindow \<le> att_timestamp att
     \<and> att_timestamp att \<le> now2 + 30 * go_second"
  using time_sub_gt_iff [OF fresh_window_bounds, of now1 "att_timestamp att"]
  by (auto simp: ValidateAttestation_def Let_def time_is_zero_def time_after_def time_add_def)

lemma ParseAttestationHeader_source:
  "ParseAttestationHeader decode header = Inr (Some att) \<Longrightarrow> ap_source (att_platform att) \<noteq> ''''"
  by (auto simp: ParseAttestationHeader_def split: if_splits option.splits)

text \<open>
  An attestation header is accepted exactly when it names its platform, credential type
  and agent version and carries a timestamp at most five minutes old and at most thirty
  seconds in the future.
\<close>

theorem attestation_accepted_iff:
  "ValidateAttestation now now (Some att) 0 = None \<longleftrightarrow>
     ap_source (att_platform att) \<noteq> '''' \<and> ap_cred_type (att_platform att) \<noteq> ''''
     \<and> att_agent_version att \<noteq> '''' \<and> att_timestamp att \<noteq> 0
     \<and> att_timestamp att \<in> {now - 5 * go_minute .. now + 30 * go_second}"
  by (auto simp: ValidateAttestation_default_iff DefaultAttestationFreshnessWindow_def)

end
