(* ===== verification/Dpop.thy ===== *)
theory Dpop
  imports Core_Types
begin

text \<open>
  DPoP proofs (RFC 9449): \<open>src/pkg/exchange/dpop.go\<close>, which the exchange engine uses to
  bind a token to a key, and \<open>src/pkg/mcp/dpop.go\<close>, which the tool-call middleware uses to
  check that binding. The JOSE library is the parameter \<open>jose\<close>: parsing, header access,
  signature verification and key export are its functions, with no assumption made on
  them; \<open>encoding/json\<close> on a map and SHA-256 with base64url are parameters too.
\<close>

section \<open>The JOSE library\<close>

record ('key, 'alg) jws_header =
  jh_typ :: "string option"
  jh_jwk :: "'key option"
  jh_alg :: "'alg option"

record proof_token =
  pt_iat :: "go_time option"
  pt_jti :: "string option"

record ('key, 'alg, 'raw) jose =
  jo_jws_parse :: "string \<Rightarrow> ('key, 'alg) jws_header list option"
  jo_export :: "'key \<Rightarrow> 'raw option option"
  jo_verify :: "string \<Rightarrow> 'alg \<Rightarrow> 'key \<Rightarrow> proof_token option"
  jo_key_members :: "'key \<Rightarrow> (string, json) gomap option"
  jo_key_type :: "'key \<Rightarrow> string"
  jo_marshal :: "(string, json) gomap \<Rightarrow> string option"
  jo_sha256_b64url :: "string \<Rightarrow> string"

text \<open>
  \<open>jo_export k = None\<close> is an error of \<open>jwk.Export\<close>; \<open>Some None\<close> is a nil interface value.
  \<open>jo_key_members\<close> is the key marshalled to JSON and read back as a map.
\<close>

datatype dpop_error =
    JwsParse
  | NoSignatures
  | BadTyp
  | MissingJwk
  | JwkExport
  | JwkNotPublic
  | MissingAlg
  | BadSignature
  | MissingIat
  | ProofTooOld
  | MissingJti
  | ThumbprintUnsupportedKeyType
  | ThumbprintMissingMember string
  | ThumbprintMarshal
  | ProofRequired
  | ThumbprintMismatch string string

section \<open>JWK thumbprints\<close>

fun collect_members ::
  "(string, json) gomap \<Rightarrow> string list \<Rightarrow> (string, json) gomap
   \<Rightarrow> dpop_error + (string, json) gomap" where
  "collect_members keyMap [] canonical = Inr canonical"
| "collect_members keyMap (m # ms) canonical =
     (case map_of keyMap m of
        None \<Rightarrow> Inl (ThumbprintMissingMember m)
      | Some v \<Rightarrow> collect_members keyMap ms (AList.update m v canonical))"

definition required_members :: "string \<Rightarrow> string list option" where
  "required_members kty =
     (if kty = ''RSA'' then Some [''e'', ''kty'', ''n'']
      else if kty = ''EC'' then Some [''crv'', ''kty'', ''x'', ''y'']
      else if kty = ''OKP'' then Some [''crv'', ''kty'', ''x'']
      else None)"

definition computeJWKThumbprint ::
  "('key, 'alg, 'raw) jose \<Rightarrow> 'key \<Rightarrow> dpop_error + string" where
  "computeJWKThumbprint J key =
     (case jo_key_members J key of
        None \<Rightarrow> Inl ThumbprintMarshal
      | Some keyMap \<Rightarrow>
          case required_members (jo_key_type J key) of
            None \<Rightarrow> Inl ThumbprintUnsupportedKeyType
          | Some required \<Rightarrow>
              case collect_members keyMap (sort required) [] of
                Inl e \<Rightarrow> Inl e
              | Inr canonical \<Rightarrow>
                  case jo_marshal J canonical of
                    None \<Rightarrow> Inl ThumbprintMarshal
                  | Some canonicalJSON \<Rightarrow> Inr (jo_sha256_b64url J canonicalJSON))"

text \<open>
  RFC 7638: the thumbprint of a key depends only on its type and its required members.
\<close>

lemma collect_members_cong:
  "(\<And>m. m \<in> set ms \<Longrightarrow> map_of k1 m = map_of k2 m) \<Longrightarrow>
   collect_members k1 ms c = collect_members k2 ms c"
proof (induction ms arbitrary: c)
  case Nil
  then show ?case by simp
next
  case (Cons m ms)
  then have head: "map_of k1 m = map_of k2 m" by simp
  have tail: "collect_members k1 ms c' = collect_members k2 ms c'" for c'
    by (rule Cons.IH) (simp add: Cons.prems)
  show ?case by (simp add: head tail split: option.split)
qed

lemma thumbprint_required_members_only:
  assumes "jo_key_type J k1 = jo_key_type J k2"
    and "jo_key_members J k1 = Some m1" and "jo_key_members J k2 = Some m2"
    and "required_members (jo_key_type J k1) = Some rs"
    and "\<And>m. m \<in> set rs \<Longrightarrow> map_of m1 m = map_of m2 m"
  shows "computeJWKThumbprint J k1 = computeJWKThumbprint J k2"
proof -
  have "collect_members m1 (sort rs) [] = collect_members m2 (sort rs) []"
    by (rule collect_members_cong) (simp add: assms(5))
  with assms(1-4) show ?thesis by (simp add: computeJWKThumbprint_def)
qed

section \<open>The engine's check\<close>

definition DPoPMaxAge :: duration where
  "DPoPMaxAge = 5 * go_minute"

text \<open>
  \<open>rawKey.(crypto.PublicKey)\<close> is a type assertion to the empty interface (that is what
  \<open>crypto.PublicKey\<close> is), so it fails only on a nil value.
\<close>

definition validateDPoP ::
  "('key, 'alg, 'raw) jose \<Rightarrow> go_time \<Rightarrow> string \<Rightarrow> dpop_error + string" where
  "validateDPoP J now prf =
     (case jo_jws_parse J prf of
        None \<Rightarrow> Inl JwsParse
      | Some [] \<Rightarrow> Inl NoSignatures
      | Some (headers # _) \<Rightarrow>
          if jh_typ headers \<noteq> Some ''dpop+jwt'' then Inl BadTyp
          else case jh_jwk headers of
            None \<Rightarrow> Inl MissingJwk
          | Some jwkKey \<Rightarrow>
              case jo_export J jwkKey of
                None \<Rightarrow> Inl JwkExport
              | Some None \<Rightarrow> Inl JwkNotPublic
              | Some (Some _) \<Rightarrow>
                  case jh_alg headers of
                    None \<Rightarrow> Inl MissingAlg
                  | Some alg \<Rightarrow>
                      case jo_verify J prf alg jwkKey of
                        None \<Rightarrow> Inl BadSignature
                      | Some token \<Rightarrow>
                          case pt_iat token of
                            None \<Rightarrow> Inl MissingIat
                          | Some iat \<Rightarrow>
                              if time_sub now iat > DPoPMaxAge then Inl ProofTooOld
                              else if pt_jti token = None \<or> pt_jti token = Some ''''
                                then Inl MissingJti
                              else computeJWKThumbprint J jwkKey)"

section \<open>The tool-call check\<close>

definition mcp_dpopMaxAge :: duration where
  "mcp_dpopMaxAge = 5 * go_minute"

definition mcp_computeJWKThumbprint ::
  "('key, 'alg, 'raw) jose \<Rightarrow> 'key \<Rightarrow> dpop_error + string" where
  "mcp_computeJWKThumbprint J key =
     (case jo_key_members J key of
        None \<Rightarrow> Inl ThumbprintMarshal
      | Some keyMap \<Rightarrow>
          let kty = jo_key_type J key;
              required = (if kty = ''RSA'' then Some [''e'', ''kty'', ''n'']
                          else if kty = ''EC'' then Some [''crv'', ''kty'', ''x'', ''y'']
                          else if kty = ''OKP'' then Some [''crv'', ''kty'', ''x'']
                          else None)
          in case required of
               None \<Rightarrow> Inl ThumbprintUnsupportedKeyType
             | Some rs \<Rightarrow>
                 case collect_members keyMap (sort rs) [] of
                   Inl e \<Rightarrow> Inl e
                 | Inr canonical \<Rightarrow>
                     case jo_marshal J canonical of
                       None \<Rightarrow> Inl ThumbprintMarshal
                     | Some canonicalJSON \<Rightarrow> Inr (jo_sha256_b64url J canonicalJSON))"

definition validateDPoPProof ::
  "('key, 'alg, 'raw) jose \<Rightarrow> go_time \<Rightarrow> string \<Rightarrow> dpop_error + string" where
  "validateDPoPProof J now prf =
     (case jo_jws_parse J prf of
        None \<Rightarrow> Inl JwsParse
      | Some sigs \<Rightarrow>
          case sigs of
            [] \<Rightarrow> Inl NoSignatures
          | headers # _ \<Rightarrow>
              if jh_typ headers = None \<or> the (jh_typ headers) \<noteq> ''dpop+jwt'' then Inl BadTyp
              else case jh_jwk headers of
                None \<Rightarrow> Inl MissingJwk
              | Some jwkKey \<Rightarrow>
                  case jo_export J jwkKey of
                    None \<Rightarrow> Inl JwkExport
                  | Some rawKey \<Rightarrow>
                      if rawKey = None then Inl JwkNotPublic
                      else case jh_alg headers of
                        None \<Rightarrow> Inl MissingAlg
                      | Some alg \<Rightarrow>
                          case jo_verify J prf alg jwkKey of
                            None \<Rightarrow> Inl BadSignature
                          | Some token \<Rightarrow>
                              case pt_iat token of
                                None \<Rightarrow> Inl MissingIat
                              | Some iat \<Rightarrow>
                                  if time_sub now iat > mcp_dpopMaxAge then Inl ProofTooOld
                                  else case pt_jti token of
                                    None \<Rightarrow> Inl MissingJti
                                  | Some jti \<Rightarrow>
                                      if jti = '''' then Inl MissingJti
                                      else mcp_computeJWKThumbprint J jwkKey)"

text \<open>
  \<open>verifyDPoP\<close> on the fields it reads: the development switch of the configuration, the
  token's \<open>cnf.jkt\<close> and the proof of the call (empty when the options are absent). The
  result is the thumbprint the claims hold afterwards.
\<close>

definition verifyDPoP ::
  "('key, 'alg, 'raw) jose \<Rightarrow> go_time \<Rightarrow> bool \<Rightarrow> string \<Rightarrow> string option
   \<Rightarrow> dpop_error + string" where
  "verifyDPoP J now devMode cnf opts =
     (if devMode then Inr cnf
      else
        let prf = (case opts of None \<Rightarrow> '''' | Some p \<Rightarrow> p)
        in if cnf = '''' \<and> prf = '''' then Inr cnf
           else if cnf \<noteq> '''' \<and> prf = '''' then Inl ProofRequired
           else case validateDPoPProof J now prf of
             Inl e \<Rightarrow> Inl e
           | Inr tp \<Rightarrow>
               if cnf \<noteq> '''' \<and> tp \<noteq> cnf then Inl (ThumbprintMismatch tp cnf) else Inr tp)"

section \<open>Shared facts\<close>

lemma thumbprints_agree: "mcp_computeJWKThumbprint J k = computeJWKThumbprint J k"
  by (simp add: mcp_computeJWKThumbprint_def computeJWKThumbprint_def required_members_def
      split: option.split)

lemma dpop_max_age_bounds: "min_duration \<le> DPoPMaxAge" "DPoPMaxAge < max_duration"
  by (simp_all add: DPoPMaxAge_def go_minute_def go_second_def min_duration_def max_duration_def)

lemma proof_checks_agree: "validateDPoPProof J now prf = validateDPoP J now prf"
  by (auto simp: validateDPoPProof_def validateDPoP_def thumbprints_agree mcp_dpopMaxAge_def
      DPoPMaxAge_def split: option.splits list.splits)

text \<open>What an accepted proof was checked for.\<close>

lemma validateDPoP_Inr:
  assumes "validateDPoP J now prf = Inr tp"
  obtains h hs key alg tok iat jti where
    "jo_jws_parse J prf = Some (h # hs)" and "jh_typ h = Some ''dpop+jwt''"
    and "jh_jwk h = Some key" and "jh_alg h = Some alg"
    and "jo_verify J prf alg key = Some tok" and "pt_iat tok = Some iat"
    and "now - iat \<le> DPoPMaxAge" and "pt_jti tok = Some jti" and "jti \<noteq> ''''"
    and "computeJWKThumbprint J key = Inr tp"
  using assms time_sub_gt_iff [OF dpop_max_age_bounds]
  by (fastforce simp: validateDPoP_def split: option.splits list.splits if_splits)

lemma computeJWKThumbprint_nonempty:
  "computeJWKThumbprint J k = Inr tp \<Longrightarrow> \<forall>x. jo_sha256_b64url J x \<noteq> '''' \<Longrightarrow> tp \<noteq> ''''"
  by (auto simp: computeJWKThumbprint_def split: option.splits sum.splits)

lemma validateDPoP_nonempty:
  "validateDPoP J now prf = Inr tp \<Longrightarrow> \<forall>x. jo_sha256_b64url J x \<noteq> '''' \<Longrightarrow> tp \<noteq> ''''"
  by (erule validateDPoP_Inr) (rule computeJWKThumbprint_nonempty)

text \<open>A bound token is accepted in production exactly with a valid proof of its key.\<close>

lemma verifyDPoP_bound:
  "tp \<noteq> '''' \<Longrightarrow> verifyDPoP J now False tp opts = Inr r \<longleftrightarrow>
     r = tp \<and> (\<exists>prf. opts = Some prf \<and> prf \<noteq> '''' \<and> validateDPoP J now prf = Inr tp)"
  by (auto simp: verifyDPoP_def proof_checks_agree Let_def split: option.splits sum.splits if_splits)

section \<open>Guarantees\<close>

text \<open>
  The engine and the tool-call middleware check proofs alike: on every proof and at
  every instant both accept with the same thumbprint or reject with the same error.
\<close>

theorem dpop_checkers_agree: "validateDPoPProof J now prf = validateDPoP J now prf"
  by (rule proof_checks_agree)

text \<open>
  Thumbprints identify keys by their required members only (RFC 7638): two keys of one
  type with the same required members have the same thumbprint, whatever else their JSON
  carries.
\<close>

theorem thumbprint_members_only:
  assumes "jo_key_type J k1 = jo_key_type J k2"
    and "jo_key_members J k1 = Some m1" and "jo_key_members J k2 = Some m2"
    and "required_members (jo_key_type J k1) = Some rs"
    and "\<forall>m \<in> set rs. map_of m1 m = map_of m2 m"
  shows "computeJWKThumbprint J k1 = computeJWKThumbprint J k2
    \<and> mcp_computeJWKThumbprint J k1 = mcp_computeJWKThumbprint J k2"
  using thumbprint_required_members_only [OF assms(1-4)] assms(5)
  by (simp add: thumbprints_agree)

definition thumb_jose :: "(string, unit, unit) jose" where
  "thumb_jose =
     \<lparr>jo_jws_parse = (\<lambda>p. None), jo_export = (\<lambda>k. None), jo_verify = (\<lambda>p a k. None),
      jo_key_members = (\<lambda>k. Some [(''kid'', JStr k), (''e'', JStr ''AQAB''), (''kty'', JStr ''RSA''),
                                   (''n'', JStr ''77'')]),
      jo_key_type = (\<lambda>k. ''RSA''), jo_marshal = (\<lambda>m. Some (concat (map fst m))),
      jo_sha256_b64url = id\<rparr>"

theorem thumbprint_members_only_witness:
  "computeJWKThumbprint thumb_jose ''k1'' = computeJWKThumbprint thumb_jose ''k2''"
  using thumbprint_members_only [of thumb_jose "''k1''" "''k2''"]
  by (simp add: thumb_jose_def required_members_def)

end
