(* ===== verification/Keyring.thy ===== *)
theory Keyring
  imports Go_Prelude
begin

text \<open>
  \<open>src/pkg/exchange/keyring.go\<close>: the signing keys of a unit. The JWK library is the
  parameter \<open>jwk\<close>. The interface \<open>lifecycle.SigningKeyManager\<close> of
  \<open>src/pkg/lifecycle/rotation_workflow.go\<close> is a record of the four methods, and the locale
  \<open>key_manager\<close> states its contract; the keyring is an instance.
\<close>

section \<open>Model\<close>

record ('signer, 'key, 'pub) jwk_lib =
  jk_key_id :: "'key \<Rightarrow> string option"
  jk_import :: "'signer \<Rightarrow> 'key option"
  jk_set_kid :: "string \<Rightarrow> 'key \<Rightarrow> 'key option"
  jk_set_alg :: "string \<Rightarrow> 'key \<Rightarrow> 'key option"
  jk_set_use :: "string \<Rightarrow> 'key \<Rightarrow> 'key option"
  jk_public :: "'key \<Rightarrow> 'pub option"
  jk_add_to_set :: "'pub \<Rightarrow> 'pub list \<Rightarrow> 'pub list option"

datatype keyring_error =
    InitialKeyNoKid
  | GeneratingDevKey
  | ImportingPrivateKey
  | SettingKid
  | SettingAlg
  | SettingUse
  | KeyNotFound string
  | CannotRemoveActive string
  | ExtractingPublicKey
  | AddingToSet

record 'key keyring =
  kr_active_kid :: string
  kr_keys :: "(string, 'key) gomap"

definition NewKeyring ::
  "('signer, 'key, 'pub) jwk_lib \<Rightarrow> 'key \<Rightarrow> keyring_error + 'key keyring" where
  "NewKeyring L initialKey =
     (case jk_key_id L initialKey of
        None \<Rightarrow> Inl InitialKeyNoKid
      | Some kid \<Rightarrow>
          if kid = '''' then Inl InitialKeyNoKid
          else Inr \<lparr>kr_active_kid = kid, kr_keys = [(kid, initialKey)]\<rparr>)"

definition ActiveKid :: "'key keyring \<Rightarrow> string" where
  "ActiveKid kr = kr_active_kid kr"

definition ActiveKey :: "'key keyring \<Rightarrow> 'key option" where
  "ActiveKey kr = map_of (kr_keys kr) (kr_active_kid kr)"

definition AddKey ::
  "('signer, 'key, 'pub) jwk_lib \<Rightarrow> string \<Rightarrow> 'signer \<Rightarrow> 'key keyring
   \<Rightarrow> keyring_error option \<times> 'key keyring" where
  "AddKey L kid privateKey kr =
     (case jk_import L privateKey of
        None \<Rightarrow> (Some ImportingPrivateKey, kr)
      | Some k0 \<Rightarrow>
          case jk_set_kid L kid k0 of
            None \<Rightarrow> (Some SettingKid, kr)
          | Some k1 \<Rightarrow>
              case jk_set_alg L ''RS256'' k1 of
                None \<Rightarrow> (Some SettingAlg, kr)
              | Some k2 \<Rightarrow>
                  case jk_set_use L ''sig'' k2 of
                    None \<Rightarrow> (Some SettingUse, kr)
                  | Some key \<Rightarrow> (None, kr\<lparr>kr_keys := AList.update kid key (kr_keys kr)\<rparr>))"

definition ActivateKey :: "string \<Rightarrow> 'key keyring \<Rightarrow> keyring_error option \<times> 'key keyring" where
  "ActivateKey kid kr =
     (case map_of (kr_keys kr) kid of
        None \<Rightarrow> (Some (KeyNotFound kid), kr)
      | Some _ \<Rightarrow> (None, kr\<lparr>kr_active_kid := kid\<rparr>))"

definition RemoveKey :: "string \<Rightarrow> 'key keyring \<Rightarrow> keyring_error option \<times> 'key keyring" where
  "RemoveKey kid kr =
     (if kid = kr_active_kid kr then (Some (CannotRemoveActive kid), kr)
      else (None, kr\<lparr>kr_keys := AList.delete kid (kr_keys kr)\<rparr>))"

fun public_keys ::
  "('signer, 'key, 'pub) jwk_lib \<Rightarrow> (string, 'key) gomap \<Rightarrow> 'pub list
   \<Rightarrow> keyring_error + 'pub list" where
  "public_keys L [] acc = Inr acc"
| "public_keys L ((kid, key) # rest) acc =
     (case jk_public L key of
        None \<Rightarrow> Inl ExtractingPublicKey
      | Some pub \<Rightarrow>
          case jk_add_to_set L pub acc of
            None \<Rightarrow> Inl AddingToSet
          | Some acc' \<Rightarrow> public_keys L rest acc')"

definition PublicKeySet ::
  "('signer, 'key, 'pub) jwk_lib \<Rightarrow> 'key keyring \<Rightarrow> keyring_error + 'pub list" where
  "PublicKeySet L kr = public_keys L (kr_keys kr) []"

definition Keyring_Len :: "'key keyring \<Rightarrow> nat" where
  "Keyring_Len kr = length (kr_keys kr)"

section \<open>Invariant\<close>

definition keyring_ok :: "'key keyring \<Rightarrow> bool" where
  "keyring_ok kr \<longleftrightarrow> gomap_wf (kr_keys kr) \<and> gomap_has (kr_keys kr) (kr_active_kid kr)"

definition keyring_has :: "'key keyring \<Rightarrow> string \<Rightarrow> bool" where
  "keyring_has kr kid \<longleftrightarrow> gomap_has (kr_keys kr) kid"

lemma keyring_ok_New: "NewKeyring L k = Inr kr \<Longrightarrow> keyring_ok kr"
  by (auto simp: NewKeyring_def keyring_ok_def gomap_has_def gomap_wf_def
      split: option.splits if_splits)

lemma keyring_ok_Add: "keyring_ok kr \<Longrightarrow> keyring_ok (snd (AddKey L kid sk kr))"
  by (auto simp: AddKey_def keyring_ok_def gomap_has_def gomap_simps split: option.splits)

lemma keyring_ok_Activate: "keyring_ok kr \<Longrightarrow> keyring_ok (snd (ActivateKey kid kr))"
  by (auto simp: ActivateKey_def keyring_ok_def gomap_has_def split: option.splits)

lemma keyring_ok_Remove: "keyring_ok kr \<Longrightarrow> keyring_ok (snd (RemoveKey kid kr))"
  by (auto simp: RemoveKey_def keyring_ok_def gomap_has_def gomap_simps)

lemma ActiveKey_present: "keyring_ok kr \<Longrightarrow> \<exists>k. ActiveKey kr = Some k"
  by (auto simp: keyring_ok_def gomap_has_def ActiveKey_def)

lemma public_keys_complete:
  assumes "public_keys L ks acc = Inr pubs"
    and "\<And>p s s'. jk_add_to_set L p s = Some s' \<Longrightarrow> set s' = insert p (set s)"
  shows "set pubs = set acc \<union> {p. \<exists>(kid, k) \<in> set ks. jk_public L k = Some p}"
  using assms(1)
proof (induction ks arbitrary: acc)
  case Nil
  then show ?case by simp
next
  case (Cons x ks)
  obtain kid k where x: "x = (kid, k)" by (cases x)
  from Cons.prems x obtain p s where p: "jk_public L k = Some p"
    and s: "jk_add_to_set L p acc = Some s" and rest: "public_keys L ks s = Inr pubs"
    by (auto split: option.splits)
  show ?case using Cons.IH [OF rest] assms(2) [OF s] p x by auto
qed

section \<open>The interface of the rotation workflow\<close>

record ('signer, 'm) signing_key_manager =
  km_ActiveKid :: "'m \<Rightarrow> string"
  km_AddKey :: "string \<Rightarrow> 'signer \<Rightarrow> 'm \<Rightarrow> keyring_error option \<times> 'm"
  km_ActivateKey :: "string \<Rightarrow> 'm \<Rightarrow> keyring_error option \<times> 'm"
  km_RemoveKey :: "string \<Rightarrow> 'm \<Rightarrow> keyring_error option \<times> 'm"

definition keyring_manager ::
  "('signer, 'key, 'pub) jwk_lib \<Rightarrow> ('signer, 'key keyring) signing_key_manager" where
  "keyring_manager L =
     \<lparr>km_ActiveKid = ActiveKid, km_AddKey = AddKey L, km_ActivateKey = ActivateKey,
      km_RemoveKey = RemoveKey\<rparr>"

locale key_manager =
  fixes M :: "('signer, 'm) signing_key_manager"
    and has :: "'m \<Rightarrow> string \<Rightarrow> bool"
    and invar :: "'m \<Rightarrow> bool"
  assumes active_has: "invar m \<Longrightarrow> has m (km_ActiveKid M m)"
    and add_ok: "fst (km_AddKey M k sk m) = None \<Longrightarrow>
      has (snd (km_AddKey M k sk m)) x \<longleftrightarrow> x = k \<or> has m x"
    and add_fail: "fst (km_AddKey M k sk m) \<noteq> None \<Longrightarrow> snd (km_AddKey M k sk m) = m"
    and add_active: "km_ActiveKid M (snd (km_AddKey M k sk m)) = km_ActiveKid M m"
    and add_invar: "invar m \<Longrightarrow> invar (snd (km_AddKey M k sk m))"
    and activate_iff: "fst (km_ActivateKey M k m) = None \<longleftrightarrow> has m k"
    and activate_active: "has m k \<Longrightarrow> km_ActiveKid M (snd (km_ActivateKey M k m)) = k"
    and activate_fail: "\<not> has m k \<Longrightarrow> snd (km_ActivateKey M k m) = m"
    and activate_has: "has (snd (km_ActivateKey M k m)) x \<longleftrightarrow> has m x"
    and activate_invar: "invar m \<Longrightarrow> invar (snd (km_ActivateKey M k m))"
    and remove_iff: "fst (km_RemoveKey M k m) = None \<longleftrightarrow> k \<noteq> km_ActiveKid M m"
    and remove_has: "k \<noteq> km_ActiveKid M m \<Longrightarrow>
      has (snd (km_RemoveKey M k m)) x \<longleftrightarrow> has m x \<and> x \<noteq> k"
    and remove_fail: "k = km_ActiveKid M m \<Longrightarrow> snd (km_RemoveKey M k m) = m"
    and remove_active: "km_ActiveKid M (snd (km_RemoveKey M k m)) = km_ActiveKid M m"
    and remove_invar: "invar m \<Longrightarrow> invar (snd (km_RemoveKey M k m))"

lemma keyring_is_key_manager: "key_manager (keyring_manager L) keyring_has keyring_ok"
proof unfold_locales
  fix m :: "'b keyring" and k x :: string and sk :: 'a
  show "keyring_ok m \<Longrightarrow> keyring_has m (km_ActiveKid (keyring_manager L) m)"
    by (simp add: keyring_manager_def keyring_has_def keyring_ok_def ActiveKid_def)
  show "fst (km_AddKey (keyring_manager L) k sk m) = None \<Longrightarrow>
    keyring_has (snd (km_AddKey (keyring_manager L) k sk m)) x \<longleftrightarrow> x = k \<or> keyring_has m x"
    by (auto simp: keyring_manager_def AddKey_def keyring_has_def gomap_has_def gomap_simps
        split: option.splits)
  show "fst (km_AddKey (keyring_manager L) k sk m) \<noteq> None \<Longrightarrow>
    snd (km_AddKey (keyring_manager L) k sk m) = m"
    by (auto simp: keyring_manager_def AddKey_def split: option.splits)
  show "km_ActiveKid (keyring_manager L) (snd (km_AddKey (keyring_manager L) k sk m)) =
    km_ActiveKid (keyring_manager L) m"
    by (auto simp: keyring_manager_def AddKey_def ActiveKid_def split: option.splits)
  show "keyring_ok m \<Longrightarrow> keyring_ok (snd (km_AddKey (keyring_manager L) k sk m))"
    by (simp add: keyring_manager_def keyring_ok_Add)
  show "fst (km_ActivateKey (keyring_manager L) k m) = None \<longleftrightarrow> keyring_has m k"
    by (auto simp: keyring_manager_def ActivateKey_def keyring_has_def gomap_has_def
        split: option.splits)
  show "keyring_has m k \<Longrightarrow>
    km_ActiveKid (keyring_manager L) (snd (km_ActivateKey (keyring_manager L) k m)) = k"
    by (auto simp: keyring_manager_def ActivateKey_def keyring_has_def gomap_has_def
        ActiveKid_def)
  show "\<not> keyring_has m k \<Longrightarrow> snd (km_ActivateKey (keyring_manager L) k m) = m"
    by (simp add: keyring_manager_def ActivateKey_def keyring_has_def gomap_has_def)
  show "keyring_has (snd (km_ActivateKey (keyring_manager L) k m)) x \<longleftrightarrow> keyring_has m x"
    by (auto simp: keyring_manager_def ActivateKey_def keyring_has_def split: option.splits)
  show "keyring_ok m \<Longrightarrow> keyring_ok (snd (km_ActivateKey (keyring_manager L) k m))"
    by (simp add: keyring_manager_def keyring_ok_Activate)
  show "fst (km_RemoveKey (keyring_manager L) k m) = None \<longleftrightarrow>
    k \<noteq> km_ActiveKid (keyring_manager L) m"
    by (simp add: keyring_manager_def RemoveKey_def ActiveKid_def)
  show "k \<noteq> km_ActiveKid (keyring_manager L) m \<Longrightarrow>
    keyring_has (snd (km_RemoveKey (keyring_manager L) k m)) x \<longleftrightarrow> keyring_has m x \<and> x \<noteq> k"
    by (auto simp: keyring_manager_def RemoveKey_def ActiveKid_def keyring_has_def
        gomap_has_def gomap_simps)
  show "k = km_ActiveKid (keyring_manager L) m \<Longrightarrow>
    snd (km_RemoveKey (keyring_manager L) k m) = m"
    by (simp add: keyring_manager_def RemoveKey_def ActiveKid_def)
  show "km_ActiveKid (keyring_manager L) (snd (km_RemoveKey (keyring_manager L) k m)) =
    km_ActiveKid (keyring_manager L) m"
    by (simp add: keyring_manager_def RemoveKey_def ActiveKid_def)
  show "keyring_ok m \<Longrightarrow> keyring_ok (snd (km_RemoveKey (keyring_manager L) k m))"
    by (simp add: keyring_manager_def keyring_ok_Remove)
qed

interpretation keyring: key_manager "keyring_manager L" keyring_has keyring_ok for L
  by (rule keyring_is_key_manager)

section \<open>Guarantees\<close>

text \<open>
  The keyring always has its active key: a new keyring does, and adding, activating and
  removing keys keep it so; the active key is never removed, and an error changes nothing.
\<close>

theorem keyring_active_key:
  assumes "keyring_ok kr"
  shows "(\<exists>k. ActiveKey kr = Some k)
    \<and> keyring_ok (snd (AddKey L kid sk kr)) \<and> keyring_ok (snd (ActivateKey kid kr))
    \<and> keyring_ok (snd (RemoveKey kid kr))
    \<and> RemoveKey (ActiveKid kr) kr = (Some (CannotRemoveActive (ActiveKid kr)), kr)
    \<and> (\<forall>err kr'. AddKey L kid sk kr = (Some err, kr') \<or> ActivateKey kid kr = (Some err, kr')
         \<or> RemoveKey kid kr = (Some err, kr') \<longrightarrow> kr' = kr)"
  using assms ActiveKey_present [OF assms]
  by (auto simp: keyring_ok_Add keyring_ok_Activate keyring_ok_Remove ActiveKid_def)
    (auto simp: AddKey_def ActivateKey_def RemoveKey_def split: option.splits if_splits)

theorem keyring_active_key_witness:
  "RemoveKey ''k0'' \<lparr>kr_active_kid = ''k0'', kr_keys = [(''k0'', ())]\<rparr> =
   (Some (CannotRemoveActive ''k0''), \<lparr>kr_active_kid = ''k0'', kr_keys = [(''k0'', ())]\<rparr>)"
proof -
  let ?kr = "\<lparr>kr_active_kid = ''k0'', kr_keys = [(''k0'', ())]\<rparr>"
  have "keyring_ok ?kr" by (simp add: keyring_ok_def gomap_wf_def gomap_has_def)
  then have "RemoveKey (ActiveKid ?kr) ?kr = (Some (CannotRemoveActive (ActiveKid ?kr)), ?kr)"
    by (rule keyring_active_key
        [THEN conjunct2, THEN conjunct2, THEN conjunct2, THEN conjunct2, THEN conjunct1])
  then show ?thesis by (simp add: ActiveKid_def)
qed

end
