(* ===== verification/Secrets.thy ===== *)
theory Secrets
  imports Go_Prelude
begin

text \<open>
  \<open>src/pkg/secrets\<close>: the registry of secret sources (\<open>source.go\<close>), the static source
  (\<open>static.go\<close>, without reading its YAML file) and the in-memory store of encryption keys
  (\<open>keystore.go\<close>). The order in which Go visits the grouped references is the parameter
  \<open>visit\<close>, a permutation.
\<close>

section \<open>Model\<close>

record secret_ref =
  sr_source :: string
  sr_path :: string
  sr_key :: string
  sr_alias :: string

record secret_bundle =
  sb_claims :: "(string, string) gomap"
  sb_ttl :: duration

datatype secret_error =
    UnknownSource string
  | SourceUnavailable string
  | FetchFailed string secret_error
  | StaticPathNotFound string
  | StaticKeyNotFound string string
  | BackendError
  | WorkloadIdRequired
  | EncryptionKeyRequired
  | NoEncryptionKey string

record secret_source =
  src_name :: string
  src_available :: bool
  src_fetch :: "secret_ref list \<Rightarrow> secret_error + secret_bundle"

type_synonym secret_registry = "(string, secret_source) gomap"

definition NewRegistry :: secret_registry where
  "NewRegistry = []"

definition Registry_Register :: "secret_source \<Rightarrow> secret_registry \<Rightarrow> secret_registry" where
  "Registry_Register source r = AList.update (src_name source) source r"

fun group_refs ::
  "secret_ref list \<Rightarrow> (string, secret_ref list) gomap \<Rightarrow> (string, secret_ref list) gomap" where
  "group_refs [] grouped = grouped"
| "group_refs (ref # refs) grouped =
     group_refs refs
       (AList.update (sr_source ref)
          ((case map_of grouped (sr_source ref) of None \<Rightarrow> [] | Some rs \<Rightarrow> rs) @ [ref]) grouped)"

fun fetch_groups ::
  "secret_registry \<Rightarrow> (string \<times> secret_ref list) list \<Rightarrow> secret_bundle
   \<Rightarrow> secret_error + secret_bundle" where
  "fetch_groups r [] merged = Inr merged"
| "fetch_groups r ((srcName, srcRefs) # gs) merged =
     (case map_of r srcName of
        None \<Rightarrow> Inl (UnknownSource srcName)
      | Some src \<Rightarrow>
          if \<not> src_available src then Inl (SourceUnavailable srcName)
          else case src_fetch src srcRefs of
            Inl e \<Rightarrow> Inl (FetchFailed srcName e)
          | Inr bundle \<Rightarrow>
              fetch_groups r gs
                \<lparr>sb_claims = put_all (sb_claims bundle) (sb_claims merged),
                 sb_ttl = (if 0 < sb_ttl bundle \<and> (sb_ttl merged = 0 \<or> sb_ttl bundle < sb_ttl merged)
                           then sb_ttl bundle else sb_ttl merged)\<rparr>)"

definition Registry_Fetch ::
  "((string \<times> secret_ref list) list \<Rightarrow> (string \<times> secret_ref list) list)
   \<Rightarrow> secret_registry \<Rightarrow> secret_ref list \<Rightarrow> secret_error + secret_bundle" where
  "Registry_Fetch visit r refs =
     fetch_groups r (visit (group_refs refs [])) \<lparr>sb_claims = [], sb_ttl = 0\<rparr>"

definition Registry_Available :: "secret_registry \<Rightarrow> string \<Rightarrow> bool" where
  "Registry_Available r sourceName =
     (case map_of r sourceName of None \<Rightarrow> False | Some src \<Rightarrow> src_available src)"

definition Registry_Sources :: "secret_registry \<Rightarrow> string list" where
  "Registry_Sources r = map fst r"

record static_config =
  stc_secrets :: "(string, (string, string) gomap) gomap option"
  stc_ttl :: duration

record static_source =
  sts_secrets :: "(string, (string, string) gomap) gomap"
  sts_ttl :: duration

definition NewStaticSource :: "static_config \<Rightarrow> static_source" where
  "NewStaticSource cfg =
     \<lparr>sts_secrets = (case stc_secrets cfg of None \<Rightarrow> [] | Some m \<Rightarrow> m),
      sts_ttl = (if stc_ttl cfg = 0 then 5 * go_minute else stc_ttl cfg)\<rparr>"

fun static_fetch_refs ::
  "static_source \<Rightarrow> secret_ref list \<Rightarrow> secret_bundle \<Rightarrow> secret_error + secret_bundle" where
  "static_fetch_refs s [] bundle = Inr bundle"
| "static_fetch_refs s (ref # refs) bundle =
     (case map_of (sts_secrets s) (sr_path ref) of
        None \<Rightarrow> Inl (StaticPathNotFound (sr_path ref))
      | Some pathData \<Rightarrow>
          case map_of pathData (sr_key ref) of
            None \<Rightarrow> Inl (StaticKeyNotFound (sr_key ref) (sr_path ref))
          | Some val \<Rightarrow>
              let alias = (if sr_alias ref = '''' then sr_key ref else sr_alias ref)
              in static_fetch_refs s refs
                   (bundle\<lparr>sb_claims := AList.update alias val (sb_claims bundle)\<rparr>))"

definition static_Fetch :: "static_source \<Rightarrow> secret_ref list \<Rightarrow> secret_error + secret_bundle" where
  "static_Fetch s refs = static_fetch_refs s refs \<lparr>sb_claims = [], sb_ttl = sts_ttl s\<rparr>"

definition static_as_source :: "static_source \<Rightarrow> secret_source" where
  "static_as_source s = \<lparr>src_name = ''static'', src_available = True, src_fetch = static_Fetch s\<rparr>"

type_synonym 'key key_store = "(string, 'key) gomap"

definition NewInMemoryKeyStore :: "'key key_store" where
  "NewInMemoryKeyStore = []"

definition KeyStore_Register ::
  "string \<Rightarrow> 'key option \<Rightarrow> 'key key_store \<Rightarrow> secret_error option \<times> 'key key_store" where
  "KeyStore_Register workloadID key s =
     (if workloadID = '''' then (Some WorkloadIdRequired, s)
      else case key of
             None \<Rightarrow> (Some EncryptionKeyRequired, s)
           | Some k \<Rightarrow> (None, AList.update workloadID k s))"

definition KeyStore_Get :: "'key key_store \<Rightarrow> string \<Rightarrow> secret_error + 'key" where
  "KeyStore_Get s workloadID =
     (case map_of s workloadID of None \<Rightarrow> Inl (NoEncryptionKey workloadID) | Some k \<Rightarrow> Inr k)"

section \<open>Grouping\<close>

lemma map_of_group_refs:
  "map_of (group_refs refs g) n =
     (let mine = filter (\<lambda>r. sr_source r = n) refs
      in case map_of g n of
           Some rs \<Rightarrow> Some (rs @ mine)
         | None \<Rightarrow> if mine = [] then None else Some mine)"
  by (induction refs g rule: group_refs.induct)
    (auto simp: gomap_simps Let_def split: option.splits)

lemma gomap_wf_group_refs: "gomap_wf g \<Longrightarrow> gomap_wf (group_refs refs g)"
  by (induction refs g rule: group_refs.induct) auto

text \<open>The groups are the references of each source, in their order.\<close>

lemma group_refs_set:
  "(n, rs) \<in> set (group_refs refs []) \<longleftrightarrow>
     rs = filter (\<lambda>r. sr_source r = n) refs \<and> rs \<noteq> []"
proof -
  have "gomap_wf (group_refs refs [])" by (rule gomap_wf_group_refs) simp
  then show ?thesis
    using map_of_group_refs [of refs "[]" n]
    by (auto simp: Let_def gomap_wf_map_of_iff [symmetric] split: if_splits)
qed

section \<open>Fetching\<close>

lemma fetch_groups_sources:
  "fetch_groups r gs m = Inr b \<Longrightarrow> (n, rs) \<in> set gs \<Longrightarrow>
   \<exists>src bn. map_of r n = Some src \<and> src_available src \<and> src_fetch src rs = Inr bn"
proof (induction r gs m rule: fetch_groups.induct)
  case (2 r n' rs' gs m)
  then show ?case by (auto split: option.splits if_splits sum.splits)
qed simp

text \<open>The merged lifetime is the shortest positive lifetime of the sources.\<close>

lemma fetch_groups_ttl_step:
  "fetch_groups r gs m = Inr b \<Longrightarrow> 0 \<le> sb_ttl m \<Longrightarrow>
   (sb_ttl m > 0 \<longrightarrow> 0 < sb_ttl b \<and> sb_ttl b \<le> sb_ttl m)
   \<and> (\<forall>(n, rs) \<in> set gs. \<forall>src bn. map_of r n = Some src \<longrightarrow> src_fetch src rs = Inr bn
        \<longrightarrow> 0 < sb_ttl bn \<longrightarrow> 0 < sb_ttl b \<and> sb_ttl b \<le> sb_ttl bn)"
proof (induction r gs m rule: fetch_groups.induct)
  case (1 r m)
  then show ?case by simp
next
  case (2 r n rs gs m)
  then obtain src bn where src: "map_of r n = Some src" "src_available src"
    and bn: "src_fetch src rs = Inr bn"
    by (auto split: option.splits if_splits sum.splits)
  let ?m = "\<lparr>sb_claims = put_all (sb_claims bn) (sb_claims m),
    sb_ttl = (if 0 < sb_ttl bn \<and> (sb_ttl m = 0 \<or> sb_ttl bn < sb_ttl m) then sb_ttl bn
              else sb_ttl m)\<rparr>"
  from 2(2) src bn have run: "fetch_groups r gs ?m = Inr b" by simp
  have pos: "0 \<le> sb_ttl ?m" using 2(3) by simp
  have IH: "(sb_ttl ?m > 0 \<longrightarrow> 0 < sb_ttl b \<and> sb_ttl b \<le> sb_ttl ?m)
    \<and> (\<forall>(n, rs) \<in> set gs. \<forall>src bn. map_of r n = Some src \<longrightarrow> src_fetch src rs = Inr bn
        \<longrightarrow> 0 < sb_ttl bn \<longrightarrow> 0 < sb_ttl b \<and> sb_ttl b \<le> sb_ttl bn)"
    using 2(1) [OF src(1) _ bn run pos] src(2) by simp
  have step: "0 < sb_ttl ?m \<and> sb_ttl ?m \<le> sb_ttl m" if "0 < sb_ttl m" using that by auto
  have own: "0 < sb_ttl ?m \<and> sb_ttl ?m \<le> sb_ttl bn" if "0 < sb_ttl bn" using that 2(3) by auto
  show ?case using IH step own src bn by (auto dest: order_trans)
qed

section \<open>Guarantees\<close>

text \<open>
  A bundle is complete and lives as long as its most short-lived source: when the
  registry returns one, the source of every reference is registered and available and
  answered for exactly its own references, and the merged lifetime is at most each
  source's positive lifetime. \<open>visit\<close> is any order in which the groups are visited.
\<close>

theorem Registry_Fetch_sound:
  assumes "Registry_Fetch visit r refs = Inr b" and "ref \<in> set refs"
    and visit: "\<And>gs. set (visit gs) = set gs"
  shows "\<exists>src bn. map_of r (sr_source ref) = Some src \<and> src_available src
    \<and> src_fetch src (filter (\<lambda>x. sr_source x = sr_source ref) refs) = Inr bn
    \<and> (0 < sb_ttl bn \<longrightarrow> 0 < sb_ttl b \<and> sb_ttl b \<le> sb_ttl bn)"
proof -
  let ?rs = "filter (\<lambda>x. sr_source x = sr_source ref) refs"
  let ?gs = "visit (group_refs refs [])"
  have "?rs \<noteq> []" using assms(2) by (auto simp: filter_empty_conv)
  then have mem: "(sr_source ref, ?rs) \<in> set ?gs"
    using group_refs_set [of "sr_source ref" ?rs refs] by (simp add: visit)
  have run: "fetch_groups r ?gs \<lparr>sb_claims = [], sb_ttl = 0\<rparr> = Inr b"
    using assms(1) by (simp add: Registry_Fetch_def)
  obtain src bn where src: "map_of r (sr_source ref) = Some src" "src_available src"
    "src_fetch src ?rs = Inr bn"
    using fetch_groups_sources [OF run mem] by blast
  have "0 < sb_ttl bn \<longrightarrow> 0 < sb_ttl b \<and> sb_ttl b \<le> sb_ttl bn"
    using fetch_groups_ttl_step [OF run] mem src(1,3) by fastforce
  with src show ?thesis by blast
qed

definition demo_static :: static_source where
  "demo_static = NewStaticSource \<lparr>stc_secrets = Some [(''p'', [(''pw'', ''x'')])], stc_ttl = 0\<rparr>"

definition demo_ref :: secret_ref where
  "demo_ref = \<lparr>sr_source = ''static'', sr_path = ''p'', sr_key = ''pw'', sr_alias = ''''\<rparr>"

theorem Registry_Fetch_sound_witness:
  "\<exists>src bn. map_of (Registry_Register (static_as_source demo_static) NewRegistry) ''static'' = Some src
    \<and> src_available src \<and> src_fetch src [demo_ref] = Inr bn"
proof -
  have run: "Registry_Fetch rev (Registry_Register (static_as_source demo_static) NewRegistry)
      [demo_ref] = Inr \<lparr>sb_claims = [(''pw'', ''x'')], sb_ttl = 5 * go_minute\<rparr>"
    by code_simp
  show ?thesis
    using Registry_Fetch_sound [OF run, of demo_ref] by (auto simp: demo_ref_def)
qed

end
