(* ===== verification/Engine.thy ===== *)
theory Engine
  imports Delegation Execution_Scope Attestation Dpop Keyring Secrets
begin

text \<open>
  \<open>src/pkg/exchange/engine.go\<close>: the RFC 8693 token exchange. \<open>Exchange\<close> is a sequence of
  stages over the state that a call can change: the nonce tracker, the audit log, the
  signals flashed to the fabric and the callbacks fired. Each stage is a definition with
  the lines it models; \<open>Exchange\<close> composes them in the order of the code.

  The engine's collaborators are the fields of \<open>engine\<close>, functions that may return an
  error (a string stands for its text); the JWT, JOSE and JWK libraries, the clock
  readings and the text of an error are the fields of \<open>exchange_env\<close>. Durations handed to
  callbacks and tracing spans are not modelled.
\<close>

section \<open>Types\<close>

datatype exchange_error =
    EInvalidGrantType string
  | EUnsupportedToken string
  | EWorkloadValidation string
  | EInvalidSubject string
  | ESubjectRevoked string
  | EAttestation attestation_error
  | EPolicyEvaluation string
  | EPolicyDenied string
  | EActorTokenInvalid string
  | EDelegation delegation_error
  | EDPoP dpop_error
  | EExecutionScope execution_error
  | EBuildToken
  | ESetClaim string
  | ESignToken string

datatype callback =
    OnRevocationError
  | OnExchange string string string
  | OnSecretDelivery string string

record exchange_state =
  xt_nonces :: nonce_tracker
  xt_audit :: "audit_event list"
  xt_signals :: "signal list"
  xt_callbacks :: "callback list"

record 'key engine =
  en_identity :: "string \<Rightarrow> string \<Rightarrow> string + workload_identity"
  en_policy :: "policy_input \<Rightarrow> string + policy_decision"
  en_keyring :: "'key keyring option"
  en_sign_key :: "'key option"
  en_issuer :: string
  en_ttl :: duration
  en_sync_bus :: "(signal \<Rightarrow> string option) option"
  en_unit_id :: string
  en_revocation :: "(string \<Rightarrow> string + revocation_entry option) option"
  en_on_revocation_error :: bool
  en_execution_ttl :: duration
  en_on_exchange :: bool
  en_secret_source :: "secret_registry option"
  en_encryption_keys :: "(string \<Rightarrow> secret_error + 'key) option"
  en_on_secret_delivery :: bool
  en_dev_mode :: bool

record ('signer, 'key, 'pub, 'alg, 'raw) exchange_env =
  ev_jwk :: "('signer, 'key, 'pub) jwk_lib"
  ev_jose :: "('key, 'alg, 'raw) jose"
  ev_parse :: "'pub list \<Rightarrow> string \<Rightarrow> string + claims"
  ev_build_ok :: bool
  ev_set_ok :: "string \<Rightarrow> json \<Rightarrow> bool"
  ev_sign :: "'key option \<Rightarrow> claims \<Rightarrow> string + string"
  ev_visit :: "(string \<times> secret_ref list) list \<Rightarrow> (string \<times> secret_ref list) list"
  ev_encrypt :: "secret_bundle \<Rightarrow> 'key \<Rightarrow> string option"
  ev_err_text :: "exchange_error \<Rightarrow> string"
  ev_attest_now1 :: go_time
  ev_attest_now2 :: go_time
  ev_dpop_now :: go_time
  ev_nonce_now :: go_time
  ev_sign_now :: go_time

type_synonym 'a exchange_stage = "(exchange_state, exchange_error, 'a) stage"

section \<open>Options and construction\<close>

definition WithSyncBus :: "(signal \<Rightarrow> string option) \<Rightarrow> string \<Rightarrow> 'key engine \<Rightarrow> 'key engine" where
  "WithSyncBus bus unitID e = e\<lparr>en_sync_bus := Some bus, en_unit_id := unitID\<rparr>"

definition WithRevocationChecker ::
  "(string \<Rightarrow> string + revocation_entry option) \<Rightarrow> 'key engine \<Rightarrow> 'key engine" where
  "WithRevocationChecker rc e = e\<lparr>en_revocation := Some rc\<rparr>"

definition WithOnRevocationError :: "'key engine \<Rightarrow> 'key engine" where
  "WithOnRevocationError e = e\<lparr>en_on_revocation_error := True\<rparr>"

definition WithOnExchange :: "'key engine \<Rightarrow> 'key engine" where
  "WithOnExchange e = e\<lparr>en_on_exchange := True\<rparr>"

definition WithIssuer :: "string \<Rightarrow> 'key engine \<Rightarrow> 'key engine" where
  "WithIssuer issuer e = e\<lparr>en_issuer := issuer\<rparr>"

definition WithTTL :: "duration \<Rightarrow> 'key engine \<Rightarrow> 'key engine" where
  "WithTTL ttl e = e\<lparr>en_ttl := ttl\<rparr>"

definition WithExecutionScopeTTL :: "duration \<Rightarrow> 'key engine \<Rightarrow> 'key engine" where
  "WithExecutionScopeTTL ttl e = e\<lparr>en_execution_ttl := ttl\<rparr>"

definition WithSecretSource :: "secret_registry \<Rightarrow> 'key engine \<Rightarrow> 'key engine" where
  "WithSecretSource reg e = e\<lparr>en_secret_source := Some reg\<rparr>"

definition WithEncryptionKeyStore ::
  "(string \<Rightarrow> secret_error + 'key) \<Rightarrow> 'key engine \<Rightarrow> 'key engine" where
  "WithEncryptionKeyStore ks e = e\<lparr>en_encryption_keys := Some ks\<rparr>"

definition WithOnSecretDelivery :: "'key engine \<Rightarrow> 'key engine" where
  "WithOnSecretDelivery e = e\<lparr>en_on_secret_delivery := True\<rparr>"

definition WithDevMode :: "bool \<Rightarrow> 'key engine \<Rightarrow> 'key engine" where
  "WithDevMode devMode e = e\<lparr>en_dev_mode := devMode\<rparr>"

text \<open>
  \<open>New\<close>: the key is generated, imported and labelled, then the options are applied in
  order. The nonce tracker of the new engine is the initial one of its state.
\<close>

definition dev_signing_key ::
  "('signer, 'key, 'pub) jwk_lib \<Rightarrow> 'signer option \<Rightarrow> keyring_error + 'key" where
  "dev_signing_key L generated =
     (case generated of
        None \<Rightarrow> Inl GeneratingDevKey
      | Some privKey \<Rightarrow>
          case jk_import L privKey of
            None \<Rightarrow> Inl ImportingPrivateKey
          | Some k0 \<Rightarrow>
              case jk_set_kid L ''starfly-dev-1'' k0 of
                None \<Rightarrow> Inl SettingKid
              | Some k1 \<Rightarrow>
                  case jk_set_alg L ''RS256'' k1 of
                    None \<Rightarrow> Inl SettingAlg
                  | Some k2 \<Rightarrow>
                      case jk_set_use L ''sig'' k2 of None \<Rightarrow> Inl SettingUse | Some key \<Rightarrow> Inr key)"

definition New_Engine ::
  "('signer, 'key, 'pub) jwk_lib \<Rightarrow> 'signer option
   \<Rightarrow> (string \<Rightarrow> string \<Rightarrow> string + workload_identity) \<Rightarrow> (policy_input \<Rightarrow> string + policy_decision)
   \<Rightarrow> ('key engine \<Rightarrow> 'key engine) list \<Rightarrow> keyring_error + 'key engine \<times> nonce_tracker" where
  "New_Engine L generated identity policy opts =
     rbind (dev_signing_key L generated) (\<lambda>key.
     rbind (NewKeyring L key) (\<lambda>kr.
       Inr (foldl (\<lambda>e opt. opt e)
              \<lparr>en_identity = identity, en_policy = policy, en_keyring = Some kr,
               en_sign_key = Some key, en_issuer = ''starfly'', en_ttl = 5 * go_minute,
               en_sync_bus = None, en_unit_id = '''', en_revocation = None,
               en_on_revocation_error = False, en_execution_ttl = ExecutionScopeTTL,
               en_on_exchange = False, en_secret_source = None, en_encryption_keys = None,
               en_on_secret_delivery = False, en_dev_mode = False\<rparr> opts,
            newNonceTracker)))"

definition attestationAssurance :: "'key engine \<Rightarrow> server_attestation \<Rightarrow> string" where
  "attestationAssurance e att =
     (let level = AssuranceLevel (Some att)
      in if \<not> en_dev_mode e \<and> level = ''hardware'' then ''software'' else level)"

text \<open>\<open>PublicKeySet\<close> and its wrapper, which turns an error into the empty set.\<close>

definition Engine_PublicKeySet ::
  "('signer, 'key, 'pub) jwk_lib \<Rightarrow> 'key engine \<Rightarrow> keyring_error + 'pub list" where
  "Engine_PublicKeySet L e =
     (case en_keyring e of
        Some kr \<Rightarrow> PublicKeySet L kr
      | None \<Rightarrow>
          case Option.bind (en_sign_key e) (jk_public L) of
            None \<Rightarrow> Inl ExtractingPublicKey
          | Some pub \<Rightarrow>
              case jk_add_to_set L pub [] of None \<Rightarrow> Inl AddingToSet | Some set' \<Rightarrow> Inr set')"

definition publicKeySet :: "('signer, 'key, 'pub) jwk_lib \<Rightarrow> 'key engine \<Rightarrow> 'pub list" where
  "publicKeySet L e = (case Engine_PublicKeySet L e of Inl _ \<Rightarrow> [] | Inr set' \<Rightarrow> set')"

section \<open>Credential types\<close>

definition grantTypeTokenExchange :: string where
  "grantTypeTokenExchange = ''urn:ietf:params:oauth:grant-type:token-exchange''"

definition subjectTokenTypeJWT :: string where
  "subjectTokenTypeJWT = ''urn:ietf:params:oauth:token-type:jwt''"

definition cred_types :: "(string, string) gomap" where
  "cred_types =
     [(subjectTokenTypeJWT, ''k8s-sa''),
      (''urn:starfly:token-type:spiffe-svid'', ''spiffe-svid''),
      (''urn:starfly:token-type:oidc'', ''oidc''),
      (''urn:starfly:token-type:kerberos'', ''kerberos''),
      (''urn:starfly:token-type:saml'', ''saml''),
      (''urn:starfly:token-type:aws-sts'', ''aws-sts''),
      (''urn:starfly:token-type:gcp-wif'', ''gcp-wif''),
      (''urn:starfly:token-type:azure-mi'', ''azure-mi''),
      (''urn:starfly:token-type:mtls'', ''mtls''),
      (''urn:ietf:params:oauth:token-type:access_token'', ''oauth2''),
      (''urn:ietf:params:oauth:token-type:saml2'', ''saml''),
      (''urn:starfly:token-type:api-key'', ''api-key''),
      (''urn:starfly:token-type:agent-mcp'', ''agent-mcp''),
      (''urn:starfly:token-type:agent-a2a'', ''agent-a2a''),
      (''urn:starfly:token-type:agent-passport'', ''agent-passport'')]"

definition mapCredType :: "string \<Rightarrow> exchange_error + string" where
  "mapCredType tokenType =
     (case map_of cred_types tokenType of
        None \<Rightarrow> Inl (EUnsupportedToken tokenType)
      | Some t \<Rightarrow> Inr t)"

section \<open>Effects\<close>

definition log_audit :: "audit_event \<Rightarrow> unit exchange_stage" where
  "log_audit ev = smodify (\<lambda>s. s\<lparr>xt_audit := xt_audit s @ [ev]\<rparr>)"

definition fire :: "bool \<Rightarrow> callback \<Rightarrow> unit exchange_stage" where
  "fire installed cb =
     (if installed then smodify (\<lambda>s. s\<lparr>xt_callbacks := xt_callbacks s @ [cb]\<rparr>) else sreturn ())"

text \<open>\<open>_ = auditor.Log(denied); return nil, err\<close>.\<close>

definition deny ::
  "token_exchange_request \<Rightarrow> string \<Rightarrow> string \<Rightarrow> string \<Rightarrow> exchange_error \<Rightarrow> 'a exchange_stage" where
  "deny req action wid reason err =
     sbind (log_audit (audit_lit ''exchange'' action wid (rq_audience req) ''denied'' reason []))
       (\<lambda>_. sfail err)"

section \<open>Stages 1 to 3: request, workload, revocation, attestation\<close>

definition ex_validate_workload ::
  "'key engine \<Rightarrow> token_exchange_request \<Rightarrow> (string \<times> workload_identity) exchange_stage" where
  "ex_validate_workload e req =
     (if rq_grant_type req \<noteq> grantTypeTokenExchange
      then sfail (EInvalidGrantType (rq_grant_type req))
      else
        case mapCredType (rq_subject_token_type req) of
          Inl err \<Rightarrow> sfail err
        | Inr credType \<Rightarrow>
            case en_identity e (rq_subject_token req) credType of
              Inl err \<Rightarrow> sfail (EWorkloadValidation err)
            | Inr workload \<Rightarrow>
                if str_count (wi_id workload) ''wimse://'' > 1
                then sfail (EInvalidSubject (wi_id workload))
                else sreturn (credType, workload))"

definition ex_check_revocation ::
  "'key engine \<Rightarrow> token_exchange_request \<Rightarrow> workload_identity \<Rightarrow> unit exchange_stage" where
  "ex_check_revocation e req workload =
     (case en_revocation e of
        None \<Rightarrow> sreturn ()
      | Some isRevoked \<Rightarrow>
          case isRevoked (wi_id workload) of
            Inl err \<Rightarrow>
              sbind (log_audit (audit_lit ''exchange'' ''revocation_check_failed'' (wi_id workload)
                       (rq_audience req) ''allowed''
                       (''revocation check failed, failing open: '' @ err) []))
                (\<lambda>_. fire (en_on_revocation_error e) OnRevocationError)
          | Inr (Some entry) \<Rightarrow>
              deny req ''token_exchange'' (wi_id workload)
                (if re_reason entry \<noteq> '''' then ''subject identity revoked: '' @ re_reason entry
                 else ''subject identity revoked'')
                (ESubjectRevoked (wi_id workload))
          | Inr None \<Rightarrow> sreturn ())"

definition attestation_audit_meta :: "'key engine \<Rightarrow> server_attestation \<Rightarrow> claims" where
  "attestation_audit_meta e att =
     [(''source'', JStr (ap_source (att_platform att))),
      (''assurance_level'', JStr (attestationAssurance e att)),
      (''agent_version'', JStr (att_agent_version att))]
     @ (case att_workload att of
          None \<Rightarrow> []
        | Some wl \<Rightarrow> if aw_binary_hash wl \<noteq> '''' then [(''binary_hash'', JStr (aw_binary_hash wl))] else [])"

definition ex_attestation ::
  "('signer, 'key, 'pub, 'alg, 'raw) exchange_env \<Rightarrow> 'key engine \<Rightarrow> token_exchange_request
   \<Rightarrow> workload_identity \<Rightarrow> unit exchange_stage" where
  "ex_attestation V e req workload =
     (case rq_attestation req of
        None \<Rightarrow> sreturn ()
      | Some att \<Rightarrow>
          case ValidateAttestation (ev_attest_now1 V) (ev_attest_now2 V) (Some att) 0 of
            Some err \<Rightarrow>
              deny req ''attestation_invalid'' (wi_id workload) (ev_err_text V (EAttestation err))
                (EAttestation err)
          | None \<Rightarrow>
              log_audit (audit_lit ''exchange'' ''attestation_evaluated'' (wi_id workload)
                (rq_audience req) ''allowed'' '''' (attestation_audit_meta e att)))"

section \<open>Stages 4 and 5: policy\<close>

definition nonempty_field :: "string \<Rightarrow> string \<Rightarrow> claims" where
  "nonempty_field name v = (if v \<noteq> '''' then [(name, JStr v)] else [])"

definition attestation_context :: "'key engine \<Rightarrow> server_attestation \<Rightarrow> json" where
  "attestation_context e att =
     JObj
      ([(''platform'',
         JObj ([(''source'', JStr (ap_source (att_platform att))),
                (''cred_type'', JStr (ap_cred_type (att_platform att)))]
               @ (case ap_metadata (att_platform att) of
                    None \<Rightarrow> []
                  | Some md \<Rightarrow> [(''metadata'', JObj (map (\<lambda>(k, v). (k, JStr v)) md))]))),
        (''agent_version'', JStr (att_agent_version att)),
        (''assurance_level'', JStr (attestationAssurance e att))]
       @ (case att_workload att of
            None \<Rightarrow> []
          | Some w \<Rightarrow>
              let wl = nonempty_field ''binary_hash'' (aw_binary_hash w)
                       @ nonempty_field ''namespace'' (aw_namespace w)
                       @ nonempty_field ''pod_name'' (aw_pod_name w)
                       @ nonempty_field ''image_digest'' (aw_image_digest w)
                       @ nonempty_field ''node_name'' (aw_node_name w)
              in if 0 < length wl then [(''workload'', JObj wl)] else [])
       @ (if 0 < length (att_hardware att)
          then [(''hardware'', JArr (map (\<lambda>h. JObj [(''type'', JStr (ah_type h))]) (att_hardware att)))]
          else []))"

definition ex_policy_input ::
  "'key engine \<Rightarrow> token_exchange_request \<Rightarrow> string \<Rightarrow> workload_identity \<Rightarrow> policy_input" where
  "ex_policy_input e req credType workload =
     \<lparr>pi_action = ''exchange'', pi_subject = Some workload, pi_target = rq_audience req,
      pi_context =
        [(''scope'', JStr (rq_scope req))]
        @ (if has_prefix credType ''agent-''
           then [(''agent_platform'', JStr credType), (''is_agent'', JBool True)] else [])
        @ (case rq_attestation req of
             None \<Rightarrow> [] | Some att \<Rightarrow> [(''attestation'', attestation_context e att)])\<rparr>"

definition ex_evaluate_policy ::
  "'key engine \<Rightarrow> token_exchange_request \<Rightarrow> string \<Rightarrow> workload_identity
   \<Rightarrow> policy_decision exchange_stage" where
  "ex_evaluate_policy e req credType workload =
     (case en_policy e (ex_policy_input e req credType workload) of
        Inl err \<Rightarrow> sfail (EPolicyEvaluation err)
      | Inr decision \<Rightarrow>
          if \<not> pd_allowed decision
          then deny req ''token_exchange'' (wi_id workload) (pd_reason decision)
                 (EPolicyDenied (pd_reason decision))
          else sreturn decision)"

section \<open>Stage 5a to 5d: delegation, DPoP, execution scope, secrets\<close>

definition requested_caps :: "policy_decision \<Rightarrow> string list" where
  "requested_caps decision =
     (case map_of (pd_claims decision) ''caps'' of
        None \<Rightarrow> []
      | Some v \<Rightarrow> case as_arr v of None \<Rightarrow> [] | Some cs \<Rightarrow> strings_of cs)"

definition requested_blast_radius :: "policy_decision \<Rightarrow> string" where
  "requested_blast_radius decision =
     (case map_of (pd_claims decision) ''blast_radius'' of
        None \<Rightarrow> ''''
      | Some v \<Rightarrow> case as_str v of None \<Rightarrow> '''' | Some br \<Rightarrow> br)"

definition ex_delegation ::
  "('signer, 'key, 'pub, 'alg, 'raw) exchange_env \<Rightarrow> 'key engine \<Rightarrow> token_exchange_request
   \<Rightarrow> workload_identity \<Rightarrow> policy_decision \<Rightarrow> delegation_context option exchange_stage" where
  "ex_delegation V e req workload decision =
     (if rq_actor_token req = '''' then sreturn None
      else
        case ev_parse V (publicKeySet (ev_jwk V) e) (rq_actor_token req) of
          Inl perr \<Rightarrow>
            deny req ''token_exchange'' (wi_id workload) (ev_err_text V (EActorTokenInvalid perr))
              (EActorTokenInvalid perr)
        | Inr actorToken \<Rightarrow>
            case parseDelegationContext actorToken of
              Inl derr \<Rightarrow> sfail (EDelegation derr)
            | Inr dc \<Rightarrow>
                case validateDelegation dc (requested_caps decision)
                       (requested_blast_radius decision) of
                  Some derr \<Rightarrow>
                    deny req ''token_exchange'' (wi_id workload) (ev_err_text V (EDelegation derr))
                      (EDelegation derr)
                | None \<Rightarrow> sreturn (Some dc))"

definition ex_dpop ::
  "('signer, 'key, 'pub, 'alg, 'raw) exchange_env \<Rightarrow> token_exchange_request
   \<Rightarrow> string option exchange_stage" where
  "ex_dpop V req =
     (if rq_dpop_proof req = '''' then sreturn None
      else case validateDPoP (ev_jose V) (ev_dpop_now V) (rq_dpop_proof req) of
             Inl err \<Rightarrow> sfail (EDPoP err)
           | Inr thumbprint \<Rightarrow> sreturn (Some thumbprint))"

definition ex_execution_scope ::
  "('signer, 'key, 'pub, 'alg, 'raw) exchange_env \<Rightarrow> token_exchange_request
   \<Rightarrow> execution_scope option exchange_stage" where
  "ex_execution_scope V req =
     (case rq_execution_scope req of
        None \<Rightarrow> sreturn None
      | Some scope \<Rightarrow>
          case validateExecutionScope scope of
            Some err \<Rightarrow> sfail (EExecutionScope err)
          | None \<Rightarrow>
              (\<lambda>s. case nonce_check (ev_nonce_now V) (xs_nonce scope) (xt_nonces s) of
                     (Some err, n) \<Rightarrow> (Inl (EExecutionScope err), s\<lparr>xt_nonces := n\<rparr>)
                   | (None, n) \<Rightarrow> (Inr (Some scope), s\<lparr>xt_nonces := n\<rparr>)))"

definition parse_secret_ref :: "json \<Rightarrow> secret_ref option" where
  "parse_secret_ref raw =
     (case as_obj raw of
        None \<Rightarrow> None
      | Some refMap \<Rightarrow>
          let ref = \<lparr>sr_source = str_member refMap ''source'', sr_path = str_member refMap ''path'',
                     sr_key = str_member refMap ''key'', sr_alias = str_member refMap ''alias''\<rparr>
          in if sr_source ref \<noteq> '''' \<and> sr_path ref \<noteq> '''' \<and> sr_key ref \<noteq> '''' then Some ref else None)"

definition secret_refs :: "policy_decision \<Rightarrow> secret_ref list" where
  "secret_refs decision =
     (case map_of (pd_claims decision) ''secret_refs'' of
        None \<Rightarrow> []
      | Some rawRefs \<Rightarrow>
          case as_arr rawRefs of
            None \<Rightarrow> [] | Some refSlice \<Rightarrow> List.map_filter parse_secret_ref refSlice)"

text \<open>The result is the JWE, empty when nothing is delivered.\<close>

definition deliverSecrets ::
  "('signer, 'key, 'pub, 'alg, 'raw) exchange_env \<Rightarrow> 'key engine \<Rightarrow> secret_registry \<Rightarrow> string
   \<Rightarrow> policy_decision \<Rightarrow> string exchange_stage" where
  "deliverSecrets V e reg workloadID decision =
     (let callMetric = (\<lambda>result. fire (en_on_secret_delivery e) (OnSecretDelivery ''registry'' result));
          skip = (\<lambda>result. sbind (callMetric result) (\<lambda>_. sreturn ''''))
      in if secret_refs decision = [] then sreturn ''''
         else
           case en_encryption_keys e of
             None \<Rightarrow> skip ''no_key''
           | Some get \<Rightarrow>
               case get workloadID of
                 Inl _ \<Rightarrow> skip ''no_key''
               | Inr encKey \<Rightarrow>
                   case Registry_Fetch (ev_visit V) reg (secret_refs decision) of
                     Inl _ \<Rightarrow> skip ''source_unavailable''
                   | Inr bundle \<Rightarrow>
                       case ev_encrypt V bundle encKey of
                         None \<Rightarrow> skip ''encrypt_error''
                       | Some encrypted \<Rightarrow> sbind (callMetric ''ok'') (\<lambda>_. sreturn encrypted))"

definition ex_secrets ::
  "('signer, 'key, 'pub, 'alg, 'raw) exchange_env \<Rightarrow> 'key engine \<Rightarrow> workload_identity
   \<Rightarrow> policy_decision \<Rightarrow> string exchange_stage" where
  "ex_secrets V e workload decision =
     (case en_secret_source e of
        None \<Rightarrow> sreturn ''''
      | Some reg \<Rightarrow> deliverSecrets V e reg (wi_id workload) decision)"

section \<open>Stage 6: the token\<close>

definition set_claim ::
  "('signer, 'key, 'pub, 'alg, 'raw) exchange_env \<Rightarrow> string \<Rightarrow> json \<Rightarrow> claims
   \<Rightarrow> exchange_error + claims" where
  "set_claim V k v tok =
     (if ev_set_ok V k v then Inr (AList.update k v tok) else Inl (ESetClaim k))"

definition set_opt_claim ::
  "('signer, 'key, 'pub, 'alg, 'raw) exchange_env \<Rightarrow> string \<Rightarrow> json option \<Rightarrow> claims
   \<Rightarrow> exchange_error + claims" where
  "set_opt_claim V k ov tok = (case ov of None \<Rightarrow> Inr tok | Some v \<Rightarrow> set_claim V k v tok)"

definition set_str_claim ::
  "('signer, 'key, 'pub, 'alg, 'raw) exchange_env \<Rightarrow> string \<Rightarrow> string \<Rightarrow> claims
   \<Rightarrow> exchange_error + claims" where
  "set_str_claim V k v tok = (if v \<noteq> '''' then set_claim V k (JStr v) tok else Inr tok)"

definition token_ttl :: "'key engine \<Rightarrow> execution_scope option \<Rightarrow> duration" where
  "token_ttl e execScope = (case execScope of None \<Rightarrow> en_ttl e | Some _ \<Rightarrow> en_execution_ttl e)"

definition base_claims ::
  "'key engine \<Rightarrow> token_exchange_request \<Rightarrow> workload_identity \<Rightarrow> go_time \<Rightarrow> duration \<Rightarrow> claims" where
  "base_claims e req workload now ttl =
     [(''sub'', JStr (wi_id workload)), (''iss'', JStr (en_issuer e)),
      (''aud'', JArr [JStr (rq_audience req)]),
      (''iat'', JNum (of_int (unix_seconds now))),
      (''exp'', JNum (of_int (unix_seconds (time_add now ttl))))]"

definition delegation_claims ::
  "('signer, 'key, 'pub, 'alg, 'raw) exchange_env \<Rightarrow> policy_decision
   \<Rightarrow> delegation_context option \<Rightarrow> claims \<Rightarrow> exchange_error + claims" where
  "delegation_claims V decision delegation tok =
     (case delegation of
        None \<Rightarrow>
          set_opt_claim V ''delegation_depth'' (map_of (pd_claims decision) ''delegation_depth'') tok
      | Some dc \<Rightarrow>
          let newDepth = (if dc_depth dc < 0 then -1 else dc_depth dc - 1)
          in rbind
               (if 0 \<le> newDepth then set_claim V ''delegation_depth'' (JNum (of_int newDepth)) tok
                else Inr tok)
               (set_claim V ''obo'' (JArr (buildOBOChain dc))))"

definition identity_claims ::
  "('signer, 'key, 'pub, 'alg, 'raw) exchange_env \<Rightarrow> 'key engine \<Rightarrow> token_exchange_request
   \<Rightarrow> workload_identity \<Rightarrow> policy_decision \<Rightarrow> delegation_context option
   \<Rightarrow> execution_scope option \<Rightarrow> exchange_error + claims" where
  "identity_claims V e req workload decision delegation execScope =
     (if \<not> ev_build_ok V then Inl EBuildToken
      else
        rbind (set_claim V ''td'' (JStr (wi_trust_domain workload))
                 (base_claims e req workload (ev_sign_now V) (token_ttl e execScope))) (\<lambda>t1.
        rbind (set_opt_claim V ''caps'' (map_of (pd_claims decision) ''caps'') t1) (\<lambda>t2.
        rbind (set_opt_claim V ''blast_radius'' (map_of (pd_claims decision) ''blast_radius'') t2)
          (delegation_claims V decision delegation))))"

definition attestation_claims :: "server_attestation \<Rightarrow> json" where
  "attestation_claims att =
     JObj
      ([(''platform'', JObj [(''source'', JStr (ap_source (att_platform att))),
                             (''cred_type'', JStr (ap_cred_type (att_platform att)))]),
        (''agent_version'', JStr (att_agent_version att))]
       @ (case att_workload att of
            None \<Rightarrow> []
          | Some w \<Rightarrow>
              let wl = nonempty_field ''binary_hash'' (aw_binary_hash w)
                       @ nonempty_field ''namespace'' (aw_namespace w)
              in if 0 < length wl then [(''workload'', JObj wl)] else []))"

definition binding_claims ::
  "('signer, 'key, 'pub, 'alg, 'raw) exchange_env \<Rightarrow> 'key engine \<Rightarrow> token_exchange_request
   \<Rightarrow> string option \<Rightarrow> claims \<Rightarrow> exchange_error + claims" where
  "binding_claims V e req dpop tok =
     rbind (set_opt_claim V ''cnf'' (map_option (\<lambda>tp. JObj [(''jkt'', JStr tp)]) dpop) tok) (\<lambda>t1.
       case rq_attestation req of
         None \<Rightarrow> Inr t1
       | Some att \<Rightarrow>
           rbind (set_claim V ''assurance_level'' (JStr (attestationAssurance e att)) t1)
             (set_claim V ''attestation'' (attestation_claims att)))"

definition scope_claims ::
  "('signer, 'key, 'pub, 'alg, 'raw) exchange_env \<Rightarrow> execution_scope option \<Rightarrow> claims
   \<Rightarrow> exchange_error + claims" where
  "scope_claims V execScope tok =
     (case execScope of
        None \<Rightarrow> Inr tok
      | Some scope \<Rightarrow>
          let inpHash = (if xs_input_hash scope = '''' then xs_payload_hash scope
                         else xs_input_hash scope)
          in rbind (set_claim V ''htm'' (JStr (xs_method scope)) tok) (\<lambda>t1.
             rbind (set_claim V ''htu'' (JStr (xs_uri scope)) t1) (\<lambda>t2.
             rbind (set_str_claim V ''inp_hash'' inpHash t2) (\<lambda>t3.
             rbind (set_str_claim V ''exec_act'' (xs_exec_act scope) t3) (\<lambda>t4.
             rbind (set_str_claim V ''target'' (xs_target scope) t4) (\<lambda>t5.
             rbind (set_str_claim V ''wid'' (xs_workflow_id scope) t5)
               (set_claim V ''nonce'' (JStr (xs_nonce scope)))))))))"

definition token_claims ::
  "('signer, 'key, 'pub, 'alg, 'raw) exchange_env \<Rightarrow> 'key engine \<Rightarrow> token_exchange_request
   \<Rightarrow> workload_identity \<Rightarrow> policy_decision \<Rightarrow> delegation_context option \<Rightarrow> string option
   \<Rightarrow> execution_scope option \<Rightarrow> string \<Rightarrow> exchange_error + claims" where
  "token_claims V e req workload decision delegation dpop execScope secretsClaim =
     rbind (identity_claims V e req workload decision delegation execScope) (\<lambda>t1.
     rbind (binding_claims V e req dpop t1) (\<lambda>t2.
     rbind (scope_claims V execScope t2)
       (set_str_claim V ''secrets'' secretsClaim)))"

definition active_key :: "'key engine \<Rightarrow> 'key option" where
  "active_key e = (case en_keyring e of None \<Rightarrow> en_sign_key e | Some kr \<Rightarrow> ActiveKey kr)"

definition ex_sign ::
  "('signer, 'key, 'pub, 'alg, 'raw) exchange_env \<Rightarrow> 'key engine \<Rightarrow> claims
   \<Rightarrow> exchange_error + string" where
  "ex_sign V e tok =
     (case ev_sign V (active_key e) tok of Inl err \<Rightarrow> Inl (ESignToken err) | Inr signedTok \<Rightarrow> Inr signedTok)"

section \<open>Stages 7 to 10: audit, signal, callback, response\<close>

definition ex_audit_allow ::
  "token_exchange_request \<Rightarrow> workload_identity \<Rightarrow> string \<Rightarrow> unit exchange_stage" where
  "ex_audit_allow req workload secretsClaim =
     log_audit (audit_lit ''exchange'' ''token_exchange'' (wi_id workload) (rq_audience req)
       ''allowed'' ''''
       (if secretsClaim \<noteq> '''' then [(''secret_delivery'', JStr ''ok'')] else []))"

definition identity_signal :: "token_exchange_request \<Rightarrow> workload_identity \<Rightarrow> signal" where
  "identity_signal req workload =
     \<lparr>sg_type = ''identity_event'', sg_source = '''', sg_timestamp = 0,
      sg_payload = [(''workload_id'', JStr (wi_id workload)),
                    (''audience'', JStr (rq_audience req)),
                    (''trust_domain'', JStr (wi_trust_domain workload))]\<rparr>"

definition ex_flash ::
  "'key engine \<Rightarrow> token_exchange_request \<Rightarrow> workload_identity \<Rightarrow> unit exchange_stage" where
  "ex_flash e req workload =
     (case en_sync_bus e of
        None \<Rightarrow> sreturn ()
      | Some flash \<Rightarrow>
          let sig = identity_signal req workload
          in sbind (smodify (\<lambda>s. s\<lparr>xt_signals := xt_signals s @ [sig]\<rparr>)) (\<lambda>_.
             case flash sig of
               Some err \<Rightarrow>
                 log_audit (audit_lit ''sync'' ''signal_flash_failed'' (wi_id workload)
                   (rq_audience req) '''' err [])
             | None \<Rightarrow>
                 log_audit (audit_lit ''sync'' ''signal_flashed'' (wi_id workload)
                   (rq_audience req) '''' '''' [])))"

definition ex_response ::
  "'key engine \<Rightarrow> token_exchange_request \<Rightarrow> delegation_context option \<Rightarrow> execution_scope option
   \<Rightarrow> string \<Rightarrow> token_exchange_response" where
  "ex_response e req delegation execScope signedTok =
     \<lparr>rs_access_token = signedTok, rs_issued_token_type = subjectTokenTypeJWT,
      rs_token_type = ''Bearer'', rs_expires_in = whole_seconds (token_ttl e execScope),
      rs_scope = rq_scope req,
      rs_delegation_depth =
        (case delegation of None \<Rightarrow> 0 | Some dc \<Rightarrow> int (length (dc_obo_chain dc)) + 1)\<rparr>"

section \<open>The exchange\<close>

text \<open>The part of \<open>Exchange\<close> after all checks have passed.\<close>

definition ex_mint ::
  "('signer, 'key, 'pub, 'alg, 'raw) exchange_env \<Rightarrow> 'key engine \<Rightarrow> token_exchange_request
   \<Rightarrow> workload_identity \<Rightarrow> policy_decision \<Rightarrow> delegation_context option \<Rightarrow> string option
   \<Rightarrow> execution_scope option \<Rightarrow> token_exchange_response exchange_stage" where
  "ex_mint V e req workload decision delegation dpop execScope =
     sbind (ex_secrets V e workload decision) (\<lambda>secretsClaim.
     sbind (slift (rbind (token_claims V e req workload decision delegation dpop execScope
                            secretsClaim) (ex_sign V e))) (\<lambda>signedTok.
     sbind (ex_audit_allow req workload secretsClaim) (\<lambda>_.
     sbind (ex_flash e req workload) (\<lambda>_.
     sbind (fire (en_on_exchange e) (OnExchange (wi_id workload) (rq_audience req) ''ok'')) (\<lambda>_.
     sreturn (ex_response e req delegation execScope signedTok))))))"

definition Exchange ::
  "('signer, 'key, 'pub, 'alg, 'raw) exchange_env \<Rightarrow> 'key engine \<Rightarrow> token_exchange_request
   \<Rightarrow> token_exchange_response exchange_stage" where
  "Exchange V e req =
     sbind (ex_validate_workload e req) (\<lambda>(credType, workload).
     sbind (ex_check_revocation e req workload) (\<lambda>_.
     sbind (ex_attestation V e req workload) (\<lambda>_.
     sbind (ex_evaluate_policy e req credType workload) (\<lambda>decision.
     sbind (ex_delegation V e req workload decision) (\<lambda>delegation.
     sbind (ex_dpop V req) (\<lambda>dpop.
     sbind (ex_execution_scope V req) (\<lambda>execScope.
     ex_mint V e req workload decision delegation dpop execScope)))))))"

end
