(* ===== verification/Revocation.thy ===== *)
theory Revocation
  imports Core_Types
begin

text \<open>
  \<open>src/pkg/signals/revocation.go\<close>: the in-memory revocation index that the exchange engine
  asks on every exchange and that the signal receiver and the federation write. Its
  contract, \<open>core.RevocationIndex\<close>, is the locale \<open>revocation_index\<close>: revocation entries
  are visible until they expire, expiry does not depend on clean-up, and the exported
  snapshot is independent of the order in which the map is visited. \<open>encoding/json\<close> and
  SHA-256 are the parameter \<open>codec\<close>.
\<close>

section \<open>Model\<close>

record snapshot_codec =
  sd_marshal_entries :: "revocation_entry list \<Rightarrow> string option"
  sd_marshal_snapshot :: "revocation_snapshot \<Rightarrow> string option"
  sd_unmarshal_snapshot :: "string \<Rightarrow> revocation_snapshot option"
  sd_sha256_hex :: "string \<Rightarrow> string"

datatype revocation_error =
    SubjectIdEmpty
  | MarshalEntries
  | MarshalSnapshot
  | UnmarshalSnapshot
  | IntegrityCheckFailed string string

type_synonym revocation_map = "(string, revocation_entry) gomap"

definition NewRevocationIndex :: revocation_map where
  "NewRevocationIndex = []"

definition Revoke ::
  "go_time \<Rightarrow> string \<Rightarrow> string \<Rightarrow> go_time \<Rightarrow> revocation_map
   \<Rightarrow> revocation_error option \<times> revocation_map" where
  "Revoke now subjectID reason expiresAt idx =
     (if subjectID = '''' then (Some SubjectIdEmpty, idx)
      else (None, AList.update subjectID
        \<lparr>re_subject_id = subjectID, re_reason = reason, re_revoked_at = now,
         re_expires_at = expiresAt, re_event_jti = ''''\<rparr> idx))"

definition entry_expired :: "go_time \<Rightarrow> revocation_entry \<Rightarrow> bool" where
  "entry_expired now e \<longleftrightarrow> \<not> time_is_zero (re_expires_at e) \<and> time_after now (re_expires_at e)"

definition IsRevoked :: "go_time \<Rightarrow> string \<Rightarrow> revocation_map \<Rightarrow> revocation_entry option" where
  "IsRevoked now subjectID idx =
     (case map_of idx subjectID of
        None \<Rightarrow> None
      | Some entry \<Rightarrow> if entry_expired now entry then None else Some entry)"

definition Revocation_Cleanup :: "go_time \<Rightarrow> revocation_map \<Rightarrow> nat \<times> revocation_map" where
  "Revocation_Cleanup now idx =
     (length (filter (\<lambda>(k, e). entry_expired now e) idx),
      filter (\<lambda>(k, e). \<not> entry_expired now e) idx)"

definition Revocation_Len :: "revocation_map \<Rightarrow> nat" where
  "Revocation_Len idx = length idx"

definition snapshot_hash :: "snapshot_codec \<Rightarrow> string \<Rightarrow> string" where
  "snapshot_hash C s = ''sha256:'' @ sd_sha256_hex C s"

definition Revocation_Export ::
  "snapshot_codec \<Rightarrow> go_time \<Rightarrow> revocation_map \<Rightarrow> revocation_error + string" where
  "Revocation_Export C now idx =
     (let entries = sort_key re_subject_id
                      (map snd (filter (\<lambda>(k, e). \<not> entry_expired now e) idx))
      in case sd_marshal_entries C entries of
           None \<Rightarrow> Inl MarshalEntries
         | Some entriesJSON \<Rightarrow>
             case sd_marshal_snapshot C
                    \<lparr>rv_entries = entries, rv_count = int (length entries),
                     rv_hash = snapshot_hash C entriesJSON\<rparr> of
               None \<Rightarrow> Inl MarshalSnapshot
             | Some out \<Rightarrow> Inr out)"

fun merge_entries :: "revocation_entry list \<Rightarrow> revocation_map \<Rightarrow> revocation_map" where
  "merge_entries [] idx = idx"
| "merge_entries (e # es) idx =
     merge_entries es
       (if map_of idx (re_subject_id e) = None then AList.update (re_subject_id e) e idx else idx)"

definition Revocation_Import ::
  "snapshot_codec \<Rightarrow> string \<Rightarrow> revocation_map \<Rightarrow> revocation_error option \<times> revocation_map" where
  "Revocation_Import C data idx =
     (case sd_unmarshal_snapshot C data of
        None \<Rightarrow> (Some UnmarshalSnapshot, idx)
      | Some payload \<Rightarrow>
          case sd_marshal_entries C (rv_entries payload) of
            None \<Rightarrow> (Some MarshalEntries, idx)
          | Some entriesJSON \<Rightarrow>
              let expectedHash = snapshot_hash C entriesJSON
              in if rv_hash payload \<noteq> expectedHash
                 then (Some (IntegrityCheckFailed expectedHash (rv_hash payload)), idx)
                 else (None, merge_entries (rv_entries payload) idx))"

definition Revocation_Hash :: "snapshot_codec \<Rightarrow> revocation_map \<Rightarrow> string" where
  "Revocation_Hash C idx =
     (case sd_marshal_entries C (sort_key re_subject_id (map snd idx)) of
        None \<Rightarrow> ''''
      | Some out \<Rightarrow> snapshot_hash C out)"

section \<open>Invariant\<close>

text \<open>Keys are distinct and every entry is filed under its own subject.\<close>

definition revocation_ok :: "revocation_map \<Rightarrow> bool" where
  "revocation_ok idx \<longleftrightarrow> gomap_wf idx \<and> (\<forall>(k, e) \<in> set idx. re_subject_id e = k)"

lemma revocation_ok_New: "revocation_ok NewRevocationIndex"
  by (simp add: revocation_ok_def NewRevocationIndex_def)

lemma revocation_ok_update:
  "revocation_ok idx \<Longrightarrow> re_subject_id e = k \<Longrightarrow> revocation_ok (AList.update k e idx)"
proof -
  assume ok: "revocation_ok idx" and k: "re_subject_id e = k"
  have "set (AList.update k e idx) \<subseteq> insert (k, e) (set idx)"
    by (induction idx) auto
  with ok k show ?thesis by (fastforce simp: revocation_ok_def)
qed

lemma revocation_ok_Revoke: "revocation_ok idx \<Longrightarrow> revocation_ok (snd (Revoke now s r x idx))"
  by (simp add: Revoke_def revocation_ok_update)

lemma revocation_ok_filter: "revocation_ok idx \<Longrightarrow> revocation_ok (filter P idx)"
  by (auto simp: revocation_ok_def)

lemma revocation_ok_Cleanup: "revocation_ok idx \<Longrightarrow> revocation_ok (snd (Revocation_Cleanup now idx))"
  by (simp add: Revocation_Cleanup_def revocation_ok_filter)

lemma revocation_ok_merge: "revocation_ok idx \<Longrightarrow> revocation_ok (merge_entries es idx)"
  by (induction es idx rule: merge_entries.induct) (simp_all add: revocation_ok_update)

lemma revocation_ok_Import: "revocation_ok idx \<Longrightarrow> revocation_ok (snd (Revocation_Import C d idx))"
  by (auto simp: Revocation_Import_def Let_def revocation_ok_merge split: option.split)

lemma revocation_ok_subject:
  "revocation_ok idx \<Longrightarrow> map_of idx k = Some e \<Longrightarrow> re_subject_id e = k"
  by (auto simp: revocation_ok_def dest: map_of_SomeD)

section \<open>The interface of the engine and the receiver\<close>

locale revocation_index =
  fixes revoke :: "go_time \<Rightarrow> string \<Rightarrow> string \<Rightarrow> go_time \<Rightarrow> 'i \<Rightarrow> revocation_error option \<times> 'i"
    and is_revoked :: "go_time \<Rightarrow> string \<Rightarrow> 'i \<Rightarrow> revocation_entry option"
    and cleanup :: "go_time \<Rightarrow> 'i \<Rightarrow> nat \<times> 'i"
    and invar :: "'i \<Rightarrow> bool"
  assumes revoke_invar: "invar i \<Longrightarrow> invar (snd (revoke t s r x i))"
    and cleanup_invar: "invar i \<Longrightarrow> invar (snd (cleanup t i))"
    and revoke_ok: "fst (revoke t s r x i) = None \<longleftrightarrow> s \<noteq> ''''"
    and revoke_visible:
      "s \<noteq> '''' \<Longrightarrow> (x = 0 \<or> u \<le> x) \<Longrightarrow>
       \<exists>e. is_revoked u s (snd (revoke t s r x i)) = Some e \<and> re_reason e = r
         \<and> re_expires_at e = x"
    and revoke_expires:
      "s \<noteq> '''' \<Longrightarrow> x \<noteq> 0 \<Longrightarrow> x < u \<Longrightarrow> is_revoked u s (snd (revoke t s r x i)) = None"
    and revoke_other:
      "s' \<noteq> s \<Longrightarrow> is_revoked u s' (snd (revoke t s r x i)) = is_revoked u s' i"
    and cleanup_invisible:
      "invar i \<Longrightarrow> t \<le> u \<Longrightarrow> is_revoked u s (snd (cleanup t i)) = is_revoked u s i"
begin

text \<open>Operations on an index, each with the clock reading it takes.\<close>

fun apply_op :: "'i \<Rightarrow> (go_time \<times> (string \<times> string \<times> go_time) option) \<Rightarrow> 'i" where
  "apply_op i (t, Some (s, r, x)) = snd (revoke t s r x i)"
| "apply_op i (t, None) = snd (cleanup t i)"

fun apply_ops :: "'i \<Rightarrow> (go_time \<times> (string \<times> string \<times> go_time) option) list \<Rightarrow> 'i" where
  "apply_ops i [] = i"
| "apply_ops i (p # ps) = apply_ops (apply_op i p) ps"

lemma apply_ops_invar: "invar i \<Longrightarrow> invar (apply_ops i ps)"
proof (induction i ps rule: apply_ops.induct)
  case (2 i p ps)
  then show ?case
    by (cases p; cases "snd p") (auto simp: revoke_invar cleanup_invar)
qed simp

text \<open>
  A revocation stays visible, with its reason, until it expires, whatever else is
  revoked and however often the index is cleaned up in between, as long as the same
  subject is not revoked again.
\<close>

lemma revocation_persists:
  assumes "invar i" and "\<forall>(t, q) \<in> set ps. t \<le> u \<and> (\<forall>r x. q \<noteq> Some (s, r, x))"
  shows "is_revoked u s (apply_ops i ps) = is_revoked u s i"
  using assms
proof (induction i ps rule: apply_ops.induct)
  case (1 i)
  then show ?case by simp
next
  case (2 i p ps)
  obtain t q where p: "p = (t, q)" by fastforce
  have "invar (apply_op i p)" using 2(2) p by (cases q) (auto simp: revoke_invar cleanup_invar)
  with 2 have "is_revoked u s (apply_ops (apply_op i p) ps) = is_revoked u s (apply_op i p)"
    by auto
  also have "\<dots> = is_revoked u s i"
    using 2(2,3) p by (cases q) (auto simp: revoke_other cleanup_invisible)
  finally show ?case by simp
qed

end

lemma IsRevoked_Revoke:
  "IsRevoked u s' (snd (Revoke t s r x i)) =
     (if s' = s \<and> s \<noteq> '''' then
        if x \<noteq> 0 \<and> x < u then None
        else Some \<lparr>re_subject_id = s, re_reason = r, re_revoked_at = t, re_expires_at = x,
                   re_event_jti = ''''\<rparr>
      else IsRevoked u s' i)"
  by (auto simp: IsRevoked_def Revoke_def gomap_simps entry_expired_def time_is_zero_def
      time_after_def)

lemma IsRevoked_Cleanup:
  assumes "revocation_ok i" and "t \<le> u"
  shows "IsRevoked u s (snd (Revocation_Cleanup t i)) = IsRevoked u s i"
proof -
  have "entry_expired t e \<Longrightarrow> entry_expired u e" for e
    using assms(2) by (auto simp: entry_expired_def time_after_def)
  moreover have "gomap_wf i" using assms(1) by (simp add: revocation_ok_def)
  ultimately show ?thesis
    using map_of_filter [of i "\<lambda>k e. \<not> entry_expired t e" s]
    by (auto simp: IsRevoked_def Revocation_Cleanup_def split: option.splits)
qed

interpretation mem_index: revocation_index Revoke IsRevoked Revocation_Cleanup revocation_ok
proof unfold_locales
  fix t u s s' r x i
  show "revocation_ok i \<Longrightarrow> revocation_ok (snd (Revoke t s r x i))"
    by (rule revocation_ok_Revoke)
  show "revocation_ok i \<Longrightarrow> revocation_ok (snd (Revocation_Cleanup t i))"
    by (rule revocation_ok_Cleanup)
  show "fst (Revoke t s r x i) = None \<longleftrightarrow> s \<noteq> ''''"
    by (simp add: Revoke_def)
  show "s \<noteq> '''' \<Longrightarrow> x = 0 \<or> u \<le> x \<Longrightarrow> \<exists>e. IsRevoked u s (snd (Revoke t s r x i)) = Some e
    \<and> re_reason e = r \<and> re_expires_at e = x"
    by (auto simp: IsRevoked_Revoke)
  show "s \<noteq> '''' \<Longrightarrow> x \<noteq> 0 \<Longrightarrow> x < u \<Longrightarrow> IsRevoked u s (snd (Revoke t s r x i)) = None"
    by (simp add: IsRevoked_Revoke)
  show "s' \<noteq> s \<Longrightarrow> IsRevoked u s' (snd (Revoke t s r x i)) = IsRevoked u s' i"
    by (simp add: IsRevoked_Revoke)
  show "revocation_ok i \<Longrightarrow> t \<le> u \<Longrightarrow>
    IsRevoked u s (snd (Revocation_Cleanup t i)) = IsRevoked u s i"
    by (rule IsRevoked_Cleanup)
qed

section \<open>Snapshots\<close>

lemma map_of_merge:
  "map_of (merge_entries es idx) k =
     (case map_of idx k of Some e \<Rightarrow> Some e | None \<Rightarrow> find (\<lambda>e. re_subject_id e = k) es)"
  by (induction es idx rule: merge_entries.induct)
    (auto simp: gomap_simps split: option.splits)

text \<open>Maps with the same content have the same sorted entries, whatever their order.\<close>

lemma sorted_entries_eq:
  assumes "revocation_ok a" and "revocation_ok b" and "map_of a = map_of b"
  shows "sort_key re_subject_id (map snd a) = sort_key re_subject_id (map snd b)"
proof -
  have same: "set a = set b"
    using assms by (metis gomap_wf_def map_of_inject_set revocation_ok_def)
  have keys: "map re_subject_id (map snd c) = map fst c" if "revocation_ok c" for c
    using that by (auto simp: revocation_ok_def)
  have "distinct (map re_subject_id (map snd c))" if "revocation_ok c" for c
    using that by (simp only: keys [OF that] revocation_ok_def gomap_wf_def)
  then have da: "distinct (map re_subject_id (map snd a))"
    and db: "distinct (map re_subject_id (map snd b))"
    using assms by auto
  show ?thesis
  proof (rule map_sorted_distinct_set_unique [where f = re_subject_id])
    show "inj_on re_subject_id (set (sort_key re_subject_id (map snd a)) \<union>
      set (sort_key re_subject_id (map snd b)))"
      using da same by (simp add: distinct_map inj_on_imageI)
    show "sorted (map re_subject_id (sort_key re_subject_id (map snd a)))"
      "sorted (map re_subject_id (sort_key re_subject_id (map snd b)))" by simp_all
    show "distinct (map re_subject_id (sort_key re_subject_id (map snd a)))"
      "distinct (map re_subject_id (sort_key re_subject_id (map snd b)))"
      using da db by (auto simp: distinct_map inj_on_imageI intro: inj_on_imageI2)
    show "set (sort_key re_subject_id (map snd a)) = set (sort_key re_subject_id (map snd b))"
      using same by simp
  qed
qed

lemma map_of_filter_live:
  "revocation_ok a \<Longrightarrow> map_of (filter (\<lambda>(k, e). \<not> entry_expired now e) a) =
     (\<lambda>k. IsRevoked now k a)"
  using map_of_filter [of a "\<lambda>k e. \<not> entry_expired now e"]
  by (auto simp: IsRevoked_def revocation_ok_def split: option.split)

section \<open>Guarantees\<close>

text \<open>
  The snapshot of an index is a function of its content: two indexes with the same
  entries export the same bytes and have the same hash, in whatever order the maps are
  visited.
\<close>

theorem snapshot_order_independent:
  assumes "revocation_ok a" and "revocation_ok b" and "map_of a = map_of b"
  shows "Revocation_Export C now a = Revocation_Export C now b
    \<and> Revocation_Hash C a = Revocation_Hash C b"
proof -
  let ?live = "filter (\<lambda>(k, e). \<not> entry_expired now e)"
  have "sort_key re_subject_id (map snd (?live a)) = sort_key re_subject_id (map snd (?live b))"
  proof (rule sorted_entries_eq)
    show "revocation_ok (?live a)" "revocation_ok (?live b)"
      using assms by (simp_all add: revocation_ok_filter)
    show "map_of (?live a) = map_of (?live b)"
      using assms by (simp add: map_of_filter_live IsRevoked_def)
  qed
  then show ?thesis
    using sorted_entries_eq [OF assms] by (simp add: Revocation_Export_def Revocation_Hash_def)
qed

definition demo_entry :: "string \<Rightarrow> go_time \<Rightarrow> revocation_entry" where
  "demo_entry s x = \<lparr>re_subject_id = s, re_reason = ''r'', re_revoked_at = 1, re_expires_at = x,
     re_event_jti = ''''\<rparr>"

text \<open>A codec on two snapshots, for concrete instances.\<close>

definition demo_snapshot :: revocation_snapshot where
  "demo_snapshot = \<lparr>rv_entries = [demo_entry ''a'' 0], rv_count = 1, rv_hash = ''sha256:1''\<rparr>"

definition demo_codec :: snapshot_codec where
  "demo_codec =
     \<lparr>sd_marshal_entries = (\<lambda>es. Some (replicate (length es) CHR ''1'')),
      sd_marshal_snapshot = (\<lambda>s. if s = demo_snapshot then Some ''S'' else None),
      sd_unmarshal_snapshot = (\<lambda>d. if d = ''S'' then Some demo_snapshot else None),
      sd_sha256_hex = id\<rparr>"

theorem snapshot_order_independent_witness:
  "Revocation_Hash demo_codec [(''a'', demo_entry ''a'' 0), (''b'', demo_entry ''b'' 0)] =
   Revocation_Hash demo_codec [(''b'', demo_entry ''b'' 0), (''a'', demo_entry ''a'' 0)]"
  using snapshot_order_independent [of "[(''a'', demo_entry ''a'' 0), (''b'', demo_entry ''b'' 0)]"
      "[(''b'', demo_entry ''b'' 0), (''a'', demo_entry ''a'' 0)]"]
  by (simp add: revocation_ok_def gomap_wf_def demo_entry_def fun_upd_twist)

lemma find_unique_subject:
  assumes "distinct (map re_subject_id es)" and "e \<in> set es"
  shows "find (\<lambda>x. re_subject_id x = re_subject_id e) es = Some e"
  using assms by (induction es) (auto simp: rev_image_eqI)

lemma find_live_subject:
  assumes "revocation_ok a"
  shows "find (\<lambda>e. re_subject_id e = k) (sort_key re_subject_id (map snd
      (filter (\<lambda>(k, e). \<not> entry_expired now e) a))) = IsRevoked now k a"
    (is "find _ ?es = _")
proof -
  let ?live = "filter (\<lambda>(k, e). \<not> entry_expired now e) a"
  have ok: "revocation_ok ?live" using assms by (rule revocation_ok_filter)
  have keys: "map re_subject_id (map snd ?live) = map fst ?live"
    using ok by (auto simp: revocation_ok_def)
  have "distinct (map re_subject_id (map snd ?live))"
    using ok by (simp only: keys revocation_ok_def gomap_wf_def)
  then have dist: "distinct (map re_subject_id ?es)"
    by (auto simp: distinct_map inj_on_imageI intro: inj_on_imageI2)
  have look: "map_of ?live k = IsRevoked now k a"
    using map_of_filter_live [OF assms, of now] by (simp add: fun_eq_iff)
  show ?thesis
  proof (cases "IsRevoked now k a")
    case None
    then have "k \<notin> fst ` set ?live" using look by (simp add: map_of_eq_None_iff)
    then have "\<forall>e \<in> set ?es. re_subject_id e \<noteq> k"
      using ok by (force simp: revocation_ok_def)
    then show ?thesis using None by (auto simp: find_None_iff)
  next
    case (Some e)
    then have e: "map_of ?live k = Some e" using look by simp
    then have "re_subject_id e = k" using revocation_ok_subject [OF ok] by simp
    moreover have "e \<in> set ?es" using map_of_SomeD [OF e] by (force simp: image_iff)
    ultimately show ?thesis using find_unique_subject [OF dist] Some by auto
  qed
qed

lemma import_of_export:
  assumes "revocation_ok a" and "Revocation_Export C now a = Inr data"
    and codec: "\<And>s out. sd_marshal_snapshot C s = Some out \<Longrightarrow> sd_unmarshal_snapshot C out = Some s"
  shows "\<exists>b. Revocation_Import C data NewRevocationIndex = (None, b) \<and> (\<forall>k. map_of b k = IsRevoked now k a)"
proof -
  let ?es = "sort_key re_subject_id (map snd (filter (\<lambda>(k, e). \<not> entry_expired now e) a))"
  from assms(2) obtain js where js: "sd_marshal_entries C ?es = Some js"
    and out: "sd_marshal_snapshot C \<lparr>rv_entries = ?es, rv_count = int (length ?es),
                     rv_hash = snapshot_hash C js\<rparr> = Some data"
    by (auto simp: Revocation_Export_def Let_def split: option.splits)
  have imp: "Revocation_Import C data NewRevocationIndex = (None, merge_entries ?es [])"
    by (simp add: Revocation_Import_def codec [OF out] js NewRevocationIndex_def)
  have "map_of (merge_entries ?es []) k = IsRevoked now k a" for k
    using map_of_merge [of ?es "[]" k] find_live_subject [OF assms(1), of k now] by simp
  with imp show ?thesis by blast
qed

text \<open>What is alive at an instant decides every later query.\<close>

lemma live_later:
  assumes "\<forall>k. map_of b k = IsRevoked now k a" and "now \<le> u"
  shows "IsRevoked u k b = IsRevoked u k a"
  using assms by (fastforce simp: IsRevoked_def entry_expired_def time_after_def split: option.splits if_splits)

text \<open>
  A snapshot carries the revocations over: importing what an index exported into an
  empty index succeeds and answers every query as the exporting index did at that moment,
  with the same entry. The hypothesis on the codec is that JSON decoding inverts encoding.
\<close>

theorem snapshot_roundtrip:
  assumes "revocation_ok a" and "Revocation_Export C now a = Inr data"
    and codec: "\<And>s out. sd_marshal_snapshot C s = Some out \<Longrightarrow> sd_unmarshal_snapshot C out = Some s"
  shows "\<exists>b. Revocation_Import C data NewRevocationIndex = (None, b)
    \<and> (\<forall>k. IsRevoked now k b = IsRevoked now k a)"
  using import_of_export [OF assms] live_later [OF _ order_refl] by blast

theorem snapshot_roundtrip_witness:
  "\<exists>b. Revocation_Import demo_codec ''S'' NewRevocationIndex = (None, b)
    \<and> (\<forall>k. IsRevoked 5 k b = IsRevoked 5 k [(''a'', demo_entry ''a'' 0)])"
proof (rule snapshot_roundtrip)
  show "revocation_ok [(''a'', demo_entry ''a'' 0)]"
    by (simp add: revocation_ok_def gomap_wf_def demo_entry_def)
  show "Revocation_Export demo_codec 5 [(''a'', demo_entry ''a'' 0)] = Inr ''S''" by code_simp
qed (auto simp: demo_codec_def split: if_splits)

text \<open>
  Importing a snapshot never lifts a revocation, and a snapshot that does not decode or
  fails its integrity check changes nothing.
\<close>

theorem import_never_unrevokes:
  assumes "Revocation_Import C data idx = (r, idx')"
  shows "(r \<noteq> None \<longrightarrow> idx' = idx)
    \<and> (\<forall>u k e. IsRevoked u k idx = Some e \<longrightarrow> IsRevoked u k idx' = Some e)"
proof -
  have "r \<noteq> None \<longrightarrow> idx' = idx"
    using assms by (auto simp: Revocation_Import_def Let_def split: option.splits if_splits)
  moreover have "idx' = idx \<or> (\<exists>es. idx' = merge_entries es idx)"
    using assms by (auto simp: Revocation_Import_def Let_def split: option.splits if_splits)
  then have "IsRevoked u k idx' = Some e" if "IsRevoked u k idx = Some e" for u k e
    using that by (auto simp: IsRevoked_def map_of_merge split: option.splits if_splits)
  ultimately show ?thesis by blast
qed

theorem import_never_unrevokes_witness:
  "IsRevoked 5 ''b'' (snd (Revocation_Import demo_codec ''S'' [(''b'', demo_entry ''b'' 9)]))
   = Some (demo_entry ''b'' 9)"
proof -
  have "IsRevoked 5 ''b'' [(''b'', demo_entry ''b'' 9)] = Some (demo_entry ''b'' 9)" by code_simp
  then show ?thesis
    using import_never_unrevokes [of demo_codec "''S''" "[(''b'', demo_entry ''b'' 9)]"]
    by (metis prod.collapse)
qed

text \<open>
  An expired entry that has not been cleaned up hides an imported revocation: the
  import succeeds, the snapshot revokes the subject without expiry, and the subject is
  still not revoked afterwards.
\<close>

theorem expired_entry_masks_import:
  "\<exists>idx'. Revocation_Import demo_codec ''S'' [(''a'', demo_entry ''a'' 3)] = (None, idx')
     \<and> sd_unmarshal_snapshot demo_codec ''S'' = Some demo_snapshot
     \<and> demo_entry ''a'' 0 \<in> set (rv_entries demo_snapshot)
     \<and> IsRevoked 5 ''a'' [(''a'', demo_entry ''a'' 3)] = None \<and> IsRevoked 5 ''a'' idx' = None"
proof -
  let ?r = "Revocation_Import demo_codec ''S'' [(''a'', demo_entry ''a'' 3)]"
  have "fst ?r = None" "sd_unmarshal_snapshot demo_codec ''S'' = Some demo_snapshot"
    "demo_entry ''a'' 0 \<in> set (rv_entries demo_snapshot)"
    "IsRevoked 5 ''a'' [(''a'', demo_entry ''a'' 3)] = None" "IsRevoked 5 ''a'' (snd ?r) = None"
    by code_simp+
  then show ?thesis by (metis prod.collapse)
qed

end
