(* ===== verification/Engine_Props.thy ===== *)
theory Engine_Props
  imports Engine Revocation
begin

text \<open>
  What \<open>Exchange\<close> guarantees. First the observations each stage keeps (the effects of an
  issued token, the nonces), then the inversion of a successful exchange into the checks it
  passed and the claims it signed, then the properties.
\<close>

section \<open>What the stages keep\<close>

text \<open>The allow records of the audit log: one for every token issued.\<close>

definition is_allow_record :: "audit_event \<Rightarrow> bool" where
  "is_allow_record ev \<longleftrightarrow> au_action ev = ''token_exchange'' \<and> au_decision ev = ''allowed''"

definition allow_records :: "exchange_state \<Rightarrow> audit_event list" where
  "allow_records s = filter is_allow_record (xt_audit s)"

definition exchange_callbacks :: "exchange_state \<Rightarrow> callback list" where
  "exchange_callbacks s =
     filter (\<lambda>cb. case cb of OnExchange _ _ _ \<Rightarrow> True | _ \<Rightarrow> False) (xt_callbacks s)"

text \<open>Everything an issued token leaves behind: allow records, signals, callbacks.\<close>

definition issued ::
  "exchange_state \<Rightarrow> audit_event list \<times> signal list \<times> callback list" where
  "issued s = (allow_records s, xt_signals s, exchange_callbacks s)"

lemmas issued_defs = issued_def allow_records_def exchange_callbacks_def

lemma keeps_log_audit [keeps_rules]:
  "keeps xt_nonces (log_audit ev)"
  "\<not> is_allow_record ev \<Longrightarrow> keeps issued (log_audit ev)"
  unfolding log_audit_def by (rule keeps_smodify; simp add: issued_defs)+

lemma keeps_fire [keeps_rules]: "keeps xt_nonces (fire b cb)"
  unfolding fire_def by (auto intro!: keeps_smodify keeps_sreturn)

lemma keeps_fire_other [keeps_rules]:
  "keeps issued (fire b OnRevocationError)" "keeps issued (fire b (OnSecretDelivery x y))"
  unfolding fire_def by (auto simp: issued_defs intro!: keeps_smodify keeps_sreturn)

lemma not_allow_record [simp]:
  "dec \<noteq> ''allowed'' \<Longrightarrow> \<not> is_allow_record (audit_lit ty act sub tgt dec rsn md)"
  "act \<noteq> ''token_exchange'' \<Longrightarrow> \<not> is_allow_record (audit_lit ty act sub tgt dec rsn md)"
  by (simp_all add: is_allow_record_def)

lemma allow_record [simp]:
  "is_allow_record (audit_lit ty ''token_exchange'' sub tgt ''allowed'' rsn md)"
  by (simp add: is_allow_record_def)

lemma keeps_deny [keeps_rules]:
  "keeps xt_nonces (deny req act wid rsn err)" "keeps issued (deny req act wid rsn err)"
  unfolding deny_def by (auto intro!: keeps_rules)

lemmas stage_defs =
  ex_validate_workload_def ex_check_revocation_def ex_attestation_def ex_evaluate_policy_def
  ex_delegation_def ex_dpop_def

lemma keeps_issued_checks [keeps_rules]:
  "keeps issued (ex_validate_workload e req)"
  "keeps issued (ex_check_revocation e req w)"
  "keeps issued (ex_attestation V e req w)"
  "keeps issued (ex_evaluate_policy e req c w)"
  "keeps issued (ex_delegation V e req w d)"
  "keeps issued (ex_dpop V req)"
  by (auto simp: stage_defs intro!: keeps_rules split: sum.split option.split)

lemma keeps_nonces_checks [keeps_rules]:
  "keeps xt_nonces (ex_validate_workload e req)"
  "keeps xt_nonces (ex_check_revocation e req w)"
  "keeps xt_nonces (ex_attestation V e req w)"
  "keeps xt_nonces (ex_evaluate_policy e req c w)"
  "keeps xt_nonces (ex_delegation V e req w d)"
  "keeps xt_nonces (ex_dpop V req)"
  by (auto simp: stage_defs intro!: keeps_rules split: sum.split option.split)

lemma keeps_issued_scope [keeps_rules]: "keeps issued (ex_execution_scope V req)"
  by (auto simp: ex_execution_scope_def issued_defs intro!: keeps_rules keepsI
      split: option.split prod.split)

lemma keeps_secrets [keeps_rules]:
  "keeps issued (ex_secrets V e w d)" "keeps xt_nonces (ex_secrets V e w d)"
  by (auto simp: ex_secrets_def deliverSecrets_def Let_def intro!: keeps_rules
      split: sum.split option.split)

text \<open>
  Secret delivery never fails an exchange; what it adds to the token does not depend on the
  state.
\<close>

definition delivered_secrets ::
  "('signer, 'key, 'pub, 'alg, 'raw) exchange_env \<Rightarrow> 'key engine \<Rightarrow> workload_identity
   \<Rightarrow> policy_decision \<Rightarrow> string" where
  "delivered_secrets V e w d =
     (case (en_secret_source e, en_encryption_keys e) of
        (Some reg, Some get) \<Rightarrow>
          if secret_refs d = [] then ''''
          else (case (get (wi_id w), Registry_Fetch (ev_visit V) reg (secret_refs d)) of
                  (Inr key, Inr bundle) \<Rightarrow>
                    (case ev_encrypt V bundle key of None \<Rightarrow> '''' | Some jwe \<Rightarrow> jwe)
                | _ \<Rightarrow> '''')
      | _ \<Rightarrow> '''')"

lemma fst_fire [simp]: "fst (fire b cb s) = Inr ()"
  by (simp add: fire_def stage_simps)

lemma fst_sbind_Inr_iff:
  "fst (sbind m f s) = Inr b \<longleftrightarrow>
     (\<exists>a. fst (m s) = Inr a \<and> fst (f a (snd (m s))) = Inr b)"
  by (auto simp: sbind_def split: prod.split sum.split)

lemma ex_unit_eq: "(\<exists>a::unit. P a) \<longleftrightarrow> P ()"
  by (metis (full_types) unit.exhaust)

lemma fst_ex_secrets: "fst (ex_secrets V e w d s) = Inr (delivered_secrets V e w d)"
  by (auto simp: ex_secrets_def deliverSecrets_def delivered_secrets_def Let_def stage_simps
      fst_sbind_Inr_iff split: sum.split option.split)

lemma ex_secrets_Inr: "\<exists>s'. ex_secrets V e w d s = (Inr (delivered_secrets V e w d), s')"
  using fst_ex_secrets by (metis prod.collapse)

section \<open>The effects of an issued token\<close>

definition allow_event ::
  "token_exchange_request \<Rightarrow> workload_identity \<Rightarrow> string \<Rightarrow> audit_event" where
  "allow_event req w sec =
     audit_lit ''exchange'' ''token_exchange'' (wi_id w) (rq_audience req) ''allowed'' ''''
       (if sec \<noteq> '''' then [(''secret_delivery'', JStr ''ok'')] else [])"

definition issue_effect ::
  "'key engine \<Rightarrow> token_exchange_request \<Rightarrow> workload_identity \<Rightarrow> string
   \<Rightarrow> audit_event list \<times> signal list \<times> callback list
   \<Rightarrow> audit_event list \<times> signal list \<times> callback list" where
  "issue_effect e req w sec i =
     (case i of (a, g, c) \<Rightarrow>
        (a @ [allow_event req w sec],
         g @ (if en_sync_bus e = None then [] else [identity_signal req w]),
         c @ (if en_on_exchange e then [OnExchange (wi_id w) (rq_audience req) ''ok''] else [])))"

lemma issued_after_allow:
  "ex_audit_allow req w sec s = (Inr (), s\<lparr>xt_audit := xt_audit s @ [allow_event req w sec]\<rparr>)"
  by (simp add: ex_audit_allow_def log_audit_def allow_event_def stage_simps)

lemma allow_event_is_record [simp]: "is_allow_record (allow_event req w sec)"
  by (simp add: allow_event_def)

lemma ex_flash_Inr:
  "\<exists>s'. ex_flash e req w s = (Inr (), s') \<and> allow_records s' = allow_records s
     \<and> xt_callbacks s' = xt_callbacks s \<and> xt_nonces s' = xt_nonces s
     \<and> xt_signals s' =
         xt_signals s @ (if en_sync_bus e = None then [] else [identity_signal req w])"
  by (auto simp: ex_flash_def Let_def log_audit_def stage_simps sbind_def issued_defs
      split: option.split)

lemma mint_tail:
  "\<exists>s'. sbind (ex_audit_allow req w sec) (\<lambda>_. sbind (ex_flash e req w) (\<lambda>_.
      sbind (fire (en_on_exchange e) (OnExchange (wi_id w) (rq_audience req) ''ok'')) (\<lambda>_.
      sreturn r))) s = (Inr r, s')
    \<and> issued s' = issue_effect e req w sec (issued s) \<and> xt_nonces s' = xt_nonces s"
proof -
  let ?s1 = "s\<lparr>xt_audit := xt_audit s @ [allow_event req w sec]\<rparr>"
  obtain s2 where s2: "ex_flash e req w ?s1 = (Inr (), s2)"
    "allow_records s2 = allow_records ?s1" "xt_callbacks s2 = xt_callbacks s"
    "xt_nonces s2 = xt_nonces s"
    "xt_signals s2 = xt_signals s @ (if en_sync_bus e = None then [] else [identity_signal req w])"
    using ex_flash_Inr [of e req w ?s1] by auto
  show ?thesis
    using s2 by (simp add: sbind_def issued_after_allow fire_def stage_simps issued_defs
        issue_effect_def)
qed

lemma ex_mint_outcome:
  fixes V e req w d dl dp sc s
  defines "sec \<equiv> delivered_secrets V e w d"
  obtains (failed) err s' where
      "rbind (token_claims V e req w d dl dp sc sec) (ex_sign V e) = Inl err"
      "ex_mint V e req w d dl dp sc s = (Inl err, s')" "issued s' = issued s"
  | (minted) tok str s' where
      "token_claims V e req w d dl dp sc sec = Inr tok" "ex_sign V e tok = Inr str"
      "ex_mint V e req w d dl dp sc s = (Inr (ex_response e req dl sc str), s')"
      "issued s' = issue_effect e req w sec (issued s)" "xt_nonces s' = xt_nonces s"
proof -
  obtain s1 where s1: "ex_secrets V e w d s = (Inr sec, s1)"
    using ex_secrets_Inr sec_def by blast
  have i1: "issued s1 = issued s" "xt_nonces s1 = xt_nonces s"
    using keepsD [OF keeps_secrets(1) s1] keepsD [OF keeps_secrets(2) s1] by simp_all
  show thesis
  proof (cases "rbind (token_claims V e req w d dl dp sc sec) (ex_sign V e)")
    case (Inl err)
    with s1 i1 show ?thesis
      by (intro failed [of err s1]) (simp_all add: ex_mint_def stage_simps sbind_def)
  next
    case (Inr str)
    then obtain tok where tok: "token_claims V e req w d dl dp sc sec = Inr tok"
      "ex_sign V e tok = Inr str" by (auto simp: rbind_Inr_iff)
    obtain s' where "sbind (ex_audit_allow req w sec) (\<lambda>_. sbind (ex_flash e req w) (\<lambda>_.
      sbind (fire (en_on_exchange e) (OnExchange (wi_id w) (rq_audience req) ''ok'')) (\<lambda>_.
      sreturn (ex_response e req dl sc str)))) s1 = (Inr (ex_response e req dl sc str), s')"
      "issued s' = issue_effect e req w sec (issued s1)" "xt_nonces s' = xt_nonces s1"
      using mint_tail [of req w sec e "ex_response e req dl sc str" s1] by auto
    with s1 i1 Inr tok show ?thesis
      by (intro minted [of tok str s'])
        (simp_all add: ex_mint_def sbind_def slift_apply)
  qed
qed

section \<open>Failed exchanges leave nothing behind\<close>

definition keeps_Inl :: "('s \<Rightarrow> 'o) \<Rightarrow> ('s, 'e, 'a) stage \<Rightarrow> bool" where
  "keeps_Inl obs m \<longleftrightarrow> (\<forall>s err s'. m s = (Inl err, s') \<longrightarrow> obs s' = obs s)"

lemma keeps_Inl_sbind:
  "keeps obs m \<Longrightarrow> (\<And>a. keeps_Inl obs (f a)) \<Longrightarrow> keeps_Inl obs (sbind m f)"
  by (fastforce simp: keeps_Inl_def sbind_def split: prod.splits sum.splits dest: keepsD)

lemma keeps_Inl_mint: "keeps_Inl issued (ex_mint V e req w d dl dp sc)"
  unfolding keeps_Inl_def
proof (intro allI impI)
  fix s err s'
  assume "ex_mint V e req w d dl dp sc s = (Inl err, s')"
  then show "issued s' = issued s"
    by (cases V e req w d dl dp sc s rule: ex_mint_outcome) auto
qed

lemma Exchange_InlD: "Exchange V e req s = (Inl err, s') \<Longrightarrow> issued s' = issued s"
proof -
  have "keeps_Inl issued (Exchange V e req)"
    unfolding Exchange_def
    by (auto intro!: keeps_Inl_sbind keeps_Inl_mint keeps_rules split: prod.split)
  then show "Exchange V e req s = (Inl err, s') \<Longrightarrow> ?thesis" by (auto simp: keeps_Inl_def)
qed

section \<open>Successful exchanges\<close>

text \<open>The revocation index, when there is one that answers, has no entry for the workload.\<close>

definition revocation_clear :: "'key engine \<Rightarrow> workload_identity \<Rightarrow> bool" where
  "revocation_clear e w \<longleftrightarrow>
     (case en_revocation e of
        None \<Rightarrow> True | Some f \<Rightarrow> (case f (wi_id w) of Inr (Some _) \<Rightarrow> False | _ \<Rightarrow> True))"

definition delegation_granted ::
  "('signer, 'key, 'pub, 'alg, 'raw) exchange_env \<Rightarrow> 'key engine \<Rightarrow> token_exchange_request
   \<Rightarrow> policy_decision \<Rightarrow> delegation_context option \<Rightarrow> bool" where
  "delegation_granted V e req d dl \<longleftrightarrow>
     (case dl of
        None \<Rightarrow> rq_actor_token req = ''''
      | Some dc \<Rightarrow> rq_actor_token req \<noteq> ''''
          \<and> (case ev_parse V (publicKeySet (ev_jwk V) e) (rq_actor_token req) of
               Inl _ \<Rightarrow> False | Inr actor \<Rightarrow> parseDelegationContext actor = Inr dc)
          \<and> validateDelegation dc (requested_caps d) (requested_blast_radius d) = None)"

definition dpop_granted ::
  "('signer, 'key, 'pub, 'alg, 'raw) exchange_env \<Rightarrow> token_exchange_request \<Rightarrow> string option \<Rightarrow> bool"
  where
  "dpop_granted V req dp \<longleftrightarrow>
     (case dp of
        None \<Rightarrow> rq_dpop_proof req = ''''
      | Some tp \<Rightarrow> rq_dpop_proof req \<noteq> ''''
          \<and> validateDPoP (ev_jose V) (ev_dpop_now V) (rq_dpop_proof req) = Inr tp)"

definition scope_granted ::
  "('signer, 'key, 'pub, 'alg, 'raw) exchange_env \<Rightarrow> exchange_state \<Rightarrow> execution_scope option \<Rightarrow> bool"
  where
  "scope_granted V s sc \<longleftrightarrow>
     (case sc of
        None \<Rightarrow> True
      | Some x \<Rightarrow> validateExecutionScope x = None
          \<and> fst (nonce_check (ev_nonce_now V) (xs_nonce x) (xt_nonces s)) = None)"

definition attestation_granted ::
  "('signer, 'key, 'pub, 'alg, 'raw) exchange_env \<Rightarrow> token_exchange_request \<Rightarrow> bool" where
  "attestation_granted V req \<longleftrightarrow>
     ValidateAttestation (ev_attest_now1 V) (ev_attest_now2 V) (rq_attestation req) 0 = None"

record exchange_grant =
  gr_cred_type :: string
  gr_workload :: workload_identity
  gr_decision :: policy_decision
  gr_delegation :: "delegation_context option"
  gr_dpop :: "string option"
  gr_secrets :: string
  gr_claims :: claims
  gr_token :: string

text \<open>All the checks a token rests on.\<close>

definition granted ::
  "('signer, 'key, 'pub, 'alg, 'raw) exchange_env \<Rightarrow> 'key engine \<Rightarrow> token_exchange_request
   \<Rightarrow> exchange_state \<Rightarrow> exchange_grant \<Rightarrow> bool" where
  "granted V e req s g \<longleftrightarrow>
     rq_grant_type req = grantTypeTokenExchange
     \<and> mapCredType (rq_subject_token_type req) = Inr (gr_cred_type g)
     \<and> en_identity e (rq_subject_token req) (gr_cred_type g) = Inr (gr_workload g)
     \<and> str_count (wi_id (gr_workload g)) ''wimse://'' \<le> 1
     \<and> revocation_clear e (gr_workload g)
     \<and> attestation_granted V req
     \<and> en_policy e (ex_policy_input e req (gr_cred_type g) (gr_workload g)) = Inr (gr_decision g)
     \<and> pd_allowed (gr_decision g)
     \<and> delegation_granted V e req (gr_decision g) (gr_delegation g)
     \<and> dpop_granted V req (gr_dpop g)
     \<and> scope_granted V s (rq_execution_scope req)
     \<and> gr_secrets g = delivered_secrets V e (gr_workload g) (gr_decision g)
     \<and> token_claims V e req (gr_workload g) (gr_decision g) (gr_delegation g) (gr_dpop g)
         (rq_execution_scope req) (gr_secrets g) = Inr (gr_claims g)
     \<and> ev_sign V (active_key e) (gr_claims g) = Inr (gr_token g)"

lemma deny_Inl [simp]: "fst (deny req act wid rsn err s) = Inl err"
  by (simp add: deny_def log_audit_def sbind_def stage_simps)

lemma fst_ex_validate_workload:
  "fst (ex_validate_workload e req s) = Inr (c, w) \<longleftrightarrow>
     rq_grant_type req = grantTypeTokenExchange
     \<and> mapCredType (rq_subject_token_type req) = Inr c
     \<and> en_identity e (rq_subject_token req) c = Inr w \<and> str_count (wi_id w) ''wimse://'' \<le> 1"
  by (auto simp: ex_validate_workload_def stage_simps split: sum.splits)

lemma fst_ex_check_revocation:
  "fst (ex_check_revocation e req w s) = Inr () \<longleftrightarrow> revocation_clear e w"
  by (auto simp: ex_check_revocation_def revocation_clear_def stage_simps fst_sbind_Inr_iff
      log_audit_def split: option.splits sum.splits)

lemma fst_ex_attestation:
  "fst (ex_attestation V e req w s) = Inr () \<longleftrightarrow> attestation_granted V req"
proof (cases "rq_attestation req")
  case None
  then show ?thesis
    by (simp add: attestation_granted_def ValidateAttestation_def ex_attestation_def stage_simps)
next
  case (Some a)
  then show ?thesis
    by (simp add: ex_attestation_def attestation_granted_def log_audit_def stage_simps
        split: option.splits)
qed

lemma fst_ex_evaluate_policy:
  "fst (ex_evaluate_policy e req c w s) = Inr d \<longleftrightarrow>
   en_policy e (ex_policy_input e req c w) = Inr d \<and> pd_allowed d"
  by (auto simp: ex_evaluate_policy_def stage_simps split: sum.splits)

lemma fst_ex_delegation:
  "fst (ex_delegation V e req w d s) = Inr dl \<longleftrightarrow> delegation_granted V e req d dl"
  by (cases dl) (auto simp: ex_delegation_def delegation_granted_def stage_simps
      split: sum.splits option.splits)

lemma fst_ex_dpop: "fst (ex_dpop V req s) = Inr dp \<longleftrightarrow> dpop_granted V req dp"
  by (cases dp) (auto simp: ex_dpop_def dpop_granted_def stage_simps split: sum.splits)

lemma fst_ex_execution_scope:
  "fst (ex_execution_scope V req s) = Inr sc \<longleftrightarrow>
     sc = rq_execution_scope req \<and> scope_granted V s sc"
proof (cases "rq_execution_scope req")
  case None
  show ?thesis by (auto simp: None ex_execution_scope_def scope_granted_def stage_simps)
next
  case (Some x)
  show ?thesis
    by (cases "validateExecutionScope x")
      (auto simp: ex_execution_scope_def scope_granted_def stage_simps Some
        split: option.splits prod.splits)
qed

lemma fst_ex_mint:
  "fst (ex_mint V e req w d dl dp sc s) = Inr resp \<longleftrightarrow>
     (\<exists>tok str. token_claims V e req w d dl dp sc (delivered_secrets V e w d) = Inr tok
        \<and> ev_sign V (active_key e) tok = Inr str \<and> resp = ex_response e req dl sc str)"
proof (cases V e req w d dl dp sc s rule: ex_mint_outcome)
  case (failed err s')
  then show ?thesis by (auto simp: ex_sign_def split: sum.splits)
next
  case (minted tok str s')
  then show ?thesis by (auto simp: ex_sign_def split: sum.splits)
qed

lemmas fst_stage_iffs =
  fst_ex_validate_workload fst_ex_check_revocation fst_ex_attestation fst_ex_evaluate_policy
  fst_ex_delegation fst_ex_dpop fst_ex_execution_scope fst_ex_mint

lemma scope_granted_snd:
  "keeps xt_nonces m \<Longrightarrow> scope_granted V (snd (m s)) = scope_granted V s"
  by (auto simp: scope_granted_def keeps_def fun_eq_iff split: option.split)

lemmas scope_granted_checks = scope_granted_snd [OF keeps_nonces_checks(1)]
  scope_granted_snd [OF keeps_nonces_checks(2)] scope_granted_snd [OF keeps_nonces_checks(3)]
  scope_granted_snd [OF keeps_nonces_checks(4)] scope_granted_snd [OF keeps_nonces_checks(5)]
  scope_granted_snd [OF keeps_nonces_checks(6)]

lemma Exchange_Inr_steps:
  "fst (Exchange V e req s) = Inr resp \<longleftrightarrow>
     (\<exists>c w. (rq_grant_type req = grantTypeTokenExchange
        \<and> mapCredType (rq_subject_token_type req) = Inr c
        \<and> en_identity e (rq_subject_token req) c = Inr w
        \<and> str_count (wi_id w) ''wimse://'' \<le> 1)
      \<and> revocation_clear e w \<and> attestation_granted V req
      \<and> (\<exists>d. (en_policy e (ex_policy_input e req c w) = Inr d \<and> pd_allowed d)
        \<and> (\<exists>dl. delegation_granted V e req d dl
          \<and> (\<exists>dp. dpop_granted V req dp
            \<and> (\<exists>sc. (sc = rq_execution_scope req \<and> scope_granted V s sc)
              \<and> (\<exists>tok str. token_claims V e req w d dl dp sc (delivered_secrets V e w d) = Inr tok
                  \<and> ev_sign V (active_key e) tok = Inr str
                  \<and> resp = ex_response e req dl sc str))))))"
  unfolding Exchange_def fst_sbind_Inr_iff split_paired_Ex prod.case ex_unit_eq fst_stage_iffs
    scope_granted_checks
  by (rule refl)

lemma ex_grant_iff:
  "(\<exists>g. P g) \<longleftrightarrow> (\<exists>c w d dl dp sec tok str.
     P \<lparr>gr_cred_type = c, gr_workload = w, gr_decision = d, gr_delegation = dl, gr_dpop = dp,
        gr_secrets = sec, gr_claims = tok, gr_token = str\<rparr>)"
  by (metis exchange_grant.surjective unit.exhaust)

lemma Exchange_Inr_iff:
  "fst (Exchange V e req s) = Inr resp \<longleftrightarrow>
     (\<exists>g. granted V e req s g
        \<and> resp = ex_response e req (gr_delegation g) (rq_execution_scope req) (gr_token g))"
  unfolding Exchange_Inr_steps ex_grant_iff granted_def exchange_grant.simps
  by blast

text \<open>What a check of the execution scope leaves in the nonce tracker.\<close>

definition scope_nonces ::
  "('signer, 'key, 'pub, 'alg, 'raw) exchange_env \<Rightarrow> token_exchange_request \<Rightarrow> nonce_tracker
   \<Rightarrow> nonce_tracker" where
  "scope_nonces V req n =
     (case rq_execution_scope req of
        None \<Rightarrow> n
      | Some x \<Rightarrow> if validateExecutionScope x = None
          then snd (nonce_check (ev_nonce_now V) (xs_nonce x) n) else n)"

lemma nonces_after_scope:
  "xt_nonces (snd (ex_execution_scope V req s)) = scope_nonces V req (xt_nonces s)"
  by (auto simp: ex_execution_scope_def scope_nonces_def stage_simps
      split: option.splits prod.splits)

lemma Exchange_InrD:
  assumes "Exchange V e req s = (Inr resp, s')"
  shows "\<exists>g. granted V e req s g
    \<and> resp = ex_response e req (gr_delegation g) (rq_execution_scope req) (gr_token g)
    \<and> issued s' = issue_effect e req (gr_workload g) (gr_secrets g) (issued s)
    \<and> xt_nonces s' = scope_nonces V req (xt_nonces s)"
proof -
  from assms obtain c w s1 s2 s3 s4 d s5 dl s6 dp s7 sc where
    1: "ex_validate_workload e req s = (Inr (c, w), s1)" and
    2: "ex_check_revocation e req w s1 = (Inr (), s2)" and
    3: "ex_attestation V e req w s2 = (Inr (), s3)" and
    4: "ex_evaluate_policy e req c w s3 = (Inr d, s4)" and
    5: "ex_delegation V e req w d s4 = (Inr dl, s5)" and
    6: "ex_dpop V req s5 = (Inr dp, s6)" and
    7: "ex_execution_scope V req s6 = (Inr sc, s7)" and
    8: "ex_mint V e req w d dl dp sc s7 = (Inr resp, s')"
    unfolding Exchange_def by (elim sbind_InrE) (auto elim!: sbind_InrE)
  note i = keepsD [OF keeps_issued_checks(1) 1] keepsD [OF keeps_issued_checks(2) 2]
    keepsD [OF keeps_issued_checks(3) 3] keepsD [OF keeps_issued_checks(4) 4]
    keepsD [OF keeps_issued_checks(5) 5] keepsD [OF keeps_issued_checks(6) 6]
    keepsD [OF keeps_issued_scope 7]
  have n6: "xt_nonces s6 = xt_nonces s"
    using keepsD [OF keeps_nonces_checks(1) 1] keepsD [OF keeps_nonces_checks(2) 2]
      keepsD [OF keeps_nonces_checks(3) 3] keepsD [OF keeps_nonces_checks(4) 4]
      keepsD [OF keeps_nonces_checks(5) 5] keepsD [OF keeps_nonces_checks(6) 6] by simp
  have n7: "xt_nonces s7 = scope_nonces V req (xt_nonces s)"
    using nonces_after_scope [of V req s6] 7 n6 by simp
  have sg: "scope_granted V s6 = scope_granted V s"
    using n6 by (auto simp: scope_granted_def fun_eq_iff split: option.split)
  from 8 obtain tok str where
    tok: "token_claims V e req w d dl dp sc (delivered_secrets V e w d) = Inr tok"
      "ex_sign V e tok = Inr str" "resp = ex_response e req dl sc str" and
    s': "issued s' = issue_effect e req w (delivered_secrets V e w d) (issued s7)"
      "xt_nonces s' = xt_nonces s7"
    by (cases V e req w d dl dp sc s7 rule: ex_mint_outcome) auto
  let ?g = "\<lparr>gr_cred_type = c, gr_workload = w, gr_decision = d, gr_delegation = dl, gr_dpop = dp,
    gr_secrets = delivered_secrets V e w d, gr_claims = tok, gr_token = str\<rparr>"
  have sc: "sc = rq_execution_scope req" "scope_granted V s sc"
    using fst_ex_execution_scope [of V req s6 sc] 7 sg by auto
  have "granted V e req s ?g"
    using fst_ex_validate_workload [of e req s c w] fst_ex_check_revocation [of e req w s1]
      fst_ex_attestation [of V e req w s2] fst_ex_evaluate_policy [of e req c w s3 d]
      fst_ex_delegation [of V e req w d s4 dl] fst_ex_dpop [of V req s5 dp] 1 2 3 4 5 6 sc tok(1,2)
    by (simp add: granted_def ex_sign_def split: sum.splits)
  with tok(3) s' i n7 sc(1) show ?thesis by (intro exI [of _ ?g]) simp
qed

section \<open>Nonces\<close>

lemma keeps_nonces_mint [keeps_rules]: "keeps xt_nonces (ex_mint V e req w d dl dp sc)"
  unfolding ex_mint_def ex_audit_allow_def ex_flash_def Let_def
  by (auto intro!: keeps_rules keeps_smodify split: option.split)

definition nonces_spent ::
  "('signer, 'key, 'pub, 'alg, 'raw) exchange_env \<Rightarrow> token_exchange_request
   \<Rightarrow> (exchange_state, 'e, 'a) stage \<Rightarrow> bool" where
  "nonces_spent V req m \<longleftrightarrow>
     (\<forall>s. xt_nonces (snd (m s)) = xt_nonces s
        \<or> xt_nonces (snd (m s)) = scope_nonces V req (xt_nonces s))"

lemma nonces_spent_sbind:
  "keeps xt_nonces m \<Longrightarrow> (\<And>a. nonces_spent V req (f a)) \<Longrightarrow> nonces_spent V req (sbind m f)"
  unfolding nonces_spent_def keeps_def sbind_def
  by (auto split: prod.split sum.split) (metis snd_conv)+

lemma nonces_spent_scope:
  "(\<And>a. keeps xt_nonces (f a)) \<Longrightarrow> nonces_spent V req (sbind (ex_execution_scope V req) f)"
proof -
  assume keep: "\<And>a. keeps xt_nonces (f a)"
  have "xt_nonces (snd (sbind (ex_execution_scope V req) f s)) = scope_nonces V req (xt_nonces s)" for s
    using nonces_after_scope [of V req s] keep
    by (auto simp: sbind_def keeps_def split: prod.split sum.split)
  then show ?thesis by (simp add: nonces_spent_def)
qed

text \<open>An exchange, successful or not, changes the nonces by at most its own check.\<close>

lemma Exchange_nonces: "nonces_spent V req (Exchange V e req)"
  unfolding Exchange_def
  by (auto intro!: nonces_spent_sbind nonces_spent_scope keeps_rules split: prod.split)

end
