(* ===== verification/Token_Claims.thy ===== *)
theory Token_Claims
  imports Engine_Props
begin

text \<open>
  What is in an issued token: the value of each claim of the set that the engine signs, by
  the layer of \<open>Exchange\<close> that writes it, and what the readers of those claims
  (\<open>VerifyExecutionScope\<close>, \<open>parseDelegationContext\<close>) make of them.
\<close>

section \<open>Setting claims\<close>

lemma map_of_set_claim:
  "set_claim V k v tok = Inr t \<Longrightarrow> map_of t x = (if x = k then Some v else map_of tok x)"
  by (auto simp: set_claim_def gomap_simps split: if_splits)

lemma map_of_set_opt_claim:
  "set_opt_claim V k ov tok = Inr t \<Longrightarrow>
   map_of t x = (if x = k \<and> ov \<noteq> None then ov else map_of tok x)"
  by (auto simp: set_opt_claim_def map_of_set_claim split: option.splits)

lemma map_of_set_str_claim:
  "set_str_claim V k v tok = Inr t \<Longrightarrow>
   map_of t x = (if x = k \<and> v \<noteq> '''' then Some (JStr v) else map_of tok x)"
  by (auto simp: set_str_claim_def map_of_set_claim split: if_splits)

lemmas claim_lookups = map_of_set_claim map_of_set_opt_claim map_of_set_str_claim

section \<open>The layers\<close>

lemma map_of_delegation_claims:
  assumes "delegation_claims V d dl tok = Inr t"
  shows "map_of t x =
    (if x = ''obo'' \<and> dl \<noteq> None then Some (JArr (buildOBOChain (the dl)))
     else if x = ''delegation_depth'' then
       (case dl of
          None \<Rightarrow> (case map_of (pd_claims d) x of None \<Rightarrow> map_of tok x | Some v \<Rightarrow> Some v)
        | Some dc \<Rightarrow> if 0 < dc_depth dc then Some (JNum (of_int (dc_depth dc - 1)))
                     else if dc_depth dc = 0 then map_of tok x else map_of tok x)
     else map_of tok x)"
  using assms
  by (auto simp: delegation_claims_def rbind_Inr_iff claim_lookups Let_def
      split: option.splits if_splits)

lemma map_of_identity_claims:
  assumes "identity_claims V e req w d dl sc = Inr t"
  shows "map_of t ''sub'' = Some (JStr (wi_id w))"
    "map_of t ''iss'' = Some (JStr (en_issuer e))"
    "map_of t ''aud'' = Some (JArr [JStr (rq_audience req)])"
    "map_of t ''exp'' = Some (JNum (of_int (unix_seconds (time_add (ev_sign_now V) (token_ttl e sc)))))"
    "map_of t ''caps'' = map_of (pd_claims d) ''caps''"
    "map_of t ''blast_radius'' = map_of (pd_claims d) ''blast_radius''"
    "map_of t ''obo'' = map_option (\<lambda>dc. JArr (buildOBOChain dc)) dl"
    "map_of t ''delegation_depth'' =
      (case dl of
         None \<Rightarrow> map_of (pd_claims d) ''delegation_depth''
       | Some dc \<Rightarrow> if 0 < dc_depth dc then Some (JNum (of_int (dc_depth dc - 1))) else None)"
    "map_of t ''iat'' = Some (JNum (of_int (unix_seconds (ev_sign_now V))))"
  using assms
  by (auto simp: identity_claims_def rbind_Inr_iff map_of_delegation_claims claim_lookups
      base_claims_def split: if_splits option.splits)

lemma identity_claims_keys:
  assumes "identity_claims V e req w d dl sc = Inr t"
    and "k \<notin> {''sub'', ''iss'', ''aud'', ''iat'', ''exp'', ''td'', ''caps'', ''blast_radius'',
      ''obo'', ''delegation_depth''}"
  shows "map_of t k = None"
  using assms
  by (auto simp: identity_claims_def rbind_Inr_iff map_of_delegation_claims claim_lookups
      base_claims_def split: if_splits)

lemma map_of_binding_claims:
  assumes "binding_claims V e req dp tok = Inr t"
  shows "map_of t k =
    (if k = ''attestation'' \<and> rq_attestation req \<noteq> None
     then Some (attestation_claims (the (rq_attestation req)))
     else if k = ''assurance_level'' \<and> rq_attestation req \<noteq> None
     then Some (JStr (attestationAssurance e (the (rq_attestation req))))
     else if k = ''cnf'' \<and> dp \<noteq> None then Some (JObj [(''jkt'', JStr (the dp))])
     else map_of tok k)"
proof -
  from assms obtain t1 where
    t1: "set_opt_claim V ''cnf'' (map_option (\<lambda>tp. JObj [(''jkt'', JStr tp)]) dp) tok = Inr t1"
    by (auto simp: binding_claims_def rbind_Inr_iff)
  show ?thesis
  proof (cases "rq_attestation req")
    case None
    with assms t1 have "t = t1" by (simp add: binding_claims_def)
    with t1 None show ?thesis by (cases dp) (simp_all add: map_of_set_opt_claim)
  next
    case (Some att)
    with assms t1 obtain t2 where
      t2: "set_claim V ''assurance_level'' (JStr (attestationAssurance e att)) t1 = Inr t2"
      and t: "set_claim V ''attestation'' (attestation_claims att) t2 = Inr t"
      by (auto simp: binding_claims_def rbind_Inr_iff)
    show ?thesis
      by (cases dp) (simp_all add: Some map_of_set_claim [OF t] map_of_set_claim [OF t2]
          map_of_set_opt_claim [OF t1])
  qed
qed

definition want_hash :: "execution_scope \<Rightarrow> string" where
  "want_hash sc = (if xs_input_hash sc = '''' then xs_payload_hash sc else xs_input_hash sc)"

lemma map_of_scope_claims:
  assumes "scope_claims V (Some sc) tok = Inr t"
  shows "map_of t k =
    (if k = ''nonce'' then Some (JStr (xs_nonce sc))
     else if k = ''wid'' \<and> xs_workflow_id sc \<noteq> '''' then Some (JStr (xs_workflow_id sc))
     else if k = ''target'' \<and> xs_target sc \<noteq> '''' then Some (JStr (xs_target sc))
     else if k = ''exec_act'' \<and> xs_exec_act sc \<noteq> '''' then Some (JStr (xs_exec_act sc))
     else if k = ''inp_hash'' \<and> want_hash sc \<noteq> '''' then Some (JStr (want_hash sc))
     else if k = ''htu'' then Some (JStr (xs_uri sc))
     else if k = ''htm'' then Some (JStr (xs_method sc))
     else map_of tok k)"
proof -
  from assms obtain t1 t2 t3 t4 t5 t6 where
    1: "set_claim V ''htm'' (JStr (xs_method sc)) tok = Inr t1" and
    2: "set_claim V ''htu'' (JStr (xs_uri sc)) t1 = Inr t2" and
    3: "set_str_claim V ''inp_hash'' (want_hash sc) t2 = Inr t3" and
    4: "set_str_claim V ''exec_act'' (xs_exec_act sc) t3 = Inr t4" and
    5: "set_str_claim V ''target'' (xs_target sc) t4 = Inr t5" and
    6: "set_str_claim V ''wid'' (xs_workflow_id sc) t5 = Inr t6" and
    7: "set_claim V ''nonce'' (JStr (xs_nonce sc)) t6 = Inr t"
    unfolding scope_claims_def Let_def option.case rbind_Inr_iff want_hash_def by blast
  show ?thesis
    unfolding map_of_set_claim [OF 7] map_of_set_str_claim [OF 6] map_of_set_str_claim [OF 5]
      map_of_set_str_claim [OF 4] map_of_set_str_claim [OF 3] map_of_set_claim [OF 2]
      map_of_set_claim [OF 1] ..
qed

lemma token_claims_layers:
  assumes "token_claims V e req w d dl dp sc sec = Inr t"
  obtains t1 t2 t3 where "identity_claims V e req w d dl sc = Inr t1"
    "binding_claims V e req dp t1 = Inr t2" "scope_claims V sc t2 = Inr t3"
    "set_str_claim V ''secrets'' sec t3 = Inr t"
  using assms by (auto simp: token_claims_def rbind_Inr_iff)

section \<open>The token\<close>

definition scope_keys :: "string list" where
  "scope_keys = [''htm'', ''htu'', ''inp_hash'', ''exec_act'', ''target'', ''wid'', ''nonce'']"

lemma map_of_scope_claims_other:
  "scope_claims V sc tok = Inr t \<Longrightarrow> k \<notin> set scope_keys \<Longrightarrow> map_of t k = map_of tok k"
proof (cases sc)
  case None
  then show "scope_claims V sc tok = Inr t \<Longrightarrow> ?thesis" by (simp add: scope_claims_def)
next
  case (Some x)
  then show "scope_claims V sc tok = Inr t \<Longrightarrow> k \<notin> set scope_keys \<Longrightarrow> ?thesis"
    by (simp add: map_of_scope_claims scope_keys_def)
qed

text \<open>Claims of the first layer reach the token unchanged.\<close>

lemma token_identity_claim:
  assumes "token_claims V e req w d dl dp sc sec = Inr t"
    and "k \<notin> set scope_keys" and "k \<notin> {''secrets'', ''cnf'', ''assurance_level'', ''attestation''}"
  obtains t1 where "identity_claims V e req w d dl sc = Inr t1" "map_of t k = map_of t1 k"
proof -
  from assms(1) obtain t1 t2 t3 where l: "identity_claims V e req w d dl sc = Inr t1"
    "binding_claims V e req dp t1 = Inr t2" "scope_claims V sc t2 = Inr t3"
    "set_str_claim V ''secrets'' sec t3 = Inr t" by (rule token_claims_layers)
  have "map_of t k = map_of t1 k"
    using assms(2,3) by (simp add: map_of_set_str_claim [OF l(4)]
        map_of_scope_claims_other [OF l(3)] map_of_binding_claims [OF l(2)])
  with l(1) show thesis by (rule that)
qed

text \<open>Every response carries a signed set of claims that the engine built.\<close>

lemma Exchange_signed:
  assumes "fst (Exchange V e req s) = Inr resp"
  obtains g where "granted V e req s g"
    "ev_sign V (active_key e) (gr_claims g) = Inr (rs_access_token resp)"
    "resp = ex_response e req (gr_delegation g) (rq_execution_scope req) (gr_token g)"
    "token_claims V e req (gr_workload g) (gr_decision g) (gr_delegation g) (gr_dpop g)
       (rq_execution_scope req) (gr_secrets g) = Inr (gr_claims g)"
proof -
  from assms obtain g where g: "granted V e req s g"
    and resp: "resp = ex_response e req (gr_delegation g) (rq_execution_scope req) (gr_token g)"
    by (auto simp: Exchange_Inr_iff)
  have sgn: "ev_sign V (active_key e) (gr_claims g) = Inr (gr_token g)"
    using g unfolding granted_def by blast
  show thesis
  proof (rule that [OF g _ resp])
    show "ev_sign V (active_key e) (gr_claims g) = Inr (rs_access_token resp)"
      by (simp add: resp sgn ex_response_def)
    show "token_claims V e req (gr_workload g) (gr_decision g) (gr_delegation g) (gr_dpop g)
       (rq_execution_scope req) (gr_secrets g) = Inr (gr_claims g)"
      using g unfolding granted_def by blast
  qed
qed

lemma Exchange_claims:
  assumes "fst (Exchange V e req s) = Inr resp"
  obtains g where "granted V e req s g"
    "ev_sign V (active_key e) (gr_claims g) = Inr (rs_access_token resp)"
    "token_claims V e req (gr_workload g) (gr_decision g) (gr_delegation g) (gr_dpop g)
       (rq_execution_scope req) (gr_secrets g) = Inr (gr_claims g)"
proof (rule Exchange_signed [OF assms])
  fix g
  assume "granted V e req s g"
    "ev_sign V (active_key e) (gr_claims g) = Inr (rs_access_token resp)"
    "token_claims V e req (gr_workload g) (gr_decision g) (gr_delegation g) (gr_dpop g)
       (rq_execution_scope req) (gr_secrets g) = Inr (gr_claims g)"
  then show thesis by (rule that)
qed

lemma token_identity_values:
  assumes "token_claims V e req w d dl dp sc sec = Inr t"
  shows "map_of t ''sub'' = Some (JStr (wi_id w))"
    "map_of t ''iss'' = Some (JStr (en_issuer e))"
    "map_of t ''aud'' = Some (JArr [JStr (rq_audience req)])"
    "map_of t ''exp'' = Some (JNum (of_int (unix_seconds (time_add (ev_sign_now V) (token_ttl e sc)))))"
    "map_of t ''caps'' = map_of (pd_claims d) ''caps''"
    "map_of t ''blast_radius'' = map_of (pd_claims d) ''blast_radius''"
    "map_of t ''obo'' = map_option (\<lambda>dc. JArr (buildOBOChain dc)) dl"
    "map_of t ''delegation_depth'' =
      (case dl of
         None \<Rightarrow> map_of (pd_claims d) ''delegation_depth''
       | Some dc \<Rightarrow> if 0 < dc_depth dc then Some (JNum (of_int (dc_depth dc - 1))) else None)"
    "map_of t ''iat'' = Some (JNum (of_int (unix_seconds (ev_sign_now V))))"
proof -
  from assms obtain t1 t2 t3 where l: "identity_claims V e req w d dl sc = Inr t1"
    "binding_claims V e req dp t1 = Inr t2" "scope_claims V sc t2 = Inr t3"
    "set_str_claim V ''secrets'' sec t3 = Inr t" by (rule token_claims_layers)
  note layers = map_of_set_str_claim [OF l(4)] map_of_scope_claims_other [OF l(3)]
    map_of_binding_claims [OF l(2)] map_of_identity_claims [OF l(1)] scope_keys_def
  show "map_of t ''sub'' = Some (JStr (wi_id w))"
    "map_of t ''iss'' = Some (JStr (en_issuer e))"
    "map_of t ''aud'' = Some (JArr [JStr (rq_audience req)])"
    "map_of t ''exp'' = Some (JNum (of_int (unix_seconds (time_add (ev_sign_now V) (token_ttl e sc)))))"
    "map_of t ''caps'' = map_of (pd_claims d) ''caps''"
    "map_of t ''blast_radius'' = map_of (pd_claims d) ''blast_radius''"
    "map_of t ''obo'' = map_option (\<lambda>dc. JArr (buildOBOChain dc)) dl"
    "map_of t ''delegation_depth'' =
      (case dl of
         None \<Rightarrow> map_of (pd_claims d) ''delegation_depth''
       | Some dc \<Rightarrow> if 0 < dc_depth dc then Some (JNum (of_int (dc_depth dc - 1))) else None)"
    "map_of t ''iat'' = Some (JNum (of_int (unix_seconds (ev_sign_now V))))"
    by (simp_all add: layers)
qed

end
