(* ===== verification/Exchange_Demo.thy ===== *)
theory Exchange_Demo
  imports Token_Claims
begin

text \<open>
  A concrete unit on which the hypotheses of the exchange properties hold: an identity
  provider that takes the subject token as the identity, a policy that grants the
  capabilities \<open>read\<close> and \<open>list\<close> at blast radius \<open>namespace:a\<close>, one signing key, and a JWT
  service that knows a table of claim sets. Its delegation root \<open>root\<close> may delegate twice.
\<close>

definition demo_jwk :: "(string, string, string) jwk_lib" where
  "demo_jwk = \<lparr>jk_key_id = Some, jk_import = Some, jk_set_kid = (\<lambda>kid k. Some kid),
     jk_set_alg = (\<lambda>a k. Some k), jk_set_use = (\<lambda>u k. Some k), jk_public = Some,
     jk_add_to_set = (\<lambda>p ps. Some (ps @ [p]))\<rparr>"

text \<open>A proof \<open>k\<close> is a JWS with the key \<open>k\<close>, issued at instant 1000.\<close>

definition demo_jose :: "(string, string, string) jose" where
  "demo_jose =
     \<lparr>jo_jws_parse = (\<lambda>p. Some [\<lparr>jh_typ = Some ''dpop+jwt'', jh_jwk = Some p, jh_alg = Some ''ES256''\<rparr>]),
      jo_export = (\<lambda>k. Some (Some k)),
      jo_verify = (\<lambda>p a k. Some \<lparr>pt_iat = Some 1000, pt_jti = Some ''j''\<rparr>),
      jo_key_members = (\<lambda>k. Some [(''crv'', JStr ''P''), (''kty'', JStr ''EC''), (''x'', JStr k),
                                   (''y'', JStr ''1''), (''d'', JStr ''secret'')]),
      jo_key_type = (\<lambda>k. ''EC''),
      jo_marshal = (\<lambda>m. case map_of m ''x'' of Some (JStr x) \<Rightarrow> Some x | _ \<Rightarrow> None),
      jo_sha256_b64url = (\<lambda>s. CHR ''h'' # s)\<rparr>"

definition demo_policy_claims :: claims where
  "demo_policy_claims =
     [(''caps'', JArr [JStr ''read'', JStr ''list'']), (''blast_radius'', JStr ''namespace:a'')]"

definition demo_engine :: "string engine" where
  "demo_engine =
     \<lparr>en_identity = (\<lambda>tok ct. Inr \<lparr>wi_id = tok, wi_trust_domain = ''td'', wi_attestation = None,
                                    wi_claims = []\<rparr>),
      en_policy = (\<lambda>i. Inr \<lparr>pd_allowed = (pi_target i \<noteq> ''db''), pd_reason = ''no'',
                            pd_claims = demo_policy_claims\<rparr>),
      en_keyring = Some \<lparr>kr_active_kid = ''k1'', kr_keys = [(''k1'', ''k1'')]\<rparr>,
      en_sign_key = Some ''k1'', en_issuer = ''starfly'', en_ttl = 5 * go_minute,
      en_sync_bus = Some (\<lambda>sig. None), en_unit_id = ''u1'', en_revocation = None,
      en_on_revocation_error = False, en_execution_ttl = ExecutionScopeTTL,
      en_on_exchange = True, en_secret_source = None, en_encryption_keys = None,
      en_on_secret_delivery = False, en_dev_mode = False\<rparr>"

text \<open>The claim sets of the JWT service.\<close>

definition demo_request :: "string \<Rightarrow> string \<Rightarrow> token_exchange_request" where
  "demo_request subject actor =
     \<lparr>rq_grant_type = grantTypeTokenExchange, rq_subject_token = subject,
      rq_subject_token_type = subjectTokenTypeJWT, rq_audience = ''api'', rq_scope = '''',
      rq_actor_token = actor, rq_actor_token_type = '''', rq_requested_token_type = '''',
      rq_dpop_proof = '''', rq_attestation = None, rq_execution_scope = None\<rparr>"

definition demo_scope :: execution_scope where
  "demo_scope = \<lparr>xs_method = ''PUT'', xs_uri = ''/x'', xs_exec_act = '''', xs_input_hash = '''',
     xs_output_hash = '''', xs_target = '''', xs_workflow_id = '''', xs_payload_hash = ''h1'',
     xs_nonce = ''n1''\<rparr>"

definition demo_attestation :: server_attestation where
  "demo_attestation =
     \<lparr>att_platform = \<lparr>ap_source = ''aws'', ap_cred_type = ''sts'', ap_metadata = None\<rparr>,
      att_hardware = [\<lparr>ah_type = ''tpm'', ah_quote = ''q'', ah_pcrs = [], ah_firmware = '''',
                       ah_nonce = '''', ah_measurements = []\<rparr>],
      att_workload = None, att_agent_version = ''1'', att_timestamp = 1000\<rparr>"

definition demo_token :: "string \<Rightarrow> claims \<Rightarrow> claims" where
  "demo_token subject extra =
     [(''sub'', JStr subject), (''iss'', JStr ''starfly''), (''aud'', JArr [JStr ''api'']),
      (''iat'', JNum (-62135596800)), (''exp'', JNum (-62135596500)), (''td'', JStr ''td'')]
     @ demo_policy_claims @ extra"

definition demo_tokens :: "(string \<times> claims) list" where
  "demo_tokens =
     [(''root'', demo_token ''a0'' [(''delegation_depth'', JNum 2)]),
      (''hop1'', demo_token ''a1'' [(''delegation_depth'', JNum 1), (''obo'', JArr [JStr ''a0''])]),
      (''hop2'', demo_token ''a2'' [(''delegation_depth'', JNum 0),
                                    (''obo'', JArr [JStr ''a0'', JStr ''a1''])]),
      (''plain'', demo_token ''w1'' [])]"

fun key_of :: "(string \<times> claims) list \<Rightarrow> claims \<Rightarrow> string option" where
  "key_of [] c = None"
| "key_of ((n, d) # ts) c = (if d = c then Some n else key_of ts c)"

definition demo_env ::
  "(string \<times> claims) list \<Rightarrow> (string, string, string, string, string) exchange_env" where
  "demo_env tokens =
     \<lparr>ev_jwk = demo_jwk, ev_jose = demo_jose,
      ev_parse = (\<lambda>ks t. case map_of tokens t of None \<Rightarrow> Inl ''unknown'' | Some c \<Rightarrow> Inr c),
      ev_build_ok = True, ev_set_ok = (\<lambda>k v. True),
      ev_sign = (\<lambda>k c. case key_of tokens c of None \<Rightarrow> Inl ''unknown'' | Some n \<Rightarrow> Inr n),
      ev_visit = id, ev_encrypt = (\<lambda>b k. None), ev_err_text = (\<lambda>err. ''''),
      ev_attest_now1 = 1000, ev_attest_now2 = 1000, ev_dpop_now = 1000, ev_nonce_now = 1000,
      ev_sign_now = 1000\<rparr>"

definition demo_state :: exchange_state where
  "demo_state = \<lparr>xt_nonces = newNonceTracker, xt_audit = [], xt_signals = [], xt_callbacks = []\<rparr>"

lemma key_of_Some: "key_of ts c = Some n \<Longrightarrow> (n, c) \<in> set ts"
  by (induction ts c rule: key_of.induct) (auto split: if_splits)

lemma demo_roundtrip:
  "distinct (map fst ts) \<Longrightarrow> ev_sign (demo_env ts) k c = Inr n \<Longrightarrow> ev_parse (demo_env ts) ks n = Inr c"
  by (auto simp: demo_env_def split: option.splits dest!: key_of_Some
      dest: eq_key_imp_eq_value)

end
