(* ===== verification/Exchange_Guarantees.thy ===== *)
theory Exchange_Guarantees
  imports Exchange_Demo
begin

text \<open>
  The properties of the token exchange: when it issues a token, what it leaves behind, what
  the token contains and what its readers may conclude from it, along a chain of
  delegations and along a run of exchanges that share the nonce tracker.
\<close>

section \<open>When a token is issued\<close>

text \<open>
  C1. An exchange returns a token exactly when every check holds at once: the grant type,
  a supported credential type, a workload identity that validates, no live revocation of
  it, a valid attestation header if there is one, an allowing policy decision on the
  workload, a valid delegation, DPoP proof and execution scope where requested, and claims
  that can be built and signed. The response is the one built from these.
\<close>

theorem Exchange_succeeds_iff:
  "fst (Exchange V e req s) = Inr resp \<longleftrightarrow>
     (\<exists>g. granted V e req s g
        \<and> resp = ex_response e req (gr_delegation g) (rq_execution_scope req) (gr_token g))"
  by (rule Exchange_Inr_iff)


section \<open>Revocation\<close>

lemma Exchange_after_workload:
  assumes "rq_grant_type req = grantTypeTokenExchange"
    and "mapCredType (rq_subject_token_type req) = Inr c"
    and "en_identity e (rq_subject_token req) c = Inr w"
    and "str_count (wi_id w) ''wimse://'' \<le> 1"
  shows "ex_validate_workload e req s = (Inr (c, w), s)"
  using assms by (simp add: ex_validate_workload_def stage_simps)

text \<open>
  C5. A revoked workload gets no token. When the engine consults the in-memory revocation
  index, a workload that was revoked, and whose revocation has not expired, is denied
  whatever was revoked or cleaned up since, with a denied audit record and nothing else
  changed.
\<close>

theorem revoked_subject_denied:
  assumes req: "rq_grant_type req = grantTypeTokenExchange"
      "mapCredType (rq_subject_token_type req) = Inr c"
      "en_identity e (rq_subject_token req) c = Inr w"
      "str_count (wi_id w) ''wimse://'' \<le> 1"
    and idx: "revocation_ok idx" "wi_id w \<noteq> ''''" "x = 0 \<or> u \<le> x"
    and later: "\<forall>(t', q) \<in> set ps. t' \<le> u \<and> (\<forall>r' x'. q \<noteq> Some (wi_id w, r', x'))"
    and engine: "en_revocation e = Some (\<lambda>wid. Inr (IsRevoked u wid
      (mem_index.apply_ops (snd (Revoke t (wi_id w) r x idx)) ps)))"
  shows "\<exists>reason. Exchange V e req s =
    (Inl (ESubjectRevoked (wi_id w)),
     s\<lparr>xt_audit := xt_audit s @ [audit_lit ''exchange'' ''token_exchange'' (wi_id w)
          (rq_audience req) ''denied'' reason []]\<rparr>)"
proof -
  have "IsRevoked u (wi_id w) (mem_index.apply_ops (snd (Revoke t (wi_id w) r x idx)) ps) =
    IsRevoked u (wi_id w) (snd (Revoke t (wi_id w) r x idx))"
    using idx(1) later by (intro mem_index.revocation_persists revocation_ok_Revoke)
  then have "\<exists>entry. IsRevoked u (wi_id w)
    (mem_index.apply_ops (snd (Revoke t (wi_id w) r x idx)) ps) = Some entry"
    using idx(2,3) by (auto simp: IsRevoked_Revoke)
  then show ?thesis
    using engine Exchange_after_workload [OF req, of s]
    by (auto simp: Exchange_def sbind_def ex_check_revocation_def deny_def log_audit_def stage_simps)
qed

theorem revoked_subject_denied_witness:
  "\<exists>reason. Exchange (demo_env demo_tokens)
     (demo_engine\<lparr>en_revocation := Some (\<lambda>wid. Inr (IsRevoked 9 wid
        (mem_index.apply_ops (snd (Revoke 1 ''w1'' ''compromised'' 0 [])) [(2, None)])))\<rparr>)
     (demo_request ''w1'' '''') demo_state =
   (Inl (ESubjectRevoked ''w1''),
    demo_state\<lparr>xt_audit := xt_audit demo_state @ [audit_lit ''exchange'' ''token_exchange'' ''w1''
       ''api'' ''denied'' reason []]\<rparr>)"
proof -
  have count: "str_count ''w1'' ''wimse://'' \<le> 1" by code_simp
  show ?thesis
    using revoked_subject_denied [of "demo_request ''w1'' ''''" "''k8s-sa''"
        "demo_engine\<lparr>en_revocation := Some (\<lambda>wid. Inr (IsRevoked 9 wid
          (mem_index.apply_ops (snd (Revoke 1 ''w1'' ''compromised'' 0 [])) [(2, None)])))\<rparr>"
        "\<lparr>wi_id = ''w1'', wi_trust_domain = ''td'', wi_attestation = None, wi_claims = []\<rparr>"
        "[]" 0 9 "[(2, None)]" 1 "''compromised''" "demo_env demo_tokens" demo_state] count
    by (simp add: demo_request_def demo_engine_def mapCredType_def cred_types_def
        revocation_ok_def)
qed

text \<open>
  A revocation index that does not answer never blocks an exchange: the engine fails
  open, and grants exactly the tokens it would grant without an index.
\<close>

theorem revocation_outage_fails_open:
  assumes "en_revocation e = Some f" and "\<forall>wid. \<exists>err. f wid = Inl err"
  shows "fst (Exchange V e req s) = Inr resp \<longleftrightarrow>
    fst (Exchange V (e\<lparr>en_revocation := None\<rparr>) req s) = Inr resp"
proof -
  have clear: "revocation_clear e w" for w
  proof -
    obtain err where "f (wi_id w) = Inl err" using assms(2) by blast
    then show ?thesis using assms(1) by (simp add: revocation_clear_def)
  qed
  have "granted V e req s g \<longleftrightarrow> granted V (e\<lparr>en_revocation := None\<rparr>) req s g" for g
    using clear by (simp add: granted_def revocation_clear_def delegation_granted_def
        delivered_secrets_def ex_policy_input_def attestation_context_def attestationAssurance_def
        publicKeySet_def Engine_PublicKeySet_def token_claims_def identity_claims_def
        binding_claims_def base_claims_def token_ttl_def active_key_def cong: option.case_cong)
  moreover have "ex_response (e\<lparr>en_revocation := None\<rparr>) = ex_response e"
    by (simp add: fun_eq_iff ex_response_def token_ttl_def cong: option.case_cong)
  ultimately show ?thesis by (simp add: Exchange_Inr_iff)
qed

theorem revocation_outage_fails_open_witness:
  "fst (Exchange (demo_env demo_tokens)
     (demo_engine\<lparr>en_revocation := Some (\<lambda>wid. Inl ''down'')\<rparr>) (demo_request ''w1'' '''') demo_state)
   = Inr (ex_response demo_engine (demo_request ''w1'' '''') None None ''plain'')"
proof -
  have "fst (Exchange (demo_env demo_tokens)
      ((demo_engine\<lparr>en_revocation := Some (\<lambda>wid. Inl ''down'')\<rparr>)\<lparr>en_revocation := None\<rparr>)
      (demo_request ''w1'' '''') demo_state)
    = Inr (ex_response demo_engine (demo_request ''w1'' '''') None None ''plain'')"
    by code_simp
  then show ?thesis
    using revocation_outage_fails_open [of "demo_engine\<lparr>en_revocation := Some (\<lambda>wid. Inl ''down'')\<rparr>"
        "\<lambda>wid. Inl ''down''" "demo_env demo_tokens" "demo_request ''w1'' ''''" demo_state]
    by simp
qed

section \<open>What the token says\<close>

text \<open>
  C10. An execution-scoped token authorises exactly the action it was issued for: the check
  of a resource server accepts the signed claims for an action if and only if the action has
  the requested method and URI and, when the server has a hash of the input, that hash. The
  token expires one execution lifetime after it was signed.
\<close>

theorem scoped_token_exact:
  assumes "fst (Exchange V e req s) = Inr resp" and "rq_execution_scope req = Some sc"
  shows "\<exists>tok. ev_sign V (active_key e) tok = Inr (rs_access_token resp)
    \<and> (\<forall>act. VerifyExecutionScope tok act = None \<longleftrightarrow>
         xs_method act = xs_method sc \<and> xs_uri act = xs_uri sc
         \<and> want_hash act \<in> {'''', want_hash sc})
    \<and> get_num tok ''exp'' =
        Some (of_int (unix_seconds (time_add (ev_sign_now V) (en_execution_ttl e))))"
proof -
  from assms(1) obtain g where "granted V e req s g" and g:
    "ev_sign V (active_key e) (gr_claims g) = Inr (rs_access_token resp)"
    "token_claims V e req (gr_workload g) (gr_decision g) (gr_delegation g) (gr_dpop g)
       (Some sc) (gr_secrets g) = Inr (gr_claims g)"
    unfolding assms(2) [symmetric] by (rule Exchange_claims)
  from g(2) obtain t1 t2 t3 where
    l: "identity_claims V e req (gr_workload g) (gr_decision g) (gr_delegation g) (Some sc) = Inr t1"
      "binding_claims V e req (gr_dpop g) t1 = Inr t2" "scope_claims V (Some sc) t2 = Inr t3"
      "set_str_claim V ''secrets'' (gr_secrets g) t3 = Inr (gr_claims g)"
    by (rule token_claims_layers)
  note look = map_of_set_str_claim [OF l(4)] map_of_scope_claims [OF l(3)]
    map_of_binding_claims [OF l(2)] identity_claims_keys [OF l(1)]
  have "get_str (gr_claims g) ''htm'' = Some (xs_method sc)"
    "get_str (gr_claims g) ''htu'' = Some (xs_uri sc)"
    "get_str (gr_claims g) ''inp_hash'' = (if want_hash sc = '''' then None else Some (want_hash sc))"
    "get_str (gr_claims g) ''payload_hash'' = None"
    by (simp_all add: get_str_def look)
  then have "VerifyExecutionScope (gr_claims g) act = None \<longleftrightarrow>
      xs_method act = xs_method sc \<and> xs_uri act = xs_uri sc \<and> want_hash act \<in> {'''', want_hash sc}"
    for act
    by (auto simp: VerifyExecutionScope_def want_hash_def [of act, symmetric] Let_def)
  moreover have "get_num (gr_claims g) ''exp'' =
      Some (of_int (unix_seconds (time_add (ev_sign_now V) (en_execution_ttl e))))"
    using token_identity_values(4) [OF g(2)] by (simp add: get_num_def token_ttl_def)
  ultimately show ?thesis using g(1) by blast
qed

definition demo_scoped_request :: token_exchange_request where
  "demo_scoped_request = (demo_request ''w1'' '''')\<lparr>rq_execution_scope := Some demo_scope\<rparr>"

definition demo_scoped_tokens :: "(string \<times> claims) list" where
  "demo_scoped_tokens =
     [(''scoped'',
       AList.update ''exp'' (JNum (-62135596770))
         (demo_token ''w1'' [(''htm'', JStr ''PUT''), (''htu'', JStr ''/x''),
                             (''inp_hash'', JStr ''h1''), (''nonce'', JStr ''n1'')]))]"

lemma demo_scoped_exchange:
  "fst (Exchange (demo_env demo_scoped_tokens) demo_engine demo_scoped_request demo_state) =
   Inr (ex_response demo_engine demo_scoped_request None (Some demo_scope) ''scoped'')"
  by code_simp

theorem scoped_token_exact_witness:
  "\<exists>tok. ev_sign (demo_env demo_scoped_tokens) (active_key demo_engine) tok = Inr ''scoped''
    \<and> VerifyExecutionScope tok demo_scope = None
    \<and> VerifyExecutionScope tok (demo_scope\<lparr>xs_method := ''GET''\<rparr>) \<noteq> None"
proof -
  have "rq_execution_scope demo_scoped_request = Some demo_scope"
    by (simp add: demo_scoped_request_def)
  from scoped_token_exact [OF demo_scoped_exchange this] obtain tok where
    tok: "ev_sign (demo_env demo_scoped_tokens) (active_key demo_engine) tok = Inr (rs_access_token
      (ex_response demo_engine demo_scoped_request None (Some demo_scope) ''scoped''))"
    and v: "\<And>act. VerifyExecutionScope tok act = None \<longleftrightarrow> xs_method act = xs_method demo_scope
      \<and> xs_uri act = xs_uri demo_scope \<and> want_hash act \<in> {'''', want_hash demo_scope}"
    by blast
  show ?thesis
    using tok v [of demo_scope] v [of "demo_scope\<lparr>xs_method := ''GET''\<rparr>"]
    by (intro exI [of _ tok]) (simp add: ex_response_def demo_scope_def)
qed

text \<open>
  Outside development mode no token claims hardware assurance: an attestation header is
  self-reported, so whatever hardware evidence it lists, the assurance level that is signed
  is at most \<open>software\<close>, and a request without a header gets no assurance level at all.
\<close>

theorem assurance_capped:
  assumes "fst (Exchange V e req s) = Inr resp" and "\<not> en_dev_mode e"
  shows "\<exists>tok. ev_sign V (active_key e) tok = Inr (rs_access_token resp)
    \<and> get_str tok ''assurance_level'' =
        (if rq_attestation req = None then None else Some ''software'')"
proof -
  from assms(1) obtain g where "granted V e req s g" and g:
    "ev_sign V (active_key e) (gr_claims g) = Inr (rs_access_token resp)"
    "token_claims V e req (gr_workload g) (gr_decision g) (gr_delegation g) (gr_dpop g)
       (rq_execution_scope req) (gr_secrets g) = Inr (gr_claims g)"
    by (rule Exchange_claims)
  from g(2) obtain t1 t2 t3 where
    l: "identity_claims V e req (gr_workload g) (gr_decision g) (gr_delegation g)
          (rq_execution_scope req) = Inr t1"
      "binding_claims V e req (gr_dpop g) t1 = Inr t2"
      "scope_claims V (rq_execution_scope req) t2 = Inr t3"
      "set_str_claim V ''secrets'' (gr_secrets g) t3 = Inr (gr_claims g)"
    by (rule token_claims_layers)
  have "get_str (gr_claims g) ''assurance_level'' =
        (if rq_attestation req = None then None else Some ''software'')"
    using assms(2)
    by (auto simp: get_str_def map_of_set_str_claim [OF l(4)] map_of_scope_claims_other [OF l(3)]
        map_of_binding_claims [OF l(2)] identity_claims_keys [OF l(1)] scope_keys_def
        attestationAssurance_def AssuranceLevel_def)
  with g(1) show ?thesis by blast
qed

definition demo_attested_request :: token_exchange_request where
  "demo_attested_request = (demo_request ''w1'' '''')\<lparr>rq_attestation := Some demo_attestation\<rparr>"

definition demo_attested_tokens :: "(string \<times> claims) list" where
  "demo_attested_tokens =
     [(''attested'', demo_token ''w1'' [(''assurance_level'', JStr ''software''),
        (''attestation'', attestation_claims demo_attestation)])]"

lemma demo_attested_exchange:
  "fst (Exchange (demo_env demo_attested_tokens) demo_engine demo_attested_request demo_state) =
   Inr (ex_response demo_engine demo_attested_request None None ''attested'')"
  by code_simp

theorem assurance_capped_witness:
  "AssuranceLevel (Some demo_attestation) = ''hardware'' \<and>
   (\<exists>tok. ev_sign (demo_env demo_attested_tokens) (active_key demo_engine) tok = Inr ''attested''
    \<and> get_str tok ''assurance_level'' = Some ''software'')"
  using assurance_capped [OF demo_attested_exchange]
  by (auto simp: demo_attested_request_def ex_response_def demo_engine_def demo_attestation_def
      AssuranceLevel_def)

text \<open>
  C13. A token requested with a DPoP proof is bound to the key of that proof: its \<open>cnf.jkt\<close>
  is the thumbprint of the key, and the tool-call check accepts a call with the token in
  production exactly when the call carries a valid proof by a key with that thumbprint. The
  hypothesis on the digest is that SHA-256 in base64url is never the empty string.
\<close>

theorem dpop_binding:
  assumes "fst (Exchange V e req s) = Inr resp" and "rq_dpop_proof req \<noteq> ''''"
    and digest: "\<forall>x. jo_sha256_b64url (ev_jose V) x \<noteq> ''''"
  shows "\<exists>tok tp. ev_sign V (active_key e) tok = Inr (rs_access_token resp)
    \<and> validateDPoP (ev_jose V) (ev_dpop_now V) (rq_dpop_proof req) = Inr tp
    \<and> map_of tok ''cnf'' = Some (JObj [(''jkt'', JStr tp)])
    \<and> (\<forall>now opts r. verifyDPoP (ev_jose V) now False tp opts = Inr r \<longleftrightarrow>
         r = tp \<and> (\<exists>prf. opts = Some prf \<and> prf \<noteq> ''''
                      \<and> validateDPoP (ev_jose V) now prf = Inr tp))"
proof -
  from assms(1) obtain g where gr: "granted V e req s g" and g:
    "ev_sign V (active_key e) (gr_claims g) = Inr (rs_access_token resp)"
    "token_claims V e req (gr_workload g) (gr_decision g) (gr_delegation g) (gr_dpop g)
       (rq_execution_scope req) (gr_secrets g) = Inr (gr_claims g)"
    by (rule Exchange_claims)
  have "dpop_granted V req (gr_dpop g)" using gr unfolding granted_def by blast
  with assms(2) obtain tp where tp: "gr_dpop g = Some tp"
    and valid: "validateDPoP (ev_jose V) (ev_dpop_now V) (rq_dpop_proof req) = Inr tp"
    by (auto simp: dpop_granted_def split: option.splits)
  from g(2) obtain t1 t2 t3 where
    l: "binding_claims V e req (gr_dpop g) t1 = Inr t2"
      "scope_claims V (rq_execution_scope req) t2 = Inr t3"
      "set_str_claim V ''secrets'' (gr_secrets g) t3 = Inr (gr_claims g)"
    by (rule token_claims_layers)
  have "map_of (gr_claims g) ''cnf'' = Some (JObj [(''jkt'', JStr tp)])"
    by (simp add: map_of_set_str_claim [OF l(3)] map_of_scope_claims_other [OF l(2)]
        map_of_binding_claims [OF l(1)] scope_keys_def tp)
  moreover have "tp \<noteq> ''''"
    using valid digest by (rule validateDPoP_nonempty)
  then have "verifyDPoP (ev_jose V) now False tp opts = Inr r \<longleftrightarrow>
      r = tp \<and> (\<exists>prf. opts = Some prf \<and> prf \<noteq> '''' \<and> validateDPoP (ev_jose V) now prf = Inr tp)"
    for now opts r by (rule verifyDPoP_bound)
  ultimately show ?thesis using g(1) valid by blast
qed

definition demo_dpop_request :: token_exchange_request where
  "demo_dpop_request = (demo_request ''w1'' '''')\<lparr>rq_dpop_proof := ''key7''\<rparr>"

definition demo_dpop_tokens :: "(string \<times> claims) list" where
  "demo_dpop_tokens = [(''bound'', demo_token ''w1'' [(''cnf'', JObj [(''jkt'', JStr ''hkey7'')])])]"

lemma demo_dpop_exchange:
  "fst (Exchange (demo_env demo_dpop_tokens) demo_engine demo_dpop_request demo_state) =
   Inr (ex_response demo_engine demo_dpop_request None None ''bound'')"
  by code_simp

theorem dpop_binding_witness:
  "\<exists>tok tp. ev_sign (demo_env demo_dpop_tokens) (active_key demo_engine) tok = Inr ''bound''
    \<and> validateDPoP demo_jose 1000 ''key7'' = Inr tp
    \<and> map_of tok ''cnf'' = Some (JObj [(''jkt'', JStr tp)])"
  using dpop_binding [OF demo_dpop_exchange]
  by (auto simp: demo_dpop_request_def ex_response_def demo_env_def demo_jose_def)

section \<open>Delegation chains\<close>

text \<open>
  Two exchanges of one unit: the same JWT library and the same signing keys, possibly at
  different instants and with a different revocation state.
\<close>

definition same_unit ::
  "('signer, 'key, 'pub, 'alg, 'raw) exchange_env \<Rightarrow> 'key engine
   \<Rightarrow> ('signer, 'key, 'pub, 'alg, 'raw) exchange_env \<Rightarrow> 'key engine \<Rightarrow> bool" where
  "same_unit V e V' e' \<longleftrightarrow>
     ev_parse V' = ev_parse V \<and> ev_sign V' = ev_sign V \<and> ev_jwk V' = ev_jwk V
     \<and> en_keyring e' = en_keyring e \<and> en_sign_key e' = en_sign_key e"

definition verify_token ::
  "('signer, 'key, 'pub, 'alg, 'raw) exchange_env \<Rightarrow> 'key engine \<Rightarrow> string \<Rightarrow> string + claims" where
  "verify_token V e t = ev_parse V (publicKeySet (ev_jwk V) e) t"

text \<open>The JWT library verifies what it signed, with the claims that were signed.\<close>

definition jwt_roundtrip ::
  "('signer, 'key, 'pub, 'alg, 'raw) exchange_env \<Rightarrow> 'key engine \<Rightarrow> bool" where
  "jwt_roundtrip V e \<longleftrightarrow>
     (\<forall>tok str. ev_sign V (active_key e) tok = Inr str \<longrightarrow> verify_token V e str = Inr tok)"

lemma same_unit_verify:
  "same_unit V e V' e' \<Longrightarrow> verify_token V' e' = verify_token V e"
  "same_unit V e V' e' \<Longrightarrow> ev_sign V' (active_key e') = ev_sign V (active_key e)"
  by (simp_all add: same_unit_def verify_token_def publicKeySet_def Engine_PublicKeySet_def
      active_key_def fun_eq_iff cong: option.case_cong)

text \<open>The context that a delegated exchange reads back from its own token.\<close>

lemma delegated_context:
  assumes tok: "token_claims V e req w d (Some p) dp sc sec = Inr tok"
    and bounds: "- (2 ^ 63) \<le> dc_depth p" "dc_depth p < 2 ^ 63"
    and valid: "validateDelegation p (requested_caps d) (requested_blast_radius d) = None"
    and read: "parseDelegationContext tok = Inr c"
  shows "narrows p c"
proof -
  note claims = token_identity_values [OF tok]
  have "dc_depth c = (if 0 < dc_depth p then dc_depth p - 1 else -1)"
    using read claims(8) float_to_int_of_int [of "dc_depth p - 1"] bounds
    by (auto simp: parseDelegationContext_def get_num_def split: option.splits if_splits)
  moreover have "dc_caps c = requested_caps d"
    using read claims(5) by (auto simp: parseDelegationContext_def requested_caps_def get_arr_def
        split: option.splits if_splits)
  moreover have "dc_blast_radius c = requested_blast_radius d"
    using read claims(6) by (auto simp: parseDelegationContext_def requested_blast_radius_def
        get_str_def split: option.splits if_splits)
  moreover have "dc_obo_chain c = buildOBOChain p"
    using read claims(7) by (auto simp: parseDelegationContext_def get_arr_def
        split: option.splits if_splits)
  ultimately show ?thesis
    using valid by (auto simp: narrows_def validateDelegation_None_iff)
qed

lemma Exchange_hop:
  assumes "fst (Exchange V e req s) = Inr resp" and "rq_actor_token req \<noteq> ''''"
  obtains actor p tok where "verify_token V e (rq_actor_token req) = Inr actor"
    "parseDelegationContext actor = Inr p"
    "ev_sign V (active_key e) tok = Inr (rs_access_token resp)"
    "\<forall>c. parseDelegationContext tok = Inr c \<longrightarrow> narrows p c"
    "dc_depth p \<noteq> 0" "get_arr tok ''obo'' = Some (buildOBOChain p)"
    "get_num tok ''delegation_depth'' =
       (if 0 < dc_depth p then Some (of_int (dc_depth p - 1)) else None)"
proof -
  from assms(1) obtain g where gr: "granted V e req s g" and g:
    "ev_sign V (active_key e) (gr_claims g) = Inr (rs_access_token resp)"
    "token_claims V e req (gr_workload g) (gr_decision g) (gr_delegation g) (gr_dpop g)
       (rq_execution_scope req) (gr_secrets g) = Inr (gr_claims g)"
    by (rule Exchange_claims)
  have "delegation_granted V e req (gr_decision g) (gr_delegation g)"
    using gr unfolding granted_def by blast
  with assms(2) obtain p actor where p: "gr_delegation g = Some p"
    "verify_token V e (rq_actor_token req) = Inr actor" "parseDelegationContext actor = Inr p"
    and valid: "validateDelegation p (requested_caps (gr_decision g))
      (requested_blast_radius (gr_decision g)) = None"
    by (auto simp: delegation_granted_def verify_token_def split: option.splits sum.splits)
  have bounds: "- (2 ^ 63) \<le> dc_depth p" "dc_depth p < 2 ^ 63"
    using parseDelegationContext_depth_bounds [OF p(3)] by auto
  note tok = g(2) [unfolded p(1)]
  show thesis
    by (rule that [OF p(2,3) g(1)])
      (use valid delegated_context [OF tok bounds valid] in \<open>auto simp: validateDelegation_None_iff get_arr_def get_num_def
        token_identity_values [OF tok]\<close>)
qed

text \<open>
  A delegated exchange narrows. The token it issues, read back as an actor token, has
  one less delegation left, an on-behalf-of chain extended by the parent's subject, and
  capabilities and a blast radius within the parent's wherever both carry them.
\<close>

theorem delegated_token_narrows:
  assumes "fst (Exchange V e req s) = Inr resp" and "rq_actor_token req \<noteq> ''''"
  shows "\<exists>actor p tok. verify_token V e (rq_actor_token req) = Inr actor
    \<and> parseDelegationContext actor = Inr p
    \<and> ev_sign V (active_key e) tok = Inr (rs_access_token resp)
    \<and> (\<forall>c. parseDelegationContext tok = Inr c \<longrightarrow> narrows p c)"
  using assms by (rule Exchange_hop) blast

lemma demo_hop1:
  "fst (Exchange (demo_env demo_tokens) demo_engine (demo_request ''a1'' ''root'') demo_state) =
   Inr (ex_response demo_engine (demo_request ''a1'' ''root'')
     (Some \<lparr>dc_parent_subject = ''a0'', dc_depth = 2, dc_caps = [''read'', ''list''],
            dc_blast_radius = ''namespace:a'', dc_obo_chain = []\<rparr>) None ''hop1'')"
  by code_simp

theorem delegated_token_narrows_witness:
  "\<exists>actor p tok. verify_token (demo_env demo_tokens) demo_engine ''root'' = Inr actor
    \<and> parseDelegationContext actor = Inr p
    \<and> ev_sign (demo_env demo_tokens) (active_key demo_engine) tok = Inr ''hop1''
    \<and> (\<forall>c. parseDelegationContext tok = Inr c \<longrightarrow> narrows p c)"
  using delegated_token_narrows [OF demo_hop1]
  by (simp add: demo_request_def ex_response_def)

text \<open>
  A chain of delegations, the latest token first: each token was issued by an exchange whose
  actor token is the one after it.
\<close>

inductive delegation_chain ::
  "('signer, 'key, 'pub, 'alg, 'raw) exchange_env \<Rightarrow> 'key engine \<Rightarrow> string list \<Rightarrow> bool"
  for V :: "('signer, 'key, 'pub, 'alg, 'raw) exchange_env" and e :: "'key engine" where
  start: "delegation_chain V e [a]"
| hop: "delegation_chain V e (b # ts) \<Longrightarrow> same_unit V e V' e' \<Longrightarrow>
    fst (Exchange V' e' req s) = Inr resp \<Longrightarrow> rq_actor_token req = b \<Longrightarrow> b \<noteq> '''' \<Longrightarrow>
    delegation_chain V e (rs_access_token resp # b # ts)"

inductive_cases delegation_chain_ConsE: "delegation_chain V e (a # b # ts)"







lemma demo_hop2:
  "fst (Exchange (demo_env demo_tokens) demo_engine (demo_request ''a2'' ''hop1'') demo_state) =
   Inr (ex_response demo_engine (demo_request ''a2'' ''hop1'')
     (Some \<lparr>dc_parent_subject = ''a1'', dc_depth = 1, dc_caps = [''read'', ''list''],
            dc_blast_radius = ''namespace:a'', dc_obo_chain = [JStr ''a0'']\<rparr>) None ''hop2'')"
  by code_simp

lemma demo_same_unit: "same_unit V e V e"
  by (simp add: same_unit_def)

lemma demo_chain: "delegation_chain (demo_env demo_tokens) demo_engine [''hop2'', ''hop1'', ''root'']"
  using delegation_chain.hop [OF delegation_chain.hop [OF delegation_chain.start demo_same_unit
        demo_hop1] demo_same_unit demo_hop2]
  by (simp add: ex_response_def demo_request_def)

lemma demo_jwt_roundtrip: "jwt_roundtrip (demo_env demo_tokens) demo_engine"
  using demo_roundtrip [of demo_tokens]
  by (simp add: jwt_roundtrip_def verify_token_def demo_tokens_def)


text \<open>The delegation context that a token of the unit carries.\<close>

definition token_context ::
  "('signer, 'key, 'pub, 'alg, 'raw) exchange_env \<Rightarrow> 'key engine \<Rightarrow> string
   \<Rightarrow> delegation_context option" where
  "token_context V e t =
     (case verify_token V e t of
        Inl _ \<Rightarrow> None
      | Inr tok \<Rightarrow> case parseDelegationContext tok of Inl _ \<Rightarrow> None | Inr c \<Rightarrow> Some c)"

lemma chain_hop_narrows:
  assumes "same_unit V e V' e'" and "jwt_roundtrip V e"
    and "fst (Exchange V' e' req s) = Inr resp" and "rq_actor_token req = b" "b \<noteq> ''''"
    and "token_context V e b = Some p" and "token_context V e (rs_access_token resp) = Some c"
  shows "narrows p c"
proof -
  have "rq_actor_token req \<noteq> ''''" using assms by simp
  with assms(3) obtain actor q tok where h: "verify_token V' e' (rq_actor_token req) = Inr actor"
    "parseDelegationContext actor = Inr q"
    "ev_sign V' (active_key e') tok = Inr (rs_access_token resp)"
    "\<forall>c. parseDelegationContext tok = Inr c \<longrightarrow> narrows q c"
    by (rule Exchange_hop)
  have "q = p"
    using h(1,2) assms(4,6) same_unit_verify(1) [OF assms(1)] by (simp add: token_context_def)
  moreover have "verify_token V e (rs_access_token resp) = Inr tok"
    using h(3) assms(2) same_unit_verify(2) [OF assms(1)] by (simp add: jwt_roundtrip_def)
  then have "parseDelegationContext tok = Inr c"
    using assms(7) by (simp add: token_context_def split: sum.splits)
  ultimately show ?thesis using h(4) by blast
qed

text \<open>
  C12. Authority does not grow along a chain. When every token of a chain of delegations
  carries capabilities and a blast radius, the capabilities of the last one are among those
  of the first and its blast radius is no broader.
\<close>

theorem delegation_chain_contained:
  assumes "delegation_chain V e ts" and "jwt_roundtrip V e"
    and "\<forall>t \<in> set ts. \<exists>c. token_context V e t = Some c \<and> dc_caps c \<noteq> []
           \<and> dc_blast_radius c \<noteq> ''''"
    and "token_context V e (hd ts) = Some c" and "token_context V e (last ts) = Some r"
  shows "set (dc_caps c) \<subseteq> set (dc_caps r)
    \<and> isBlastRadiusNarrowerOrEqual (dc_blast_radius c) (dc_blast_radius r)"
proof -
  let ?caps = "\<lambda>t. dc_caps (the (token_context V e t))"
  let ?br = "\<lambda>t. dc_blast_radius (the (token_context V e t))"
  have "caps.descending (map ?caps (rev ts)) \<and> blast.descending (map ?br (rev ts)) \<and> ts \<noteq> []"
    using assms(1,3)
  proof induction
    case (start a)
    then show ?case by simp
  next
    case (hop b ts V' e' req s resp)
    then obtain p n where p: "token_context V e b = Some p"
      and n: "token_context V e (rs_access_token resp) = Some n" by fastforce
    have "narrows p n"
      by (rule chain_hop_narrows [OF hop.hyps(2) assms(2) hop.hyps(3-5) p n])
    moreover have "dc_caps p \<noteq> []" "dc_caps n \<noteq> []" "dc_blast_radius p \<noteq> ''''"
      "dc_blast_radius n \<noteq> ''''" using hop.prems p n by auto
    ultimately have "set (dc_caps n) \<subseteq> set (dc_caps p)"
      "isBlastRadiusNarrowerOrEqual (dc_blast_radius n) (dc_blast_radius p)"
      by (auto simp: narrows_def)
    moreover have "caps.descending (map ?caps (rev ts) @ [?caps b])"
      "blast.descending (map ?br (rev ts) @ [?br b])"
      using hop.IH hop.prems by simp_all
    ultimately show ?case
      using caps.descending_snoc [of "map ?caps (rev ts) @ [?caps b]"]
        blast.descending_snoc [of "map ?br (rev ts) @ [?br b]"] p n by simp
  qed
  then show ?thesis
    using caps.descending_rev [of "map ?caps ts"] blast.descending_rev [of "map ?br ts"] assms(4,5)
    by (simp add: rev_map hd_map last_map)
qed

theorem delegation_chain_contained_witness:
  "isBlastRadiusNarrowerOrEqual
     (dc_blast_radius (the (token_context (demo_env demo_tokens) demo_engine ''hop2'')))
     (dc_blast_radius (the (token_context (demo_env demo_tokens) demo_engine ''root'')))"
proof -
  let ?ctx = "\<lambda>s d obo. \<lparr>dc_parent_subject = s, dc_depth = d, dc_caps = [''read'', ''list''],
    dc_blast_radius = ''namespace:a'', dc_obo_chain = obo\<rparr>"
  have ctx: "token_context (demo_env demo_tokens) demo_engine ''root'' = Some (?ctx ''a0'' 2 [])"
    "token_context (demo_env demo_tokens) demo_engine ''hop1'' = Some (?ctx ''a1'' 1 [JStr ''a0''])"
    "token_context (demo_env demo_tokens) demo_engine ''hop2'' =
       Some (?ctx ''a2'' 0 [JStr ''a0'', JStr ''a1''])"
    by code_simp+
  show ?thesis
    using delegation_chain_contained [OF demo_chain demo_jwt_roundtrip,
        of "?ctx ''a2'' 0 [JStr ''a0'', JStr ''a1'']" "?ctx ''a0'' 2 []"] ctx by simp
qed

end
