(* ===== verification/Exchange_Runs.thy ===== *)
theory Exchange_Runs
  imports Exchange_Demo
begin

text \<open>
  Runs of exchanges that share the nonce tracker of one unit, the lifetime of tokens, the
  audit trail of refusals and the delivery of secrets.
\<close>

section \<open>Nonces are spent once\<close>

type_synonym ('signer, 'key, 'pub, 'alg, 'raw) exchange_call =
  "('signer, 'key, 'pub, 'alg, 'raw) exchange_env \<times> 'key engine \<times> token_exchange_request"

text \<open>
  The execution-scoped tokens issued by a sequence of exchanges: for each, the instant of
  its nonce check and its nonce.
\<close>

fun scoped_issues ::
  "exchange_state \<Rightarrow> ('signer, 'key, 'pub, 'alg, 'raw) exchange_call list
   \<Rightarrow> (go_time \<times> string) list" where
  "scoped_issues s [] = []"
| "scoped_issues s ((V, e, req) # calls) =
     (case (fst (Exchange V e req s), rq_execution_scope req) of
        (Inr _, Some sc) \<Rightarrow> [(ev_nonce_now V, xs_nonce sc)]
      | _ \<Rightarrow> [])
     @ scoped_issues (snd (Exchange V e req s)) calls"

lemma scoped_issue_checked:
  assumes "fst (Exchange V e req s) = Inr resp" and "rq_execution_scope req = Some sc"
  shows "validateExecutionScope sc = None"
    "fst (nonce_check (ev_nonce_now V) (xs_nonce sc) (xt_nonces s)) = None"
    "xt_nonces (snd (Exchange V e req s)) =
       snd (nonce_check (ev_nonce_now V) (xs_nonce sc) (xt_nonces s))"
proof -
  from assms(1) have run: "Exchange V e req s = (Inr resp, snd (Exchange V e req s))"
    by (metis prod.collapse)
  from Exchange_InrD [OF run] obtain g where g: "granted V e req s g"
    and n: "xt_nonces (snd (Exchange V e req s)) = scope_nonces V req (xt_nonces s)" by blast
  have "scope_granted V s (Some sc)" using g unfolding granted_def assms(2) by blast
  then show *: "validateExecutionScope sc = None"
    "fst (nonce_check (ev_nonce_now V) (xs_nonce sc) (xt_nonces s)) = None"
    by (simp_all add: scope_granted_def)
  show "xt_nonces (snd (Exchange V e req s)) =
       snd (nonce_check (ev_nonce_now V) (xs_nonce sc) (xt_nonces s))"
    by (simp add: n scope_nonces_def assms(2) *)
qed

text \<open>One exchange is no check of the tracker or one, and issues only after that check passed.\<close>

lemma exchange_step:
  obtains (none) "xt_nonces (snd (Exchange V e req s)) = xt_nonces s"
      "\<And>calls. scoped_issues s ((V, e, req) # calls) =
        scoped_issues (snd (Exchange V e req s)) calls"
  | (checked) sc :: execution_scope where "xt_nonces (snd (Exchange V e req s)) =
        snd (nonce_check (ev_nonce_now V) (xs_nonce sc) (xt_nonces s))"
      "\<And>calls. scoped_issues s ((V, e, req) # calls) =
        scoped_issues (snd (Exchange V e req s)) calls"
  | (issued) sc :: execution_scope where "xt_nonces (snd (Exchange V e req s)) =
        snd (nonce_check (ev_nonce_now V) (xs_nonce sc) (xt_nonces s))"
      "fst (nonce_check (ev_nonce_now V) (xs_nonce sc) (xt_nonces s)) = None"
      "\<And>calls. scoped_issues s ((V, e, req) # calls) =
        (ev_nonce_now V, xs_nonce sc) # scoped_issues (snd (Exchange V e req s)) calls"
proof (cases "\<exists>resp sc. fst (Exchange V e req s) = Inr resp \<and> rq_execution_scope req = Some sc")
  case True
  then obtain resp sc where
    ok: "fst (Exchange V e req s) = Inr resp" "rq_execution_scope req = Some sc" by blast
  show thesis
    by (rule issued [OF scoped_issue_checked(3,2) [OF ok]]) (simp add: ok)
next
  case False
  then have skip: "scoped_issues s ((V, e, req) # calls) =
      scoped_issues (snd (Exchange V e req s)) calls" for calls
    by (auto split: sum.split option.split)
  have "xt_nonces (snd (Exchange V e req s)) = xt_nonces s
    \<or> xt_nonces (snd (Exchange V e req s)) = scope_nonces V req (xt_nonces s)"
    using Exchange_nonces [of V req e] by (simp add: nonces_spent_def)
  then show thesis
    using none [OF _ skip] checked [OF _ skip]
    by (auto simp: scope_nonces_def split: option.splits if_splits)
qed

lemma scoped_issues_accepted:
  "sorted (map (\<lambda>(V, _). ev_nonce_now V) calls) \<Longrightarrow>
   \<exists>es. sorted (map fst es) \<and> set (map fst es) \<subseteq> set (map (\<lambda>(V, _). ev_nonce_now V) calls)
     \<and> subseq (scoped_issues s calls) (nonces.accepted (xt_nonces s) es)"
proof (induction calls arbitrary: s)
  case Nil
  show ?case by (intro exI [of _ "[]"]) simp
next
  case (Cons call calls)
  obtain V e req where call: "call = (V, e, req)" by (cases call)
  let ?s = "snd (Exchange V e req s)" and ?t = "ev_nonce_now V"
  from Cons obtain es where es: "sorted (map fst es)"
    "set (map fst es) \<subseteq> set (map (\<lambda>(V, _). ev_nonce_now V) calls)"
    "subseq (scoped_issues ?s calls) (nonces.accepted (xt_nonces ?s) es)" by fastforce
  have "\<forall>t \<in> set (map (\<lambda>(V, _). ev_nonce_now V) calls). ?t \<le> t"
    using Cons.prems call by simp
  with es(2) have later: "\<forall>t \<in> set (map fst es). ?t \<le> t" by blast
  show ?case
  proof (cases V e req s rule: exchange_step)
    case none
    with es call show ?thesis by (intro exI [of _ es]) auto
  next
    case (checked sc)
    with es later call show ?thesis
      by (intro exI [of _ "(?t, xs_nonce sc) # es"]) (auto simp: subseq_Cons2_neq)
  next
    case (issued sc)
    with es later call show ?thesis
      by (intro exI [of _ "(?t, xs_nonce sc) # es"]) auto
  qed
qed

text \<open>
  C9. A nonce is good for one execution-scoped token per window. Whatever exchanges a unit
  serves, in the order of their clock readings, any two scoped tokens issued under the same
  nonce are more than the tracker's window (twice the default token lifetime) apart.
\<close>

theorem scoped_nonce_once:
  assumes "xt_nonces s = newNonceTracker"
    and "sorted (map (\<lambda>(V, _). ev_nonce_now V) calls)"
  shows "sorted_wrt (\<lambda>a b. snd a = snd b \<longrightarrow> 2 * ExecutionScopeTTL < fst b - fst a)
    (scoped_issues s calls)"
proof -
  from scoped_issues_accepted [OF assms(2), of s] obtain es where
    es: "sorted (map fst es)" "subseq (scoped_issues s calls) (nonces.accepted (xt_nonces s) es)"
    by blast
  have "sorted_wrt (\<lambda>a b. snd a = snd b \<longrightarrow> nt_max_age (xt_nonces s) < fst b - fst a)
    (nonces.accepted (xt_nonces s) es)"
    using nonces.accepted_no_replay [of "xt_nonces s" es] assms(1) nonce_invar_new es(1) by simp
  with es(2) show ?thesis
    using assms(1) by (auto simp: newNonceTracker_def mult.commute intro: sorted_wrt_subseq)
qed

definition demo_scoped_call ::
  "go_time \<Rightarrow> (string, string, string, string, string) exchange_call" where
  "demo_scoped_call t =
     ((demo_env [(''scoped'', AList.update ''exp'' (JNum (-62135596770))
         (demo_token ''w1'' [(''htm'', JStr ''PUT''), (''htu'', JStr ''/x''),
                             (''inp_hash'', JStr ''h1''), (''nonce'', JStr ''n1'')]))])
        \<lparr>ev_nonce_now := t\<rparr>,
      demo_engine, (demo_request ''w1'' '''')\<lparr>rq_execution_scope := Some demo_scope\<rparr>)"

theorem scoped_nonce_once_witness:
  "scoped_issues demo_state [demo_scoped_call 10, demo_scoped_call 20] = [(10, ''n1'')]
   \<and> sorted_wrt (\<lambda>a b. snd a = snd b \<longrightarrow> 2 * ExecutionScopeTTL < fst b - fst a)
       (scoped_issues demo_state [demo_scoped_call 10, demo_scoped_call 20])"
proof
  show "scoped_issues demo_state [demo_scoped_call 10, demo_scoped_call 20] = [(10, ''n1'')]"
    by code_simp
  show "sorted_wrt (\<lambda>a b. snd a = snd b \<longrightarrow> 2 * ExecutionScopeTTL < fst b - fst a)
       (scoped_issues demo_state [demo_scoped_call 10, demo_scoped_call 20])"
    by (rule scoped_nonce_once) (simp_all add: demo_state_def demo_scoped_call_def)
qed

section \<open>Lifetimes\<close>

text \<open>
  The lifetime that the response announces is the lifetime that is signed: for a token
  lifetime of whole seconds, \<open>expires_in\<close> is the distance of the \<open>iat\<close> and \<open>exp\<close> claims.
\<close>

theorem lifetime_consistent:
  assumes "fst (Exchange V e req s) = Inr resp"
    and "token_ttl e (rq_execution_scope req) = n * go_second" and "0 \<le> n"
  shows "\<exists>tok iat exp. ev_sign V (active_key e) tok = Inr (rs_access_token resp)
    \<and> get_num tok ''iat'' = Some (of_int iat) \<and> get_num tok ''exp'' = Some (of_int exp)
    \<and> exp - iat = rs_expires_in resp \<and> rs_expires_in resp = n"
proof -
  from assms(1) obtain g where "granted V e req s g" and g:
    "ev_sign V (active_key e) (gr_claims g) = Inr (rs_access_token resp)"
    "resp = ex_response e req (gr_delegation g) (rq_execution_scope req) (gr_token g)"
    "token_claims V e req (gr_workload g) (gr_decision g) (gr_delegation g) (gr_dpop g)
       (rq_execution_scope req) (gr_secrets g) = Inr (gr_claims g)"
    by (rule Exchange_signed)
  have "rs_expires_in resp = n"
    using assms(3) by (simp add: g(2) ex_response_def assms(2) whole_seconds_multiple)
  moreover have "get_num (gr_claims g) ''iat'' = Some (of_int (unix_seconds (ev_sign_now V)))"
    "get_num (gr_claims g) ''exp'' = Some (of_int (unix_seconds (ev_sign_now V) + n))"
    using token_identity_values(4,9) [OF g(3)]
    by (simp_all add: get_num_def assms(2) unix_seconds_add del: of_int_add)
  ultimately show ?thesis
    using g(1) by (intro exI [of _ "gr_claims g"] exI [of _ "unix_seconds (ev_sign_now V)"]
        exI [of _ "unix_seconds (ev_sign_now V) + n"]) simp
qed

theorem lifetime_consistent_witness:
  "\<exists>tok iat exp. ev_sign (demo_env demo_tokens) (active_key demo_engine) tok = Inr ''plain''
    \<and> get_num tok ''iat'' = Some (of_int iat) \<and> get_num tok ''exp'' = Some (of_int exp)
    \<and> exp - iat = 300"
proof -
  have "fst (Exchange (demo_env demo_tokens) demo_engine (demo_request ''w1'' '''') demo_state) =
    Inr (ex_response demo_engine (demo_request ''w1'' '''') None None ''plain'')"
    by code_simp
  moreover have "token_ttl demo_engine (rq_execution_scope (demo_request ''w1'' '''')) =
    300 * go_second"
    by (simp add: demo_request_def token_ttl_def demo_engine_def go_minute_def)
  ultimately show ?thesis
    using lifetime_consistent [of "demo_env demo_tokens" demo_engine "demo_request ''w1'' ''''"
        demo_state "ex_response demo_engine (demo_request ''w1'' '''') None None ''plain''" 300]
    by (auto simp: ex_response_def)
qed

section \<open>Refusals leave a record\<close>

text \<open>The errors that are decisions about a workload, as opposed to malformed requests.\<close>

fun is_refusal :: "exchange_error \<Rightarrow> bool" where
  "is_refusal (ESubjectRevoked _) = True"
| "is_refusal (EAttestation _) = True"
| "is_refusal (EPolicyDenied _) = True"
| "is_refusal (EActorTokenInvalid _) = True"
| "is_refusal (EDelegation err) = (err \<noteq> ActorMissingSubject)"
| "is_refusal _ = False"

definition records_refusal :: "token_exchange_request \<Rightarrow> 'a exchange_stage \<Rightarrow> bool" where
  "records_refusal req m \<longleftrightarrow>
     (\<forall>s err s'. m s = (Inl err, s') \<longrightarrow> is_refusal err \<longrightarrow>
        (\<exists>evs ev. xt_audit s' = evs @ [ev] \<and> au_decision ev = ''denied''
           \<and> au_target ev = rq_audience req))"

named_theorems refusal_rules \<open>stages that record their refusals\<close>

lemma records_refusal_sbind [refusal_rules]:
  "records_refusal req m \<Longrightarrow> (\<And>a. records_refusal req (f a)) \<Longrightarrow> records_refusal req (sbind m f)"
  unfolding records_refusal_def sbind_def by (auto split: prod.splits sum.splits)

lemma records_refusal_basic [refusal_rules]:
  "records_refusal req (sreturn a)" "\<not> is_refusal err \<Longrightarrow> records_refusal req (sfail err)"
  "records_refusal req (deny req act wid rsn err)" "records_refusal req (log_audit ev)"
  "records_refusal req (fire b cb)"
  by (auto simp: records_refusal_def deny_def log_audit_def fire_def sbind_def stage_simps)

lemma records_refusal_slift [refusal_rules]:
  "(\<And>err. r = Inl err \<Longrightarrow> \<not> is_refusal err) \<Longrightarrow> records_refusal req (slift r)"
  by (auto simp: records_refusal_def stage_simps)

lemma mapCredType_error: "mapCredType t = Inl err \<Longrightarrow> \<not> is_refusal err"
  by (auto simp: mapCredType_def split: option.splits)

lemma validateDelegation_error: "validateDelegation p c b = Some err \<Longrightarrow> is_refusal (EDelegation err)"
  by (auto simp: validateDelegation_def split: option.splits if_splits)

lemma parseDelegationContext_error: "parseDelegationContext a = Inl err \<Longrightarrow> \<not> is_refusal (EDelegation err)"
  by (auto simp: parseDelegationContext_def split: option.splits if_splits)

lemma set_claim_error: "set_claim V k v t = Inl err \<Longrightarrow> \<not> is_refusal err"
  by (auto simp: set_claim_def split: if_splits)

lemma set_opt_claim_error: "set_opt_claim V k v t = Inl err \<Longrightarrow> \<not> is_refusal err"
  by (auto simp: set_opt_claim_def set_claim_error split: option.splits)

lemma set_str_claim_error: "set_str_claim V k v t = Inl err \<Longrightarrow> \<not> is_refusal err"
  by (auto simp: set_str_claim_def set_claim_error split: if_splits)

lemma rbind_Inl_cases:
  "rbind r f = Inl err \<Longrightarrow> (r = Inl err \<Longrightarrow> P) \<Longrightarrow> (\<And>a. f a = Inl err \<Longrightarrow> P) \<Longrightarrow> P"
  by (cases r) auto

lemma token_claims_error:
  "token_claims V e req w d dl dp sc sec = Inl err \<Longrightarrow> \<not> is_refusal err"
  unfolding token_claims_def identity_claims_def delegation_claims_def binding_claims_def
    scope_claims_def Let_def
  by (elim rbind_Inl_cases set_claim_error set_opt_claim_error set_str_claim_error)
    (auto split: option.splits if_splits elim!: rbind_Inl_cases
      dest: set_claim_error set_opt_claim_error set_str_claim_error)

lemma records_refusal_checks [refusal_rules]:
  "records_refusal req (ex_validate_workload e req)"
  "records_refusal req (ex_check_revocation e req w)"
  "records_refusal req (ex_attestation V e req w)"
  "records_refusal req (ex_evaluate_policy e req c w)"
  "records_refusal req (ex_delegation V e req w d)"
  "records_refusal req (ex_dpop V req)"
  by (auto simp: stage_defs intro!: refusal_rules dest: mapCredType_error
      parseDelegationContext_error split: sum.split option.split)

lemma records_refusal_scope [refusal_rules]: "records_refusal req (ex_execution_scope V req)"
  by (auto simp: records_refusal_def ex_execution_scope_def stage_simps
      split: option.splits prod.splits)

lemma records_refusal_mint [refusal_rules]: "records_refusal req (ex_mint V e req w d dl dp sc)"
  unfolding records_refusal_def
proof (intro allI impI)
  fix s err s'
  assume run: "ex_mint V e req w d dl dp sc s = (Inl err, s')" and "is_refusal err"
  then have "rbind (token_claims V e req w d dl dp sc (delivered_secrets V e w d)) (ex_sign V e)
    = Inl err"
    by (cases V e req w d dl dp sc s rule: ex_mint_outcome) auto
  with \<open>is_refusal err\<close> show "\<exists>evs ev. xt_audit s' = evs @ [ev] \<and> au_decision ev = ''denied''
           \<and> au_target ev = rq_audience req"
    by (auto elim!: rbind_Inl_cases dest: token_claims_error simp: ex_sign_def split: sum.splits)
qed

text \<open>
  Every refusal is on record: when an exchange ends in a decision against the workload
  (revoked, attestation invalid, policy denied, actor token invalid, delegation rules
  violated), the last audit record is a denial for the requested audience.
\<close>

theorem refusals_audited:
  assumes "Exchange V e req s = (Inl err, s')" and "is_refusal err"
  shows "\<exists>evs ev. xt_audit s' = evs @ [ev] \<and> au_decision ev = ''denied''
    \<and> au_target ev = rq_audience req"
proof -
  have "records_refusal req (Exchange V e req)"
    unfolding Exchange_def by (auto intro!: refusal_rules split: prod.split)
  with assms show ?thesis by (simp add: records_refusal_def)
qed

theorem refusals_audited_witness:
  "\<exists>evs ev. xt_audit (snd (Exchange (demo_env demo_tokens) demo_engine
       (demo_request ''a3'' ''hop2'') demo_state)) = evs @ [ev]
     \<and> au_decision ev = ''denied'' \<and> au_target ev = ''api''"
proof -
  have "fst (Exchange (demo_env demo_tokens) demo_engine (demo_request ''a3'' ''hop2'') demo_state)
    = Inl (EDelegation DepthExhausted)"
    by code_simp
  then have "Exchange (demo_env demo_tokens) demo_engine (demo_request ''a3'' ''hop2'') demo_state =
    (Inl (EDelegation DepthExhausted), snd (Exchange (demo_env demo_tokens) demo_engine
       (demo_request ''a3'' ''hop2'') demo_state))"
    by (metis prod.collapse)
  from refusals_audited [OF this] show ?thesis by (simp add: demo_request_def)
qed

section \<open>Secrets\<close>

text \<open>
  Secret delivery never fails an exchange, and delivers only what it may: the result
  is non-empty only if the policy named references, the workload's own encryption key is
  registered, the registry fetched all of them, and then it is the bundle encrypted to
  that key.
\<close>

theorem secrets_for_workload_only:
  "\<exists>c. fst (deliverSecrets V e reg wid d s) = Inr c
     \<and> (c \<noteq> '''' \<longrightarrow> secret_refs d \<noteq> []
          \<and> (\<exists>get key bundle. en_encryption_keys e = Some get \<and> get wid = Inr key
              \<and> Registry_Fetch (ev_visit V) reg (secret_refs d) = Inr bundle
              \<and> ev_encrypt V bundle key = Some c))"
  by (auto simp: deliverSecrets_def Let_def stage_simps fst_sbind_Inr_iff
      split: sum.split option.split)

definition demo_secret_env :: "(string, string, string, string, string) exchange_env" where
  "demo_secret_env = (demo_env [])\<lparr>ev_encrypt := (\<lambda>b k. Some (CHR ''e'' # k))\<rparr>"

definition demo_secret_engine :: "string engine" where
  "demo_secret_engine =
     demo_engine\<lparr>en_encryption_keys := Some (KeyStore_Get (snd (KeyStore_Register ''w1'' (Some ''k'') [])))\<rparr>"

definition demo_secret_decision :: policy_decision where
  "demo_secret_decision = \<lparr>pd_allowed = True, pd_reason = '''', pd_claims =
     [(''secret_refs'', JArr [JObj [(''source'', JStr ''static''), (''path'', JStr ''p''),
                                    (''key'', JStr ''pw'')]])]\<rparr>"

definition demo_registry :: secret_registry where
  "demo_registry = Registry_Register (static_as_source
     (NewStaticSource \<lparr>stc_secrets = Some [(''p'', [(''pw'', ''hunter2'')])], stc_ttl = 0\<rparr>)) NewRegistry"

theorem secrets_for_workload_only_witness:
  "\<exists>bundle. Registry_Fetch id demo_registry (secret_refs demo_secret_decision) = Inr bundle
     \<and> ev_encrypt demo_secret_env bundle ''k'' = Some ''ek''"
proof -
  have "fst (deliverSecrets demo_secret_env demo_secret_engine demo_registry ''w1''
      demo_secret_decision demo_state) = Inr ''ek''"
    by code_simp
  moreover have "KeyStore_Get (snd (KeyStore_Register ''w1'' (Some ''k'') [])) ''w1'' = Inr ''k''"
    by code_simp
  ultimately show ?thesis
    using secrets_for_workload_only [of demo_secret_env demo_secret_engine demo_registry "''w1''"
        demo_secret_decision demo_state]
    by (auto simp: demo_secret_engine_def) (auto simp: demo_secret_env_def demo_env_def)
qed

end
