(* ===== verification/Rotation.thy ===== *)
theory Rotation
  imports Keyring Core_Types
begin

text \<open>
  \<open>src/pkg/lifecycle/rotation_workflow.go\<close>: the saga that rotates the signing key over the
  \<open>SigningKeyManager\<close> interface. The workflow runs its activities through Temporal, which
  may retry them: every activity gets a list of attempts, of which the retry policy allows
  three. An attempt runs to completion, is lost before it runs, or runs and its result is
  lost. Sleeping, the token mint and key generation are values of the environment.
\<close>

section \<open>Model\<close>

datatype attempt = Completed | NotRun | ResultLost

datatype rotation_error =
    EmittingInitiated
  | GeneratingKey
  | PropagationWait
  | MintingExecToken
  | SwappingKey
  | VerifyingNewKey
  | GracePeriodWait

record rotation_params =
  rp_key_type :: string
  rp_grace_period :: duration
  rp_propagation_timeout :: duration

definition DefaultRotationParams :: rotation_params where
  "DefaultRotationParams =
     \<lparr>rp_key_type = ''RSA-2048'', rp_grace_period = 5 * go_minute,
      rp_propagation_timeout = 30 * go_second\<rparr>"

record 'signer key_material =
  mat_kid :: string
  mat_private_key :: 'signer
  mat_key_type :: string

record execution_scope_input =
  xi_method :: string
  xi_uri :: string
  xi_payload_hash :: string
  xi_nonce :: string

definition EventTypeRotationInitiated :: string where
  "EventTypeRotationInitiated =
     ''https://schemas.openid.net/secevent/starfly/event-type/rotation-initiated''"

definition EventTypeRotationComplete :: string where
  "EventTypeRotationComplete =
     ''https://schemas.openid.net/secevent/starfly/event-type/rotation-complete''"

definition EventTypeRotationRollback :: string where
  "EventTypeRotationRollback =
     ''https://schemas.openid.net/secevent/starfly/event-type/rotation-rollback''"

text \<open>The environment of one run.\<close>

record 'signer rotation_env =
  rv_initiated :: "attempt list"
  rv_publish :: "attempt list"
  rv_mint :: "attempt list"
  rv_swap :: "attempt list"
  rv_verify :: "attempt list"
  rv_rollback :: "attempt list"
  rv_remove_new :: "attempt list"
  rv_remove_old :: "attempt list"
  rv_final_signal :: "attempt list"
  rv_rsa :: "nat \<Rightarrow> 'signer option"
  rv_ecdsa :: "nat \<Rightarrow> 'signer option"
  rv_gen_clock :: "nat \<Rightarrow> int"
  rv_scope_clock :: int
  rv_event_clock :: "nat \<Rightarrow> int"
  rv_unit_id :: string
  rv_mint_token :: "execution_scope_input \<Rightarrow> string option"
  rv_propagation_sleep :: "duration \<Rightarrow> bool"
  rv_grace_sleep :: "duration \<Rightarrow> bool"
  rv_sha256_b64url :: "string \<Rightarrow> string"

record 'm rotation_state =
  ro_mgr :: 'm
  ro_emitted :: "security_event list"

definition generateKey ::
  "'signer rotation_env \<Rightarrow> nat \<Rightarrow> string \<Rightarrow> 'signer key_material option" where
  "generateKey V i keyType =
     (let kid = ''starfly-'' @ show_int (rv_gen_clock V i)
      in if keyType = ''RSA-2048'' then
           map_option (\<lambda>priv. \<lparr>mat_kid = kid, mat_private_key = priv, mat_key_type = keyType\<rparr>)
             (rv_rsa V i)
         else if keyType = ''EC-P256'' then
           map_option (\<lambda>priv. \<lparr>mat_kid = kid, mat_private_key = priv, mat_key_type = keyType\<rparr>)
             (rv_ecdsa V i)
         else None)"

definition GenerateAndPublishKey ::
  "('signer, 'm) signing_key_manager \<Rightarrow> 'signer rotation_env \<Rightarrow> string \<Rightarrow> nat \<Rightarrow> 'm
   \<Rightarrow> string option \<times> 'm" where
  "GenerateAndPublishKey M V keyType i m =
     (case generateKey V i keyType of
        None \<Rightarrow> (None, m)
      | Some km \<Rightarrow>
          case km_AddKey M (mat_kid km) (mat_private_key km) m of
            (Some _, m') \<Rightarrow> (None, m')
          | (None, m') \<Rightarrow> (Some (mat_kid km), m'))"

definition SwapSigningKey ::
  "('signer, 'm) signing_key_manager \<Rightarrow> string \<Rightarrow> string \<Rightarrow> 'm \<Rightarrow> string option \<times> 'm" where
  "SwapSigningKey M newKid execToken m =
     (let oldKid = km_ActiveKid M m
      in case km_ActivateKey M newKid m of
           (Some _, m') \<Rightarrow> (None, m')
         | (None, m') \<Rightarrow> (Some oldKid, m'))"

definition VerifyNewKey ::
  "('signer, 'm) signing_key_manager \<Rightarrow> string \<Rightarrow> 'm \<Rightarrow> unit option \<times> 'm" where
  "VerifyNewKey M newKid m =
     (if km_ActiveKid M m \<noteq> newKid then (None, m) else (Some (), m))"

definition rotation_RemoveKey ::
  "('signer, 'm) signing_key_manager \<Rightarrow> string \<Rightarrow> 'm \<Rightarrow> unit option \<times> 'm" where
  "rotation_RemoveKey M kid m =
     (case km_RemoveKey M kid m of (Some _, m') \<Rightarrow> (None, m') | (None, m') \<Rightarrow> (Some (), m'))"

definition RollbackToKey ::
  "('signer, 'm) signing_key_manager \<Rightarrow> string \<Rightarrow> string \<Rightarrow> 'm \<Rightarrow> unit option \<times> 'm" where
  "RollbackToKey M oldKid newKid m =
     (case km_ActivateKey M oldKid m of
        (Some _, m') \<Rightarrow> (None, m')
      | (None, m') \<Rightarrow> rotation_RemoveKey M newKid m')"

text \<open>
  \<open>workflow.ExecuteActivity(...).Get\<close> under the retry policy: an attempt that fails or is
  lost is followed by the next one, at most \<open>MaximumAttempts: 3\<close> in all.
\<close>

fun run_attempts ::
  "(nat \<Rightarrow> 's \<Rightarrow> 'r option \<times> 's) \<Rightarrow> nat \<Rightarrow> attempt list \<Rightarrow> 's \<Rightarrow> 'r option \<times> 's" where
  "run_attempts f i [] s = (None, s)"
| "run_attempts f i (NotRun # as) s = run_attempts f (Suc i) as s"
| "run_attempts f i (ResultLost # as) s = run_attempts f (Suc i) as (snd (f i s))"
| "run_attempts f i (Completed # as) s =
     (case f i s of
        (Some r, s') \<Rightarrow> (Some r, s')
      | (None, s') \<Rightarrow> run_attempts f (Suc i) as s')"

definition ExecuteActivity ::
  "(nat \<Rightarrow> 's \<Rightarrow> 'r option \<times> 's) \<Rightarrow> attempt list \<Rightarrow> 's \<Rightarrow> 'r option \<times> 's" where
  "ExecuteActivity f as s = run_attempts f 0 (take 3 as) s"

definition on_manager ::
  "(nat \<Rightarrow> 'm \<Rightarrow> 'r option \<times> 'm) \<Rightarrow> nat \<Rightarrow> 'm rotation_state \<Rightarrow> 'r option \<times> 'm rotation_state" where
  "on_manager f i s = (case f i (ro_mgr s) of (r, m) \<Rightarrow> (r, s\<lparr>ro_mgr := m\<rparr>))"

text \<open>
  The shared activity \<open>EmitLifecycleSignal\<close>: an attempt in which the transmitter reports an
  error is one that is not run.
\<close>

definition EmitLifecycleSignal ::
  "'signer rotation_env \<Rightarrow> string \<Rightarrow> string \<Rightarrow> claims \<Rightarrow> nat \<Rightarrow> 'm rotation_state
   \<Rightarrow> unit option \<times> 'm rotation_state" where
  "EmitLifecycleSignal V eventType subjectID payload i s =
     (Some (), s\<lparr>ro_emitted := ro_emitted s @
        [\<lparr>se_issuer = rv_unit_id V,
          se_jti = ''lifecycle-'' @ eventType @ ''-'' @ show_int (rv_event_clock V i),
          se_issued_at = rv_event_clock V i div go_second,
          se_audience = ''urn:starfly:fabric'',
          se_subject_id = Some \<lparr>si_format = ''uri'', si_spiffe_id = '''', si_email = '''',
                                 si_uri = subjectID\<rparr>,
          se_events = [(eventType, payload)],
          se_transaction_id = ''''\<rparr>]\<rparr>)"

definition ExecutionScopeForSwap ::
  "'signer rotation_env \<Rightarrow> string \<Rightarrow> string \<Rightarrow> execution_scope_input" where
  "ExecutionScopeForSwap V newKid payloadHash =
     \<lparr>xi_method = ''POST'', xi_uri = ''/internal/signing-key'', xi_payload_hash = payloadHash,
      xi_nonce = ''rotate-'' @ newKid @ ''-'' @ show_int (rv_scope_clock V)\<rparr>"

definition rotation_defaults :: "rotation_params \<Rightarrow> rotation_params" where
  "rotation_defaults p =
     \<lparr>rp_key_type = (if rp_key_type p = '''' then ''RSA-2048'' else rp_key_type p),
      rp_grace_period = (if rp_grace_period p = 0 then 5 * go_minute else rp_grace_period p),
      rp_propagation_timeout =
        (if rp_propagation_timeout p = 0 then 30 * go_second else rp_propagation_timeout p)\<rparr>"

text \<open>The two rollbacks of the workflow; errors of their activities are ignored.\<close>

definition rollback_remove ::
  "('signer, 'm) signing_key_manager \<Rightarrow> 'signer rotation_env \<Rightarrow> string \<Rightarrow> string
   \<Rightarrow> 'm rotation_state \<Rightarrow> 'm rotation_state" where
  "rollback_remove M V reason newKid s =
     (let s1 = snd (ExecuteActivity (on_manager (\<lambda>i. rotation_RemoveKey M newKid))
                      (rv_remove_new V) s)
      in snd (ExecuteActivity
                (EmitLifecycleSignal V EventTypeRotationRollback ''urn:starfly:signing-key''
                   [(''reason'', JStr reason), (''new_kid'', JStr newKid)])
                (rv_final_signal V) s1))"

definition rollback_to_old ::
  "('signer, 'm) signing_key_manager \<Rightarrow> 'signer rotation_env \<Rightarrow> string \<Rightarrow> string
   \<Rightarrow> 'm rotation_state \<Rightarrow> 'm rotation_state" where
  "rollback_to_old M V oldKid newKid s =
     (let s1 = snd (ExecuteActivity (on_manager (\<lambda>i. RollbackToKey M oldKid newKid))
                      (rv_rollback V) s)
      in snd (ExecuteActivity
                (EmitLifecycleSignal V EventTypeRotationRollback ''urn:starfly:signing-key''
                   [(''reason'', JStr ''verify-failed''), (''old_kid'', JStr oldKid),
                    (''new_kid'', JStr newKid)])
                (rv_final_signal V) s1))"

text \<open>Steps 5 to 9, once the key \<open>newKid\<close> is published and the execution token is minted.\<close>

definition rotation_swap ::
  "('signer, 'm) signing_key_manager \<Rightarrow> 'signer rotation_env \<Rightarrow> rotation_params \<Rightarrow> string
   \<Rightarrow> string \<Rightarrow> 'm rotation_state \<Rightarrow> rotation_error option \<times> 'm rotation_state" where
  "rotation_swap M V p newKid execToken s =
     (case ExecuteActivity (on_manager (\<lambda>i. SwapSigningKey M newKid execToken)) (rv_swap V) s of
        (None, s1) \<Rightarrow> (Some SwappingKey, rollback_remove M V ''swap-failed'' newKid s1)
      | (Some oldKid, s1) \<Rightarrow>
          case ExecuteActivity (on_manager (\<lambda>i. VerifyNewKey M newKid)) (rv_verify V) s1 of
            (None, s2) \<Rightarrow> (Some VerifyingNewKey, rollback_to_old M V oldKid newKid s2)
          | (Some _, s2) \<Rightarrow>
              if \<not> rv_grace_sleep V (rp_grace_period p) then (Some GracePeriodWait, s2)
              else
                let s3 = snd (ExecuteActivity (on_manager (\<lambda>i. rotation_RemoveKey M oldKid))
                                (rv_remove_old V) s2)
                in (None,
                    snd (ExecuteActivity
                           (EmitLifecycleSignal V EventTypeRotationComplete ''urn:starfly:signing-key''
                              [(''old_kid'', JStr oldKid), (''new_kid'', JStr newKid)])
                           (rv_final_signal V) s3)))"

definition RotationWorkflow ::
  "('signer, 'm) signing_key_manager \<Rightarrow> 'signer rotation_env \<Rightarrow> rotation_params
   \<Rightarrow> 'm rotation_state \<Rightarrow> rotation_error option \<times> 'm rotation_state" where
  "RotationWorkflow M V params s0 =
     (let p = rotation_defaults params
      in case ExecuteActivity
                (EmitLifecycleSignal V EventTypeRotationInitiated ''urn:starfly:signing-key'' [(''key_type'', JStr (rp_key_type p))])
                (rv_initiated V) s0 of
           (None, s1) \<Rightarrow> (Some EmittingInitiated, s1)
         | (Some _, s1) \<Rightarrow>
             case ExecuteActivity (on_manager (GenerateAndPublishKey M V (rp_key_type p)))
                    (rv_publish V) s1 of
               (None, s2) \<Rightarrow> (Some GeneratingKey, s2)
             | (Some newKid, s2) \<Rightarrow>
                 if \<not> rv_propagation_sleep V (rp_propagation_timeout p)
                 then (Some PropagationWait, s2)
                 else
                   case ExecuteActivity
                          (\<lambda>i s. (rv_mint_token V (ExecutionScopeForSwap V newKid
                                              (rv_sha256_b64url V newKid)), s))
                          (rv_mint V) s2 of
                     (None, s3) \<Rightarrow>
                       (Some MintingExecToken,
                        rollback_remove M V ''exec-token-mint-failed'' newKid s3)
                   | (Some execToken, s3) \<Rightarrow> rotation_swap M V p newKid execToken s3)"

section \<open>What every activity keeps\<close>

text \<open>
  A predicate of the state that each run of an activity keeps is kept by its execution,
  whatever attempts are lost or repeated.
\<close>

lemma run_attempts_keeps:
  assumes step: "\<And>i s. P s \<Longrightarrow> P (snd (f i s))"
  shows "P s \<Longrightarrow> P (snd (run_attempts f i as s))"
proof (induction as arbitrary: i s)
  case Nil
  then show ?case by simp
next
  case (Cons a as)
  obtain r s' where fs: "f i s = (r, s')" by fastforce
  with step [OF Cons.prems, of i] have "P s'" by simp
  with fs Cons show ?case by (cases a) (auto split: option.split)
qed

lemma ExecuteActivity_keeps:
  "(\<And>i s. P s \<Longrightarrow> P (snd (f i s))) \<Longrightarrow> P s \<Longrightarrow> P (snd (ExecuteActivity f as s))"
  unfolding ExecuteActivity_def by (rule run_attempts_keeps)

lemma ExecuteActivity_keepsD:
  assumes "ExecuteActivity f as s = (r, s')" and "\<And>i s. P s \<Longrightarrow> P (snd (f i s))" and "P s"
  shows "P s'"
  using ExecuteActivity_keeps [of P f s as] assms by simp

lemma ExecuteActivity_Completed:
  "f 0 s = (Some r, s') \<Longrightarrow> ExecuteActivity f [Completed] s = (Some r, s')"
  by (simp add: ExecuteActivity_def)

lemma ExecuteActivity_Completed_fail:
  "f 0 s = (None, s') \<Longrightarrow> ExecuteActivity f [Completed] s = (None, s')"
  by (simp add: ExecuteActivity_def)

lemma Emit_mgr [simp]: "ro_mgr (snd (EmitLifecycleSignal V ty sub c i s)) = ro_mgr s"
  by (simp add: EmitLifecycleSignal_def)

lemma ExecuteActivity_Emit_mgr [simp]:
  "ro_mgr (snd (ExecuteActivity (EmitLifecycleSignal V ty sub c) as s)) = ro_mgr s"
  by (rule ExecuteActivity_keeps [where P = "\<lambda>t. ro_mgr t = ro_mgr s"]) simp_all

lemma on_manager_keeps:
  "(\<And>m. Q m \<Longrightarrow> Q (snd (f i m))) \<Longrightarrow> Q (ro_mgr s) \<Longrightarrow> Q (ro_mgr (snd (on_manager f i s)))"
  by (auto simp: on_manager_def split: prod.splits) (metis snd_conv)

text \<open>
  An activity that changes nothing when it fails, and loses no result, either fails and
  leaves the state alone or is one successful run from the initial state.
\<close>

lemma run_attempts_no_loss:
  assumes "run_attempts f i as s = (r, s')" and "ResultLost \<notin> set as"
    and fail: "\<And>i s s'. f i s = (None, s') \<Longrightarrow> s' = s"
  shows "(r = None \<and> s' = s) \<or> (\<exists>j < i + length as. r \<noteq> None \<and> f j s = (r, s'))"
  using assms(1,2)
proof (induction as arbitrary: i)
  case Nil
  then show ?case by simp
next
  case (Cons a as)
  consider (skip) "run_attempts f (Suc i) as s = (r, s')" | (run) "r \<noteq> None" "f i s = (r, s')"
    using Cons.prems fail by (cases a) (auto split: prod.splits option.splits)
  then show ?case
  proof cases
    case skip
    from Cons.IH [OF this] Cons.prems show ?thesis by auto
  next
    case run
    then show ?thesis by auto
  qed
qed

lemma ExecuteActivity_no_loss:
  assumes "ExecuteActivity f as s = (r, s')" and "ResultLost \<notin> set as"
    and "\<And>i s s'. f i s = (None, s') \<Longrightarrow> s' = s"
  shows "(r = None \<and> s' = s) \<or> (\<exists>j < 3. r \<noteq> None \<and> f j s = (r, s'))"
proof -
  from assms(2) have "ResultLost \<notin> set (take 3 as)" by (meson in_set_takeD)
  then have "(r = None \<and> s' = s) \<or> (\<exists>j < 0 + length (take 3 as). r \<noteq> None \<and> f j s = (r, s'))"
    by (rule run_attempts_no_loss [OF assms(1) [unfolded ExecuteActivity_def]]) (rule assms(3))
  then show ?thesis by auto
qed

section \<open>The workflow over any key manager\<close>

lemma on_manager_fail:
  "(\<And>i m m'. f i m = (None, m') \<Longrightarrow> m' = m) \<Longrightarrow> on_manager f i s = (None, s') \<Longrightarrow> s' = s"
  by (auto simp: on_manager_def split: prod.splits)

context key_manager
begin

lemma publish_cases:
  obtains (failed) "GenerateAndPublishKey M V ty i m = (None, m)"
  | (added) km where "generateKey V i ty = Some km"
      and "fst (km_AddKey M (mat_kid km) (mat_private_key km) m) = None"
      and "GenerateAndPublishKey M V ty i m =
        (Some (mat_kid km), snd (km_AddKey M (mat_kid km) (mat_private_key km) m))"
proof (cases "generateKey V i ty")
  case None
  then show ?thesis by (intro failed) (simp add: GenerateAndPublishKey_def)
next
  case (Some km)
  obtain e m' where add: "km_AddKey M (mat_kid km) (mat_private_key km) m = (e, m')"
    by fastforce
  show ?thesis
  proof (cases e)
    case None
    with Some add show ?thesis by (intro added [of km]) (simp_all add: GenerateAndPublishKey_def)
  next
    case (Some x)
    then have "m' = m" using add_fail [of "mat_kid km" "mat_private_key km" m] add by simp
    with Some \<open>generateKey V i ty = Some km\<close> add show ?thesis
      by (intro failed) (simp add: GenerateAndPublishKey_def)
  qed
qed

lemma publish_fail: "GenerateAndPublishKey M V ty i m = (None, m') \<Longrightarrow> m' = m"
  by (cases V ty i m rule: publish_cases) simp_all

lemma publish_ok:
  assumes "GenerateAndPublishKey M V ty i m = (Some kid, m')"
  shows "\<exists>km. generateKey V i ty = Some km \<and> mat_kid km = kid
    \<and> (\<forall>x. has m' x \<longleftrightarrow> x = kid \<or> has m x) \<and> km_ActiveKid M m' = km_ActiveKid M m"
  using assms by (cases V ty i m rule: publish_cases) (auto simp: add_ok add_active)

lemma publish_active: "km_ActiveKid M (snd (GenerateAndPublishKey M V ty i m)) = km_ActiveKid M m"
  by (cases V ty i m rule: publish_cases) (simp_all add: add_active)

lemma swap_fail: "SwapSigningKey M k tok m = (None, m') \<Longrightarrow> m' = m"
  using activate_iff [of k m] activate_fail [of m k]
  by (auto simp: SwapSigningKey_def Let_def split: option.splits prod.splits)

lemma swap_ok:
  assumes "SwapSigningKey M k tok m = (Some old, m')"
  shows "old = km_ActiveKid M m \<and> has m k \<and> km_ActiveKid M m' = k \<and> (\<forall>x. has m' x = has m x)"
proof -
  from assms have "km_ActivateKey M k m = (None, m')" and old: "old = km_ActiveKid M m"
    by (auto simp: SwapSigningKey_def Let_def split: option.splits prod.splits)
  then have "fst (km_ActivateKey M k m) = None" and m': "m' = snd (km_ActivateKey M k m)"
    by simp_all
  with old show ?thesis by (simp add: activate_iff activate_active activate_has)
qed

lemma remove_snd: "snd (rotation_RemoveKey M k m) = snd (km_RemoveKey M k m)"
  by (auto simp: rotation_RemoveKey_def split: prod.splits option.splits)

lemma rollback_snd:
  "snd (RollbackToKey M old new m) =
     (if has m old then snd (km_RemoveKey M new (snd (km_ActivateKey M old m))) else m)"
  using activate_iff [of old m] activate_fail [of m old] remove_snd
  by (auto simp: RollbackToKey_def split: prod.splits option.splits)

lemma activities_invar:
  assumes "invar m"
  shows "invar (snd (GenerateAndPublishKey M V ty i m))"
    and "invar (snd (SwapSigningKey M k tok m))"
    and "invar (snd (VerifyNewKey M k m))"
    and "invar (snd (rotation_RemoveKey M k m))"
    and "invar (snd (RollbackToKey M old k m))"
proof -
  show "invar (snd (GenerateAndPublishKey M V ty i m))"
    using assms by (cases V ty i m rule: publish_cases) (simp_all add: add_invar)
  show "invar (snd (SwapSigningKey M k tok m))"
    using activate_invar [OF assms, of k]
    by (auto simp: SwapSigningKey_def Let_def split: option.splits prod.splits)
  show "invar (snd (VerifyNewKey M k m))" using assms by (simp add: VerifyNewKey_def)
  show "invar (snd (rotation_RemoveKey M k m))" using assms by (simp add: remove_snd remove_invar)
  show "invar (snd (RollbackToKey M old k m))"
    using assms by (simp add: rollback_snd remove_invar activate_invar)
qed

lemmas on_manager_invar =
  on_manager_keeps [of invar "GenerateAndPublishKey M V ty" for V ty,
    OF activities_invar(1)]
  on_manager_keeps [of invar "\<lambda>i. SwapSigningKey M k tok" for k tok, OF activities_invar(2)]
  on_manager_keeps [of invar "\<lambda>i. VerifyNewKey M k" for k, OF activities_invar(3)]
  on_manager_keeps [of invar "\<lambda>i. rotation_RemoveKey M k" for k, OF activities_invar(4)]
  on_manager_keeps [of invar "\<lambda>i. RollbackToKey M old k" for old k, OF activities_invar(5)]

lemma execute_invar:
  "invar (ro_mgr s) \<Longrightarrow> (\<And>i t. invar (ro_mgr t) \<Longrightarrow> invar (ro_mgr (snd (f i t)))) \<Longrightarrow>
   invar (ro_mgr (snd (ExecuteActivity f as s)))"
  by (rule ExecuteActivity_keeps [where P = "\<lambda>t. invar (ro_mgr t)"]) simp_all

lemma rollbacks_invar:
  assumes "invar (ro_mgr s)"
  shows "invar (ro_mgr (rollback_remove M V why new s))"
    and "invar (ro_mgr (rollback_to_old M V old new s))"
  using assms
  by (simp_all add: rollback_remove_def rollback_to_old_def Let_def execute_invar
      on_manager_invar)

lemma execute_invarD:
  assumes "ExecuteActivity f as s = (r, s')" and "invar (ro_mgr s)"
    and "\<And>i t. invar (ro_mgr t) \<Longrightarrow> invar (ro_mgr (snd (f i t)))"
  shows "invar (ro_mgr s')"
  using execute_invar [of s f as] assms by simp

lemma rotation_swap_invar:
  assumes "invar (ro_mgr s)"
  shows "invar (ro_mgr (snd (rotation_swap M V p new tok s)))"
proof -
  obtain r1 s1 where 1: "ExecuteActivity (on_manager (\<lambda>i. SwapSigningKey M new tok)) (rv_swap V) s
    = (r1, s1)" by fastforce
  then have i1: "invar (ro_mgr s1)" using assms on_manager_invar(2) by (rule execute_invarD)
  obtain r2 s2 where 2: "ExecuteActivity (on_manager (\<lambda>i. VerifyNewKey M new)) (rv_verify V) s1
    = (r2, s2)" by fastforce
  then have i2: "invar (ro_mgr s2)" using i1 on_manager_invar(3) by (rule execute_invarD)
  from 1 2 i1 i2 show ?thesis
    by (auto simp: rotation_swap_def Let_def rollbacks_invar execute_invar on_manager_invar
        split: option.split)
qed

lemma rotation_invar:
  assumes "invar (ro_mgr s)"
  shows "invar (ro_mgr (snd (RotationWorkflow M V params s)))"
proof -
  let ?p = "rotation_defaults params"
  let ?mint = "\<lambda>new. rv_mint_token V (ExecutionScopeForSwap V new (rv_sha256_b64url V new))"
  obtain r1 s1 where 1: "ExecuteActivity (EmitLifecycleSignal V EventTypeRotationInitiated
      ''urn:starfly:signing-key'' [(''key_type'', JStr (rp_key_type ?p))]) (rv_initiated V) s
    = (r1, s1)" by fastforce
  then have i1: "invar (ro_mgr s1)" using assms by (rule execute_invarD) simp
  obtain r2 s2 where 2: "ExecuteActivity (on_manager (GenerateAndPublishKey M V (rp_key_type ?p)))
      (rv_publish V) s1 = (r2, s2)" by fastforce
  then have i2: "invar (ro_mgr s2)" using i1 on_manager_invar(1) by (rule execute_invarD)
  have i3: "invar (ro_mgr s3)"
    if "ExecuteActivity (\<lambda>i s. (?mint new, s)) (rv_mint V) s2 = (r3, s3)" for new r3 s3
    using that i2 by (rule execute_invarD) simp
  from 1 2 i1 i2 show ?thesis
    by (auto simp: RotationWorkflow_def Let_def rollbacks_invar rotation_swap_invar
        split: option.split prod.split dest: i3)
qed

end

section \<open>Outcomes of a rotation\<close>

lemma run_attempts_SomeD:
  "run_attempts f i as s = (Some r, s') \<Longrightarrow> \<exists>j t. f j t = (Some r, s')"
proof (induction as arbitrary: i s)
  case Nil
  then show ?case by simp
next
  case (Cons a as)
  then show ?case by (cases a) (auto split: prod.splits option.splits)
qed

lemma ExecuteActivity_SomeD: "ExecuteActivity f as s = (Some r, s') \<Longrightarrow> \<exists>j t. f j t = (Some r, s')"
  unfolding ExecuteActivity_def by (rule run_attempts_SomeD)

lemma ExecuteActivity_same:
  assumes "ExecuteActivity f as s = (r, s')" and "\<And>i t. snd (f i t) = t"
  shows "s' = s"
  using ExecuteActivity_keepsD [OF assms(1), of "\<lambda>t. t = s"] assms(2) by simp

lemma ExecuteActivity_once:
  "snd (ExecuteActivity f [Completed] s) = snd (f 0 s)"
  by (auto simp: ExecuteActivity_def split: prod.split option.split)

lemma on_manager_mgr [simp]: "ro_mgr (snd (on_manager f i s)) = snd (f i (ro_mgr s))"
  by (simp add: on_manager_def split: prod.split)

lemma on_manager_SomeD:
  "on_manager f i s = (Some r, s') \<Longrightarrow> f i (ro_mgr s) = (Some r, ro_mgr s')"
  by (auto simp: on_manager_def split: prod.splits)

lemma VerifyNewKey_same: "snd (on_manager (\<lambda>i. VerifyNewKey M k) i s) = s"
  by (simp add: on_manager_def VerifyNewKey_def)

context key_manager
begin

lemma rollback_remove_mgr:
  "rv_remove_new V = [Completed] \<Longrightarrow>
   ro_mgr (rollback_remove M V why new s) = snd (km_RemoveKey M new (ro_mgr s))"
  by (simp add: rollback_remove_def Let_def ExecuteActivity_once remove_snd)

lemma rollback_to_old_mgr:
  "rv_rollback V = [Completed] \<Longrightarrow>
   ro_mgr (rollback_to_old M V old new s) = snd (RollbackToKey M old new (ro_mgr s))"
  by (simp add: rollback_to_old_def Let_def ExecuteActivity_once)

lemma swap_no_loss:
  assumes "ExecuteActivity (on_manager (\<lambda>i. SwapSigningKey M k tok)) as s = (r, s')"
    and "ResultLost \<notin> set as"
  shows "(r = None \<and> s' = s) \<or> (\<exists>old. r = Some old \<and> old = km_ActiveKid M (ro_mgr s)
    \<and> has (ro_mgr s) k \<and> km_ActiveKid M (ro_mgr s') = k
    \<and> (\<forall>x. has (ro_mgr s') x = has (ro_mgr s) x))"
proof -
  have "(r = None \<and> s' = s)
    \<or> (\<exists>j < 3. r \<noteq> None \<and> on_manager (\<lambda>i. SwapSigningKey M k tok) j s = (r, s'))"
    by (rule ExecuteActivity_no_loss [OF assms]) (rule on_manager_fail [OF swap_fail])
  then show ?thesis by (auto dest!: on_manager_SomeD swap_ok)
qed

text \<open>The keys of the keyring after the last steps, when no result of the swap is lost.\<close>

lemma rotation_swap_failure:
  assumes run: "rotation_swap M V p new tok s = (Some e, s')"
    and "ResultLost \<notin> set (rv_swap V)" and rn: "rv_remove_new V = [Completed]"
    and rb: "rv_rollback V = [Completed]" and "e \<noteq> GracePeriodWait"
    and old: "has (ro_mgr s) (km_ActiveKid M (ro_mgr s))" "new \<noteq> km_ActiveKid M (ro_mgr s)"
  shows "km_ActiveKid M (ro_mgr s') = km_ActiveKid M (ro_mgr s)
    \<and> (\<forall>x. has (ro_mgr s') x \<longleftrightarrow> has (ro_mgr s) x \<and> x \<noteq> new)"
proof -
  obtain r1 s1 where 1: "ExecuteActivity (on_manager (\<lambda>i. SwapSigningKey M new tok)) (rv_swap V) s
    = (r1, s1)" by fastforce
  from swap_no_loss [OF this assms(2)] show ?thesis
  proof (elim disjE exE conjE)
    assume "r1 = None" and "s1 = s"
    with run 1 have "s' = rollback_remove M V ''swap-failed'' new s"
      by (auto simp: rotation_swap_def)
    with old show ?thesis by (simp add: rollback_remove_mgr [OF rn] remove_active remove_has)
  next
    fix o'
    assume r1: "r1 = Some o'" "o' = km_ActiveKid M (ro_mgr s)"
      and a: "km_ActiveKid M (ro_mgr s1) = new" and h: "\<forall>x. has (ro_mgr s1) x = has (ro_mgr s) x"
    obtain r2 s2 where 2: "ExecuteActivity (on_manager (\<lambda>i. VerifyNewKey M new)) (rv_verify V) s1
      = (r2, s2)" by fastforce
    then have "s2 = s1" by (rule ExecuteActivity_same) (rule VerifyNewKey_same)
    with run 1 2 r1 \<open>e \<noteq> GracePeriodWait\<close>
    have "s' = rollback_to_old M V o' new s1"
      by (auto simp: rotation_swap_def Let_def split: option.splits if_splits)
    with old h r1 show ?thesis
      by (simp add: rollback_to_old_mgr [OF rb] rollback_snd remove_active remove_has
          activate_active activate_has)
  qed
qed

lemma rotation_swap_success:
  assumes run: "rotation_swap M V p new tok s = (None, s')"
    and "ResultLost \<notin> set (rv_swap V)" and ro: "rv_remove_old V = [Completed]"
    and old: "new \<noteq> km_ActiveKid M (ro_mgr s)"
  shows "km_ActiveKid M (ro_mgr s') = new
    \<and> (\<forall>x. has (ro_mgr s') x \<longleftrightarrow> has (ro_mgr s) x \<and> x \<noteq> km_ActiveKid M (ro_mgr s))"
proof -
  obtain r1 s1 where 1: "ExecuteActivity (on_manager (\<lambda>i. SwapSigningKey M new tok)) (rv_swap V) s
    = (r1, s1)" by fastforce
  with run have "r1 \<noteq> None" by (cases r1) (auto simp: rotation_swap_def)
  with swap_no_loss [OF 1 assms(2)] have r1: "r1 = Some (km_ActiveKid M (ro_mgr s))"
    and a: "km_ActiveKid M (ro_mgr s1) = new" and h: "\<forall>x. has (ro_mgr s1) x = has (ro_mgr s) x"
    by auto
  obtain r2 s2 where 2: "ExecuteActivity (on_manager (\<lambda>i. VerifyNewKey M new)) (rv_verify V) s1
    = (r2, s2)" by fastforce
  then have "s2 = s1" by (rule ExecuteActivity_same) (rule VerifyNewKey_same)
  with run 1 2 r1 have
    "ro_mgr s' = snd (km_RemoveKey M (km_ActiveKid M (ro_mgr s)) (ro_mgr s1))"
    by (auto simp: rotation_swap_def Let_def ro ExecuteActivity_once remove_snd
        split: option.splits if_splits)
  with a h old show ?thesis by (simp add: remove_active remove_has)
qed

text \<open>The first four steps, when no result of the publication is lost.\<close>

lemma rotation_prefix:
  assumes run: "RotationWorkflow M V params s = (r, s')"
    and nl: "ResultLost \<notin> set (rv_publish V)"
  obtains (unpublished) e where "r = Some e" "e \<notin> {PropagationWait, GracePeriodWait}"
      "ro_mgr s' = ro_mgr s"
  | (slept) "r = Some PropagationWait"
  | (published) i km s3 where "i < 3"
      "generateKey V i (rp_key_type (rotation_defaults params)) = Some km"
      "\<And>x. has (ro_mgr s3) x \<longleftrightarrow> x = mat_kid km \<or> has (ro_mgr s) x"
      "km_ActiveKid M (ro_mgr s3) = km_ActiveKid M (ro_mgr s)"
      "(r, s') = (Some MintingExecToken,
          rollback_remove M V ''exec-token-mint-failed'' (mat_kid km) s3)
       \<or> (\<exists>tok. (r, s') = rotation_swap M V (rotation_defaults params) (mat_kid km) tok s3)"
proof -
  let ?p = "rotation_defaults params"
  let ?mint = "\<lambda>new. rv_mint_token V (ExecutionScopeForSwap V new (rv_sha256_b64url V new))"
  let ?emit = "EmitLifecycleSignal V EventTypeRotationInitiated ''urn:starfly:signing-key''
      [(''key_type'', JStr (rp_key_type ?p))] :: nat \<Rightarrow> 'b rotation_state \<Rightarrow> _"
  obtain r1 s1 where 1: "ExecuteActivity ?emit (rv_initiated V) s = (r1, s1)" by fastforce
  have m1: "ro_mgr s1 = ro_mgr s" using ExecuteActivity_Emit_mgr [of V _ _ _ "rv_initiated V" s] 1
    by (metis snd_conv)
  obtain r2 s2 where 2: "ExecuteActivity (on_manager (GenerateAndPublishKey M V (rp_key_type ?p)))
      (rv_publish V) s1 = (r2, s2)" by fastforce
  have 3: "(r2 = None \<and> s2 = s1) \<or> (\<exists>j < 3. r2 \<noteq> None
      \<and> on_manager (GenerateAndPublishKey M V (rp_key_type ?p)) j s1 = (r2, s2))"
    using 2 nl by (rule ExecuteActivity_no_loss) (rule on_manager_fail [OF publish_fail])
  show thesis
  proof (cases "r1 = None \<or> r2 = None")
    case True
    with run 1 2 3 m1
    have "\<exists>e. r = Some e \<and> e \<notin> {PropagationWait, GracePeriodWait} \<and> ro_mgr s' = ro_mgr s"
      by (cases r1) (auto simp: RotationWorkflow_def Let_def)
    then show ?thesis using unpublished by auto
  next
    case False
    then obtain new where r2: "r2 = Some new" by auto
    with 3 obtain j where j: "j < 3"
      and pub: "GenerateAndPublishKey M V (rp_key_type ?p) j (ro_mgr s1) = (Some new, ro_mgr s2)"
      by (auto dest: on_manager_SomeD)
    from publish_ok [OF pub] obtain km where km: "generateKey V j (rp_key_type ?p) = Some km"
      "mat_kid km = new" "\<And>x. has (ro_mgr s2) x \<longleftrightarrow> x = mat_kid km \<or> has (ro_mgr s) x"
      "km_ActiveKid M (ro_mgr s2) = km_ActiveKid M (ro_mgr s)"
      by (auto simp: m1)
    obtain r3 s3 where 4: "ExecuteActivity (\<lambda>i s. (?mint new, s)) (rv_mint V) s2 = (r3, s3)"
      by fastforce
    then have s3: "s3 = s2" by (rule ExecuteActivity_same) simp
    show ?thesis
    proof (cases "rv_propagation_sleep V (rp_propagation_timeout ?p)")
      case False
      with run 1 2 r2 \<open>\<not> (r1 = None \<or> r2 = None)\<close> show ?thesis
        by (intro slept) (auto simp: RotationWorkflow_def Let_def split: option.splits)
    next
      case True
      with run 1 2 r2 4 s3 km(2) \<open>\<not> (r1 = None \<or> r2 = None)\<close>
      have "(r, s') = (case r3 of
          None \<Rightarrow> (Some MintingExecToken,
            rollback_remove M V ''exec-token-mint-failed'' (mat_kid km) s2)
        | Some tok \<Rightarrow> rotation_swap M V ?p (mat_kid km) tok s2)"
        by (auto simp: RotationWorkflow_def Let_def)
      then show ?thesis
        by (intro published [OF j km(1) km(3) km(4)]) (auto split: option.splits)
    qed
  qed
qed

lemma rotation_failure_restores:
  assumes "invar (ro_mgr s)"
    and "RotationWorkflow M V params s = (Some e, s')" and "e \<notin> {PropagationWait, GracePeriodWait}"
    and "ResultLost \<notin> set (rv_publish V)" and "ResultLost \<notin> set (rv_swap V)"
    and "rv_remove_new V = [Completed]" and "rv_rollback V = [Completed]"
    and fresh: "\<And>i km. i < 3 \<Longrightarrow> generateKey V i (rp_key_type (rotation_defaults params)) = Some km
      \<Longrightarrow> \<not> has (ro_mgr s) (mat_kid km)"
  shows "km_ActiveKid M (ro_mgr s') = km_ActiveKid M (ro_mgr s)
    \<and> (\<forall>x. has (ro_mgr s') x = has (ro_mgr s) x)"
  using assms(2,4)
proof (cases rule: rotation_prefix)
  case (unpublished e')
  then show ?thesis by simp
next
  case slept
  with assms(3) show ?thesis by simp
next
  case (published i km s3)
  note act = active_has [OF assms(1)]
  have new: "\<not> has (ro_mgr s) (mat_kid km)" using published(1,2) by (rule fresh)
  with act have neq: "mat_kid km \<noteq> km_ActiveKid M (ro_mgr s3)" using published(4) by auto
  have h3: "has (ro_mgr s3) (km_ActiveKid M (ro_mgr s3))" using act published(3,4) by simp
  have "km_ActiveKid M (ro_mgr s') = km_ActiveKid M (ro_mgr s3)
    \<and> (\<forall>x. has (ro_mgr s') x \<longleftrightarrow> has (ro_mgr s3) x \<and> x \<noteq> mat_kid km)"
    using published(5)
  proof
    assume "(Some e, s') = (Some MintingExecToken,
      rollback_remove M V ''exec-token-mint-failed'' (mat_kid km) s3)"
    then show ?thesis using neq by (simp add: rollback_remove_mgr assms(6) remove_active remove_has)
  next
    assume "\<exists>tok. (Some e, s') = rotation_swap M V (rotation_defaults params) (mat_kid km) tok s3"
    then obtain tok where
      "rotation_swap M V (rotation_defaults params) (mat_kid km) tok s3 = (Some e, s')" by auto
    then show ?thesis using assms(5-7,3) h3 neq by (intro rotation_swap_failure) auto
  qed
  with published(3,4) new show ?thesis by auto
qed

lemma rotation_success_replaces:
  assumes "invar (ro_mgr s)"
    and "RotationWorkflow M V params s = (None, s')"
    and "ResultLost \<notin> set (rv_publish V)" and "ResultLost \<notin> set (rv_swap V)"
    and "rv_remove_old V = [Completed]"
    and fresh: "\<And>i km. i < 3 \<Longrightarrow> generateKey V i (rp_key_type (rotation_defaults params)) = Some km
      \<Longrightarrow> \<not> has (ro_mgr s) (mat_kid km)"
  shows "\<exists>i km. generateKey V i (rp_key_type (rotation_defaults params)) = Some km
    \<and> km_ActiveKid M (ro_mgr s') = mat_kid km
    \<and> (\<forall>x. has (ro_mgr s') x \<longleftrightarrow>
        x = mat_kid km \<or> (has (ro_mgr s) x \<and> x \<noteq> km_ActiveKid M (ro_mgr s)))"
  using assms(2,3)
proof (cases rule: rotation_prefix)
  case (published i km s3)
  then obtain tok where
    run: "rotation_swap M V (rotation_defaults params) (mat_kid km) tok s3 = (None, s')" by auto
  have "\<not> has (ro_mgr s) (mat_kid km)" using published(1,2) by (rule fresh)
  with active_has [OF assms(1)] have "mat_kid km \<noteq> km_ActiveKid M (ro_mgr s3)"
    using published(4) by auto
  from rotation_swap_success [OF run assms(4,5) this] published(2-4) \<open>\<not> has (ro_mgr s) (mat_kid km)\<close>
    active_has [OF assms(1)]
  show ?thesis by (intro exI [of _ i] exI [of _ km]) auto
qed simp_all

end

end
