(* ===== verification/Rotation_Guarantees.thy ===== *)
theory Rotation_Guarantees
  imports Rotation
begin

text \<open>
  The guarantees of the rotation saga on the engine's keyring, obtained from the facts that
  hold for every key manager, and what a retried swap does.
\<close>

section \<open>A concrete unit\<close>

definition rot_jwk :: "(string, string, string) jwk_lib" where
  "rot_jwk = \<lparr>jk_key_id = Some, jk_import = Some, jk_set_kid = (\<lambda>kid k. Some k),
     jk_set_alg = (\<lambda>a k. Some k), jk_set_use = (\<lambda>u k. Some k), jk_public = Some,
     jk_add_to_set = (\<lambda>p ps. Some (ps @ [p]))\<rparr>"

definition rot_env :: "attempt list \<Rightarrow> attempt list \<Rightarrow> string rotation_env" where
  "rot_env swaps verifies =
     \<lparr>rv_initiated = [Completed], rv_publish = [Completed], rv_mint = [Completed],
      rv_swap = swaps, rv_verify = verifies, rv_rollback = [Completed],
      rv_remove_new = [Completed], rv_remove_old = [Completed], rv_final_signal = [Completed],
      rv_rsa = (\<lambda>i. Some ''priv''), rv_ecdsa = (\<lambda>i. None), rv_gen_clock = (\<lambda>i. 7),
      rv_scope_clock = 8, rv_event_clock = (\<lambda>i. 9), rv_unit_id = ''u1'',
      rv_mint_token = (\<lambda>x. Some ''exec''), rv_propagation_sleep = (\<lambda>d. True),
      rv_grace_sleep = (\<lambda>d. True), rv_sha256_b64url = (\<lambda>s. s)\<rparr>"

definition rot_state :: "string keyring rotation_state" where
  "rot_state = \<lparr>ro_mgr = \<lparr>kr_active_kid = ''k0'', kr_keys = [(''k0'', ''k0'')]\<rparr>, ro_emitted = []\<rparr>"

lemma rot_state_ok: "keyring_ok (ro_mgr rot_state)"
  by (simp add: rot_state_def keyring_ok_def gomap_wf_def gomap_has_def)


section \<open>Guarantees\<close>

text \<open>
  A rotation never leaves the unit without its signing key: whatever activities fail,
  are retried or lose their result, the active key of the keyring stays present.
\<close>

theorem rotation_keeps_signing_key:
  assumes "keyring_ok (ro_mgr s)"
  shows "keyring_ok (ro_mgr (snd (RotationWorkflow (keyring_manager L) V params s)))
    \<and> (\<exists>k. ActiveKey (ro_mgr (snd (RotationWorkflow (keyring_manager L) V params s))) = Some k)"
  using keyring.rotation_invar [OF assms] ActiveKey_present by blast

theorem rotation_keeps_signing_key_witness:
  "\<exists>k. ActiveKey (ro_mgr (snd (RotationWorkflow (keyring_manager rot_jwk)
     (rot_env [ResultLost, NotRun, Completed] [NotRun]) DefaultRotationParams rot_state))) = Some k"
  using rotation_keeps_signing_key [OF rot_state_ok] by blast







text \<open>
  The swap is not idempotent under retries. When the result of the first swap is lost
  and the activity is run again, the second run takes the new key for the old one: the
  workflow then fails to remove it, reports success, and the replaced key stays published.
\<close>

theorem retried_swap_keeps_old_key:
  "\<exists>s'. RotationWorkflow (keyring_manager rot_jwk) (rot_env [ResultLost, Completed] [Completed])
       DefaultRotationParams rot_state = (None, s')
     \<and> ActiveKid (ro_mgr s') \<noteq> ''k0'' \<and> keyring_has (ro_mgr s') ''k0''"
proof -
  let ?r = "RotationWorkflow (keyring_manager rot_jwk) (rot_env [ResultLost, Completed] [Completed])
       DefaultRotationParams rot_state"
  have "fst ?r = None \<and> ActiveKid (ro_mgr (snd ?r)) \<noteq> ''k0'' \<and> keyring_has (ro_mgr (snd ?r)) ''k0''"
    by code_simp
  then show ?thesis by (metis prod.collapse)
qed

end
