(* ===== verification/Transmitter.thy ===== *)
theory Transmitter
  imports Keyring Core_Types
begin

text \<open>
  \<open>src/pkg/signals/types.go\<close> and \<open>src/pkg/signals/transmitter.go\<close>: security event tokens
  (SETs) and the transmitter that signs them and delivers them to SSF streams. The JWT and
  JWK libraries, \<open>url.Parse\<close> and the random source are parameters; a delivery is the start
  of the goroutine that posts to the stream's endpoint, its HTTP exchange is not modelled.
\<close>

section \<open>Event types and stream states\<close>

definition EventCredentialChange :: string where
  "EventCredentialChange = ''https://schemas.openid.net/secevent/caep/event-type/credential-change''"

definition EventDeviceComplianceChange :: string where
  "EventDeviceComplianceChange = ''https://schemas.openid.net/secevent/caep/event-type/device-compliance-change''"

definition EventSessionRevoked :: string where
  "EventSessionRevoked = ''https://schemas.openid.net/secevent/caep/event-type/session-revoked''"

definition EventAssuranceLevelChange :: string where
  "EventAssuranceLevelChange = ''https://schemas.openid.net/secevent/caep/event-type/assurance-level-change''"

definition EventTokenClaimsChange :: string where
  "EventTokenClaimsChange = ''https://schemas.openid.net/secevent/caep/event-type/token-claims-change''"

definition EventAccountDisabled :: string where
  "EventAccountDisabled = ''https://schemas.openid.net/secevent/risc/event-type/account-disabled''"

definition EventAccountEnabled :: string where
  "EventAccountEnabled = ''https://schemas.openid.net/secevent/risc/event-type/account-enabled''"

definition EventAccountCredChange :: string where
  "EventAccountCredChange = ''https://schemas.openid.net/secevent/risc/event-type/account-credential-change-required''"

definition EventIdentifierChanged :: string where
  "EventIdentifierChanged = ''https://schemas.openid.net/secevent/risc/event-type/identifier-changed''"

definition EventTokenRevoked :: string where
  "EventTokenRevoked = ''https://starfly.dev/secevent/event-type/token-revoked''"

definition EventPolicyViolation :: string where
  "EventPolicyViolation = ''https://starfly.dev/secevent/event-type/policy-violation''"

definition EventMCPToolCompromised :: string where
  "EventMCPToolCompromised = ''https://starfly.dev/secevent/event-type/mcp-tool-compromised''"

definition EventMCPServerDeregistered :: string where
  "EventMCPServerDeregistered = ''https://starfly.dev/secevent/event-type/mcp-server-deregistered''"

definition EventMCPPermissionChanged :: string where
  "EventMCPPermissionChanged = ''https://starfly.dev/secevent/event-type/mcp-permission-changed''"

definition DeliveryPush :: string where
  "DeliveryPush = ''https://schemas.openid.net/secevent/risc/delivery-method/push''"

definition DeliveryPoll :: string where
  "DeliveryPoll = ''https://schemas.openid.net/secevent/risc/delivery-method/poll''"

definition StreamStatusEnabled :: string where
  "StreamStatusEnabled = ''enabled''"

definition StreamStatusPaused :: string where
  "StreamStatusPaused = ''paused''"

definition StreamStatusDisabled :: string where
  "StreamStatusDisabled = ''disabled''"

definition EventTypes :: "string list" where
  "EventTypes =
     [EventCredentialChange, EventDeviceComplianceChange, EventSessionRevoked,
      EventAssuranceLevelChange, EventTokenClaimsChange, EventAccountDisabled,
      EventAccountEnabled, EventAccountCredChange, EventIdentifierChanged,
      EventTokenRevoked, EventPolicyViolation, EventMCPToolCompromised,
      EventMCPServerDeregistered, EventMCPPermissionChanged]"
text \<open>\<open>generateJTI\<close> from sixteen random bytes, \<open>NewSecurityEvent\<close> and \<open>AddEvent\<close>.\<close>

definition generateJTI :: "string \<Rightarrow> string" where
  "generateJTI bytes = hex_encode bytes"

definition NewSecurityEvent ::
  "string \<Rightarrow> go_time \<Rightarrow> string \<Rightarrow> string \<Rightarrow> subject_identifier option \<Rightarrow> security_event" where
  "NewSecurityEvent bytes now issuer audience subID =
     \<lparr>se_issuer = issuer, se_jti = generateJTI bytes, se_issued_at = unix_seconds now,
      se_audience = audience, se_subject_id = subID, se_events = [], se_transaction_id = ''''\<rparr>"

definition AddEvent :: "string \<Rightarrow> claims \<Rightarrow> security_event \<Rightarrow> security_event" where
  "AddEvent eventType cs evt = evt\<lparr>se_events := AList.update eventType cs (se_events evt)\<rparr>"

section \<open>State\<close>

record stream_state =
  sm_stream :: ssf_stream
  sm_config :: stream_config
  sm_created :: go_time

record 'key transmitter =
  tm_sign_key :: 'key
  tm_issuer :: string
  tm_sync_bus :: "(signal \<Rightarrow> string option) option"
  tm_auditor :: bool
  tm_unit_id :: string

record transmitter_state =
  tx_streams :: "(string, stream_state) gomap"
  tx_audit :: "audit_event list"
  tx_signals :: "signal list"
  tx_posts :: "(string \<times> string \<times> string) list"

datatype transmit_error =
    AudienceRequired
  | InvalidEndpointURL
  | EndpointNotHTTPS string
  | StreamNotFound string
  | BuildingSET
  | SettingSETClaim string
  | SigningSET

record 'key set_lib =
  sl_build_ok :: bool
  sl_set_ok :: "string \<Rightarrow> json \<Rightarrow> bool"
  sl_sign :: "'key \<Rightarrow> claims \<Rightarrow> string option"

type_synonym 'a transmit_stage = "(transmitter_state, transmit_error, 'a) stage"

section \<open>Construction\<close>

definition WithTransmitterSyncBus ::
  "(signal \<Rightarrow> string option) \<Rightarrow> string \<Rightarrow> 'key transmitter \<Rightarrow> 'key transmitter" where
  "WithTransmitterSyncBus bus unitID tx = tx\<lparr>tm_sync_bus := Some bus, tm_unit_id := unitID\<rparr>"

definition WithTransmitterAuditor :: "'key transmitter \<Rightarrow> 'key transmitter" where
  "WithTransmitterAuditor tx = tx\<lparr>tm_auditor := True\<rparr>"

definition WithTransmitterIssuer :: "string \<Rightarrow> 'key transmitter \<Rightarrow> 'key transmitter" where
  "WithTransmitterIssuer issuer tx = tx\<lparr>tm_issuer := issuer\<rparr>"

definition NewTransmitter ::
  "('signer, 'key, 'pub) jwk_lib \<Rightarrow> 'signer option \<Rightarrow> ('key transmitter \<Rightarrow> 'key transmitter) list
   \<Rightarrow> keyring_error + 'key transmitter \<times> (string, stream_state) gomap" where
  "NewTransmitter L generated opts =
     (case generated of
        None \<Rightarrow> Inl GeneratingDevKey
      | Some privKey \<Rightarrow>
          case jk_import L privKey of
            None \<Rightarrow> Inl ImportingPrivateKey
          | Some k0 \<Rightarrow>
              case jk_set_kid L ''starfly-ssf-1'' k0 of
                None \<Rightarrow> Inl SettingKid
              | Some k1 \<Rightarrow>
                  case jk_set_alg L ''RS256'' k1 of
                    None \<Rightarrow> Inl SettingAlg
                  | Some key \<Rightarrow>
                      Inr (foldl (\<lambda>tx opt. opt tx)
                             \<lparr>tm_sign_key = key, tm_issuer = ''starfly'', tm_sync_bus = None,
                              tm_auditor = False, tm_unit_id = ''''\<rparr> opts, []))"

definition Transmitter_PublicKeySet ::
  "('signer, 'key, 'pub) jwk_lib \<Rightarrow> 'key transmitter \<Rightarrow> keyring_error + 'pub list" where
  "Transmitter_PublicKeySet L tx =
     (case jk_public L (tm_sign_key tx) of
        None \<Rightarrow> Inl ExtractingPublicKey
      | Some pub \<Rightarrow>
          case jk_add_to_set L pub [] of None \<Rightarrow> Inl AddingToSet | Some set' \<Rightarrow> Inr set')"

definition tx_log ::
  "'key transmitter \<Rightarrow> string \<Rightarrow> string \<Rightarrow> string \<Rightarrow> string \<Rightarrow> unit transmit_stage" where
  "tx_log tx typ action subject target =
     (if \<not> tm_auditor tx then sreturn ()
      else smodify (\<lambda>s. s\<lparr>tx_audit := tx_audit s @
        [(audit_lit typ action subject target '''' '''' [])\<lparr>au_unit_id := tm_unit_id tx\<rparr>]\<rparr>))"

section \<open>Streams\<close>

text \<open>
  The endpoint check of \<open>CreateStream\<close>; \<open>url_parse\<close> gives the scheme and the host name.
\<close>

definition endpoint_error ::
  "(string \<Rightarrow> (string \<times> string) option) \<Rightarrow> string \<Rightarrow> transmit_error option" where
  "endpoint_error url_parse endpoint =
     (if endpoint = '''' then None
      else case url_parse endpoint of
             None \<Rightarrow> Some InvalidEndpointURL
           | Some (scheme, hostname) \<Rightarrow>
               if scheme \<noteq> ''https'' \<and> hostname \<noteq> ''localhost'' \<and> hostname \<noteq> ''127.0.0.1''
               then Some (EndpointNotHTTPS endpoint) else None)"

text \<open>
  The events that \<open>CreateStream\<close> computes as delivered: requested and supported, or all.
\<close>

definition delivered_events :: "string list \<Rightarrow> string list" where
  "delivered_events requested =
     (let delivered = filter (\<lambda>r. r \<in> set EventTypes) requested
      in if length delivered = 0 then EventTypes else delivered)"

definition CreateStream ::
  "(string \<Rightarrow> (string \<times> string) option) \<Rightarrow> string \<Rightarrow> go_time \<Rightarrow> 'key transmitter \<Rightarrow> stream_config
   \<Rightarrow> ssf_stream transmit_stage" where
  "CreateStream url_parse bytes now tx cfg =
     (if sc_audience cfg = '''' then sfail AudienceRequired
      else case endpoint_error url_parse (sc_endpoint_url cfg) of
        Some err \<Rightarrow> sfail err
      | None \<Rightarrow>
          let streamID = generateJTI bytes;
              stream = \<lparr>st_id = streamID, st_issuer = tm_issuer tx, st_audience = sc_audience cfg,
                        st_events_supported = EventTypes, st_status = StreamStatusEnabled\<rparr>
          in sbind (smodify (\<lambda>s. s\<lparr>tx_streams := AList.update streamID
                 \<lparr>sm_stream = stream, sm_config = cfg, sm_created = now\<rparr> (tx_streams s)\<rparr>)) (\<lambda>_.
             sbind (tx_log tx ''signal'' ''stream_created'' streamID (sc_audience cfg)) (\<lambda>_.
             sreturn stream)))"

definition DeleteStream :: "'key transmitter \<Rightarrow> string \<Rightarrow> unit transmit_stage" where
  "DeleteStream tx streamID =
     (\<lambda>s. case map_of (tx_streams s) streamID of
            None \<Rightarrow> (Inl (StreamNotFound streamID), s)
          | Some state \<Rightarrow>
              tx_log tx ''signal'' ''stream_deleted'' streamID (sc_audience (sm_config state))
                (s\<lparr>tx_streams := AList.delete streamID (tx_streams s)\<rparr>))"

definition GetStreamStatus :: "string \<Rightarrow> transmitter_state \<Rightarrow> transmit_error + stream_status" where
  "GetStreamStatus streamID s =
     (case map_of (tx_streams s) streamID of
        None \<Rightarrow> Inl (StreamNotFound streamID)
      | Some state \<Rightarrow> Inr \<lparr>ss_stream_id = streamID, ss_status = st_status (sm_stream state),
                           ss_subject = ''''\<rparr>)"

definition StreamCount :: "transmitter_state \<Rightarrow> nat" where
  "StreamCount s = length (tx_streams s)"

record stream_info =
  inf_stream_id :: string
  inf_audience :: string
  inf_status :: string
  inf_events_requested :: "string list"
  inf_endpoint_url :: string
  inf_created :: go_time

definition ListStreams :: "transmitter_state \<Rightarrow> stream_info list" where
  "ListStreams s =
     map (\<lambda>(_, st). \<lparr>inf_stream_id = st_id (sm_stream st), inf_audience = st_audience (sm_stream st),
                     inf_status = st_status (sm_stream st),
                     inf_events_requested = sc_events_requested (sm_config st),
                     inf_endpoint_url = sc_endpoint_url (sm_config st),
                     inf_created = sm_created st\<rparr>) (tx_streams s)"

section \<open>Signing and transmitting\<close>

text \<open>The JSON form of a subject identifier, by the field tags of the struct.\<close>

definition subject_json :: "subject_identifier \<Rightarrow> json" where
  "subject_json s =
     JObj ([(''format'', JStr (si_format s))]
           @ (if si_spiffe_id s \<noteq> '''' then [(''spiffe_id'', JStr (si_spiffe_id s))] else [])
           @ (if si_email s \<noteq> '''' then [(''email'', JStr (si_email s))] else [])
           @ (if si_uri s \<noteq> '''' then [(''uri'', JStr (si_uri s))] else []))"

definition events_json :: "(string, claims) gomap \<Rightarrow> json" where
  "events_json evs = JObj (map (\<lambda>(t, cs). (t, JObj cs)) evs)"

definition set_set_claim ::
  "'key set_lib \<Rightarrow> string \<Rightarrow> json \<Rightarrow> claims \<Rightarrow> transmit_error + claims" where
  "set_set_claim S k v tok =
     (if sl_set_ok S k v then Inr (AList.update k v tok) else Inl (SettingSETClaim k))"

definition set_claims ::
  "'key set_lib \<Rightarrow> go_time \<Rightarrow> security_event \<Rightarrow> transmit_error + claims" where
  "set_claims S now event =
     (if \<not> sl_build_ok S then Inl BuildingSET
      else
        let token = [(''iss'', JStr (se_issuer event)), (''aud'', JArr [JStr (se_audience event)]),
                     (''iat'', JNum (of_int (unix_seconds now))), (''jti'', JStr (se_jti event))]
        in rbind (case se_subject_id event of
                    None \<Rightarrow> Inr token
                  | Some subID \<Rightarrow> set_set_claim S ''sub_id'' (subject_json subID) token) (\<lambda>t1.
           rbind (set_set_claim S ''events'' (events_json (se_events event)) t1) (\<lambda>t2.
             if se_transaction_id event \<noteq> ''''
             then set_set_claim S ''txn'' (JStr (se_transaction_id event)) t2 else Inr t2)))"

definition signSET ::
  "'key set_lib \<Rightarrow> go_time \<Rightarrow> 'key transmitter \<Rightarrow> security_event \<Rightarrow> transmit_error + string" where
  "signSET S now tx event =
     rbind (set_claims S now event) (\<lambda>token.
       case sl_sign S (tm_sign_key tx) token of None \<Rightarrow> Inl SigningSET | Some raw \<Rightarrow> Inr raw)"

text \<open>The fields that \<open>TransmitEvent\<close> fills in when they are empty.\<close>

definition filled_event ::
  "string \<Rightarrow> go_time \<Rightarrow> 'key transmitter \<Rightarrow> security_event \<Rightarrow> security_event" where
  "filled_event bytes now tx event =
     event\<lparr>se_jti := (if se_jti event = '''' then generateJTI bytes else se_jti event),
           se_issued_at := (if se_issued_at event = 0 then unix_seconds now else se_issued_at event),
           se_issuer := (if se_issuer event = '''' then tm_issuer tx else se_issuer event)\<rparr>"

definition push_targets :: "transmitter_state \<Rightarrow> stream_state list" where
  "push_targets s =
     filter (\<lambda>st. \<not> sc_endpoint_url (sm_config st) = ''''
                \<and> \<not> (sc_delivery_method (sm_config st) \<noteq> '''' \<and> sc_delivery_method (sm_config st) \<noteq> ''push''))
       (filter (\<lambda>st. st_status (sm_stream st) = StreamStatusEnabled) (map snd (tx_streams s)))"

definition TransmitEvent ::
  "'key set_lib \<Rightarrow> string \<Rightarrow> go_time \<Rightarrow> go_time \<Rightarrow> 'key transmitter \<Rightarrow> security_event
   \<Rightarrow> unit transmit_stage" where
  "TransmitEvent S bytes now sign_now tx event0 =
     (let event = filled_event bytes now tx event0
      in sbind (slift (signSET S sign_now tx event)) (\<lambda>signedSET.
         sbind (smodify (\<lambda>s. s\<lparr>tx_posts := tx_posts s @
             map (\<lambda>st. (sc_endpoint_url (sm_config st), signedSET, se_jti event)) (push_targets s)\<rparr>)) (\<lambda>_.
         sbind (case tm_sync_bus tx of
                  None \<Rightarrow> sreturn ()
                | Some flash \<Rightarrow>
                    smodify (\<lambda>s. s\<lparr>tx_signals := tx_signals s @
                      [\<lparr>sg_type = ''caep_signal'', sg_source = tm_unit_id tx, sg_timestamp = 0,
                        sg_payload = [(''jti'', JStr (se_jti event)),
                          (''event_types'', JArr (map (\<lambda>(t, _). JStr t) (se_events event)))]\<rparr>]\<rparr>)) (\<lambda>_.
         tx_log tx ''signal'' ''event_transmitted'' (se_jti event) (se_audience event)))))"

end
