(* ===== verification/Receiver.thy ===== *)
theory Receiver
  imports Transmitter Revocation Execution_Scope
begin

text \<open>
  \<open>src/pkg/signals/receiver.go\<close>: the receiver of security event tokens. It verifies and
  parses a SET, drops duplicates by their JTI, asks the policy, writes the revocation index
  and propagates the event. The state that a call can change is \<open>receiver_state\<close>; the
  revocation index in it is the one that the exchange engine asks.

  The duplicate check is a \<open>replay_guard\<close>. Where the source takes the first entry of a Go map
  (the policy context, the revocation reason, the callback), the model takes the first of
  the list, which stands for the order that Go happened to choose.
\<close>

section \<open>State\<close>

definition defaultJTITTL :: duration where
  "defaultJTITTL = 24 * 60 * go_minute"

definition jtiCleanupInterval :: int where
  "jtiCleanupInterval = 256"

record 'pubkey receiver =
  rx_jwks :: "(string \<Rightarrow> string \<Rightarrow> string + 'pubkey) option"
  rx_policy :: "(policy_input \<Rightarrow> string + policy_decision) option"
  rx_sync_bus :: "(signal \<Rightarrow> string option) option"
  rx_auditor :: bool
  rx_revocation :: bool
  rx_unit_id :: string
  rx_dev_mode :: bool
  rx_revocation_grace :: duration
  rx_on_signal :: bool
  rx_jti_ttl :: duration

record receiver_state =
  rc_jti_seen :: "(string, go_time) gomap"
  rc_jti_writes :: int
  rc_index :: revocation_map
  rc_audit :: "audit_event list"
  rc_signals :: "signal list"
  rc_notified :: "(string \<times> string \<times> string) list"

datatype receiver_error =
    NilEvent
  | NoEventsInSET
  | DuplicateJTI string
  | SignalPolicyError string
  | SignalDenied string
  | UnparsableSET
  | NoJWKSResolver
  | MissingIssuer
  | NoSETSignatures
  | UnknownIssuer string string
  | ImportingResolvedKey
  | SETSignatureInvalid

text \<open>The JWT library, and the clock readings of one call.\<close>

record ('pubkey, 'key, 'alg) set_parser =
  sp_parse_insecure :: "string \<Rightarrow> claims option"
  sp_jws_parse :: "string \<Rightarrow> (string option \<times> 'alg option) list option"
  sp_import :: "'pubkey \<Rightarrow> 'key option"
  sp_parse :: "string \<Rightarrow> 'alg option \<Rightarrow> 'key \<Rightarrow> claims option"

record receive_clock =
  ck_jti :: go_time
  ck_policy :: go_time
  ck_expiry :: go_time
  ck_revoke :: go_time

type_synonym 'a receive_stage = "(receiver_state, receiver_error, 'a) stage"

text \<open>The options.\<close>

definition WithReceiverJWKS ::
  "(string \<Rightarrow> string \<Rightarrow> string + 'pubkey) \<Rightarrow> 'pubkey receiver \<Rightarrow> 'pubkey receiver" where
  "WithReceiverJWKS r rx = rx\<lparr>rx_jwks := Some r\<rparr>"

definition WithReceiverPolicy ::
  "(policy_input \<Rightarrow> string + policy_decision) \<Rightarrow> 'pubkey receiver \<Rightarrow> 'pubkey receiver" where
  "WithReceiverPolicy p rx = rx\<lparr>rx_policy := Some p\<rparr>"

definition WithReceiverSyncBus ::
  "(signal \<Rightarrow> string option) \<Rightarrow> string \<Rightarrow> 'pubkey receiver \<Rightarrow> 'pubkey receiver" where
  "WithReceiverSyncBus bus unitID rx = rx\<lparr>rx_sync_bus := Some bus, rx_unit_id := unitID\<rparr>"

definition WithReceiverAuditor :: "'pubkey receiver \<Rightarrow> 'pubkey receiver" where
  "WithReceiverAuditor rx = rx\<lparr>rx_auditor := True\<rparr>"

definition WithReceiverRevocation :: "'pubkey receiver \<Rightarrow> 'pubkey receiver" where
  "WithReceiverRevocation rx = rx\<lparr>rx_revocation := True\<rparr>"

definition WithReceiverDevMode :: "bool \<Rightarrow> 'pubkey receiver \<Rightarrow> 'pubkey receiver" where
  "WithReceiverDevMode dev rx = rx\<lparr>rx_dev_mode := dev\<rparr>"

definition WithReceiverOnSignal :: "'pubkey receiver \<Rightarrow> 'pubkey receiver" where
  "WithReceiverOnSignal rx = rx\<lparr>rx_on_signal := True\<rparr>"

definition WithReceiverRevocationGrace :: "duration \<Rightarrow> 'pubkey receiver \<Rightarrow> 'pubkey receiver" where
  "WithReceiverRevocationGrace d rx = rx\<lparr>rx_revocation_grace := d\<rparr>"

definition WithReceiverJTITTL :: "duration \<Rightarrow> 'pubkey receiver \<Rightarrow> 'pubkey receiver" where
  "WithReceiverJTITTL d rx = rx\<lparr>rx_jti_ttl := d\<rparr>"

definition NewReceiver :: "('pubkey receiver \<Rightarrow> 'pubkey receiver) list \<Rightarrow> 'pubkey receiver" where
  "NewReceiver opts =
     foldl (\<lambda>rx opt. opt rx)
       \<lparr>rx_jwks = None, rx_policy = None, rx_sync_bus = None, rx_auditor = False,
        rx_revocation = False, rx_unit_id = '''', rx_dev_mode = False,
        rx_revocation_grace = 60 * go_minute, rx_on_signal = False, rx_jti_ttl = defaultJTITTL\<rparr> opts"

section \<open>Receiving\<close>

definition checkAndMarkJTI ::
  "duration \<Rightarrow> go_time \<Rightarrow> string \<Rightarrow> receiver_state \<Rightarrow> receiver_error option \<times> receiver_state" where
  "checkAndMarkJTI ttl now jti s =
     (if ttl = 0 \<or> jti = '''' then (None, s)
      else if (case map_of (rc_jti_seen s) jti of None \<Rightarrow> False | Some expiry \<Rightarrow> now < expiry)
      then (Some (DuplicateJTI jti), s)
      else
        let seen = AList.update jti (time_add now ttl) (rc_jti_seen s);
            writes = rc_jti_writes s + 1
        in (None,
            if jtiCleanupInterval \<le> writes
            then s\<lparr>rc_jti_seen := filter (\<lambda>(k, expiry). \<not> time_after now expiry) seen, rc_jti_writes := 0\<rparr>
            else s\<lparr>rc_jti_seen := seen, rc_jti_writes := writes\<rparr>))"

definition rx_log ::
  "'pubkey receiver \<Rightarrow> string \<Rightarrow> string \<Rightarrow> string \<Rightarrow> string \<Rightarrow> string \<Rightarrow> string \<Rightarrow> unit receive_stage" where
  "rx_log rx typ action subject target decision reason =
     (if \<not> rx_auditor rx then sreturn ()
      else smodify (\<lambda>s. s\<lparr>rc_audit := rc_audit s @
        [(audit_lit typ action subject target decision reason [])\<lparr>au_unit_id := rx_unit_id rx\<rparr>]\<rparr>))"

definition spiffe_or_uri :: "string \<Rightarrow> security_event \<Rightarrow> string" where
  "spiffe_or_uri dflt event =
     (case se_subject_id event of
        None \<Rightarrow> dflt
      | Some sid \<Rightarrow> if si_spiffe_id sid \<noteq> '''' then si_spiffe_id sid
                     else if si_uri sid \<noteq> '''' then si_uri sid else dflt)"

definition event_types :: "security_event \<Rightarrow> json" where
  "event_types event = JArr (map (\<lambda>(t, _). JStr t) (se_events event))"

definition signal_policy_input :: "go_time \<Rightarrow> security_event \<Rightarrow> policy_input" where
  "signal_policy_input now event =
     \<lparr>pi_action = ''signal'',
      pi_subject = Some
        \<lparr>wi_id = spiffe_or_uri (se_issuer event) event, wi_trust_domain = '''',
         wi_attestation =
           (case se_subject_id event of
              None \<Rightarrow> None
            | Some _ \<Rightarrow> Some \<lparr>ae_method = ''ssf-event'', ae_timestamp = now, ae_node_id = '''',
                              ae_namespace = ''''\<rparr>),
         wi_claims = []\<rparr>,
      pi_target = se_audience event,
      pi_context =
        put_all (case se_events event of [] \<Rightarrow> [] | (_, eventData) # _ \<Rightarrow> eventData)
          [(''event_types'', event_types event), (''jti'', JStr (se_jti event))]\<rparr>"

definition handleRevocation ::
  "'pubkey receiver \<Rightarrow> receive_clock \<Rightarrow> security_event \<Rightarrow> unit receive_stage" where
  "handleRevocation rx ck event =
     (if \<not> rx_revocation rx then sreturn ()
      else
        let subjectID = spiffe_or_uri '''' event;
            reason = (case se_events event of [] \<Rightarrow> ''caep-event'' | (t, _) # _ \<Rightarrow> t);
            expiresAt = time_add (ck_expiry ck) (rx_revocation_grace rx)
        in if subjectID = '''' then sreturn ()
           else (\<lambda>s. case Revoke (ck_revoke ck) subjectID reason expiresAt (rc_index s) of
                       (Some _, idx) \<Rightarrow> (Inr (), s\<lparr>rc_index := idx\<rparr>)
                     | (None, idx) \<Rightarrow>
                         rx_log rx ''signal'' ''token_revoked'' subjectID (se_issuer event) ''allowed''
                           reason (s\<lparr>rc_index := idx\<rparr>)))"

definition wants_revocation :: "policy_decision \<Rightarrow> bool" where
  "wants_revocation decision \<longleftrightarrow> map_of (pd_claims decision) ''revoke_tokens'' = Some (JBool True)"

definition rx_policy_stage ::
  "'pubkey receiver \<Rightarrow> receive_clock \<Rightarrow> security_event \<Rightarrow> unit receive_stage" where
  "rx_policy_stage rx ck event =
     (case rx_policy rx of
        None \<Rightarrow> sreturn ()
      | Some evaluate \<Rightarrow>
          case evaluate (signal_policy_input (ck_policy ck) event) of
            Inl err \<Rightarrow> sfail (SignalPolicyError err)
          | Inr decision \<Rightarrow>
              if \<not> pd_allowed decision
              then sbind (rx_log rx ''signal'' ''event_denied'' (se_jti event) (se_issuer event)
                            ''denied'' (pd_reason decision))
                     (\<lambda>_. sfail (SignalDenied (pd_reason decision)))
              else if wants_revocation decision then handleRevocation rx ck event
              else sreturn ())"

definition rx_propagate :: "'pubkey receiver \<Rightarrow> security_event \<Rightarrow> unit receive_stage" where
  "rx_propagate rx event =
     (case rx_sync_bus rx of
        None \<Rightarrow> sreturn ()
      | Some flash \<Rightarrow>
          smodify (\<lambda>s. s\<lparr>rc_signals := rc_signals s @
            [\<lparr>sg_type = ''caep_signal'', sg_source = rx_unit_id rx, sg_timestamp = 0,
              sg_payload = [(''jti'', JStr (se_jti event)), (''issuer'', JStr (se_issuer event)),
                            (''event_types'', event_types event), (''action'', JStr ''received'')]\<rparr>]\<rparr>))"

text \<open>The subject that the callback gets: the URI before the SPIFFE id.\<close>

definition notify_subject :: "security_event \<Rightarrow> string" where
  "notify_subject event =
     (case se_subject_id event of
        None \<Rightarrow> se_issuer event
      | Some sid \<Rightarrow> if si_uri sid \<noteq> '''' then si_uri sid
                     else if si_spiffe_id sid \<noteq> '''' then si_spiffe_id sid else se_issuer event)"

definition rx_notify :: "'pubkey receiver \<Rightarrow> security_event \<Rightarrow> unit receive_stage" where
  "rx_notify rx event =
     (case se_events event of
        (t, _) # _ \<Rightarrow>
          if rx_on_signal rx
          then smodify (\<lambda>s. s\<lparr>rc_notified := rc_notified s @ [(t, notify_subject event, ''accepted'')]\<rparr>)
          else sreturn ()
      | [] \<Rightarrow> sreturn ())"

definition ReceiveEvent ::
  "'pubkey receiver \<Rightarrow> receive_clock \<Rightarrow> security_event option \<Rightarrow> unit receive_stage" where
  "ReceiveEvent rx ck evt =
     (case evt of
        None \<Rightarrow> sfail NilEvent
      | Some event \<Rightarrow>
          if length (se_events event) = 0 then sfail NoEventsInSET
          else
            sbind (\<lambda>s. case checkAndMarkJTI (rx_jti_ttl rx) (ck_jti ck) (se_jti event) s of
                         (Some err, s') \<Rightarrow> (Inl err, s') | (None, s') \<Rightarrow> (Inr (), s')) (\<lambda>_.
            sbind (rx_policy_stage rx ck event) (\<lambda>_.
            sbind (rx_propagate rx event) (\<lambda>_.
            sbind (rx_log rx ''signal'' ''event_received'' (se_jti event) (se_issuer event) ''allowed'' '''') (\<lambda>_.
            rx_notify rx event)))))"

section \<open>Parsing\<close>

definition str_claim :: "claims \<Rightarrow> string \<Rightarrow> string" where
  "str_claim c k = (case get_str c k of None \<Rightarrow> '''' | Some s \<Rightarrow> s)"

text \<open>The \<open>aud\<close> claim, a string or an array of strings, as the library returns it.\<close>

definition claim_audience :: "claims \<Rightarrow> string list" where
  "claim_audience c =
     (case map_of c ''aud'' of
        Some (JStr s) \<Rightarrow> [s] | Some (JArr js) \<Rightarrow> strings_of js | _ \<Rightarrow> [])"

definition claim_unix :: "claims \<Rightarrow> string \<Rightarrow> int" where
  "claim_unix c k = (case get_num c k of None \<Rightarrow> unix_seconds 0 | Some r \<Rightarrow> \<lfloor>r\<rfloor>)"

definition event_of_claims :: "claims \<Rightarrow> security_event" where
  "event_of_claims token =
     \<lparr>se_issuer = str_claim token ''iss'', se_jti = str_claim token ''jti'',
      se_issued_at = claim_unix token ''iat'',
      se_audience = (case claim_audience token of [] \<Rightarrow> '''' | a # _ \<Rightarrow> a),
      se_subject_id =
        (case get_obj token ''sub_id'' of
           None \<Rightarrow> None
         | Some m \<Rightarrow> Some \<lparr>si_format = str_member m ''format'', si_spiffe_id = str_member m ''spiffe_id'',
                           si_email = str_member m ''email'', si_uri = str_member m ''uri''\<rparr>),
      se_events =
        (case get_obj token ''events'' of
           None \<Rightarrow> []
         | Some evs \<Rightarrow>
             map (\<lambda>(t, d). (t, case as_obj d of None \<Rightarrow> [] | Some m \<Rightarrow> m)) evs),
      se_transaction_id = str_claim token ''txn''\<rparr>"

definition verified_set_claims ::
  "('pubkey, 'key, 'alg) set_parser \<Rightarrow> 'pubkey receiver \<Rightarrow> string \<Rightarrow> receiver_error + claims" where
  "verified_set_claims P rx rawSET =
     (if rx_dev_mode rx then
        (case sp_parse_insecure P rawSET of None \<Rightarrow> Inl UnparsableSET | Some token \<Rightarrow> Inr token)
      else case rx_jwks rx of
        None \<Rightarrow> Inl NoJWKSResolver
      | Some resolve \<Rightarrow>
          case sp_parse_insecure P rawSET of
            None \<Rightarrow> Inl UnparsableSET
          | Some insecure \<Rightarrow>
              if str_claim insecure ''iss'' = '''' then Inl MissingIssuer
              else case sp_jws_parse P rawSET of
                None \<Rightarrow> Inl UnparsableSET
              | Some [] \<Rightarrow> Inl NoSETSignatures
              | Some ((kid, alg) # _) \<Rightarrow>
                  case resolve (str_claim insecure ''iss'') (case kid of None \<Rightarrow> '''' | Some k \<Rightarrow> k) of
                    Inl err \<Rightarrow> Inl (UnknownIssuer (str_claim insecure ''iss'') err)
                  | Inr pubKey \<Rightarrow>
                      case sp_import P pubKey of
                        None \<Rightarrow> Inl ImportingResolvedKey
                      | Some jwkKey \<Rightarrow>
                          case sp_parse P rawSET alg jwkKey of
                            None \<Rightarrow> Inl SETSignatureInvalid
                          | Some token \<Rightarrow> Inr token)"

definition parseSET ::
  "('pubkey, 'key, 'alg) set_parser \<Rightarrow> 'pubkey receiver \<Rightarrow> string \<Rightarrow> receiver_error + security_event" where
  "parseSET P rx rawSET = rbind (verified_set_claims P rx rawSET) (\<lambda>token. Inr (event_of_claims token))"

definition ReceiveSET ::
  "('pubkey, 'key, 'alg) set_parser \<Rightarrow> 'pubkey receiver \<Rightarrow> receive_clock \<Rightarrow> string
   \<Rightarrow> unit receive_stage" where
  "ReceiveSET P rx ck rawSET =
     (case parseSET P rx rawSET of
        Inl err \<Rightarrow> sfail err
      | Inr event \<Rightarrow> ReceiveEvent rx ck (Some event))"

section \<open>Duplicates\<close>

text \<open>The receiver's memory of JTIs is a replay guard for every non-empty JTI.\<close>

definition jti_invar :: "receiver_state \<Rightarrow> bool" where
  "jti_invar s \<longleftrightarrow> gomap_wf (rc_jti_seen s)"

definition jti_recorded :: "duration \<Rightarrow> receiver_state \<Rightarrow> string \<Rightarrow> go_time option" where
  "jti_recorded ttl s jti = map_option (\<lambda>x. x - ttl) (map_of (rc_jti_seen s) jti)"

lemma jti_invar_check: "jti_invar s \<Longrightarrow> jti_invar (snd (checkAndMarkJTI ttl now jti s))"
  by (auto simp: checkAndMarkJTI_def jti_invar_def Let_def)

lemma seen_after_check:
  assumes "jti_invar s" and "fst (checkAndMarkJTI ttl now jti s) = None" and "ttl \<noteq> 0" and "jti \<noteq> ''''"
    and "0 < ttl \<or> k \<noteq> jti"
  shows "map_of (rc_jti_seen (snd (checkAndMarkJTI ttl now jti s))) k =
    (if k = jti then Some (now + ttl)
     else case map_of (rc_jti_seen s) k of
            None \<Rightarrow> None
          | Some x \<Rightarrow> if jtiCleanupInterval \<le> rc_jti_writes s + 1 \<and> x < now then None else Some x)"
proof -
  have wf: "gomap_wf (AList.update jti (now + ttl) (rc_jti_seen s))"
    using assms(1) by (auto simp: jti_invar_def)
  show ?thesis
    using assms(2-5) map_of_filter [OF wf, of "\<lambda>k x. \<not> time_after now x" k]
    by (auto simp: checkAndMarkJTI_def Let_def gomap_simps time_add_def time_after_def
        split: option.splits if_splits)
qed

interpretation jtis: replay_guard "checkAndMarkJTI ttl" "jti_recorded ttl" "\<lambda>s. ttl - 1"
  "\<lambda>jti. jti \<noteq> '''' \<and> 0 < ttl" jti_invar for ttl
proof unfold_locales
  fix s t n t0
  show "jti_invar s \<Longrightarrow> jti_invar (snd (checkAndMarkJTI ttl t n s))" by (rule jti_invar_check)
  show "jti_recorded ttl (snd (checkAndMarkJTI ttl t n s)) n = Some t"
    if "jti_invar s" "n \<noteq> '''' \<and> 0 < ttl" "fst (checkAndMarkJTI ttl t n s) = None"
    using seen_after_check [OF that(1,3), of n] that(2) by (simp add: jti_recorded_def)
  show "fst (checkAndMarkJTI ttl t n s) \<noteq> None"
    if "n \<noteq> '''' \<and> 0 < ttl" "jti_recorded ttl s n = Some t0" "t - t0 \<le> ttl - 1"
    using that by (auto simp: jti_recorded_def checkAndMarkJTI_def)
  show "jti_recorded ttl (snd (checkAndMarkJTI ttl t m s)) n = Some t0"
    if inv: "jti_invar s" and rc: "jti_recorded ttl s n = Some t0" and w: "t - t0 \<le> ttl - 1" for m
  proof (cases "fst (checkAndMarkJTI ttl t m s) = None \<and> ttl \<noteq> 0 \<and> m \<noteq> ''''")
    case True
    from rc have seen: "map_of (rc_jti_seen s) n = Some (t0 + ttl)" by (auto simp: jti_recorded_def)
    have "n \<noteq> m"
      using seen w True by (auto simp: checkAndMarkJTI_def)
    with seen w show ?thesis
      using seen_after_check [OF inv, of ttl t m n] True by (simp add: jti_recorded_def)
  next
    case False
    then show ?thesis
      using rc w
      by (auto simp: checkAndMarkJTI_def jti_recorded_def Let_def split: if_splits option.splits)
  qed
qed simp

end
