(* ===== verification/Signals_Guarantees.thy ===== *)
theory Signals_Guarantees
  imports Receiver Exchange_Demo
begin

text \<open>
  The guarantees of the signal path: a SET survives signing and parsing, is processed once,
  revokes its subject in the index that the exchange engine asks, and is only posted to
  endpoints that passed the transport check.
\<close>

section \<open>Signing and parsing\<close>

lemma map_of_set_claims:
  assumes "set_claims S now event = Inr c"
  shows "map_of c ''iss'' = Some (JStr (se_issuer event))"
    "map_of c ''jti'' = Some (JStr (se_jti event))"
    "map_of c ''aud'' = Some (JArr [JStr (se_audience event)])"
    "map_of c ''iat'' = Some (JNum (of_int (unix_seconds now)))"
    "map_of c ''sub_id'' = map_option subject_json (se_subject_id event)"
    "map_of c ''events'' = Some (events_json (se_events event))"
    "map_of c ''txn'' = (if se_transaction_id event = '''' then None
                         else Some (JStr (se_transaction_id event)))"
  using assms
  by (auto simp: set_claims_def set_set_claim_def rbind_Inr_iff Let_def gomap_simps
      split: option.splits if_splits)

lemma subject_json_parse:
  "\<exists>m. subject_json sid = JObj m \<and> str_member m ''format'' = si_format sid
     \<and> str_member m ''spiffe_id'' = si_spiffe_id sid \<and> str_member m ''email'' = si_email sid
     \<and> str_member m ''uri'' = si_uri sid"
  by (simp add: subject_json_def str_member_def)

lemma event_of_set_claims:
  assumes "set_claims S now event = Inr c"
  shows "event_of_claims c = event\<lparr>se_issued_at := unix_seconds now\<rparr>"
proof -
  note claims = map_of_set_claims [OF assms]
  have evs: "map (\<lambda>(t, d). (t, case as_obj d of None \<Rightarrow> [] | Some m \<Rightarrow> m))
      (map (\<lambda>(t, cs). (t, JObj cs)) (se_events event)) = se_events event"
    by (induction "se_events event") (auto simp: comp_def case_prod_beta)
  have sub: "(case get_obj c ''sub_id'' of None \<Rightarrow> None
      | Some m \<Rightarrow> Some \<lparr>si_format = str_member m ''format'', si_spiffe_id = str_member m ''spiffe_id'',
                        si_email = str_member m ''email'', si_uri = str_member m ''uri''\<rparr>)
    = se_subject_id event"
  proof (cases "se_subject_id event")
    case None
    then show ?thesis by (simp add: get_obj_def claims)
  next
    case (Some sid)
    then show ?thesis using subject_json_parse [of sid] by (auto simp: get_obj_def claims)
  qed
  show ?thesis
    by (cases event) (use claims evs sub in \<open>simp add: event_of_claims_def str_claim_def get_str_def
        claim_unix_def get_num_def claim_audience_def get_obj_def events_json_def comp_def
        cong: option.case_cong\<close>)
qed

text \<open>
  C29. A SET survives the trip: what the transmitter signed, the receiver of a unit that
  trusts its key parses in production back to the same event (issuer, JTI, audience,
  subject, events, transaction), issued at the signing instant. The hypotheses are that
  the JWT library reads and verifies what it signed and that the resolver knows the key.
\<close>

theorem set_roundtrip:
  assumes "signSET S now tx event = Inr raw" and "se_issuer event \<noteq> ''''"
    and prod: "\<not> rx_dev_mode rx" "rx_jwks rx = Some resolve"
    and resolver: "resolve (se_issuer event) kid = Inr pub" "sp_import P pub = Some key"
    and reads: "\<And>c. sl_sign S (tm_sign_key tx) c = Some raw \<Longrightarrow> sp_parse_insecure P raw = Some c"
      "sp_jws_parse P raw = Some [(Some kid, alg)]"
    and verifies: "\<And>c. sl_sign S (tm_sign_key tx) c = Some raw \<Longrightarrow> sp_parse P raw alg key = Some c"
  shows "parseSET P rx raw = Inr (event\<lparr>se_issued_at := unix_seconds now\<rparr>)"
proof -
  from assms(1) obtain c where c: "set_claims S now event = Inr c"
    and raw: "sl_sign S (tm_sign_key tx) c = Some raw"
    by (auto simp: signSET_def rbind_Inr_iff split: option.splits)
  have "str_claim c ''iss'' = se_issuer event"
    by (simp add: str_claim_def get_str_def map_of_set_claims [OF c])
  then have "verified_set_claims P rx raw = Inr c"
    using assms(2) prod resolver reads(1) [OF raw] reads(2) verifies [OF raw]
    by (simp add: verified_set_claims_def)
  then show ?thesis by (simp add: parseSET_def event_of_set_claims [OF c])
qed

definition demo_event :: security_event where
  "demo_event = \<lparr>se_issuer = ''idp'', se_jti = ''j1'', se_issued_at = 0, se_audience = ''u1'',
     se_subject_id = Some \<lparr>si_format = ''uri'', si_spiffe_id = '''', si_email = '''', si_uri = ''w1''\<rparr>,
     se_events = [(EventSessionRevoked, [(''reason'', JStr ''admin'')])], se_transaction_id = ''''\<rparr>"

definition demo_tx :: "string transmitter" where
  "demo_tx = \<lparr>tm_sign_key = ''k'', tm_issuer = ''starfly'', tm_sync_bus = None, tm_auditor = True,
     tm_unit_id = ''u0''\<rparr>"

definition demo_event_claims :: claims where
  "demo_event_claims =
     [(''iss'', JStr ''idp''), (''aud'', JArr [JStr ''u1'']), (''iat'', JNum (-62135596800)),
      (''jti'', JStr ''j1''), (''sub_id'', JObj [(''format'', JStr ''uri''), (''uri'', JStr ''w1'')]),
      (''events'', JObj [(EventSessionRevoked, JObj [(''reason'', JStr ''admin'')])])]"

definition demo_sets :: "string set_lib" where
  "demo_sets = \<lparr>sl_build_ok = True, sl_set_ok = (\<lambda>k v. True),
     sl_sign = (\<lambda>k c. if c = demo_event_claims then Some ''SET'' else None)\<rparr>"

definition demo_parser :: "(string, string, string) set_parser" where
  "demo_parser = \<lparr>sp_parse_insecure = (\<lambda>r. if r = ''SET'' then Some demo_event_claims else None),
     sp_jws_parse = (\<lambda>r. Some [(Some ''k'', Some ''RS256'')]), sp_import = Some,
     sp_parse = (\<lambda>r a k. if r = ''SET'' then Some demo_event_claims else None)\<rparr>"

definition demo_rx :: "string receiver" where
  "demo_rx = (NewReceiver [])
     \<lparr>rx_jwks := Some (\<lambda>iss kid. if iss = ''idp'' then Inr kid else Inl ''unknown''),
      rx_policy := Some (\<lambda>i. Inr \<lparr>pd_allowed = True, pd_reason = '''',
                                  pd_claims = [(''revoke_tokens'', JBool True)]\<rparr>),
      rx_auditor := True, rx_revocation := True, rx_unit_id := ''u1''\<rparr>"

theorem set_roundtrip_witness:
  "parseSET demo_parser demo_rx ''SET'' = Inr (demo_event\<lparr>se_issued_at := unix_seconds 0\<rparr>)"
proof (rule set_roundtrip)
  show "signSET demo_sets 0 demo_tx demo_event = Inr ''SET''" by code_simp
  show "sp_jws_parse demo_parser ''SET'' = Some [(Some ''k'', Some ''RS256'')]"
    by (simp add: demo_parser_def)
  show "rx_jwks demo_rx = Some (\<lambda>iss kid. if iss = ''idp'' then Inr kid else Inl ''unknown'')"
    by (simp add: demo_rx_def)
qed (auto simp: demo_event_def demo_rx_def NewReceiver_def demo_parser_def demo_sets_def
    split: if_splits)

section \<open>Each SET once\<close>

definition jti_memory :: "receiver_state \<Rightarrow> (string, go_time) gomap \<times> int" where
  "jti_memory s = (rc_jti_seen s, rc_jti_writes s)"

lemma check_memory_cong:
  assumes "jti_memory s = jti_memory t"
  shows "fst (checkAndMarkJTI ttl now j s) = fst (checkAndMarkJTI ttl now j t)"
    "jti_memory (snd (checkAndMarkJTI ttl now j s)) = jti_memory (snd (checkAndMarkJTI ttl now j t))"
  using assms by (auto simp: checkAndMarkJTI_def jti_memory_def Let_def split: option.splits)

lemma accepted_memory_cong:
  "jti_memory s = jti_memory t \<Longrightarrow> jtis.accepted ttl s es = jtis.accepted ttl t es"
proof (induction es arbitrary: s t)
  case Nil
  then show ?case by simp
next
  case (Cons p es)
  obtain u j where p: "p = (u, j)" by (cases p)
  note same = check_memory_cong [OF Cons.prems, of ttl u j]
  show ?case by (simp add: p same(1) Cons.IH [OF same(2)])
qed

lemma keeps_memory [keeps_rules]:
  "keeps jti_memory (rx_log rx ty act sub tgt dec rsn)" "keeps jti_memory (rx_propagate rx event)"
  "keeps jti_memory (rx_notify rx event)"
  by (auto simp: rx_log_def rx_propagate_def rx_notify_def jti_memory_def
      intro!: keeps_rules keeps_smodify split: option.split list.split)

lemma keeps_memory_revocation [keeps_rules]: "keeps jti_memory (handleRevocation rx ck event)"
  by (auto simp: handleRevocation_def Let_def rx_log_def jti_memory_def stage_simps
      intro!: keepsI keeps_rules split: prod.split option.split)

lemma keeps_memory_policy [keeps_rules]: "keeps jti_memory (rx_policy_stage rx ck event)"
  by (auto simp: rx_policy_stage_def intro!: keeps_rules split: option.split sum.split)

lemma ReceiveEvent_memory:
  assumes "se_events event \<noteq> []"
  shows "jti_memory (snd (ReceiveEvent rx ck (Some event) s)) =
    jti_memory (snd (checkAndMarkJTI (rx_jti_ttl rx) (ck_jti ck) (se_jti event) s))"
proof -
  let ?rest = "sbind (rx_policy_stage rx ck event) (\<lambda>_. sbind (rx_propagate rx event) (\<lambda>_.
    sbind (rx_log rx ''signal'' ''event_received'' (se_jti event) (se_issuer event) ''allowed'' '''')
      (\<lambda>_. rx_notify rx event)))"
  let ?m = "\<lambda>s. case checkAndMarkJTI (rx_jti_ttl rx) (ck_jti ck) (se_jti event) s of
    (Some err, s') \<Rightarrow> (Inl err, s') | (None, s') \<Rightarrow> (Inr (), s')"
  have "keeps jti_memory ?rest" by (intro keeps_rules)
  then have "jti_memory (snd (sbind ?m (\<lambda>_. ?rest) s)) = jti_memory (snd (?m s))"
    by (rule snd_sbind_keeps)
  with assms show ?thesis
    by (simp add: ReceiveEvent_def split: prod.splits option.splits)
qed

lemma ReceiveEvent_accepted:
  "fst (ReceiveEvent rx ck (Some event) s) = Inr () \<Longrightarrow>
   se_events event \<noteq> [] \<and> fst (checkAndMarkJTI (rx_jti_ttl rx) (ck_jti ck) (se_jti event) s) = None"
  by (auto simp: ReceiveEvent_def fst_sbind_Inr_iff stage_simps split: if_splits prod.splits
      option.splits)

text \<open>The events that a receiver accepts from a sequence of SETs: instant and JTI.\<close>

fun received ::
  "'pubkey receiver \<Rightarrow> receiver_state \<Rightarrow> (receive_clock \<times> security_event) list
   \<Rightarrow> (go_time \<times> string) list" where
  "received rx s [] = []"
| "received rx s ((ck, event) # calls) =
     (if fst (ReceiveEvent rx ck (Some event) s) = Inr () then [(ck_jti ck, se_jti event)] else [])
     @ received rx (snd (ReceiveEvent rx ck (Some event) s)) calls"

lemma received_accepted:
  "sorted (map (\<lambda>(ck, _). ck_jti ck) calls) \<Longrightarrow>
   \<exists>es. sorted (map fst es) \<and> set (map fst es) \<subseteq> set (map (\<lambda>(ck, _). ck_jti ck) calls)
     \<and> subseq (received rx s calls) (jtis.accepted (rx_jti_ttl rx) s es)"
proof (induction calls arbitrary: s)
  case Nil
  show ?case by (intro exI [of _ "[]"]) simp
next
  case (Cons call calls)
  obtain ck event where call: "call = (ck, event)" by (cases call)
  let ?s = "snd (ReceiveEvent rx ck (Some event) s)" and ?t = "ck_jti ck"
  from Cons obtain es where es: "sorted (map fst es)"
    "set (map fst es) \<subseteq> set (map (\<lambda>(ck, _). ck_jti ck) calls)"
    "subseq (received rx ?s calls) (jtis.accepted (rx_jti_ttl rx) ?s es)" by fastforce
  have "\<forall>t \<in> set (map (\<lambda>(ck, _). ck_jti ck) calls). ?t \<le> t" using Cons.prems call by simp
  with es(2) have later: "\<forall>t \<in> set (map fst es). ?t \<le> t" by blast
  show ?case
  proof (cases "se_events event = []")
    case True
    then have "ReceiveEvent rx ck (Some event) s = (Inl NoEventsInSET, s)"
      by (simp add: ReceiveEvent_def stage_simps)
    with es call show ?thesis by (intro exI [of _ es]) auto
  next
    case False
    let ?c = "snd (checkAndMarkJTI (rx_jti_ttl rx) ?t (se_jti event) s)"
    have "jtis.accepted (rx_jti_ttl rx) ?s es = jtis.accepted (rx_jti_ttl rx) ?c es"
      by (rule accepted_memory_cong) (rule ReceiveEvent_memory [OF False])
    with es(3) have sub: "subseq (received rx ?s calls) (jtis.accepted (rx_jti_ttl rx) ?c es)"
      by simp
    have head: "subseq (received rx s (call # calls))
        (jtis.accepted (rx_jti_ttl rx) s ((?t, se_jti event) # es))"
      using sub ReceiveEvent_accepted [of rx ck event s] call
      by (auto simp: jtis.accepted.simps)
    show ?thesis
      using head es(1,2) later call by (intro exI [of _ "(?t, se_jti event) # es"]) auto
  qed
qed

text \<open>
  A SET is processed once per dedup window: whatever SETs arrive, in the order of the
  clock, two accepted events with the same non-empty JTI are at least the configured
  lifetime apart.
\<close>

theorem sets_processed_once:
  assumes "jti_invar s" and "0 < rx_jti_ttl rx" and "sorted (map (\<lambda>(ck, _). ck_jti ck) calls)"
  shows "sorted_wrt (\<lambda>a b. snd a \<noteq> '''' \<and> snd a = snd b \<longrightarrow> rx_jti_ttl rx \<le> fst b - fst a)
    (received rx s calls)"
proof -
  from received_accepted [OF assms(3), of rx s] obtain es where
    es: "sorted (map fst es)" "subseq (received rx s calls) (jtis.accepted (rx_jti_ttl rx) s es)"
    by blast
  have "sorted_wrt (\<lambda>a b. snd a \<noteq> '''' \<and> snd a = snd b \<longrightarrow> rx_jti_ttl rx \<le> fst b - fst a)
      (jtis.accepted (rx_jti_ttl rx) s es)"
    using jtis.accepted_no_replay [OF assms(1) es(1), of "rx_jti_ttl rx"] assms(2)
    by (auto elim: sorted_wrt_mono_rel [rotated])
  with es(2) show ?thesis by (rule sorted_wrt_subseq)
qed

definition demo_rx_state :: receiver_state where
  "demo_rx_state = \<lparr>rc_jti_seen = [], rc_jti_writes = 0, rc_index = NewRevocationIndex, rc_audit = [],
     rc_signals = [], rc_notified = []\<rparr>"

definition demo_clock :: "go_time \<Rightarrow> receive_clock" where
  "demo_clock t = \<lparr>ck_jti = t, ck_policy = t, ck_expiry = t, ck_revoke = t\<rparr>"

theorem sets_processed_once_witness:
  "received demo_rx demo_rx_state [(demo_clock 5, demo_event), (demo_clock 9, demo_event)] = [(5, ''j1'')]
   \<and> sorted_wrt (\<lambda>a b. snd a \<noteq> '''' \<and> snd a = snd b \<longrightarrow> rx_jti_ttl demo_rx \<le> fst b - fst a)
       (received demo_rx demo_rx_state [(demo_clock 5, demo_event), (demo_clock 9, demo_event)])"
proof
  show "received demo_rx demo_rx_state [(demo_clock 5, demo_event), (demo_clock 9, demo_event)] =
    [(5, ''j1'')]" by code_simp
  show "sorted_wrt (\<lambda>a b. snd a \<noteq> '''' \<and> snd a = snd b \<longrightarrow> rx_jti_ttl demo_rx \<le> fst b - fst a)
       (received demo_rx demo_rx_state [(demo_clock 5, demo_event), (demo_clock 9, demo_event)])"
    by (rule sets_processed_once) (simp_all add: jti_invar_def demo_rx_state_def demo_rx_def
        NewReceiver_def defaultJTITTL_def go_minute_def go_second_def demo_clock_def)
qed

text \<open>
  A SET whose policy evaluation fails is lost: its JTI is recorded before the policy is
  asked, so a redelivery within the window is refused as a duplicate, even when the policy
  works again and would have revoked the subject.
\<close>

theorem policy_failure_loses_set:
  assumes "se_events event \<noteq> []" and "se_jti event \<noteq> ''''" and "0 < rx_jti_ttl rx"
    and "map_of (rc_jti_seen s) (se_jti event) = None" and "jti_invar s"
    and "rx_policy rx = Some evaluate"
    and "evaluate (signal_policy_input (ck_policy ck) event) = Inl err"
    and "ck_jti ck' - ck_jti ck < rx_jti_ttl rx" and "rx_jti_ttl rx' = rx_jti_ttl rx"
  shows "\<exists>s1. ReceiveEvent rx ck (Some event) s = (Inl (SignalPolicyError err), s1)
    \<and> rc_index s1 = rc_index s
    \<and> ReceiveEvent rx' ck' (Some event) s1 = (Inl (DuplicateJTI (se_jti event)), s1)"
proof -
  obtain s1 where ok: "checkAndMarkJTI (rx_jti_ttl rx) (ck_jti ck) (se_jti event) s = (None, s1)"
    and idx: "rc_index s1 = rc_index s"
    using assms(2-4) by (auto simp: checkAndMarkJTI_def Let_def)
  have seen: "map_of (rc_jti_seen s1) (se_jti event) = Some (ck_jti ck + rx_jti_ttl rx)"
    using seen_after_check [OF assms(5), where ttl = "rx_jti_ttl rx" and now = "ck_jti ck"
        and jti = "se_jti event" and k = "se_jti event"] ok assms(2,3)
    by simp
  have "ReceiveEvent rx ck (Some event) s = (Inl (SignalPolicyError err), s1)"
    using ok assms(1,6,7) by (simp add: ReceiveEvent_def sbind_def rx_policy_stage_def stage_simps)
  moreover have "ReceiveEvent rx' ck' (Some event) s1 = (Inl (DuplicateJTI (se_jti event)), s1)"
  proof -
    have "checkAndMarkJTI (rx_jti_ttl rx') (ck_jti ck') (se_jti event) s1 =
        (Some (DuplicateJTI (se_jti event)), s1)"
      using seen assms(2,3,8,9) by (simp add: checkAndMarkJTI_def [of _ "ck_jti ck'"])
    then show ?thesis using assms(1) by (simp add: ReceiveEvent_def sbind_def)
  qed
  ultimately show ?thesis using idx by blast
qed

theorem policy_failure_loses_set_witness:
  "\<exists>s1. ReceiveEvent (demo_rx\<lparr>rx_policy := Some (\<lambda>i. Inl ''down'')\<rparr>) (demo_clock 5) (Some demo_event)
       demo_rx_state = (Inl (SignalPolicyError ''down''), s1)
     \<and> ReceiveEvent demo_rx (demo_clock 9) (Some demo_event) s1 = (Inl (DuplicateJTI ''j1''), s1)"
  using policy_failure_loses_set [of demo_event "demo_rx\<lparr>rx_policy := Some (\<lambda>i. Inl ''down'')\<rparr>"
      demo_rx_state "\<lambda>i. Inl ''down''" "demo_clock 5" "''down''" "demo_clock 9" demo_rx]
  by (auto simp: demo_event_def demo_rx_def NewReceiver_def demo_rx_state_def jti_invar_def
      demo_clock_def defaultJTITTL_def go_minute_def go_second_def)

section \<open>From a SET to a refused exchange\<close>

lemma check_index: "rc_index (snd (checkAndMarkJTI ttl now j s)) = rc_index s"
  by (auto simp: checkAndMarkJTI_def Let_def)

lemma keeps_index [keeps_rules]:
  "keeps rc_index (rx_log rx ty act sub tgt dec rsn)" "keeps rc_index (rx_propagate rx event)"
  "keeps rc_index (rx_notify rx event)"
  by (auto simp: rx_log_def rx_propagate_def rx_notify_def intro!: keeps_rules keeps_smodify
      split: option.split list.split)

lemma handleRevocation_index:
  "rx_revocation rx \<Longrightarrow> spiffe_or_uri '''' event \<noteq> '''' \<Longrightarrow>
   rc_index (snd (handleRevocation rx ck event s)) =
     snd (Revoke (ck_revoke ck) (spiffe_or_uri '''' event)
       (case se_events event of [] \<Rightarrow> ''caep-event'' | (t, _) # _ \<Rightarrow> t)
       (ck_expiry ck + rx_revocation_grace rx) (rc_index s))"
  by (auto simp: handleRevocation_def Let_def Revoke_def rx_log_def stage_simps time_add_def
      split: list.split)

lemma ReceiveEvent_index:
  assumes "fst (ReceiveEvent rx ck (Some event) s) = Inr ()"
  shows "rc_index (snd (ReceiveEvent rx ck (Some event) s)) =
    rc_index (snd (rx_policy_stage rx ck event
      (snd (checkAndMarkJTI (rx_jti_ttl rx) (ck_jti ck) (se_jti event) s))))"
proof -
  let ?rest = "\<lambda>_. sbind (rx_propagate rx event) (\<lambda>_.
    sbind (rx_log rx ''signal'' ''event_received'' (se_jti event) (se_issuer event) ''allowed'' '''')
      (\<lambda>_. rx_notify rx event))"
  from ReceiveEvent_accepted [OF assms] obtain s1 where evs: "se_events event \<noteq> []"
    and ok: "checkAndMarkJTI (rx_jti_ttl rx) (ck_jti ck) (se_jti event) s = (None, s1)"
    by (metis prod.collapse)
  have "keeps rc_index (?rest a)" for a :: unit by (intro keeps_rules)
  then have "rc_index (snd (sbind (rx_policy_stage rx ck event) ?rest s1)) =
      rc_index (snd (rx_policy_stage rx ck event s1))"
    by (rule snd_sbind_keeps)
  moreover have "ReceiveEvent rx ck (Some event) s = sbind (rx_policy_stage rx ck event) ?rest s1"
    using evs ok by (simp add: ReceiveEvent_def) (subst sbind_apply, simp)
  ultimately show ?thesis using ok by simp
qed

section \<open>Streams\<close>

text \<open>Every stream is filed under its id and its endpoint passed the transport check.\<close>

definition streams_ok ::
  "(string \<Rightarrow> (string \<times> string) option) \<Rightarrow> transmitter_state \<Rightarrow> bool" where
  "streams_ok url_parse s \<longleftrightarrow>
     gomap_wf (tx_streams s)
     \<and> (\<forall>(k, st) \<in> set (tx_streams s). st_id (sm_stream st) = k
          \<and> endpoint_error url_parse (sc_endpoint_url (sm_config st)) = None)
     \<and> (\<forall>(url, _) \<in> set (tx_posts s). url \<noteq> '''' \<and> endpoint_error url_parse url = None)"

lemma tx_log_streams [simp]:
  "tx_streams (snd (tx_log tx a b c d s)) = tx_streams s"
  "tx_posts (snd (tx_log tx a b c d s)) = tx_posts s"
  by (simp_all add: tx_log_def stage_simps)

text \<open>
  Events leave the unit only towards checked endpoints: creating, deleting and
  transmitting keep the invariant that every stream's endpoint, and every endpoint that a
  SET was posted to, is HTTPS or on the local host.
\<close>

theorem posts_to_checked_endpoints:
  assumes "streams_ok url_parse s"
  shows "streams_ok url_parse (snd (CreateStream url_parse bytes now tx cfg s))
    \<and> streams_ok url_parse (snd (DeleteStream tx id' s))
    \<and> streams_ok url_parse (snd (TransmitEvent S bytes now now' tx event s))"
proof (intro conjI)
  show "streams_ok url_parse (snd (CreateStream url_parse bytes now tx cfg s))"
    using assms set_update_subset
    by (fastforce simp: streams_ok_def CreateStream_def Let_def sbind_def stage_simps tx_log_def
        split: option.split)
  show "streams_ok url_parse (snd (DeleteStream tx id' s))"
    using assms set_delete_subset
    by (fastforce simp: streams_ok_def DeleteStream_def split: option.split)
  have "url \<noteq> '''' \<and> endpoint_error url_parse url = None"
    if "(url, x) \<in> set (map (\<lambda>st. (sc_endpoint_url (sm_config st), y)) (push_targets s))" for url x y
    using that assms by (auto simp: push_targets_def streams_ok_def)
  then show "streams_ok url_parse (snd (TransmitEvent S bytes now now' tx event s))"
    using assms
    by (fastforce simp: streams_ok_def TransmitEvent_def Let_def sbind_def stage_simps tx_log_def
        split: sum.split option.split)
qed

definition demo_stream_config :: "string \<Rightarrow> stream_config" where
  "demo_stream_config delivery_method = \<lparr>sc_issuer = ''i'', sc_audience = ''rx'',
     sc_events_requested = [EventSessionRevoked], sc_events_delivered = [],
     sc_delivery_method = delivery_method, sc_endpoint_url = ''https://rx''\<rparr>"

definition demo_url_parse :: "string \<Rightarrow> (string \<times> string) option" where
  "demo_url_parse u = (if u = ''https://rx'' then Some (''https'', ''rx'') else None)"

definition demo_tx_state :: transmitter_state where
  "demo_tx_state = \<lparr>tx_streams = [], tx_audit = [], tx_signals = [], tx_posts = []\<rparr>"

theorem posts_to_checked_endpoints_witness:
  "streams_ok demo_url_parse
     (snd (CreateStream demo_url_parse ''xy'' 1 demo_tx (demo_stream_config ''push'') demo_tx_state))"
proof -
  have "streams_ok demo_url_parse demo_tx_state"
    by (simp add: streams_ok_def demo_tx_state_def)
  then show ?thesis by (rule posts_to_checked_endpoints [THEN conjunct1])
qed

text \<open>
  Subscriptions are not honoured, and neither is the delivery method's own name: an event
  is posted to a stream that asked only for other event types, and a stream configured with
  the push delivery method of the SSF specification, the constant \<open>DeliveryPush\<close>, never
  receives anything.
\<close>

theorem subscriptions_ignored:
  "let event = demo_event\<lparr>se_events := [(EventTokenClaimsChange, [])]\<rparr>;
       lib = demo_sets\<lparr>sl_sign := (\<lambda>k c. Some ''SET'')\<rparr>;
       run = (\<lambda>delivery_method. snd (TransmitEvent lib ''z'' 1 1 demo_tx event
                (snd (CreateStream demo_url_parse ''xy'' 1 demo_tx
                        (demo_stream_config delivery_method) demo_tx_state))))
   in EventTokenClaimsChange \<notin> set (sc_events_requested (demo_stream_config ''push''))
      \<and> tx_posts (run ''push'') = [(''https://rx'', ''SET'', ''j1'')]
      \<and> tx_posts (run DeliveryPush) = []"
  by code_simp

end
