(* ===== verification/Audit_Ledger.thy ===== *)
theory Audit_Ledger
  imports Core_Types
begin

text \<open>
  \<open>src/pkg/audit\<close>: the hash-chained ledger of execution context tokens (\<open>ledger.go\<close>) and the
  HMAC-signing audit logger (\<open>signing.go\<close>), with the plain logger (\<open>logger.go\<close>). JSON
  encoding, SHA-256 and HMAC are parameters; hexadecimal encoding is modelled. The buffered
  writer is the list of values written to it; \<open>Close\<close> only flushes it.
\<close>

section \<open>The ledger\<close>

record ect_entry =
  le_sequence :: "64 word"
  le_jti :: string
  le_prev_hash :: string
  le_ect_token :: string
  le_issuer :: string
  le_subject :: string
  le_tool_id :: string
  le_exec_act :: string
  le_workflow_id :: string
  le_recorded_at :: go_time

record ect_ledger =
  lg_entries :: "ect_entry list"
  lg_index :: "(string, nat) gomap"
  lg_last_hash :: string
  lg_seq :: "64 word"

datatype ledger_error =
    DuplicateJti string
  | HashFailed
  | SequenceGap nat "64 word" "64 word"
  | ChainBroken "64 word" string string
  | HashFailedAt "64 word"

record entry_hash =
  eh_marshal :: "ect_entry \<Rightarrow> string option"
  eh_sha256_hex :: "string \<Rightarrow> string"

definition NewECTLedger :: ect_ledger where
  "NewECTLedger = \<lparr>lg_entries = [], lg_index = [], lg_last_hash = '''', lg_seq = 0\<rparr>"

definition hashEntry :: "entry_hash \<Rightarrow> ect_entry \<Rightarrow> string option" where
  "hashEntry H entry = map_option (eh_sha256_hex H) (eh_marshal H entry)"

text \<open>
  The entry that \<open>Append\<close> stores: the caller's, with sequence number, link and timestamp
  filled in.
\<close>

definition chained_entry :: "go_time \<Rightarrow> ect_entry \<Rightarrow> ect_ledger \<Rightarrow> ect_entry" where
  "chained_entry now entry l =
     entry\<lparr>le_sequence := lg_seq l + 1, le_prev_hash := lg_last_hash l,
           le_recorded_at := (if time_is_zero (le_recorded_at entry) then now
                              else le_recorded_at entry)\<rparr>"

definition Ledger_Append ::
  "entry_hash \<Rightarrow> go_time \<Rightarrow> ect_entry \<Rightarrow> ect_ledger \<Rightarrow> (ledger_error + 64 word) \<times> ect_ledger" where
  "Ledger_Append H now entry l =
     (if map_of (lg_index l) (le_jti entry) \<noteq> None then (Inl (DuplicateJti (le_jti entry)), l)
      else
        let e = chained_entry now entry l;
            l1 = l\<lparr>lg_seq := lg_seq l + 1\<rparr>
        in case hashEntry H e of
             None \<Rightarrow> (Inl HashFailed, l1\<lparr>lg_seq := lg_seq l1 - 1\<rparr>)
           | Some h \<Rightarrow>
               (Inr (le_sequence e),
                l1\<lparr>lg_last_hash := h,
                   lg_index := AList.update (le_jti e) (length (lg_entries l)) (lg_index l),
                   lg_entries := lg_entries l @ [e]\<rparr>))"

text \<open>
  \<open>Lookup\<close>: an index outside the slice would panic in the source; the invariant below
  excludes it, and the model answers \<open>None\<close> there.
\<close>

definition Ledger_Lookup :: "ect_ledger \<Rightarrow> string \<Rightarrow> ect_entry option" where
  "Ledger_Lookup l jti =
     (case map_of (lg_index l) jti of
        None \<Rightarrow> None
      | Some i \<Rightarrow> if i < length (lg_entries l) then Some (lg_entries l ! i) else None)"

definition Ledger_Len :: "ect_ledger \<Rightarrow> nat" where
  "Ledger_Len l = length (lg_entries l)"

definition Ledger_LastSequence :: "ect_ledger \<Rightarrow> 64 word" where
  "Ledger_LastSequence l = lg_seq l"

definition Ledger_Entries :: "ect_ledger \<Rightarrow> ect_entry list" where
  "Ledger_Entries l = lg_entries l"

fun verify_from :: "entry_hash \<Rightarrow> nat \<Rightarrow> string \<Rightarrow> ect_entry list \<Rightarrow> ledger_error option" where
  "verify_from H i prevHash [] = None"
| "verify_from H i prevHash (e # es) =
     (if le_sequence e \<noteq> of_nat (i + 1)
      then Some (SequenceGap i (le_sequence e) (of_nat (i + 1)))
      else if le_prev_hash e \<noteq> prevHash
      then Some (ChainBroken (le_sequence e) (le_prev_hash e) prevHash)
      else case hashEntry H e of
             None \<Rightarrow> Some (HashFailedAt (le_sequence e))
           | Some h \<Rightarrow> verify_from H (i + 1) h es)"

definition Ledger_Verify :: "entry_hash \<Rightarrow> ect_ledger \<Rightarrow> ledger_error option" where
  "Ledger_Verify H l = verify_from H 0 '''' (lg_entries l)"

section \<open>The ledger's invariant\<close>

text \<open>The hash that the next entry has to carry.\<close>

fun chain_tip :: "entry_hash \<Rightarrow> string \<Rightarrow> ect_entry list \<Rightarrow> string" where
  "chain_tip H h [] = h"
| "chain_tip H h (e # es) =
     chain_tip H (case hashEntry H e of None \<Rightarrow> '''' | Some h' \<Rightarrow> h') es"

definition ledger_ok :: "entry_hash \<Rightarrow> ect_ledger \<Rightarrow> bool" where
  "ledger_ok H l \<longleftrightarrow>
     Ledger_Verify H l = None
     \<and> lg_seq l = of_nat (length (lg_entries l))
     \<and> lg_last_hash l = chain_tip H '''' (lg_entries l)
     \<and> (\<forall>j i. map_of (lg_index l) j = Some i \<longleftrightarrow>
          i < length (lg_entries l) \<and> le_jti (lg_entries l ! i) = j)"

lemma verify_from_append:
  "verify_from H i p (es @ fs) = None \<longleftrightarrow>
     verify_from H i p es = None
     \<and> verify_from H (i + length es) (chain_tip H p es) fs = None"
  by (induction H i p es rule: verify_from.induct) (auto split: option.splits)

lemma verify_from_snoc:
  "verify_from H i p (es @ [e]) = None \<longleftrightarrow>
     verify_from H i p es = None \<and> le_sequence e = of_nat (i + length es + 1)
     \<and> le_prev_hash e = chain_tip H p es \<and> hashEntry H e \<noteq> None"
  unfolding verify_from_append by (auto split: option.splits)

lemma chain_tip_append: "chain_tip H h (es @ fs) = chain_tip H (chain_tip H h es) fs"
  by (induction es arbitrary: h) auto

lemma ledger_ok_New: "ledger_ok H NewECTLedger"
  by (simp add: ledger_ok_def NewECTLedger_def Ledger_Verify_def)

lemma Append_cases:
  obtains (duplicate) "map_of (lg_index l) (le_jti entry) \<noteq> None"
      "Ledger_Append H now entry l = (Inl (DuplicateJti (le_jti entry)), l)"
  | (unhashed) "map_of (lg_index l) (le_jti entry) = None"
      "Ledger_Append H now entry l = (Inl HashFailed, l)"
  | (appended) h where "map_of (lg_index l) (le_jti entry) = None"
      "hashEntry H (chained_entry now entry l) = Some h"
      "Ledger_Append H now entry l =
        (Inr (lg_seq l + 1),
         \<lparr>lg_entries = lg_entries l @ [chained_entry now entry l],
          lg_index = AList.update (le_jti entry) (length (lg_entries l)) (lg_index l),
          lg_last_hash = h, lg_seq = lg_seq l + 1\<rparr>)"
proof (cases "map_of (lg_index l) (le_jti entry)")
  case None
  show thesis
  proof (cases "hashEntry H (chained_entry now entry l)")
    assume "hashEntry H (chained_entry now entry l) = None"
    then show thesis using None by (intro unhashed) (simp_all add: Ledger_Append_def Let_def)
  next
    fix h
    assume h: "hashEntry H (chained_entry now entry l) = Some h"
    then have "Ledger_Append H now entry l =
        (Inr (lg_seq l + 1),
         \<lparr>lg_entries = lg_entries l @ [chained_entry now entry l],
          lg_index = AList.update (le_jti entry) (length (lg_entries l)) (lg_index l),
          lg_last_hash = h, lg_seq = lg_seq l + 1\<rparr>)"
      using None by (cases l) (simp add: Ledger_Append_def Let_def chained_entry_def)
    with None h show thesis by (rule appended)
  qed
next
  case (Some i)
  then show thesis by (intro duplicate) (simp_all add: Ledger_Append_def)
qed

lemma ledger_ok_Append:
  assumes "ledger_ok H l"
  shows "ledger_ok H (snd (Ledger_Append H now entry l))"
proof (cases rule: Append_cases [where l = l and entry = entry and H = H and now = now])
  case duplicate
  with assms show ?thesis by simp
next
  case unhashed
  with assms show ?thesis by simp
next
  case (appended h)
  let ?e = "chained_entry now entry l"
  have e: "le_sequence ?e = lg_seq l + 1" "le_prev_hash ?e = lg_last_hash l"
    "le_jti ?e = le_jti entry" by (simp_all add: chained_entry_def)
  have idx: "map_of (lg_index l) j = Some i \<longleftrightarrow>
      i < length (lg_entries l) \<and> le_jti (lg_entries l ! i) = j" for i j
    using assms by (simp add: ledger_ok_def)
  have fresh: "le_jti (lg_entries l ! i) \<noteq> le_jti entry" if "i < length (lg_entries l)" for i
    using idx [of "le_jti entry" i] appended(1) that by auto
  show ?thesis
    unfolding ledger_ok_def
  proof (intro conjI allI)
    show "Ledger_Verify H (snd (Ledger_Append H now entry l)) = None"
      using assms appended e by (simp add: Ledger_Verify_def ledger_ok_def verify_from_snoc)
    show "map_of (lg_index (snd (Ledger_Append H now entry l))) j = Some i \<longleftrightarrow>
      i < length (lg_entries (snd (Ledger_Append H now entry l)))
      \<and> le_jti (lg_entries (snd (Ledger_Append H now entry l)) ! i) = j" for j i
      using idx [of j i] fresh [of i] appended(3) e(3)
      by (auto simp: gomap_simps nth_append less_Suc_eq)
  qed (use assms appended in \<open>simp_all add: ledger_ok_def chain_tip_append\<close>)
qed

section \<open>Tampering\<close>

text \<open>
  Two chains that verify and whose last entries are linked alike agree on everything before
  the last entry, provided that different entries have different hashes.
\<close>

definition hash_injective :: "entry_hash \<Rightarrow> bool" where
  "hash_injective H \<longleftrightarrow> (\<forall>a b h. hashEntry H a = Some h \<longrightarrow> hashEntry H b = Some h \<longrightarrow> a = b)"

lemma verify_from_hashes:
  "verify_from H i p es = None \<Longrightarrow> e \<in> set es \<Longrightarrow> hashEntry H e \<noteq> None"
  by (induction H i p es rule: verify_from.induct) (auto split: if_splits option.splits)

lemma verified_prefix_unique:
  assumes "hash_injective H"
  shows "verify_from H i p (es @ [e]) = None \<Longrightarrow> verify_from H i p (fs @ [f]) = None \<Longrightarrow>
    length es = length fs \<Longrightarrow> le_prev_hash e = le_prev_hash f \<Longrightarrow> es = fs"
proof (induction es arbitrary: e f fs rule: rev_induct)
  case Nil
  then show ?case by simp
next
  case (snoc x xs)
  then obtain ys y where fs: "fs = ys @ [y]" "length xs = length ys"
    by (cases fs rule: rev_cases) auto
  have vx: "verify_from H i p (xs @ [x]) = None" and vy: "verify_from H i p (ys @ [y]) = None"
    using snoc.prems(1,2) unfolding fs(1) by (simp_all only: verify_from_snoc [of H i p "_ @ [_]"])
  obtain hx hy where hx: "hashEntry H x = Some hx" and hy: "hashEntry H y = Some hy"
    using verify_from_hashes [OF vx, of x] verify_from_hashes [OF vy, of y] by auto
  have "le_prev_hash e = hx" "le_prev_hash f = hy"
    using snoc.prems(1,2) hx hy unfolding fs(1)
    by (simp_all add: verify_from_snoc chain_tip_append del: append_assoc)
  with snoc.prems(4) hx hy assms have "x = y" by (auto simp: hash_injective_def)
  moreover have "xs = ys"
    by (rule snoc.IH [OF vx vy fs(2)]) (simp add: \<open>x = y\<close>)
  ultimately show ?case by (simp add: fs(1))
qed

section \<open>Signed audit events\<close>

record audit_codec =
  ac_marshal :: "audit_event \<Rightarrow> string option"
  ac_hmac_sha256 :: "string \<Rightarrow> string \<Rightarrow> string"

record signed_audit_event =
  sae_event :: audit_event
  sae_signature :: string

datatype audit_error = MarshalForSigning | EncodeFailed | MarshalForVerify | DecodeSignature | Tampered

definition stamped :: "go_time \<Rightarrow> audit_event \<Rightarrow> audit_event" where
  "stamped now event =
     (if time_is_zero (au_timestamp event) then event\<lparr>au_timestamp := now\<rparr> else event)"

text \<open>\<open>enc.Encode\<close> fails when the event has no JSON form or, by \<open>io_ok\<close>, when writing fails.\<close>

definition Logger_Log ::
  "audit_codec \<Rightarrow> bool \<Rightarrow> go_time \<Rightarrow> audit_event \<Rightarrow> audit_event list
   \<Rightarrow> audit_error option \<times> audit_event list" where
  "Logger_Log C io_ok now event out =
     (let e = stamped now event
      in if ac_marshal C e = None \<or> \<not> io_ok then (Some EncodeFailed, out) else (None, out @ [e]))"

definition computeHMAC :: "audit_codec \<Rightarrow> string \<Rightarrow> string \<Rightarrow> string" where
  "computeHMAC C data key = ac_hmac_sha256 C data key"

definition SigningLogger_Log ::
  "audit_codec \<Rightarrow> string \<Rightarrow> bool \<Rightarrow> go_time \<Rightarrow> audit_event \<Rightarrow> signed_audit_event list
   \<Rightarrow> audit_error option \<times> signed_audit_event list" where
  "SigningLogger_Log C key io_ok now event out =
     (let e = stamped now event
      in case ac_marshal C e of
           None \<Rightarrow> (Some MarshalForSigning, out)
         | Some eventJSON \<Rightarrow>
             let sae = \<lparr>sae_event = e, sae_signature = hex_encode (computeHMAC C eventJSON key)\<rparr>
             in if \<not> io_ok then (Some EncodeFailed, out) else (None, out @ [sae]))"

definition VerifySignedEvent ::
  "audit_codec \<Rightarrow> signed_audit_event \<Rightarrow> string \<Rightarrow> audit_error option" where
  "VerifySignedEvent C sae key =
     (case ac_marshal C (sae_event sae) of
        None \<Rightarrow> Some MarshalForVerify
      | Some eventJSON \<Rightarrow>
          case hex_decode (sae_signature sae) of
            None \<Rightarrow> Some DecodeSignature
          | Some sigBytes \<Rightarrow>
              if sigBytes \<noteq> computeHMAC C eventJSON key then Some Tampered else None)"

section \<open>Guarantees\<close>

text \<open>
  The ledger is append-only and consistent: appending keeps the invariant (the chain
  verifies, the counter is the length, the index finds every entry), keeps every entry
  that was there, and an accepted token gets the next sequence number and can be looked up;
  a refused one changes nothing.
\<close>

theorem ledger_append:
  assumes "ledger_ok H l" and "Ledger_Append H now entry l = (r, l')"
  shows "ledger_ok H l' \<and> Ledger_Verify H l' = None
    \<and> (case r of
         Inl _ \<Rightarrow> l' = l
       | Inr s \<Rightarrow> s = of_nat (length (lg_entries l)) + 1 \<and> Ledger_LastSequence l' = s
           \<and> Ledger_Entries l' = Ledger_Entries l @ [chained_entry now entry l]
           \<and> Ledger_Lookup l (le_jti entry) = None
           \<and> Ledger_Lookup l' (le_jti entry) = Some (chained_entry now entry l))"
proof -
  have ok: "ledger_ok H l'" using ledger_ok_Append [OF assms(1), of now entry] assms(2) by simp
  moreover have "lg_seq l = of_nat (length (lg_entries l))" using assms(1) by (simp add: ledger_ok_def)
  ultimately show ?thesis
    using assms(2)
    by (cases rule: Append_cases [where l = l and entry = entry and H = H and now = now])
      (auto simp: ledger_ok_def [of H l'] Ledger_LastSequence_def Ledger_Entries_def
        Ledger_Lookup_def gomap_simps)
qed

definition demo_ect :: "string \<Rightarrow> ect_entry" where
  "demo_ect jti = \<lparr>le_sequence = 0, le_jti = jti, le_prev_hash = '''', le_ect_token = ''t'',
     le_issuer = ''i'', le_subject = ''s'', le_tool_id = ''x'', le_exec_act = '''',
     le_workflow_id = '''', le_recorded_at = 0\<rparr>"

text \<open>An encoding of the fields that the examples vary, which is injective on them.\<close>

definition demo_hash :: entry_hash where
  "demo_hash = \<lparr>eh_marshal = (\<lambda>e. Some (le_jti e @ ''|'' @ le_ect_token e @ ''|'' @ le_prev_hash e)),
                eh_sha256_hex = id\<rparr>"

theorem ledger_append_witness:
  "Ledger_Lookup (snd (Ledger_Append demo_hash 5 (demo_ect ''a'') NewECTLedger)) ''a'' =
   Some (chained_entry 5 (demo_ect ''a'') NewECTLedger)"
proof -
  let ?r = "Ledger_Append demo_hash 5 (demo_ect ''a'') NewECTLedger"
  have "fst ?r = Inr 1" by code_simp
  then have "?r = (Inr 1, snd ?r)" by (metis prod.collapse)
  from ledger_append [OF ledger_ok_New this] show ?thesis by (simp add: demo_ect_def)
qed

text \<open>
  C28. Changing any entry of a ledger but the last one is detected by \<open>Verify\<close>, whatever is
  put in its place, under the hypothesis that different entries have different hashes.
\<close>

theorem ledger_tamper_evident:
  assumes "ledger_ok H l" and "hash_injective H"
    and "i + 1 < length (lg_entries l)" and "e \<noteq> lg_entries l ! i"
  shows "Ledger_Verify H (l\<lparr>lg_entries := (lg_entries l)[i := e]\<rparr>) \<noteq> None"
proof
  let ?es = "lg_entries l"
  assume tampered: "Ledger_Verify H (l\<lparr>lg_entries := ?es[i := e]\<rparr>) = None"
  obtain xs x where es: "?es = xs @ [x]" using assms(3) by (cases ?es rule: rev_cases) auto
  then have "?es[i := e] = xs[i := e] @ [x]" using assms(3) by (simp add: list_update_append)
  then have "verify_from H 0 '''' (xs[i := e] @ [x]) = None"
    using tampered by (simp add: Ledger_Verify_def)
  moreover have "verify_from H 0 '''' (xs @ [x]) = None"
    using assms(1) by (simp add: ledger_ok_def Ledger_Verify_def es)
  ultimately have "xs[i := e] = xs"
    using verified_prefix_unique [OF assms(2)] by (metis length_list_update)
  then have "e = xs ! i" using assms(3) es
    by (metis Suc_eq_plus1 Suc_less_eq length_append_singleton nth_list_update_eq)
  then show False using assms(3,4) es by (simp add: nth_append)
qed

text \<open>A hash on three entries: two linked ones and a forgery of the first.\<close>

definition demo_first :: ect_entry where
  "demo_first = (demo_ect ''a'')\<lparr>le_sequence := 1, le_recorded_at := 5\<rparr>"

definition demo_forged :: ect_entry where
  "demo_forged = demo_first\<lparr>le_ect_token := ''forged''\<rparr>"

definition demo_second :: ect_entry where
  "demo_second = (demo_ect ''b'')\<lparr>le_sequence := 2, le_prev_hash := ''1'', le_recorded_at := 5\<rparr>"

definition demo_hash3 :: entry_hash where
  "demo_hash3 = \<lparr>eh_marshal = (\<lambda>e. if e = demo_first then Some ''1'' else
     if e = demo_forged then Some ''2'' else if e = demo_second then Some ''3'' else None),
     eh_sha256_hex = id\<rparr>"

definition demo_ledger3 :: ect_ledger where
  "demo_ledger3 = \<lparr>lg_entries = [demo_first, demo_second], lg_index = [(''a'', 0), (''b'', 1)],
     lg_last_hash = ''3'', lg_seq = 2\<rparr>"

theorem ledger_tamper_evident_witness:
  "Ledger_Verify demo_hash3 demo_ledger3 = None \<and>
   Ledger_Verify demo_hash3 (demo_ledger3\<lparr>lg_entries := [demo_forged, demo_second]\<rparr>) \<noteq> None"
proof -
  have ok: "ledger_ok demo_hash3 demo_ledger3"
    by (simp add: ledger_ok_def Ledger_Verify_def demo_ledger3_def demo_hash3_def hashEntry_def
        demo_first_def demo_second_def demo_forged_def demo_ect_def less_Suc_eq nth_Cons')
  have inj: "hash_injective demo_hash3"
    by (auto simp: hash_injective_def hashEntry_def demo_hash3_def split: if_splits)
  have neq: "demo_forged \<noteq> lg_entries demo_ledger3 ! 0" "0 + 1 < length (lg_entries demo_ledger3)"
    by (simp_all add: demo_ledger3_def demo_forged_def demo_first_def demo_ect_def)
  have "(lg_entries demo_ledger3)[0 := demo_forged] = [demo_forged, demo_second]"
    by (simp add: demo_ledger3_def)
  with ledger_tamper_evident [OF ok inj neq(2,1)] ok show ?thesis
    by (simp add: ledger_ok_def)
qed

text \<open>
  The last entry is not covered: replacing it by any entry with the same sequence number
  and link, a different token included, still verifies.
\<close>

theorem ledger_tail_not_covered:
  assumes "ledger_ok H l" and "lg_entries l = es @ [e]"
    and "le_sequence e' = le_sequence e" and "le_prev_hash e' = le_prev_hash e"
    and "hashEntry H e' \<noteq> None"
  shows "Ledger_Verify H (l\<lparr>lg_entries := es @ [e']\<rparr>) = None"
  using assms by (simp add: ledger_ok_def Ledger_Verify_def verify_from_snoc)

definition demo_ledger :: ect_ledger where
  "demo_ledger = snd (Ledger_Append demo_hash 5 (demo_ect ''b'')
     (snd (Ledger_Append demo_hash 5 (demo_ect ''a'') NewECTLedger)))"

lemma demo_ledger_ok: "ledger_ok demo_hash demo_ledger"
  unfolding demo_ledger_def by (intro ledger_ok_Append ledger_ok_New)

theorem ledger_tail_not_covered_witness:
  "Ledger_Verify demo_hash (demo_ledger\<lparr>lg_entries :=
     [lg_entries demo_ledger ! 0, (lg_entries demo_ledger ! 1)\<lparr>le_ect_token := ''forged''\<rparr>]\<rparr>) = None"
proof -
  have "lg_entries demo_ledger = [lg_entries demo_ledger ! 0] @ [lg_entries demo_ledger ! 1]"
    by code_simp
  from ledger_tail_not_covered [OF demo_ledger_ok this,
      of "(lg_entries demo_ledger ! 1)\<lparr>le_ect_token := ''forged''\<rparr>"]
  show ?thesis by (simp add: hashEntry_def demo_hash_def)
qed

text \<open>
  The signing logger writes events that verify, and verification pins them down: what it
  wrote verifies under its key, and an event with that signature verifies exactly if the
  HMAC of its JSON is the one that was computed when it was logged.
\<close>

theorem signed_log_verifies:
  assumes "SigningLogger_Log C key io_ok now event out = (None, out')"
  shows "\<exists>sae js. out' = out @ [sae] \<and> sae_event sae = stamped now event
    \<and> ac_marshal C (stamped now event) = Some js
    \<and> VerifySignedEvent C sae key = None
    \<and> (\<forall>other k. VerifySignedEvent C (sae\<lparr>sae_event := other\<rparr>) k = None \<longleftrightarrow>
         (\<exists>js'. ac_marshal C other = Some js' \<and> computeHMAC C js' k = computeHMAC C js key))"
proof -
  from assms obtain js where js: "ac_marshal C (stamped now event) = Some js" and
    out: "out' = out @ [\<lparr>sae_event = stamped now event,
      sae_signature = hex_encode (computeHMAC C js key)\<rparr>]"
    by (auto simp: SigningLogger_Log_def Let_def split: option.splits if_splits)
  let ?sae = "\<lparr>sae_event = stamped now event, sae_signature = hex_encode (computeHMAC C js key)\<rparr>"
  have "VerifySignedEvent C (?sae\<lparr>sae_event := other\<rparr>) k = None \<longleftrightarrow>
      (\<exists>js'. ac_marshal C other = Some js' \<and> computeHMAC C js' k = computeHMAC C js key)" for other k
    by (auto simp: VerifySignedEvent_def hex_decode_encode split: option.splits)
  moreover have "VerifySignedEvent C ?sae key = None"
    by (simp add: VerifySignedEvent_def hex_decode_encode js)
  ultimately show ?thesis using js out by (intro exI [of _ ?sae] exI [of _ js]) simp
qed

definition demo_audit_codec :: audit_codec where
  "demo_audit_codec = \<lparr>ac_marshal = (\<lambda>e. Some (au_subject e)), ac_hmac_sha256 = (\<lambda>d k. k @ d)\<rparr>"

theorem signed_log_verifies_witness:
  "\<exists>sae. snd (SigningLogger_Log demo_audit_codec ''key'' True 7
      (audit_lit ''exchange'' ''a'' ''w1'' ''t'' ''allowed'' '''' []) []) = [sae]
    \<and> VerifySignedEvent demo_audit_codec sae ''key'' = None"
proof -
  let ?r = "SigningLogger_Log demo_audit_codec ''key'' True 7
      (audit_lit ''exchange'' ''a'' ''w1'' ''t'' ''allowed'' '''' []) []"
  have "fst ?r = None" by code_simp
  then have "?r = (None, snd ?r)" by (metis prod.collapse)
  from signed_log_verifies [OF this] show ?thesis by auto
qed

end
