(* ===== verification/Go_Http.thy ===== *)
theory Go_Http
  imports Core_Types
begin

text \<open>
  What the network-facing components use of \<open>strings\<close> and \<open>net/http\<close>: splitting and searching
  strings, requests with their headers, and responses. Header names are compared without
  regard to case, as \<open>http.Header\<close> does by canonicalising them; case folding is that of
  ASCII, which is all that header names, methods and the literal \<open>Bearer\<close> need.

  Tokens of the JWT library are their claims: \<open>Issuer()\<close>, \<open>Subject()\<close>, \<open>JwtID()\<close>,
  \<open>Audience()\<close> and \<open>Expiration()\<close> read the registered claims of RFC 7519.
\<close>

section \<open>Strings\<close>

definition to_lower_char :: "char \<Rightarrow> char" where
  "to_lower_char c =
     (let n = (of_char c :: nat) in if 65 \<le> n \<and> n \<le> 90 then char_of (n + 32) else c)"

definition to_lower :: "string \<Rightarrow> string" where
  "to_lower s = map to_lower_char s"

definition equal_fold :: "string \<Rightarrow> string \<Rightarrow> bool" where
  "equal_fold s t \<longleftrightarrow> to_lower s = to_lower t"

text \<open>\<open>strings.Split\<close> by one byte; \<open>strings.SplitN(s, sep, 2)\<close>.\<close>

fun split_on :: "char \<Rightarrow> string \<Rightarrow> string list" where
  "split_on c [] = [[]]"
| "split_on c (x # xs) =
     (if x = c then [] # split_on c xs
      else case split_on c xs of [] \<Rightarrow> [[x]] | p # ps \<Rightarrow> (x # p) # ps)"

definition split_n2 :: "char \<Rightarrow> string \<Rightarrow> string list" where
  "split_n2 c s =
     (case cut_before c s of None \<Rightarrow> [s] | Some p \<Rightarrow> [p, drop (length p + 1) s])"

fun str_contains :: "string \<Rightarrow> string \<Rightarrow> bool" where
  "str_contains [] sub \<longleftrightarrow> sub = []"
| "str_contains (x # xs) sub \<longleftrightarrow> has_prefix (x # xs) sub \<or> str_contains xs sub"

text \<open>\<open>strings.Trim(s, "/")\<close>, for one byte.\<close>

definition trim_char :: "char \<Rightarrow> string \<Rightarrow> string" where
  "trim_char c s = rev (dropWhile (\<lambda>x. x = c) (rev (dropWhile (\<lambda>x. x = c) s)))"

lemma split_on_nonempty [simp]: "split_on c s \<noteq> []"
  by (cases s) (auto split: list.split)

lemma split_n2_none: "c \<notin> set s \<Longrightarrow> split_n2 c s = [s]"
  by (simp add: split_n2_def iffD2 [OF cut_before_None])

lemma split_n2_append: "c \<notin> set p \<Longrightarrow> split_n2 c (p @ c # q) = [p, q]"
  by (simp add: split_n2_def cut_before_append)

lemma split_n2_unique:
  fixes c :: char
  assumes "c \<notin> set p" and "c \<notin> set p'" and "p @ c # q = p' @ c # q'"
  shows "p = p' \<and> q = q'"
proof -
  have "[p, q] = split_n2 c (p @ c # q)" using assms(1) by (rule split_n2_append [symmetric])
  also have "\<dots> = [p', q']" unfolding assms(3) using assms(2) by (rule split_n2_append)
  finally show ?thesis by simp
qed

lemma split_n2_cases:
  obtains (whole) "c \<notin> set s" and "split_n2 c s = [s]"
  | (parts) p q where "s = p @ c # q" and "c \<notin> set p" and "split_n2 c s = [p, q]"
proof (cases "cut_before c s")
  case None
  then show thesis using whole by (simp add: cut_before_None split_n2_none)
next
  case (Some p)
  from cut_before_Some [OF this] obtain q where q: "s = p @ c # q" "c \<notin> set p" by blast
  with split_n2_append [of c p q] show thesis by (intro parts) simp_all
qed

lemma split_on_no_sep: "c \<notin> set s \<Longrightarrow> split_on c s = [s]"
  by (induction s) auto

lemma split_on_append: "c \<notin> set p \<Longrightarrow> split_on c (p @ c # q) = p # split_on c q"
  by (induction p) auto

section \<open>Requests and responses\<close>

text \<open>
  The body of a request: \<open>NoBody\<close> is a nil reader, \<open>BodyError\<close> a reader that fails, \<open>Body b\<close>
  one that yields \<open>b\<close>. A handler that has read a body puts it back for the next one.
\<close>

datatype http_body =
    NoBody
  | BodyError
  | Body string

record http_request =
  hq_method :: string
  hq_path :: string
  hq_headers :: "(string \<times> string) list"
  hq_body :: http_body
  hq_remote_addr :: string

definition header_values :: "http_request \<Rightarrow> string \<Rightarrow> string list" where
  "header_values r name = map snd (filter (\<lambda>(k, v). equal_fold k name) (hq_headers r))"

definition header_get :: "http_request \<Rightarrow> string \<Rightarrow> string" where
  "header_get r name = (case header_values r name of [] \<Rightarrow> '''' | v # _ \<Rightarrow> v)"

record http_response =
  hp_status :: int
  hp_headers :: "(string \<times> string) list"
  hp_body :: json

section \<open>Tokens\<close>

datatype jwa_alg = ES256 | EdDSA | RS256

datatype key_kind = EcdsaKey | Ed25519Key | RsaKey | OtherKey

definition token_issuer :: "claims \<Rightarrow> string" where
  "token_issuer t = (case get_str t ''iss'' of None \<Rightarrow> '''' | Some s \<Rightarrow> s)"

definition token_subject :: "claims \<Rightarrow> string" where
  "token_subject t = (case get_str t ''sub'' of None \<Rightarrow> '''' | Some s \<Rightarrow> s)"

definition token_audience :: "claims \<Rightarrow> string list" where
  "token_audience t =
     (case map_of t ''aud'' of
        Some (JArr xs) \<Rightarrow> strings_of xs
      | Some (JStr s) \<Rightarrow> [s]
      | _ \<Rightarrow> [])"

text \<open>\<open>time.Unix(n, 0)\<close> of a numeric date; the zero time without the claim.\<close>

definition time_of_unix :: "int \<Rightarrow> go_time" where
  "time_of_unix n = (n + 62135596800) * go_second"

definition token_expiration :: "claims \<Rightarrow> go_time" where
  "token_expiration t =
     (case get_num t ''exp'' of None \<Rightarrow> 0 | Some r \<Rightarrow> time_of_unix (rat_trunc r))"

lemma unix_seconds_time_of_unix [simp]: "unix_seconds (time_of_unix n) = n"
  by (simp add: unix_seconds_def time_of_unix_def go_second_def)

lemma rat_trunc_of_int [simp]: "rat_trunc (of_int n) = n"
  by (simp add: rat_trunc_def)

section \<open>Writing responses\<close>

text \<open>
  \<open>http.ResponseWriter\<close> of the server: headers can be set until the status line is sent,
  which \<open>WriteHeader\<close> does once and \<open>Write\<close> or the end of the handler do with status 200;
  \<open>rw_sent\<close> is what the client has received of status and headers.
\<close>

record response_writer =
  rw_header :: "(string \<times> string) list"
  rw_sent :: "(int \<times> (string \<times> string) list) option"
  rw_body :: string

definition new_writer :: response_writer where
  "new_writer = \<lparr>rw_header = [], rw_sent = None, rw_body = ''''\<rparr>"

definition rw_set_header :: "string \<Rightarrow> string \<Rightarrow> response_writer \<Rightarrow> response_writer" where
  "rw_set_header k v w =
     w\<lparr>rw_header := filter (\<lambda>(n, _). \<not> equal_fold n k) (rw_header w) @ [(k, v)]\<rparr>"

definition rw_write_header :: "int \<Rightarrow> response_writer \<Rightarrow> response_writer" where
  "rw_write_header code w =
     (case rw_sent w of None \<Rightarrow> w\<lparr>rw_sent := Some (code, rw_header w)\<rparr> | Some _ \<Rightarrow> w)"

definition rw_write :: "string \<Rightarrow> response_writer \<Rightarrow> response_writer" where
  "rw_write b w = (let w' = rw_write_header 200 w in w'\<lparr>rw_body := rw_body w' @ b\<rparr>)"

text \<open>The server ends a handler that wrote nothing with status 200.\<close>

definition rw_finish :: "response_writer \<Rightarrow> response_writer" where
  "rw_finish w = rw_write_header 200 w"

datatype response_action =
    ActSetHeader string string
  | ActWriteHeader int
  | ActWrite string

primrec rw_action :: "response_action \<Rightarrow> response_writer \<Rightarrow> response_writer" where
  "rw_action (ActSetHeader k v) w = rw_set_header k v w"
| "rw_action (ActWriteHeader code) w = rw_write_header code w"
| "rw_action (ActWrite b) w = rw_write b w"

lemma rw_sent_simps [simp]:
  "rw_sent (rw_set_header k v w) = rw_sent w"
  "rw_sent (rw_write_header code w) =
     (case rw_sent w of None \<Rightarrow> Some (code, rw_header w) | Some x \<Rightarrow> Some x)"
  "rw_sent (rw_write b w) = (case rw_sent w of None \<Rightarrow> Some (200, rw_header w) | Some x \<Rightarrow> Some x)"
  by (simp_all add: rw_set_header_def rw_write_header_def rw_write_def Let_def split: option.split)

lemma rw_sent_stable: "rw_sent w = Some x \<Longrightarrow> rw_sent (fold rw_action acts w) = Some x"
proof (induction acts arbitrary: w)
  case (Cons a acts)
  have "rw_sent (rw_action a w) = Some x" using Cons.prems by (cases a) simp_all
  from Cons.IH [OF this] show ?case by simp
qed simp

end
