(* ===== verification/Tool_Registry.thy ===== *)
theory Tool_Registry
  imports Go_Http
begin

text \<open>
  The registries of tools: \<open>src/pkg/mcp/registry.go\<close> for tools of the Model Context Protocol
  and \<open>src/pkg/toolcall/registry.go\<close> for tools of several protocols, whose entries extend
  the former. Both promise the same: a map from identifiers to entries. The promise is the
  locale \<open>tool_registry\<close>, stated against an abstract map (\<open>spec_step\<close>), and both registries
  interpret it.

  Entries are values: the registries hand out copies, and what they hold is what was passed
  to them.
\<close>

section \<open>Protocols\<close>

text \<open>\<open>src/pkg/toolcall/types.go\<close>: a protocol is a name, optionally with a version after a slash.\<close>

type_synonym protocol = string

definition ProtocolMCP :: protocol where "ProtocolMCP = ''mcp''"

definition ProtocolHTTP :: protocol where "ProtocolHTTP = ''http''"

definition ProtocolA2A :: protocol where "ProtocolA2A = ''a2a''"

definition ParseProtocol :: "protocol \<Rightarrow> string \<times> string" where
  "ParseProtocol p =
     (case cut_before (CHR ''/'') p of
        Some name \<Rightarrow> (name, drop (length name + 1) p)
      | None \<Rightarrow> (p, ''''))"

definition FormatProtocol :: "string \<Rightarrow> string \<Rightarrow> protocol" where
  "FormatProtocol name version =
     (if version = '''' then name else name @ ''/'' @ version)"

section \<open>Entries\<close>

record tool_entry =
  te_tool_id :: string
  te_name :: string
  te_description :: string
  te_resource_uri :: string
  te_required_capabilities :: "string list"
  te_max_blast_radius :: string
  te_requires_execution :: bool
  te_allowed_operations :: "string list"
  te_allowed_targets :: "string list"
  te_owner_commune :: string
  te_server_id :: string
  te_registered_at :: go_time
  te_updated_at :: go_time

record universal_tool_entry = tool_entry +
  te_protocols :: "protocol list"
  te_protocol_meta :: "(protocol, (string, string) gomap) gomap"

datatype registry_error = ToolExists | ToolNotFound

type_synonym mcp_registry = "(string, tool_entry) gomap"
type_synonym universal_registry = "(string, universal_tool_entry) gomap"

section \<open>The MCP registry\<close>

definition NewMcpRegistry :: mcp_registry where
  "NewMcpRegistry = []"

definition McpRegistry_Register ::
  "go_time \<Rightarrow> tool_entry \<Rightarrow> mcp_registry \<Rightarrow> registry_error option \<times> mcp_registry" where
  "McpRegistry_Register now entry r =
     (if gomap_has r (te_tool_id entry) then (Some ToolExists, r)
      else (None, AList.update (te_tool_id entry)
              (entry\<lparr>te_registered_at := now, te_updated_at := now\<rparr>) r))"

definition McpRegistry_Update ::
  "go_time \<Rightarrow> tool_entry \<Rightarrow> mcp_registry \<Rightarrow> registry_error option \<times> mcp_registry" where
  "McpRegistry_Update now entry r =
     (case map_of r (te_tool_id entry) of
        None \<Rightarrow> (Some ToolNotFound, r)
      | Some existing \<Rightarrow>
          (None, AList.update (te_tool_id entry)
             (entry\<lparr>te_registered_at := te_registered_at existing, te_updated_at := now\<rparr>) r))"

definition McpRegistry_Deregister ::
  "string \<Rightarrow> mcp_registry \<Rightarrow> registry_error option \<times> mcp_registry" where
  "McpRegistry_Deregister toolID r =
     (if \<not> gomap_has r toolID then (Some ToolNotFound, r) else (None, AList.delete toolID r))"

definition McpRegistry_Get :: "mcp_registry \<Rightarrow> string \<Rightarrow> tool_entry option" where
  "McpRegistry_Get r toolID = map_of r toolID"

definition McpRegistry_List :: "mcp_registry \<Rightarrow> tool_entry list" where
  "McpRegistry_List r = map snd r"

definition McpRegistry_Count :: "mcp_registry \<Rightarrow> nat" where
  "McpRegistry_Count r = length r"

section \<open>The registry of all protocols\<close>

definition SupportsProtocol :: "universal_tool_entry \<Rightarrow> protocol \<Rightarrow> bool" where
  "SupportsProtocol e p \<longleftrightarrow>
     (if te_protocols e = [] then True
      else let wantName = fst (ParseProtocol p)
           in list_ex (\<lambda>ep. fst (ParseProtocol ep) = wantName) (te_protocols e))"

definition NewUniversalRegistry :: universal_registry where
  "NewUniversalRegistry = []"

definition Universal_Register ::
  "go_time \<Rightarrow> universal_tool_entry \<Rightarrow> universal_registry
   \<Rightarrow> registry_error option \<times> universal_registry" where
  "Universal_Register now entry r =
     (if gomap_has r (te_tool_id entry) then (Some ToolExists, r)
      else
        let entry1 = (if te_protocols entry = [] then entry\<lparr>te_protocols := [ProtocolMCP]\<rparr> else entry)
        in (None, AList.update (te_tool_id entry)
              (entry1\<lparr>te_registered_at := now, te_updated_at := now\<rparr>) r))"

definition Universal_Update ::
  "go_time \<Rightarrow> universal_tool_entry \<Rightarrow> universal_registry
   \<Rightarrow> registry_error option \<times> universal_registry" where
  "Universal_Update now entry r =
     (case map_of r (te_tool_id entry) of
        None \<Rightarrow> (Some ToolNotFound, r)
      | Some existing \<Rightarrow>
          (None, AList.update (te_tool_id entry)
             (entry\<lparr>te_registered_at := te_registered_at existing, te_updated_at := now\<rparr>) r))"

definition Universal_Deregister ::
  "string \<Rightarrow> universal_registry \<Rightarrow> registry_error option \<times> universal_registry" where
  "Universal_Deregister toolID r =
     (if \<not> gomap_has r toolID then (Some ToolNotFound, r) else (None, AList.delete toolID r))"

definition Universal_Get :: "universal_registry \<Rightarrow> string \<Rightarrow> universal_tool_entry option" where
  "Universal_Get r toolID = map_of r toolID"

definition Universal_List ::
  "protocol option \<Rightarrow> universal_registry \<Rightarrow> universal_tool_entry list" where
  "Universal_List pr r =
     filter (\<lambda>e. case pr of None \<Rightarrow> True | Some p \<Rightarrow> SupportsProtocol e p) (map snd r)"

definition Universal_Count :: "universal_registry \<Rightarrow> nat" where
  "Universal_Count r = length r"

section \<open>The contract\<close>

datatype 'e registry_op =
    OpRegister go_time 'e
  | OpUpdate go_time 'e
  | OpDeregister string

text \<open>
  The abstract registry is a partial map; \<open>admit\<close> and \<open>renew\<close> say what an entry becomes when it
  is registered and when it replaces another.
\<close>

fun spec_step ::
  "('e \<Rightarrow> string) \<Rightarrow> (go_time \<Rightarrow> 'e \<Rightarrow> 'e) \<Rightarrow> (go_time \<Rightarrow> 'e \<Rightarrow> 'e \<Rightarrow> 'e) \<Rightarrow> 'e registry_op
   \<Rightarrow> (string \<rightharpoonup> 'e) \<Rightarrow> registry_error option \<times> (string \<rightharpoonup> 'e)" where
  "spec_step key admit renew (OpRegister now e) m =
     (case m (key e) of
        Some _ \<Rightarrow> (Some ToolExists, m)
      | None \<Rightarrow> (None, m(key e \<mapsto> admit now e)))"
| "spec_step key admit renew (OpUpdate now e) m =
     (case m (key e) of
        None \<Rightarrow> (Some ToolNotFound, m)
      | Some old \<Rightarrow> (None, m(key e \<mapsto> renew now old e)))"
| "spec_step key admit renew (OpDeregister k) m =
     (case m k of
        None \<Rightarrow> (Some ToolNotFound, m)
      | Some _ \<Rightarrow> (None, m(k := None)))"

text \<open>A run of operations, with the results it gives.\<close>

fun run_ops ::
  "('e registry_op \<Rightarrow> 'r \<Rightarrow> registry_error option \<times> 'r) \<Rightarrow> 'e registry_op list \<Rightarrow> 'r
   \<Rightarrow> registry_error option list \<times> 'r" where
  "run_ops step [] r = ([], r)"
| "run_ops step (x # xs) r =
     (let (res, r1) = step x r; (rs, r2) = run_ops step xs r1 in (res # rs, r2))"

locale tool_registry =
  fixes get :: "'r \<Rightarrow> string \<Rightarrow> 'e option"
    and step :: "'e registry_op \<Rightarrow> 'r \<Rightarrow> registry_error option \<times> 'r"
    and count :: "'r \<Rightarrow> nat"
    and inv :: "'r \<Rightarrow> bool"
    and key :: "'e \<Rightarrow> string"
    and admit :: "go_time \<Rightarrow> 'e \<Rightarrow> 'e"
    and renew :: "go_time \<Rightarrow> 'e \<Rightarrow> 'e \<Rightarrow> 'e"
  assumes step_simulates: "inv r \<Longrightarrow> fst (step x r) = fst (spec_step key admit renew x (get r))
      \<and> get (snd (step x r)) = snd (spec_step key admit renew x (get r))"
    and step_inv: "inv r \<Longrightarrow> inv (snd (step x r))"
    and count_card: "inv r \<Longrightarrow> count r = card (dom (get r)) \<and> finite (dom (get r))"
    and key_admit: "key (admit now e) = key e"
    and key_renew: "key (renew now old e) = key e"
begin

abbreviation spec :: "'e registry_op \<Rightarrow> (string \<rightharpoonup> 'e) \<Rightarrow> registry_error option \<times> (string \<rightharpoonup> 'e)" where
  "spec \<equiv> spec_step key admit renew"

text \<open>Runs of the registry are runs of the abstract map.\<close>

lemma run_refines:
  "inv r \<Longrightarrow> inv (snd (run_ops step xs r))
     \<and> fst (run_ops step xs r) = fst (run_ops spec xs (get r))
     \<and> get (snd (run_ops step xs r)) = snd (run_ops spec xs (get r))"
proof (induction xs arbitrary: r)
  case (Cons x xs)
  have 1: "inv (snd (step x r))" using Cons.prems by (rule step_inv)
  from step_simulates [OF Cons.prems, of x] Cons.IH [OF 1] show ?case
    by (simp add: Let_def split_beta)
qed simp

text \<open>Entries are filed under their own keys, whatever is done to the registry.\<close>

lemma spec_keys:
  "(\<And>k e. m k = Some e \<Longrightarrow> key e = k) \<Longrightarrow> snd (run_ops spec xs m) k = Some e \<Longrightarrow> key e = k"
proof (induction xs arbitrary: m)
  case (Cons x xs)
  have "\<And>k e. snd (spec x m) k = Some e \<Longrightarrow> key e = k"
    using Cons.prems(1) by (cases x) (auto simp: key_admit key_renew split: option.splits if_splits)
  from Cons.IH [OF this] Cons.prems(2) show ?case by (simp add: Let_def split_beta)
qed simp

lemma run_keys:
  "inv r \<Longrightarrow> (\<And>k e. get r k = Some e \<Longrightarrow> key e = k) \<Longrightarrow>
   get (snd (run_ops step xs r)) k = Some e \<Longrightarrow> key e = k"
  using run_refines [of r xs] spec_keys [of "get r" xs k e] by simp

lemma run_count:
  "inv r \<Longrightarrow> count (snd (run_ops step xs r)) = card (dom (snd (run_ops spec xs (get r))))"
  using run_refines [of r xs] count_card by simp

end

section \<open>Both registries keep it\<close>

fun mcp_step :: "tool_entry registry_op \<Rightarrow> mcp_registry \<Rightarrow> registry_error option \<times> mcp_registry" where
  "mcp_step (OpRegister now e) r = McpRegistry_Register now e r"
| "mcp_step (OpUpdate now e) r = McpRegistry_Update now e r"
| "mcp_step (OpDeregister k) r = McpRegistry_Deregister k r"

fun universal_step ::
  "universal_tool_entry registry_op \<Rightarrow> universal_registry
   \<Rightarrow> registry_error option \<times> universal_registry" where
  "universal_step (OpRegister now e) r = Universal_Register now e r"
| "universal_step (OpUpdate now e) r = Universal_Update now e r"
| "universal_step (OpDeregister k) r = Universal_Deregister k r"

definition mcp_admit :: "go_time \<Rightarrow> tool_entry \<Rightarrow> tool_entry" where
  "mcp_admit now e = e\<lparr>te_registered_at := now, te_updated_at := now\<rparr>"

definition tool_renew ::
  "go_time \<Rightarrow> 'a tool_entry_scheme \<Rightarrow> 'a tool_entry_scheme \<Rightarrow> 'a tool_entry_scheme" where
  "tool_renew now old e = e\<lparr>te_registered_at := te_registered_at old, te_updated_at := now\<rparr>"

definition universal_admit :: "go_time \<Rightarrow> universal_tool_entry \<Rightarrow> universal_tool_entry" where
  "universal_admit now e =
     e\<lparr>te_registered_at := now, te_updated_at := now,
       te_protocols := (if te_protocols e = [] then [''mcp''] else te_protocols e)\<rparr>"

lemma gomap_card: "gomap_wf m \<Longrightarrow> length m = card (dom (map_of m))"
  by (simp add: gomap_wf_def dom_map_of_conv_image_fst distinct_card flip: set_map)

lemma map_of_update_fun: "map_of (AList.update k v m) = (map_of m)(k \<mapsto> v)"
  by (rule update_conv')

lemma map_of_delete_fun: "map_of (AList.delete k m) = (map_of m)(k := None)"
  by (rule ext) (simp add: map_of_delete)

lemmas registry_defs = McpRegistry_Register_def McpRegistry_Update_def McpRegistry_Deregister_def
  Universal_Register_def Universal_Update_def Universal_Deregister_def gomap_has_def

interpretation mcp: tool_registry McpRegistry_Get mcp_step McpRegistry_Count gomap_wf te_tool_id
  mcp_admit tool_renew
proof unfold_locales
  fix r :: mcp_registry and x
  assume wf: "gomap_wf r"
  have get: "McpRegistry_Get r = map_of r" for r by (rule ext) (simp add: McpRegistry_Get_def)
  show "fst (mcp_step x r) = fst (spec_step te_tool_id mcp_admit tool_renew x (McpRegistry_Get r)) \<and>
    McpRegistry_Get (snd (mcp_step x r)) = snd (spec_step te_tool_id mcp_admit tool_renew x (McpRegistry_Get r))"
    by (cases x) (auto simp: registry_defs get mcp_admit_def tool_renew_def map_of_update_fun
        map_of_delete_fun split: option.split)
  show "gomap_wf (snd (mcp_step x r))"
    using wf by (cases x) (auto simp: registry_defs split: option.split)
  show "McpRegistry_Count r = card (dom (McpRegistry_Get r)) \<and> finite (dom (McpRegistry_Get r))"
    using wf by (simp add: McpRegistry_Count_def get gomap_card finite_dom_map_of)
qed (simp_all add: mcp_admit_def tool_renew_def)

interpretation universal: tool_registry Universal_Get universal_step Universal_Count gomap_wf
  te_tool_id universal_admit tool_renew
proof unfold_locales
  fix r :: universal_registry and x
  assume wf: "gomap_wf r"
  have get: "Universal_Get r = map_of r" for r by (rule ext) (simp add: Universal_Get_def)
  show "fst (universal_step x r) =
      fst (spec_step te_tool_id universal_admit tool_renew x (Universal_Get r)) \<and>
    Universal_Get (snd (universal_step x r)) =
      snd (spec_step te_tool_id universal_admit tool_renew x (Universal_Get r))"
    by (cases x) (auto simp: registry_defs get universal_admit_def tool_renew_def Let_def
        ProtocolMCP_def map_of_update_fun map_of_delete_fun split: option.split)
  show "gomap_wf (snd (universal_step x r))"
    using wf by (cases x) (auto simp: registry_defs Let_def split: option.split)
  show "Universal_Count r = card (dom (Universal_Get r)) \<and> finite (dom (Universal_Get r))"
    using wf by (simp add: Universal_Count_def get gomap_card finite_dom_map_of)
qed (simp_all add: universal_admit_def tool_renew_def)

section \<open>Guarantees\<close>

text \<open>
  C27. Both tool registries refine one abstract map: whatever sequence of registrations,
  updates and deregistrations is run on an empty registry, the results returned and the
  entries found afterwards are those of the map, every entry is filed under its own
  identifier, and the count is the number of identifiers.
\<close>

theorem registries_refine_map:
  "fst (run_ops mcp_step xs NewMcpRegistry) =
     fst (run_ops (spec_step te_tool_id mcp_admit tool_renew) xs Map.empty)
   \<and> McpRegistry_Get (snd (run_ops mcp_step xs NewMcpRegistry)) =
     snd (run_ops (spec_step te_tool_id mcp_admit tool_renew) xs Map.empty)
   \<and> McpRegistry_Count (snd (run_ops mcp_step xs NewMcpRegistry)) =
     card (dom (McpRegistry_Get (snd (run_ops mcp_step xs NewMcpRegistry))))
   \<and> fst (run_ops universal_step ys NewUniversalRegistry) =
     fst (run_ops (spec_step te_tool_id universal_admit tool_renew) ys Map.empty)
   \<and> Universal_Get (snd (run_ops universal_step ys NewUniversalRegistry)) =
     snd (run_ops (spec_step te_tool_id universal_admit tool_renew) ys Map.empty)
   \<and> Universal_Count (snd (run_ops universal_step ys NewUniversalRegistry)) =
     card (dom (Universal_Get (snd (run_ops universal_step ys NewUniversalRegistry))))"
proof -
  have m: "McpRegistry_Get NewMcpRegistry = Map.empty" "gomap_wf NewMcpRegistry"
    by (auto simp: McpRegistry_Get_def NewMcpRegistry_def)
  have u: "Universal_Get NewUniversalRegistry = Map.empty" "gomap_wf NewUniversalRegistry"
    by (auto simp: Universal_Get_def NewUniversalRegistry_def)
  show ?thesis
    using mcp.run_refines [OF m(2), of xs] universal.run_refines [OF u(2), of ys]
      mcp.count_card universal.count_card by (simp add: m u)
qed

text \<open>Protocols round-trip: what is formatted from a name without a slash parses back.\<close>

lemma protocol_roundtrip:
  "CHR ''/'' \<notin> set name \<Longrightarrow> ParseProtocol (FormatProtocol name version) = (name, version)"
  using cut_before_append [of "CHR ''/''" name version] cut_before_None [of "CHR ''/''" name]
  by (simp add: ParseProtocol_def FormatProtocol_def)

end
