(* ===== verification/Mcp_Verify.thy ===== *)
theory Mcp_Verify
  imports Tool_Registry Dpop
begin

text \<open>
  The verification pipeline of \<open>src/pkg/mcp/middleware.go\<close>: reading the claims of a token and
  deciding on a tool call. The JWT library, the key resolver, the revocation checker and the
  policy engine are parameters, functions without assumptions; a collaborator that may be
  nil is an option. Error texts are values of \<open>mcp_error\<close> with the data they carry. The
  registry is read twice by the source; the model reads one state of it both times.
\<close>

section \<open>Types\<close>

datatype invalid_token =
    NotBearer
  | Unparsable
  | MissingIssuer
  | KeyUnresolved string
  | VerificationFailed

datatype mcp_error =
    MissingToken
  | InvalidToken invalid_token
  | TokenRevoked string
  | ToolNotRegistered string
  | CapabilityDenied "string list"
  | BlastRadiusExceeded string string
  | AudienceMismatch string string
  | PolicyDenied string
  | PolicyFailed string
  | ExecOpMismatch string "string list"
  | ExecPayloadMismatch string string
  | ExecPayloadMissing
  | ExecTargetMismatch string "string list"
  | ExecBindingRequired string
  | DPoPInvalid dpop_error

record mcp_delegation =
  dg_on_behalf_of :: string
  dg_depth :: int

record verified_claims =
  vc_subject :: string
  vc_issuer :: string
  vc_audience :: string
  vc_capabilities :: "string list"
  vc_blast_radius :: string
  vc_delegation :: "mcp_delegation option"
  vc_execution :: "execution_scope option"
  vc_expires_at :: go_time
  vc_tool_id :: string
  vc_resource :: string
  vc_cnf_thumbprint :: string

record verify_options =
  vo_request_body :: "string option"
  vo_dpop_proof :: string

text \<open>
  The collaborators of a verification: \<open>vr_resolve\<close> is \<open>ResolveKey\<close>, \<open>vr_revocation\<close> is
  \<open>IsRevoked\<close>, which returns an entry and an error that may both be there.
\<close>

record 'pub verify_config =
  vr_resolve :: "string \<Rightarrow> string \<Rightarrow> string + 'pub"
  vr_registry :: "mcp_registry option"
  vr_revocation :: "(string \<Rightarrow> revocation_entry option \<times> string option) option"
  vr_policy :: "(policy_input \<Rightarrow> string + policy_decision) option"
  vr_dev_mode :: bool

record ('pub, 'key, 'alg, 'raw) verify_env =
  ve_parse_insecure :: "string \<Rightarrow> claims option"
  ve_parse :: "jwa_alg \<Rightarrow> 'pub \<Rightarrow> string \<Rightarrow> claims option"
  ve_key_kind :: "'pub \<Rightarrow> key_kind"
  ve_jose :: "('key, 'alg, 'raw) jose"
  ve_dpop_now :: go_time
  ve_policy_now :: go_time

section \<open>Helpers\<close>

definition extractKID :: "string \<Rightarrow> string" where
  "extractKID tokenStr = (if length (split_n2 (CHR ''.'') tokenStr) < 2 then '''' else '''')"

definition inferAlgorithm :: "key_kind \<Rightarrow> jwa_alg" where
  "inferAlgorithm k =
     (case k of EcdsaKey \<Rightarrow> ES256 | Ed25519Key \<Rightarrow> EdDSA | RsaKey \<Rightarrow> RS256 | OtherKey \<Rightarrow> RS256)"

definition stringClaim :: "claims \<Rightarrow> string \<Rightarrow> string option" where
  "stringClaim t name = get_str t name"

definition resolveOpts :: "verify_options option list \<Rightarrow> verify_options option" where
  "resolveOpts opts = (case find (\<lambda>v. v \<noteq> None) opts of None \<Rightarrow> None | Some v \<Rightarrow> v)"

definition computeInputHash :: "('key, 'alg, 'raw) jose \<Rightarrow> string \<Rightarrow> string" where
  "computeInputHash J data = jo_sha256_b64url J data"

fun stringInSlice :: "string \<Rightarrow> string list \<Rightarrow> bool" where
  "stringInSlice s [] \<longleftrightarrow> False"
| "stringInSlice s (v # vs) \<longleftrightarrow> (if v = s then True else stringInSlice s vs)"

definition checkCapabilities :: "string list \<Rightarrow> string list \<Rightarrow> mcp_error option" where
  "checkCapabilities tokenCaps required =
     (if required = [] then None
      else
        let missing = filter (\<lambda>r. r \<notin> set tokenCaps) required
        in if missing \<noteq> [] then Some (CapabilityDenied missing) else None)"

definition blastRadiusFits :: "string \<Rightarrow> string \<Rightarrow> bool" where
  "blastRadiusFits tokenBR maxBR \<longleftrightarrow>
     (if maxBR = ''*'' then True
      else case (split_n2 (CHR '':'') tokenBR, split_n2 (CHR '':'') maxBR) of
        ([tokenScope, tokenValue], [maxScope, maxValue]) \<Rightarrow>
          if tokenScope \<noteq> maxScope then False
          else if maxValue = ''*'' then True
          else tokenValue = maxValue
      | _ \<Rightarrow> tokenBR = maxBR)"

text \<open>A slash at the very start of the rest is not a separator: \<open>idx > 0\<close>.\<close>

definition domain_after :: "string \<Rightarrow> string" where
  "domain_after rest =
     (case cut_before (CHR ''/'') rest of
        None \<Rightarrow> rest
      | Some p \<Rightarrow> if p = [] then rest else p)"

definition extractTrustDomain :: "string \<Rightarrow> string" where
  "extractTrustDomain uri =
     (if has_prefix uri ''wimse://'' then domain_after (drop (length ''wimse://'') uri)
      else if has_prefix uri ''spiffe://'' then domain_after (drop (length ''spiffe://'') uri)
      else '''')"

section \<open>Reading the claims\<close>

text \<open>
  The execution scope is collected claim by claim, \<open>payload_hash\<close> standing in for an absent
  or empty \<open>inp_hash\<close>; \<open>claim_or\<close> is a claim with its default.
\<close>

definition claim_or :: "claims \<Rightarrow> string \<Rightarrow> string" where
  "claim_or t name = (case stringClaim t name of None \<Rightarrow> '''' | Some v \<Rightarrow> v)"

definition exec_claim_names :: "string list" where
  "exec_claim_names = [''htm'', ''htu'', ''exec_act'', ''inp_hash'', ''out_hash'', ''target'',
     ''wid'', ''nonce'']"

definition extract_execution :: "claims \<Rightarrow> execution_scope option" where
  "extract_execution t =
     (let inp = claim_or t ''inp_hash'';
          fallback = inp = '''' \<and> stringClaim t ''payload_hash'' \<noteq> None;
          es = \<lparr>xs_method = claim_or t ''htm'', xs_uri = claim_or t ''htu'',
                xs_exec_act = claim_or t ''exec_act'',
                xs_input_hash = (if fallback then claim_or t ''payload_hash'' else inp),
                xs_output_hash = claim_or t ''out_hash'', xs_target = claim_or t ''target'',
                xs_workflow_id = claim_or t ''wid'',
                xs_payload_hash = (if fallback then claim_or t ''payload_hash'' else ''''),
                xs_nonce = claim_or t ''nonce''\<rparr>
      in if (\<exists>name \<in> set exec_claim_names. stringClaim t name \<noteq> None) \<or> fallback
         then Some es else None)"

definition extract_delegation :: "claims \<Rightarrow> mcp_delegation option" where
  "extract_delegation t =
     (let d1 = (case get_str t ''obo'' of
                  None \<Rightarrow> None
                | Some obo \<Rightarrow> Some \<lparr>dg_on_behalf_of = obo, dg_depth = 0\<rparr>)
      in case get_num t ''delegation_depth'' of
           None \<Rightarrow> d1
         | Some dd \<Rightarrow>
             Some (case d1 of
                     None \<Rightarrow> \<lparr>dg_on_behalf_of = '''', dg_depth = float_to_int dd\<rparr>
                   | Some d \<Rightarrow> d\<lparr>dg_depth := float_to_int dd\<rparr>))"

definition extractClaims :: "claims \<Rightarrow> verified_claims" where
  "extractClaims t =
     \<lparr>vc_subject = token_subject t, vc_issuer = token_issuer t,
      vc_audience = (case token_audience t of [] \<Rightarrow> '''' | a # _ \<Rightarrow> a),
      vc_capabilities = (case get_arr t ''caps'' of None \<Rightarrow> [] | Some cs \<Rightarrow> strings_of cs),
      vc_blast_radius = claim_or t ''blast_radius'',
      vc_delegation = extract_delegation t,
      vc_execution = extract_execution t,
      vc_expires_at = token_expiration t,
      vc_tool_id = '''', vc_resource = '''',
      vc_cnf_thumbprint = (case get_obj t ''cnf'' of None \<Rightarrow> '''' | Some cnf \<Rightarrow> str_member cnf ''jkt'')\<rparr>"

section \<open>The pipeline\<close>

definition verifyExecutionBinding ::
  "('key, 'alg, 'raw) jose \<Rightarrow> verified_claims \<Rightarrow> tool_entry \<Rightarrow> verify_options option
   \<Rightarrow> mcp_error option" where
  "verifyExecutionBinding J claims tool opts =
     (if te_requires_execution tool \<and> vc_execution claims = None
      then Some (ExecBindingRequired (te_tool_id tool))
      else case vc_execution claims of
        None \<Rightarrow> None
      | Some ex \<Rightarrow>
          if te_allowed_operations tool \<noteq> [] \<and> xs_exec_act ex \<noteq> ''''
             \<and> \<not> stringInSlice (xs_exec_act ex) (te_allowed_operations tool)
          then Some (ExecOpMismatch (xs_exec_act ex) (te_allowed_operations tool))
          else
            let body = (case opts of None \<Rightarrow> None | Some o' \<Rightarrow> vo_request_body o')
            in if xs_input_hash ex \<noteq> '''' \<and> body \<noteq> None
                  \<and> computeInputHash J (the body) \<noteq> xs_input_hash ex
               then Some (ExecPayloadMismatch (computeInputHash J (the body)) (xs_input_hash ex))
               else if te_requires_execution tool \<and> xs_input_hash ex = '''' then Some ExecPayloadMissing
               else if te_allowed_targets tool \<noteq> [] \<and> xs_target ex \<noteq> ''''
                       \<and> \<not> stringInSlice (xs_target ex) (te_allowed_targets tool)
               then Some (ExecTargetMismatch (xs_target ex) (te_allowed_targets tool))
               else None)"

definition call_identity ::
  "('pub, 'key, 'alg, 'raw) verify_env \<Rightarrow> 'pub verify_config \<Rightarrow> string \<Rightarrow> mcp_error + claims" where
  "call_identity V cfg tokenStr =
     (case ve_parse_insecure V tokenStr of
        None \<Rightarrow> Inl (InvalidToken Unparsable)
      | Some insecure \<Rightarrow>
          let issuer = token_issuer insecure
          in if issuer = '''' then Inl (InvalidToken MissingIssuer)
             else if vr_dev_mode cfg then Inr insecure
             else case vr_resolve cfg issuer (extractKID tokenStr) of
               Inl e \<Rightarrow> Inl (InvalidToken (KeyUnresolved e))
             | Inr pubKey \<Rightarrow>
                 case ve_parse V (inferAlgorithm (ve_key_kind V pubKey)) pubKey tokenStr of
                   None \<Rightarrow> Inl (InvalidToken VerificationFailed)
                 | Some verified \<Rightarrow> Inr verified)"

definition call_dpop ::
  "('pub, 'key, 'alg, 'raw) verify_env \<Rightarrow> 'pub verify_config \<Rightarrow> verify_options option
   \<Rightarrow> verified_claims \<Rightarrow> mcp_error + verified_claims" where
  "call_dpop V cfg opts claims =
     (case verifyDPoP (ve_jose V) (ve_dpop_now V) (vr_dev_mode cfg) (vc_cnf_thumbprint claims)
             (map_option vo_dpop_proof opts) of
        Inl e \<Rightarrow> Inl (DPoPInvalid e)
      | Inr tp \<Rightarrow> Inr (claims\<lparr>vc_cnf_thumbprint := tp\<rparr>))"

definition resource_of :: "'a tool_entry_scheme \<Rightarrow> string" where
  "resource_of tool = (if te_resource_uri tool = '''' then te_tool_id tool else te_resource_uri tool)"

definition call_authorize ::
  "'pub verify_config \<Rightarrow> string \<Rightarrow> verified_claims \<Rightarrow> mcp_error + verified_claims" where
  "call_authorize cfg toolID claims =
     (case vr_registry cfg of
        None \<Rightarrow> Inr claims
      | Some reg \<Rightarrow>
          if toolID = '''' then Inr claims
          else case McpRegistry_Get reg toolID of
            None \<Rightarrow> Inl (ToolNotRegistered toolID)
          | Some tool \<Rightarrow>
              let resourceURI = resource_of tool
              in if vc_audience claims \<noteq> resourceURI
                 then Inl (AudienceMismatch (vc_audience claims) resourceURI)
                 else
                   let claims' = claims\<lparr>vc_tool_id := toolID, vc_resource := resourceURI\<rparr>
                   in case checkCapabilities (vc_capabilities claims') (te_required_capabilities tool) of
                        Some e \<Rightarrow> Inl e
                      | None \<Rightarrow>
                          if te_max_blast_radius tool \<noteq> '''' \<and> vc_blast_radius claims' \<noteq> ''''
                             \<and> \<not> blastRadiusFits (vc_blast_radius claims') (te_max_blast_radius tool)
                          then Inl (BlastRadiusExceeded (vc_blast_radius claims') (te_max_blast_radius tool))
                          else Inr claims')"

definition call_revocation :: "'pub verify_config \<Rightarrow> string \<Rightarrow> mcp_error option" where
  "call_revocation cfg subject =
     (case vr_revocation cfg of
        None \<Rightarrow> None
      | Some check \<Rightarrow>
          case fst (check subject) of
            None \<Rightarrow> None
          | Some entry \<Rightarrow> Some (TokenRevoked (re_reason entry)))"

definition mcp_policy_input :: "go_time \<Rightarrow> string \<Rightarrow> verified_claims \<Rightarrow> policy_input" where
  "mcp_policy_input now toolID claims =
     \<lparr>pi_action = ''mcp_tool_call'',
      pi_subject = Some \<lparr>wi_id = vc_subject claims,
        wi_trust_domain = extractTrustDomain (vc_subject claims),
        wi_attestation = Some \<lparr>ae_method = ''mcp-client'', ae_timestamp = now, ae_node_id = '''',
          ae_namespace = ''''\<rparr>,
        wi_claims = []\<rparr>,
      pi_target = toolID,
      pi_context = [(''capabilities'', JArr (map JStr (vc_capabilities claims))),
        (''blast_radius'', JStr (vc_blast_radius claims)), (''audience'', JStr (vc_audience claims)),
        (''issuer'', JStr (vc_issuer claims)), (''resource'', JStr (vc_resource claims))]\<rparr>"

definition call_policy :: "'pub verify_config \<Rightarrow> policy_input \<Rightarrow> mcp_error option" where
  "call_policy cfg inp =
     (case vr_policy cfg of
        None \<Rightarrow> None
      | Some evaluate \<Rightarrow>
          case evaluate inp of
            Inl e \<Rightarrow> Some (PolicyFailed e)
          | Inr decision \<Rightarrow>
              if \<not> pd_allowed decision then Some (PolicyDenied (pd_reason decision)) else None)"

definition call_binding ::
  "('key, 'alg, 'raw) jose \<Rightarrow> 'pub verify_config \<Rightarrow> string \<Rightarrow> verify_options option
   \<Rightarrow> verified_claims \<Rightarrow> mcp_error option" where
  "call_binding J cfg toolID opts claims =
     (case vr_registry cfg of
        None \<Rightarrow> None
      | Some reg \<Rightarrow>
          if toolID = '''' then None
          else case McpRegistry_Get reg toolID of
            None \<Rightarrow> None
          | Some tool \<Rightarrow> verifyExecutionBinding J claims tool opts)"

definition fail_if :: "'e option \<Rightarrow> 'a \<Rightarrow> 'e + 'a" where
  "fail_if err a = (case err of None \<Rightarrow> Inr a | Some e \<Rightarrow> Inl e)"

definition VerifyToolCall ::
  "('pub, 'key, 'alg, 'raw) verify_env \<Rightarrow> 'pub verify_config \<Rightarrow> string \<Rightarrow> string
   \<Rightarrow> verify_options option list \<Rightarrow> mcp_error + verified_claims" where
  "VerifyToolCall V cfg tokenStr toolID opts =
     rbind (call_identity V cfg tokenStr) (\<lambda>verified.
     rbind (call_dpop V cfg (resolveOpts opts) (extractClaims verified)) (\<lambda>claims1.
     rbind (call_authorize cfg toolID claims1) (\<lambda>claims.
     rbind (fail_if (call_revocation cfg (vc_subject claims)) ()) (\<lambda>_.
     rbind (fail_if (call_policy cfg (mcp_policy_input (ve_policy_now V) toolID claims)) ()) (\<lambda>_.
     fail_if (call_binding (ve_jose V) cfg toolID (resolveOpts opts) claims) claims)))))"

section \<open>What the checks mean\<close>

lemma stringInSlice_iff [simp]: "stringInSlice s xs \<longleftrightarrow> s \<in> set xs"
  by (induction xs) auto

lemma fail_if_Inr_iff [simp]: "fail_if err a = Inr b \<longleftrightarrow> err = None \<and> b = a"
  by (auto simp: fail_if_def split: option.splits)

lemma checkCapabilities_None_iff: "checkCapabilities have need = None \<longleftrightarrow> set need \<subseteq> set have"
  by (auto simp: checkCapabilities_def Let_def filter_empty_conv)

lemma blastRadiusFits_iff:
  "blastRadiusFits t m \<longleftrightarrow> m = ''*'' \<or> t = m
     \<or> (\<exists>scope v. CHR '':'' \<notin> set scope \<and> t = scope @ CHR '':'' # v \<and> m = scope @ CHR '':'' # ''*'')"
proof (cases t rule: split_n2_cases [where c = "CHR '':''"])
  case whole
  then show ?thesis by (auto simp: blastRadiusFits_def)
next
  case t: (parts ts tv)
  show ?thesis
  proof (cases m rule: split_n2_cases [where c = "CHR '':''"])
    case whole
    then have "\<not> (\<exists>scope. m = scope @ CHR '':'' # ''*'')" by auto
    with whole t show ?thesis by (auto simp: blastRadiusFits_def)
  next
    case (parts ms mv)
    note same = split_n2_unique [where c = "CHR '':''"]
    have "m \<noteq> ''*''" using parts by (cases ms) auto
    then have "blastRadiusFits t m \<longleftrightarrow> ts = ms \<and> (mv = ''*'' \<or> tv = mv)"
      using t(3) parts(3) by (simp add: blastRadiusFits_def)
    moreover have "t = m \<longleftrightarrow> ts = ms \<and> tv = mv" using t(1) parts(1) same [OF t(2) parts(2)] by blast
    moreover have "(\<exists>scope v. CHR '':'' \<notin> set scope \<and> t = scope @ CHR '':'' # v
        \<and> m = scope @ CHR '':'' # ''*'') \<longleftrightarrow> ts = ms \<and> mv = ''*''"
      using t(1,2) parts(1,2) by (metis same)
    ultimately show ?thesis using \<open>m \<noteq> ''*''\<close> by blast
  qed
qed

lemma extractKID_empty: "extractKID s = ''''"
  by (simp add: extractKID_def)

text \<open>The authorization stage on a registered tool.\<close>

lemma call_authorize_Inr_iff:
  assumes "vr_registry cfg = Some reg" and "toolID \<noteq> ''''"
  shows "call_authorize cfg toolID c = Inr c' \<longleftrightarrow>
    (\<exists>tool. McpRegistry_Get reg toolID = Some tool \<and> vc_audience c = resource_of tool
       \<and> set (te_required_capabilities tool) \<subseteq> set (vc_capabilities c)
       \<and> (te_max_blast_radius tool \<noteq> '''' \<longrightarrow> vc_blast_radius c \<noteq> '''' \<longrightarrow>
            blastRadiusFits (vc_blast_radius c) (te_max_blast_radius tool))
       \<and> c' = c\<lparr>vc_tool_id := toolID, vc_resource := resource_of tool\<rparr>)"
proof (cases "McpRegistry_Get reg toolID")
  case None
  with assms show ?thesis by (simp add: call_authorize_def)
next
  case (Some tool)
  with assms checkCapabilities_None_iff [of "vc_capabilities c" "te_required_capabilities tool"]
  show ?thesis
    by (cases "checkCapabilities (vc_capabilities c) (te_required_capabilities tool)")
      (auto simp: call_authorize_def Let_def)
qed

lemma call_revocation_None_iff:
  "call_revocation cfg subject = None \<longleftrightarrow>
     (\<forall>check. vr_revocation cfg = Some check \<longrightarrow> fst (check subject) = None)"
  by (auto simp: call_revocation_def split: option.splits)

lemma call_policy_None_iff:
  "call_policy cfg inp = None \<longleftrightarrow>
     (\<forall>evaluate. vr_policy cfg = Some evaluate \<longrightarrow> (\<exists>d. evaluate inp = Inr d \<and> pd_allowed d))"
  by (auto simp: call_policy_def split: option.splits sum.splits)

text \<open>What an execution-bound call satisfies.\<close>

definition binding_holds ::
  "('key, 'alg, 'raw) jose \<Rightarrow> execution_scope option \<Rightarrow> 'a tool_entry_scheme \<Rightarrow> string option \<Rightarrow> bool" where
  "binding_holds J ex tool body \<longleftrightarrow>
     (case ex of
        None \<Rightarrow> \<not> te_requires_execution tool
      | Some x \<Rightarrow>
          (te_allowed_operations tool = [] \<or> xs_exec_act x = ''''
             \<or> xs_exec_act x \<in> set (te_allowed_operations tool))
          \<and> (\<forall>b. xs_input_hash x \<noteq> '''' \<longrightarrow> body = Some b \<longrightarrow> jo_sha256_b64url J b = xs_input_hash x)
          \<and> (te_requires_execution tool \<longrightarrow> xs_input_hash x \<noteq> '''')
          \<and> (te_allowed_targets tool = [] \<or> xs_target x = ''''
             \<or> xs_target x \<in> set (te_allowed_targets tool)))"

definition body_of :: "verify_options option \<Rightarrow> string option" where
  "body_of opts = (case opts of None \<Rightarrow> None | Some v \<Rightarrow> vo_request_body v)"

lemma verifyExecutionBinding_None_iff:
  "verifyExecutionBinding J c tool opts = None \<longleftrightarrow>
     binding_holds J (vc_execution c) tool (body_of opts)"
  by (auto simp: verifyExecutionBinding_def binding_holds_def Let_def body_of_def
      computeInputHash_def split: option.splits if_splits)

lemma call_dpop_keeps:
  "call_dpop V cfg opts c = Inr c' \<Longrightarrow> \<exists>tp. c' = c\<lparr>vc_cnf_thumbprint := tp\<rparr>"
  by (auto simp: call_dpop_def split: sum.splits)

end
