(* ===== verification/Workflow_Graph.thy ===== *)
theory Workflow_Graph
  imports Core_Types
begin

text \<open>
  \<open>src/pkg/mcp/workflow.go\<close>: the tracker that records the execution context tokens of a
  workflow as a graph of tasks and their parents. The task maps are association lists as
  everywhere; the set \<open>visited\<close> of the ancestor traversal is the list of the keys set to
  true. The read-write lock makes every operation one step of the tracker, so a history is
  a sequence of steps (\<open>tracker_reach\<close>).
\<close>

section \<open>Model\<close>

record task_record =
  tr_jti :: string
  tr_issued_at :: go_time
  tr_parents :: "string list"

type_synonym tasks = "(string, task_record) gomap"

record workflow =
  wf_id :: string
  wf_tasks :: tasks
  wf_created_at :: go_time
  wf_updated_at :: go_time

record workflow_tracker =
  wt_workflows :: "(string, workflow) gomap"
  wt_ttl :: duration
  wt_clock_skew :: duration
  wt_global_tasks :: tasks

datatype dag_error =
    DuplicateTaskID string
  | ParentNotFound string
  | TemporalViolation string go_time go_time
  | CycleDetected string

definition DefaultWorkflowTTL :: duration where
  "DefaultWorkflowTTL = 1 * go_hour"

definition DefaultClockSkew :: duration where
  "DefaultClockSkew = 30 * go_second"

definition MaxAncestorTraversal :: nat where
  "MaxAncestorTraversal = 10000"

definition WithWorkflowTTL :: "duration \<Rightarrow> workflow_tracker \<Rightarrow> workflow_tracker" where
  "WithWorkflowTTL ttl wt = wt\<lparr>wt_ttl := ttl\<rparr>"

definition WithClockSkew :: "duration \<Rightarrow> workflow_tracker \<Rightarrow> workflow_tracker" where
  "WithClockSkew skew wt = wt\<lparr>wt_clock_skew := skew\<rparr>"

text \<open>The options, in the order given; each is one of the two above.\<close>

datatype tracker_option =
    OptWorkflowTTL duration
  | OptClockSkew duration

primrec apply_option :: "tracker_option \<Rightarrow> workflow_tracker \<Rightarrow> workflow_tracker" where
  "apply_option (OptWorkflowTTL ttl) wt = WithWorkflowTTL ttl wt"
| "apply_option (OptClockSkew skew) wt = WithClockSkew skew wt"

definition NewWorkflowTracker :: "tracker_option list \<Rightarrow> workflow_tracker" where
  "NewWorkflowTracker opts =
     fold apply_option opts
       \<lparr>wt_workflows = [], wt_ttl = DefaultWorkflowTTL, wt_clock_skew = DefaultClockSkew,
        wt_global_tasks = []\<rparr>"

text \<open>A workflow that is not there has the nil map, which reads as an empty one.\<close>

definition tasksForScope :: "workflow_tracker \<Rightarrow> string \<Rightarrow> tasks" where
  "tasksForScope wt workflowID =
     (if workflowID = '''' then wt_global_tasks wt
      else case map_of (wt_workflows wt) workflowID of None \<Rightarrow> [] | Some w \<Rightarrow> wf_tasks w)"

text \<open>
  The loop of \<open>checkAcyclicity\<close>: \<open>depth\<close> counts the entries taken from the queue, and the
  loop ends without an error when it reaches the limit.
\<close>

function ancestor_walk ::
  "tasks \<Rightarrow> string \<Rightarrow> nat \<Rightarrow> string list \<Rightarrow> string list \<Rightarrow> dag_error option" where
  "ancestor_walk tasks newJTI depth visited [] = None"
| "ancestor_walk tasks newJTI depth visited (current # queue) =
     (if \<not> depth < MaxAncestorTraversal then None
      else if current = newJTI then Some (CycleDetected newJTI)
      else if current \<in> set visited then ancestor_walk tasks newJTI (depth + 1) visited queue
      else case map_of tasks current of
        Some parent \<Rightarrow>
          ancestor_walk tasks newJTI (depth + 1) (current # visited) (queue @ tr_parents parent)
      | None \<Rightarrow> ancestor_walk tasks newJTI (depth + 1) (current # visited) queue)"
  by pat_completeness auto
termination
  by (relation "measure (\<lambda>(tasks, newJTI, depth, visited, queue). MaxAncestorTraversal - depth)") auto

definition checkAcyclicity :: "tasks \<Rightarrow> string \<Rightarrow> string list \<Rightarrow> dag_error option" where
  "checkAcyclicity tasks newJTI parentIDs = ancestor_walk tasks newJTI 0 [] parentIDs"

definition find_missing_parent :: "tasks \<Rightarrow> string list \<Rightarrow> string option" where
  "find_missing_parent tasks parentIDs = find (\<lambda>pid. \<not> gomap_has tasks pid) parentIDs"

definition find_late_parent ::
  "tasks \<Rightarrow> duration \<Rightarrow> go_time \<Rightarrow> string list \<Rightarrow> string option" where
  "find_late_parent tasks skew issuedAt parentIDs =
     find (\<lambda>pid. case map_of tasks pid of
             None \<Rightarrow> False
           | Some parent \<Rightarrow> time_after (tr_issued_at parent) (time_add issuedAt skew)) parentIDs"

definition store_task ::
  "string \<Rightarrow> task_record \<Rightarrow> workflow_tracker \<Rightarrow> workflow_tracker" where
  "store_task workflowID record wt =
     (if workflowID \<noteq> '''' then
        let w = (case map_of (wt_workflows wt) workflowID of
                    Some w \<Rightarrow> w
                  | None \<Rightarrow> \<lparr>wf_id = workflowID, wf_tasks = [], wf_created_at = tr_issued_at record,
                             wf_updated_at = 0\<rparr>);
            w' = w\<lparr>wf_tasks := AList.update (tr_jti record) record (wf_tasks w),
                     wf_updated_at := tr_issued_at record\<rparr>
        in wt\<lparr>wt_workflows := AList.update workflowID w' (wt_workflows wt)\<rparr>
      else wt\<lparr>wt_global_tasks := AList.update (tr_jti record) record (wt_global_tasks wt)\<rparr>)"

definition RecordTask ::
  "string \<Rightarrow> string \<Rightarrow> go_time \<Rightarrow> string list \<Rightarrow> workflow_tracker
   \<Rightarrow> dag_error option \<times> workflow_tracker" where
  "RecordTask workflowID jti issuedAt parentIDs wt =
     (let tasks = tasksForScope wt workflowID
      in if gomap_has tasks jti then (Some (DuplicateTaskID jti), wt)
         else case find_missing_parent tasks parentIDs of
           Some pid \<Rightarrow> (Some (ParentNotFound pid), wt)
         | None \<Rightarrow>
             case find_late_parent tasks (wt_clock_skew wt) issuedAt parentIDs of
               Some pid \<Rightarrow>
                 (Some (TemporalViolation pid (tr_issued_at (the (map_of tasks pid))) issuedAt), wt)
             | None \<Rightarrow>
                 case checkAcyclicity tasks jti parentIDs of
                   Some e \<Rightarrow> (Some e, wt)
                 | None \<Rightarrow>
                     (None, store_task workflowID
                        \<lparr>tr_jti = jti, tr_issued_at = issuedAt, tr_parents = parentIDs\<rparr> wt))"

definition GetTask :: "workflow_tracker \<Rightarrow> string \<Rightarrow> string \<Rightarrow> task_record option" where
  "GetTask wt workflowID jti = map_of (tasksForScope wt workflowID) jti"

definition WorkflowSize :: "workflow_tracker \<Rightarrow> string \<Rightarrow> nat" where
  "WorkflowSize wt workflowID =
     (if workflowID = '''' then length (wt_global_tasks wt)
      else case map_of (wt_workflows wt) workflowID of
        None \<Rightarrow> 0 | Some w \<Rightarrow> length (wf_tasks w))"

definition ActiveWorkflows :: "workflow_tracker \<Rightarrow> nat" where
  "ActiveWorkflows wt = length (wt_workflows wt)"

definition Tracker_Cleanup :: "go_time \<Rightarrow> workflow_tracker \<Rightarrow> nat \<times> workflow_tracker" where
  "Tracker_Cleanup now wt =
     (let cutoff = time_add now (- wt_ttl wt);
          stale = (\<lambda>(wid, w). time_before (wf_updated_at w) cutoff);
          old = (\<lambda>(jti, t). time_before (tr_issued_at t) cutoff)
      in (length (filter stale (wt_workflows wt)),
          wt\<lparr>wt_workflows := filter (\<lambda>x. \<not> stale x) (wt_workflows wt),
             wt_global_tasks := filter (\<lambda>x. \<not> old x) (wt_global_tasks wt)\<rparr>))"

section \<open>Histories\<close>

inductive tracker_reach :: "workflow_tracker \<Rightarrow> bool" where
  new: "tracker_reach (NewWorkflowTracker opts)"
| record_task: "tracker_reach wt \<Longrightarrow> RecordTask wid jti iat ps wt = (r, wt') \<Longrightarrow> tracker_reach wt'"
| cleanup: "tracker_reach wt \<Longrightarrow> tracker_reach (snd (Tracker_Cleanup now wt))"

section \<open>The traversal\<close>

text \<open>The edges of a task graph lead from a task to its parents.\<close>

definition parent_rel :: "tasks \<Rightarrow> (string \<times> string) set" where
  "parent_rel tasks = {(c, p). \<exists>t. map_of tasks c = Some t \<and> p \<in> set (tr_parents t)}"

definition pending :: "tasks \<Rightarrow> string list \<Rightarrow> nat" where
  "pending tasks visited =
     sum_list (map (\<lambda>(k, t). if k \<in> set visited then 0 else length (tr_parents t)) tasks)"

text \<open>All parent references of a scope.\<close>

definition edge_count :: "tasks \<Rightarrow> nat" where
  "edge_count tasks = sum_list (map (\<lambda>(k, t). length (tr_parents t)) tasks)"

lemma pending_Nil: "pending tasks [] = edge_count tasks"
  by (simp add: pending_def edge_count_def)

lemma pending_mono: "pending tasks (c # visited) \<le> pending tasks visited"
  unfolding pending_def by (rule sum_list_mono) auto

lemma pending_other: "c \<notin> fst ` set tasks \<Longrightarrow> pending tasks (c # visited) = pending tasks visited"
  by (induction tasks) (auto simp: pending_def)

lemma pending_visit:
  assumes "gomap_wf tasks" and "map_of tasks c = Some t" and "c \<notin> set visited"
  shows "pending tasks (c # visited) + length (tr_parents t) = pending tasks visited"
  using assms
proof (induction tasks)
  case (Cons kt tasks)
  obtain k u where [simp]: "kt = (k, u)" by force
  show ?case
  proof (cases "k = c")
    case True
    then have "c \<notin> fst ` set tasks" using Cons.prems(1) by (simp add: gomap_wf_def)
    with pending_other [OF this] True Cons.prems show ?thesis by (simp add: pending_def)
  next
    case False
    with Cons have "pending tasks (c # visited) + length (tr_parents t) = pending tasks visited"
      by (simp add: gomap_wf_def)
    with False show ?thesis by (simp add: pending_def)
  qed
qed simp

lemma parent_rel_intro: "map_of tasks c = Some t \<Longrightarrow> p \<in> set (tr_parents t) \<Longrightarrow> (c, p) \<in> parent_rel tasks"
  by (auto simp: parent_rel_def)

text \<open>Whatever the traversal reports is an ancestor.\<close>

lemma ancestor_walk_sound:
  "ancestor_walk tasks new d visited queue = Some e \<Longrightarrow>
   e = CycleDetected new \<and> (\<exists>q \<in> set queue. (q, new) \<in> (parent_rel tasks)\<^sup>*)"
proof (induction tasks new d visited queue rule: ancestor_walk.induct)
  case (2 tasks new d visited c queue)
  show ?case
  proof (cases "c = new \<or> c \<in> set visited \<or> map_of tasks c = None")
    case True
    with 2 show ?thesis by (auto split: if_splits option.splits)
  next
    case False
    then obtain t where t: "map_of tasks c = Some t" "c \<noteq> new" "c \<notin> set visited" by auto
    with 2 have "e = CycleDetected new"
      "\<exists>q \<in> set (queue @ tr_parents t). (q, new) \<in> (parent_rel tasks)\<^sup>*"
      by (auto split: if_splits)
    then show ?thesis using parent_rel_intro [OF t(1)]
      by (auto intro: converse_rtrancl_into_rtrancl)
  qed
qed simp

text \<open>With enough budget it misses none.\<close>

lemma closed_rtrancl:
  "(\<And>x y. x \<in> A \<Longrightarrow> (x, y) \<in> r \<Longrightarrow> y \<in> A) \<Longrightarrow> (a, b) \<in> r\<^sup>* \<Longrightarrow> a \<in> A \<Longrightarrow> b \<in> A"
  by (erule rtrancl_induct) auto

lemma ancestor_walk_complete:
  "ancestor_walk tasks new d visited queue = None \<Longrightarrow> gomap_wf tasks \<Longrightarrow>
   d + length queue + pending tasks visited \<le> MaxAncestorTraversal \<Longrightarrow> new \<notin> set visited \<Longrightarrow>
   \<forall>v \<in> set visited. \<forall>p. (v, p) \<in> parent_rel tasks \<longrightarrow> p \<in> set visited \<union> set queue \<Longrightarrow>
   q \<in> set visited \<union> set queue \<Longrightarrow> (q, new) \<notin> (parent_rel tasks)\<^sup>*"
proof (induction tasks new d visited queue rule: ancestor_walk.induct)
  case (1 tasks new d visited)
  then show ?case using closed_rtrancl [of "set visited" "parent_rel tasks" q new] by auto
next
  case (2 tasks new d visited c queue)
  have d: "d < MaxAncestorTraversal" and c: "c \<noteq> new" using 2(4,6) by (auto split: if_splits)
  show ?case
  proof (cases "c \<in> set visited")
    case True
    show ?thesis using 2(4-9) d c True by (intro 2(1)) auto
  next
    case False
    show ?thesis
    proof (cases "map_of tasks c")
      case None
      then have "\<And>p. (c, p) \<notin> parent_rel tasks" by (simp add: parent_rel_def)
      then show ?thesis using 2(4-9) d c False None pending_mono [of tasks c visited]
        by (intro 2(2)) auto
    next
      case (Some t)
      have "\<And>p. (c, p) \<in> parent_rel tasks \<longleftrightarrow> p \<in> set (tr_parents t)"
        using Some by (simp add: parent_rel_def)
      then show ?thesis using 2(4-9) d c False Some pending_visit [OF 2(5) Some False]
        by (intro 2(3)) auto
    qed
  qed
qed

text \<open>
  The optimised check against the reference notion: within the budget, \<open>checkAcyclicity\<close>
  reports exactly the new tasks that would be their own ancestors.
\<close>

lemma checkAcyclicity_iff:
  assumes "gomap_wf tasks" and "length ps + edge_count tasks \<le> MaxAncestorTraversal"
  shows "checkAcyclicity tasks jti ps =
    (if \<exists>p \<in> set ps. (p, jti) \<in> (parent_rel tasks)\<^sup>* then Some (CycleDetected jti) else None)"
proof (cases "checkAcyclicity tasks jti ps")
  case None
  then have "ancestor_walk tasks jti 0 [] ps = None" by (simp add: checkAcyclicity_def)
  from ancestor_walk_complete [OF this assms(1)] assms(2) None show ?thesis
    by (auto simp: pending_Nil)
next
  case (Some e)
  with ancestor_walk_sound [of tasks jti 0 "[]" ps] show ?thesis
    by (auto simp: checkAcyclicity_def)
qed

section \<open>Recording and cleaning up\<close>

lemma tasksForScope_store:
  "tasksForScope (store_task wid rec wt) w =
     (if w = wid then AList.update (tr_jti rec) rec (tasksForScope wt wid) else tasksForScope wt w)"
  by (auto simp: store_task_def tasksForScope_def gomap_simps Let_def split: option.splits)

lemma RecordTask_None_iff:
  "fst (RecordTask wid jti iat ps wt) = None \<longleftrightarrow>
     \<not> gomap_has (tasksForScope wt wid) jti \<and>
     (\<forall>p \<in> set ps. \<exists>t. map_of (tasksForScope wt wid) p = Some t
        \<and> tr_issued_at t \<le> iat + wt_clock_skew wt) \<and>
     checkAcyclicity (tasksForScope wt wid) jti ps = None"
proof -
  let ?ts = "tasksForScope wt wid"
  have 1: "find_missing_parent ?ts ps = None \<longleftrightarrow> (\<forall>p \<in> set ps. map_of ?ts p \<noteq> None)"
    by (auto simp: find_missing_parent_def find_None_iff gomap_has_def)
  have 2: "find_late_parent ?ts (wt_clock_skew wt) iat ps = None \<longleftrightarrow>
      (\<forall>p \<in> set ps. \<forall>t. map_of ?ts p = Some t \<longrightarrow> tr_issued_at t \<le> iat + wt_clock_skew wt)"
    by (auto simp: find_late_parent_def find_None_iff time_after_def time_add_def not_less
        split: option.splits)
  have "fst (RecordTask wid jti iat ps wt) = None \<longleftrightarrow> \<not> gomap_has ?ts jti
      \<and> find_missing_parent ?ts ps = None
      \<and> find_late_parent ?ts (wt_clock_skew wt) iat ps = None
      \<and> checkAcyclicity ?ts jti ps = None"
    by (simp add: RecordTask_def Let_def split: option.split)
  moreover have "(\<forall>p \<in> set ps. map_of ?ts p \<noteq> None) \<and>
      (\<forall>p \<in> set ps. \<forall>t. map_of ?ts p = Some t \<longrightarrow> tr_issued_at t \<le> iat + wt_clock_skew wt) \<longleftrightarrow>
      (\<forall>p \<in> set ps. \<exists>t. map_of ?ts p = Some t \<and> tr_issued_at t \<le> iat + wt_clock_skew wt)"
    by fastforce
  ultimately show ?thesis unfolding 1 2 by blast
qed

lemma RecordTask_cases:
  assumes "RecordTask wid jti iat ps wt = (r, wt')"
  obtains (refused) e where "r = Some e" and "wt' = wt"
  | (stored) "r = None"
      and "wt' = store_task wid \<lparr>tr_jti = jti, tr_issued_at = iat, tr_parents = ps\<rparr> wt"
  using assms by (fastforce simp: RecordTask_def Let_def split: if_splits option.splits)

lemma tasksForScope_cleanup_global:
  "tasksForScope (snd (Tracker_Cleanup now wt)) '''' =
   filter (\<lambda>x. \<not> (case x of (jti, t) \<Rightarrow> time_before (tr_issued_at t) (time_add now (- wt_ttl wt))))
     (tasksForScope wt '''')"
  by (simp add: Tracker_Cleanup_def tasksForScope_def Let_def)

lemma tasksForScope_cleanup:
  assumes "gomap_wf (wt_workflows wt)" and "w \<noteq> ''''"
  shows "tasksForScope (snd (Tracker_Cleanup now wt)) w \<in> {[], tasksForScope wt w}"
proof -
  have "filter (\<lambda>x. \<not> (case x of (k, u) \<Rightarrow> time_before (wf_updated_at u) c)) m =
      filter (\<lambda>(k, u). \<not> time_before (wf_updated_at u) c) m" for c and m :: "(string \<times> workflow) list"
    by (rule filter_cong) auto
  then show ?thesis using assms
    by (auto simp: Tracker_Cleanup_def tasksForScope_def Let_def map_of_filter split: option.splits)
qed

lemma option_keeps_maps:
  "wt_workflows (apply_option opt wt) = wt_workflows wt"
  "wt_global_tasks (apply_option opt wt) = wt_global_tasks wt"
  by (cases opt; simp add: WithWorkflowTTL_def WithClockSkew_def)+

lemma NewWorkflowTracker_empty:
  "wt_workflows (NewWorkflowTracker opts) = []" "wt_global_tasks (NewWorkflowTracker opts) = []"
proof -
  have "wt_workflows (fold apply_option opts wt) = wt_workflows wt \<and>
    wt_global_tasks (fold apply_option opts wt) = wt_global_tasks wt" for wt
    by (induction opts arbitrary: wt) (simp_all add: option_keeps_maps)
  then show "wt_workflows (NewWorkflowTracker opts) = []"
    "wt_global_tasks (NewWorkflowTracker opts) = []"
    by (simp_all add: NewWorkflowTracker_def)
qed

lemma tracker_settings:
  "wt_clock_skew (store_task wid rec wt) = wt_clock_skew wt"
  "wt_clock_skew (snd (Tracker_Cleanup now wt)) = wt_clock_skew wt"
  by (simp_all add: store_task_def Tracker_Cleanup_def Let_def)

section \<open>Acyclic graphs\<close>

lemma parent_rel_update:
  "map_of tasks (tr_jti t) = None \<Longrightarrow>
   parent_rel (AList.update (tr_jti t) t tasks) = parent_rel tasks \<union> {tr_jti t} \<times> set (tr_parents t)"
  by (auto simp: parent_rel_def gomap_simps split: if_splits)

lemma rtrancl_to_new:
  "(a, j) \<in> (r \<union> {j} \<times> P)\<^sup>* \<Longrightarrow> (a, j) \<in> r\<^sup>*"
  by (induction rule: converse_rtrancl_induct) (auto intro: converse_rtrancl_into_rtrancl)

lemma trancl_through_new:
  "(a, b) \<in> (r \<union> {j} \<times> P)\<^sup>+ \<Longrightarrow>
   (a, b) \<in> r\<^sup>+ \<or> (\<exists>p \<in> P. (a, j) \<in> r\<^sup>* \<and> (p, b) \<in> (r \<union> {j} \<times> P)\<^sup>*)"
proof (induction rule: trancl_induct)
  case (base y)
  then show ?case by auto
next
  case (step y z)
  from step.IH show ?case
  proof (elim disjE bexE conjE)
    assume ay: "(a, y) \<in> r\<^sup>+"
    show ?thesis
    proof (cases "(y, z) \<in> r")
      case True
      with ay show ?thesis by (auto intro: trancl_into_trancl)
    next
      case False
      with step.hyps(2) have "y = j" "z \<in> P" by auto
      with ay show ?thesis by (auto intro: trancl_into_rtrancl)
    qed
  next
    fix p assume "p \<in> P" "(a, j) \<in> r\<^sup>*" "(p, y) \<in> (r \<union> {j} \<times> P)\<^sup>*"
    with step.hyps(2) show ?thesis by (meson rtrancl_into_rtrancl)
  qed
qed

lemma acyclic_extend:
  assumes "acyclic r" and "\<forall>p \<in> P. (p, j) \<notin> r\<^sup>*"
  shows "acyclic (r \<union> {j} \<times> P)"
proof (rule acyclicI, rule allI, rule notI)
  fix x assume "(x, x) \<in> (r \<union> {j} \<times> P)\<^sup>+"
  with trancl_through_new assms(1) obtain p where
    p: "p \<in> P" "(x, j) \<in> r\<^sup>*" "(p, x) \<in> (r \<union> {j} \<times> P)\<^sup>*" by (fastforce simp: acyclic_def)
  have "(x, j) \<in> (r \<union> {j} \<times> P)\<^sup>*" using p(2) rtrancl_mono [of r "r \<union> {j} \<times> P"] by blast
  with p(3) have "(p, j) \<in> (r \<union> {j} \<times> P)\<^sup>*" by (rule rtrancl_trans)
  with rtrancl_to_new assms(2) p(1) show False by fast
qed

text \<open>
  What a workflow keeps: keys are the task identifiers, parents are recorded and not issued
  after their children by more than the tolerated skew, and no task is its own ancestor.
\<close>

definition scope_ok :: "duration \<Rightarrow> tasks \<Rightarrow> bool" where
  "scope_ok skew tasks \<longleftrightarrow>
     (\<forall>c t. map_of tasks c = Some t \<longrightarrow> tr_jti t = c \<and>
        (\<forall>p \<in> set (tr_parents t). \<exists>u. map_of tasks p = Some u
           \<and> tr_issued_at u \<le> tr_issued_at t + skew)) \<and>
     acyclic (parent_rel tasks)"

lemma scope_ok_Nil [simp]: "scope_ok skew []"
  by (simp add: scope_ok_def parent_rel_def acyclic_def)

text \<open>In such a graph a task that is not recorded is nobody's ancestor.\<close>

lemma scope_ok_closed:
  "scope_ok skew tasks \<Longrightarrow> (x, y) \<in> parent_rel tasks \<Longrightarrow> y \<in> dom (map_of tasks)"
  unfolding scope_ok_def parent_rel_def by blast

lemma scope_ok_fresh:
  assumes "scope_ok skew tasks" and "map_of tasks jti = None" and "gomap_has tasks p"
  shows "(p, jti) \<notin> (parent_rel tasks)\<^sup>*"
proof
  assume "(p, jti) \<in> (parent_rel tasks)\<^sup>*"
  then have "jti \<in> dom (map_of tasks)"
    by (rule closed_rtrancl [rotated])
      (use scope_ok_closed [OF assms(1)] assms(3) in \<open>auto simp: gomap_has_def\<close>)
  with assms(2) show False by auto
qed

lemma scope_ok_no_cycle:
  assumes "scope_ok skew tasks" and "map_of tasks jti = None" and "\<forall>p \<in> set ps. gomap_has tasks p"
  shows "checkAcyclicity tasks jti ps = None"
  using ancestor_walk_sound [of tasks jti 0 "[]" ps] scope_ok_fresh [OF assms(1,2)] assms(3)
  by (cases "checkAcyclicity tasks jti ps") (auto simp: checkAcyclicity_def)

lemma scope_ok_update:
  assumes "scope_ok skew tasks" and "map_of tasks (tr_jti t) = None"
    and "\<forall>p \<in> set (tr_parents t). \<exists>u. map_of tasks p = Some u \<and> tr_issued_at u \<le> tr_issued_at t + skew"
  shows "scope_ok skew (AList.update (tr_jti t) t tasks)"
proof -
  have "acyclic (parent_rel (AList.update (tr_jti t) t tasks))"
    unfolding parent_rel_update [OF assms(2)]
    by (rule acyclic_extend) (use assms scope_ok_fresh [OF assms(1,2)] in
        \<open>auto simp: scope_ok_def gomap_has_def\<close>)
  with assms show ?thesis by (fastforce simp: scope_ok_def gomap_simps)
qed

definition tracker_ok :: "workflow_tracker \<Rightarrow> bool" where
  "tracker_ok wt \<longleftrightarrow> gomap_wf (wt_workflows wt) \<and> (\<forall>w. gomap_wf (tasksForScope wt w)) \<and>
     (\<forall>w. w \<noteq> '''' \<longrightarrow> scope_ok (wt_clock_skew wt) (tasksForScope wt w))"

lemma tracker_ok_New: "tracker_ok (NewWorkflowTracker opts)"
  by (simp add: tracker_ok_def tasksForScope_def NewWorkflowTracker_empty)

lemma tracker_ok_RecordTask:
  assumes ok: "tracker_ok wt" and rt: "RecordTask wid jti iat ps wt = (r, wt')"
  shows "tracker_ok wt'"
  using rt
proof (cases rule: RecordTask_cases)
  case (refused e)
  with ok show ?thesis by simp
next
  case stored
  let ?t = "\<lparr>tr_jti = jti, tr_issued_at = iat, tr_parents = ps\<rparr>"
  from stored rt have acc: "fst (RecordTask wid jti iat ps wt) = None" by simp
  have wfs: "gomap_wf (wt_workflows wt')"
    using ok stored by (simp add: tracker_ok_def store_task_def Let_def)
  have "scope_ok (wt_clock_skew wt) (AList.update jti ?t (tasksForScope wt wid))" if "wid \<noteq> ''''"
    using ok that acc scope_ok_update [of "wt_clock_skew wt" "tasksForScope wt wid" ?t]
    by (simp add: tracker_ok_def RecordTask_None_iff gomap_has_def)
  with ok stored wfs show ?thesis
    by (auto simp: tracker_ok_def tasksForScope_store tracker_settings)
qed

lemma tracker_ok_cleanup:
  assumes "tracker_ok wt"
  shows "tracker_ok (snd (Tracker_Cleanup now wt))"
proof -
  let ?wt = "snd (Tracker_Cleanup now wt)"
  have "gomap_wf (tasksForScope ?wt w) \<and>
      (w \<noteq> '''' \<longrightarrow> scope_ok (wt_clock_skew wt) (tasksForScope ?wt w))" for w
  proof (cases "w = ''''")
    case True
    have "gomap_wf (tasksForScope wt '''')" using assms by (simp add: tracker_ok_def)
    with True show ?thesis by (simp add: tasksForScope_cleanup_global)
  next
    case False
    with assms tasksForScope_cleanup [of wt w now] show ?thesis by (auto simp: tracker_ok_def)
  qed
  moreover have "gomap_wf (wt_workflows ?wt)"
    using assms by (simp add: tracker_ok_def Tracker_Cleanup_def Let_def)
  ultimately show ?thesis by (simp add: tracker_ok_def tracker_settings)
qed

lemma tracker_reach_ok: "tracker_reach wt \<Longrightarrow> tracker_ok wt"
  by (induction rule: tracker_reach.induct)
    (auto intro: tracker_ok_New tracker_ok_RecordTask tracker_ok_cleanup)

section \<open>Guarantees\<close>

text \<open>
  C23. In every workflow of every history of the tracker the recorded tasks form a directed
  acyclic graph: each task is filed under its identifier, its parents are recorded in the
  same workflow and were issued no later than the tolerated skew after it, and no task is
  its own ancestor.
\<close>

theorem workflow_dag:
  assumes "tracker_reach wt" and "wid \<noteq> ''''"
  shows "acyclic (parent_rel (tasksForScope wt wid)) \<and>
    (\<forall>jti t. GetTask wt wid jti = Some t \<longrightarrow> tr_jti t = jti \<and>
       (\<forall>p \<in> set (tr_parents t). \<exists>u. GetTask wt wid p = Some u
          \<and> tr_issued_at u \<le> tr_issued_at t + wt_clock_skew wt))"
  using tracker_reach_ok [OF assms(1)] assms(2)
  by (simp add: tracker_ok_def scope_ok_def GetTask_def)

definition demo_tracker :: workflow_tracker where
  "demo_tracker = snd (RecordTask ''w'' ''b'' (20 * go_second) [''a'']
     (snd (RecordTask ''w'' ''a'' (40 * go_second) [] (NewWorkflowTracker []))))"

lemma demo_tracker_reach: "tracker_reach demo_tracker"
  unfolding demo_tracker_def
  by (rule tracker_reach.record_task [OF _ prod.collapse [symmetric]],
      rule tracker_reach.record_task [OF _ prod.collapse [symmetric]], rule tracker_reach.new)

lemma demo_tracker_tasks:
  "tasksForScope demo_tracker ''w'' =
     [(''a'', \<lparr>tr_jti = ''a'', tr_issued_at = 40 * go_second, tr_parents = []\<rparr>),
      (''b'', \<lparr>tr_jti = ''b'', tr_issued_at = 20 * go_second, tr_parents = [''a'']\<rparr>)]"
  "wt_clock_skew demo_tracker = 30 * go_second"
  by code_simp+

theorem workflow_dag_witness:
  "GetTask demo_tracker ''w'' ''b'' =
     Some \<lparr>tr_jti = ''b'', tr_issued_at = 20 * go_second, tr_parents = [''a'']\<rparr> \<and>
   (\<exists>u. GetTask demo_tracker ''w'' ''a'' = Some u)"
proof -
  have b: "GetTask demo_tracker ''w'' ''b'' =
     Some \<lparr>tr_jti = ''b'', tr_issued_at = 20 * go_second, tr_parents = [''a'']\<rparr>"
    by (simp add: GetTask_def demo_tracker_tasks)
  have "(''w'' :: string) \<noteq> ''''" by simp
  from workflow_dag [OF demo_tracker_reach this] b show ?thesis by fastforce
qed

text \<open>
  What \<open>RecordTask\<close> accepts in a workflow: exactly the tasks with a new identifier whose
  parents are all recorded and not issued too late, so the ancestor check never refuses
  there; an accepted task can be read back, a refused one changes nothing, and no other
  task or scope is touched.
\<close>

theorem record_task_exact:
  assumes "tracker_reach wt" and "wid \<noteq> ''''" and "RecordTask wid jti iat ps wt = (r, wt')"
  shows "(r = None \<longleftrightarrow> GetTask wt wid jti = None \<and>
      (\<forall>p \<in> set ps. \<exists>t. GetTask wt wid p = Some t \<and> tr_issued_at t \<le> iat + wt_clock_skew wt))
    \<and> (r \<noteq> None \<longrightarrow> wt' = wt)
    \<and> (r = None \<longrightarrow> (\<forall>w j. GetTask wt' w j =
         (if w = wid \<and> j = jti then Some \<lparr>tr_jti = jti, tr_issued_at = iat, tr_parents = ps\<rparr>
          else GetTask wt w j)))"
proof -
  let ?ts = "tasksForScope wt wid"
  have ok: "scope_ok (wt_clock_skew wt) ?ts"
    using tracker_reach_ok [OF assms(1)] assms(2) by (simp add: tracker_ok_def)
  have "r = None \<longleftrightarrow> map_of ?ts jti = None \<and>
      (\<forall>p \<in> set ps. \<exists>t. map_of ?ts p = Some t \<and> tr_issued_at t \<le> iat + wt_clock_skew wt)"
    using RecordTask_None_iff [of wid jti iat ps wt] assms(3) scope_ok_no_cycle [OF ok, of jti ps]
    by (fastforce simp: gomap_has_def)
  with assms(3) show ?thesis
    by (cases rule: RecordTask_cases) (auto simp: GetTask_def tasksForScope_store gomap_simps)
qed

theorem record_task_exact_witness:
  "fst (RecordTask ''w'' ''c'' 0 [''b'', ''a''] demo_tracker) =
     Some (TemporalViolation ''a'' (40 * go_second) 0) \<and>
   fst (RecordTask ''w'' ''c'' (20 * go_second) [''b'', ''a''] demo_tracker) = None"
proof -
  have w: "(''w'' :: string) \<noteq> ''''" by simp
  have "GetTask demo_tracker ''w'' ''c'' = None \<and>
    (\<forall>p \<in> set [''b'', ''a'']. \<exists>t. GetTask demo_tracker ''w'' p = Some t \<and>
       tr_issued_at t \<le> 20 * go_second + wt_clock_skew demo_tracker)"
    by (simp add: GetTask_def demo_tracker_tasks go_second_def)
  with record_task_exact [OF demo_tracker_reach w prod.collapse [symmetric]]
  have "fst (RecordTask ''w'' ''c'' (20 * go_second) [''b'', ''a''] demo_tracker) = None" by blast
  moreover have "fst (RecordTask ''w'' ''c'' 0 [''b'', ''a''] demo_tracker) =
     Some (TemporalViolation ''a'' (40 * go_second) 0)" by code_simp
  ultimately show ?thesis by simp
qed

text \<open>
  C24. The breadth-first ancestor check is exact as long as the references it can meet fit its
  limit: it terminates, reports a cycle exactly when the new task is an ancestor of one of
  its parents, and recording a task it lets through keeps the graph acyclic, in whatever
  scope.
\<close>

theorem ancestor_check_exact:
  assumes "gomap_wf tasks" and "length ps + edge_count tasks \<le> MaxAncestorTraversal"
  shows "(checkAcyclicity tasks jti ps = Some (CycleDetected jti) \<longleftrightarrow>
      (\<exists>p \<in> set ps. (p, jti) \<in> (parent_rel tasks)\<^sup>*))
    \<and> (checkAcyclicity tasks jti ps = None \<longrightarrow> acyclic (parent_rel tasks) \<longrightarrow>
       map_of tasks jti = None \<longrightarrow>
       acyclic (parent_rel (AList.update jti \<lparr>tr_jti = jti, tr_issued_at = iat, tr_parents = ps\<rparr> tasks)))"
  using checkAcyclicity_iff [OF assms, of jti]
    parent_rel_update [of tasks "\<lparr>tr_jti = jti, tr_issued_at = iat, tr_parents = ps\<rparr>"]
  by (auto intro!: acyclic_extend split: if_splits)

definition orphan_tasks :: tasks where
  "orphan_tasks = [(''b'', \<lparr>tr_jti = ''b'', tr_issued_at = 2, tr_parents = [''a'']\<rparr>)]"

theorem ancestor_check_exact_witness:
  "checkAcyclicity orphan_tasks ''a'' [''b''] = Some (CycleDetected ''a'')"
proof -
  have "(''b'', ''a'') \<in> parent_rel orphan_tasks" by (simp add: parent_rel_def orphan_tasks_def)
  moreover have "gomap_wf orphan_tasks"
    "length [''b''] + edge_count orphan_tasks \<le> MaxAncestorTraversal"
    by (simp_all add: gomap_wf_def orphan_tasks_def edge_count_def MaxAncestorTraversal_def)
  ultimately show ?thesis using ancestor_check_exact [of orphan_tasks "[''b'']" "''a''"] by auto
qed

text \<open>Repeated references use up the limit before the reference behind them is looked at.\<close>

lemma ancestor_walk_flooded:
  "x \<noteq> new \<Longrightarrow> x \<in> set visited \<Longrightarrow> MaxAncestorTraversal \<le> d + n \<Longrightarrow>
   ancestor_walk tasks new d visited (replicate n x @ queue) = None"
proof (induction n arbitrary: d)
  case 0
  then show ?case by (cases queue) simp_all
qed simp

lemma checkAcyclicity_flooded:
  assumes "x \<noteq> new" and "map_of tasks x = Some t" and "tr_parents t = []"
  shows "checkAcyclicity tasks new (replicate MaxAncestorTraversal x @ ps) = None"
proof -
  obtain n where n: "MaxAncestorTraversal = Suc n" by (simp add: MaxAncestorTraversal_def)
  have "ancestor_walk tasks new 1 [x] (replicate n x @ ps) = None"
    by (rule ancestor_walk_flooded) (simp_all add: n assms(1))
  then show ?thesis using assms by (simp add: checkAcyclicity_def n)
qed

definition cleaned_tracker :: workflow_tracker where
  "cleaned_tracker = snd (Tracker_Cleanup (go_hour + 10)
     (snd (RecordTask '''' ''x'' 20 []
        (snd (RecordTask '''' ''b'' 20 [''a'']
           (snd (RecordTask '''' ''a'' 0 [] (NewWorkflowTracker []))))))))"

lemma cleaned_tracker_reach: "tracker_reach cleaned_tracker"
  unfolding cleaned_tracker_def
  by (rule tracker_reach.cleanup)
    (rule tracker_reach.record_task [OF _ prod.collapse [symmetric]],
      rule tracker_reach.record_task [OF _ prod.collapse [symmetric]],
      rule tracker_reach.record_task [OF _ prod.collapse [symmetric]], rule tracker_reach.new)

lemma cleaned_tracker_tasks:
  "tasksForScope cleaned_tracker '''' =
     [(''b'', \<lparr>tr_jti = ''b'', tr_issued_at = 20, tr_parents = [''a'']\<rparr>),
      (''x'', \<lparr>tr_jti = ''x'', tr_issued_at = 20, tr_parents = []\<rparr>)]"
  "wt_clock_skew cleaned_tracker = 30 * go_second"
  by code_simp+

text \<open>
  Outside workflows cycles are possible in principle, contrary to the comment on
  \<open>RecordTask\<close>: once clean-up has dropped a parent that a younger task still refers to, the
  dropped identifier can be recorded again below its own child. The ancestor check then
  fires; but a call that names one harmless task ten thousand times first runs the check
  into its limit, is accepted, and leaves a cycle in the graph.
\<close>

theorem cycle_after_cleanup:
  "\<exists>wt ps wt'. tracker_reach wt
    \<and> fst (RecordTask '''' ''a'' 30 [''b''] wt) = Some (CycleDetected ''a'')
    \<and> RecordTask '''' ''a'' 30 ps wt = (None, wt')
    \<and> \<not> acyclic (parent_rel (tasksForScope wt' ''''))"
proof (intro exI conjI)
  let ?ps = "replicate MaxAncestorTraversal ''x'' @ [''b'']"
  let ?r = "RecordTask '''' ''a'' 30 ?ps cleaned_tracker"
  show "tracker_reach cleaned_tracker" by (rule cleaned_tracker_reach)
  show "fst (RecordTask '''' ''a'' 30 [''b''] cleaned_tracker) = Some (CycleDetected ''a'')"
    by code_simp
  have "checkAcyclicity (tasksForScope cleaned_tracker '''') ''a'' ?ps = None"
    by (rule checkAcyclicity_flooded
        [where t = "\<lparr>tr_jti = ''x'', tr_issued_at = 20, tr_parents = []\<rparr>"])
      (simp_all add: cleaned_tracker_tasks)
  then have none: "fst ?r = None"
    by (simp add: RecordTask_None_iff cleaned_tracker_tasks gomap_has_def go_second_def)
  then show "?r = (None, snd ?r)" by (metis prod.collapse)
  then have "snd ?r = store_task '''' \<lparr>tr_jti = ''a'', tr_issued_at = 30, tr_parents = ?ps\<rparr> cleaned_tracker"
    by (cases rule: RecordTask_cases) simp_all
  then have "(''a'', ''b'') \<in> parent_rel (tasksForScope (snd ?r) '''')"
    "(''b'', ''a'') \<in> parent_rel (tasksForScope (snd ?r) '''')"
    by (simp_all add: parent_rel_def tasksForScope_store cleaned_tracker_tasks)
  then show "\<not> acyclic (parent_rel (tasksForScope (snd ?r) ''''))"
    by (meson acyclic_def trancl.r_into_trancl trancl_trans)
qed

end
