(* ===== verification/Mcp_Middleware.thy ===== *)
theory Mcp_Middleware
  imports Mcp_Verify Workflow_Graph Audit_Ledger
begin

text \<open>
  The HTTP middleware of \<open>src/pkg/mcp/middleware.go\<close> and the execution context tokens of
  \<open>src/pkg/mcp/ect.go\<close>. A handled request changes the audit log, the workflow tracker and the
  ledger (\<open>mcp_state\<close>) and writes a response; the wrapped handler is a parameter that sees the
  request and the verified claims and performs a list of response actions. The clock
  readings, the fresh identifier, the signer, JSON encoding and the text of errors are the
  fields of \<open>call_env\<close>.
\<close>

section \<open>Execution context tokens\<close>

record ect =
  et_issuer :: string
  et_audience :: "string list"
  et_jti :: string
  et_issued_at :: go_time
  et_expires :: go_time
  et_exec_act :: string
  et_input_hash :: string
  et_output_hash :: string
  et_target :: string
  et_workflow_id :: string
  et_parent_ids :: "string list"
  et_extensions :: claims
  et_signed_token :: string

record ect_request =
  er_claims :: verified_claims
  er_tool_id :: string
  er_response_body :: string
  er_duration_ms :: int
  er_parent_ids :: "string list"

datatype ect_error =
    EctSetClaim string
  | EctTypHeader
  | EctKidHeader
  | EctSign

definition DefaultECTExpiry :: duration where
  "DefaultECTExpiry = 5 * go_minute"

record 'signer ect_env =
  ee_now :: go_time
  ee_uuid :: string
  ee_sha256_b64url :: "string \<Rightarrow> string"
  ee_set_ok :: "string \<Rightarrow> json \<Rightarrow> bool"
  ee_header_ok :: "string \<Rightarrow> string \<Rightarrow> bool"
  ee_signer_kind :: "'signer \<Rightarrow> key_kind"
  ee_sign :: "jwa_alg \<Rightarrow> 'signer \<Rightarrow> (string \<times> string) list \<Rightarrow> claims \<Rightarrow> string option"

definition inferSignerAlgorithm :: "key_kind \<Rightarrow> jwa_alg" where
  "inferSignerAlgorithm k =
     (case k of EcdsaKey \<Rightarrow> ES256 | Ed25519Key \<Rightarrow> EdDSA | RsaKey \<Rightarrow> RS256 | OtherKey \<Rightarrow> RS256)"

text \<open>The fields of the token before it is signed.\<close>

definition ect_fields :: "'signer ect_env \<Rightarrow> ect_request \<Rightarrow> string \<Rightarrow> ect" where
  "ect_fields E req issuer =
     (let ex = (case vc_execution (er_claims req) of
                  None \<Rightarrow> ('''', '''', '''', '''')
                | Some x \<Rightarrow> (xs_exec_act x, xs_input_hash x, xs_target x, xs_workflow_id x))
      in case ex of (act, inp, tgt, wid) \<Rightarrow>
        \<lparr>et_issuer = issuer,
         et_audience = vc_subject (er_claims req) #
           (if issuer \<noteq> '''' then [issuer @ ''/audit-ledger''] else []),
         et_jti = ee_uuid E, et_issued_at = ee_now E,
         et_expires = time_add (ee_now E) DefaultECTExpiry,
         et_exec_act = act, et_input_hash = inp,
         et_output_hash = (if er_response_body req \<noteq> '''' then ee_sha256_b64url E (er_response_body req)
                           else ''''),
         et_target = tgt, et_workflow_id = wid, et_parent_ids = er_parent_ids req,
         et_extensions = [(''starfly.tool_id'', JStr (er_tool_id req)),
                          (''starfly.duration_ms'', JNum (of_int (er_duration_ms req)))],
         et_signed_token = ''''\<rparr>)"

definition optional_claim :: "string \<Rightarrow> string \<Rightarrow> claims" where
  "optional_claim k v = (if v \<noteq> '''' then [(k, JStr v)] else [])"

definition ect_claims :: "ect \<Rightarrow> claims" where
  "ect_claims e =
     [(''iss'', JStr (et_issuer e)), (''aud'', JArr (map JStr (et_audience e))),
      (''jti'', JStr (et_jti e)), (''iat'', JNum (of_int (unix_seconds (et_issued_at e)))),
      (''exp'', JNum (of_int (unix_seconds (et_expires e)))),
      (''exec_act'', JStr (et_exec_act e)), (''par'', JArr (map JStr (et_parent_ids e))),
      (''ext'', JObj (et_extensions e))]
     @ optional_claim ''inp_hash'' (et_input_hash e) @ optional_claim ''out_hash'' (et_output_hash e)
     @ optional_claim ''target'' (et_target e) @ optional_claim ''wid'' (et_workflow_id e)"

definition GenerateECT ::
  "'signer ect_env \<Rightarrow> ect_request \<Rightarrow> string \<Rightarrow> 'signer \<Rightarrow> string \<Rightarrow> ect_error + ect" where
  "GenerateECT E req issuer signingKey kid =
     (let e = ect_fields E req issuer;
          claims = ect_claims e
      in case find (\<lambda>(k, v). \<not> ee_set_ok E k v) claims of
           Some (k, v) \<Rightarrow> Inl (EctSetClaim k)
         | None \<Rightarrow>
             if \<not> ee_header_ok E ''typ'' ''wimse-exec+jwt'' then Inl EctTypHeader
             else if kid \<noteq> '''' \<and> \<not> ee_header_ok E ''kid'' kid then Inl EctKidHeader
             else
               let hdrs = (''typ'', ''wimse-exec+jwt'') # (if kid \<noteq> '''' then [(''kid'', kid)] else [])
               in case ee_sign E (inferSignerAlgorithm (ee_signer_kind E signingKey)) signingKey hdrs claims of
                    None \<Rightarrow> Inl EctSign
                  | Some tok \<Rightarrow> Inr (e\<lparr>et_signed_token := tok\<rparr>))"

section \<open>Capturing the response\<close>

record response_capture =
  rc_writer :: response_writer
  rc_body :: string
  rc_status :: int

definition newResponseCapture :: "response_writer \<Rightarrow> response_capture" where
  "newResponseCapture w = \<lparr>rc_writer = w, rc_body = '''', rc_status = 200\<rparr>"

definition capture_WriteHeader :: "int \<Rightarrow> response_capture \<Rightarrow> response_capture" where
  "capture_WriteHeader code rc =
     rc\<lparr>rc_status := code, rc_writer := rw_write_header code (rc_writer rc)\<rparr>"

definition capture_Write :: "string \<Rightarrow> response_capture \<Rightarrow> response_capture" where
  "capture_Write b rc = rc\<lparr>rc_body := rc_body rc @ b, rc_writer := rw_write b (rc_writer rc)\<rparr>"

primrec capture_action :: "response_action \<Rightarrow> response_capture \<Rightarrow> response_capture" where
  "capture_action (ActSetHeader k v) rc = rc\<lparr>rc_writer := rw_set_header k v (rc_writer rc)\<rparr>"
| "capture_action (ActWriteHeader code) rc = capture_WriteHeader code rc"
| "capture_action (ActWrite b) rc = capture_Write b rc"

section \<open>Requests\<close>

definition extractBearerToken :: "http_request \<Rightarrow> mcp_error + string" where
  "extractBearerToken r =
     (let auth = header_get r ''Authorization''
      in if auth = '''' then Inl MissingToken
         else case split_n2 (CHR '' '') auth of
           [scheme, tok] \<Rightarrow>
             if equal_fold scheme ''Bearer'' then Inr tok else Inl (InvalidToken NotBearer)
         | _ \<Rightarrow> Inl (InvalidToken NotBearer))"

text \<open>The segment after the first \<open>tools\<close> that has one.\<close>

fun segment_after_tools :: "string list \<Rightarrow> string" where
  "segment_after_tools (p # q # ps) = (if p = ''tools'' then q else segment_after_tools (q # ps))"
| "segment_after_tools _ = ''''"

definition extractToolID :: "http_request \<Rightarrow> string" where
  "extractToolID r =
     (let h = header_get r ''X-MCP-Tool-ID''
      in if h \<noteq> '''' then h else segment_after_tools (split_on (CHR ''/'') (hq_path r)))"

definition extractParentECTJTIs :: "(string \<Rightarrow> claims option) \<Rightarrow> http_request \<Rightarrow> string list" where
  "extractParentECTJTIs parse r =
     List.map_filter
       (\<lambda>h. case parse h of
              None \<Rightarrow> None
            | Some token \<Rightarrow>
                case get_str token ''jti'' of
                  None \<Rightarrow> None
                | Some jti \<Rightarrow> if jti = '''' then None else Some jti)
       (header_values r ''Execution-Context'')"

section \<open>The handler\<close>

record mcp_state =
  ms_audit :: "audit_event list"
  ms_tracker :: "workflow_tracker option"
  ms_ledger :: "ect_ledger option"

record ('pub, 'signer) middleware_config =
  mw_verify :: "'pub verify_config"
  mw_auditor :: bool
  mw_unit_id :: string
  mw_signing_key :: "'signer option"
  mw_signing_key_id :: string
  mw_issuer :: string

record ('pub, 'key, 'alg, 'raw, 'signer) call_env =
  cv_verify :: "('pub, 'key, 'alg, 'raw) verify_env"
  cv_ect :: "'signer ect_env"
  cv_hash :: entry_hash
  cv_err_text :: "mcp_error \<Rightarrow> string"
  cv_json :: "json \<Rightarrow> string"
  cv_decided_ms :: int
  cv_executed_ms :: int
  cv_recorded_ms :: int
  cv_ledger_now :: go_time

definition error_status :: "mcp_error \<Rightarrow> int \<times> string" where
  "error_status err =
     (case err of
        TokenRevoked _ \<Rightarrow> (403, ''token_revoked'')
      | CapabilityDenied _ \<Rightarrow> (403, ''access_denied'')
      | BlastRadiusExceeded _ _ \<Rightarrow> (403, ''access_denied'')
      | PolicyDenied _ \<Rightarrow> (403, ''access_denied'')
      | AudienceMismatch _ _ \<Rightarrow> (403, ''audience_mismatch'')
      | DPoPInvalid _ \<Rightarrow> (401, ''invalid_dpop_proof'')
      | ExecOpMismatch _ _ \<Rightarrow> (403, ''execution_binding_failed'')
      | ExecPayloadMismatch _ _ \<Rightarrow> (403, ''execution_binding_failed'')
      | ExecPayloadMissing \<Rightarrow> (403, ''execution_binding_failed'')
      | ExecTargetMismatch _ _ \<Rightarrow> (403, ''execution_binding_failed'')
      | ExecBindingRequired _ \<Rightarrow> (403, ''execution_binding_failed'')
      | _ \<Rightarrow> (401, ''invalid_token''))"

definition writeError ::
  "(json \<Rightarrow> string) \<Rightarrow> int \<Rightarrow> string \<Rightarrow> string \<Rightarrow> response_writer \<Rightarrow> response_writer" where
  "writeError encode status code description w =
     rw_write (encode (JObj [(''error'', JStr code), (''error_description'', JStr description)]))
       (rw_write_header status (rw_set_header ''Content-Type'' ''application/json'' w))"

definition logAudit ::
  "('pub, 'signer) middleware_config \<Rightarrow> http_request \<Rightarrow> string \<Rightarrow> string \<Rightarrow> string \<Rightarrow> string
   \<Rightarrow> int \<Rightarrow> mcp_state \<Rightarrow> mcp_state" where
  "logAudit cfg r subject toolID decision reason ms s =
     (if \<not> mw_auditor cfg then s
      else s\<lparr>ms_audit := ms_audit s @
        [(audit_lit ''mcp'' ''tool_call_verified'' subject toolID decision reason
           [(''method'', JStr (hq_method r)), (''path'', JStr (hq_path r)),
            (''duration_ms'', JNum (of_int ms))])\<lparr>au_unit_id := mw_unit_id cfg\<rparr>]\<rparr>)"

definition subjectOrEmpty :: "verified_claims option \<Rightarrow> string" where
  "subjectOrEmpty vc = (case vc of None \<Rightarrow> '''' | Some c \<Rightarrow> vc_subject c)"

text \<open>The refusal branch: \<open>VerifyToolCall\<close> returns nil claims with every error.\<close>

definition refuse_call ::
  "('pub, 'key, 'alg, 'raw, 'signer) call_env \<Rightarrow> ('pub, 'signer) middleware_config
   \<Rightarrow> http_request \<Rightarrow> string \<Rightarrow> int \<times> string \<Rightarrow> mcp_error \<Rightarrow> response_writer \<Rightarrow> mcp_state
   \<Rightarrow> response_writer \<times> mcp_state" where
  "refuse_call V cfg r toolID sc err w s =
     (writeError (cv_json V) (fst sc) (snd sc) (cv_err_text V err) w,
      logAudit cfg r (subjectOrEmpty None) toolID ''denied'' (cv_err_text V err) (cv_decided_ms V) s)"

definition record_workflow :: "verified_claims \<Rightarrow> ect \<Rightarrow> mcp_state \<Rightarrow> mcp_state" where
  "record_workflow claims e s =
     (case ms_tracker s of
        None \<Rightarrow> s
      | Some wt \<Rightarrow>
          let wid = (case vc_execution claims of None \<Rightarrow> '''' | Some x \<Rightarrow> xs_workflow_id x)
          in s\<lparr>ms_tracker := Some (snd (RecordTask wid (et_jti e) (et_issued_at e) (et_parent_ids e) wt))\<rparr>)"

definition append_ledger ::
  "entry_hash \<Rightarrow> go_time \<Rightarrow> verified_claims \<Rightarrow> string \<Rightarrow> ect \<Rightarrow> mcp_state \<Rightarrow> mcp_state" where
  "append_ledger H now claims toolID e s =
     (case ms_ledger s of
        None \<Rightarrow> s
      | Some l \<Rightarrow>
          s\<lparr>ms_ledger := Some (snd (Ledger_Append H now
              \<lparr>le_sequence = 0, le_jti = et_jti e, le_prev_hash = '''', le_ect_token = et_signed_token e,
               le_issuer = et_issuer e, le_subject = vc_subject claims, le_tool_id = toolID,
               le_exec_act = et_exec_act e, le_workflow_id = et_workflow_id e,
               le_recorded_at = 0\<rparr> l))\<rparr>)"

definition log_ect ::
  "('pub, 'signer) middleware_config \<Rightarrow> verified_claims \<Rightarrow> string \<Rightarrow> ect \<Rightarrow> int
   \<Rightarrow> mcp_state \<Rightarrow> mcp_state" where
  "log_ect cfg claims toolID e ms s =
     (if \<not> mw_auditor cfg then s
      else s\<lparr>ms_audit := ms_audit s @
        [(audit_lit ''ect'' ''ect_generated'' (vc_subject claims) toolID ''recorded'' (et_jti e)
           [(''exec_act'', JStr (et_exec_act e)), (''inp_hash'', JStr (et_input_hash e)),
            (''out_hash'', JStr (et_output_hash e)), (''target'', JStr (et_target e)),
            (''wid'', JStr (et_workflow_id e)), (''duration_ms'', JNum (of_int ms))])
         \<lparr>au_unit_id := mw_unit_id cfg\<rparr>]\<rparr>)"

text \<open>The accountability phase, after the wrapped handler has run on the capture.\<close>

definition account_call ::
  "('pub, 'key, 'alg, 'raw, 'signer) call_env \<Rightarrow> ('pub, 'signer) middleware_config \<Rightarrow> 'signer
   \<Rightarrow> verified_claims \<Rightarrow> string \<Rightarrow> string list \<Rightarrow> response_capture \<Rightarrow> mcp_state
   \<Rightarrow> response_writer \<times> mcp_state" where
  "account_call V cfg key claims toolID parentJTIs rc s =
     (case GenerateECT (cv_ect V)
             \<lparr>er_claims = claims, er_tool_id = toolID, er_response_body = rc_body rc,
              er_duration_ms = cv_executed_ms V, er_parent_ids = parentJTIs\<rparr>
             (mw_issuer cfg) key (mw_signing_key_id cfg) of
        Inl _ \<Rightarrow> (rc_writer rc, s)
      | Inr e \<Rightarrow>
          (rw_set_header ''Execution-Context'' (et_signed_token e) (rc_writer rc),
           log_ect cfg claims toolID e (cv_recorded_ms V)
             (append_ledger (cv_hash V) (cv_ledger_now V) claims toolID e
               (record_workflow claims e s))))"

definition request_options :: "http_request \<Rightarrow> verify_options" where
  "request_options r =
     \<lparr>vo_request_body = (case hq_body r of Body b \<Rightarrow> if b \<noteq> '''' then Some b else None | _ \<Rightarrow> None),
      vo_dpop_proof = header_get r ''DPoP''\<rparr>"

definition Middleware ::
  "('pub, 'key, 'alg, 'raw, 'signer) call_env \<Rightarrow> ('pub, 'signer) middleware_config
   \<Rightarrow> (http_request \<Rightarrow> verified_claims \<Rightarrow> response_action list) \<Rightarrow> http_request
   \<Rightarrow> response_writer \<Rightarrow> mcp_state \<Rightarrow> response_writer \<times> mcp_state" where
  "Middleware V cfg handler r w s =
     (case extractBearerToken r of
        Inl err \<Rightarrow> refuse_call V cfg r '''' (401, ''invalid_token'') err w s
      | Inr token \<Rightarrow>
          let toolID = extractToolID r;
              parentJTIs = extractParentECTJTIs (ve_parse_insecure (cv_verify V)) r
          in case VerifyToolCall (cv_verify V) (mw_verify cfg) token toolID [Some (request_options r)] of
               Inl err \<Rightarrow> refuse_call V cfg r toolID (error_status err) err w s
             | Inr claims \<Rightarrow>
                 let s1 = logAudit cfg r (vc_subject claims) toolID ''allowed'' ''all checks passed''
                            (cv_decided_ms V) s
                 in case (mw_signing_key cfg, vc_execution claims) of
                      (Some key, Some _) \<Rightarrow>
                        account_call V cfg key claims toolID parentJTIs
                          (fold capture_action (handler r claims) (newResponseCapture w)) s1
                    | _ \<Rightarrow> (fold rw_action (handler r claims) w, s1))"

end
