(* ===== verification/Toolcall_Verify.thy ===== *)
theory Toolcall_Verify
  imports Mcp_Verify
begin

text \<open>
  \<open>src/pkg/toolcall/types.go\<close> and \<open>verifier.go\<close>: the verifier shared by all tool protocols.
  It repeats the pipeline of the MCP middleware on its own types, adds the protocol gate and
  has no DPoP step; the lemmas compare the two definition by definition.
\<close>

section \<open>Types\<close>

datatype match_confidence = MatchNone | MatchPossible | MatchLikely | MatchDefinitive

primrec confidence_value :: "match_confidence \<Rightarrow> int" where
  "confidence_value MatchNone = 0"
| "confidence_value MatchPossible = 50"
| "confidence_value MatchLikely = 75"
| "confidence_value MatchDefinitive = 100"

record transport_meta =
  tm_original_headers :: "(string \<times> string) list"
  tm_a2a_agent_card :: "claims option"
  tm_mcp_transport :: string
  tm_custom :: claims

record tool_call_request =
  tq_protocol :: protocol
  tq_protocol_version :: string
  tq_tool_id :: string
  tq_operation :: string
  tq_params :: claims
  tq_token :: string
  tq_transport_meta :: "transport_meta option"
  tq_caller_identity :: string
  tq_request_body :: "string option"

record verified_identity =
  vi_subject :: string
  vi_issuer :: string
  vi_capabilities :: "string list"
  vi_blast_radius :: string
  vi_delegation :: "mcp_delegation option"
  vi_execution :: "execution_scope option"
  vi_protocol :: protocol
  vi_expires_at :: go_time
  vi_tool_id :: string
  vi_resource :: string

record match_result =
  mr_confidence :: match_confidence
  mr_request :: "tool_call_request option"

text \<open>
  The sentinel errors are those of the MCP middleware (\<open>Shared\<close>, except that \<open>DPoPInvalid\<close>
  never occurs) and one of their own.
\<close>

datatype toolcall_error =
    Shared mcp_error
  | ProtocolDenied string protocol

record 'pub verifier_config =
  vv_resolve :: "string \<Rightarrow> string \<Rightarrow> string + 'pub"
  vv_registry :: "universal_registry option"
  vv_revocation :: "(string \<Rightarrow> revocation_entry option \<times> string option) option"
  vv_policy :: "(policy_input \<Rightarrow> string + policy_decision) option"
  vv_dev_mode :: bool

section \<open>Helpers\<close>

definition inputHash :: "('key, 'alg, 'raw) jose \<Rightarrow> string \<Rightarrow> string" where
  "inputHash J data = jo_sha256_b64url J data"

definition inferAlg :: "key_kind \<Rightarrow> jwa_alg" where
  "inferAlg k =
     (case k of EcdsaKey \<Rightarrow> ES256 | Ed25519Key \<Rightarrow> EdDSA | RsaKey \<Rightarrow> RS256 | OtherKey \<Rightarrow> RS256)"

definition strIn :: "string \<Rightarrow> string list \<Rightarrow> bool" where
  "strIn s vs \<longleftrightarrow> list_ex (\<lambda>v. v = s) vs"

definition checkCaps :: "string list \<Rightarrow> string list \<Rightarrow> toolcall_error option" where
  "checkCaps tokenCaps required =
     (if required = [] then None
      else
        let missing = filter (\<lambda>r. r \<notin> set tokenCaps) required
        in if missing \<noteq> [] then Some (Shared (CapabilityDenied missing)) else None)"

definition toolcall_blastRadiusFits :: "string \<Rightarrow> string \<Rightarrow> bool" where
  "toolcall_blastRadiusFits tokenBR maxBR \<longleftrightarrow>
     maxBR = ''*'' \<or>
     (let tp = split_n2 (CHR '':'') tokenBR; mp = split_n2 (CHR '':'') maxBR
      in if length tp < 2 \<or> length mp < 2 then tokenBR = maxBR
         else tp ! 0 = mp ! 0 \<and> (mp ! 1 = ''*'' \<or> tp ! 1 = mp ! 1))"

definition toolcall_extractTrustDomain :: "string \<Rightarrow> string" where
  "toolcall_extractTrustDomain uri =
     (case find (has_prefix uri) [''wimse://'', ''spiffe://''] of
        None \<Rightarrow> ''''
      | Some p \<Rightarrow>
          let rest = drop (length p) uri
          in case cut_before (CHR ''/'') rest of
               Some (x # xs) \<Rightarrow> x # xs
             | _ \<Rightarrow> rest)"

text \<open>The loop over the claim names sets one field each, so its order does not matter.\<close>

definition extractIdentity :: "claims \<Rightarrow> protocol \<Rightarrow> verified_identity \<times> string" where
  "extractIdentity t protocol =
     (let aud = (case token_audience t of [] \<Rightarrow> '''' | a # _ \<Rightarrow> a);
          get = (\<lambda>name. case get_str t name of None \<Rightarrow> '''' | Some s \<Rightarrow> s);
          has = (\<lambda>name. get_str t name \<noteq> None);
          es = \<lparr>xs_method = get ''htm'', xs_uri = get ''htu'', xs_exec_act = get ''exec_act'',
                xs_input_hash = get ''inp_hash'', xs_output_hash = get ''out_hash'',
                xs_target = get ''target'', xs_workflow_id = get ''wid'', xs_payload_hash = '''',
                xs_nonce = get ''nonce''\<rparr>;
          hasExec = list_ex has [''htm'', ''htu'', ''exec_act'', ''inp_hash'', ''out_hash'',
                                 ''target'', ''wid'', ''nonce''];
          payload = xs_input_hash es = '''' \<and> has ''payload_hash'';
          es' = (if payload then es\<lparr>xs_input_hash := get ''payload_hash'',
                                     xs_payload_hash := get ''payload_hash''\<rparr> else es);
          obo = map_option (\<lambda>s. \<lparr>dg_on_behalf_of = s, dg_depth = 0\<rparr>) (get_str t ''obo'');
          delegation = (case get_num t ''delegation_depth'' of
                          None \<Rightarrow> obo
                        | Some dd \<Rightarrow>
                            Some ((case obo of None \<Rightarrow> \<lparr>dg_on_behalf_of = '''', dg_depth = 0\<rparr>
                                   | Some d \<Rightarrow> d)\<lparr>dg_depth := float_to_int dd\<rparr>))
      in (\<lparr>vi_subject = token_subject t, vi_issuer = token_issuer t,
           vi_capabilities = (case get_arr t ''caps'' of None \<Rightarrow> [] | Some cs \<Rightarrow> strings_of cs),
           vi_blast_radius = get ''blast_radius'', vi_delegation = delegation,
           vi_execution = (if hasExec \<or> payload then Some es' else None),
           vi_protocol = protocol, vi_expires_at = token_expiration t,
           vi_tool_id = '''', vi_resource = ''''\<rparr>, aud))"

definition verifyExecBinding ::
  "('key, 'alg, 'raw) jose \<Rightarrow> verified_identity \<Rightarrow> universal_tool_entry \<Rightarrow> string option
   \<Rightarrow> toolcall_error option" where
  "verifyExecBinding J identity tool body =
     (case vi_execution identity of
        None \<Rightarrow>
          if te_requires_execution tool then Some (Shared (ExecBindingRequired (te_tool_id tool)))
          else None
      | Some ex \<Rightarrow>
          if te_allowed_operations tool \<noteq> [] \<and> xs_exec_act ex \<noteq> ''''
             \<and> \<not> strIn (xs_exec_act ex) (te_allowed_operations tool)
          then Some (Shared (ExecOpMismatch (xs_exec_act ex) (te_allowed_operations tool)))
          else if xs_input_hash ex \<noteq> '''' \<and> body \<noteq> None
                  \<and> inputHash J (the body) \<noteq> xs_input_hash ex
          then Some (Shared (ExecPayloadMismatch (inputHash J (the body)) (xs_input_hash ex)))
          else if te_requires_execution tool \<and> xs_input_hash ex = ''''
          then Some (Shared ExecPayloadMissing)
          else if te_allowed_targets tool \<noteq> [] \<and> xs_target ex \<noteq> ''''
                  \<and> \<not> strIn (xs_target ex) (te_allowed_targets tool)
          then Some (Shared (ExecTargetMismatch (xs_target ex) (te_allowed_targets tool)))
          else None)"

section \<open>The pipeline\<close>

definition verify_identity ::
  "('pub, 'key, 'alg, 'raw) verify_env \<Rightarrow> 'pub verifier_config \<Rightarrow> string
   \<Rightarrow> toolcall_error + claims" where
  "verify_identity V cfg token =
     (case ve_parse_insecure V token of
        None \<Rightarrow> Inl (Shared (InvalidToken Unparsable))
      | Some insecure \<Rightarrow>
          let issuer = token_issuer insecure
          in if issuer = '''' then Inl (Shared (InvalidToken MissingIssuer))
             else if vv_dev_mode cfg then Inr insecure
             else case vv_resolve cfg issuer '''' of
               Inl e \<Rightarrow> Inl (Shared (InvalidToken (KeyUnresolved e)))
             | Inr pubKey \<Rightarrow>
                 case ve_parse V (inferAlg (ve_key_kind V pubKey)) pubKey token of
                   None \<Rightarrow> Inl (Shared (InvalidToken VerificationFailed))
                 | Some verified \<Rightarrow> Inr verified)"

definition verify_authorize ::
  "'pub verifier_config \<Rightarrow> tool_call_request \<Rightarrow> string \<Rightarrow> verified_identity
   \<Rightarrow> toolcall_error + verified_identity" where
  "verify_authorize cfg req aud identity =
     (case vv_registry cfg of
        None \<Rightarrow> Inr identity
      | Some reg \<Rightarrow>
          if tq_tool_id req = '''' then Inr identity
          else case Universal_Get reg (tq_tool_id req) of
            None \<Rightarrow> Inl (Shared (ToolNotRegistered (tq_tool_id req)))
          | Some tool \<Rightarrow>
              if \<not> SupportsProtocol tool (tq_protocol req)
              then Inl (ProtocolDenied (tq_tool_id req) (tq_protocol req))
              else
                let resourceURI = (if te_resource_uri tool = '''' then te_tool_id tool
                                   else te_resource_uri tool)
                in if aud \<noteq> resourceURI then Inl (Shared (AudienceMismatch aud resourceURI))
                   else
                     let identity' = identity\<lparr>vi_tool_id := tq_tool_id req, vi_resource := resourceURI\<rparr>
                     in case checkCaps (vi_capabilities identity') (te_required_capabilities tool) of
                          Some e \<Rightarrow> Inl e
                        | None \<Rightarrow>
                            if te_max_blast_radius tool \<noteq> '''' \<and> vi_blast_radius identity' \<noteq> ''''
                               \<and> \<not> toolcall_blastRadiusFits (vi_blast_radius identity')
                                     (te_max_blast_radius tool)
                            then Inl (Shared (BlastRadiusExceeded (vi_blast_radius identity')
                                                (te_max_blast_radius tool)))
                            else Inr identity')"

definition verify_revocation :: "'pub verifier_config \<Rightarrow> string \<Rightarrow> toolcall_error option" where
  "verify_revocation cfg subject =
     (case vv_revocation cfg of
        None \<Rightarrow> None
      | Some check \<Rightarrow>
          map_option (\<lambda>entry. Shared (TokenRevoked (re_reason entry))) (fst (check subject)))"

definition toolcall_policy_input ::
  "go_time \<Rightarrow> tool_call_request \<Rightarrow> string \<Rightarrow> verified_identity \<Rightarrow> policy_input" where
  "toolcall_policy_input now req aud identity =
     \<lparr>pi_action = ''tool_call'',
      pi_subject = Some \<lparr>wi_id = vi_subject identity,
        wi_trust_domain = toolcall_extractTrustDomain (vi_subject identity),
        wi_attestation = Some \<lparr>ae_method = ''mcp-client'', ae_timestamp = now, ae_node_id = '''',
          ae_namespace = ''''\<rparr>,
        wi_claims = []\<rparr>,
      pi_target = tq_tool_id req,
      pi_context = [(''capabilities'', JArr (map JStr (vi_capabilities identity))),
        (''blast_radius'', JStr (vi_blast_radius identity)), (''audience'', JStr aud),
        (''issuer'', JStr (vi_issuer identity)), (''resource'', JStr (vi_resource identity)),
        (''protocol'', JStr (tq_protocol req))]\<rparr>"

definition verify_policy :: "'pub verifier_config \<Rightarrow> policy_input \<Rightarrow> toolcall_error option" where
  "verify_policy cfg inp =
     (case vv_policy cfg of
        None \<Rightarrow> None
      | Some evaluate \<Rightarrow>
          case evaluate inp of
            Inl e \<Rightarrow> Some (Shared (PolicyFailed e))
          | Inr decision \<Rightarrow>
              if pd_allowed decision then None else Some (Shared (PolicyDenied (pd_reason decision))))"

definition verify_binding ::
  "('key, 'alg, 'raw) jose \<Rightarrow> 'pub verifier_config \<Rightarrow> tool_call_request \<Rightarrow> verified_identity
   \<Rightarrow> toolcall_error option" where
  "verify_binding J cfg req identity =
     (case vv_registry cfg of
        None \<Rightarrow> None
      | Some reg \<Rightarrow>
          if tq_tool_id req = '''' then None
          else case Universal_Get reg (tq_tool_id req) of
            None \<Rightarrow> None
          | Some tool \<Rightarrow> verifyExecBinding J identity tool (tq_request_body req))"

definition Verify ::
  "('pub, 'key, 'alg, 'raw) verify_env \<Rightarrow> 'pub verifier_config \<Rightarrow> tool_call_request
   \<Rightarrow> toolcall_error + verified_identity" where
  "Verify V cfg req =
     (if tq_token req = '''' then Inl (Shared MissingToken)
      else
        rbind (verify_identity V cfg (tq_token req)) (\<lambda>verified.
        let (identity0, aud) = extractIdentity verified (tq_protocol req)
        in rbind (verify_authorize cfg req aud identity0) (\<lambda>identity.
           rbind (fail_if (verify_revocation cfg (vi_subject identity)) ()) (\<lambda>_.
           rbind (fail_if (verify_policy cfg
                    (toolcall_policy_input (ve_policy_now V) req aud identity)) ()) (\<lambda>_.
           fail_if (verify_binding (ve_jose V) cfg req identity) identity)))))"

section \<open>The two pipelines compared\<close>

lemma strIn_iff: "strIn s xs \<longleftrightarrow> s \<in> set xs"
  by (auto simp: strIn_def list_ex_iff)

lemma inferAlg_eq: "inferAlg = inferAlgorithm"
  by (rule ext) (simp add: inferAlg_def inferAlgorithm_def)

lemma checkCaps_eq: "checkCaps have need = map_option Shared (checkCapabilities have need)"
  by (simp add: checkCaps_def checkCapabilities_def Let_def)

lemma blastRadiusFits_eq: "toolcall_blastRadiusFits = blastRadiusFits"
proof (intro ext)
  fix t m
  show "toolcall_blastRadiusFits t m = blastRadiusFits t m"
    by (cases t rule: split_n2_cases [where c = "CHR '':''"];
        cases m rule: split_n2_cases [where c = "CHR '':''"])
      (simp_all add: toolcall_blastRadiusFits_def blastRadiusFits_def Let_def)
qed

lemma extractTrustDomain_eq: "toolcall_extractTrustDomain = extractTrustDomain"
  by (rule ext) (simp add: toolcall_extractTrustDomain_def extractTrustDomain_def domain_after_def
      Let_def split: option.split list.split)

text \<open>The identity that the claims of the MCP pipeline amount to.\<close>

definition identity_of :: "protocol \<Rightarrow> verified_claims \<Rightarrow> verified_identity" where
  "identity_of p c =
     \<lparr>vi_subject = vc_subject c, vi_issuer = vc_issuer c, vi_capabilities = vc_capabilities c,
      vi_blast_radius = vc_blast_radius c, vi_delegation = vc_delegation c,
      vi_execution = vc_execution c, vi_protocol = p, vi_expires_at = vc_expires_at c,
      vi_tool_id = vc_tool_id c, vi_resource = vc_resource c\<rparr>"

lemma identity_of_sel [simp]:
  "vi_subject (identity_of p c) = vc_subject c"
  "vi_capabilities (identity_of p c) = vc_capabilities c"
  "vi_blast_radius (identity_of p c) = vc_blast_radius c"
  "vi_execution (identity_of p c) = vc_execution c"
  by (simp_all add: identity_of_def)

lemma extract_execution_eq: "vi_execution (fst (extractIdentity t p)) = extract_execution t"
  by (auto simp: extractIdentity_def extract_execution_def Let_def claim_or_def stringClaim_def
      exec_claim_names_def)

lemma extract_delegation_eq: "vi_delegation (fst (extractIdentity t p)) = extract_delegation t"
  by (simp add: extractIdentity_def extract_delegation_def Let_def split: option.split)

lemma extractIdentity_eq:
  "extractIdentity t p = (identity_of p (extractClaims t), vc_audience (extractClaims t))"
  using extract_execution_eq [of t p] extract_delegation_eq [of t p]
  by (simp add: extractIdentity_def identity_of_def extractClaims_def claim_or_def stringClaim_def
      Let_def)

text \<open>
  A verifier configuration seen by the MCP pipeline: the registry without the protocol
  fields, and a policy that is asked what the verifier asks.
\<close>

definition as_tool_call :: "protocol \<Rightarrow> policy_input \<Rightarrow> policy_input" where
  "as_tool_call p inp =
     inp\<lparr>pi_action := ''tool_call'', pi_context := pi_context inp @ [(''protocol'', JStr p)]\<rparr>"

definition mcp_view :: "protocol \<Rightarrow> 'pub verifier_config \<Rightarrow> 'pub verify_config" where
  "mcp_view p cfg =
     \<lparr>vr_resolve = vv_resolve cfg,
      vr_registry = map_option (map (\<lambda>(k, e). (k, tool_entry.truncate e))) (vv_registry cfg),
      vr_revocation = vv_revocation cfg,
      vr_policy = map_option (\<lambda>q inp. q (as_tool_call p inp)) (vv_policy cfg),
      vr_dev_mode = vv_dev_mode cfg\<rparr>"

lemma mcp_view_sel [simp]:
  "vr_resolve (mcp_view p cfg) = vv_resolve cfg"
  "vr_registry (mcp_view p cfg) = map_option (map (\<lambda>(k, e). (k, tool_entry.truncate e))) (vv_registry cfg)"
  "vr_revocation (mcp_view p cfg) = vv_revocation cfg"
  "vr_policy (mcp_view p cfg) = map_option (\<lambda>q inp. q (as_tool_call p inp)) (vv_policy cfg)"
  "vr_dev_mode (mcp_view p cfg) = vv_dev_mode cfg"
  by (simp_all add: mcp_view_def)

lemma truncate_sel [simp]:
  "te_tool_id (tool_entry.truncate e) = te_tool_id e"
  "te_resource_uri (tool_entry.truncate e) = te_resource_uri e"
  "te_required_capabilities (tool_entry.truncate e) = te_required_capabilities e"
  "te_max_blast_radius (tool_entry.truncate e) = te_max_blast_radius e"
  "te_requires_execution (tool_entry.truncate e) = te_requires_execution e"
  "te_allowed_operations (tool_entry.truncate e) = te_allowed_operations e"
  "te_allowed_targets (tool_entry.truncate e) = te_allowed_targets e"
  by (simp_all add: tool_entry.defs)

lemma McpRegistry_Get_view:
  "McpRegistry_Get (map (\<lambda>(k, e). (k, tool_entry.truncate e)) reg) k =
     map_option tool_entry.truncate (Universal_Get reg k)"
  by (induction reg) (auto simp: McpRegistry_Get_def Universal_Get_def)

lemma verify_identity_eq:
  "verify_identity V cfg tok = map_sum Shared id (call_identity V (mcp_view p cfg) tok)"
  by (auto simp: verify_identity_def call_identity_def extractKID_empty inferAlg_eq Let_def
      split: option.split sum.split)

lemma verify_revocation_eq:
  "verify_revocation cfg s = map_option Shared (call_revocation (mcp_view p cfg) s)"
  by (simp add: verify_revocation_def call_revocation_def split: option.split)

lemma policy_input_eq:
  "toolcall_policy_input now req (vc_audience c) (identity_of p c) =
     as_tool_call (tq_protocol req) (mcp_policy_input now (tq_tool_id req) c)"
  by (simp add: toolcall_policy_input_def as_tool_call_def mcp_policy_input_def identity_of_def
      extractTrustDomain_eq)

lemma verify_policy_eq:
  "verify_policy cfg (as_tool_call p inp) = map_option Shared (call_policy (mcp_view p cfg) inp)"
  by (auto simp: verify_policy_def call_policy_def split: option.split sum.split)

lemma verify_binding_eq:
  "verify_binding J cfg req (identity_of p c) =
     map_option Shared (call_binding J (mcp_view p cfg) (tq_tool_id req)
       (Some \<lparr>vo_request_body = tq_request_body req, vo_dpop_proof = pr\<rparr>) c)"
proof -
  have "verifyExecBinding J (identity_of p c) tool body =
    map_option Shared (verifyExecutionBinding J c (tool_entry.truncate tool)
      (Some \<lparr>vo_request_body = body, vo_dpop_proof = pr\<rparr>))" for tool body
    by (simp add: verifyExecBinding_def verifyExecutionBinding_def identity_of_def strIn_iff
        inputHash_def computeInputHash_def Let_def split: option.split)
  then show ?thesis
    by (simp add: verify_binding_def call_binding_def McpRegistry_Get_view split: option.split)
qed

text \<open>Authorization agrees when the tool accepts the protocol.\<close>

lemma verify_authorize_eq:
  assumes "\<And>reg tool. vv_registry cfg = Some reg \<Longrightarrow> Universal_Get reg (tq_tool_id req) = Some tool \<Longrightarrow>
      SupportsProtocol tool (tq_protocol req)"
  shows "verify_authorize cfg req (vc_audience c) (identity_of p c) =
    map_sum Shared (identity_of p) (call_authorize (mcp_view p cfg) (tq_tool_id req) c)"
proof (cases "vv_registry cfg")
  case None
  then show ?thesis by (simp add: verify_authorize_def call_authorize_def)
next
  case (Some reg)
  show ?thesis
  proof (cases "Universal_Get reg (tq_tool_id req)")
    case None
    with Some show ?thesis
      by (simp add: verify_authorize_def call_authorize_def McpRegistry_Get_view)
  next
    case tool: (Some tool)
    have "(identity_of p c)\<lparr>vi_tool_id := t, vi_resource := u\<rparr> =
        identity_of p (c\<lparr>vc_tool_id := t, vc_resource := u\<rparr>)" for t u
      by (simp add: identity_of_def)
    with assms [OF Some tool] Some tool show ?thesis
      by (simp add: verify_authorize_def call_authorize_def McpRegistry_Get_view checkCaps_eq
          blastRadiusFits_eq resource_of_def Let_def split: option.split)
  qed
qed

end
