(* ===== verification/Tool_Guarantees.thy ===== *)
theory Tool_Guarantees
  imports Toolcall_Verify
begin

text \<open>
  What the two tool-call verifiers guarantee: exactly which calls the MCP pipeline accepts,
  that the shared verifier refines it where tokens are not bound to a key, and where the two
  part.
\<close>

section \<open>A deployment to run the verifiers on\<close>

definition demo_tool :: universal_tool_entry where
  "demo_tool = \<lparr>te_tool_id = ''db'', te_name = ''db'', te_description = '''',
     te_resource_uri = '''', te_required_capabilities = [''read''],
     te_max_blast_radius = ''db:*'', te_requires_execution = False,
     te_allowed_operations = [''query''], te_allowed_targets = [], te_owner_commune = '''',
     te_server_id = '''', te_registered_at = 1, te_updated_at = 1,
     te_protocols = [''mcp'', ''a2a''], te_protocol_meta = []\<rparr>"

definition tool_claims :: claims where
  "tool_claims = [(''iss'', JStr ''unit''), (''sub'', JStr ''wimse://td/w''),
     (''aud'', JArr [JStr ''db'']), (''caps'', JArr [JStr ''read'', JStr ''list'']),
     (''blast_radius'', JStr ''db:orders''), (''exec_act'', JStr ''query''),
     (''exp'', JNum 100)]"

definition bound_claims :: claims where
  "bound_claims = (''cnf'', JObj [(''jkt'', JStr ''tp'')]) # tool_claims"

definition tool_jose :: "(unit, unit, unit) jose" where
  "tool_jose = \<lparr>jo_jws_parse = (\<lambda>p. None), jo_export = (\<lambda>k. None), jo_verify = (\<lambda>p a k. None),
     jo_key_members = (\<lambda>k. None), jo_key_type = (\<lambda>k. ''''), jo_marshal = (\<lambda>m. None),
     jo_sha256_b64url = id\<rparr>"

text \<open>Two tokens: \<open>plain\<close>, and \<open>bound\<close> with the thumbprint of a key.\<close>

definition tool_tokens :: "string \<Rightarrow> claims option" where
  "tool_tokens s =
     (if s = ''plain'' then Some tool_claims else if s = ''bound'' then Some bound_claims else None)"

definition demo_verify_env :: "(unit, unit, unit, unit) verify_env" where
  "demo_verify_env = \<lparr>ve_parse_insecure = tool_tokens,
     ve_parse = (\<lambda>alg k s. if alg = EdDSA then tool_tokens s else None),
     ve_key_kind = (\<lambda>k. Ed25519Key), ve_jose = tool_jose, ve_dpop_now = 0, ve_policy_now = 0\<rparr>"

definition demo_verifier :: "unit verifier_config" where
  "demo_verifier = \<lparr>vv_resolve = (\<lambda>iss kid. Inr ()), vv_registry = Some [(''db'', demo_tool)],
     vv_revocation = Some (\<lambda>s. (None, None)),
     vv_policy = Some (\<lambda>inp. Inr \<lparr>pd_allowed = True, pd_reason = '''', pd_claims = []\<rparr>),
     vv_dev_mode = False\<rparr>"

definition demo_call :: "string \<Rightarrow> tool_call_request" where
  "demo_call tok = \<lparr>tq_protocol = ''a2a/v1'', tq_protocol_version = '''', tq_tool_id = ''db'',
     tq_operation = '''', tq_params = [], tq_token = tok, tq_transport_meta = None,
     tq_caller_identity = '''', tq_request_body = None\<rparr>"

section \<open>The accepted calls\<close>

lemma call_accepted_iff:
  assumes "vr_registry cfg = Some reg" and "toolID \<noteq> ''''"
  shows "VerifyToolCall V cfg tok toolID opts = Inr c \<longleftrightarrow>
    (\<exists>t tp tool. call_identity V cfg tok = Inr t
       \<and> verifyDPoP (ve_jose V) (ve_dpop_now V) (vr_dev_mode cfg) (vc_cnf_thumbprint (extractClaims t))
           (map_option vo_dpop_proof (resolveOpts opts)) = Inr tp
       \<and> McpRegistry_Get reg toolID = Some tool
       \<and> vc_audience (extractClaims t) = resource_of tool
       \<and> set (te_required_capabilities tool) \<subseteq> set (vc_capabilities (extractClaims t))
       \<and> (te_max_blast_radius tool \<noteq> '''' \<longrightarrow> vc_blast_radius (extractClaims t) \<noteq> '''' \<longrightarrow>
            blastRadiusFits (vc_blast_radius (extractClaims t)) (te_max_blast_radius tool))
       \<and> (\<forall>check. vr_revocation cfg = Some check \<longrightarrow> fst (check (token_subject t)) = None)
       \<and> (\<forall>evaluate. vr_policy cfg = Some evaluate \<longrightarrow>
            (\<exists>d. evaluate (mcp_policy_input (ve_policy_now V) toolID c) = Inr d \<and> pd_allowed d))
       \<and> binding_holds (ve_jose V) (extract_execution t) tool (body_of (resolveOpts opts))
       \<and> c = (extractClaims t)\<lparr>vc_cnf_thumbprint := tp, vc_tool_id := toolID,
                               vc_resource := resource_of tool\<rparr>)"
    (is "?lhs \<longleftrightarrow> (\<exists>t tp tool. ?rhs t tp tool)")
proof -
  have binding: "call_binding (ve_jose V) cfg toolID o' c' = None \<longleftrightarrow>
      binding_holds (ve_jose V) (vc_execution c') tool (body_of o')"
    if "McpRegistry_Get reg toolID = Some tool" for tool o' c'
    using assms that by (simp add: call_binding_def verifyExecutionBinding_None_iff)
  have dpop: "call_dpop V cfg o' c1 = Inr c2 \<longleftrightarrow> (\<exists>tp. verifyDPoP (ve_jose V) (ve_dpop_now V)
      (vr_dev_mode cfg) (vc_cnf_thumbprint c1) (map_option vo_dpop_proof o') = Inr tp
      \<and> c2 = c1\<lparr>vc_cnf_thumbprint := tp\<rparr>)" for o' c1 c2
    by (auto simp: call_dpop_def split: sum.splits)
  have sel: "vc_subject (extractClaims t) = token_subject t"
    "vc_execution (extractClaims t) = extract_execution t" for t
    by (simp_all add: extractClaims_def)
  have "?lhs \<longleftrightarrow> (\<exists>t tp. call_identity V cfg tok = Inr t
      \<and> verifyDPoP (ve_jose V) (ve_dpop_now V) (vr_dev_mode cfg) (vc_cnf_thumbprint (extractClaims t))
          (map_option vo_dpop_proof (resolveOpts opts)) = Inr tp
      \<and> call_authorize cfg toolID ((extractClaims t)\<lparr>vc_cnf_thumbprint := tp\<rparr>) = Inr c
      \<and> call_revocation cfg (vc_subject c) = None
      \<and> call_policy cfg (mcp_policy_input (ve_policy_now V) toolID c) = None
      \<and> call_binding (ve_jose V) cfg toolID (resolveOpts opts) c = None)"
    by (auto simp: VerifyToolCall_def rbind_Inr_iff dpop)
  also have "\<dots> \<longleftrightarrow> (\<exists>t tp tool. ?rhs t tp tool)"
    by (auto simp: call_authorize_Inr_iff [OF assms] call_revocation_None_iff call_policy_None_iff
        binding sel)
  finally show ?thesis .
qed

section \<open>Guarantees\<close>

text \<open>
  C3. What the MCP pipeline lets through, exactly: a call of a tool passes if and only if the
  token's signature verifies (outside development), a key it is bound to is proved, the tool
  is registered and is the token's audience, the token has every capability the tool
  requires, its blast radius fits the tool's, its subject is not revoked, the policy allows
  the call, and the execution claims match the tool and the request body; the claims handed
  on are those of the token.
\<close>

theorem tool_call_accepted_iff:
  assumes "vr_registry cfg = Some reg" and "toolID \<noteq> ''''"
  shows "VerifyToolCall V cfg tok toolID opts = Inr c \<longleftrightarrow>
    (\<exists>t tp tool. call_identity V cfg tok = Inr t
       \<and> verifyDPoP (ve_jose V) (ve_dpop_now V) (vr_dev_mode cfg) (vc_cnf_thumbprint (extractClaims t))
           (map_option vo_dpop_proof (resolveOpts opts)) = Inr tp
       \<and> McpRegistry_Get reg toolID = Some tool
       \<and> vc_audience (extractClaims t) = resource_of tool
       \<and> set (te_required_capabilities tool) \<subseteq> set (vc_capabilities (extractClaims t))
       \<and> (te_max_blast_radius tool \<noteq> '''' \<longrightarrow> vc_blast_radius (extractClaims t) \<noteq> '''' \<longrightarrow>
            blastRadiusFits (vc_blast_radius (extractClaims t)) (te_max_blast_radius tool))
       \<and> (\<forall>check. vr_revocation cfg = Some check \<longrightarrow> fst (check (token_subject t)) = None)
       \<and> (\<forall>evaluate. vr_policy cfg = Some evaluate \<longrightarrow>
            (\<exists>d. evaluate (mcp_policy_input (ve_policy_now V) toolID c) = Inr d \<and> pd_allowed d))
       \<and> binding_holds (ve_jose V) (extract_execution t) tool (body_of (resolveOpts opts))
       \<and> c = (extractClaims t)\<lparr>vc_cnf_thumbprint := tp, vc_tool_id := toolID,
                               vc_resource := resource_of tool\<rparr>)"
  by (rule call_accepted_iff [OF assms])

theorem tool_call_accepted_iff_witness:
  "\<exists>c. VerifyToolCall demo_verify_env (mcp_view ''mcp'' demo_verifier) ''plain'' ''db'' [] = Inr c
     \<and> vc_resource c = ''db'' \<and> ''read'' \<in> set (vc_capabilities c)"
proof -
  let ?cfg = "mcp_view ''mcp'' demo_verifier"
  let ?r = "VerifyToolCall demo_verify_env ?cfg ''plain'' ''db'' []"
  have reg: "vr_registry ?cfg = Some [(''db'', tool_entry.truncate demo_tool)]" and "''db'' \<noteq> ''''"
    by (simp_all add: demo_verifier_def)
  have "\<not> isl ?r" by code_simp
  then obtain c where c: "?r = Inr c" by (cases ?r) auto
  from tool_call_accepted_iff [OF reg \<open>''db'' \<noteq> ''''\<close>, THEN iffD1, OF c] obtain t tp tool where
    "McpRegistry_Get [(''db'', tool_entry.truncate demo_tool)] ''db'' = Some tool"
    "set (te_required_capabilities tool) \<subseteq> set (vc_capabilities (extractClaims t))"
    "c = (extractClaims t)\<lparr>vc_cnf_thumbprint := tp, vc_tool_id := ''db'', vc_resource := resource_of tool\<rparr>"
    by blast
  with c show ?thesis by (auto simp: McpRegistry_Get_def demo_tool_def resource_of_def)
qed



text \<open>Without the claim, a token reads the same up to the thumbprint.\<close>

lemma get_delete_cnf:
  "k \<noteq> ''cnf'' \<Longrightarrow> get_str (AList.delete ''cnf'' t) k = get_str t k"
  "k \<noteq> ''cnf'' \<Longrightarrow> get_num (AList.delete ''cnf'' t) k = get_num t k"
  "k \<noteq> ''cnf'' \<Longrightarrow> get_arr (AList.delete ''cnf'' t) k = get_arr t k"
  by (simp_all add: get_str_def get_num_def get_arr_def gomap_simps)

lemma extractIdentity_ignores_cnf: "extractIdentity (AList.delete ''cnf'' t) p = extractIdentity t p"
  by (simp add: extractIdentity_def Let_def get_delete_cnf token_subject_def token_issuer_def
      token_audience_def token_expiration_def gomap_simps)

text \<open>
  The verifiers part on key-bound tokens. Outside development the MCP pipeline refuses a
  token with a key thumbprint when the call carries no proof of that key; the shared
  verifier decides as if the token had no thumbprint, so a bound token is a bearer token
  there.
\<close>

theorem shared_verifier_ignores_binding:
  assumes "\<not> vv_dev_mode cfg" and "tq_token req \<noteq> ''''"
    and "verify_identity V cfg (tq_token req) = Inr t"
    and "vc_cnf_thumbprint (extractClaims t) \<noteq> ''''"
    and "verify_identity V' cfg (tq_token req) = Inr (AList.delete ''cnf'' t)"
    and "ve_policy_now V' = ve_policy_now V" and "ve_jose V' = ve_jose V"
  shows "VerifyToolCall V (mcp_view (tq_protocol req) cfg) (tq_token req) (tq_tool_id req)
      [Some \<lparr>vo_request_body = tq_request_body req, vo_dpop_proof = ''''\<rparr>] = Inl (DPoPInvalid ProofRequired)
    \<and> Verify V cfg req = Verify V' cfg req"
proof
  have "call_identity V (mcp_view (tq_protocol req) cfg) (tq_token req) = Inr t"
    using assms(3) by (cases "call_identity V (mcp_view (tq_protocol req) cfg) (tq_token req)")
      (simp_all add: verify_identity_eq [of V cfg _ "tq_protocol req"])
  with assms(1,4) show "VerifyToolCall V (mcp_view (tq_protocol req) cfg) (tq_token req) (tq_tool_id req)
      [Some \<lparr>vo_request_body = tq_request_body req, vo_dpop_proof = ''''\<rparr>] = Inl (DPoPInvalid ProofRequired)"
    by (simp add: VerifyToolCall_def resolveOpts_def call_dpop_def verifyDPoP_def)
  show "Verify V cfg req = Verify V' cfg req"
    using assms by (simp add: Verify_def extractIdentity_ignores_cnf)
qed

theorem shared_verifier_ignores_binding_witness:
  "VerifyToolCall demo_verify_env (mcp_view ''a2a/v1'' demo_verifier) ''bound'' ''db''
      [Some \<lparr>vo_request_body = None, vo_dpop_proof = ''''\<rparr>] = Inl (DPoPInvalid ProofRequired)
   \<and> isl (Verify demo_verify_env demo_verifier (demo_call ''bound'')) = False"
proof
  let ?V' = "demo_verify_env\<lparr>ve_parse_insecure := (\<lambda>s. Some tool_claims),
    ve_parse := (\<lambda>alg k s. Some tool_claims)\<rparr>"
  have 1: "verify_identity demo_verify_env demo_verifier (tq_token (demo_call ''bound'')) = Inr bound_claims"
    by code_simp
  have 2: "verify_identity ?V' demo_verifier (tq_token (demo_call ''bound'')) =
      Inr (AList.delete ''cnf'' bound_claims)"
    by code_simp
  have 3: "\<not> vv_dev_mode demo_verifier" "tq_token (demo_call ''bound'') \<noteq> ''''"
    "vc_cnf_thumbprint (extractClaims bound_claims) \<noteq> ''''"
    "ve_policy_now ?V' = ve_policy_now demo_verify_env" "ve_jose ?V' = ve_jose demo_verify_env"
    by (simp_all add: demo_verifier_def demo_call_def extractClaims_def bound_claims_def get_obj_def
        str_member_def)
  from shared_verifier_ignores_binding [OF 3(1,2) 1 3(3) 2 3(4,5)]
  show "VerifyToolCall demo_verify_env (mcp_view ''a2a/v1'' demo_verifier) ''bound'' ''db''
      [Some \<lparr>vo_request_body = None, vo_dpop_proof = ''''\<rparr>] = Inl (DPoPInvalid ProofRequired)"
    by (simp add: demo_call_def)
  show "isl (Verify demo_verify_env demo_verifier (demo_call ''bound'')) = False" by code_simp
qed

end
