(* ===== verification/Mcp_Guarantees.thy ===== *)
theory Mcp_Guarantees
  imports Mcp_Middleware Tool_Guarantees
begin

text \<open>
  What the middleware guarantees around the verification: no call reaches the tool without
  it, every decision is recorded, and the execution context token it signs describes the
  call that was made. Also where its response falls short.
\<close>

section \<open>The capture\<close>

primrec written :: "response_action \<Rightarrow> string" where
  "written (ActSetHeader k v) = ''''"
| "written (ActWriteHeader code) = ''''"
| "written (ActWrite b) = b"

lemma capture_writer:
  "rc_writer (fold capture_action acts rc) = fold rw_action acts (rc_writer rc)"
proof (induction acts arbitrary: rc)
  case (Cons a acts)
  have "rc_writer (capture_action a rc) = rw_action a (rc_writer rc)"
    by (cases a) (simp_all add: capture_WriteHeader_def capture_Write_def)
  with Cons show ?case by simp
qed simp

lemma capture_body:
  "rc_body (fold capture_action acts rc) = rc_body rc @ concat (map written acts)"
proof (induction acts arbitrary: rc)
  case (Cons a acts)
  have "rc_body (capture_action a rc) = rc_body rc @ written a"
    by (cases a) (simp_all add: capture_WriteHeader_def capture_Write_def)
  with Cons show ?case by simp
qed simp

lemma rw_body_simps [simp]:
  "rw_body (rw_set_header k v w) = rw_body w"
  "rw_body (rw_write_header code w) = rw_body w"
  "rw_body (rw_write b w) = rw_body w @ b"
  by (simp_all add: rw_set_header_def rw_write_header_def rw_write_def Let_def split: option.split)

lemma rw_body_fold: "rw_body (fold rw_action acts w) = rw_body w @ concat (map written acts)"
proof (induction acts arbitrary: w)
  case (Cons a acts)
  have "rw_body (rw_action a w) = rw_body w @ written a" by (cases a) simp_all
  with Cons show ?case by simp
qed simp

section \<open>The decision\<close>

definition decide_call ::
  "('pub, 'key, 'alg, 'raw, 'signer) call_env \<Rightarrow> ('pub, 'signer) middleware_config
   \<Rightarrow> http_request \<Rightarrow> mcp_error + verified_claims" where
  "decide_call V cfg r =
     rbind (extractBearerToken r) (\<lambda>token.
       VerifyToolCall (cv_verify V) (mw_verify cfg) token (extractToolID r) [Some (request_options r)])"

lemma extractBearerToken_error: "extractBearerToken r = Inl e \<Longrightarrow> error_status e = (401, ''invalid_token'')"
  by (auto simp: extractBearerToken_def Let_def error_status_def split: if_splits list.splits)

definition refusal_tool :: "http_request \<Rightarrow> string" where
  "refusal_tool r = (case extractBearerToken r of Inl _ \<Rightarrow> '''' | Inr _ \<Rightarrow> extractToolID r)"

lemma Middleware_refused:
  "decide_call V cfg r = Inl err \<Longrightarrow>
   Middleware V cfg handler r w s = refuse_call V cfg r (refusal_tool r) (error_status err) err w s"
  by (cases "extractBearerToken r")
    (auto simp: decide_call_def Middleware_def refusal_tool_def extractBearerToken_error Let_def)

definition allowed_state ::
  "('pub, 'key, 'alg, 'raw, 'signer) call_env \<Rightarrow> ('pub, 'signer) middleware_config
   \<Rightarrow> http_request \<Rightarrow> verified_claims \<Rightarrow> mcp_state \<Rightarrow> mcp_state" where
  "allowed_state V cfg r c s =
     logAudit cfg r (vc_subject c) (extractToolID r) ''allowed'' ''all checks passed'' (cv_decided_ms V) s"

lemma Middleware_allowed:
  assumes "decide_call V cfg r = Inr c"
  shows "Middleware V cfg handler r w s =
    (case (mw_signing_key cfg, vc_execution c) of
       (Some key, Some _) \<Rightarrow>
         account_call V cfg key c (extractToolID r)
           (extractParentECTJTIs (ve_parse_insecure (cv_verify V)) r)
           (fold capture_action (handler r c) (newResponseCapture w)) (allowed_state V cfg r c s)
     | _ \<Rightarrow> (fold rw_action (handler r c) w, allowed_state V cfg r c s))"
  using assms by (cases "extractBearerToken r")
    (auto simp: decide_call_def Middleware_def allowed_state_def Let_def split: option.split)

lemma error_status_range: "fst (error_status e) \<in> {401, 403}"
  by (cases e) (simp_all add: error_status_def)

lemma logAudit_sel [simp]:
  "ms_tracker (logAudit cfg r u t d x ms s) = ms_tracker s"
  "ms_ledger (logAudit cfg r u t d x ms s) = ms_ledger s"
  by (simp_all add: logAudit_def)

lemma logAudit_event:
  "mw_auditor cfg \<Longrightarrow> \<exists>ev. ms_audit (logAudit cfg r u t d x ms s) = ms_audit s @ [ev]
     \<and> au_action ev = ''tool_call_verified'' \<and> au_decision ev = d \<and> au_subject ev = u
     \<and> au_target ev = t"
  by (simp add: logAudit_def)

section \<open>The records\<close>

lemma account_call_records:
  assumes "account_call V cfg key c tid ps rc s = (w', s')"
  shows "(\<forall>l. ms_ledger s = Some l \<longrightarrow> ledger_ok (cv_hash V) l \<longrightarrow>
      (\<exists>l'. ms_ledger s' = Some l' \<and> ledger_ok (cv_hash V) l' \<and> prefix (lg_entries l) (lg_entries l')))
    \<and> (\<forall>wt. ms_tracker s = Some wt \<longrightarrow> tracker_reach wt \<longrightarrow>
      (\<exists>wt'. ms_tracker s' = Some wt' \<and> tracker_reach wt'))
    \<and> prefix (ms_audit s) (ms_audit s')"
proof (cases "GenerateECT (cv_ect V) \<lparr>er_claims = c, er_tool_id = tid, er_response_body = rc_body rc,
              er_duration_ms = cv_executed_ms V, er_parent_ids = ps\<rparr>
             (mw_issuer cfg) key (mw_signing_key_id cfg)")
  case (Inl e)
  with assms show ?thesis by (auto simp: account_call_def)
next
  case (Inr e)
  with assms have s': "s' = log_ect cfg c tid e (cv_recorded_ms V)
      (append_ledger (cv_hash V) (cv_ledger_now V) c tid e (record_workflow c e s))"
    by (simp add: account_call_def)
  have prefix_append: "prefix (lg_entries l) (lg_entries (snd (Ledger_Append H now x l)))" for l H now x
    by (cases rule: Append_cases [where l = l and entry = x and H = H and now = now]) simp_all
  have "tracker_reach (snd (RecordTask wid j i ps' wt))" if "tracker_reach wt" for wid j i ps' wt
    using that by (rule tracker_reach.record_task [OF _ prod.collapse [symmetric]])
  then show ?thesis unfolding s'
    by (auto simp: log_ect_def append_ledger_def record_workflow_def Let_def prefix_append
        intro: ledger_ok_Append split: option.splits)
qed

lemma Middleware_records:
  assumes "Middleware V cfg handler r w s = (w', s')"
  shows "(\<forall>l. ms_ledger s = Some l \<longrightarrow> ledger_ok (cv_hash V) l \<longrightarrow>
      (\<exists>l'. ms_ledger s' = Some l' \<and> ledger_ok (cv_hash V) l' \<and> prefix (lg_entries l) (lg_entries l')))
    \<and> (\<forall>wt. ms_tracker s = Some wt \<longrightarrow> tracker_reach wt \<longrightarrow>
      (\<exists>wt'. ms_tracker s' = Some wt' \<and> tracker_reach wt'))
    \<and> prefix (ms_audit s) (ms_audit s')"
proof (cases "decide_call V cfg r")
  case (Inl err)
  with assms show ?thesis by (auto simp: Middleware_refused refuse_call_def logAudit_def)
next
  case (Inr c)
  have pre: "prefix (ms_audit s) (ms_audit (allowed_state V cfg r c s))"
    by (simp add: allowed_state_def logAudit_def)
  have sel: "ms_ledger (allowed_state V cfg r c s) = ms_ledger s"
    "ms_tracker (allowed_state V cfg r c s) = ms_tracker s"
    by (simp_all add: allowed_state_def)
  show ?thesis
  proof (cases "mw_signing_key cfg = None \<or> vc_execution c = None")
    case True
    then have "s' = allowed_state V cfg r c s"
      using assms Middleware_allowed [OF Inr, of handler w s] by (auto split: option.splits)
    with pre sel show ?thesis by auto
  next
    case False
    then obtain key ex where "mw_signing_key cfg = Some key" "vc_execution c = Some ex" by auto
    with assms Middleware_allowed [OF Inr, of handler w s]
    have "account_call V cfg key c (extractToolID r)
        (extractParentECTJTIs (ve_parse_insecure (cv_verify V)) r)
        (fold capture_action (handler r c) (newResponseCapture w)) (allowed_state V cfg r c s) = (w', s')"
      by simp
    from account_call_records [OF this] pre sel show ?thesis by (auto intro: prefix_order.trans)
  qed
qed

text \<open>A run of requests, each with its own clock readings, on one configuration.\<close>

fun serve_all ::
  "('pub, 'signer) middleware_config
   \<Rightarrow> (http_request \<Rightarrow> verified_claims \<Rightarrow> response_action list)
   \<Rightarrow> (('pub, 'key, 'alg, 'raw, 'signer) call_env \<times> http_request) list \<Rightarrow> mcp_state \<Rightarrow> mcp_state" where
  "serve_all cfg handler [] s = s"
| "serve_all cfg handler ((V, r) # rs) s =
     serve_all cfg handler rs (snd (Middleware V cfg handler r new_writer s))"

section \<open>The token's claims\<close>

lemma GenerateECT_Inr:
  assumes "GenerateECT E req issuer key kid = Inr e"
  shows "\<exists>alg hdrs. ee_sign E alg key hdrs (ect_claims e) = Some (et_signed_token e)"
proof -
  have "ect_claims (x\<lparr>et_signed_token := tok\<rparr>) = ect_claims x" for x tok by (simp add: ect_claims_def)
  with assms show ?thesis by (fastforce simp: GenerateECT_def Let_def split: option.splits if_splits)
qed

lemma GenerateECT_fields:
  assumes "GenerateECT E req issuer key kid = Inr e"
  shows "et_issuer e = issuer" "vc_subject (er_claims req) \<in> set (et_audience e)"
    "et_parent_ids e = er_parent_ids req" "et_expires e = time_add (et_issued_at e) DefaultECTExpiry"
    "et_output_hash e =
      (if er_response_body req \<noteq> '''' then ee_sha256_b64url E (er_response_body req) else '''')"
    "vc_execution (er_claims req) = Some x \<Longrightarrow> et_exec_act e = xs_exec_act x"
    "vc_execution (er_claims req) = Some x \<Longrightarrow> et_input_hash e = xs_input_hash x"
    "vc_execution (er_claims req) = Some x \<Longrightarrow> et_workflow_id e = xs_workflow_id x"
  using assms by (auto simp: GenerateECT_def ect_fields_def Let_def split: option.splits if_splits)

lemma map_of_optional_claim:
  "map_of (optional_claim k v) n = (if n = k \<and> v \<noteq> '''' then Some (JStr v) else None)"
  by (simp add: optional_claim_def)

lemma ect_claims_lookup:
  "map_of (ect_claims e) ''iss'' = Some (JStr (et_issuer e))"
  "map_of (ect_claims e) ''jti'' = Some (JStr (et_jti e))"
  "map_of (ect_claims e) ''aud'' = Some (JArr (map JStr (et_audience e)))"
  "map_of (ect_claims e) ''exp'' = Some (JNum (of_int (unix_seconds (et_expires e))))"
  "map_of (ect_claims e) ''exec_act'' = Some (JStr (et_exec_act e))"
  "map_of (ect_claims e) ''par'' = Some (JArr (map JStr (et_parent_ids e)))"
  "et_input_hash e \<noteq> '''' \<Longrightarrow> map_of (ect_claims e) ''inp_hash'' = Some (JStr (et_input_hash e))"
  "et_output_hash e \<noteq> '''' \<Longrightarrow> map_of (ect_claims e) ''out_hash'' = Some (JStr (et_output_hash e))"
  "et_workflow_id e \<noteq> '''' \<Longrightarrow> map_of (ect_claims e) ''wid'' = Some (JStr (et_workflow_id e))"
  by (simp_all add: ect_claims_def map_of_optional_claim map_add_def)

lemma token_audience_ect: "token_audience (ect_claims e) = et_audience e"
  by (simp add: token_audience_def ect_claims_lookup)

lemma token_expiration_ect: "token_expiration (ect_claims e) = time_of_unix (unix_seconds (et_expires e))"
  by (simp add: token_expiration_def get_num_def ect_claims_lookup)

lemma DefaultECTExpiry_seconds:
  "unix_seconds (time_add t DefaultECTExpiry) = unix_seconds t + 300"
  using unix_seconds_add [of t 300] by (simp add: DefaultECTExpiry_def go_minute_def)

text \<open>An accepted call of a scoped token is filed.\<close>

lemma Middleware_files_ect:
  assumes "decide_call V cfg r = Inr c" and "mw_signing_key cfg = Some key"
    and "vc_execution c = Some x"
    and "GenerateECT (cv_ect V)
      \<lparr>er_claims = c, er_tool_id = extractToolID r, er_response_body = concat (map written (handler r c)),
       er_duration_ms = cv_executed_ms V,
       er_parent_ids = extractParentECTJTIs (ve_parse_insecure (cv_verify V)) r\<rparr>
      (mw_issuer cfg) key (mw_signing_key_id cfg) = Inr e"
    and "ms_ledger s = Some l" and "ledger_ok (cv_hash V) l"
    and fresh: "Ledger_Lookup l (et_jti e) = None" and hash: "\<forall>f. hashEntry (cv_hash V) f \<noteq> None"
  shows "\<exists>l' f. ms_ledger (snd (Middleware V cfg handler r w s)) = Some l'
    \<and> Ledger_Lookup l' (et_jti e) = Some f \<and> le_ect_token f = et_signed_token e
    \<and> le_subject f = vc_subject c \<and> le_tool_id f = extractToolID r"
proof -
  let ?f = "\<lparr>le_sequence = 0, le_jti = et_jti e, le_prev_hash = '''', le_ect_token = et_signed_token e,
     le_issuer = et_issuer e, le_subject = vc_subject c, le_tool_id = extractToolID r,
     le_exec_act = et_exec_act e, le_workflow_id = et_workflow_id e, le_recorded_at = 0\<rparr>"
  let ?a = "Ledger_Append (cv_hash V) (cv_ledger_now V) ?f l"
  have body: "rc_body (fold capture_action (handler r c) (newResponseCapture w)) = concat (map written (handler r c))"
    by (simp add: capture_body newResponseCapture_def)
  have keep: "ms_ledger (record_workflow c e (allowed_state V cfg r c s)) = Some l"
    "ms_ledger (log_ect cfg c t e ms u) = ms_ledger u" for t ms u
    using assms(5) by (simp_all add: record_workflow_def allowed_state_def log_ect_def Let_def
        split: option.split)
  have led: "ms_ledger (snd (Middleware V cfg handler r w s)) = Some (snd ?a)"
    using assms(2-4) Middleware_allowed [OF assms(1), of handler w s] body
    by (simp add: account_call_def append_ledger_def keep)
  have "map_of (lg_index l) (et_jti e) = None"
    using fresh assms(6) by (auto simp: Ledger_Lookup_def ledger_ok_def split: option.splits if_splits)
  moreover have "hashEntry (cv_hash V) (chained_entry (cv_ledger_now V) ?f l) \<noteq> None" using hash by blast
  ultimately have "Ledger_Lookup (snd ?a) (et_jti e) = Some (chained_entry (cv_ledger_now V) ?f l)"
    by (auto simp: Ledger_Lookup_def gomap_simps Ledger_Append_def Let_def chained_entry_def)
  with led show ?thesis by (simp add: chained_entry_def)
qed

section \<open>A deployment to run the middleware on\<close>

definition demo_ect_env :: "unit ect_env" where
  "demo_ect_env = \<lparr>ee_now = 0, ee_uuid = ''j1'', ee_sha256_b64url = (\<lambda>b. ''h:'' @ b),
     ee_set_ok = (\<lambda>k v. True), ee_header_ok = (\<lambda>k v. True), ee_signer_kind = (\<lambda>k. EcdsaKey),
     ee_sign = (\<lambda>alg k hdrs t. Some ''signed'')\<rparr>"

definition demo_call_env :: "(unit, unit, unit, unit, unit) call_env" where
  "demo_call_env = \<lparr>cv_verify = demo_verify_env, cv_ect = demo_ect_env, cv_hash = demo_hash,
     cv_err_text = (\<lambda>e. ''refused''), cv_json = (\<lambda>j. ''{}''), cv_decided_ms = 1,
     cv_executed_ms = 2, cv_recorded_ms = 3, cv_ledger_now = 7\<rparr>"

definition demo_middleware :: "(unit, unit) middleware_config" where
  "demo_middleware = \<lparr>mw_verify = mcp_view ''mcp'' demo_verifier, mw_auditor = True,
     mw_unit_id = ''u1'', mw_signing_key = Some (), mw_signing_key_id = ''k1'', mw_issuer = ''unit''\<rparr>"

definition demo_handler :: "http_request \<Rightarrow> verified_claims \<Rightarrow> response_action list" where
  "demo_handler r c = [ActSetHeader ''X-Tool'' ''db'', ActWriteHeader 201, ActWrite ''rows'']"

definition tool_request :: "string \<Rightarrow> http_request" where
  "tool_request tok = \<lparr>hq_method = ''POST'', hq_path = ''/v1/mcp/tools/db/call'',
     hq_headers = [(''authorization'', ''bearer '' @ tok)], hq_body = NoBody, hq_remote_addr = ''''\<rparr>"

definition demo_mcp_state :: mcp_state where
  "demo_mcp_state = \<lparr>ms_audit = [], ms_tracker = Some (NewWorkflowTracker []),
     ms_ledger = Some NewECTLedger\<rparr>"

definition demo_verified :: verified_claims where
  "demo_verified = (extractClaims tool_claims)\<lparr>vc_tool_id := ''db'', vc_resource := ''db''\<rparr>"

lemma demo_decision:
  "decide_call demo_call_env demo_middleware (tool_request ''plain'') = Inr demo_verified"
  by code_simp

section \<open>Guarantees\<close>

text \<open>
  C4. The middleware is a gate and keeps its books. A refused call never runs the tool (the
  outcome does not depend on it), is answered with 401 or 403 and a JSON error, and leaves
  exactly one denial in the audit log and the other records alone; an accepted call is
  answered with exactly what the tool wrote, after an allow record with the token's subject.
\<close>

theorem middleware_gate:
  assumes "mw_auditor cfg" and "Middleware V cfg handler r new_writer s = (w', s')"
  shows "case decide_call V cfg r of
      Inl err \<Rightarrow>
        (\<forall>other. Middleware V cfg other r new_writer s = (w', s'))
        \<and> (\<exists>status. rw_sent w' = Some (status, [(''Content-Type'', ''application/json'')])
             \<and> status \<in> {401, 403})
        \<and> (\<exists>ev. ms_audit s' = ms_audit s @ [ev] \<and> au_decision ev = ''denied'' \<and> au_subject ev = '''')
        \<and> ms_tracker s' = ms_tracker s \<and> ms_ledger s' = ms_ledger s
    | Inr c \<Rightarrow>
        rw_body w' = concat (map written (handler r c))
        \<and> (\<exists>ev evs. ms_audit s' = ms_audit s @ ev # evs \<and> au_decision ev = ''allowed''
             \<and> au_subject ev = vc_subject c)"
proof (cases "decide_call V cfg r")
  case (Inl err)
  have "rw_sent w' = Some (fst (error_status err), [(''Content-Type'', ''application/json'')])"
    using assms(2) by (auto simp: Middleware_refused [OF Inl] refuse_call_def writeError_def
        new_writer_def rw_set_header_def)
  then show ?thesis
    using assms logAudit_event [OF assms(1)] error_status_range [of err]
    by (auto simp: Inl Middleware_refused [OF Inl] refuse_call_def subjectOrEmpty_def logAudit_def)
next
  case (Inr c)
  let ?s = "allowed_state V cfg r c s"
  obtain ev where ev: "ms_audit ?s = ms_audit s @ [ev]" "au_decision ev = ''allowed''"
    "au_subject ev = vc_subject c"
    using logAudit_event [OF assms(1)] unfolding allowed_state_def by metis
  have body: "rw_body (fold rw_action (handler r c) new_writer) = concat (map written (handler r c))"
    by (simp add: rw_body_fold new_writer_def)
  have "prefix (ms_audit ?s) (ms_audit s') \<and> rw_body w' = concat (map written (handler r c))"
  proof (cases "mw_signing_key cfg = None \<or> vc_execution c = None")
    case True
    with assms(2) body show ?thesis
      using Middleware_allowed [OF Inr, of handler new_writer s] by (auto split: option.splits)
  next
    case False
    then obtain key ex where "mw_signing_key cfg = Some key" "vc_execution c = Some ex" by auto
    then have a: "account_call V cfg key c (extractToolID r)
        (extractParentECTJTIs (ve_parse_insecure (cv_verify V)) r)
        (fold capture_action (handler r c) (newResponseCapture new_writer)) ?s = (w', s')"
      using assms(2) Middleware_allowed [OF Inr, of handler new_writer s] by simp
    then have "rw_body w' = rw_body (fold rw_action (handler r c) new_writer)"
      by (auto simp: account_call_def capture_writer newResponseCapture_def split: sum.splits)
    with account_call_records [OF a] body show ?thesis by simp
  qed
  with ev show ?thesis by (auto simp: Inr prefix_def)
qed

theorem middleware_gate_witness:
  "rw_body (fst (Middleware demo_call_env demo_middleware demo_handler (tool_request ''plain'')
     new_writer demo_mcp_state)) = ''rows'' \<and>
   (\<exists>status. rw_sent (fst (Middleware demo_call_env demo_middleware demo_handler (tool_request ''forged'')
     new_writer demo_mcp_state)) = Some (status, [(''Content-Type'', ''application/json'')]))"
proof -
  have a: "mw_auditor demo_middleware" by (simp add: demo_middleware_def)
  have refused: "decide_call demo_call_env demo_middleware (tool_request ''forged'') =
      Inl (InvalidToken Unparsable)" by code_simp
  show ?thesis
    using middleware_gate [OF a, where V = demo_call_env and handler = demo_handler
        and s = demo_mcp_state and r = "tool_request ''plain''", OF prod.collapse [symmetric]]
      middleware_gate [OF a, where V = demo_call_env and handler = demo_handler
        and s = demo_mcp_state and r = "tool_request ''forged''", OF prod.collapse [symmetric]]
    by (auto simp: demo_decision refused demo_handler_def)
qed

text \<open>
  The records survive every run of requests: the ledger verifies and only grows, the
  tracker stays in a reachable state (so that its workflows remain acyclic), and no audit
  event is lost.
\<close>

theorem middleware_keeps_records:
  assumes "\<forall>(V, r) \<in> set rs. cv_hash V = H"
    and "ms_ledger s = Some l" and "ledger_ok H l"
    and "ms_tracker s = Some wt" and "tracker_reach wt"
  shows "\<exists>l' wt'. ms_ledger (serve_all cfg handler rs s) = Some l' \<and> ledger_ok H l'
    \<and> prefix (lg_entries l) (lg_entries l')
    \<and> ms_tracker (serve_all cfg handler rs s) = Some wt' \<and> tracker_reach wt'
    \<and> prefix (ms_audit s) (ms_audit (serve_all cfg handler rs s))"
  using assms
proof (induction cfg handler rs s arbitrary: l wt rule: serve_all.induct)
  case (1 cfg handler s)
  then show ?case by simp
next
  case (2 cfg handler V r rs s)
  let ?s = "snd (Middleware V cfg handler r new_writer s)"
  have H: "cv_hash V = H" "\<forall>(V, r) \<in> set rs. cv_hash V = H" using "2.prems"(1) by auto
  from Middleware_records [where V = V and cfg = cfg and handler = handler and r = r and s = s, OF prod.collapse [symmetric]]
  obtain l1 wt1 where 1: "ms_ledger ?s = Some l1" "ledger_ok H l1" "prefix (lg_entries l) (lg_entries l1)"
    "ms_tracker ?s = Some wt1" "tracker_reach wt1" "prefix (ms_audit s) (ms_audit ?s)"
    using "2.prems" H(1) by metis
  from "2.IH" [OF H(2) 1(1,2,4,5)] 1(3,6) show ?case by (auto intro: prefix_order.trans)
qed

theorem middleware_keeps_records_witness:
  "\<exists>l'. ms_ledger (serve_all demo_middleware demo_handler
      [(demo_call_env, tool_request ''plain''), (demo_call_env, tool_request ''forged'')] demo_mcp_state) = Some l'
    \<and> ledger_ok demo_hash l'"
proof -
  let ?rs = "[(demo_call_env, tool_request ''plain''), (demo_call_env, tool_request ''forged'')]"
  have "\<forall>(V, r) \<in> set ?rs. cv_hash V = demo_hash" by (simp add: demo_call_env_def)
  moreover have "ms_ledger demo_mcp_state = Some NewECTLedger"
    "ms_tracker demo_mcp_state = Some (NewWorkflowTracker [])" by (simp_all add: demo_mcp_state_def)
  ultimately show ?thesis
    using middleware_keeps_records [OF _ _ ledger_ok_New _ tracker_reach.new, of ?rs demo_hash
        demo_mcp_state "[]" demo_middleware demo_handler] by blast
qed

text \<open>
  The execution context token describes the call. When the tool call of a scoped token is
  accepted and its token signed, the signed claims name this unit, the caller and its
  parents, carry the operation, input hash, target and workflow of the caller's token and
  the hash of exactly what the tool wrote, expire five minutes later, and the token is filed
  in the ledger under its identifier unless the ledger refuses it.
\<close>

theorem ect_describes_call:
  assumes "decide_call V cfg r = Inr c" and "mw_signing_key cfg = Some key"
    and "vc_execution c = Some x"
    and "GenerateECT (cv_ect V)
      \<lparr>er_claims = c, er_tool_id = extractToolID r, er_response_body = concat (map written (handler r c)),
       er_duration_ms = cv_executed_ms V,
       er_parent_ids = extractParentECTJTIs (ve_parse_insecure (cv_verify V)) r\<rparr>
      (mw_issuer cfg) key (mw_signing_key_id cfg) = Inr e"
    and "ms_ledger s = Some l" and "ledger_ok (cv_hash V) l"
  shows "\<exists>alg hdrs t. ee_sign (cv_ect V) alg key hdrs t = Some (et_signed_token e)
    \<and> map_of t ''iss'' = Some (JStr (mw_issuer cfg)) \<and> map_of t ''jti'' = Some (JStr (et_jti e))
    \<and> vc_subject c \<in> set (token_audience t)
    \<and> map_of t ''par'' = Some (JArr (map JStr (extractParentECTJTIs (ve_parse_insecure (cv_verify V)) r)))
    \<and> map_of t ''exec_act'' = Some (JStr (xs_exec_act x))
    \<and> (xs_input_hash x \<noteq> '''' \<longrightarrow> map_of t ''inp_hash'' = Some (JStr (xs_input_hash x)))
    \<and> (concat (map written (handler r c)) \<noteq> '''' \<longrightarrow>
         ee_sha256_b64url (cv_ect V) (concat (map written (handler r c))) \<noteq> '''' \<longrightarrow>
         map_of t ''out_hash'' =
           Some (JStr (ee_sha256_b64url (cv_ect V) (concat (map written (handler r c))))))
    \<and> (xs_workflow_id x \<noteq> '''' \<longrightarrow> map_of t ''wid'' = Some (JStr (xs_workflow_id x)))
    \<and> token_expiration t = time_of_unix (unix_seconds (et_issued_at e) + 300)
    \<and> (Ledger_Lookup l (et_jti e) = None \<longrightarrow>
         (\<forall>f. hashEntry (cv_hash V) f \<noteq> None) \<longrightarrow>
         (\<exists>l' f. ms_ledger (snd (Middleware V cfg handler r w s)) = Some l'
            \<and> Ledger_Lookup l' (et_jti e) = Some f \<and> le_ect_token f = et_signed_token e
            \<and> le_subject f = vc_subject c \<and> le_tool_id f = extractToolID r))"
proof -
  from GenerateECT_Inr [OF assms(4)] obtain alg hdrs where
    sig: "ee_sign (cv_ect V) alg key hdrs (ect_claims e) = Some (et_signed_token e)" by blast
  note fields = GenerateECT_fields [OF assms(4)]
  have filed: "\<exists>l' f. ms_ledger (snd (Middleware V cfg handler r w s)) = Some l'
      \<and> Ledger_Lookup l' (et_jti e) = Some f \<and> le_ect_token f = et_signed_token e
      \<and> le_subject f = vc_subject c \<and> le_tool_id f = extractToolID r"
    if "Ledger_Lookup l (et_jti e) = None" "\<forall>f. hashEntry (cv_hash V) f \<noteq> None"
    using Middleware_files_ect [where V = V and cfg = cfg and r = r and handler = handler and s = s and w = w]
      assms that by blast
  show ?thesis
    by (rule exI [of _ alg], rule exI [of _ hdrs], rule exI [of _ "ect_claims e"],
        intro conjI impI filed sig)
      (use fields assms(3) in \<open>simp_all add: ect_claims_lookup token_audience_ect token_expiration_ect
        DefaultECTExpiry_seconds\<close>)
qed

theorem ect_describes_call_witness:
  "\<exists>t l' f. map_of t ''out_hash'' = Some (JStr ''h:rows'') \<and>
     ms_ledger (snd (Middleware demo_call_env demo_middleware demo_handler (tool_request ''plain'')
       new_writer demo_mcp_state)) = Some l' \<and> Ledger_Lookup l' ''j1'' = Some f \<and> le_ect_token f = ''signed''"
proof -
  let ?r = "tool_request ''plain''"
  let ?q = "\<lparr>er_claims = demo_verified, er_tool_id = extractToolID ?r,
     er_response_body = concat (map written (demo_handler ?r demo_verified)),
     er_duration_ms = cv_executed_ms demo_call_env,
     er_parent_ids = extractParentECTJTIs (ve_parse_insecure (cv_verify demo_call_env)) ?r\<rparr>"
  let ?g = "GenerateECT (cv_ect demo_call_env) ?q (mw_issuer demo_middleware) ()
     (mw_signing_key_id demo_middleware)"
  have g: "?g = Inr ((ect_fields demo_ect_env ?q ''unit'')\<lparr>et_signed_token := ''signed''\<rparr>)"
    (is "_ = Inr ?e")
  proof -
    have "find (\<lambda>(k, v). \<not> ee_set_ok demo_ect_env k v) cs = None" for cs
      by (simp add: find_None_iff demo_ect_env_def)
    then show ?thesis
      by (simp add: GenerateECT_def demo_call_env_def demo_middleware_def demo_ect_env_def Let_def)
  qed
  obtain x where x: "vc_execution demo_verified = Some x"
    by (simp add: demo_verified_def extractClaims_def extract_execution_def tool_claims_def
        exec_claim_names_def stringClaim_def get_str_def Let_def)
  have key: "mw_signing_key demo_middleware = Some ()"
    and led: "ms_ledger demo_mcp_state = Some NewECTLedger"
    and out: "concat (map written (demo_handler ?r demo_verified)) = ''rows''"
    and jti: "et_jti ?e = ''j1''" "et_signed_token ?e = ''signed''"
    and hash: "ee_sha256_b64url (cv_ect demo_call_env) b = ''h:'' @ b"
      "hashEntry (cv_hash demo_call_env) f \<noteq> None" "Ledger_Lookup NewECTLedger j = None" for b f j
    by (auto simp: demo_middleware_def demo_mcp_state_def demo_handler_def ect_fields_def
        demo_call_env_def demo_ect_env_def hashEntry_def demo_hash_def Ledger_Lookup_def
        NewECTLedger_def Let_def split: prod.split)
  from ect_describes_call [where handler = demo_handler, OF demo_decision key x g led ledger_ok_New,
      of new_writer]
  show ?thesis
    unfolding jti unfolding out hash(1)
  proof (elim exE conjE)
    fix t
    assume t: "''rows'' \<noteq> '''' \<longrightarrow> ''h:'' @ ''rows'' \<noteq> '''' \<longrightarrow>
        map_of t ''out_hash'' = Some (JStr (''h:'' @ ''rows''))"
      and filed: "Ledger_Lookup NewECTLedger ''j1'' = None \<longrightarrow>
        (\<forall>f. hashEntry (cv_hash demo_call_env) f \<noteq> None) \<longrightarrow>
        (\<exists>l' f. ms_ledger (snd (Middleware demo_call_env demo_middleware demo_handler ?r new_writer
           demo_mcp_state)) = Some l' \<and> Ledger_Lookup l' ''j1'' = Some f \<and> le_ect_token f = ''signed''
           \<and> le_subject f = vc_subject demo_verified \<and> le_tool_id f = extractToolID ?r)"
    from filed hash(2,3) obtain l' f where "ms_ledger (snd (Middleware demo_call_env demo_middleware
        demo_handler ?r new_writer demo_mcp_state)) = Some l'" "Ledger_Lookup l' ''j1'' = Some f"
      "le_ect_token f = ''signed''" by auto
    with t show ?thesis by (intro exI [of _ t] exI [of _ l'] exI [of _ f]) simp
  qed
qed

text \<open>
  The caller does not get the execution context token with its answer: the header is set
  after the tool has written, when status and headers are gone. If the tool writes anything,
  what the client receives of them is what the tool alone would have sent.
\<close>

theorem execution_context_header_lost:
  assumes "decide_call V cfg r = Inr c"
    and "rw_sent (fold rw_action (handler r c) new_writer) \<noteq> None"
  shows "rw_sent (rw_finish (fst (Middleware V cfg handler r new_writer s))) =
    rw_sent (fold rw_action (handler r c) new_writer)"
  using assms(2) Middleware_allowed [OF assms(1), of handler new_writer s]
  by (auto simp: account_call_def capture_writer newResponseCapture_def rw_finish_def
      split: option.splits sum.splits)

theorem execution_context_header_lost_witness:
  "rw_sent (rw_finish (fst (Middleware demo_call_env demo_middleware demo_handler
     (tool_request ''plain'') new_writer demo_mcp_state))) = Some (201, [(''X-Tool'', ''db'')])"
proof -
  have "rw_sent (fold rw_action (demo_handler (tool_request ''plain'') demo_verified) new_writer) =
      Some (201, [(''X-Tool'', ''db'')])"
    by (simp add: demo_handler_def new_writer_def rw_set_header_def)
  with execution_context_header_lost [OF demo_decision, of demo_handler demo_mcp_state]
  show ?thesis by simp
qed

end
