(* ===== verification/Issued_Calls.thy ===== *)
theory Issued_Calls
  imports Token_Claims Tool_Guarantees Exchange_Demo
begin

text \<open>
  The exchange engine and the tool-call verifiers together: what the verifiers read in a token
  that the engine has issued, and that a call with a suitable one is accepted. Engine and
  verifiers only share the claims; that the verifier's library reads back the claims that the
  engine's library signed is the one hypothesis on the JWT library.
\<close>

section \<open>Reading issued claims\<close>

lemma token_other_claim:
  assumes "token_claims V e req w d dl dp sc sec = Inr t"
    and "k \<notin> set scope_keys" and "k \<notin> {''secrets'', ''cnf'', ''assurance_level'', ''attestation''}"
    and "k \<notin> {''sub'', ''iss'', ''aud'', ''iat'', ''exp'', ''td'', ''caps'', ''blast_radius'',
      ''obo'', ''delegation_depth''}"
  shows "map_of t k = None"
  using token_identity_claim [OF assms(1-3)] identity_claims_keys [OF _ assms(4)] by metis

lemma token_cnf:
  assumes "token_claims V e req w d dl dp sc sec = Inr t"
  shows "map_of t ''cnf'' = map_option (\<lambda>tp. JObj [(''jkt'', JStr tp)]) dp"
proof -
  from assms obtain t1 t2 t3 where l: "identity_claims V e req w d dl sc = Inr t1"
    "binding_claims V e req dp t1 = Inr t2" "scope_claims V sc t2 = Inr t3"
    "set_str_claim V ''secrets'' sec t3 = Inr t" by (rule token_claims_layers)
  have "map_of t1 ''cnf'' = None" by (rule identity_claims_keys [OF l(1)]) simp
  then show ?thesis
    by (cases dp) (simp_all add: map_of_set_str_claim [OF l(4)] map_of_scope_claims_other [OF l(3)]
        map_of_binding_claims [OF l(2)] scope_keys_def)
qed

text \<open>The scope claims of an issued token, by name.\<close>

lemma token_scope_claim:
  assumes t: "token_claims V e req w d dl dp sc sec = Inr t" and k: "k \<in> set scope_keys"
  shows "map_of t k =
    (case sc of
       None \<Rightarrow> None
     | Some x \<Rightarrow>
         if k = ''htm'' then Some (JStr (xs_method x)) else if k = ''htu'' then Some (JStr (xs_uri x))
         else if k = ''nonce'' then Some (JStr (xs_nonce x))
         else let v = (if k = ''wid'' then xs_workflow_id x else if k = ''target'' then xs_target x
                       else if k = ''exec_act'' then xs_exec_act x else want_hash x)
              in if v \<noteq> '''' then Some (JStr v) else None)"
proof -
  from t obtain t1 t2 t3 where l: "identity_claims V e req w d dl sc = Inr t1"
    "binding_claims V e req dp t1 = Inr t2" "scope_claims V sc t2 = Inr t3"
    "set_str_claim V ''secrets'' sec t3 = Inr t" by (rule token_claims_layers)
  have "map_of t1 k = None" using k by (intro identity_claims_keys [OF l(1)]) (auto simp: scope_keys_def)
  then have t2: "map_of t2 k = None"
    using k by (auto simp: map_of_binding_claims [OF l(2)] scope_keys_def)
  have "map_of t k = map_of t3 k" using k by (auto simp: map_of_set_str_claim [OF l(4)] scope_keys_def)
  also have "\<dots> = (case sc of None \<Rightarrow> None | Some x \<Rightarrow> map_of t3 k)"
    using l(3) t2 by (cases sc) (simp_all add: scope_claims_def)
  finally show ?thesis
    using k l(3) t2
    by (cases sc) (auto simp: map_of_scope_claims scope_keys_def Let_def)
qed

text \<open>What the resource side makes of a requested scope.\<close>

definition scope_read_back :: "execution_scope \<Rightarrow> execution_scope" where
  "scope_read_back x = x\<lparr>xs_input_hash := want_hash x, xs_payload_hash := '''', xs_output_hash := ''''\<rparr>"

lemma extract_execution_issued:
  assumes t: "token_claims V e req w d dl dp sc sec = Inr t"
  shows "extract_execution t = map_option scope_read_back sc"
proof -
  have other: "map_of t ''out_hash'' = None" "map_of t ''payload_hash'' = None"
    by (rule token_other_claim [OF t]; simp add: scope_keys_def)+
  have opt: "(case Option.bind (if v \<noteq> '''' then Some (JStr v) else None) as_str of
      None \<Rightarrow> '''' | Some u \<Rightarrow> u) = v" for v by simp
  have keys: "map_of t ''htm'' = map_option (\<lambda>x. JStr (xs_method x)) sc"
    "map_of t ''htu'' = map_option (\<lambda>x. JStr (xs_uri x)) sc"
    "map_of t ''nonce'' = map_option (\<lambda>x. JStr (xs_nonce x)) sc"
    "claim_or t ''wid'' = (case sc of None \<Rightarrow> '''' | Some x \<Rightarrow> xs_workflow_id x)"
    "claim_or t ''target'' = (case sc of None \<Rightarrow> '''' | Some x \<Rightarrow> xs_target x)"
    "claim_or t ''exec_act'' = (case sc of None \<Rightarrow> '''' | Some x \<Rightarrow> xs_exec_act x)"
    "claim_or t ''inp_hash'' = (case sc of None \<Rightarrow> '''' | Some x \<Rightarrow> want_hash x)"
    by (cases sc; simp add: token_scope_claim [OF t] scope_keys_def claim_or_def stringClaim_def
        get_str_def Let_def opt)+
  show ?thesis
  proof (cases sc)
    case None
    have "stringClaim t n = None" if "n \<in> set exec_claim_names" for n
    proof (cases "n = ''out_hash''")
      case True
      with other(1) show ?thesis by (simp add: stringClaim_def get_str_def)
    next
      case False
      with that have "n \<in> set scope_keys" by (auto simp: exec_claim_names_def scope_keys_def)
      from token_scope_claim [OF t this] show ?thesis
        by (simp add: None stringClaim_def get_str_def)
    qed
    then have no: "\<not> (\<exists>n \<in> set exec_claim_names. stringClaim t n \<noteq> None)" by auto
    have "stringClaim t ''payload_hash'' = None" using other(2) by (simp add: stringClaim_def get_str_def)
    with None no show ?thesis by (simp add: extract_execution_def)
  next
    case (Some x)
    have "stringClaim t ''htm'' \<noteq> None" using keys(1) Some by (simp add: stringClaim_def get_str_def)
    then have yes: "\<exists>n \<in> set exec_claim_names. stringClaim t n \<noteq> None"
      by (auto simp: exec_claim_names_def)
    have basic: "claim_or t ''htm'' = xs_method x" "claim_or t ''htu'' = xs_uri x"
      "claim_or t ''nonce'' = xs_nonce x" "claim_or t ''out_hash'' = ''''"
      using keys(1-3) other Some by (simp_all add: claim_or_def stringClaim_def get_str_def)
    have "stringClaim t ''payload_hash'' = None" using other(2) by (simp add: stringClaim_def get_str_def)
    with yes basic keys(4-7) Some show ?thesis
      by (cases x) (simp add: extract_execution_def scope_read_back_def want_hash_def)
  qed
qed

lemma extractClaims_issued:
  assumes t: "token_claims V e req w d dl dp sc sec = Inr t"
  shows "vc_subject (extractClaims t) = wi_id w" "vc_issuer (extractClaims t) = en_issuer e"
    "vc_audience (extractClaims t) = rq_audience req"
    "vc_capabilities (extractClaims t) =
      (case get_arr (pd_claims d) ''caps'' of None \<Rightarrow> [] | Some cs \<Rightarrow> strings_of cs)"
    "vc_blast_radius (extractClaims t) =
      (case get_str (pd_claims d) ''blast_radius'' of None \<Rightarrow> '''' | Some b \<Rightarrow> b)"
    "vc_execution (extractClaims t) = map_option scope_read_back sc"
    "vc_expires_at (extractClaims t) =
      time_of_unix (unix_seconds (time_add (ev_sign_now V) (token_ttl e sc)))"
    "vc_cnf_thumbprint (extractClaims t) = (case dp of None \<Rightarrow> '''' | Some tp \<Rightarrow> tp)"
    "token_subject t = wi_id w" "token_issuer t = en_issuer e"
    "vc_delegation (extractClaims t) = Some g \<Longrightarrow> dg_on_behalf_of g = ''''"
  using token_identity_values [OF t] token_cnf [OF t] extract_execution_issued [OF t]
  by (auto simp: extractClaims_def token_subject_def token_issuer_def token_audience_def get_str_def
      get_arr_def get_num_def get_obj_def token_expiration_def claim_or_def stringClaim_def
      str_member_def extract_delegation_def Let_def split: option.splits)

section \<open>Guarantees\<close>

text \<open>
  Issued tokens are read as they were granted: in the claims that the engine signs for a
  successful exchange, the tool-call verifier finds the workload as subject, the requested
  audience, the capabilities and blast radius of the policy decision, the requested
  execution scope (with the payload hash in place of a missing input hash), the granted
  lifetime and the thumbprint of the proved key. Only the on-behalf-of chain is lost: the
  engine writes a list, the verifier reads a string.
\<close>

theorem issued_token_read_back:
  assumes "fst (Exchange V e req s) = Inr resp"
  shows "\<exists>g. granted V e req s g
    \<and> ev_sign V (active_key e) (gr_claims g) = Inr (rs_access_token resp)
    \<and> (let c = extractClaims (gr_claims g); d = pd_claims (gr_decision g) in
         vc_subject c = wi_id (gr_workload g) \<and> vc_issuer c = en_issuer e
       \<and> vc_audience c = rq_audience req
       \<and> vc_capabilities c = (case get_arr d ''caps'' of None \<Rightarrow> [] | Some cs \<Rightarrow> strings_of cs)
       \<and> vc_blast_radius c = (case get_str d ''blast_radius'' of None \<Rightarrow> '''' | Some b \<Rightarrow> b)
       \<and> vc_execution c = map_option scope_read_back (rq_execution_scope req)
       \<and> vc_expires_at c =
           time_of_unix (unix_seconds (time_add (ev_sign_now V) (token_ttl e (rq_execution_scope req))))
       \<and> vc_cnf_thumbprint c = (case gr_dpop g of None \<Rightarrow> '''' | Some tp \<Rightarrow> tp)
       \<and> (\<forall>dg. vc_delegation c = Some dg \<longrightarrow> dg_on_behalf_of dg = ''''))"
proof -
  from assms obtain g where g: "granted V e req s g"
    "ev_sign V (active_key e) (gr_claims g) = Inr (rs_access_token resp)"
    "token_claims V e req (gr_workload g) (gr_decision g) (gr_delegation g) (gr_dpop g)
       (rq_execution_scope req) (gr_secrets g) = Inr (gr_claims g)"
    by (rule Exchange_claims)
  then show ?thesis by (intro exI [of _ g]) (simp add: extractClaims_issued [OF g(3)] Let_def)
qed

lemma demo_exchange:
  "fst (Exchange (demo_env demo_tokens) demo_engine (demo_request ''w1'' '''') demo_state) =
     Inr (ex_response demo_engine (demo_request ''w1'' '''') None None ''plain'')"
  by code_simp

theorem issued_token_read_back_witness:
  "\<exists>t. ev_sign (demo_env demo_tokens) (active_key demo_engine) t = Inr ''plain''
     \<and> vc_audience (extractClaims t) = ''api'' \<and> vc_issuer (extractClaims t) = ''starfly''
     \<and> vc_execution (extractClaims t) = None"
proof -
  have "\<exists>g :: exchange_grant. ev_sign (demo_env demo_tokens) (active_key demo_engine) (gr_claims g) =
       Inr (rs_access_token (ex_response demo_engine (demo_request ''w1'' '''') None None ''plain''))
     \<and> vc_issuer (extractClaims (gr_claims g)) = en_issuer demo_engine
     \<and> vc_audience (extractClaims (gr_claims g)) = rq_audience (demo_request ''w1'' '''')
     \<and> vc_execution (extractClaims (gr_claims g)) =
       map_option scope_read_back (rq_execution_scope (demo_request ''w1'' ''''))"
    using issued_token_read_back [OF demo_exchange] unfolding Let_def by (elim ex_forward) simp
  then obtain g :: exchange_grant where "ev_sign (demo_env demo_tokens) (active_key demo_engine) (gr_claims g) =
       Inr (rs_access_token (ex_response demo_engine (demo_request ''w1'' '''') None None ''plain''))"
    "vc_issuer (extractClaims (gr_claims g)) = en_issuer demo_engine"
    "vc_audience (extractClaims (gr_claims g)) = rq_audience (demo_request ''w1'' '''')"
    "vc_execution (extractClaims (gr_claims g)) =
       map_option scope_read_back (rq_execution_scope (demo_request ''w1'' ''''))"
    by (elim exE conjE)
  then show ?thesis
    by (intro exI [of _ "gr_claims g"]) (simp add: ex_response_def demo_request_def demo_engine_def)
qed







end
