(* ===== verification/Toolcall_Middleware.thy ===== *)
theory Toolcall_Middleware
  imports Toolcall_Verify "HOL-Library.Product_Lexorder"
begin

text \<open>
  \<open>src/pkg/toolcall/middleware.go\<close> and the adapters under \<open>src/pkg/toolcall/adapters\<close>: finding
  out which protocol a request speaks, extracting the tool call, verifying it and passing
  the identity on. JSON decoding and SHA-256 are parameters of the adapters. A metrics hook
  that may be nil is a flag, and the calls made to hooks are recorded in order; durations
  are left out. Reading the body of a request leaves it readable, as the adapters put it back.
\<close>

section \<open>Adapters\<close>

text \<open>
  An adapter as the middleware sees it: \<open>ad_extract\<close> is \<open>ExtractFromHTTP\<close>, with an error or a
  result that may be nil.
\<close>

record adapter =
  ad_protocol :: protocol
  ad_extract :: "http_request \<Rightarrow> string + match_result option"
  ad_format_error :: "string \<Rightarrow> string \<Rightarrow> int \<Rightarrow> response_writer \<Rightarrow> response_writer"

definition match_none :: match_result where
  "match_none = \<lparr>mr_confidence = MatchNone, mr_request = None\<rparr>"

definition json_response ::
  "(json \<Rightarrow> string) \<Rightarrow> json \<Rightarrow> int \<Rightarrow> response_writer \<Rightarrow> response_writer" where
  "json_response encode j status w =
     rw_write (encode j) (rw_write_header status (rw_set_header ''Content-Type'' ''application/json'' w))"

subsection \<open>MCP\<close>

record mcp_rpc =
  rpc_jsonrpc :: string
  rpc_method :: string
  rpc_name :: string
  rpc_arguments :: claims

definition mcp_extractBearer :: "http_request \<Rightarrow> string" where
  "mcp_extractBearer r =
     (let auth = header_get r ''Authorization''
      in if auth = '''' then ''''
         else case split_n2 (CHR '' '') auth of
           [scheme, tok] \<Rightarrow> if equal_fold scheme ''Bearer'' then tok else ''''
         | _ \<Rightarrow> '''')"

text \<open>The segment after \<open>tools\<close>, if it ends the path or is followed by \<open>call\<close>.\<close>

fun path_tool :: "string list \<Rightarrow> string" where
  "path_tool (p # i # ps) =
     (if p = ''tools'' \<and> (case ps of [] \<Rightarrow> True | q # _ \<Rightarrow> q = ''call'') then i
      else path_tool (i # ps))"
| "path_tool _ = ''''"

definition extractPathToolID :: "string \<Rightarrow> string" where
  "extractPathToolID path = path_tool (split_on (CHR ''/'') path)"

definition mcpErrorCode :: "int \<Rightarrow> int" where
  "mcpErrorCode status =
     (if status = 401 then -32001 else if status = 403 then -32002
      else if status = 404 then -32601 else -32603)"

definition empty_call :: "protocol \<Rightarrow> tool_call_request" where
  "empty_call p = \<lparr>tq_protocol = p, tq_protocol_version = '''', tq_tool_id = '''', tq_operation = '''',
     tq_params = [], tq_token = '''', tq_transport_meta = None, tq_caller_identity = '''',
     tq_request_body = None\<rparr>"

definition meta_of :: "http_request \<Rightarrow> transport_meta" where
  "meta_of r = \<lparr>tm_original_headers = hq_headers r, tm_a2a_agent_card = None, tm_mcp_transport = '''',
     tm_custom = []\<rparr>"

text \<open>A failed read of the body yields the bytes read so far; none in the model.\<close>

definition mcp_path_call :: "http_request \<Rightarrow> string \<Rightarrow> tool_call_request" where
  "mcp_path_call r toolID =
     (let h = header_get r ''X-MCP-Tool-ID''
      in (empty_call ProtocolMCP)\<lparr>tq_tool_id := (if h \<noteq> '''' then h else toolID), tq_operation := ''call'',
           tq_token := mcp_extractBearer r,
           tq_transport_meta := Some ((meta_of r)\<lparr>tm_mcp_transport := ''http''\<rparr>),
           tq_request_body := (case hq_body r of NoBody \<Rightarrow> None | BodyError \<Rightarrow> Some '''' | Body b \<Rightarrow> Some b)\<rparr>)"

definition mcp_rpc_call :: "(string \<Rightarrow> mcp_rpc option) \<Rightarrow> string \<Rightarrow> mcp_rpc option" where
  "mcp_rpc_call decode body =
     (case decode body of
        None \<Rightarrow> None
      | Some rpc \<Rightarrow>
          if rpc_jsonrpc rpc \<noteq> ''2.0'' \<or> rpc_method rpc \<noteq> ''tools/call'' then None else Some rpc)"

definition mcp_ExtractFromHTTP ::
  "(string \<Rightarrow> mcp_rpc option) \<Rightarrow> http_request \<Rightarrow> string + match_result option" where
  "mcp_ExtractFromHTTP decode r =
     (if hq_method r \<noteq> ''POST'' then Inr (Some match_none)
      else
        let toolID = extractPathToolID (hq_path r)
        in if toolID \<noteq> ''''
           then Inr (Some \<lparr>mr_confidence = MatchLikely, mr_request = Some (mcp_path_call r toolID)\<rparr>)
           else if \<not> str_contains (header_get r ''Content-Type'') ''application/json''
           then Inr (Some match_none)
           else case hq_body r of
             Body body \<Rightarrow>
               (case mcp_rpc_call decode body of
                  None \<Rightarrow> Inr (Some match_none)
                | Some rpc \<Rightarrow>
                    Inr (Some \<lparr>mr_confidence = MatchDefinitive,
                      mr_request = Some ((empty_call ProtocolMCP)\<lparr>tq_tool_id := rpc_name rpc,
                        tq_operation := ''call'', tq_params := rpc_arguments rpc,
                        tq_token := mcp_extractBearer r, tq_request_body := Some body,
                        tq_transport_meta := Some ((meta_of r)\<lparr>tm_mcp_transport := ''http''\<rparr>)\<rparr>)\<rparr>))
           | _ \<Rightarrow> Inr (Some match_none))"

definition mcp_ExtractFromMessage :: "(string \<Rightarrow> mcp_rpc option) \<Rightarrow> string \<Rightarrow> match_result" where
  "mcp_ExtractFromMessage decode msg =
     (case mcp_rpc_call decode msg of
        None \<Rightarrow> match_none
      | Some rpc \<Rightarrow>
          \<lparr>mr_confidence = MatchDefinitive,
           mr_request = Some ((empty_call ProtocolMCP)\<lparr>tq_tool_id := rpc_name rpc,
             tq_operation := ''call'', tq_params := rpc_arguments rpc, tq_request_body := Some msg,
             tq_transport_meta := Some \<lparr>tm_original_headers = [], tm_a2a_agent_card = None,
               tm_mcp_transport = ''stdio'', tm_custom = []\<rparr>\<rparr>)\<rparr>)"

definition mcp_FormatError ::
  "(json \<Rightarrow> string) \<Rightarrow> string \<Rightarrow> string \<Rightarrow> int \<Rightarrow> response_writer \<Rightarrow> response_writer" where
  "mcp_FormatError encode code description status w =
     json_response encode
       (JObj [(''jsonrpc'', JStr ''2.0''),
              (''error'', JObj [(''code'', JNum (of_int (mcpErrorCode status))),
                 (''message'', JStr description), (''data'', JObj [(''error'', JStr code)])]),
              (''id'', JNull)]) status w"

definition mcp_adapter :: "(string \<Rightarrow> mcp_rpc option) \<Rightarrow> (json \<Rightarrow> string) \<Rightarrow> adapter" where
  "mcp_adapter decode encode =
     \<lparr>ad_protocol = ProtocolMCP, ad_extract = mcp_ExtractFromHTTP decode,
      ad_format_error = mcp_FormatError encode\<rparr>"

subsection \<open>Generic HTTP\<close>

record tool_id_mapping =
  tmap_path_prefix :: string
  tmap_tool_id :: string

definition http_extractBearer :: "http_request \<Rightarrow> string" where
  "http_extractBearer r =
     (if header_get r ''Authorization'' = '''' then ''''
      else case split_n2 (CHR '' '') (header_get r ''Authorization'') of
        [scheme, tok] \<Rightarrow> if equal_fold scheme ''Bearer'' then tok else ''''
      | _ \<Rightarrow> '''')"

fun longest_prefix :: "string \<Rightarrow> tool_id_mapping list \<Rightarrow> string \<times> nat \<Rightarrow> string \<times> nat" where
  "longest_prefix path [] best = best"
| "longest_prefix path (m # ms) best =
     longest_prefix path ms
       (if has_prefix path (tmap_path_prefix m) \<and> snd best < length (tmap_path_prefix m)
        then (tmap_tool_id m, length (tmap_path_prefix m)) else best)"

definition resolveToolID :: "tool_id_mapping list \<Rightarrow> string \<Rightarrow> string \<times> match_confidence" where
  "resolveToolID mappings path =
     (let best = fst (longest_prefix path mappings ('''', 0))
      in if best \<noteq> '''' then (best, MatchDefinitive) else ('''', MatchLikely))"

definition operationFromRequest :: "http_request \<Rightarrow> string" where
  "operationFromRequest r =
     (let method = to_lower (hq_method r);
          parts = split_on (CHR ''/'') (trim_char (CHR ''/'') (hq_path r))
      in if parts = [] then method
         else if last parts = '''' \<or> last parts = ''call'' \<or> last parts = ''invoke'' then method
         else method @ '':'' @ last parts)"

definition http_ExtractFromHTTP ::
  "tool_id_mapping list \<Rightarrow> http_request \<Rightarrow> string + match_result option" where
  "http_ExtractFromHTTP mappings r =
     (let token = http_extractBearer r
      in if token = '''' then Inr (Some match_none)
         else
           let (toolID, confidence) = resolveToolID mappings (hq_path r);
               meta = (if str_contains (header_get r ''Content-Type'') ''application/grpc''
                       then (meta_of r)\<lparr>tm_custom := [(''grpc'', JBool True)]\<rparr> else meta_of r)
           in Inr (Some \<lparr>mr_confidence = confidence,
                mr_request = Some ((empty_call ProtocolHTTP)\<lparr>tq_tool_id := toolID,
                  tq_operation := operationFromRequest r, tq_token := token,
                  tq_transport_meta := Some meta\<rparr>)\<rparr>))"

definition http_ExtractFromMessage :: "string \<Rightarrow> match_result" where
  "http_ExtractFromMessage msg = match_none"

definition http_FormatError ::
  "(json \<Rightarrow> string) \<Rightarrow> string \<Rightarrow> string \<Rightarrow> int \<Rightarrow> response_writer \<Rightarrow> response_writer" where
  "http_FormatError encode code description status w =
     json_response encode (JObj [(''error'', JStr code), (''error_description'', JStr description)]) status w"

definition http_adapter :: "tool_id_mapping list \<Rightarrow> (json \<Rightarrow> string) \<Rightarrow> adapter" where
  "http_adapter mappings encode =
     \<lparr>ad_protocol = ProtocolHTTP, ad_extract = http_ExtractFromHTTP mappings,
      ad_format_error = http_FormatError encode\<rparr>"

subsection \<open>A2A\<close>

record a2a_rpc =
  ar_jsonrpc :: string
  ar_method :: string
  ar_params :: string
  ar_id :: json

record a2a_task_params =
  ap_agent_card :: string
  ap_task_type :: string

text \<open>
  \<open>ac_params\<close> decodes the task parameters; malformed ones leave the zero value. \<open>ac_card\<close> is
  the card decoded as an object.
\<close>

record a2a_codec =
  ac_rpc :: "string \<Rightarrow> a2a_rpc option"
  ac_params :: "string \<Rightarrow> a2a_task_params"
  ac_card :: "string \<Rightarrow> claims option"
  ac_sha256 :: "string \<Rightarrow> string"

definition a2a_SpecRevision :: string where
  "a2a_SpecRevision = ''2025-draft-01''"

definition a2a_Protocol :: "string \<Rightarrow> protocol" where
  "a2a_Protocol specRevision = ''a2a/'' @ specRevision"

definition parseAgentCard :: "a2a_codec \<Rightarrow> string \<Rightarrow> string \<times> claims option" where
  "parseAgentCard C raw =
     (if raw = '''' then ('''', None) else (hex_encode (ac_sha256 C raw), ac_card C raw))"

definition a2a_extractBearer :: "http_request \<Rightarrow> string" where
  "a2a_extractBearer r =
     (let auth = header_get r ''Authorization'' in
      if auth = '''' then ''''
      else let parts = split_n2 (CHR '' '') auth
           in if length parts \<noteq> 2 \<or> \<not> equal_fold (hd parts) ''Bearer'' then '''' else parts ! 1)"

definition a2a_rpc_call :: "a2a_codec \<Rightarrow> string \<Rightarrow> a2a_rpc option" where
  "a2a_rpc_call C body =
     (case ac_rpc C body of
        None \<Rightarrow> None
      | Some rpc \<Rightarrow>
          if ar_jsonrpc rpc \<noteq> ''2.0'' \<or> \<not> has_prefix (ar_method rpc) ''a2a/'' then None else Some rpc)"

definition a2a_ExtractFromHTTP ::
  "a2a_codec \<Rightarrow> string \<Rightarrow> http_request \<Rightarrow> string + match_result option" where
  "a2a_ExtractFromHTTP C revision r =
     (if hq_method r \<noteq> ''POST'' then Inr (Some match_none)
      else if header_get r ''X-A2A-Version'' \<noteq> ''''
              \<and> str_contains (header_get r ''Content-Type'') ''application/json''
      then Inr (Some \<lparr>mr_confidence = MatchPossible,
             mr_request = Some ((empty_call (a2a_Protocol revision))\<lparr>tq_token := a2a_extractBearer r,
               tq_transport_meta := Some ((meta_of r)\<lparr>tm_custom :=
                 [(''a2a_version'', JStr (header_get r ''X-A2A-Version''))]\<rparr>)\<rparr>)\<rparr>)
      else if \<not> str_contains (header_get r ''Content-Type'') ''application/json''
      then Inr (Some match_none)
      else case hq_body r of
        Body body \<Rightarrow>
          (case a2a_rpc_call C body of
             None \<Rightarrow> Inr (Some match_none)
           | Some rpc \<Rightarrow>
               let params = ac_params C (ar_params rpc);
                   (cardHash, cardRaw) = parseAgentCard C (ap_agent_card params);
                   taskType = (if ap_task_type params = '''' then ar_method rpc else ap_task_type params)
               in Inr (Some \<lparr>mr_confidence = MatchLikely,
                    mr_request = Some ((empty_call (a2a_Protocol revision))\<lparr>tq_operation := taskType,
                      tq_token := a2a_extractBearer r, tq_request_body := Some body,
                      tq_transport_meta := Some ((meta_of r)\<lparr>tm_a2a_agent_card := cardRaw,
                        tm_custom := [(''a2a_card_hash'', JStr cardHash), (''spec_revision'', JStr revision),
                          (''a2a_jsonrpc_id'', ar_id rpc), (''a2a_method'', JStr (ar_method rpc))]\<rparr>)\<rparr>)\<rparr>))
      | _ \<Rightarrow> Inr (Some match_none))"

definition a2a_ExtractFromMessage :: "a2a_codec \<Rightarrow> string \<Rightarrow> string \<Rightarrow> match_result" where
  "a2a_ExtractFromMessage C revision msg =
     (case a2a_rpc_call C msg of
        None \<Rightarrow> match_none
      | Some rpc \<Rightarrow>
          let params = ac_params C (ar_params rpc);
              (cardHash, cardRaw) = parseAgentCard C (ap_agent_card params)
          in \<lparr>mr_confidence = MatchLikely,
              mr_request = Some ((empty_call (a2a_Protocol revision))\<lparr>tq_operation := ap_task_type params,
                tq_request_body := Some msg,
                tq_transport_meta := Some \<lparr>tm_original_headers = [], tm_a2a_agent_card = cardRaw,
                  tm_mcp_transport = '''',
                  tm_custom = [(''a2a_card_hash'', JStr cardHash), (''spec_revision'', JStr revision)]\<rparr>\<rparr>)\<rparr>)"

definition a2aErrorCode :: "int \<Rightarrow> int" where
  "a2aErrorCode status =
     (if status = 401 then -32001 else if status = 403 then -32002
      else if status = 404 then -32601 else -32603)"

definition a2a_FormatError ::
  "(json \<Rightarrow> string) \<Rightarrow> string \<Rightarrow> string \<Rightarrow> string \<Rightarrow> int \<Rightarrow> response_writer \<Rightarrow> response_writer" where
  "a2a_FormatError encode revision code description status w =
     json_response encode
       (JObj [(''jsonrpc'', JStr ''2.0''),
              (''error'', JObj [(''code'', JNum (of_int (a2aErrorCode status))),
                 (''message'', JStr description),
                 (''data'', JObj [(''error'', JStr code), (''spec_revision'', JStr revision)])]),
              (''id'', JNull)]) status w"

definition a2a_adapter :: "a2a_codec \<Rightarrow> string \<Rightarrow> (json \<Rightarrow> string) \<Rightarrow> adapter" where
  "a2a_adapter C revision encode =
     \<lparr>ad_protocol = a2a_Protocol revision, ad_extract = a2a_ExtractFromHTTP C revision,
      ad_format_error = a2a_FormatError encode revision\<rparr>"

section \<open>The middleware\<close>

record candidate =
  cd_adapter :: adapter
  cd_result :: match_result
  cd_idx :: nat

fun collect_candidates :: "http_request \<Rightarrow> nat \<Rightarrow> adapter list \<Rightarrow> candidate list" where
  "collect_candidates r i [] = []"
| "collect_candidates r i (a # as) =
     (case ad_extract a r of
        Inr (Some res) \<Rightarrow>
          \<lparr>cd_adapter = a, cd_result = res, cd_idx = i\<rparr> # collect_candidates r (i + 1) as
      | _ \<Rightarrow> collect_candidates r (i + 1) as)"

definition candidate_confidence :: "candidate \<Rightarrow> int" where
  "candidate_confidence c = confidence_value (mr_confidence (cd_result c))"

definition selectAdapter :: "http_request \<Rightarrow> adapter list \<Rightarrow> candidate option \<times> bool" where
  "selectAdapter r adapters =
     (case sort_key (\<lambda>c. (- candidate_confidence c, cd_idx c)) (collect_candidates r 0 adapters) of
        [] \<Rightarrow> (None, False)
      | best # rest \<Rightarrow>
          (Some best,
           case rest of [] \<Rightarrow> False | c # _ \<Rightarrow> candidate_confidence c = candidate_confidence best))"

record metrics_hooks =
  mh_record_call :: bool
  mh_observe_duration :: bool
  mh_inc_tie :: bool

datatype metric_call =
    RecordCall protocol string
  | ObserveDuration protocol
  | IncTie

record toolcall_config =
  tcc_adapters :: "adapter list"
  tcc_verify :: "tool_call_request \<Rightarrow> toolcall_error + verified_identity"
  tcc_min_confidence :: match_confidence
  tcc_pass_through :: bool
  tcc_metrics :: "metrics_hooks option"

definition classifyVerifyError ::
  "(toolcall_error \<Rightarrow> string) \<Rightarrow> toolcall_error \<Rightarrow> string \<times> string \<times> int" where
  "classifyVerifyError text err =
     (case err of
        Shared MissingToken \<Rightarrow> (''missing_token'', ''authorization token required'', 401)
      | Shared (InvalidToken _) \<Rightarrow> (''invalid_token'', ''token signature or format invalid'', 401)
      | Shared (TokenRevoked _) \<Rightarrow> (''token_revoked'', ''credential has been revoked'', 401)
      | Shared (ToolNotRegistered _) \<Rightarrow> (''tool_not_found'', ''tool is not registered'', 404)
      | Shared (CapabilityDenied _) \<Rightarrow>
          (''insufficient_capabilities'', ''token lacks required capabilities'', 403)
      | Shared (BlastRadiusExceeded _ _) \<Rightarrow>
          (''blast_radius_exceeded'', ''operation exceeds authorized blast radius'', 403)
      | Shared (AudienceMismatch _ _) \<Rightarrow>
          (''audience_mismatch'', ''token audience does not match tool resource'', 403)
      | Shared (PolicyDenied _) \<Rightarrow> (''policy_denied'', ''request denied by policy'', 403)
      | ProtocolDenied _ _ \<Rightarrow> (''protocol_denied'', ''tool does not accept this protocol'', 403)
      | Shared (ExecBindingRequired _) \<Rightarrow> (''exec_binding_invalid'', text err, 403)
      | Shared ExecPayloadMissing \<Rightarrow> (''exec_binding_invalid'', text err, 403)
      | Shared (ExecPayloadMismatch _ _) \<Rightarrow> (''exec_binding_invalid'', text err, 403)
      | Shared (ExecOpMismatch _ _) \<Rightarrow> (''exec_binding_invalid'', text err, 403)
      | Shared (ExecTargetMismatch _ _) \<Rightarrow> (''exec_binding_invalid'', text err, 403)
      | _ \<Rightarrow> (''internal_error'', ''verification failed'', 500))"

definition hook :: "toolcall_config \<Rightarrow> (metrics_hooks \<Rightarrow> bool) \<Rightarrow> metric_call \<Rightarrow> metric_call list" where
  "hook cfg sel call =
     (case tcc_metrics cfg of None \<Rightarrow> [] | Some m \<Rightarrow> if sel m then [call] else [])"

text \<open>\<open>http.Error\<close>: a plain text response.\<close>

definition http_error :: "string \<Rightarrow> int \<Rightarrow> response_writer \<Rightarrow> response_writer" where
  "http_error msg code w =
     rw_write (msg @ [CHR 0x0A]) (rw_write_header code
       (rw_set_header ''X-Content-Type-Options'' ''nosniff''
         (rw_set_header ''Content-Type'' ''text/plain; charset=utf-8'' w)))"

text \<open>
  The wrapped handler gets the identity in the context, or none when the request was passed
  through. A match of sufficient confidence without a request would be a nil dereference in
  the verifier; that is the value \<open>None\<close>.
\<close>

definition toolcall_Middleware ::
  "(toolcall_error \<Rightarrow> string) \<Rightarrow> toolcall_config
   \<Rightarrow> (http_request \<Rightarrow> verified_identity option \<Rightarrow> response_action list)
   \<Rightarrow> http_request \<Rightarrow> response_writer \<Rightarrow> (response_writer \<times> metric_call list) option" where
  "toolcall_Middleware text cfg handler r w =
     (let minConf = (if tcc_min_confidence cfg = MatchNone then MatchPossible else tcc_min_confidence cfg);
          (best, hasTie) = selectAdapter r (tcc_adapters cfg);
          ms = (if hasTie then hook cfg mh_inc_tie IncTie else [])
      in if best = None \<or> candidate_confidence (the best) < confidence_value minConf
         then
           if tcc_pass_through cfg then Some (fold rw_action (handler r None) w, ms)
           else case tcc_adapters cfg of
             a # _ \<Rightarrow>
               Some (ad_format_error a ''unauthorized'' ''no recognized tool-call protocol'' 401 w, ms)
           | [] \<Rightarrow> Some (http_error ''unauthorized'' 401 w, ms)
         else
           let proto = ad_protocol (cd_adapter (the best))
           in case mr_request (cd_result (the best)) of
                None \<Rightarrow> None
              | Some req \<Rightarrow>
                  let ms1 = ms @ hook cfg mh_observe_duration (ObserveDuration proto)
                  in case tcc_verify cfg req of
                       Inl err \<Rightarrow>
                         let (code, description, status) = classifyVerifyError text err
                         in Some (ad_format_error (cd_adapter (the best)) code description status w,
                                  ms1 @ hook cfg mh_record_call (RecordCall proto ''denied''))
                     | Inr identity \<Rightarrow>
                         Some (fold rw_action (handler r (Some identity)) w,
                               ms1 @ hook cfg mh_record_call (RecordCall proto ''allowed'')))"

end
