(* ===== verification/Toolcall_Guarantees.thy ===== *)
theory Toolcall_Guarantees
  imports Toolcall_Middleware Tool_Guarantees
begin

text \<open>
  What the generic tool-call middleware promises: which adapter answers, that a handler only
  runs behind a verified identity, that no shipped adapter can make it dereference a missing
  request, and what the checks amount to for a call that names no tool.
\<close>

section \<open>The contract of an adapter\<close>

text \<open>
  What the middleware relies on of an adapter: extraction never fails, a match comes with a
  request, and the request is labelled with the adapter's own protocol.
\<close>

locale tool_adapter =
  fixes adapter :: adapter
  assumes extraction_total: "\<exists>res. ad_extract adapter r = Inr (Some res)"
    and match_has_request: "ad_extract adapter r = Inr (Some res) \<Longrightarrow>
      mr_confidence res \<noteq> MatchNone \<Longrightarrow> \<exists>req. mr_request res = Some req"
    and request_protocol: "ad_extract adapter r = Inr (Some res) \<Longrightarrow>
      mr_request res = Some req \<Longrightarrow> tq_protocol req = ad_protocol adapter"
    and error_status:
      "\<exists>hs. rw_sent (ad_format_error adapter code description status new_writer) = Some (status, hs)"

lemmas adapter_defs = match_none_def empty_call_def Let_def

lemma json_response_status:
  "rw_sent (json_response encode j status new_writer) =
     Some (status, [(''Content-Type'', ''application/json'')])"
  by (simp add: json_response_def new_writer_def rw_write_def rw_write_header_def rw_set_header_def)

interpretation mcp_tool: tool_adapter "mcp_adapter decode encode" for decode encode
  by unfold_locales
    (auto simp: mcp_adapter_def mcp_ExtractFromHTTP_def mcp_path_call_def adapter_defs
      mcp_FormatError_def json_response_status
      split: if_splits http_body.splits option.splits)

interpretation http_tool: tool_adapter "http_adapter mappings encode" for mappings encode
  by unfold_locales
    (auto simp: http_adapter_def http_ExtractFromHTTP_def adapter_defs
      http_FormatError_def json_response_status split: if_splits prod.splits)

interpretation a2a_tool: tool_adapter "a2a_adapter C revision encode" for C revision encode
  by unfold_locales
    (auto simp: a2a_adapter_def a2a_ExtractFromHTTP_def adapter_defs
      a2a_FormatError_def json_response_status
      split: if_splits http_body.splits option.splits prod.splits)

definition shipped :: "adapter \<Rightarrow> bool" where
  "shipped a \<longleftrightarrow> (\<exists>decode encode. a = mcp_adapter decode encode)
     \<or> (\<exists>mappings encode. a = http_adapter mappings encode)
     \<or> (\<exists>C revision encode. a = a2a_adapter C revision encode)"

lemma shipped_adapter: "shipped a \<Longrightarrow> tool_adapter a"
  unfolding shipped_def
  using mcp_tool.tool_adapter_axioms http_tool.tool_adapter_axioms a2a_tool.tool_adapter_axioms by blast

section \<open>Selecting an adapter\<close>

definition match_at :: "http_request \<Rightarrow> adapter list \<Rightarrow> nat \<Rightarrow> match_result \<Rightarrow> bool" where
  "match_at r as i res \<longleftrightarrow> i < length as \<and> ad_extract (as ! i) r = Inr (Some res)"

lemma collect_candidates_iff:
  "c \<in> set (collect_candidates r i as) \<longleftrightarrow>
     (\<exists>k. cd_idx c = i + k \<and> match_at r as k (cd_result c) \<and> cd_adapter c = as ! k)"
proof (induction as arbitrary: i)
  case (Cons a as)
  have step: "(\<exists>k. cd_idx c = i + k \<and> match_at r (a # as) k (cd_result c) \<and> cd_adapter c = (a # as) ! k)
      \<longleftrightarrow> (cd_idx c = i \<and> ad_extract a r = Inr (Some (cd_result c)) \<and> cd_adapter c = a)
       \<or> (\<exists>k. cd_idx c = (i + 1) + k \<and> match_at r as k (cd_result c) \<and> cd_adapter c = as ! k)"
    (is "(\<exists>k. ?P k) \<longleftrightarrow> ?H \<or> (\<exists>k. ?Q k)")
  proof -
    have "?P 0 \<longleftrightarrow> ?H" by (auto simp: match_at_def)
    moreover have "?P (Suc k) \<longleftrightarrow> ?Q k" for k by (auto simp: match_at_def)
    ultimately show ?thesis by (metis not0_implies_Suc)
  qed
  show ?case
    unfolding step Cons.IH [symmetric]
    by (cases c) (auto split: sum.splits option.splits)
qed (simp add: match_at_def)

lemma collect_candidates_index: "c \<in> set (collect_candidates r i as) \<Longrightarrow> i \<le> cd_idx c"
  by (auto simp: collect_candidates_iff)

lemma collect_candidates_distinct: "distinct (collect_candidates r i as)"
  by (induction as arbitrary: i)
    (fastforce split: sum.splits option.splits dest: collect_candidates_index)+

lemma candidate_by_index:
  assumes "c \<in> set (collect_candidates r i as)" "d \<in> set (collect_candidates r i as)" "cd_idx d = cd_idx c"
  shows "d = c"
  using assms(1,2) [unfolded collect_candidates_iff match_at_def] assms(3)
  by (cases c; cases d) auto

abbreviation candidate_key :: "candidate \<Rightarrow> int \<times> nat" where
  "candidate_key \<equiv> \<lambda>c. (- candidate_confidence c, cd_idx c)"

lemma selectAdapter_best:
  assumes "selectAdapter r as = (Some c, tie)"
  shows "c \<in> set (collect_candidates r 0 as)"
    and "d \<in> set (collect_candidates r 0 as) \<Longrightarrow> candidate_key c \<le> candidate_key d"
    and "tie \<longleftrightarrow> (\<exists>d \<in> set (collect_candidates r 0 as).
           cd_idx d \<noteq> cd_idx c \<and> candidate_confidence d = candidate_confidence c)"
proof -
  let ?cs = "collect_candidates r 0 as"
  from assms obtain rest where ys: "sort_key candidate_key ?cs = c # rest"
    and tie: "tie \<longleftrightarrow> (case rest of [] \<Rightarrow> False | d # _ \<Rightarrow> candidate_confidence d = candidate_confidence c)"
    by (auto simp: selectAdapter_def split: list.splits)
  have set: "set ?cs = set (c # rest)" using ys by (metis set_sort)
  have sorted: "sorted (map candidate_key (c # rest))" using ys by (metis sorted_sort_key)
  have "distinct (c # rest)" using ys by (metis distinct_sort collect_candidates_distinct)
  then have apart: "d \<in> set rest \<Longrightarrow> cd_idx d \<noteq> cd_idx c" for d
    using set candidate_by_index [of c r 0 as d] by auto
  show "c \<in> set ?cs" using set by simp
  show "d \<in> set ?cs \<Longrightarrow> candidate_key c \<le> candidate_key d" for d
    using set sorted by auto
  have "tie \<longleftrightarrow> (\<exists>d \<in> set rest. candidate_confidence d = candidate_confidence c)"
    using sorted by (cases rest) (fastforce simp: tie less_eq_prod_def)+
  then show "tie \<longleftrightarrow> (\<exists>d \<in> set ?cs. cd_idx d \<noteq> cd_idx c \<and> candidate_confidence d = candidate_confidence c)"
    using set apart by auto
qed

lemma candidate_iff:
  "c \<in> set (collect_candidates r 0 as) \<longleftrightarrow>
     match_at r as (cd_idx c) (cd_result c) \<and> cd_adapter c = as ! cd_idx c"
  by (auto simp: collect_candidates_iff)

lemma ex_candidate_iff:
  "(\<exists>d \<in> set (collect_candidates r 0 as). P (cd_idx d) (cd_result d)) \<longleftrightarrow>
     (\<exists>j res. match_at r as j res \<and> P j res)"
proof
  assume "\<exists>j res. match_at r as j res \<and> P j res"
  then obtain j res where "match_at r as j res" "P j res" by blast
  then show "\<exists>d \<in> set (collect_candidates r 0 as). P (cd_idx d) (cd_result d)"
    by (intro bexI [of _ "\<lparr>cd_adapter = as ! j, cd_result = res, cd_idx = j\<rparr>"])
      (simp_all add: candidate_iff)
qed (unfold candidate_iff Bex_def, blast)

lemma all_candidate_iff:
  "(\<forall>d \<in> set (collect_candidates r 0 as). P (cd_idx d) (cd_result d)) \<longleftrightarrow>
     (\<forall>j res. match_at r as j res \<longrightarrow> P j res)"
  using ex_candidate_iff [of r as "\<lambda>j res. \<not> P j res"] by blast

definition beats :: "candidate \<Rightarrow> nat \<Rightarrow> match_result \<Rightarrow> bool" where
  "beats c j res \<longleftrightarrow> confidence_value (mr_confidence res) \<le> candidate_confidence c
     \<and> (j < cd_idx c \<longrightarrow> confidence_value (mr_confidence res) < candidate_confidence c)"

lemma candidate_key_beats: "candidate_key c \<le> candidate_key d \<longleftrightarrow> beats c (cd_idx d) (cd_result d)"
  by (auto simp: beats_def less_eq_prod_def candidate_confidence_def)

lemma selectAdapter_iff:
  "selectAdapter r as = (Some c, tie) \<longleftrightarrow>
     c \<in> set (collect_candidates r 0 as)
     \<and> (\<forall>d \<in> set (collect_candidates r 0 as). candidate_key c \<le> candidate_key d)
     \<and> (tie \<longleftrightarrow> (\<exists>d \<in> set (collect_candidates r 0 as).
          cd_idx d \<noteq> cd_idx c \<and> candidate_confidence d = candidate_confidence c))"
    (is "?sel \<longleftrightarrow> ?in \<and> ?least \<and> ?tie")
proof
  show "?sel \<Longrightarrow> ?in \<and> ?least \<and> ?tie" using selectAdapter_best by blast
  assume c: "?in \<and> ?least \<and> ?tie"
  then have "sort_key candidate_key (collect_candidates r 0 as) \<noteq> []"
    by (metis set_sort empty_set empty_iff)
  then obtain d t where sel: "selectAdapter r as = (Some d, t)"
    by (auto simp: selectAdapter_def neq_Nil_conv)
  have "candidate_key c = candidate_key d"
    by (rule antisym) (use c selectAdapter_best(1,2) [OF sel] in auto)
  then have "d = c" using c selectAdapter_best(1) [OF sel] candidate_by_index [of c r 0 as d] by auto
  with c sel selectAdapter_best(3) [OF sel] show ?sel by auto
qed

text \<open>
  Which adapter answers a request: the first one, in the configured order, among those
  whose match has the highest confidence. A tie is counted exactly if another adapter matches
  with the same confidence, which includes two adapters that both do not recognise the request.
\<close>

theorem adapter_selection:
  "selectAdapter r as = (Some c, tie) \<longleftrightarrow>
     match_at r as (cd_idx c) (cd_result c) \<and> cd_adapter c = as ! cd_idx c
     \<and> (\<forall>j res. match_at r as j res \<longrightarrow>
          confidence_value (mr_confidence res) \<le> candidate_confidence c
          \<and> (j < cd_idx c \<longrightarrow> confidence_value (mr_confidence res) < candidate_confidence c))
     \<and> (tie \<longleftrightarrow> (\<exists>j res. match_at r as j res \<and> j \<noteq> cd_idx c
          \<and> confidence_value (mr_confidence res) = candidate_confidence c))"
proof -
  let ?cs = "set (collect_candidates r 0 as)"
  have least: "(\<forall>d \<in> ?cs. candidate_key c \<le> candidate_key d) \<longleftrightarrow> (\<forall>j res. match_at r as j res \<longrightarrow> beats c j res)"
    unfolding candidate_key_beats by (rule all_candidate_iff)
  have tie: "(\<exists>d \<in> ?cs. cd_idx d \<noteq> cd_idx c \<and> candidate_confidence d = candidate_confidence c) \<longleftrightarrow>
      (\<exists>j res. match_at r as j res \<and> j \<noteq> cd_idx c
         \<and> confidence_value (mr_confidence res) = candidate_confidence c)"
    unfolding candidate_confidence_def by (rule ex_candidate_iff)
  show ?thesis unfolding selectAdapter_iff least tie candidate_iff beats_def by blast
qed

section \<open>Demonstration values\<close>

definition demo_http_adapter :: adapter where
  "demo_http_adapter = http_adapter [\<lparr>tmap_path_prefix = ''/db'', tmap_tool_id = ''db''\<rparr>] (\<lambda>j. '''')"

definition demo_mcp_adapter :: adapter where
  "demo_mcp_adapter = mcp_adapter (\<lambda>b. None) (\<lambda>j. '''')"

definition demo_http_request :: "string \<Rightarrow> http_request" where
  "demo_http_request path = \<lparr>hq_method = ''POST'', hq_path = path,
     hq_headers = [(''Authorization'', ''Bearer plain'')], hq_body = NoBody, hq_remote_addr = ''''\<rparr>"

definition demo_toolcall_config :: "toolcall_config" where
  "demo_toolcall_config = \<lparr>tcc_adapters = [demo_mcp_adapter, demo_http_adapter],
     tcc_verify = Verify demo_verify_env demo_verifier, tcc_min_confidence = MatchNone,
     tcc_pass_through = False, tcc_metrics = None\<rparr>"

text \<open>The witness of the selection: the mapped path beats the unrecognised one.\<close>

theorem adapter_selection_witness:
  "\<exists>c. selectAdapter (demo_http_request ''/db'') [demo_mcp_adapter, demo_http_adapter] = (Some c, False)
     \<and> cd_idx c = 1"
proof -
  let ?r = "demo_http_request ''/db''" and ?as = "[demo_mcp_adapter, demo_http_adapter]"
  have m: "ad_extract demo_mcp_adapter ?r = Inr (Some match_none)" by code_simp
  have "\<exists>res. ad_extract demo_http_adapter ?r = Inr (Some res)"
    unfolding demo_http_adapter_def by (rule http_tool.extraction_total)
  then obtain res where h: "ad_extract demo_http_adapter ?r = Inr (Some res)" by blast
  have "(case ad_extract demo_http_adapter ?r of Inr (Some x) \<Rightarrow> mr_confidence x = MatchDefinitive
      | _ \<Rightarrow> False)" by code_simp
  with h have conf: "mr_confidence res = MatchDefinitive" by simp
  let ?c = "\<lparr>cd_adapter = demo_http_adapter, cd_result = res, cd_idx = 1\<rparr>"
  have at: "match_at ?r ?as j x \<longleftrightarrow> (j = 0 \<and> x = match_none) \<or> (j = 1 \<and> x = res)" for j x
    using m h by (auto simp: match_at_def less_Suc_eq numeral_2_eq_2)
  have "selectAdapter ?r ?as = (Some ?c, False)"
    unfolding adapter_selection at by (auto simp: conf match_none_def candidate_confidence_def)
  then show ?thesis by (intro exI [of _ ?c]) simp
qed

section \<open>The gate\<close>

lemma selectAdapter_Some:
  assumes "fst (selectAdapter r as) = Some c"
  shows "cd_adapter c \<in> set as" "ad_extract (cd_adapter c) r = Inr (Some (cd_result c))"
proof -
  from assms obtain tie where "selectAdapter r as = (Some c, tie)" by (cases "selectAdapter r as") auto
  then show "cd_adapter c \<in> set as" "ad_extract (cd_adapter c) r = Inr (Some (cd_result c))"
    by (auto simp: selectAdapter_iff candidate_iff match_at_def)
qed

definition threshold :: "toolcall_config \<Rightarrow> int" where
  "threshold cfg = confidence_value
     (if tcc_min_confidence cfg = MatchNone then MatchPossible else tcc_min_confidence cfg)"

text \<open>The call the middleware puts to the verifier, if it recognises one.\<close>

definition recognised_call :: "toolcall_config \<Rightarrow> http_request \<Rightarrow> (adapter \<times> tool_call_request) option" where
  "recognised_call cfg r =
     (case fst (selectAdapter r (tcc_adapters cfg)) of
        None \<Rightarrow> None
      | Some c \<Rightarrow> if candidate_confidence c < threshold cfg then None
                  else map_option (Pair (cd_adapter c)) (mr_request (cd_result c)))"

lemma threshold_pos: "0 < threshold cfg"
  by (cases "tcc_min_confidence cfg") (simp_all add: threshold_def)

lemma recognised_call_token:
  assumes "recognised_call cfg r = Some (a, req)" and "\<forall>a \<in> set (tcc_adapters cfg). tool_adapter a"
  shows "a \<in> set (tcc_adapters cfg) \<and> tq_protocol req = ad_protocol a"
  using assms selectAdapter_Some [of r "tcc_adapters cfg"] tool_adapter.request_protocol
  by (auto simp: recognised_call_def split: option.splits if_splits)

lemma classify_status:
  "snd (snd (classifyVerifyError describe err)) \<in> {401, 403, 404, 500}"
  by (simp add: classifyVerifyError_def split: toolcall_error.splits mcp_error.splits)

definition refused :: "response_writer \<Rightarrow> bool" where
  "refused w \<longleftrightarrow> (\<exists>status hs. rw_sent w = Some (status, hs) \<and> status \<in> {401, 403, 404, 500})"

lemma refused_by_adapter:
  assumes "tool_adapter a" "status \<in> {401, 403, 404, 500}"
  shows "refused (ad_format_error a code description status new_writer)"
  using assms tool_adapter.error_status [OF assms(1)] unfolding refused_def by blast

lemma recognised_request:
  assumes "\<forall>a \<in> set (tcc_adapters cfg). tool_adapter a"
    and "fst (selectAdapter r (tcc_adapters cfg)) = Some c" "\<not> candidate_confidence c < threshold cfg"
  shows "\<exists>req. mr_request (cd_result c) = Some req"
proof -
  have "mr_confidence (cd_result c) \<noteq> MatchNone"
    using assms(3) threshold_pos [of cfg] by (auto simp: candidate_confidence_def)
  then show ?thesis
    using selectAdapter_Some [OF assms(2)] assms(1) tool_adapter.match_has_request by blast
qed

lemma middleware_cases:
  assumes ads: "\<forall>a \<in> set (tcc_adapters cfg). tool_adapter a"
  obtains (pass) ms where "recognised_call cfg r = None" "tcc_pass_through cfg"
      "\<And>h. toolcall_Middleware describe cfg h r new_writer = Some (fold rw_action (h r None) new_writer, ms)"
  | (unknown) w ms where "recognised_call cfg r = None" "\<not> tcc_pass_through cfg" "refused w"
      "\<And>h. toolcall_Middleware describe cfg h r new_writer = Some (w, ms)"
  | (denied) a req err w ms where "recognised_call cfg r = Some (a, req)" "tcc_verify cfg req = Inl err"
      "refused w" "\<And>h. toolcall_Middleware describe cfg h r new_writer = Some (w, ms)"
  | (served) a req i ms where "recognised_call cfg r = Some (a, req)" "tcc_verify cfg req = Inr i"
      "\<And>h. toolcall_Middleware describe cfg h r new_writer = Some (fold rw_action (h r (Some i)) new_writer, ms)"
proof -
  obtain best tie where sel: "selectAdapter r (tcc_adapters cfg) = (best, tie)" by fastforce
  note mw = toolcall_Middleware_def sel threshold_def [symmetric] Let_def
  show thesis
  proof (cases "best = None \<or> candidate_confidence (the best) < threshold cfg")
    case True
    then have rec: "recognised_call cfg r = None" by (auto simp: recognised_call_def sel split: option.splits)
    show thesis
    proof (cases "tcc_pass_through cfg")
      case pt: True
      show thesis by (rule pass [OF rec pt]) (use True pt in \<open>simp add: mw\<close>)
    next
      case pt: False
      let ?w = "case tcc_adapters cfg of [] \<Rightarrow> http_error ''unauthorized'' 401 new_writer
        | a # _ \<Rightarrow> ad_format_error a ''unauthorized'' ''no recognized tool-call protocol'' 401 new_writer"
      have "refused ?w"
        using ads refused_by_adapter
        by (auto simp: refused_def http_error_def new_writer_def split: list.split)
      then show thesis
        by (rule unknown [OF rec pt, where ms = "if tie then hook cfg mh_inc_tie IncTie else []"])
          (use True pt in \<open>simp add: mw split: list.split\<close>)
    qed
  next
    case False
    then obtain c where best: "best = Some c" "\<not> candidate_confidence c < threshold cfg" by auto
    then obtain req where "mr_request (cd_result c) = Some req"
      using recognised_request [OF ads, of r c] sel by auto
    with best(1) have c: "best = Some c" "mr_request (cd_result c) = Some req" by simp_all
    then have rec: "recognised_call cfg r = Some (cd_adapter c, req)"
      using False by (simp add: recognised_call_def sel)
    have a: "tool_adapter (cd_adapter c)" using selectAdapter_Some [of r _ c] sel c ads by fastforce
    show thesis
    proof (cases "tcc_verify cfg req")
      case (Inl err)
      show thesis
        by (rule denied [OF rec Inl refused_by_adapter [OF a classify_status [of describe err]]])
          (use False c Inl in \<open>simp add: mw case_prod_beta\<close>)
    next
      case (Inr i)
      show thesis by (rule served [OF rec Inr]) (use False c Inr in \<open>simp add: mw\<close>)
    qed
  qed
qed

text \<open>
  C26. The gate of the generic middleware, without pass-through and with the shipped adapters:
  it always answers (no adapter can make it dereference a missing request). The wrapped
  handler runs only if a request was recognised with enough confidence and its call passed
  the verifier, and then with the verified identity; otherwise the response carries an error
  status and does not depend on the handler.
\<close>

theorem toolcall_gate:
  assumes "\<forall>a \<in> set (tcc_adapters cfg). shipped a" and "\<not> tcc_pass_through cfg"
  shows "\<exists>w ms. toolcall_Middleware describe cfg handler r new_writer = Some (w, ms) \<and>
    ((\<exists>a req i. recognised_call cfg r = Some (a, req) \<and> a \<in> set (tcc_adapters cfg)
        \<and> tq_protocol req = ad_protocol a \<and> tcc_verify cfg req = Inr i
        \<and> w = fold rw_action (handler r (Some i)) new_writer)
     \<or> refused w \<and> (\<forall>handler'. toolcall_Middleware describe cfg handler' r new_writer = Some (w, ms)))"
proof -
  have ads: "\<forall>a \<in> set (tcc_adapters cfg). tool_adapter a" using assms(1) shipped_adapter by blast
  show ?thesis
  proof (cases rule: middleware_cases [OF ads, of r describe, case_names pass unknown denied served])
    case (served a req i ms)
    then show ?thesis using recognised_call_token [OF _ ads] by blast
  qed (use assms(2) in \<open>blast+\<close>)
qed

theorem toolcall_gate_witness:
  "\<exists>w ms. toolcall_Middleware (\<lambda>e. '''') demo_toolcall_config (\<lambda>r i. [ActWrite ''ok''])
     (demo_http_request ''/db'') new_writer = Some (w, ms)"
proof -
  have "\<forall>a \<in> set (tcc_adapters demo_toolcall_config). shipped a" "\<not> tcc_pass_through demo_toolcall_config"
    by (auto simp: demo_toolcall_config_def demo_mcp_adapter_def demo_http_adapter_def shipped_def)
  from toolcall_gate [OF this, of "\<lambda>e. ''''" "\<lambda>r i. [ActWrite ''ok'']" "demo_http_request ''/db''"]
  show ?thesis by blast
qed

section \<open>Calls that name no tool\<close>

lemma longest_prefix_none:
  "(\<forall>m \<in> set ms. \<not> has_prefix path (tmap_path_prefix m)) \<Longrightarrow> longest_prefix path ms best = best"
  by (induction ms arbitrary: best) auto

lemma verify_registry_irrelevant [simp]:
  "verify_identity V (cfg\<lparr>vv_registry := reg\<rparr>) tok = verify_identity V cfg tok"
  "verify_revocation (cfg\<lparr>vv_registry := reg\<rparr>) = verify_revocation cfg"
  "verify_policy (cfg\<lparr>vv_registry := reg\<rparr>) = verify_policy cfg"
  by (simp_all add: verify_identity_def verify_revocation_def verify_policy_def fun_eq_iff Let_def
      split: option.split)

lemma untargeted_checks:
  assumes "tq_tool_id req = ''''"
  shows "verify_authorize cfg req aud i = Inr i" and "verify_binding J cfg req i = None"
  using assms by (simp_all add: verify_authorize_def verify_binding_def split: option.split)

lemma Verify_untargeted:
  assumes "tq_tool_id req = ''''"
  shows "Verify V (cfg\<lparr>vv_registry := reg\<rparr>) req = Verify V cfg req"
  by (simp add: Verify_def case_prod_beta untargeted_checks [OF assms])

lemma hook_verify [simp]: "hook (cfg\<lparr>tcc_verify := v\<rparr>) = hook cfg"
  by (simp add: hook_def fun_eq_iff)

lemma a2a_untargeted:
  "a2a_ExtractFromHTTP C revision r = Inr (Some res) \<Longrightarrow> mr_request res = Some req \<Longrightarrow> tq_tool_id req = ''''"
  by (auto simp: a2a_ExtractFromHTTP_def adapter_defs
      split: if_splits http_body.splits option.splits prod.splits)

lemma http_untargeted:
  "\<lbrakk>\<forall>m \<in> set ms. \<not> has_prefix (hq_path r) (tmap_path_prefix m);
    http_ExtractFromHTTP ms r = Inr (Some res); mr_request res = Some req\<rbrakk> \<Longrightarrow> tq_tool_id req = ''''"
  by (auto simp: http_ExtractFromHTTP_def adapter_defs resolveToolID_def longest_prefix_none
      split: if_splits)

text \<open>
  The tool registry is not consulted for a call that names no tool, and an A2A request or
  a request on a path with no mapping names none: the response is the same whatever tools
  are registered, so the token's audience, capabilities, blast radius and execution binding
  are not checked against any tool.
\<close>

theorem untargeted_call_skips_registry:
  assumes "tcc_adapters cfg = [a]" and "tcc_verify cfg = Verify V vcfg"
    and "a = a2a_adapter C revision encode
      \<or> a = http_adapter mappings encode \<and> (\<forall>m \<in> set mappings. \<not> has_prefix (hq_path r) (tmap_path_prefix m))"
  shows "toolcall_Middleware describe (cfg\<lparr>tcc_verify := Verify V (vcfg\<lparr>vv_registry := reg\<rparr>)\<rparr>) handler r w
    = toolcall_Middleware describe cfg handler r w"
proof -
  have untargeted: "tq_tool_id req = ''''"
    if "fst (selectAdapter r [a]) = Some c" "mr_request (cd_result c) = Some req" for c req
    using selectAdapter_Some [OF that(1)] that(2) assms(3) a2a_untargeted http_untargeted
    by (auto simp: a2a_adapter_def http_adapter_def)
  obtain best tie where sel: "selectAdapter r [a] = (best, tie)" by fastforce
  have same: "Verify V (vcfg\<lparr>vv_registry := reg\<rparr>) req = Verify V vcfg req"
    if "best = Some c" "mr_request (cd_result c) = Some req" for c req
    using untargeted [of c req] that sel by (intro Verify_untargeted) simp
  show ?thesis
    by (cases best) (auto simp: toolcall_Middleware_def assms(1,2) sel same Let_def
        split: option.split sum.split)
qed

theorem untargeted_call_skips_registry_witness:
  "toolcall_Middleware (\<lambda>e. '''') (demo_toolcall_config\<lparr>tcc_adapters := [demo_http_adapter],
       tcc_verify := Verify demo_verify_env (demo_verifier\<lparr>vv_registry := Some []\<rparr>)\<rparr>)
     (\<lambda>r i. [ActWrite ''ok'']) (demo_http_request ''/other'') new_writer
   = Some (rw_write ''ok'' new_writer, [])"
proof -
  let ?cfg = "demo_toolcall_config\<lparr>tcc_adapters := [demo_http_adapter]\<rparr>"
  have "toolcall_Middleware (\<lambda>e. '''') (?cfg\<lparr>tcc_verify := Verify demo_verify_env
       (demo_verifier\<lparr>vv_registry := Some []\<rparr>)\<rparr>) (\<lambda>r i. [ActWrite ''ok'']) (demo_http_request ''/other'') new_writer
    = toolcall_Middleware (\<lambda>e. '''') ?cfg (\<lambda>r i. [ActWrite ''ok'']) (demo_http_request ''/other'') new_writer"
    by (rule untargeted_call_skips_registry [where a = demo_http_adapter
          and mappings = "[\<lparr>tmap_path_prefix = ''/db'', tmap_tool_id = ''db''\<rparr>]" and encode = "\<lambda>j. ''''"])
      (simp_all add: demo_toolcall_config_def demo_http_adapter_def demo_http_request_def has_prefix_def)
  also have "\<dots> = Some (rw_write ''ok'' new_writer, [])" by code_simp
  finally show ?thesis by simp
qed

end
