(* ===== verification/Federation_Types.thy ===== *)
theory Federation_Types
  imports Core_Types
begin

text \<open>
  \<open>src/pkg/federation/types.go\<close> and \<open>signal_gateway.go\<close>: peers, their health, the wire format of
  a revocation signal, and the configuration of the gateway. The bounded memory of event
  identifiers, which the outbound relay and the inbound handler both keep, is the interface
  \<open>bounded_memory\<close>. Counters are unbounded integers.
\<close>

section \<open>Peers of the key federation\<close>

record peer_config =
  pc_fabric_id :: string
  pc_jwks_endpoint :: string
  pc_mtls_secret :: string
  pc_refresh_interval :: duration
  pc_staleness_threshold :: duration

definition DefaultRefreshInterval :: duration where
  "DefaultRefreshInterval = 60 * go_second"

definition DefaultStalenessThreshold :: duration where
  "DefaultStalenessThreshold = 5 * go_minute"

definition PeerConfig_ApplyDefaults :: "peer_config \<Rightarrow> peer_config" where
  "PeerConfig_ApplyDefaults pc =
     (let pc1 = (if pc_refresh_interval pc \<le> 0
                 then pc\<lparr>pc_refresh_interval := DefaultRefreshInterval\<rparr> else pc)
      in if pc_staleness_threshold pc1 \<le> 0
         then pc1\<lparr>pc_staleness_threshold := DefaultStalenessThreshold\<rparr> else pc1)"

datatype peer_status = PeerHealthy | PeerStale | PeerUnreachable

record peer_state =
  ps_config :: peer_config
  ps_status :: peer_status
  ps_last_seen :: go_time
  ps_last_attempt :: go_time
  ps_last_error :: string
  ps_key_count :: int
  ps_fetch_count :: int
  ps_error_count :: int

definition IsHealthy :: "peer_state \<Rightarrow> bool" where
  "IsHealthy ps \<longleftrightarrow> ps_status ps = PeerHealthy"

definition Age :: "go_time \<Rightarrow> peer_state \<Rightarrow> duration" where
  "Age now ps = (if time_is_zero (ps_last_seen ps) then 0 else time_sub now (ps_last_seen ps))"

record federation_state =
  fs_peers :: "(string, peer_state) gomap"
  fs_updated_at :: go_time

definition PeerCount :: "federation_state \<Rightarrow> nat" where
  "PeerCount fs = length (fs_peers fs)"

definition HealthyCount :: "federation_state \<Rightarrow> nat" where
  "HealthyCount fs = length (filter (\<lambda>(_, ps). IsHealthy ps) (fs_peers fs))"

definition StaleCount :: "federation_state \<Rightarrow> nat" where
  "StaleCount fs = length (filter (\<lambda>(_, ps). ps_status ps = PeerStale) (fs_peers fs))"

definition UnreachableCount :: "federation_state \<Rightarrow> nat" where
  "UnreachableCount fs = length (filter (\<lambda>(_, ps). ps_status ps = PeerUnreachable) (fs_peers fs))"

section \<open>Signals and the gateway\<close>

text \<open>\<open>sn_cert_fabric_id\<close> is not part of the wire format; the HTTP layer sets it.\<close>

record revocation_signal =
  sn_subject_id :: string
  sn_reason :: string
  sn_revoked_at :: go_time
  sn_expires_at :: go_time
  sn_event_jti :: string
  sn_source_fabric :: string
  sn_trust_domain :: string
  sn_cert_fabric_id :: string

datatype peer_signal_status = SignalHealthy | SignalDegraded | SignalDown

record peer_signal_state =
  pss_fabric_id :: string
  pss_transport :: string
  pss_last_relayed :: go_time
  pss_last_received :: go_time
  pss_relayed_count :: int
  pss_received_count :: int
  pss_error_count :: int
  pss_consecutive_errors :: int
  pss_revocation_hash :: string
  pss_status :: peer_signal_status

type_synonym peer_signal_states = "(string, peer_signal_state) gomap"

record gateway_state =
  gs_peers :: peer_signal_states
  gs_updated_at :: go_time

definition status_count :: "peer_signal_status \<Rightarrow> gateway_state \<Rightarrow> nat" where
  "status_count st gs = length (filter (\<lambda>(_, ps). pss_status ps = st) (gs_peers gs))"

definition Gateway_HealthyCount :: "gateway_state \<Rightarrow> nat" where
  "Gateway_HealthyCount = status_count SignalHealthy"

definition DegradedCount :: "gateway_state \<Rightarrow> nat" where
  "DegradedCount = status_count SignalDegraded"

definition DownCount :: "gateway_state \<Rightarrow> nat" where
  "DownCount = status_count SignalDown"

definition DefaultRelayTimeout :: duration where
  "DefaultRelayTimeout = 2 * go_second"

definition DefaultSyncInterval :: duration where
  "DefaultSyncInterval = 30 * go_second"

record peer_signal_config =
  psc_fabric_id :: string
  psc_endpoint :: string
  psc_transport :: string
  psc_relay_timeout :: duration
  psc_sync_interval :: duration
  psc_mtls_secret :: string

definition PeerSignalConfig_ApplyDefaults :: "peer_signal_config \<Rightarrow> peer_signal_config" where
  "PeerSignalConfig_ApplyDefaults psc =
     psc\<lparr>psc_transport := (if psc_transport psc = '''' then ''https'' else psc_transport psc),
         psc_relay_timeout := (if psc_relay_timeout psc \<le> 0 then DefaultRelayTimeout
                               else psc_relay_timeout psc),
         psc_sync_interval := (if psc_sync_interval psc \<le> 0 then DefaultSyncInterval
                               else psc_sync_interval psc)\<rparr>"

definition validTransports :: "string list" where
  "validTransports = [''https'']"

definition unimplementedTransports :: "string list" where
  "unimplementedTransports = [''nats'']"

text \<open>The errors carry the index of the offending peer.\<close>

datatype gateway_config_error =
    FabricIdRequired nat
  | DuplicateFabricId nat string nat
  | EndpointRequired nat string
  | TransportNotImplemented nat string string
  | InvalidTransport nat string string
  | RelayTimeoutNotPositive nat string
  | SyncIntervalNotPositive nat string

fun validate_peers ::
  "(string, nat) gomap \<Rightarrow> nat \<Rightarrow> peer_signal_config list \<Rightarrow> gateway_config_error option" where
  "validate_peers seen i [] = None"
| "validate_peers seen i (p0 # ps) =
     (let fid = psc_fabric_id p0; p = PeerSignalConfig_ApplyDefaults p0 in
      if fid = '''' then Some (FabricIdRequired i)
      else case map_of seen fid of
        Some prevIdx \<Rightarrow> Some (DuplicateFabricId i fid prevIdx)
      | None \<Rightarrow>
          if psc_endpoint p0 = '''' then Some (EndpointRequired i fid)
          else if psc_transport p \<in> set unimplementedTransports
          then Some (TransportNotImplemented i fid (psc_transport p))
          else if psc_transport p \<notin> set validTransports
          then Some (InvalidTransport i fid (psc_transport p))
          else if psc_relay_timeout p \<le> 0 then Some (RelayTimeoutNotPositive i fid)
          else if psc_sync_interval p \<le> 0 then Some (SyncIntervalNotPositive i fid)
          else validate_peers (AList.update fid i seen) (i + 1) ps)"

definition ValidateSignalGatewayConfig :: "peer_signal_config list \<Rightarrow> gateway_config_error option" where
  "ValidateSignalGatewayConfig peers = validate_peers [] 0 peers"

section \<open>Facts about configurations\<close>

lemma ApplyDefaults_positive:
  "0 < psc_relay_timeout (PeerSignalConfig_ApplyDefaults p)"
  "0 < psc_sync_interval (PeerSignalConfig_ApplyDefaults p)"
  by (simp_all add: PeerSignalConfig_ApplyDefaults_def DefaultRelayTimeout_def DefaultSyncInterval_def)

lemma ApplyDefaults_idem:
  "PeerSignalConfig_ApplyDefaults (PeerSignalConfig_ApplyDefaults p) = PeerSignalConfig_ApplyDefaults p"
  by (simp add: PeerSignalConfig_ApplyDefaults_def DefaultRelayTimeout_def DefaultSyncInterval_def)

lemma ApplyDefaults_keeps [simp]:
  "psc_fabric_id (PeerSignalConfig_ApplyDefaults p) = psc_fabric_id p"
  "psc_endpoint (PeerSignalConfig_ApplyDefaults p) = psc_endpoint p"
  "psc_mtls_secret (PeerSignalConfig_ApplyDefaults p) = psc_mtls_secret p"
  by (simp_all add: PeerSignalConfig_ApplyDefaults_def)

lemma validate_peers_None_iff:
  "validate_peers seen i ps = None \<longleftrightarrow>
     distinct (map psc_fabric_id ps) \<and> (\<forall>p \<in> set ps. psc_fabric_id p \<noteq> ''''
       \<and> map_of seen (psc_fabric_id p) = None \<and> psc_endpoint p \<noteq> ''''
       \<and> psc_transport p \<in> {'''', ''https''})"
proof (induction seen i ps rule: validate_peers.induct)
  case (2 seen i p ps)
  have transport: "psc_transport (PeerSignalConfig_ApplyDefaults p) \<in> set validTransports \<longleftrightarrow>
      psc_transport p \<in> {'''', ''https''}"
    by (simp add: PeerSignalConfig_ApplyDefaults_def validTransports_def)
  have excl: "psc_transport (PeerSignalConfig_ApplyDefaults p) \<in> set validTransports \<Longrightarrow>
      psc_transport (PeerSignalConfig_ApplyDefaults p) \<notin> set unimplementedTransports"
    by (simp add: validTransports_def unimplementedTransports_def)
  have pos: "\<not> psc_relay_timeout (PeerSignalConfig_ApplyDefaults p) \<le> 0"
    "\<not> psc_sync_interval (PeerSignalConfig_ApplyDefaults p) \<le> 0"
    using ApplyDefaults_positive [of p] by simp_all
  show ?case
  proof (cases "psc_fabric_id p \<noteq> '''' \<and> map_of seen (psc_fabric_id p) = None \<and> psc_endpoint p \<noteq> ''''
      \<and> psc_transport p \<in> {'''', ''https''}")
    case True
    then have "validate_peers seen i (p # ps) =
        validate_peers (AList.update (psc_fabric_id p) i seen) (i + 1) ps"
      using transport excl pos by (simp add: Let_def)
    moreover have "validate_peers (AList.update (psc_fabric_id p) i seen) (i + 1) ps = None \<longleftrightarrow>
        distinct (map psc_fabric_id ps) \<and> (\<forall>q \<in> set ps. psc_fabric_id q \<noteq> ''''
          \<and> map_of (AList.update (psc_fabric_id p) i seen) (psc_fabric_id q) = None
          \<and> psc_endpoint q \<noteq> '''' \<and> psc_transport q \<in> {'''', ''https''})"
      by (rule 2) (use True transport excl pos in auto)
    moreover have "map_of (AList.update (psc_fabric_id p) i seen) k = None \<longleftrightarrow>
        k \<noteq> psc_fabric_id p \<and> map_of seen k = None" for k
      by (simp add: gomap_simps)
    ultimately have "validate_peers seen i (p # ps) = None \<longleftrightarrow>
        distinct (map psc_fabric_id ps) \<and> (\<forall>q \<in> set ps. psc_fabric_id q \<noteq> [] \<and>
          (psc_fabric_id q \<noteq> psc_fabric_id p \<and> map_of seen (psc_fabric_id q) = None)
          \<and> psc_endpoint q \<noteq> [] \<and> psc_transport q \<in> {[], ''https''})"
      by (simp only:)
    with True show ?thesis by (auto simp: image_iff eq_commute [of "psc_fabric_id p"] simp del: validate_peers.simps)
  next
    case False
    then have "validate_peers seen i (p # ps) \<noteq> None"
      using transport by (auto simp: Let_def split: option.split)
    with False show ?thesis by auto
  qed
qed simp

section \<open>A bounded memory of event identifiers\<close>

text \<open>
  The oldest tenth goes when the memory would exceed its capacity.
\<close>

definition evict_count :: "nat \<Rightarrow> nat" where
  "evict_count maxSeen = (let n = maxSeen div 10 in if n = 0 then 1 else n)"

text \<open>
  What the relay and the inbound handler rely on: an identifier that is not in the memory is
  admitted and remembered last; eviction takes the oldest entries only, and only when the
  capacity is exceeded; the empty identifier is always admitted and never remembered.
\<close>

locale bounded_memory =
  fixes admit :: "string \<Rightarrow> 's \<Rightarrow> bool \<times> 's"
    and order :: "'s \<Rightarrow> string list"
    and capacity :: "'s \<Rightarrow> nat"
    and invar :: "'s \<Rightarrow> bool"
  assumes admit_invar: "invar s \<Longrightarrow> invar (snd (admit j s))"
    and admit_capacity: "capacity (snd (admit j s)) = capacity s"
    and admit_iff: "invar s \<Longrightarrow> fst (admit j s) \<longleftrightarrow> j = '''' \<or> j \<notin> set (order s)"
    and admit_order: "invar s \<Longrightarrow> order (snd (admit j s)) =
      (if j = '''' \<or> j \<in> set (order s) then order s
       else if length (order s) < capacity s then order s @ [j]
       else drop (evict_count (capacity s)) (order s @ [j]))"
    and invar_bound: "invar s \<Longrightarrow> length (order s) \<le> capacity s \<and> 0 < capacity s"
begin

fun admit_all :: "'s \<Rightarrow> string list \<Rightarrow> 's" where
  "admit_all s [] = s"
| "admit_all s (j # js) = admit_all (snd (admit j s)) js"

lemma admit_all_invar: "invar s \<Longrightarrow> invar (admit_all s js)"
  by (induction s js rule: admit_all.induct) (simp_all add: admit_invar)

lemma admit_all_capacity: "capacity (admit_all s js) = capacity s"
  by (induction s js rule: admit_all.induct) (simp_all add: admit_capacity)

text \<open>Each further identifier moves a remembered one at most one place towards eviction.\<close>

lemma remembered_step:
  assumes "invar s" and "order s = xs @ j # ys" and "length ys < capacity s - evict_count (capacity s)"
  shows "\<exists>xs' ys'. order (snd (admit k s)) = xs' @ j # ys' \<and> length ys' \<le> Suc (length ys)"
proof (cases "k = '''' \<or> k \<in> set (order s)")
  case True
  then have "order (snd (admit k s)) = xs @ j # ys" using assms(1,2) by (simp only: admit_order if_True)
  then show ?thesis by (metis le_SucI order_refl)
next
  case new: False
  show ?thesis
  proof (cases "length (order s) < capacity s")
    case True
    with new assms show ?thesis
      by (intro exI [of _ xs] exI [of _ "ys @ [k]"]) (simp add: admit_order)
  next
    case False
    with invar_bound [OF assms(1)] assms(2) have len: "Suc (length xs + length ys) = capacity s" by simp
    then have "evict_count (capacity s) \<le> length xs" using assms(3) by linarith
    with new False assms show ?thesis
      by (intro exI [of _ "drop (evict_count (capacity s)) xs"] exI [of _ "ys @ [k]"])
        (simp add: admit_order)
  qed
qed

lemma remembered_run:
  assumes "invar s" and "order s = xs @ j # ys"
    and "length ys + length js \<le> capacity s - evict_count (capacity s)"
  shows "j \<in> set (order (admit_all s js))"
  using assms
proof (induction s js arbitrary: xs ys rule: admit_all.induct)
  case (2 s k js)
  then obtain xs' ys' where "order (snd (admit k s)) = xs' @ j # ys'" "length ys' \<le> Suc (length ys)"
    using remembered_step [of s xs j ys k] by auto
  then show ?case
    using "2.IH" [of xs' ys'] "2.prems" by (simp add: admit_invar admit_capacity)
qed auto

lemma admitted_once:
  assumes "invar s" and "j \<noteq> ''''" and "fst (admit j s)"
    and "length js \<le> capacity s - evict_count (capacity s)"
  shows "\<not> fst (admit j (admit_all (snd (admit j s)) js))"
proof -
  have "j \<notin> set (order s)" using assms by (simp add: admit_iff)
  then have "\<exists>xs. order (snd (admit j s)) = xs @ j # []"
  proof (cases "length (order s) < capacity s")
    case False
    have "evict_count (capacity s) \<le> length (order s)"
      using False invar_bound [OF assms(1)] by (auto simp: evict_count_def Let_def)
    with False \<open>j \<notin> set (order s)\<close> assms show ?thesis by (auto simp: admit_order)
  qed (use assms in \<open>auto simp: admit_order\<close>)
  then obtain xs where "order (snd (admit j s)) = xs @ j # []" by blast
  then have "j \<in> set (order (admit_all (snd (admit j s)) js))"
    by (rule remembered_run [OF admit_invar [OF assms(1)]]) (use assms(4) in \<open>simp add: admit_capacity\<close>)
  with assms(2) show ?thesis
    by (simp add: admit_iff [OF admit_all_invar [OF admit_invar [OF assms(1)]]])
qed

end

section \<open>A set with a queue\<close>

text \<open>
  How both components keep the memory: a set of identifiers beside the queue of their arrival.
\<close>

type_synonym seen_memory = "(string, unit) gomap \<times> string list"

definition evict_seen :: "nat \<Rightarrow> seen_memory \<Rightarrow> seen_memory" where
  "evict_seen maxSeen = (\<lambda>(seen, ord).
     let n = evict_count maxSeen; k = (if n > length ord then length ord else n)
     in (fold AList.delete (take k ord) seen, drop k ord))"

definition admit_seen :: "nat \<Rightarrow> string \<Rightarrow> seen_memory \<Rightarrow> bool \<times> seen_memory" where
  "admit_seen maxSeen jti = (\<lambda>(seen, ord).
     if jti = '''' then (True, seen, ord)
     else if gomap_has seen jti then (False, seen, ord)
     else let seen' = AList.update jti () seen; ord' = ord @ [jti]
          in (True, if length seen' > maxSeen then evict_seen maxSeen (seen', ord') else (seen', ord')))"

definition seen_ok :: "nat \<Rightarrow> seen_memory \<Rightarrow> bool" where
  "seen_ok maxSeen = (\<lambda>(seen, ord). map fst seen = ord \<and> distinct ord
     \<and> length ord \<le> maxSeen \<and> 0 < maxSeen)"

lemma seen_okI: "distinct (map fst m) \<Longrightarrow> length m \<le> n \<Longrightarrow> 0 < n \<Longrightarrow> seen_ok n (m, map fst m)"
  by (simp add: seen_ok_def)

lemma gomap_has_iff: "gomap_has m k \<longleftrightarrow> k \<in> set (map fst m)"
  by (auto simp: gomap_has_def map_of_eq_None_iff)

lemma update_fresh: "k \<notin> set (map fst m) \<Longrightarrow> AList.update k v m = m @ [(k, v)]"
  by (induction m) auto

lemma delete_fst_notin: "k \<notin> set (map fst m) \<Longrightarrow> AList.delete k m = m"
  by (simp add: AList.delete_eq filter_id_conv) force

lemma delete_prefix:
  "distinct (map fst m) \<Longrightarrow> fold AList.delete (take n (map fst m)) m = drop n m"
proof (induction m arbitrary: n)
  case (Cons x m)
  have "fold AList.delete ks (x # m) = fold AList.delete ks (AList.delete (fst x) m)"
    if "ks = fst x # ks'" for ks ks'
    using that by (cases x) (simp add: AList.delete_eq)
  with Cons show ?case
    by (cases n; cases x) (auto simp: delete_fst_notin)
qed simp

lemma evict_count_bounds: "0 < n \<Longrightarrow> evict_count n \<le> n" "0 < evict_count n"
  by (auto simp: evict_count_def Let_def)

lemma evict_seen_eq:
  assumes "distinct (map fst m)" and "evict_count n \<le> length m"
  shows "evict_seen n (m, map fst m) = (drop (evict_count n) m, drop (evict_count n) (map fst m))"
  using assms(2) delete_prefix [OF assms(1), of "evict_count n"] by (simp add: evict_seen_def Let_def)

lemma admit_seen_eq:
  assumes "seen_ok n (m, map fst m)" and "j \<noteq> ''''" and "j \<notin> set (map fst m)"
  shows "admit_seen n j (m, map fst m) =
    (let m' = m @ [(j, ())]; k = (if length m < n then 0 else evict_count n)
     in (True, drop k m', drop k (map fst m')))"
proof -
  have "evict_count n \<le> n" using assms(1) evict_count_bounds by (simp add: seen_ok_def)
  moreover have "distinct (map fst (m @ [(j, ())]))" using assms by (simp add: seen_ok_def)
  ultimately show ?thesis
    using assms evict_seen_eq [of "m @ [(j, ())]" n]
    by (auto simp: admit_seen_def gomap_has_iff update_fresh seen_ok_def Let_def)
qed

lemma seen_laws:
  assumes "seen_ok n (m, ord)"
  shows "fst (admit_seen n j (m, ord)) \<longleftrightarrow> j = '''' \<or> j \<notin> set ord"
    and "snd (snd (admit_seen n j (m, ord))) =
      (if j = '''' \<or> j \<in> set ord then ord
       else if length ord < n then ord @ [j] else drop (evict_count n) (ord @ [j]))"
    and "seen_ok n (snd (admit_seen n j (m, ord)))"
    and "length ord \<le> n \<and> 0 < n"
proof -
  have ord: "ord = map fst m" using assms by (simp add: seen_ok_def)
  show "fst (admit_seen n j (m, ord)) \<longleftrightarrow> j = '''' \<or> j \<notin> set ord"
    by (simp add: ord admit_seen_def gomap_has_iff Let_def)
  have old: "snd (admit_seen n j (m, ord)) = (m, ord)" if "j = '''' \<or> j \<in> set ord"
    using that by (auto simp: ord admit_seen_def gomap_has_iff)
  note new = admit_seen_eq [OF assms [unfolded ord], of j, folded ord, unfolded Let_def]
  show "snd (snd (admit_seen n j (m, ord))) =
      (if j = '''' \<or> j \<in> set ord then ord
       else if length ord < n then ord @ [j] else drop (evict_count n) (ord @ [j]))"
    using old new by (auto simp: ord)
  show "seen_ok n (snd (admit_seen n j (m, ord)))"
  proof (cases "j = '''' \<or> j \<in> set ord")
    case False
    let ?m = "m @ [(j, ())]" and ?k = "if length m < n then 0 else evict_count n"
    have "distinct (map fst ?m)" using False assms by (auto simp: ord seen_ok_def)
    then have "distinct (map fst (drop ?k ?m))" unfolding drop_map [symmetric] by (rule distinct_drop)
    moreover have "length (drop ?k ?m) \<le> n"
      using assms evict_count_bounds(2) [of n] by (auto simp: ord seen_ok_def)
    ultimately have "seen_ok n (drop ?k ?m, drop ?k (map fst ?m))"
      unfolding drop_map by (rule seen_okI) (use assms in \<open>simp add: seen_ok_def\<close>)
    then show ?thesis using False new by (simp only: snd_conv de_Morgan_disj not_False_eq_True)
  qed (use assms old in auto)
  show "length ord \<le> n \<and> 0 < n" using assms by (simp add: seen_ok_def)
qed

end
