(* ===== verification/Federation_Relay.thy ===== *)
theory Federation_Relay
  imports Federation_Types
begin

text \<open>
  \<open>src/pkg/federation/relay.go\<close>: the outbound half of the signal gateway. A signal is posted to
  every peer whose circuit is closed; the results move the health of the peers. Marshalling,
  URL parsing, the mTLS key files and the HTTP exchange are parameters. The goroutines of one
  fan-out are run one after the other; each touches the state of its own peer only. The
  deliveries attempted are returned beside the new state.
\<close>

section \<open>Model\<close>

definition defaultMaxSeen :: nat where
  "defaultMaxSeen = 10000"

definition circuitBreakerThreshold :: int where
  "circuitBreakerThreshold = 5"

record 'c relay =
  rl_peers :: "peer_signal_config list"
  rl_peer_states :: peer_signal_states
  rl_seen :: "(string, unit) gomap"
  rl_seen_order :: "string list"
  rl_max_seen :: nat
  rl_client :: 'c
  rl_peer_clients :: "(string, 'c) gomap"
  rl_unit_id :: string

datatype 'c relay_option = WithRelayHTTPClient 'c | WithRelayUnitID string

primrec apply_relay_option :: "'c relay_option \<Rightarrow> 'c relay \<Rightarrow> 'c relay" where
  "apply_relay_option (WithRelayHTTPClient c) r = r\<lparr>rl_client := c\<rparr>"
| "apply_relay_option (WithRelayUnitID i) r = r\<lparr>rl_unit_id := i\<rparr>"

definition initial_signal_state :: "peer_signal_config \<Rightarrow> peer_signal_state" where
  "initial_signal_state p =
     \<lparr>pss_fabric_id = psc_fabric_id p, pss_transport = psc_transport p, pss_last_relayed = 0,
      pss_last_received = 0, pss_relayed_count = 0, pss_received_count = 0, pss_error_count = 0,
      pss_consecutive_errors = 0, pss_revocation_hash = '''', pss_status = SignalHealthy\<rparr>"

fun initial_states :: "peer_signal_config list \<Rightarrow> peer_signal_states \<Rightarrow> peer_signal_states" where
  "initial_states [] m = m"
| "initial_states (p # ps) m =
     initial_states ps (AList.update (psc_fabric_id p) (initial_signal_state p) m)"

text \<open>\<open>build\<close> stands for \<open>buildPeerTLSClient\<close>, which loads the key pair of a peer.\<close>

fun build_clients ::
  "(string \<Rightarrow> duration \<Rightarrow> 'c option) \<Rightarrow> peer_signal_config list \<Rightarrow> (string, 'c) gomap \<Rightarrow> (string, 'c) gomap" where
  "build_clients build [] m = m"
| "build_clients build (p # ps) m =
     build_clients build ps
       (if psc_mtls_secret p = '''' then m
        else case build (psc_mtls_secret p) (psc_relay_timeout p) of
          None \<Rightarrow> m
        | Some c \<Rightarrow> AList.update (psc_fabric_id p) c m)"

definition NewRelay ::
  "(string \<Rightarrow> duration \<Rightarrow> 'c option) \<Rightarrow> 'c \<Rightarrow> peer_signal_config list \<Rightarrow> 'c relay_option list \<Rightarrow> 'c relay" where
  "NewRelay build defaultClient cfgPeers opts =
     (let peers = map PeerSignalConfig_ApplyDefaults cfgPeers;
          r = fold apply_relay_option opts
            \<lparr>rl_peers = peers, rl_peer_states = initial_states peers [], rl_seen = [],
             rl_seen_order = [], rl_max_seen = defaultMaxSeen, rl_client = defaultClient,
             rl_peer_clients = [], rl_unit_id = ''''\<rparr>
      in r\<lparr>rl_peer_clients := build_clients build (rl_peers r) []\<rparr>)"

definition clientForPeer :: "'c relay \<Rightarrow> string \<Rightarrow> 'c" where
  "clientForPeer r fabricID =
     (case map_of (rl_peer_clients r) fabricID of Some c \<Rightarrow> c | None \<Rightarrow> rl_client r)"

definition evictOldestLocked :: "'c relay \<Rightarrow> 'c relay" where
  "evictOldestLocked r =
     (let n = evict_count (rl_max_seen r);
          evictCount = (if n > length (rl_seen_order r) then length (rl_seen_order r) else n)
      in r\<lparr>rl_seen := fold AList.delete (take evictCount (rl_seen_order r)) (rl_seen r),
           rl_seen_order := drop evictCount (rl_seen_order r)\<rparr>)"

text \<open>The duplicate check of \<open>RelayRevocation\<close>: whether to go on, and the memory afterwards.\<close>

definition relay_admit :: "string \<Rightarrow> 'c relay \<Rightarrow> bool \<times> 'c relay" where
  "relay_admit jti r =
     (if jti = '''' then (True, r)
      else if gomap_has (rl_seen r) jti then (False, r)
      else
        let r1 = r\<lparr>rl_seen := AList.update jti () (rl_seen r),
                   rl_seen_order := rl_seen_order r @ [jti]\<rparr>
        in (True, if length (rl_seen r1) > rl_max_seen r1 then evictOldestLocked r1 else r1))"

datatype relay_error =
    MarshalSignal
  | RelayRequestInvalid string
  | RelayPostFailed string
  | RelayStatus string int

record 'c relay_env =
  ry_marshal :: "revocation_signal \<Rightarrow> string option"
  ry_request_ok :: "string \<Rightarrow> bool"
  ry_post :: "'c \<Rightarrow> string \<Rightarrow> string \<Rightarrow> int option"
  ry_now :: "string \<Rightarrow> go_time"

definition relayToPeer ::
  "'c relay_env \<Rightarrow> 'c relay \<Rightarrow> peer_signal_config \<Rightarrow> revocation_signal \<Rightarrow> relay_error option" where
  "relayToPeer E r peer signal =
     (case ry_marshal E signal of
        None \<Rightarrow> Some MarshalSignal
      | Some body \<Rightarrow>
          if \<not> ry_request_ok E (psc_endpoint peer) then Some (RelayRequestInvalid (psc_endpoint peer))
          else case ry_post E (clientForPeer r (psc_fabric_id peer)) (psc_endpoint peer) body of
            None \<Rightarrow> Some (RelayPostFailed (psc_endpoint peer))
          | Some status \<Rightarrow>
              if status < 200 \<or> 300 \<le> status then Some (RelayStatus (psc_endpoint peer) status)
              else None)"

definition record_outcome ::
  "go_time \<Rightarrow> relay_error option \<Rightarrow> peer_signal_state \<Rightarrow> peer_signal_state" where
  "record_outcome now result ps =
     (case result of
        Some _ \<Rightarrow>
          let n = pss_consecutive_errors ps + 1
          in ps\<lparr>pss_error_count := pss_error_count ps + 1, pss_consecutive_errors := n,
                pss_status := (if n \<ge> circuitBreakerThreshold then SignalDown else SignalDegraded)\<rparr>
      | None \<Rightarrow>
          ps\<lparr>pss_last_relayed := now, pss_relayed_count := pss_relayed_count ps + 1,
             pss_consecutive_errors := 0, pss_status := SignalHealthy\<rparr>)"

definition isDown :: "peer_signal_states \<Rightarrow> string \<Rightarrow> bool" where
  "isDown m fid =
     (case map_of m fid of None \<Rightarrow> False | Some ps \<Rightarrow> pss_status ps = SignalDown)"

text \<open>Every configured peer has a state; without one the source would dereference nil.\<close>

fun fan_out ::
  "'c relay_env \<Rightarrow> 'c relay \<Rightarrow> revocation_signal \<Rightarrow> peer_signal_config list \<Rightarrow> peer_signal_states
   \<Rightarrow> (string \<times> relay_error option) list \<times> peer_signal_states" where
  "fan_out E r signal [] m = ([], m)"
| "fan_out E r signal (p # ps) m =
     (if isDown m (psc_fabric_id p) then fan_out E r signal ps m
      else
        let result = relayToPeer E r p signal;
            m' = (case map_of m (psc_fabric_id p) of
                    None \<Rightarrow> m
                  | Some st \<Rightarrow> AList.update (psc_fabric_id p)
                      (record_outcome (ry_now E (psc_fabric_id p)) result st) m);
            (sent, m'') = fan_out E r signal ps m'
        in ((psc_fabric_id p, result) # sent, m''))"

definition RelayRevocation ::
  "'c relay_env \<Rightarrow> revocation_signal \<Rightarrow> 'c relay \<Rightarrow> (string \<times> relay_error option) list \<times> 'c relay" where
  "RelayRevocation E signal r =
     (let (fresh, r1) = relay_admit (sn_event_jti signal) r
      in if \<not> fresh then ([], r1)
         else let (sent, m) = fan_out E r1 signal (rl_peers r1) (rl_peer_states r1)
              in (sent, r1\<lparr>rl_peer_states := m\<rparr>))"

definition Relay_State :: "go_time \<Rightarrow> 'c relay \<Rightarrow> gateway_state" where
  "Relay_State now r = \<lparr>gs_peers = rl_peer_states r, gs_updated_at = now\<rparr>"

section \<open>The memory\<close>

lemma relay_admit_eq:
  "relay_admit j r =
     (case admit_seen (rl_max_seen r) j (rl_seen r, rl_seen_order r) of
        (b, seen, ord) \<Rightarrow> (b, r\<lparr>rl_seen := seen, rl_seen_order := ord\<rparr>))"
  by (simp add: relay_admit_def admit_seen_def evict_seen_def evictOldestLocked_def Let_def)

definition relay_memory_ok :: "'c relay \<Rightarrow> bool" where
  "relay_memory_ok r \<longleftrightarrow> seen_ok (rl_max_seen r) (rl_seen r, rl_seen_order r)"

interpretation relayed: bounded_memory relay_admit rl_seen_order rl_max_seen relay_memory_ok
proof unfold_locales
  fix s :: "'a relay" and j
  note laws = seen_laws [of "rl_max_seen s" "rl_seen s" "rl_seen_order s"]
  show "rl_max_seen (snd (relay_admit j s)) = rl_max_seen s"
    by (simp add: relay_admit_eq case_prod_beta)
  assume ok: "relay_memory_ok s"
  show "relay_memory_ok (snd (relay_admit j s))"
    using ok laws(3) [of j] by (simp add: relay_memory_ok_def relay_admit_eq case_prod_beta)
  show "fst (relay_admit j s) \<longleftrightarrow> j = '''' \<or> j \<notin> set (rl_seen_order s)"
    using ok laws(1) [of j] by (simp add: relay_memory_ok_def relay_admit_eq case_prod_beta)
  show "rl_seen_order (snd (relay_admit j s)) =
      (if j = '''' \<or> j \<in> set (rl_seen_order s) then rl_seen_order s
       else if length (rl_seen_order s) < rl_max_seen s then rl_seen_order s @ [j]
       else drop (evict_count (rl_max_seen s)) (rl_seen_order s @ [j]))"
    using ok laws(2) [of j] by (simp add: relay_memory_ok_def relay_admit_eq case_prod_beta)
  show "length (rl_seen_order s) \<le> rl_max_seen s \<and> 0 < rl_max_seen s"
    using ok laws(4) by (simp add: relay_memory_ok_def)
qed

section \<open>Runs\<close>

text \<open>A relay serves signals one after the other, each with its own environment.\<close>

fun relay_all :: "('c relay_env \<times> revocation_signal) list \<Rightarrow> 'c relay \<Rightarrow> 'c relay" where
  "relay_all [] r = r"
| "relay_all ((E, signal) # ss) r = relay_all ss (snd (RelayRevocation E signal r))"

definition relay_ok :: "'c relay \<Rightarrow> bool" where
  "relay_ok r \<longleftrightarrow> relay_memory_ok r \<and> rl_max_seen r = defaultMaxSeen
     \<and> (\<forall>p \<in> set (rl_peers r). map_of (rl_peer_states r) (psc_fabric_id p) \<noteq> None)"

lemma relay_admit_keeps [simp]:
  "rl_peers (snd (relay_admit j r)) = rl_peers r"
  "rl_peer_states (snd (relay_admit j r)) = rl_peer_states r"
  "rl_max_seen (snd (relay_admit j r)) = rl_max_seen r"
  by (simp_all add: relay_admit_eq case_prod_beta)

lemma relay_admit_states:
  "relay_admit j (r\<lparr>rl_peer_states := m\<rparr>) =
     (fst (relay_admit j r), (snd (relay_admit j r))\<lparr>rl_peer_states := m\<rparr>)"
  by (simp add: relay_admit_eq case_prod_beta)

lemma RelayRevocation_eq:
  "RelayRevocation E signal r =
     (let b = fst (relay_admit (sn_event_jti signal) r); r1 = snd (relay_admit (sn_event_jti signal) r);
          f = fan_out E r1 signal (rl_peers r) (rl_peer_states r)
      in if b then (fst f, r1\<lparr>rl_peer_states := snd f\<rparr>) else ([], r1))"
  by (simp add: RelayRevocation_def Let_def case_prod_beta)

lemma relay_admit_all_states:
  "relayed.admit_all (r\<lparr>rl_peer_states := m\<rparr>) js = (relayed.admit_all r js)\<lparr>rl_peer_states := m\<rparr>"
  by (induction r js rule: relayed.admit_all.induct) (simp_all add: relay_admit_states)

lemma relay_all_memory:
  "rl_seen_order (relay_all ss r) = rl_seen_order (relayed.admit_all r (map (sn_event_jti \<circ> snd) ss))
   \<and> rl_seen (relay_all ss r) = rl_seen (relayed.admit_all r (map (sn_event_jti \<circ> snd) ss))
   \<and> rl_max_seen (relay_all ss r) = rl_max_seen r"
  by (induction ss r rule: relay_all.induct)
    (auto simp: RelayRevocation_eq Let_def relay_admit_all_states relayed.admit_all_capacity)

lemma relay_memory_ok_states [simp]:
  "relay_memory_ok (r\<lparr>rl_peer_states := m\<rparr>) = relay_memory_ok r"
  by (simp add: relay_memory_ok_def)

lemma fan_out_dom: "map_of m k \<noteq> None \<Longrightarrow> map_of (snd (fan_out E r s ps m)) k \<noteq> None"
  by (induction E r s ps m rule: fan_out.induct)
    (auto simp: Let_def case_prod_beta gomap_simps split: option.split)

lemma relay_ok_RelayRevocation: "relay_ok r \<Longrightarrow> relay_ok (snd (RelayRevocation E signal r))"
  by (simp add: relay_ok_def RelayRevocation_eq Let_def relayed.admit_invar fan_out_dom del: not_None_eq)

lemma relay_ok_all: "relay_ok r \<Longrightarrow> relay_ok (relay_all ss r)"
  by (induction ss r rule: relay_all.induct) (simp_all add: relay_ok_RelayRevocation)

lemma relay_all_peers: "rl_peers (relay_all ss r) = rl_peers r"
  by (induction ss r rule: relay_all.induct) (simp_all add: RelayRevocation_eq Let_def)

lemma map_of_initial_states:
  "map_of (initial_states ps m) k =
     (case filter (\<lambda>p. psc_fabric_id p = k) ps of
        [] \<Rightarrow> map_of m k | qs \<Rightarrow> Some (initial_signal_state (last qs)))"
  by (induction ps m rule: initial_states.induct) (auto simp: gomap_simps split: list.split)

lemma apply_relay_option_keeps [simp]:
  "rl_peers (fold apply_relay_option opts r) = rl_peers r"
  "rl_peer_states (fold apply_relay_option opts r) = rl_peer_states r"
  "rl_seen (fold apply_relay_option opts r) = rl_seen r"
  "rl_seen_order (fold apply_relay_option opts r) = rl_seen_order r"
  "rl_max_seen (fold apply_relay_option opts r) = rl_max_seen r"
proof (induction opts arbitrary: r)
  case (Cons opt opts)
  { case 1 then show ?case using Cons by (cases opt) simp_all }
  { case 2 then show ?case using Cons by (cases opt) simp_all }
  { case 3 then show ?case using Cons by (cases opt) simp_all }
  { case 4 then show ?case using Cons by (cases opt) simp_all }
  { case 5 then show ?case using Cons by (cases opt) simp_all }
qed simp_all

lemma relay_ok_New: "relay_ok (NewRelay build c peers opts)"
proof -
  have "map_of (initial_states (map PeerSignalConfig_ApplyDefaults peers) []) (psc_fabric_id p) \<noteq> None"
    if "p \<in> set (map PeerSignalConfig_ApplyDefaults peers)" for p
  proof -
    have "filter (\<lambda>q. psc_fabric_id q = psc_fabric_id p) (map PeerSignalConfig_ApplyDefaults peers) \<noteq> []"
      using that by (auto simp: filter_empty_conv)
    then show ?thesis by (simp add: map_of_initial_states split: list.split)
  qed
  then show ?thesis
    by (simp add: relay_ok_def NewRelay_def Let_def relay_memory_ok_def seen_ok_def defaultMaxSeen_def)
qed

text \<open>The environment decides what happens at a peer whose circuit is closed.\<close>

lemma relayToPeer_states [simp]:
  "relayToPeer E (r\<lparr>rl_peer_states := m\<rparr>) p s = relayToPeer E r p s"
  by (simp add: relayToPeer_def clientForPeer_def split: option.split)

text \<open>The state after one delivery.\<close>

definition deliver_one ::
  "'c relay_env \<Rightarrow> 'c relay \<Rightarrow> revocation_signal \<Rightarrow> peer_signal_config \<Rightarrow> peer_signal_states \<Rightarrow> peer_signal_states" where
  "deliver_one E r s p m =
     (case map_of m (psc_fabric_id p) of
        None \<Rightarrow> m
      | Some st \<Rightarrow> AList.update (psc_fabric_id p)
          (record_outcome (ry_now E (psc_fabric_id p)) (relayToPeer E r p s) st) m)"

lemma map_of_deliver_one:
  "map_of (deliver_one E r s p m) k =
     (if k = psc_fabric_id p then map_option (record_outcome (ry_now E k) (relayToPeer E r p s)) (map_of m k)
      else map_of m k)"
  by (auto simp: deliver_one_def gomap_simps split: option.split)

lemma isDown_deliver_other: "k \<noteq> psc_fabric_id p \<Longrightarrow> isDown (deliver_one E r s p m) k = isDown m k"
  by (simp add: isDown_def map_of_deliver_one)

lemma fan_out_Cons:
  "fan_out E r s (p # ps) m =
     (if isDown m (psc_fabric_id p) then fan_out E r s ps m
      else ((psc_fabric_id p, relayToPeer E r p s) # fst (fan_out E r s ps (deliver_one E r s p m)),
            snd (fan_out E r s ps (deliver_one E r s p m))))"
  by (simp add: deliver_one_def Let_def case_prod_beta)

lemma fan_out_sent:
  "distinct (map psc_fabric_id ps) \<Longrightarrow> fst (fan_out E r s ps m) =
     map (\<lambda>p. (psc_fabric_id p, relayToPeer E r p s)) (filter (\<lambda>p. \<not> isDown m (psc_fabric_id p)) ps)"
proof (induction ps arbitrary: m)
  case (Cons p ps)
  have "filter (\<lambda>q. \<not> isDown (deliver_one E r s p m) (psc_fabric_id q)) ps =
      filter (\<lambda>q. \<not> isDown m (psc_fabric_id q)) ps"
    using Cons.prems by (intro filter_cong refl) (auto simp: isDown_deliver_other image_iff)
  with Cons show ?case by (simp add: fan_out_Cons del: fan_out.simps)
qed simp

lemma fan_out_states:
  "distinct (map psc_fabric_id ps) \<Longrightarrow> map_of (snd (fan_out E r s ps m)) k =
     (if isDown m k then map_of m k
      else case find (\<lambda>p. psc_fabric_id p = k) ps of
        None \<Rightarrow> map_of m k
      | Some p \<Rightarrow> map_option (record_outcome (ry_now E k) (relayToPeer E r p s)) (map_of m k))"
proof (induction ps arbitrary: m)
  case (Cons p ps)
  have none: "find (\<lambda>q. psc_fabric_id q = psc_fabric_id p) ps = None"
    using Cons.prems by (auto simp: find_None_iff image_iff)
  show ?case
  proof (cases "k = psc_fabric_id p")
    case True
    with Cons none show ?thesis by (auto simp: fan_out_Cons map_of_deliver_one simp del: fan_out.simps)
  next
    case False
    with Cons show ?thesis
      by (auto simp: fan_out_Cons map_of_deliver_one isDown_deliver_other simp del: fan_out.simps
          split: option.split)
  qed
qed simp

section \<open>Guarantees\<close>

text \<open>
  A relay posts a revocation at most once while it remembers it: after a fresh event has
  been relayed, a signal with the same identifier is not sent to anyone for the next nine
  thousand signals, whatever they are and however the posts end.
\<close>

theorem revocation_relayed_once:
  assumes "r = relay_all ss (NewRelay build c peers opts)"
    and "sn_event_jti signal \<noteq> ''''" and "sn_event_jti signal \<notin> set (rl_seen_order r)"
    and "length between \<le> 9000" and "sn_event_jti again = sn_event_jti signal"
  shows "fst (RelayRevocation E' again (relay_all between (snd (RelayRevocation E signal r)))) = []"
proof -
  let ?j = "sn_event_jti signal" and ?r1 = "snd (RelayRevocation E signal r)"
  let ?js = "map (sn_event_jti \<circ> snd) between"
  have ok: "relay_ok r" by (simp add: assms(1) relay_ok_New relay_ok_all)
  then have mem: "relay_memory_ok r" and cap: "rl_max_seen r = 10000"
    by (simp_all add: relay_ok_def defaultMaxSeen_def)
  have fresh: "fst (relay_admit ?j r)" using mem assms(3) relayed.admit_iff by blast
  have "rl_seen_order (relay_all between ?r1) =
      rl_seen_order (relayed.admit_all (snd (relay_admit ?j r)) ?js)"
    using relay_all_memory [of between ?r1] fresh
    by (simp add: RelayRevocation_eq Let_def relay_admit_all_states)
  moreover have "\<not> fst (relay_admit ?j (relayed.admit_all (snd (relay_admit ?j r)) ?js))"
    using relayed.admitted_once [OF mem assms(2) fresh, of ?js] assms(4) cap
    by (simp add: evict_count_def)
  ultimately have "?j \<in> set (rl_seen_order (relay_all between ?r1))"
    using relayed.admit_iff relayed.admit_all_invar relayed.admit_invar mem by metis
  moreover have "relay_memory_ok (relay_all between ?r1)"
    using ok relay_ok_RelayRevocation relay_ok_all by (metis relay_ok_def)
  ultimately have "\<not> fst (relay_admit ?j (relay_all between ?r1))"
    using assms(2) relayed.admit_iff by blast
  then show ?thesis using assms(5) by (simp add: RelayRevocation_eq Let_def)
qed

definition demo_peer :: "string \<Rightarrow> peer_signal_config" where
  "demo_peer fid = \<lparr>psc_fabric_id = fid, psc_endpoint = ''https://'' @ fid, psc_transport = '''',
     psc_relay_timeout = 0, psc_sync_interval = 0, psc_mtls_secret = ''''\<rparr>"

definition demo_revocation :: "string \<Rightarrow> revocation_signal" where
  "demo_revocation jti = \<lparr>sn_subject_id = ''w'', sn_reason = ''session-revoked'', sn_revoked_at = 1,
     sn_expires_at = 100, sn_event_jti = jti, sn_source_fabric = ''a'', sn_trust_domain = ''td'',
     sn_cert_fabric_id = ''''\<rparr>"

text \<open>Peer \<open>b\<close> answers, every other peer is down.\<close>

definition demo_relay_env :: "unit relay_env" where
  "demo_relay_env = \<lparr>ry_marshal = (\<lambda>s. Some (sn_event_jti s)), ry_request_ok = (\<lambda>u. True),
     ry_post = (\<lambda>c u b. if u = ''https://b'' then Some 200 else None), ry_now = (\<lambda>f. 7)\<rparr>"

definition demo_relay :: "unit relay" where
  "demo_relay = NewRelay (\<lambda>s d. None) () [demo_peer ''b'', demo_peer ''c''] []"

theorem revocation_relayed_once_witness:
  "fst (RelayRevocation demo_relay_env (demo_revocation ''j'') demo_relay) =
     [(''b'', None), (''c'', Some (RelayPostFailed ''https://c''))]
   \<and> fst (RelayRevocation demo_relay_env (demo_revocation ''j'')
       (snd (RelayRevocation demo_relay_env (demo_revocation ''j'') demo_relay))) = []"
proof
  show "fst (RelayRevocation demo_relay_env (demo_revocation ''j'') demo_relay) =
     [(''b'', None), (''c'', Some (RelayPostFailed ''https://c''))]" by code_simp
  have "demo_relay = relay_all [] (NewRelay (\<lambda>s d. None) () [demo_peer ''b'', demo_peer ''c''] [])"
    by (simp add: demo_relay_def)
  from revocation_relayed_once [OF this, of "demo_revocation ''j''" "[]" "demo_revocation ''j''"]
  show "fst (RelayRevocation demo_relay_env (demo_revocation ''j'')
       (snd (RelayRevocation demo_relay_env (demo_revocation ''j'') demo_relay))) = []"
    by (simp add: demo_revocation_def demo_relay_def NewRelay_def Let_def)
qed

text \<open>
  Health as a function of the consecutive failures.
\<close>

definition health_ok :: "peer_signal_state \<Rightarrow> bool" where
  "health_ok ps \<longleftrightarrow> 0 \<le> pss_consecutive_errors ps \<and> pss_consecutive_errors ps \<le> circuitBreakerThreshold
     \<and> pss_consecutive_errors ps \<le> pss_error_count ps
     \<and> pss_status ps = (if pss_consecutive_errors ps = 0 then SignalHealthy
         else if pss_consecutive_errors ps < circuitBreakerThreshold then SignalDegraded else SignalDown)"

lemma health_ok_outcome:
  "health_ok ps \<Longrightarrow> pss_status ps \<noteq> SignalDown \<Longrightarrow> health_ok (record_outcome now res ps)"
  by (auto simp: health_ok_def record_outcome_def circuitBreakerThreshold_def Let_def
      split: option.split if_splits)

lemma health_ok_initial: "health_ok (initial_signal_state p)"
  by (simp add: health_ok_def initial_signal_state_def circuitBreakerThreshold_def)

definition relay_healthy :: "'c relay \<Rightarrow> bool" where
  "relay_healthy r \<longleftrightarrow> (\<forall>k ps. map_of (rl_peer_states r) k = Some ps \<longrightarrow> health_ok ps)"

lemma RelayRevocation_states:
  assumes "distinct (map psc_fabric_id (rl_peers r))"
  shows "map_of (rl_peer_states (snd (RelayRevocation E s r))) k =
    (if isDown (rl_peer_states r) k \<or> \<not> fst (relay_admit (sn_event_jti s) r)
     then map_of (rl_peer_states r) k
     else case find (\<lambda>p. psc_fabric_id p = k) (rl_peers r) of
       None \<Rightarrow> map_of (rl_peer_states r) k
     | Some p \<Rightarrow> map_option (record_outcome (ry_now E k)
         (relayToPeer E (snd (relay_admit (sn_event_jti s) r)) p s)) (map_of (rl_peer_states r) k))"
  by (simp add: RelayRevocation_eq Let_def fan_out_states [OF assms])

lemma relay_healthy_step:
  assumes "distinct (map psc_fabric_id (rl_peers r))" and "relay_healthy r"
  shows "relay_healthy (snd (RelayRevocation E s r))"
  unfolding relay_healthy_def RelayRevocation_states [OF assms(1)]
  using assms(2) health_ok_outcome
  by (fastforce simp: relay_healthy_def isDown_def split: if_splits option.splits)

lemma relay_healthy_all:
  "distinct (map psc_fabric_id (rl_peers r)) \<Longrightarrow> relay_healthy r \<Longrightarrow> relay_healthy (relay_all ss r)"
proof (induction ss r rule: relay_all.induct)
  case (2 E s ss r)
  have "rl_peers (snd (RelayRevocation E s r)) = rl_peers r"
    using relay_all_peers [of "[(E, s)]" r] by simp
  with 2 show ?case by (simp add: relay_healthy_step)
qed simp

lemma NewRelay_peers: "rl_peers (NewRelay build c peers opts) = map PeerSignalConfig_ApplyDefaults peers"
  by (simp add: NewRelay_def Let_def)

lemma relay_healthy_New: "relay_healthy (NewRelay build c peers opts)"
  by (auto simp: relay_healthy_def NewRelay_def Let_def map_of_initial_states health_ok_initial
      split: list.splits)

lemma down_stays_down:
  assumes "distinct (map psc_fabric_id (rl_peers r))" and "isDown (rl_peer_states r) k"
  shows "map_of (rl_peer_states (relay_all ss r)) k = map_of (rl_peer_states r) k
    \<and> k \<notin> fst ` set (fst (RelayRevocation E s (relay_all ss r)))"
proof -
  have still: "map_of (rl_peer_states (relay_all ss r)) k = map_of (rl_peer_states r) k" for ss
    using assms
  proof (induction ss r rule: relay_all.induct)
    case (2 E s ss r)
    have "rl_peers (snd (RelayRevocation E s r)) = rl_peers r"
      using relay_all_peers [of "[(E, s)]" r] by simp
    moreover have same: "map_of (rl_peer_states (snd (RelayRevocation E s r))) k = map_of (rl_peer_states r) k"
      using 2 by (simp add: RelayRevocation_states)
    ultimately show ?case using 2 by (simp add: isDown_def)
  qed simp
  have "k \<notin> fst ` set (fst (RelayRevocation E s (relay_all ss r)))"
    using assms still [of ss]
    by (auto simp: RelayRevocation_eq Let_def fan_out_sent relay_all_peers isDown_def)
  with still show ?thesis by blast
qed

text \<open>
  The circuit breaker of the relay, for a valid configuration: a peer is healthy, degraded
  or down according to its consecutive failures (none, one to four, five), its counters
  never go wrong, and a peer that is down is out for good: no later signal is sent to it
  and its state never changes again, although nothing but a successful post would reset it.
\<close>

theorem circuit_never_closes:
  assumes "ValidateSignalGatewayConfig peers = None"
    and "r = relay_all ss (NewRelay build c peers opts)"
    and "map_of (rl_peer_states r) k = Some ps"
  shows "pss_status ps = (if pss_consecutive_errors ps = 0 then SignalHealthy
      else if pss_consecutive_errors ps < circuitBreakerThreshold then SignalDegraded else SignalDown)
    \<and> (pss_status ps = SignalDown \<longrightarrow>
        pss_consecutive_errors ps = circuitBreakerThreshold
        \<and> (\<forall>after E s. map_of (rl_peer_states (relay_all after r)) k = Some ps
             \<and> k \<notin> fst ` set (fst (RelayRevocation E s (relay_all after r)))))"
proof -
  have "distinct (map psc_fabric_id peers)"
    using assms(1) by (simp add: ValidateSignalGatewayConfig_def validate_peers_None_iff)
  then have dist: "distinct (map psc_fabric_id (rl_peers (NewRelay build c peers opts)))"
    by (simp add: NewRelay_peers comp_def)
  then have "relay_healthy r"
    unfolding assms(2) by (rule relay_healthy_all) (rule relay_healthy_New)
  then have "health_ok ps" using assms(3) by (simp add: relay_healthy_def)
  moreover have "distinct (map psc_fabric_id (rl_peers r))"
    using dist by (simp add: assms(2) relay_all_peers)
  ultimately show ?thesis
    using down_stays_down [of r k] assms(3)
    by (auto simp: health_ok_def isDown_def split: if_splits)
qed

definition demo_failures :: "(unit relay_env \<times> revocation_signal) list" where
  "demo_failures = map (\<lambda>n. (demo_relay_env, demo_revocation [n])) ''12345''"

theorem circuit_never_closes_witness:
  "\<exists>ps. map_of (rl_peer_states (relay_all demo_failures demo_relay)) ''c'' = Some ps
     \<and> pss_status ps = SignalDown
     \<and> (\<forall>after E s. ''c'' \<notin> fst ` set (fst (RelayRevocation E s
          (relay_all after (relay_all demo_failures demo_relay)))))"
proof -
  let ?r = "relay_all demo_failures demo_relay"
  have "ValidateSignalGatewayConfig [demo_peer ''b'', demo_peer ''c''] = None" by code_simp
  note law = circuit_never_closes [OF this, where r = ?r and ss = demo_failures and k = "''c''",
      OF arg_cong [OF demo_relay_def]]
  have "(case map_of (rl_peer_states ?r) ''c'' of None \<Rightarrow> False | Some ps \<Rightarrow> pss_status ps = SignalDown)"
    by code_simp
  then obtain ps where "map_of (rl_peer_states ?r) ''c'' = Some ps" "pss_status ps = SignalDown"
    by (auto split: option.splits)
  with law show ?thesis by blast
qed

end
