(* ===== verification/Federation_Inbound.thy ===== *)
theory Federation_Inbound
  imports Federation_Relay Revocation
begin

text \<open>
  \<open>src/pkg/federation/inbound.go\<close>: revocations that arrive from peer fabrics. The handler checks
  the peer, drops duplicates, writes the local revocation index and flashes the event to the
  local cluster. The index and the signals flashed, which the handler reaches through its
  interfaces, are part of its state; every reading of the clock is an argument. A failed
  flash is only logged, so its result does not occur.
\<close>

section \<open>Model\<close>

datatype inbound_error =
    ErrMTLSRequired string
  | ErrPeerIdentityMismatch string string
  | ErrUntrustedPeer string
  | ErrInvalidSignal
  | ErrSignalExpired
  | ApplyingRevocation revocation_error

record inbound_clock =
  ik_default :: go_time
  ik_expiry :: go_time
  ik_revoke :: go_time
  ik_flash :: go_time
  ik_received :: go_time

record inbound_handler =
  ih_trusted_peers :: "(string, peer_signal_config) gomap"
  ih_peer_states :: peer_signal_states
  ih_has_revocation :: bool
  ih_has_sync_bus :: bool
  ih_require_mtls :: bool
  ih_seen :: "(string, unit) gomap"
  ih_seen_order :: "string list"
  ih_max_seen :: nat
  ih_dedup_hits :: int
  ih_index :: revocation_map
  ih_flashed :: "signal list"

datatype inbound_option =
    WithInboundRevocation revocation_map
  | WithInboundSyncBus
  | WithInboundRequireMTLS bool

primrec apply_inbound_option :: "inbound_option \<Rightarrow> inbound_handler \<Rightarrow> inbound_handler" where
  "apply_inbound_option (WithInboundRevocation idx) h = h\<lparr>ih_has_revocation := True, ih_index := idx\<rparr>"
| "apply_inbound_option WithInboundSyncBus h = h\<lparr>ih_has_sync_bus := True\<rparr>"
| "apply_inbound_option (WithInboundRequireMTLS b) h = h\<lparr>ih_require_mtls := b\<rparr>"

fun trust_peers ::
  "peer_signal_config list \<Rightarrow> (string, peer_signal_config) gomap \<Rightarrow> (string, peer_signal_config) gomap" where
  "trust_peers [] m = m"
| "trust_peers (p # ps) m =
     trust_peers ps (AList.update (psc_fabric_id p) (PeerSignalConfig_ApplyDefaults p) m)"

definition NewInboundHandler :: "peer_signal_config list \<Rightarrow> inbound_option list \<Rightarrow> inbound_handler" where
  "NewInboundHandler peers opts =
     fold apply_inbound_option opts
       \<lparr>ih_trusted_peers = trust_peers peers [],
        ih_peer_states = initial_states (map PeerSignalConfig_ApplyDefaults peers) [],
        ih_has_revocation = False, ih_has_sync_bus = False, ih_require_mtls = False,
        ih_seen = [], ih_seen_order = [], ih_max_seen = defaultMaxSeen, ih_dedup_hits = 0,
        ih_index = [], ih_flashed = []\<rparr>"

definition VerifyPeerIdentity :: "string \<Rightarrow> string \<Rightarrow> inbound_error option" where
  "VerifyPeerIdentity claimed certFabricID =
     (if certFabricID = '''' then Some (ErrMTLSRequired claimed)
      else if claimed \<noteq> certFabricID then Some (ErrPeerIdentityMismatch claimed certFabricID)
      else None)"

definition IsTrustedPeer :: "inbound_handler \<Rightarrow> string \<Rightarrow> bool" where
  "IsTrustedPeer h fabricID = gomap_has (ih_trusted_peers h) fabricID"

definition inbound_evictOldestLocked :: "inbound_handler \<Rightarrow> inbound_handler" where
  "inbound_evictOldestLocked h =
     (let n = evict_count (ih_max_seen h);
          evictCount = (if n > length (ih_seen_order h) then length (ih_seen_order h) else n)
      in h\<lparr>ih_seen := fold AList.delete (take evictCount (ih_seen_order h)) (ih_seen h),
           ih_seen_order := drop evictCount (ih_seen_order h)\<rparr>)"

text \<open>The duplicate check: whether the event is new, and the handler afterwards.\<close>

definition inbound_admit :: "string \<Rightarrow> inbound_handler \<Rightarrow> bool \<times> inbound_handler" where
  "inbound_admit jti h =
     (if jti = '''' then (True, h)
      else if gomap_has (ih_seen h) jti then (False, h\<lparr>ih_dedup_hits := ih_dedup_hits h + 1\<rparr>)
      else
        let h1 = h\<lparr>ih_seen := AList.update jti () (ih_seen h), ih_seen_order := ih_seen_order h @ [jti]\<rparr>
        in (True, if length (ih_seen h1) > ih_max_seen h1 then inbound_evictOldestLocked h1 else h1))"

definition inbound_reason :: "revocation_signal \<Rightarrow> string" where
  "inbound_reason s = ''federated:'' @ sn_reason s @ '' from:'' @ sn_source_fabric s"

definition inbound_flash :: "inbound_clock \<Rightarrow> revocation_signal \<Rightarrow> inbound_handler \<Rightarrow> inbound_handler" where
  "inbound_flash ck s h =
     (if ih_has_sync_bus h
      then h\<lparr>ih_flashed := ih_flashed h @
        [\<lparr>sg_type = ''federation.revocation'', sg_source = sn_source_fabric s, sg_timestamp = ik_flash ck,
          sg_payload = [(''subject_id'', JStr (sn_subject_id s)), (''reason'', JStr (sn_reason s)),
            (''source_fabric'', JStr (sn_source_fabric s)), (''event_jti'', JStr (sn_event_jti s))]\<rparr>]\<rparr>
      else h)"

definition inbound_count :: "inbound_clock \<Rightarrow> revocation_signal \<Rightarrow> inbound_handler \<Rightarrow> inbound_handler" where
  "inbound_count ck s h =
     (case map_of (ih_peer_states h) (sn_source_fabric s) of
        None \<Rightarrow> h
      | Some st \<Rightarrow> h\<lparr>ih_peer_states := AList.update (sn_source_fabric s)
          (st\<lparr>pss_received_count := pss_received_count st + 1, pss_last_received := ik_received ck\<rparr>)
          (ih_peer_states h)\<rparr>)"

definition inbound_check :: "inbound_handler \<Rightarrow> revocation_signal \<Rightarrow> inbound_error option" where
  "inbound_check h s =
     (if ih_require_mtls h \<and> sn_cert_fabric_id s = '''' then Some (ErrMTLSRequired (sn_source_fabric s))
      else case (if sn_cert_fabric_id s \<noteq> ''''
                 then VerifyPeerIdentity (sn_source_fabric s) (sn_cert_fabric_id s) else None) of
        Some e \<Rightarrow> Some e
      | None \<Rightarrow>
          if \<not> IsTrustedPeer h (sn_source_fabric s) then Some (ErrUntrustedPeer (sn_source_fabric s))
          else if sn_subject_id s = '''' then Some ErrInvalidSignal
          else None)"

definition effective_expiry :: "inbound_clock \<Rightarrow> revocation_signal \<Rightarrow> go_time" where
  "effective_expiry ck s =
     (if time_is_zero (sn_expires_at s) then time_add (ik_default ck) (24 * go_hour) else sn_expires_at s)"

definition ReceiveRevocation ::
  "inbound_clock \<Rightarrow> revocation_signal \<Rightarrow> inbound_handler \<Rightarrow> inbound_error option \<times> inbound_handler" where
  "ReceiveRevocation ck s h =
     (case inbound_check h s of
        Some e \<Rightarrow> (Some e, h)
      | None \<Rightarrow>
          let expiresAt = effective_expiry ck s
          in if time_before expiresAt (ik_expiry ck) then (Some ErrSignalExpired, h)
             else
               let (fresh, h1) = inbound_admit (sn_event_jti s) h
               in if \<not> fresh then (None, h1)
                  else
                    let (err, idx) = (if ih_has_revocation h1
                          then Revoke (ik_revoke ck) (sn_subject_id s) (inbound_reason s) expiresAt (ih_index h1)
                          else (None, ih_index h1))
                    in case err of
                         Some e \<Rightarrow> (Some (ApplyingRevocation e), h1)
                       | None \<Rightarrow> (None, inbound_count ck s (inbound_flash ck s (h1\<lparr>ih_index := idx\<rparr>))))"

definition DedupHits :: "inbound_handler \<Rightarrow> int" where
  "DedupHits h = ih_dedup_hits h"

definition Inbound_State :: "inbound_handler \<Rightarrow> peer_signal_states" where
  "Inbound_State h = ih_peer_states h"

section \<open>The memory\<close>

lemma inbound_admit_eq:
  "inbound_admit j h =
     (case admit_seen (ih_max_seen h) j (ih_seen h, ih_seen_order h) of
        (b, seen, ord) \<Rightarrow> (b, h\<lparr>ih_seen := seen, ih_seen_order := ord,
          ih_dedup_hits := ih_dedup_hits h + (if b then 0 else 1)\<rparr>))"
  by (auto simp: inbound_admit_def admit_seen_def evict_seen_def inbound_evictOldestLocked_def Let_def)

definition inbound_memory_ok :: "inbound_handler \<Rightarrow> bool" where
  "inbound_memory_ok h \<longleftrightarrow> seen_ok (ih_max_seen h) (ih_seen h, ih_seen_order h)"

interpretation received: bounded_memory inbound_admit ih_seen_order ih_max_seen inbound_memory_ok
proof unfold_locales
  fix s j
  note laws = seen_laws [of "ih_max_seen s" "ih_seen s" "ih_seen_order s"]
  show "ih_max_seen (snd (inbound_admit j s)) = ih_max_seen s"
    by (simp add: inbound_admit_eq case_prod_beta)
  assume ok: "inbound_memory_ok s"
  show "inbound_memory_ok (snd (inbound_admit j s))"
    using ok laws(3) [of j] by (simp add: inbound_memory_ok_def inbound_admit_eq case_prod_beta)
  show "fst (inbound_admit j s) \<longleftrightarrow> j = '''' \<or> j \<notin> set (ih_seen_order s)"
    using ok laws(1) [of j] by (simp add: inbound_memory_ok_def inbound_admit_eq case_prod_beta)
  show "ih_seen_order (snd (inbound_admit j s)) =
      (if j = '''' \<or> j \<in> set (ih_seen_order s) then ih_seen_order s
       else if length (ih_seen_order s) < ih_max_seen s then ih_seen_order s @ [j]
       else drop (evict_count (ih_max_seen s)) (ih_seen_order s @ [j]))"
    unfolding laws(2) [OF ok [unfolded inbound_memory_ok_def], of j, symmetric]
    by (simp add: inbound_admit_eq case_prod_beta)
  show "length (ih_seen_order s) \<le> ih_max_seen s \<and> 0 < ih_max_seen s"
    using ok laws(4) by (simp add: inbound_memory_ok_def)
qed

section \<open>Guarantees\<close>

lemma inbound_admit_keeps [simp]:
  "ih_index (snd (inbound_admit j h)) = ih_index h"
  "ih_flashed (snd (inbound_admit j h)) = ih_flashed h"
  "ih_has_revocation (snd (inbound_admit j h)) = ih_has_revocation h"
  "ih_has_sync_bus (snd (inbound_admit j h)) = ih_has_sync_bus h"
  "ih_require_mtls (snd (inbound_admit j h)) = ih_require_mtls h"
  "ih_trusted_peers (snd (inbound_admit j h)) = ih_trusted_peers h"
  "ih_peer_states (snd (inbound_admit j h)) = ih_peer_states h"
  by (simp_all add: inbound_admit_eq case_prod_beta)

lemma inbound_effects_index [simp]:
  "ih_index (inbound_flash ck s h) = ih_index h"
  "ih_index (inbound_count ck s h) = ih_index h"
  "ih_flashed (inbound_count ck s h) = ih_flashed h"
  by (simp_all add: inbound_flash_def inbound_count_def split: option.split)

lemma inbound_check_None_iff:
  "inbound_check h s = None \<longleftrightarrow>
     (if ih_require_mtls h \<or> sn_cert_fabric_id s \<noteq> '''' then sn_cert_fabric_id s = sn_source_fabric s
        \<and> sn_cert_fabric_id s \<noteq> '''' else True)
     \<and> IsTrustedPeer h (sn_source_fabric s) \<and> sn_subject_id s \<noteq> ''''"
  by (auto simp: inbound_check_def VerifyPeerIdentity_def)

lemma ReceiveRevocation_cases:
  obtains (refused) e where "ReceiveRevocation ck s h = (Some e, h)"
      "inbound_check h s \<noteq> None \<or> time_before (effective_expiry ck s) (ik_expiry ck)"
  | (duplicate) "inbound_check h s = None" "\<not> time_before (effective_expiry ck s) (ik_expiry ck)"
      "\<not> fst (inbound_admit (sn_event_jti s) h)"
      "ReceiveRevocation ck s h = (None, snd (inbound_admit (sn_event_jti s) h))"
  | (applied) "inbound_check h s = None" "\<not> time_before (effective_expiry ck s) (ik_expiry ck)"
      "fst (inbound_admit (sn_event_jti s) h)"
      "ReceiveRevocation ck s h = (None, inbound_count ck s (inbound_flash ck s
         ((snd (inbound_admit (sn_event_jti s) h))\<lparr>ih_index :=
            (if ih_has_revocation h then snd (Revoke (ik_revoke ck) (sn_subject_id s) (inbound_reason s)
               (effective_expiry ck s) (ih_index h)) else ih_index h)\<rparr>)))"
proof (cases "inbound_check h s")
  case None
  then have "sn_subject_id s \<noteq> ''''" by (simp add: inbound_check_None_iff)
  then have rev: "fst (Revoke t (sn_subject_id s) rs x i) = None" for t rs x i by (simp add: Revoke_def)
  show thesis
  proof (cases "time_before (effective_expiry ck s) (ik_expiry ck)")
    case True
    with None have "ReceiveRevocation ck s h = (Some ErrSignalExpired, h)"
      by (simp add: ReceiveRevocation_def)
    with True show thesis by (intro refused) simp_all
  next
    case live: False
    show thesis
    proof (cases "fst (inbound_admit (sn_event_jti s) h)")
      case True
      with None live rev show thesis
        by (intro applied) (simp_all add: ReceiveRevocation_def Let_def case_prod_beta)
    next
      case False
      with None live show thesis
        by (intro duplicate) (simp_all add: ReceiveRevocation_def Let_def case_prod_beta)
    qed
  qed
qed (use refused in \<open>auto simp: ReceiveRevocation_def\<close>)

text \<open>
  What a revocation from a peer does. It is accepted exactly if its source is a trusted
  peer, equal to the certificate's fabric where there is a certificate and a certificate is
  there where mTLS is required, it names a subject, and it has not expired; a refused signal
  changes nothing. Applying a fresh one revokes its subject until it expires (for a day if it
  carries no expiry) and touches no other subject; a remembered one changes no entry.
\<close>

theorem federated_revocation_exact:
  assumes "ReceiveRevocation ck s h = (r, h')" and "inbound_memory_ok h" and "ih_has_revocation h"
  shows "(r = None \<longleftrightarrow> IsTrustedPeer h (sn_source_fabric s) \<and> sn_subject_id s \<noteq> ''''
        \<and> (sn_cert_fabric_id s = sn_source_fabric s \<and> sn_cert_fabric_id s \<noteq> ''''
           \<or> \<not> ih_require_mtls h \<and> sn_cert_fabric_id s = '''')
        \<and> ik_expiry ck \<le> effective_expiry ck s)
    \<and> (r \<noteq> None \<longrightarrow> h' = h)
    \<and> (r = None \<longrightarrow> sn_event_jti s \<noteq> '''' \<longrightarrow> sn_event_jti s \<in> set (ih_seen_order h) \<longrightarrow>
        ih_index h' = ih_index h)
    \<and> (r = None \<longrightarrow> sn_event_jti s = '''' \<or> sn_event_jti s \<notin> set (ih_seen_order h) \<longrightarrow>
        (\<forall>u. effective_expiry ck s = 0 \<or> u \<le> effective_expiry ck s \<longrightarrow>
           (\<exists>e. IsRevoked u (sn_subject_id s) (ih_index h') = Some e \<and> re_reason e = inbound_reason s))
        \<and> (\<forall>u w. w \<noteq> sn_subject_id s \<longrightarrow> IsRevoked u w (ih_index h') = IsRevoked u w (ih_index h)))"
proof (cases rule: ReceiveRevocation_cases [of ck s h, case_names refused duplicate applied])
  case refused
  then show ?thesis
    using assms(1) by (auto simp: inbound_check_None_iff time_before_def split: if_splits)
next
  case duplicate
  then show ?thesis
    using assms(1,2) by (auto simp: inbound_check_None_iff time_before_def received.admit_iff split: if_splits)
next
  case applied
  then have "sn_subject_id s \<noteq> ''''" by (simp add: inbound_check_None_iff)
  then show ?thesis
    using applied assms
    by (auto simp: inbound_check_None_iff time_before_def received.admit_iff IsRevoked_Revoke split: if_splits)
qed

definition demo_inbound :: "revocation_map \<Rightarrow> inbound_handler" where
  "demo_inbound idx = NewInboundHandler [demo_peer ''a''] [WithInboundRevocation idx, WithInboundSyncBus]"

definition demo_inbound_clock :: inbound_clock where
  "demo_inbound_clock = \<lparr>ik_default = 2, ik_expiry = 3, ik_revoke = 4, ik_flash = 5, ik_received = 6\<rparr>"

lemma demo_inbound_ok: "inbound_memory_ok (demo_inbound idx)" "ih_has_revocation (demo_inbound idx)"
  "ih_seen_order (demo_inbound idx) = []" "ih_index (demo_inbound idx) = idx"
  by (simp_all add: demo_inbound_def NewInboundHandler_def inbound_memory_ok_def seen_ok_def defaultMaxSeen_def)

lemma demo_inbound_accepts:
  "fst (ReceiveRevocation demo_inbound_clock (demo_revocation ''j'') (demo_inbound idx)) = None"
proof -
  have "IsTrustedPeer (demo_inbound idx) ''a''"
    by (simp add: IsTrustedPeer_def demo_inbound_def NewInboundHandler_def gomap_has_def demo_peer_def)
  then have "inbound_check (demo_inbound idx) (demo_revocation ''j'') = None"
    by (simp add: inbound_check_None_iff demo_revocation_def demo_inbound_def NewInboundHandler_def)
  moreover have "\<not> time_before (effective_expiry demo_inbound_clock (demo_revocation ''j''))
      (ik_expiry demo_inbound_clock)" by code_simp
  ultimately show ?thesis
    by (cases rule: ReceiveRevocation_cases [of demo_inbound_clock "demo_revocation ''j''" "demo_inbound idx"])
      auto
qed

theorem federated_revocation_exact_witness:
  "\<exists>e. IsRevoked 50 ''w'' (ih_index (snd (ReceiveRevocation demo_inbound_clock (demo_revocation ''j'')
      (demo_inbound [])))) = Some e \<and> re_reason e = ''federated:session-revoked from:a''"
proof -
  have "effective_expiry demo_inbound_clock (demo_revocation ''j'') = 100"
    "inbound_reason (demo_revocation ''j'') = ''federated:session-revoked from:a''" by code_simp+
  with federated_revocation_exact [OF prod.collapse [symmetric] demo_inbound_ok(1,2),
      of demo_inbound_clock "demo_revocation ''j''" "[]"] demo_inbound_accepts [of "[]"] demo_inbound_ok(3)
  show ?thesis by (simp add: demo_revocation_def)
qed

text \<open>
  A peer can lift a revocation of this fabric: a fresh signal replaces the entry of its
  subject whatever it was, so that a permanent local revocation ends when the signal does.
\<close>

theorem peer_shortens_revocation:
  assumes "ReceiveRevocation ck s h = (None, h')" and "inbound_memory_ok h" and "ih_has_revocation h"
    and "sn_event_jti s = '''' \<or> sn_event_jti s \<notin> set (ih_seen_order h)"
    and "sn_expires_at s \<noteq> 0" and "sn_expires_at s < u"
  shows "IsRevoked u (sn_subject_id s) (ih_index h') = None"
proof -
  have "fst (inbound_admit (sn_event_jti s) h)" using assms(2,4) by (simp add: received.admit_iff)
  then have h': "h' = inbound_count ck s (inbound_flash ck s
         ((snd (inbound_admit (sn_event_jti s) h))\<lparr>ih_index :=
            snd (Revoke (ik_revoke ck) (sn_subject_id s) (inbound_reason s)
               (effective_expiry ck s) (ih_index h))\<rparr>))" and "inbound_check h s = None"
    using assms(1,3) by (cases rule: ReceiveRevocation_cases [of ck s h]; simp)+
  then have "sn_subject_id s \<noteq> ''''" by (simp add: inbound_check_None_iff)
  with h' assms(5,6) show ?thesis by (simp add: IsRevoked_Revoke effective_expiry_def time_is_zero_def)
qed

definition permanent_entry :: revocation_entry where
  "permanent_entry = \<lparr>re_subject_id = ''w'', re_reason = ''compromised'', re_revoked_at = 1,
     re_expires_at = 0, re_event_jti = ''''\<rparr>"

theorem peer_shortens_revocation_witness:
  "IsRevoked 101 ''w'' (ih_index (demo_inbound [(''w'', permanent_entry)])) = Some permanent_entry
   \<and> IsRevoked 101 ''w'' (ih_index (snd (ReceiveRevocation demo_inbound_clock (demo_revocation ''j'')
       (demo_inbound [(''w'', permanent_entry)])))) = None"
proof
  let ?h = "demo_inbound [(''w'', permanent_entry)]"
  let ?s = "demo_revocation ''j''"
  show "IsRevoked 101 ''w'' (ih_index ?h) = Some permanent_entry"
    by (simp add: demo_inbound_ok IsRevoked_def entry_expired_def permanent_entry_def time_is_zero_def)
  have "ReceiveRevocation demo_inbound_clock ?s ?h =
      (None, snd (ReceiveRevocation demo_inbound_clock ?s ?h))"
    using demo_inbound_accepts by (metis prod.collapse)
  from peer_shortens_revocation [OF this demo_inbound_ok(1,2), of 101] demo_inbound_ok(3)
  show "IsRevoked 101 ''w'' (ih_index (snd (ReceiveRevocation demo_inbound_clock ?s ?h))) = None"
    by (simp add: demo_revocation_def)
qed

end
