(* ===== verification/Federation_Sync.thy ===== *)
theory Federation_Sync
  imports Federation_Inbound Go_Http
begin

text \<open>
  \<open>src/pkg/federation/sync.go\<close>: reconciliation of the revocation index with a peer, by
  comparing hashes and importing the peer's export when they differ; and its counterpart
  \<open>src/pkg/api/federation_handler.go\<close>, the two endpoints a peer asks. HTTP, URL parsing and JSON
  are parameters; the background loop of a peer is a sequence of calls of \<open>syncWithPeer\<close>.
\<close>

section \<open>The syncer\<close>

datatype sync_error =
    HashRequestInvalid
  | FetchingPeerHash
  | HashStatus int
  | DecodingHash
  | ExportRequestInvalid
  | FetchingPeerExport
  | ExportStatus int
  | ReadingExport
  | ExportTooLarge
  | ImportingRevocations revocation_error

datatype syncer_error = AlreadyStarted

record sync_peer_state =
  yp_fabric_id :: string
  yp_last_sync :: go_time
  yp_last_mismatch :: go_time
  yp_sync_count :: int
  yp_mismatch_count :: int
  yp_full_sync_count :: int
  yp_error_count :: int
  yp_last_error :: "sync_error option"
  yp_peer_hash :: string
  yp_local_hash :: string

record syncer =
  sy_peers :: "peer_signal_config list"
  sy_peer_states :: "(string, sync_peer_state) gomap"
  sy_index :: revocation_map
  sy_started :: bool

definition initial_sync_state :: "string \<Rightarrow> sync_peer_state" where
  "initial_sync_state fid =
     \<lparr>yp_fabric_id = fid, yp_last_sync = 0, yp_last_mismatch = 0, yp_sync_count = 0,
      yp_mismatch_count = 0, yp_full_sync_count = 0, yp_error_count = 0, yp_last_error = None,
      yp_peer_hash = '''', yp_local_hash = ''''\<rparr>"

definition NewSyncer :: "peer_signal_config list \<Rightarrow> revocation_map \<Rightarrow> syncer" where
  "NewSyncer cfgPeers idx =
     (let peers = map PeerSignalConfig_ApplyDefaults cfgPeers
      in \<lparr>sy_peers = peers,
          sy_peer_states = fold (\<lambda>p. AList.update (psc_fabric_id p) (initial_sync_state (psc_fabric_id p))) peers [],
          sy_index = idx, sy_started = False\<rparr>)"

text \<open>The goroutines that \<open>Start\<close> launches are the peers returned.\<close>

definition Syncer_Start :: "syncer \<Rightarrow> (syncer_error + peer_signal_config list) \<times> syncer" where
  "Syncer_Start s =
     (if sy_started s then (Inl AlreadyStarted, s) else (Inr (sy_peers s), s\<lparr>sy_started := True\<rparr>))"

record sync_env =
  sx_cleanup_now :: go_time
  sx_now :: go_time
  sx_parse_url :: "string \<Rightarrow> (string \<times> string) option"
  sx_request_ok :: "string \<Rightarrow> bool"
  sx_get :: "string \<Rightarrow> (int \<times> string option) option"
  sx_decode_hash :: "string \<Rightarrow> string option"
  sx_codec :: snapshot_codec

definition peerBaseURL :: "(string \<Rightarrow> (string \<times> string) option) \<Rightarrow> string \<Rightarrow> string" where
  "peerBaseURL parse endpoint =
     (case parse endpoint of None \<Rightarrow> endpoint | Some (scheme, host) \<Rightarrow> scheme @ ''://'' @ host)"

definition on_sync_state :: "string \<Rightarrow> (sync_peer_state \<Rightarrow> sync_peer_state) \<Rightarrow> syncer \<Rightarrow> syncer" where
  "on_sync_state fid f s =
     (case map_of (sy_peer_states s) fid of
        None \<Rightarrow> s
      | Some st \<Rightarrow> s\<lparr>sy_peer_states := AList.update fid (f st) (sy_peer_states s)\<rparr>)"

definition recordError :: "string \<Rightarrow> sync_error \<Rightarrow> syncer \<Rightarrow> syncer" where
  "recordError fid err =
     on_sync_state fid (\<lambda>st. st\<lparr>yp_error_count := yp_error_count st + 1, yp_last_error := Some err\<rparr>)"

definition maxExportSize :: nat where
  "maxExportSize = 10485760"

definition fetch_hash :: "sync_env \<Rightarrow> string \<Rightarrow> sync_error + string" where
  "fetch_hash E url =
     (if \<not> sx_request_ok E url then Inl HashRequestInvalid
      else case sx_get E url of
        None \<Rightarrow> Inl FetchingPeerHash
      | Some (status, body) \<Rightarrow>
          if status \<noteq> 200 then Inl (HashStatus status)
          else case Option.bind body (sx_decode_hash E) of
            None \<Rightarrow> Inl DecodingHash
          | Some h \<Rightarrow> Inr h)"

definition fetch_export :: "sync_env \<Rightarrow> string \<Rightarrow> sync_error + string" where
  "fetch_export E url =
     (if \<not> sx_request_ok E url then Inl ExportRequestInvalid
      else case sx_get E url of
        None \<Rightarrow> Inl FetchingPeerExport
      | Some (status, body) \<Rightarrow>
          if status \<noteq> 200 then Inl (ExportStatus status)
          else case body of
            None \<Rightarrow> Inl ReadingExport
          | Some b \<Rightarrow> if length b > maxExportSize then Inl ExportTooLarge else Inr b)"

text \<open>The second half of a cycle: the hashes differ, so fetch the export and merge it.\<close>

definition full_sync :: "sync_env \<Rightarrow> string \<Rightarrow> string \<Rightarrow> syncer \<Rightarrow> sync_error option \<times> syncer" where
  "full_sync E baseURL fid s =
     (let s1 = on_sync_state fid (\<lambda>st. st\<lparr>yp_mismatch_count := yp_mismatch_count st + 1,
                                          yp_last_mismatch := sx_now E\<rparr>) s
      in case fetch_export E (baseURL @ ''/v1/federation/revocation-export'') of
           Inl e \<Rightarrow> (Some e, recordError fid e s1)
         | Inr body \<Rightarrow>
             case Revocation_Import (sx_codec E) body (sy_index s1) of
               (Some e, idx) \<Rightarrow>
                 (Some (ImportingRevocations e),
                  recordError fid (ImportingRevocations e) (s1\<lparr>sy_index := idx\<rparr>))
             | (None, idx) \<Rightarrow>
                 (None, on_sync_state fid (\<lambda>st. st\<lparr>yp_full_sync_count := yp_full_sync_count st + 1,
                          yp_local_hash := Revocation_Hash (sx_codec E) idx\<rparr>) (s1\<lparr>sy_index := idx\<rparr>)))"

definition syncWithPeer :: "sync_env \<Rightarrow> peer_signal_config \<Rightarrow> syncer \<Rightarrow> sync_error option \<times> syncer" where
  "syncWithPeer E peer s =
     (let baseURL = peerBaseURL (sx_parse_url E) (psc_endpoint peer);
          fid = psc_fabric_id peer;
          s0 = s\<lparr>sy_index := snd (Revocation_Cleanup (sx_cleanup_now E) (sy_index s))\<rparr>;
          localHash = Revocation_Hash (sx_codec E) (sy_index s0)
      in case fetch_hash E (baseURL @ ''/v1/federation/revocation-hash'') of
           Inl e \<Rightarrow> (Some e, recordError fid e s0)
         | Inr peerHash \<Rightarrow>
             let s1 = on_sync_state fid (\<lambda>st. st\<lparr>yp_sync_count := yp_sync_count st + 1,
                        yp_last_sync := sx_now E, yp_local_hash := localHash,
                        yp_peer_hash := peerHash, yp_last_error := None\<rparr>) s0
             in if localHash = peerHash then (None, s1) else full_sync E baseURL fid s1)"

definition Syncer_State :: "syncer \<Rightarrow> (string, sync_peer_state) gomap" where
  "Syncer_State s = sy_peer_states s"

section \<open>The endpoints of a peer\<close>

record federation_server =
  fv_index :: "revocation_map option"
  fv_secret :: string
  fv_codec :: snapshot_codec
  fv_encode :: "json \<Rightarrow> string"
  fv_now :: go_time
  fv_timestamp :: string

definition writeJSON :: "(json \<Rightarrow> string) \<Rightarrow> int \<Rightarrow> json \<Rightarrow> response_writer \<Rightarrow> response_writer" where
  "writeJSON encode status v w =
     rw_write (encode v) (rw_write_header status (rw_set_header ''Content-Type'' ''application/json'' w))"

definition errorResponse :: "string \<Rightarrow> string \<Rightarrow> json" where
  "errorResponse err description =
     JObj ((''error'', JStr err) # (if description = '''' then [] else [(''error_description'', JStr description)]))"

text \<open>\<open>None\<close> lets the request pass; otherwise the response has been written.\<close>

definition requireFederationPeerAuth ::
  "federation_server \<Rightarrow> http_request \<Rightarrow> response_writer \<Rightarrow> response_writer option" where
  "requireFederationPeerAuth v r w =
     (if fv_secret v = '''' then None
      else
        let authHeader = header_get r ''Authorization''
        in if \<not> has_prefix authHeader ''Bearer ''
           then Some (writeJSON (fv_encode v) 401
             (errorResponse ''unauthorized'' ''federation peer secret required'') w)
           else if drop (length ''Bearer '') authHeader \<noteq> fv_secret v
           then Some (writeJSON (fv_encode v) 401
             (errorResponse ''unauthorized'' ''invalid federation peer secret'') w)
           else None)"

definition index_unavailable :: "federation_server \<Rightarrow> response_writer \<Rightarrow> response_writer" where
  "index_unavailable v w =
     writeJSON (fv_encode v) 503 (errorResponse ''service_unavailable'' ''revocation index not configured'') w"

definition export_count :: "snapshot_codec \<Rightarrow> go_time \<Rightarrow> revocation_map \<Rightarrow> int" where
  "export_count C now idx =
     (case Revocation_Export C now idx of
        Inl _ \<Rightarrow> 0
      | Inr data \<Rightarrow> (case sd_unmarshal_snapshot C data of None \<Rightarrow> 0 | Some snap \<Rightarrow> rv_count snap))"

definition handleFederationRevocationHash ::
  "federation_server \<Rightarrow> http_request \<Rightarrow> response_writer \<Rightarrow> response_writer" where
  "handleFederationRevocationHash v r w =
     (case requireFederationPeerAuth v r w of
        Some w' \<Rightarrow> w'
      | None \<Rightarrow>
          case fv_index v of
            None \<Rightarrow> index_unavailable v w
          | Some idx \<Rightarrow>
              writeJSON (fv_encode v) 200
                (JObj [(''hash'', JStr (Revocation_Hash (fv_codec v) idx)),
                       (''count'', JNum (of_int (export_count (fv_codec v) (fv_now v) idx))),
                       (''timestamp'', JStr (fv_timestamp v))]) w)"

definition handleFederationRevocationExport ::
  "federation_server \<Rightarrow> http_request \<Rightarrow> response_writer \<Rightarrow> response_writer" where
  "handleFederationRevocationExport v r w =
     (case requireFederationPeerAuth v r w of
        Some w' \<Rightarrow> w'
      | None \<Rightarrow>
          case fv_index v of
            None \<Rightarrow> index_unavailable v w
          | Some idx \<Rightarrow>
              case Revocation_Export (fv_codec v) (fv_now v) idx of
                Inl _ \<Rightarrow> writeJSON (fv_encode v) 500
                  (errorResponse ''server_error'' ''failed to export revocation index'') w
              | Inr data \<Rightarrow>
                  rw_write data (rw_write_header 200 (rw_set_header ''Content-Type'' ''application/json'' w)))"

section \<open>What a cycle does to the index\<close>

lemma on_sync_state_index [simp]: "sy_index (on_sync_state fid f s) = sy_index s"
  by (simp add: on_sync_state_def split: option.split)

lemma recordError_index [simp]: "sy_index (recordError fid e s) = sy_index s"
  by (simp add: recordError_def)

lemma full_sync_index:
  "sy_index (snd (full_sync E b fid s)) = sy_index s
   \<or> (\<exists>body. sy_index (snd (full_sync E b fid s)) = snd (Revocation_Import (sx_codec E) body (sy_index s)))"
proof (cases "fetch_export E (b @ ''/v1/federation/revocation-export'')")
  case (Inr body)
  then have "sy_index (snd (full_sync E b fid s)) = snd (Revocation_Import (sx_codec E) body (sy_index s))"
    by (simp add: full_sync_def Let_def split: prod.split option.split)
  then show ?thesis by blast
qed (simp add: full_sync_def Let_def)

lemma syncWithPeer_index:
  "sy_index (snd (syncWithPeer E p s)) = snd (Revocation_Cleanup (sx_cleanup_now E) (sy_index s))
   \<or> (\<exists>body. sy_index (snd (syncWithPeer E p s)) =
        snd (Revocation_Import (sx_codec E) body (snd (Revocation_Cleanup (sx_cleanup_now E) (sy_index s)))))"
proof (cases "fetch_hash E (peerBaseURL (sx_parse_url E) (psc_endpoint p) @ ''/v1/federation/revocation-hash'')")
  case (Inr h)
  let ?idx0 = "snd (Revocation_Cleanup (sx_cleanup_now E) (sy_index s))"
  obtain s1 where s1: "sy_index s1 = ?idx0" and
    "snd (syncWithPeer E p s) = s1 \<or> snd (syncWithPeer E p s) =
       snd (full_sync E (peerBaseURL (sx_parse_url E) (psc_endpoint p)) (psc_fabric_id p) s1)"
  proof
    let ?s1 = "on_sync_state (psc_fabric_id p) (\<lambda>st. st\<lparr>yp_sync_count := yp_sync_count st + 1,
        yp_last_sync := sx_now E, yp_local_hash := Revocation_Hash (sx_codec E) ?idx0,
        yp_peer_hash := h, yp_last_error := None\<rparr>) (s\<lparr>sy_index := ?idx0\<rparr>)"
    show "sy_index ?s1 = ?idx0" by simp
    show "snd (syncWithPeer E p s) = ?s1 \<or> snd (syncWithPeer E p s) =
       snd (full_sync E (peerBaseURL (sx_parse_url E) (psc_endpoint p)) (psc_fabric_id p) ?s1)"
      by (simp add: syncWithPeer_def Let_def Inr)
  qed
  then show ?thesis using full_sync_index [of E _ _ s1] by metis
qed (simp add: syncWithPeer_def Let_def)

lemma sync_ok: "revocation_ok (sy_index s) \<Longrightarrow> revocation_ok (sy_index (snd (syncWithPeer E p s)))"
  using syncWithPeer_index [of E p s] by (auto simp: revocation_ok_Import revocation_ok_Cleanup)

lemma map_of_Cleanup:
  "revocation_ok idx \<Longrightarrow> map_of (snd (Revocation_Cleanup now idx)) k = IsRevoked now k idx"
  using map_of_filter_live [of idx now] by (simp add: Revocation_Cleanup_def fun_eq_iff)

lemma map_of_Import_keeps:
  "map_of idx k = Some e \<Longrightarrow> map_of (snd (Revocation_Import C body idx)) k = Some e"
  by (auto simp: Revocation_Import_def Let_def map_of_merge split: option.split)

lemma sync_keeps_entry:
  assumes "revocation_ok (sy_index s)" and "map_of (sy_index s) k = Some e"
    and "\<not> entry_expired (sx_cleanup_now E) e"
  shows "map_of (sy_index (snd (syncWithPeer E p s))) k = Some e"
proof -
  have "map_of (snd (Revocation_Cleanup (sx_cleanup_now E) (sy_index s))) k = Some e"
    using assms by (simp add: map_of_Cleanup IsRevoked_def)
  then show ?thesis using syncWithPeer_index [of E p s] by (auto simp: map_of_Import_keeps)
qed

fun sync_all :: "(sync_env \<times> peer_signal_config) list \<Rightarrow> syncer \<Rightarrow> syncer" where
  "sync_all [] s = s"
| "sync_all ((E, p) # xs) s = sync_all xs (snd (syncWithPeer E p s))"

lemma sync_all_keeps_entry:
  assumes "revocation_ok (sy_index s)" and "map_of (sy_index s) k = Some e"
    and "\<forall>(E, p) \<in> set xs. \<not> entry_expired (sx_cleanup_now E) e"
  shows "revocation_ok (sy_index (sync_all xs s)) \<and> map_of (sy_index (sync_all xs s)) k = Some e"
  using assms by (induction xs s rule: sync_all.induct) (auto simp: sync_ok sync_keeps_entry)

lemma different_entries_hashed:
  assumes "revocation_ok a" and "revocation_ok b" and "map_of a k = Some x" and "map_of b k = Some y"
    and "x \<noteq> y"
  shows "sort_key re_subject_id (map snd a) \<noteq> sort_key re_subject_id (map snd b)"
proof
  assume "sort_key re_subject_id (map snd a) = sort_key re_subject_id (map snd b)"
  then have "set (map snd a) = set (map snd b)" by (metis set_sort)
  moreover have "x \<in> set (map snd a)" using map_of_SomeD [OF assms(3)] by force
  ultimately obtain k' where b: "(k', x) \<in> set b" by auto
  moreover have "re_subject_id x = k" using revocation_ok_subject assms(1,3) by blast
  ultimately have "k' = k" using assms(2) by (auto simp: revocation_ok_def)
  with b have "map_of b k = Some x"
    using assms(2) by (simp add: revocation_ok_def gomap_wf_def)
  with assms(4,5) show False by simp
qed

section \<open>A peer's answers\<close>

definition bare_get :: "string \<Rightarrow> http_request" where
  "bare_get path = \<lparr>hq_method = ''GET'', hq_path = path, hq_headers = [], hq_body = NoBody, hq_remote_addr = ''''\<rparr>"

definition reply_of :: "response_writer \<Rightarrow> int \<times> string option" where
  "reply_of w = (case rw_sent w of None \<Rightarrow> (200, Some (rw_body w)) | Some (st, _) \<Rightarrow> (st, Some (rw_body w)))"

text \<open>The syncer's requests reach the endpoints of a server; they carry no header.\<close>

definition served_by :: "sync_env \<Rightarrow> peer_signal_config \<Rightarrow> federation_server \<Rightarrow> bool" where
  "served_by E p v \<longleftrightarrow>
     (let base = peerBaseURL (sx_parse_url E) (psc_endpoint p);
          hash = ''/v1/federation/revocation-hash''; export = ''/v1/federation/revocation-export''
      in sx_request_ok E (base @ hash) \<and> sx_request_ok E (base @ export)
       \<and> sx_get E (base @ hash) = Some (reply_of (handleFederationRevocationHash v (bare_get hash) new_writer))
       \<and> sx_get E (base @ export) = Some (reply_of (handleFederationRevocationExport v (bare_get export) new_writer)))"

lemma writeJSON_reply [simp]: "reply_of (writeJSON encode st j new_writer) = (st, Some (encode j))"
  by (simp add: reply_of_def writeJSON_def new_writer_def rw_write_def rw_write_header_def rw_set_header_def Let_def)

lemma raw_reply [simp]:
  "reply_of (rw_write data (rw_write_header 200 (rw_set_header k x new_writer))) = (200, Some data)"
  by (simp add: reply_of_def new_writer_def rw_write_def rw_write_header_def rw_set_header_def Let_def)

section \<open>Guarantees\<close>


text \<open>A server with one permanent revocation, encoding only the hash of an answer.\<close>

fun demo_encode :: "json \<Rightarrow> string" where
  "demo_encode (JObj ((k, JStr h) # _)) = h"
| "demo_encode _ = ''''"

definition demo_server :: "string \<Rightarrow> federation_server" where
  "demo_server secret = \<lparr>fv_index = Some [(''a'', demo_entry ''a'' 0)], fv_secret = secret,
     fv_codec = demo_codec, fv_encode = demo_encode, fv_now = 5, fv_timestamp = ''t''\<rparr>"

definition demo_sync_env :: "federation_server \<Rightarrow> sync_env" where
  "demo_sync_env v = \<lparr>sx_cleanup_now = 4, sx_now = 4, sx_parse_url = (\<lambda>u. None), sx_request_ok = (\<lambda>u. True),
     sx_get = (\<lambda>u. Some (reply_of (if u = ''https://b/v1/federation/revocation-hash''
        then handleFederationRevocationHash v (bare_get ''/v1/federation/revocation-hash'') new_writer
        else handleFederationRevocationExport v (bare_get ''/v1/federation/revocation-export'') new_writer))),
     sx_decode_hash = Some, sx_codec = demo_codec\<rparr>"

lemma demo_served: "served_by (demo_sync_env v) (demo_peer ''b'') v"
  by (simp add: served_by_def Let_def demo_sync_env_def demo_peer_def peerBaseURL_def)


text \<open>
  Where the peer protects its endpoints with a shared secret, reconciliation cannot work:
  the syncer sends no credential, the peer answers 401, and every cycle ends with that error
  and imports nothing.
\<close>

theorem secret_blocks_sync:
  assumes "served_by E p v" and "fv_secret v \<noteq> ''''"
  shows "fst (syncWithPeer E p s) = Some (HashStatus 401)
    \<and> sy_index (snd (syncWithPeer E p s)) = snd (Revocation_Cleanup (sx_cleanup_now E) (sy_index s))"
proof -
  have "header_get (bare_get path) name = ''''" for path name
    by (simp add: header_get_def header_values_def bare_get_def)
  then have "fetch_hash E (peerBaseURL (sx_parse_url E) (psc_endpoint p) @ ''/v1/federation/revocation-hash'') =
      Inl (HashStatus 401)"
    using assms by (simp add: fetch_hash_def served_by_def Let_def handleFederationRevocationHash_def
        requireFederationPeerAuth_def has_prefix_def)
  then show ?thesis by (simp add: syncWithPeer_def Let_def)
qed

theorem secret_blocks_sync_witness:
  "fst (syncWithPeer (demo_sync_env (demo_server ''s'')) (demo_peer ''b'') (NewSyncer [demo_peer ''b''] []))
     = Some (HashStatus 401)"
  using secret_blocks_sync [OF demo_served, of "demo_server ''s''"] by (simp add: demo_server_def)

text \<open>
  Reconciliation does not make indexes agree. Once two fabrics hold different live entries
  for a subject, which is the normal case after a relayed revocation, since the receiver
  stores its own reason and time, no number of cycles on either side changes either entry
  while they are live; the lists that the two hashes are taken of stay different, so every
  cycle fetches the full export again.
\<close>

theorem sync_never_agrees:
  assumes "revocation_ok (sy_index a)" and "revocation_ok (sy_index b)"
    and "map_of (sy_index a) k = Some x" and "map_of (sy_index b) k = Some y" and "x \<noteq> y"
    and "\<forall>(E, p) \<in> set xs. \<not> entry_expired (sx_cleanup_now E) x"
    and "\<forall>(E, p) \<in> set ys. \<not> entry_expired (sx_cleanup_now E) y"
  shows "map_of (sy_index (sync_all xs a)) k = Some x \<and> map_of (sy_index (sync_all ys b)) k = Some y
    \<and> sort_key re_subject_id (map snd (sy_index (sync_all xs a)))
      \<noteq> sort_key re_subject_id (map snd (sy_index (sync_all ys b)))"
proof -
  have x: "revocation_ok (sy_index (sync_all xs a))" "map_of (sy_index (sync_all xs a)) k = Some x"
    using sync_all_keeps_entry [OF assms(1,3,6)] by auto
  have y: "revocation_ok (sy_index (sync_all ys b))" "map_of (sy_index (sync_all ys b)) k = Some y"
    using sync_all_keeps_entry [OF assms(2,4,7)] by auto
  show ?thesis using different_entries_hashed [OF x(1) y(1) x(2) y(2) assms(5)] x y by blast
qed

theorem sync_never_agrees_witness:
  "map_of (sy_index (sync_all [(demo_sync_env (demo_server ''''), demo_peer ''b'')]
     (NewSyncer [demo_peer ''b''] [(''a'', demo_entry ''a'' 9)]))) ''a'' = Some (demo_entry ''a'' 9)"
proof -
  let ?a = "NewSyncer [demo_peer ''b''] [(''a'', demo_entry ''a'' 9)]"
  let ?b = "NewSyncer [] [(''a'', demo_entry ''a'' 0)]"
  have "sy_index ?a = [(''a'', demo_entry ''a'' 9)]" "sy_index ?b = [(''a'', demo_entry ''a'' 0)]"
    by (simp_all add: NewSyncer_def Let_def)
  then have "revocation_ok (sy_index ?a)" "revocation_ok (sy_index ?b)"
    "map_of (sy_index ?a) ''a'' = Some (demo_entry ''a'' 9)"
    "map_of (sy_index ?b) ''a'' = Some (demo_entry ''a'' 0)" "demo_entry ''a'' 9 \<noteq> demo_entry ''a'' 0"
    "\<forall>(E, p) \<in> set [(demo_sync_env (demo_server ''''), demo_peer ''b'')].
       \<not> entry_expired (sx_cleanup_now E) (demo_entry ''a'' 9)"
    "\<forall>(E, p) \<in> set ([] :: (sync_env \<times> peer_signal_config) list).
       \<not> entry_expired (sx_cleanup_now E) (demo_entry ''a'' 0)"
    by (simp_all add: revocation_ok_def gomap_wf_def demo_entry_def demo_sync_env_def entry_expired_def
        time_after_def)
  from sync_never_agrees [OF this] show ?thesis by blast
qed

end
