(* ===== verification/Sync_Bus.thy ===== *)
theory Sync_Bus
  imports Core_Types
begin

text \<open>
  \<open>src/pkg/sync/nats.go\<close> and \<open>subjects.go\<close>: the signal bus of a cluster. NATS and JSON are
  parameters (\<open>bus_env\<close>): whether a publication is accepted, and whether a filter matches a
  subject. A stream is the list of its messages, oldest first; connecting and draining are
  left out.
\<close>

section \<open>Signal types\<close>

definition SignalIdentityMinted :: string where "SignalIdentityMinted = ''identity.minted''"
definition SignalIdentityRevoked :: string where "SignalIdentityRevoked = ''identity.revoked''"
definition SignalIdentityExpired :: string where "SignalIdentityExpired = ''identity.expired''"
definition SignalFabricRotation :: string where "SignalFabricRotation = ''fabric.rotation''"
definition SignalFabricSoul :: string where "SignalFabricSoul = ''fabric.soul''"
definition SignalFabricSOS :: string where "SignalFabricSOS = ''fabric.sos''"
definition SignalFabricHealth :: string where "SignalFabricHealth = ''fabric.health''"
definition SignalPolicyUpdated :: string where "SignalPolicyUpdated = ''policy.updated''"
definition SignalCAEPSessionRevoked :: string where "SignalCAEPSessionRevoked = ''caep.session_revoked''"
definition SignalCAEPCredentialChange :: string where "SignalCAEPCredentialChange = ''caep.credential_change''"
definition SignalCAEPTokenClaimsChange :: string where "SignalCAEPTokenClaimsChange = ''caep.token_claims_change''"

section \<open>The bus\<close>

record bus =
  bs_unit_id :: string
  bs_trust_domain :: string

record bus_message =
  bm_subject :: string
  bm_data :: string
  bm_time :: go_time

record bus_env =
  bx_marshal :: "signal \<Rightarrow> string option"
  bx_unmarshal :: "string \<Rightarrow> signal option"
  bx_publish :: "string \<Rightarrow> string \<Rightarrow> bool"
  bx_now :: go_time
  bx_match :: "string \<Rightarrow> string \<Rightarrow> bool"

datatype bus_error = MarshalingSignal | PublishingSignal string

definition subjectPrefix :: string where
  "subjectPrefix = ''starfly''"

text \<open>The signal is changed in place: the source is stamped and a missing time filled in.\<close>

definition stamp_signal :: "bus_env \<Rightarrow> bus \<Rightarrow> signal \<Rightarrow> signal" where
  "stamp_signal E b sig =
     sig\<lparr>sg_source := bs_unit_id b,
         sg_timestamp := (if time_is_zero (sg_timestamp sig) then bx_now E else sg_timestamp sig)\<rparr>"

definition Flash :: "bus_env \<Rightarrow> bus \<Rightarrow> signal \<Rightarrow> bus_message list \<Rightarrow> bus_error option \<times> bus_message list" where
  "Flash E b sig0 stream =
     (let sig = stamp_signal E b sig0
      in case bx_marshal E sig of
           None \<Rightarrow> (Some MarshalingSignal, stream)
         | Some data \<Rightarrow>
             let subject = subjectPrefix @ ''.'' @ bs_trust_domain b @ ''.'' @ sg_type sig
             in if bx_publish E subject data
                then (None, stream @ [\<lparr>bm_subject = subject, bm_data = data, bm_time = bx_now E\<rparr>])
                else (Some (PublishingSignal subject), stream))"

definition signalSubject :: "bus \<Rightarrow> string \<Rightarrow> string" where
  "signalSubject b signalType =
     (let domain = (if bs_trust_domain b = '''' then ''*'' else bs_trust_domain b)
      in if signalType = ''>'' then subjectPrefix @ ''.'' @ domain @ ''.>''
         else subjectPrefix @ ''.'' @ domain @ ''.'' @ signalType)"

definition replaySubject :: "bus \<Rightarrow> string" where
  "replaySubject b =
     (if bs_trust_domain b = '''' then subjectPrefix @ ''.>''
      else subjectPrefix @ ''.'' @ bs_trust_domain b @ ''.>'')"

datatype verdict = Ack | Nak

text \<open>One round of \<open>consumeLoop\<close>; the handler changes a state of its own.\<close>

definition consume_message ::
  "bus_env \<Rightarrow> bus \<Rightarrow> (signal \<Rightarrow> 's \<Rightarrow> 'e option \<times> 's) \<Rightarrow> string \<Rightarrow> 's \<Rightarrow> verdict \<times> 's" where
  "consume_message E b handler data st =
     (case bx_unmarshal E data of
        None \<Rightarrow> (Nak, st)
      | Some sig \<Rightarrow>
          if sg_source sig = bs_unit_id b then (Ack, st)
          else case handler sig st of
            (Some _, st') \<Rightarrow> (Nak, st')
          | (None, st') \<Rightarrow> (Ack, st'))"

text \<open>A subscription sees the new messages that match its subject, in order.\<close>

fun consumeLoop ::
  "bus_env \<Rightarrow> bus \<Rightarrow> string \<Rightarrow> (signal \<Rightarrow> 's \<Rightarrow> 'e option \<times> 's) \<Rightarrow> bus_message list \<Rightarrow> 's \<Rightarrow> 's" where
  "consumeLoop E b subject handler [] st = st"
| "consumeLoop E b subject handler (m # ms) st =
     consumeLoop E b subject handler ms
       (if bx_match E subject (bm_subject m) then snd (consume_message E b handler (bm_data m) st) else st)"

definition Replay :: "bus_env \<Rightarrow> bus \<Rightarrow> go_time \<Rightarrow> bus_message list \<Rightarrow> signal list" where
  "Replay E b since stream =
     List.map_filter (\<lambda>m. bx_unmarshal E (bm_data m))
       (filter (\<lambda>m. bx_match E (replaySubject b) (bm_subject m) \<and> since \<le> bm_time m) stream)"

section \<open>Delivery\<close>

text \<open>
  What the properties assume of NATS and JSON: a subject without wildcards matches itself
  only, and decoding inverts encoding.
\<close>

definition literal_subject :: "string \<Rightarrow> bool" where
  "literal_subject s \<longleftrightarrow> CHR ''*'' \<notin> set s \<and> CHR ''>'' \<notin> set s"

definition nats_ok :: "bus_env \<Rightarrow> bool" where
  "nats_ok E \<longleftrightarrow> (\<forall>f s. literal_subject f \<longrightarrow> bx_match E f s = (f = s))
     \<and> (\<forall>sig data. bx_marshal E sig = Some data \<longrightarrow> bx_unmarshal E data = Some sig)"

fun flash_all :: "bus_env \<Rightarrow> (bus \<times> signal) list \<Rightarrow> bus_message list \<Rightarrow> bus_message list" where
  "flash_all E [] stream = stream"
| "flash_all E ((b, sig) # xs) stream = flash_all E xs (snd (Flash E b sig stream))"

lemma flash_all_append: "\<exists>ms. flash_all E xs stream = stream @ ms \<and> flash_all E xs [] = ms"
proof (induction xs arbitrary: stream)
  case (Cons x xs)
  obtain b sig where x: "x = (b, sig)" by fastforce
  obtain ms where ms: "snd (Flash E b sig st) = st @ ms" for st
  proof
    show "snd (Flash E b sig st) = st @ snd (Flash E b sig [])" for st
      by (simp add: Flash_def Let_def split: option.split)
  qed
  show ?case using Cons.IH [of "stream @ ms"] Cons.IH [of ms] ms by (auto simp: x)
qed simp

text \<open>
  The signals of a run that a subscriber is handed: those published under its subject by other
  units, stamped with their source.
\<close>

definition published :: "bus_env \<Rightarrow> bus \<Rightarrow> signal \<Rightarrow> string \<Rightarrow> bool" where
  "published E b sig subject \<longleftrightarrow>
     (case bx_marshal E (stamp_signal E b sig) of
        None \<Rightarrow> False
      | Some data \<Rightarrow> subject = subjectPrefix @ ''.'' @ bs_trust_domain b @ ''.'' @ sg_type sig
          \<and> bx_publish E subject data)"

definition heard :: "bus_env \<Rightarrow> bus \<Rightarrow> string \<Rightarrow> (bus \<times> signal) list \<Rightarrow> signal list" where
  "heard E me ty xs =
     map (\<lambda>(b, sig). stamp_signal E b sig)
       (filter (\<lambda>(b, sig). bs_unit_id b \<noteq> bs_unit_id me \<and> published E b sig (signalSubject me ty)) xs)"

lemma consumeLoop_append:
  "consumeLoop E b f h (ms @ ns) st = consumeLoop E b f h ns (consumeLoop E b f h ms st)"
  by (induction ms arbitrary: st) simp_all

lemma stamp_signal_sel [simp]:
  "sg_source (stamp_signal E b sig) = bs_unit_id b" "sg_type (stamp_signal E b sig) = sg_type sig"
  "sg_payload (stamp_signal E b sig) = sg_payload sig"
  by (simp_all add: stamp_signal_def)

lemma consume_flash:
  assumes "nats_ok E" and "literal_subject (signalSubject me ty)"
  shows "consumeLoop E me (signalSubject me ty) h (snd (Flash E b sig [])) st =
    fold (\<lambda>x st. snd (h x st)) (heard E me ty [(b, sig)]) st"
  using assms
  by (auto simp: Flash_def Let_def nats_ok_def heard_def published_def consume_message_def
      split: option.split prod.split)

lemma bus_delivers_run:
  assumes "nats_ok E" and "literal_subject (signalSubject me ty)"
  shows "consumeLoop E me (signalSubject me ty) handler (flash_all E xs []) st =
    fold (\<lambda>sig st. snd (handler sig st)) (heard E me ty xs) st"
proof (induction xs arbitrary: st)
  case (Cons x xs)
  obtain b sig where x: "x = (b, sig)" by fastforce
  obtain ms where ms: "flash_all E xs (snd (Flash E b sig [])) = snd (Flash E b sig []) @ ms"
    "flash_all E xs [] = ms"
    using flash_all_append by blast
  have "heard E me ty (x # xs) = heard E me ty [(b, sig)] @ heard E me ty xs"
    by (simp add: x heard_def)
  then show ?case
    using Cons.IH ms consume_flash [OF assms, of handler b sig st] by (simp add: x consumeLoop_append)
qed (simp add: heard_def)

text \<open>
  The bus hands a subscriber exactly the signals of its subject that other units of the
  cluster published, each once, in the order of publication, with the source stamped by the
  publisher's bus; its own signals are skipped. It is assumed that NATS delivers a subject
  without wildcards to equal subjects only, and that JSON decoding inverts encoding.
\<close>

theorem bus_delivers:
  assumes "nats_ok E" and "literal_subject (signalSubject me ty)"
  shows "consumeLoop E me (signalSubject me ty) handler (flash_all E xs []) st =
    fold (\<lambda>sig st. snd (handler sig st)) (heard E me ty xs) st"
  using assms by (rule bus_delivers_run)

definition demo_flashed :: signal where
  "demo_flashed = \<lparr>sg_type = SignalIdentityRevoked, sg_source = ''u1'', sg_timestamp = 3,
     sg_payload = [(''subject_id'', JStr ''w''), (''event_jti'', JStr ''j'')]\<rparr>"

text \<open>An environment that can encode one signal.\<close>

definition demo_bus_env :: bus_env where
  "demo_bus_env = \<lparr>bx_marshal = (\<lambda>s. if s = demo_flashed then Some ''S'' else None),
     bx_unmarshal = (\<lambda>d. if d = ''S'' then Some demo_flashed else None), bx_publish = (\<lambda>s d. True),
     bx_now = 3, bx_match = (=)\<rparr>"

definition demo_bus :: "string \<Rightarrow> bus" where
  "demo_bus u = \<lparr>bs_unit_id = u, bs_trust_domain = ''td''\<rparr>"

lemma demo_nats: "nats_ok demo_bus_env" "literal_subject (signalSubject (demo_bus u) SignalIdentityRevoked)"
  by (auto simp: nats_ok_def demo_bus_env_def literal_subject_def signalSubject_def demo_bus_def
      SignalIdentityRevoked_def subjectPrefix_def Let_def split: if_splits)

theorem bus_delivers_witness:
  "consumeLoop demo_bus_env (demo_bus ''u2'') (signalSubject (demo_bus ''u2'') SignalIdentityRevoked)
     (\<lambda>sig st. (None :: unit option, st @ [sig]))
     (flash_all demo_bus_env [(demo_bus ''u1'', demo_flashed), (demo_bus ''u2'', demo_flashed)] []) [] =
   [demo_flashed]"
proof -
  have "heard demo_bus_env (demo_bus ''u2'') SignalIdentityRevoked
      [(demo_bus ''u1'', demo_flashed), (demo_bus ''u2'', demo_flashed)] = [demo_flashed]" by code_simp
  with bus_delivers [OF demo_nats, of "''u2''" "\<lambda>sig st. (None :: unit option, st @ [sig])"
      "[(demo_bus ''u1'', demo_flashed), (demo_bus ''u2'', demo_flashed)]" "[]"]
  show ?thesis by simp
qed

end
