(* ===== verification/Federation_Gateway.thy ===== *)
theory Federation_Gateway
  imports Federation_Sync Sync_Bus Signals_Guarantees
begin

text \<open>
  \<open>src/pkg/federation/composite.go\<close>: relay, inbound handler and syncer as one gateway, and the
  bridge that relays revocations seen on the local bus. The guarantees follow a revocation
  through the bus, the bridge and the relay, and say which signals never take that way.
\<close>

section \<open>The composite\<close>

record 'c composite_gateway =
  cg_relay :: "'c relay option"
  cg_inbound :: "inbound_handler option"
  cg_syncer :: "syncer option"
  cg_subscribed :: bool

datatype gateway_error =
    RelayNil
  | InboundNil
  | SyncerNil
  | UnknownPeer string
  | BusNil
  | AlreadySubscribed
  | Subscribing string
  | GatewayInbound inbound_error
  | GatewaySync sync_error

definition NewCompositeGateway ::
  "'c relay option \<Rightarrow> inbound_handler option \<Rightarrow> syncer option \<Rightarrow> 'c composite_gateway" where
  "NewCompositeGateway relay inbound syncer =
     \<lparr>cg_relay = relay, cg_inbound = inbound, cg_syncer = syncer, cg_subscribed = False\<rparr>"

definition Gateway_RelayRevocation ::
  "'c relay_env \<Rightarrow> revocation_signal \<Rightarrow> 'c composite_gateway
   \<Rightarrow> gateway_error option \<times> (string \<times> relay_error option) list \<times> 'c composite_gateway" where
  "Gateway_RelayRevocation E sig g =
     (case cg_relay g of
        None \<Rightarrow> (Some RelayNil, [], g)
      | Some r \<Rightarrow> let (sent, r') = RelayRevocation E sig r in (None, sent, g\<lparr>cg_relay := Some r'\<rparr>))"

definition Gateway_ReceiveRevocation ::
  "inbound_clock \<Rightarrow> revocation_signal \<Rightarrow> 'c composite_gateway
   \<Rightarrow> gateway_error option \<times> 'c composite_gateway" where
  "Gateway_ReceiveRevocation ck sig g =
     (case cg_inbound g of
        None \<Rightarrow> (Some InboundNil, g)
      | Some h \<Rightarrow> let (err, h') = ReceiveRevocation ck sig h
                  in (map_option GatewayInbound err, g\<lparr>cg_inbound := Some h'\<rparr>))"

definition SyncState ::
  "sync_env \<Rightarrow> string \<Rightarrow> 'c composite_gateway \<Rightarrow> gateway_error option \<times> 'c composite_gateway" where
  "SyncState E peerID g =
     (case cg_syncer g of
        None \<Rightarrow> (Some SyncerNil, g)
      | Some s \<Rightarrow>
          case find (\<lambda>p. psc_fabric_id p = peerID) (sy_peers s) of
            None \<Rightarrow> (Some (UnknownPeer peerID), g)
          | Some p \<Rightarrow> let (err, s') = syncWithPeer E p s
                      in (map_option GatewaySync err, g\<lparr>cg_syncer := Some s'\<rparr>))"

text \<open>\<open>State\<close>: the relay's view, overlaid with the counts received and the peers' hashes.\<close>

fun overlay_inbound :: "peer_signal_states \<Rightarrow> peer_signal_states \<Rightarrow> peer_signal_states" where
  "overlay_inbound [] m = m"
| "overlay_inbound ((fid, st) # sts) m =
     overlay_inbound sts
       (case map_of m fid of
          Some ex \<Rightarrow> AList.update fid (ex\<lparr>pss_received_count := pss_received_count st,
                                         pss_last_received := pss_last_received st\<rparr>) m
        | None \<Rightarrow> AList.update fid st m)"

fun overlay_hashes :: "(string, sync_peer_state) gomap \<Rightarrow> peer_signal_states \<Rightarrow> peer_signal_states" where
  "overlay_hashes [] m = m"
| "overlay_hashes ((fid, st) # sts) m =
     overlay_hashes sts
       (case map_of m fid of
          Some ex \<Rightarrow> AList.update fid (ex\<lparr>pss_revocation_hash := yp_peer_hash st\<rparr>) m
        | None \<Rightarrow> m)"

definition Gateway_State :: "go_time \<Rightarrow> 'c composite_gateway \<Rightarrow> gateway_state" where
  "Gateway_State now g =
     (let m0 = (case cg_relay g of None \<Rightarrow> [] | Some r \<Rightarrow> rl_peer_states r);
          m1 = (case cg_inbound g of None \<Rightarrow> m0 | Some h \<Rightarrow> overlay_inbound (Inbound_State h) m0);
          m2 = (case cg_syncer g of None \<Rightarrow> m1 | Some s \<Rightarrow> overlay_hashes (Syncer_State s) m1)
      in \<lparr>gs_peers = m2, gs_updated_at = now\<rparr>)"

section \<open>The bridge\<close>

definition revocationSignalTypes :: "string list" where
  "revocationSignalTypes = [SignalIdentityRevoked, SignalCAEPSessionRevoked]"



text \<open>Subscribing returns the types for which a handler was registered.\<close>

fun subscribe_types :: "(string \<Rightarrow> bool) \<Rightarrow> string list \<Rightarrow> string list \<Rightarrow> gateway_error option \<times> string list" where
  "subscribe_types ok [] subs = (None, subs)"
| "subscribe_types ok (ty # tys) subs =
     (if ok ty then subscribe_types ok tys (subs @ [ty]) else (Some (Subscribing ty), subs))"

definition SubscribeToSyncBus ::
  "(string \<Rightarrow> bool) option \<Rightarrow> 'c composite_gateway \<Rightarrow> gateway_error option \<times> string list \<times> 'c composite_gateway" where
  "SubscribeToSyncBus bus g =
     (if cg_relay g = None then (Some RelayNil, [], g)
      else case bus of
        None \<Rightarrow> (Some BusNil, [], g)
      | Some ok \<Rightarrow>
          if cg_subscribed g then (Some AlreadySubscribed, [], g)
          else case subscribe_types ok revocationSignalTypes [] of
            (Some e, subs) \<Rightarrow> (Some e, subs, g)
          | (None, subs) \<Rightarrow> (None, subs, g\<lparr>cg_subscribed := True\<rparr>))"

section \<open>From the bus to the peers\<close>



lemma clientForPeer_admit [simp]: "clientForPeer (snd (relay_admit j r)) fid = clientForPeer r fid"
  by (simp add: clientForPeer_def relay_admit_eq case_prod_beta split: option.split)

lemma relayToPeer_admit [simp]: "relayToPeer E (snd (relay_admit j r)) p s = relayToPeer E r p s"
  by (simp add: relayToPeer_def split: option.split)





section \<open>What the bridge never hears\<close>

lemma heard_Nil:
  assumes "last (sg_type sig) \<noteq> last ty" and "sg_type sig \<noteq> ''''" and "ty \<noteq> ''''" and "ty \<noteq> ''>''"
  shows "heard E me ty [(b, sig)] = []"
proof -
  have "last (subjectPrefix @ ''.'' @ bs_trust_domain b @ ''.'' @ sg_type sig) = last (sg_type sig)"
    using assms(2) by (simp add: last_append)
  moreover have "last (signalSubject me ty) = last ty"
    using assms(3,4) by (simp add: signalSubject_def Let_def last_append)
  ultimately have "signalSubject me ty \<noteq> subjectPrefix @ ''.'' @ bs_trust_domain b @ ''.'' @ sg_type sig"
    using assms(1) by metis
  then show ?thesis by (auto simp: heard_def published_def split: option.split)
qed

lemma heard_append: "heard E me ty (xs @ ys) = heard E me ty xs @ heard E me ty ys"
  by (simp add: heard_def)

lemma unheard:
  assumes "\<forall>sig \<in> set sigs. sg_type sig \<in> {''caep_signal'', ''federation.revocation''}"
    and "ty \<in> set revocationSignalTypes"
  shows "heard E me ty (map (Pair b) sigs) = []"
  using assms
proof (induction sigs)
  case (Cons sig sigs)
  have "heard E me ty [(b, sig)] = []"
    by (rule heard_Nil) (use Cons.prems in \<open>auto simp: revocationSignalTypes_def
        SignalIdentityRevoked_def SignalCAEPSessionRevoked_def\<close>)
  with Cons heard_append [of E me ty "[(b, sig)]" "map (Pair b) sigs"] show ?case by simp
qed (simp add: heard_def)

text \<open>What the bridge of a unit hears of the signals that another unit flashed, by type.\<close>

definition bridge_hears :: "bus_env \<Rightarrow> bus \<Rightarrow> bus \<Rightarrow> signal list \<Rightarrow> signal list list" where
  "bridge_hears E me b sigs = map (\<lambda>ty. heard E me ty (map (Pair b) sigs)) revocationSignalTypes"

lemma bridge_hears_append [simp]:
  "sg_type sig \<in> {''caep_signal'', ''federation.revocation''} \<Longrightarrow>
   bridge_hears E me b (sigs @ [sig]) = bridge_hears E me b sigs"
  using unheard [of "[sig]"] by (auto simp: bridge_hears_def heard_append)

lemma keeps_signals [keeps_rules]:
  "keeps rc_signals (rx_log rx ty act sub tgt dec rsn)" "keeps rc_signals (rx_notify rx event)"
  by (auto simp: rx_log_def rx_notify_def intro!: keeps_rules keeps_smodify split: list.split)

lemma keeps_signals_revocation [keeps_rules]: "keeps rc_signals (handleRevocation rx ck event)"
  by (auto simp: handleRevocation_def Let_def rx_log_def stage_simps
      intro!: keepsI keeps_rules split: prod.split option.split)

lemma keeps_signals_policy [keeps_rules]: "keeps rc_signals (rx_policy_stage rx ck event)"
  by (auto simp: rx_policy_stage_def intro!: keeps_rules split: option.split sum.split)

lemma keeps_comp: "keeps f m \<Longrightarrow> keeps (\<lambda>s. g (f s)) m"
  by (simp add: keeps_def)

lemma ReceiveEvent_unheard:
  "keeps (\<lambda>s. bridge_hears E me b (rc_signals s)) (ReceiveEvent rx ck evt)"
proof -
  let ?obs = "\<lambda>s. bridge_hears E me b (rc_signals s)"
  have "keeps ?obs (rx_propagate rx ev)" for ev
    by (auto simp: rx_propagate_def intro!: keeps_rules keeps_smodify split: option.split)
  moreover have "keeps ?obs (rx_policy_stage rx ck ev)" "keeps ?obs (rx_notify rx ev)" for ev
    by (rule keeps_comp [OF keeps_signals_policy], rule keeps_comp [OF keeps_signals(2)])
  moreover have "keeps ?obs (rx_log rx t a s d e f)" for t a s d e f
    by (rule keeps_comp [OF keeps_signals(1)])
  moreover have "keeps ?obs (\<lambda>s. case checkAndMarkJTI ttl now j s of
      (Some err, s') \<Rightarrow> (Inl err, s') | (None, s') \<Rightarrow> (Inr (), s'))" for ttl now j
    by (rule keepsI) (simp add: checkAndMarkJTI_def Let_def split: option.split)
  ultimately show ?thesis
    by (auto simp: ReceiveEvent_def intro!: keeps_sbind keeps_sfail split: option.split)
qed

lemma TransmitEvent_unheard:
  "keeps (\<lambda>s. bridge_hears E me b (tx_signals s)) (TransmitEvent S bytes now sn tx ev)"
  by (auto simp: TransmitEvent_def Let_def tx_log_def intro!: keeps_rules keeps_smodify
      split: option.split)

lemma ReceiveRevocation_unheard:
  "bridge_hears E me b (ih_flashed (snd (ReceiveRevocation ck s h))) = bridge_hears E me b (ih_flashed h)"
  by (cases rule: ReceiveRevocation_cases [of ck s h]) (simp_all add: inbound_flash_def)

text \<open>
  What the units flash when they receive a security event, transmit one, or apply a
  revocation from a peer never reaches the bridge of any unit: none of these signals is of
  a type the gateway subscribes to. A revocation from a peer is therefore never relayed on,
  so no relay loops arise; but a revocation caused by a security event is not relayed either.
\<close>

theorem local_revocations_not_bridged:
  "bridge_hears E me b (rc_signals (snd (ReceiveEvent rx ck evt s))) = bridge_hears E me b (rc_signals s)
   \<and> bridge_hears E me b (tx_signals (snd (TransmitEvent S bytes now sn tx ev t))) =
       bridge_hears E me b (tx_signals t)
   \<and> bridge_hears E me b (ih_flashed (snd (ReceiveRevocation ick sig h))) =
       bridge_hears E me b (ih_flashed h)"
  using ReceiveEvent_unheard [of E me b rx ck evt] TransmitEvent_unheard [of E me b S bytes now sn tx ev]
  by (simp add: keeps_def ReceiveRevocation_unheard)

end
