(* ===== verification/Jwks_Cache.thy ===== *)
theory Jwks_Cache
  imports Core_Types "HOL-Library.Word"
begin

text \<open>
  \<open>src/pkg/jwks/cache.go\<close>: the cache of the issuers' key sets. The HTTP exchange and the JWK
  library are parameters (\<open>jwks_env\<close>), which also say what the clock shows at each reading.
  A key set is the list of its keys, each with its identifier, if it has one, and its exported
  public key, if the export succeeds. The fetches that \<open>Prefetch\<close> starts are run one after the
  other; tracing and the Prometheus collectors are left out.
\<close>

section \<open>Configuration and entries\<close>

definition DefaultTTL :: duration where "DefaultTTL = 5 * go_minute"
definition DefaultGrace :: duration where "DefaultGrace = 30 * go_minute"
definition DefaultMaxIssuers :: int where "DefaultMaxIssuers = 500"
definition DefaultMaxKeysPerIssuer :: int where "DefaultMaxKeysPerIssuer = 20"

record cache_config =
  jc_ttl :: duration
  jc_grace :: duration
  jc_max_issuers :: int
  jc_max_keys_per_issuer :: int

definition withDefaults :: "cache_config \<Rightarrow> cache_config" where
  "withDefaults c =
     c\<lparr>jc_ttl := (if jc_ttl c = 0 then DefaultTTL else jc_ttl c),
       jc_grace := (if jc_grace c = 0 then DefaultGrace else jc_grace c),
       jc_max_issuers := (if jc_max_issuers c = 0 then DefaultMaxIssuers else jc_max_issuers c),
       jc_max_keys_per_issuer :=
         (if jc_max_keys_per_issuer c = 0 then DefaultMaxKeysPerIssuer else jc_max_keys_per_issuer c)\<rparr>"

record 'pub issuer_entry =
  ie_keys :: "(string, 'pub) gomap"
  ie_fetched_at :: go_time
  ie_jwks_url :: string

definition isExpired :: "go_time \<Rightarrow> duration \<Rightarrow> 'pub issuer_entry \<Rightarrow> bool" where
  "isExpired now ttl e \<longleftrightarrow> time_sub now (ie_fetched_at e) > ttl"

definition isWithinGrace :: "go_time \<Rightarrow> duration \<Rightarrow> 'pub issuer_entry \<Rightarrow> bool" where
  "isWithinGrace now grace e \<longleftrightarrow> time_sub now (ie_fetched_at e) \<le> grace"

definition getKey :: "string \<Rightarrow> 'pub issuer_entry \<Rightarrow> 'pub option" where
  "getKey kid e = map_of (ie_keys e) kid"

definition keyCount :: "'pub issuer_entry \<Rightarrow> nat" where
  "keyCount e = length (ie_keys e)"

section \<open>The cache\<close>

text \<open>The counters are 64-bit and wrap.\<close>

record 'pub key_cache =
  ca_cfg :: cache_config
  ca_issuers :: "(string, 'pub issuer_entry) gomap"
  ca_hits :: "64 word"
  ca_misses :: "64 word"
  ca_fetches :: "64 word"
  ca_errors :: "64 word"

definition New :: "cache_config \<Rightarrow> 'pub key_cache" where
  "New cfg = \<lparr>ca_cfg = withDefaults cfg, ca_issuers = [], ca_hits = 0, ca_misses = 0,
     ca_fetches = 0, ca_errors = 0\<rparr>"

type_synonym 'pub key_set = "(string option \<times> 'pub option) list"

record 'pub jwks_env =
  jx_request_ok :: "string \<Rightarrow> bool"
  jx_get :: "string \<Rightarrow> (int \<times> string option) option"
  jx_parse :: "string \<Rightarrow> 'pub key_set option"
  jx_expiry_clock :: go_time
  jx_fetch_clock :: "string \<Rightarrow> go_time"
  jx_grace_clock :: go_time

datatype jwks_error =
    CreatingRequest
  | FetchingJWKS string
  | JWKSStatus int string
  | ReadingJWKS
  | ParsingJWKS
  | ResolvingKey string string jwks_error
  | KidNotFound string string

definition getEntry :: "string \<Rightarrow> 'pub key_cache \<Rightarrow> 'pub issuer_entry option" where
  "getEntry issuer c = map_of (ca_issuers c) issuer"

text \<open>The loop over the key set: keys without identifier or without export are skipped.\<close>

fun index_keys :: "'pub key_set \<Rightarrow> (string, 'pub) gomap \<Rightarrow> (string, 'pub) gomap" where
  "index_keys [] keys = keys"
| "index_keys ((kid, pub) # ks) keys =
     index_keys ks
       (case kid of
          None \<Rightarrow> keys
        | Some k \<Rightarrow>
            if k = '''' then keys
            else case pub of None \<Rightarrow> keys | Some p \<Rightarrow> AList.update k p keys)"

definition fetch_keys :: "'pub jwks_env \<Rightarrow> cache_config \<Rightarrow> string \<Rightarrow> jwks_error + (string, 'pub) gomap" where
  "fetch_keys E cfg jwksURL =
     (if \<not> jx_request_ok E jwksURL then Inl CreatingRequest
      else case jx_get E jwksURL of
        None \<Rightarrow> Inl (FetchingJWKS jwksURL)
      | Some (status, body) \<Rightarrow>
          if status \<noteq> 200 then Inl (JWKSStatus status jwksURL)
          else case body of
            None \<Rightarrow> Inl ReadingJWKS
          | Some b \<Rightarrow>
              case jx_parse E b of
                None \<Rightarrow> Inl ParsingJWKS
              | Some keyset \<Rightarrow> Inr (index_keys (take (nat (jc_max_keys_per_issuer cfg)) keyset) []))"

definition fetchAndCache ::
  "'pub jwks_env \<Rightarrow> string \<Rightarrow> string \<Rightarrow> 'pub key_cache
   \<Rightarrow> (jwks_error + 'pub issuer_entry) \<times> 'pub key_cache" where
  "fetchAndCache E issuer jwksURL c =
     (let c1 = c\<lparr>ca_fetches := ca_fetches c + 1\<rparr>
      in case fetch_keys E (ca_cfg c) jwksURL of
           Inl e \<Rightarrow> (Inl e, c1\<lparr>ca_errors := ca_errors c1 + 1\<rparr>)
         | Inr keys \<Rightarrow>
             let entry = \<lparr>ie_keys = keys, ie_fetched_at = jx_fetch_clock E jwksURL, ie_jwks_url = jwksURL\<rparr>
             in (Inr entry,
                 if int (length (ca_issuers c1)) < jc_max_issuers (ca_cfg c1) \<or> gomap_has (ca_issuers c1) issuer
                 then c1\<lparr>ca_issuers := AList.update issuer entry (ca_issuers c1)\<rparr> else c1))"

definition jwksURLForIssuer :: "string \<Rightarrow> string" where
  "jwksURLForIssuer issuer = issuer @ ''/.well-known/jwks.json''"

definition Cache_ResolveKey ::
  "'pub jwks_env \<Rightarrow> string \<Rightarrow> string \<Rightarrow> 'pub key_cache \<Rightarrow> (jwks_error + 'pub) \<times> 'pub key_cache" where
  "Cache_ResolveKey E issuer kid c =
     (let entry = getEntry issuer c;
          fast = (case entry of
                    None \<Rightarrow> None
                  | Some e \<Rightarrow> if \<not> isExpired (jx_expiry_clock E) (jc_ttl (ca_cfg c)) e then getKey kid e else None)
      in case fast of
           Some key \<Rightarrow> (Inr key, c\<lparr>ca_hits := ca_hits c + 1\<rparr>)
         | None \<Rightarrow>
             case fetchAndCache E issuer (jwksURLForIssuer issuer) (c\<lparr>ca_misses := ca_misses c + 1\<rparr>) of
               (Inl err, c2) \<Rightarrow>
                 (case (case entry of
                          None \<Rightarrow> None
                        | Some e \<Rightarrow> if isWithinGrace (jx_grace_clock E) (jc_grace (ca_cfg c)) e
                                    then getKey kid e else None) of
                    Some key \<Rightarrow> (Inr key, c2\<lparr>ca_hits := ca_hits c2 + 1\<rparr>)
                  | None \<Rightarrow> (Inl (ResolvingKey issuer kid err), c2))
             | (Inr newEntry, c2) \<Rightarrow>
                 (case getKey kid newEntry of
                    Some key \<Rightarrow> (Inr key, c2\<lparr>ca_hits := ca_hits c2 + 1\<rparr>)
                  | None \<Rightarrow> (Inl (KidNotFound kid issuer), c2)))"

fun Cache_Prefetch :: "'pub jwks_env \<Rightarrow> string list \<Rightarrow> 'pub key_cache \<Rightarrow> 'pub key_cache" where
  "Cache_Prefetch E [] c = c"
| "Cache_Prefetch E (issuer # issuers) c =
     (if int (length (ca_issuers c)) \<ge> jc_max_issuers (ca_cfg c) then c
      else Cache_Prefetch E issuers (snd (fetchAndCache E issuer (jwksURLForIssuer issuer) c)))"

record cache_stats =
  cs_hits :: "64 word"
  cs_misses :: "64 word"
  cs_fetches :: "64 word"
  cs_errors :: "64 word"
  cs_cached_keys :: nat
  cs_issuers :: nat

definition Cache_Stats :: "'pub key_cache \<Rightarrow> cache_stats" where
  "Cache_Stats c =
     \<lparr>cs_hits = ca_hits c, cs_misses = ca_misses c, cs_fetches = ca_fetches c, cs_errors = ca_errors c,
      cs_cached_keys = sum_list (map (keyCount \<circ> snd) (ca_issuers c)), cs_issuers = length (ca_issuers c)\<rparr>"

fun refresh_each :: "'pub jwks_env \<Rightarrow> (string \<times> string) list \<Rightarrow> 'pub key_cache \<Rightarrow> 'pub key_cache" where
  "refresh_each E [] c = c"
| "refresh_each E ((issuer, jwksURL) # rs) c = refresh_each E rs (snd (fetchAndCache E issuer jwksURL c))"

definition refreshExpired :: "'pub jwks_env \<Rightarrow> 'pub key_cache \<Rightarrow> 'pub key_cache" where
  "refreshExpired E c =
     refresh_each E
       (map (\<lambda>(issuer, e). (issuer, ie_jwks_url e))
         (filter (\<lambda>(issuer, e). isExpired (jx_expiry_clock E) (jc_ttl (ca_cfg c)) e
                    \<and> isWithinGrace (jx_grace_clock E) (jc_grace (ca_cfg c)) e) (ca_issuers c))) c"

section \<open>The keys of a set\<close>

lemma index_keys_source:
  "map_of (index_keys ks m) k = Some p \<Longrightarrow> map_of m k = Some p \<or> k \<noteq> '''' \<and> (Some k, Some p) \<in> set ks"
  by (induction ks m rule: index_keys.induct) (auto simp: gomap_simps split: option.splits if_splits)

lemma length_gomap_update:
  "length (AList.update k v m) = (if k \<in> fst ` set m then length m else Suc (length m))"
  by (induction m) auto

lemma index_keys_length: "length (index_keys ks m) \<le> length m + length ks"
proof (induction ks m rule: index_keys.induct)
  case (2 kid pub ks keys)
  have "length (AList.update k p keys) \<le> Suc (length keys)" for k p
    by (simp add: length_gomap_update)
  with 2 show ?case by (fastforce split: option.split if_splits intro: le_trans)
qed simp

lemma fetch_keys_source:
  assumes "fetch_keys E cfg url = Inr keys" and "map_of keys kid = Some key"
  shows "kid \<noteq> '''' \<and> (\<exists>body ks. jx_get E url = Some (200, Some body) \<and> jx_parse E body = Some ks
    \<and> (Some kid, Some key) \<in> set ks)"
  using assms index_keys_source [of _ "[]" kid key]
  by (auto simp: fetch_keys_def split: if_splits option.splits prod.splits dest: in_set_takeD)

lemma fetch_keys_bound:
  assumes "fetch_keys E cfg url = Inr keys"
  shows "length keys \<le> nat (jc_max_keys_per_issuer cfg)"
proof -
  obtain ks where "keys = index_keys (take (nat (jc_max_keys_per_issuer cfg)) ks) []"
    using assms by (auto simp: fetch_keys_def split: if_splits option.splits prod.splits)
  then show ?thesis
    using index_keys_length [of "take (nat (jc_max_keys_per_issuer cfg)) ks" "[]"] by simp
qed

section \<open>Runs\<close>

datatype 'pub cache_op =
    Resolve "'pub jwks_env" string string
  | Warm "'pub jwks_env" "string list"
  | Refresh "'pub jwks_env"

primrec op_env :: "'pub cache_op \<Rightarrow> 'pub jwks_env" where
  "op_env (Resolve E issuer kid) = E"
| "op_env (Warm E issuers) = E"
| "op_env (Refresh E) = E"

primrec cache_step :: "'pub cache_op \<Rightarrow> 'pub key_cache \<Rightarrow> 'pub key_cache" where
  "cache_step (Resolve E issuer kid) c = snd (Cache_ResolveKey E issuer kid c)"
| "cache_step (Warm E issuers) c = Cache_Prefetch E issuers c"
| "cache_step (Refresh E) c = refreshExpired E c"

text \<open>
  The invariant: an entry holds what one of the environments seen so far served at the
  issuer's own address, with the time of that fetch.
\<close>

definition entry_from :: "'pub jwks_env \<Rightarrow> cache_config \<Rightarrow> string \<Rightarrow> 'pub issuer_entry \<Rightarrow> bool" where
  "entry_from E cfg issuer e \<longleftrightarrow> ie_jwks_url e = jwksURLForIssuer issuer
     \<and> fetch_keys E cfg (ie_jwks_url e) = Inr (ie_keys e) \<and> ie_fetched_at e = jx_fetch_clock E (ie_jwks_url e)"

definition cache_ok :: "'pub jwks_env set \<Rightarrow> 'pub key_cache \<Rightarrow> bool" where
  "cache_ok Es c \<longleftrightarrow> int (length (ca_issuers c)) \<le> max 0 (jc_max_issuers (ca_cfg c))
     \<and> (\<forall>issuer e. (issuer, e) \<in> set (ca_issuers c) \<longrightarrow> (\<exists>E \<in> Es. entry_from E (ca_cfg c) issuer e))"

lemma cache_ok_mono: "cache_ok Es c \<Longrightarrow> Es \<subseteq> Es' \<Longrightarrow> cache_ok Es' c"
  unfolding cache_ok_def by blast

lemma cache_ok_counters [simp]:
  "cache_ok Es (c\<lparr>ca_hits := h\<rparr>) = cache_ok Es c" "cache_ok Es (c\<lparr>ca_misses := h\<rparr>) = cache_ok Es c"
  by (simp_all add: cache_ok_def)

lemma fetchAndCache_cfg [simp]: "ca_cfg (snd (fetchAndCache E issuer url c)) = ca_cfg c"
  by (simp add: fetchAndCache_def Let_def split: sum.split)

lemma fetchAndCache_entry:
  assumes "fst (fetchAndCache E issuer (jwksURLForIssuer issuer) c) = Inr e"
  shows "entry_from E (ca_cfg c) issuer e"
  using assms by (auto simp: fetchAndCache_def entry_from_def Let_def split: sum.splits)

lemma cache_ok_store:
  assumes "cache_ok Es c" and "E \<in> Es" and "entry_from E (ca_cfg c) issuer e"
    and "int (length (ca_issuers c)) < jc_max_issuers (ca_cfg c) \<or> gomap_has (ca_issuers c) issuer"
  shows "cache_ok Es (c\<lparr>ca_issuers := AList.update issuer e (ca_issuers c)\<rparr>)"
proof -
  have "int (length (AList.update issuer e (ca_issuers c))) \<le> max 0 (jc_max_issuers (ca_cfg c))"
    using assms(1,4) by (auto simp: length_gomap_update cache_ok_def gomap_has_def map_of_eq_None_iff dest: map_of_SomeD)
  with assms(1-3) set_update_subset [of issuer e "ca_issuers c"] show ?thesis
    unfolding cache_ok_def by auto
qed

lemma cache_ok_fetch:
  assumes "cache_ok Es c" and "E \<in> Es" and "url = jwksURLForIssuer issuer"
  shows "cache_ok Es (snd (fetchAndCache E issuer url c))"
proof (cases "fetch_keys E (ca_cfg c) url")
  case (Inl e)
  with assms(1) show ?thesis by (simp add: fetchAndCache_def Let_def cache_ok_def)
next
  case (Inr keys)
  let ?e = "\<lparr>ie_keys = keys, ie_fetched_at = jx_fetch_clock E url, ie_jwks_url = url\<rparr>"
  let ?c = "c\<lparr>ca_fetches := ca_fetches c + 1\<rparr>"
  have "cache_ok Es ?c" using assms(1) by (simp add: cache_ok_def)
  moreover have "entry_from E (ca_cfg ?c) issuer ?e" using Inr assms(3) by (simp add: entry_from_def)
  ultimately show ?thesis
    using Inr cache_ok_store [of Es ?c E issuer ?e] assms(2) by (simp add: fetchAndCache_def Let_def)
qed

lemma cache_ok_Prefetch: "cache_ok Es c \<Longrightarrow> E \<in> Es \<Longrightarrow> cache_ok Es (Cache_Prefetch E issuers c)"
  by (induction E issuers c rule: Cache_Prefetch.induct) (simp_all add: cache_ok_fetch)

lemma cache_ok_refresh_each:
  "cache_ok Es c \<Longrightarrow> E \<in> Es \<Longrightarrow> \<forall>(issuer, url) \<in> set rs. url = jwksURLForIssuer issuer \<Longrightarrow>
   cache_ok Es (refresh_each E rs c)"
  by (induction E rs c rule: refresh_each.induct) (auto simp: cache_ok_fetch)

lemma cache_ok_refreshExpired:
  assumes "cache_ok Es c" and "E \<in> Es"
  shows "cache_ok Es (refreshExpired E c)"
  unfolding refreshExpired_def
  by (rule cache_ok_refresh_each [OF assms]) (use assms(1) in \<open>auto simp: cache_ok_def entry_from_def\<close>)

lemma Cache_ResolveKey_cases:
  obtains (fast) e key where "getEntry issuer c = Some e"
      "\<not> isExpired (jx_expiry_clock E) (jc_ttl (ca_cfg c)) e" "getKey kid e = Some key"
      "Cache_ResolveKey E issuer kid c = (Inr key, c\<lparr>ca_hits := ca_hits c + 1\<rparr>)"
  | (fetched) e c2 where
      "fetchAndCache E issuer (jwksURLForIssuer issuer) (c\<lparr>ca_misses := ca_misses c + 1\<rparr>) = (Inr e, c2)"
      "Cache_ResolveKey E issuer kid c =
         (case getKey kid e of Some key \<Rightarrow> (Inr key, c2\<lparr>ca_hits := ca_hits c2 + 1\<rparr>)
          | None \<Rightarrow> (Inl (KidNotFound kid issuer), c2))"
  | (stale) err c2 e key where
      "fetchAndCache E issuer (jwksURLForIssuer issuer) (c\<lparr>ca_misses := ca_misses c + 1\<rparr>) = (Inl err, c2)"
      "getEntry issuer c = Some e" "isWithinGrace (jx_grace_clock E) (jc_grace (ca_cfg c)) e"
      "getKey kid e = Some key"
      "Cache_ResolveKey E issuer kid c = (Inr key, c2\<lparr>ca_hits := ca_hits c2 + 1\<rparr>)"
  | (failed) err c2 where
      "fetchAndCache E issuer (jwksURLForIssuer issuer) (c\<lparr>ca_misses := ca_misses c + 1\<rparr>) = (Inl err, c2)"
      "Cache_ResolveKey E issuer kid c = (Inl (ResolvingKey issuer kid err), c2)"
proof (cases "case getEntry issuer c of None \<Rightarrow> None | Some e \<Rightarrow>
    if \<not> isExpired (jx_expiry_clock E) (jc_ttl (ca_cfg c)) e then getKey kid e else None")
  case (Some key)
  then show thesis by (auto simp: Cache_ResolveKey_def intro: fast split: option.splits if_splits)
next
  case slow: None
  obtain res c2 where f: "fetchAndCache E issuer (jwksURLForIssuer issuer) (c\<lparr>ca_misses := ca_misses c + 1\<rparr>) = (res, c2)"
    by fastforce
  show thesis
  proof (cases res)
    case (Inr e)
    with f slow show thesis by (intro fetched) (simp_all add: Cache_ResolveKey_def split: option.split)
  next
    case (Inl err)
    note eq = Cache_ResolveKey_def [of E issuer kid c, unfolded Let_def slow f Inl option.case prod.case sum.case]
    show thesis
    proof (cases "case getEntry issuer c of None \<Rightarrow> None | Some e \<Rightarrow>
        if isWithinGrace (jx_grace_clock E) (jc_grace (ca_cfg c)) e then getKey kid e else None")
      case None
      with eq f Inl show thesis by (intro failed) simp_all
    next
      case (Some key)
      with eq f Inl show thesis by (auto intro: stale split: option.splits if_splits)
    qed
  qed
qed

lemma cache_ok_Resolve:
  assumes "cache_ok Es c" and "E \<in> Es"
  shows "cache_ok Es (snd (Cache_ResolveKey E issuer kid c))"
proof -
  have "cache_ok Es (snd (fetchAndCache E issuer (jwksURLForIssuer issuer) (c\<lparr>ca_misses := ca_misses c + 1\<rparr>)))"
    using assms by (intro cache_ok_fetch) simp_all
  then show ?thesis
    using assms(1)
    by (cases rule: Cache_ResolveKey_cases [of issuer c E kid]) (auto split: option.split)
qed

lemma cache_ok_step: "cache_ok Es c \<Longrightarrow> cache_ok (insert (op_env x) Es) (cache_step x c)"
  by (cases x) (auto intro!: cache_ok_Resolve cache_ok_Prefetch cache_ok_refreshExpired intro: cache_ok_mono)

lemma cache_ok_run:
  "cache_ok Es c \<Longrightarrow> cache_ok (Es \<union> set (map op_env ops)) (fold cache_step ops c)"
proof (induction ops arbitrary: c Es)
  case (Cons x ops)
  from Cons.IH [OF cache_ok_step [OF Cons.prems]] show ?case by simp
qed simp

lemma cache_ok_New: "cache_ok {} (New cfg)"
  by (simp add: cache_ok_def New_def)

section \<open>Guarantees\<close>

lemma entry_from_source:
  assumes "entry_from E cfg issuer e" and "getKey kid e = Some key"
  shows "kid \<noteq> '''' \<and> (\<exists>body ks. jx_get E (jwksURLForIssuer issuer) = Some (200, Some body)
    \<and> jx_parse E body = Some ks \<and> (Some kid, Some key) \<in> set ks)"
  using assms fetch_keys_source [of E cfg "jwksURLForIssuer issuer" "ie_keys e" kid key]
  unfolding entry_from_def getKey_def by metis

text \<open>Where a resolved key comes from: a fetch of this call, or an entry young enough.\<close>

lemma Cache_ResolveKey_source:
  assumes "cache_ok Es c" and "fst (Cache_ResolveKey E issuer kid c) = Inr key"
  shows "\<exists>E' e. entry_from E' (ca_cfg c) issuer e \<and> getKey kid e = Some key \<and>
    (E' = E \<or> E' \<in> Es \<and> (time_sub (jx_expiry_clock E) (ie_fetched_at e) \<le> jc_ttl (ca_cfg c)
       \<or> time_sub (jx_grace_clock E) (ie_fetched_at e) \<le> jc_grace (ca_cfg c)
         \<and> (\<exists>err. fetch_keys E (ca_cfg c) (jwksURLForIssuer issuer) = Inl err)))"
proof -
  have cached: "\<exists>E' \<in> Es. entry_from E' (ca_cfg c) issuer e" if "getEntry issuer c = Some e" for e
    using assms(1) that by (auto simp: getEntry_def cache_ok_def dest: map_of_SomeD)
  show ?thesis
  proof (cases rule: Cache_ResolveKey_cases
      [of issuer c E kid, case_names fast fetched stale failed])
    case (fast e k)
    with assms(2) cached [OF fast(1)] show ?thesis by (fastforce simp: isExpired_def)
  next
    case (fetched e c2)
    have "entry_from E (ca_cfg c) issuer e"
      using fetchAndCache_entry [of E issuer "c\<lparr>ca_misses := ca_misses c + 1\<rparr>" e] fetched(1) by simp
    with fetched(2) assms(2) show ?thesis by (auto split: option.splits)
  next
    case (stale err c2 e k)
    have "\<exists>err. fetch_keys E (ca_cfg c) (jwksURLForIssuer issuer) = Inl err"
      using stale(1) by (auto simp: fetchAndCache_def Let_def split: sum.splits)
    with stale assms(2) cached [OF stale(2)] show ?thesis by (fastforce simp: isWithinGrace_def)
  qed (use assms(2) in simp)
qed

lemma cache_cfg_run: "ca_cfg (fold cache_step ops c) = ca_cfg c"
proof (induction ops arbitrary: c)
  case (Cons x ops)
  have "ca_cfg (Cache_Prefetch E issuers c) = ca_cfg c" for E issuers
    by (induction E issuers c rule: Cache_Prefetch.induct) simp_all
  moreover have "ca_cfg (refresh_each E rs c) = ca_cfg c" for E rs
    by (induction E rs c rule: refresh_each.induct) simp_all
  moreover have "ca_cfg (snd (Cache_ResolveKey E issuer kid c)) = ca_cfg c" for E issuer kid
    using fetchAndCache_cfg [of E issuer "jwksURLForIssuer issuer" "c\<lparr>ca_misses := ca_misses c + 1\<rparr>"]
    by (cases rule: Cache_ResolveKey_cases [of issuer c E kid]) (auto split: option.split)
  ultimately have "ca_cfg (cache_step x c) = ca_cfg c" by (cases x) (simp_all add: refreshExpired_def)
  with Cons show ?case by simp
qed simp

text \<open>
  C19. Whatever was resolved, prefetched and refreshed before: a key that the cache returns
  was served at the issuer's own key set address under the requested, non-empty identifier.
  It was served during this very call, or at most one TTL ago, or at most the grace period
  ago and the issuer's key set cannot be had now. A key withdrawn by a reachable issuer is
  thus gone after one TTL.
\<close>

theorem cached_keys_authentic:
  assumes "c = fold cache_step ops (New cfg)"
    and "fst (Cache_ResolveKey E issuer kid c) = Inr key"
  shows "kid \<noteq> '''' \<and> (\<exists>E' body ks. jx_get E' (jwksURLForIssuer issuer) = Some (200, Some body)
    \<and> jx_parse E' body = Some ks \<and> (Some kid, Some key) \<in> set ks
    \<and> (E' = E \<or> E' \<in> op_env ` set ops
        \<and> (time_sub (jx_expiry_clock E) (jx_fetch_clock E' (jwksURLForIssuer issuer)) \<le> jc_ttl (withDefaults cfg)
           \<or> time_sub (jx_grace_clock E) (jx_fetch_clock E' (jwksURLForIssuer issuer)) \<le> jc_grace (withDefaults cfg)
             \<and> (\<exists>err. fetch_keys E (withDefaults cfg) (jwksURLForIssuer issuer) = Inl err))))"
proof -
  have "cache_ok (op_env ` set ops) c"
    unfolding assms(1) using cache_ok_run [OF cache_ok_New, of ops cfg] by simp
  from Cache_ResolveKey_source [OF this assms(2)] obtain E' e where
    e: "entry_from E' (ca_cfg c) issuer e" "getKey kid e = Some key" and
    young: "E' = E \<or> E' \<in> op_env ` set ops
      \<and> (time_sub (jx_expiry_clock E) (ie_fetched_at e) \<le> jc_ttl (ca_cfg c)
         \<or> time_sub (jx_grace_clock E) (ie_fetched_at e) \<le> jc_grace (ca_cfg c)
           \<and> (\<exists>err. fetch_keys E (ca_cfg c) (jwksURLForIssuer issuer) = Inl err))" by blast
  have "ca_cfg c = withDefaults cfg" by (simp add: assms(1) cache_cfg_run) (simp add: New_def)
  moreover have "ie_fetched_at e = jx_fetch_clock E' (jwksURLForIssuer issuer)"
    using e(1) by (simp add: entry_from_def)
  ultimately show ?thesis using entry_from_source [OF e] young by auto
qed

definition demo_jwks_env :: "go_time \<Rightarrow> bool \<Rightarrow> nat jwks_env" where
  "demo_jwks_env now up = \<lparr>jx_request_ok = (\<lambda>u. True),
     jx_get = (\<lambda>u. if up then Some (200, Some ''keys'') else None),
     jx_parse = (\<lambda>b. Some [(None, Some 1), (Some ''a'', Some 2), (Some ''b'', None)]),
     jx_expiry_clock = now, jx_fetch_clock = (\<lambda>u. now), jx_grace_clock = now\<rparr>"

definition demo_cache_config :: cache_config where
  "demo_cache_config = \<lparr>jc_ttl = 0, jc_grace = 0, jc_max_issuers = 0, jc_max_keys_per_issuer = 0\<rparr>"

text \<open>After ten minutes the issuer is down, and the key fetched at first is still served.\<close>

theorem cached_keys_authentic_witness:
  "fst (Cache_ResolveKey (demo_jwks_env (10 * go_minute) False) ''iss'' ''a''
       (fold cache_step [Warm (demo_jwks_env 1 True) [''iss'']] (New demo_cache_config))) = Inr 2
   \<and> (\<exists>(E' :: nat jwks_env) body ks. jx_get E' (jwksURLForIssuer ''iss'') = Some (200, Some body)
       \<and> jx_parse E' body = Some ks \<and> (Some ''a'', Some (2 :: nat)) \<in> set ks)"
proof -
  have res: "fst (Cache_ResolveKey (demo_jwks_env (10 * go_minute) False) ''iss'' ''a''
      (fold cache_step [Warm (demo_jwks_env 1 True) [''iss'']] (New demo_cache_config))) = Inr 2"
    by code_simp
  show ?thesis
    using res cached_keys_authentic [OF refl res] by blast
qed

lemma cache_entries_bounded:
  assumes "cache_ok Es c"
  shows "(issuer, e) \<in> set (ca_issuers c) \<Longrightarrow> keyCount e \<le> nat (jc_max_keys_per_issuer (ca_cfg c))"
  using assms fetch_keys_bound by (fastforce simp: cache_ok_def entry_from_def keyCount_def)

lemma sum_list_bound: "(\<And>x. x \<in> set xs \<Longrightarrow> f x \<le> (b :: nat)) \<Longrightarrow> sum_list (map f xs) \<le> length xs * b"
  by (induction xs) (auto intro: add_mono)

text \<open>
  The size of the cache is bounded in every run, for every configuration: the number of
  issuers by its limit (none at all if the limit is negative), the keys of each by theirs,
  and so the total that the statistics report.
\<close>

theorem cache_bounded:
  fixes cfg :: cache_config and ops :: "'pub cache_op list"
  shows "let st = Cache_Stats (fold cache_step ops (New cfg))
    in cs_issuers st \<le> nat (jc_max_issuers (withDefaults cfg))
       \<and> cs_cached_keys st \<le> cs_issuers st * nat (jc_max_keys_per_issuer (withDefaults cfg))"
proof -
  let ?c = "fold cache_step ops (New cfg) :: 'pub key_cache"
  have ok: "cache_ok (op_env ` set ops) ?c" using cache_ok_run [OF cache_ok_New, of ops cfg] by simp
  have cfg: "ca_cfg ?c = withDefaults cfg" by (simp add: cache_cfg_run) (simp add: New_def)
  have "sum_list (map (keyCount \<circ> snd) (ca_issuers ?c)) \<le>
      length (ca_issuers ?c) * nat (jc_max_keys_per_issuer (withDefaults cfg))"
    by (rule sum_list_bound) (use cache_entries_bounded [OF ok] cfg in fastforce)
  moreover have "length (ca_issuers ?c) \<le> nat (jc_max_issuers (withDefaults cfg))"
    using conjunct1 [OF ok [unfolded cache_ok_def]] unfolding cfg by linarith
  ultimately show ?thesis by (simp add: Cache_Stats_def)
qed

text \<open>
  Key rotation is seen at once: when the issuer serves a key under the requested
  identifier, resolving returns it, or the key cached for the same identifier less than a
  TTL ago; a full cache or an unknown identifier never makes it fail.
\<close>

theorem rotated_key_found:
  assumes "fetch_keys E (ca_cfg c) (jwksURLForIssuer issuer) = Inr keys" and "map_of keys kid = Some key"
  shows "fst (Cache_ResolveKey E issuer kid c) = Inr key
    \<or> (\<exists>e key'. getEntry issuer c = Some e \<and> getKey kid e = Some key'
        \<and> time_sub (jx_expiry_clock E) (ie_fetched_at e) \<le> jc_ttl (ca_cfg c)
        \<and> fst (Cache_ResolveKey E issuer kid c) = Inr key')"
proof (cases rule: Cache_ResolveKey_cases [of issuer c E kid, case_names fast fetched stale failed])
  case (fetched e c2)
  then have "ie_keys e = keys" using assms(1) by (auto simp: fetchAndCache_def Let_def)
  with fetched(2) assms(2) show ?thesis by (simp add: getKey_def)
qed (use assms in \<open>auto simp: isExpired_def fetchAndCache_def Let_def\<close>)

theorem rotated_key_found_witness:
  "fst (Cache_ResolveKey (demo_jwks_env 9 True) ''iss'' ''a'' (New demo_cache_config)) = Inr 2"
proof -
  have "fetch_keys (demo_jwks_env 9 True) (ca_cfg (New demo_cache_config :: nat key_cache)) (jwksURLForIssuer ''iss'')
      = Inr [(''a'', 2)]" by code_simp
  from rotated_key_found [OF this, of "''a''" 2]
  have "fst (Cache_ResolveKey (demo_jwks_env 9 True) ''iss'' ''a'' (New demo_cache_config)) = Inr 2
    \<or> getEntry ''iss'' (New demo_cache_config :: nat key_cache) \<noteq> None" by auto
  then show ?thesis by (simp add: getEntry_def New_def)
qed

end
