(* ===== verification/Federation_Keys.thy ===== *)
theory Federation_Keys
  imports Jwks_Cache Federation_Types Tool_Guarantees
begin

text \<open>
  \<open>src/pkg/federation/resolver.go\<close> and \<open>jwks.go\<close>: the resolver that adds the keys of the
  federated peers to a local one. The local resolver is a parameter, the HTTP exchange and the
  JWK library are those of the key set cache (\<open>jwks_env\<close>). The order of the peers stands for
  the order in which the Go map happens to be walked; the fetches of \<open>Prefetch\<close> and of the
  refresh loops run one after the other.
\<close>

section \<open>Model\<close>

definition maxJWKSResponseSize :: nat where
  "maxJWKSResponseSize = 2 ^ 20"

definition maxKeysPerPeer :: nat where
  "maxKeysPerPeer = 50"

datatype peer_fetch_error =
    PeerRequest
  | PeerFetch string
  | PeerHTTP int
  | PeerReading
  | PeerParsing

definition parseJWKSResponse ::
  "'pub jwks_env \<Rightarrow> string option \<Rightarrow> peer_fetch_error + (string, 'pub) gomap" where
  "parseJWKSResponse E body =
     (case body of
        None \<Rightarrow> Inl PeerReading
      | Some b \<Rightarrow>
          case jx_parse E (take maxJWKSResponseSize b) of
            None \<Rightarrow> Inl PeerParsing
          | Some ks \<Rightarrow> Inr (index_keys (take maxKeysPerPeer ks) []))"

text \<open>The last error is kept as a value; the source keeps its text.\<close>

record 'pub fed_peer =
  fp_config :: peer_config
  fp_keys :: "(string, 'pub) gomap"
  fp_last_seen :: go_time
  fp_last_attempt :: go_time
  fp_last_error :: "peer_fetch_error option"
  fp_fetch_count :: "64 word"
  fp_error_count :: "64 word"

record ('l, 'pub) fed_resolver =
  fr_local :: "'l option"
  fr_peers :: "(string, 'pub fed_peer) gomap"

definition new_peer :: "peer_config \<Rightarrow> 'pub fed_peer" where
  "new_peer pc = \<lparr>fp_config = pc, fp_keys = [], fp_last_seen = 0, fp_last_attempt = 0,
     fp_last_error = None, fp_fetch_count = 0, fp_error_count = 0\<rparr>"

fun add_peers :: "peer_config list \<Rightarrow> (string, 'pub fed_peer) gomap \<Rightarrow> (string, 'pub fed_peer) gomap" where
  "add_peers [] m = m"
| "add_peers (pc0 # pcs) m =
     (let pc = PeerConfig_ApplyDefaults pc0
      in add_peers pcs (AList.update (pc_fabric_id pc) (new_peer pc) m))"

definition NewResolver :: "'l option \<Rightarrow> peer_config list \<Rightarrow> ('l, 'pub) fed_resolver" where
  "NewResolver loc peers = \<lparr>fr_local = loc, fr_peers = add_peers peers []\<rparr>"

definition fetchPeerKeys ::
  "'pub jwks_env \<Rightarrow> go_time \<Rightarrow> 'pub fed_peer \<Rightarrow> peer_fetch_error option \<times> 'pub fed_peer" where
  "fetchPeerKeys E attempt p0 =
     (let p = p0\<lparr>fp_last_attempt := attempt\<rparr>; url = pc_jwks_endpoint (fp_config p);
          failed = (\<lambda>e. (Some e, p\<lparr>fp_error_count := fp_error_count p + 1, fp_last_error := Some e\<rparr>))
      in if \<not> jx_request_ok E url then failed PeerRequest
         else case jx_get E url of
           None \<Rightarrow> failed (PeerFetch url)
         | Some (status, body) \<Rightarrow>
             if status \<noteq> 200 then failed (PeerHTTP status)
             else case parseJWKSResponse E body of
               Inl e \<Rightarrow> failed e
             | Inr keys \<Rightarrow>
                 (None, p\<lparr>fp_keys := keys, fp_last_seen := jx_fetch_clock E url, fp_last_error := None,
                          fp_fetch_count := fp_fetch_count p + 1\<rparr>))"

text \<open>The local resolver: its answer to an issuer and an identifier, and its state afterwards.\<close>

type_synonym ('l, 'e, 'pub) local_resolve = "string \<Rightarrow> string \<Rightarrow> 'l \<Rightarrow> ('e + 'pub) \<times> 'l"

fun find_cached :: "string \<Rightarrow> string \<Rightarrow> (string, 'pub fed_peer) gomap \<Rightarrow> 'pub option" where
  "find_cached issuer kid [] = None"
| "find_cached issuer kid ((_, p) # ps) =
     (if pc_jwks_endpoint (fp_config p) \<noteq> issuer then find_cached issuer kid ps
      else case map_of (fp_keys p) kid of Some key \<Rightarrow> Some key | None \<Rightarrow> find_cached issuer kid ps)"

fun fetch_matching ::
  "'pub jwks_env \<Rightarrow> go_time \<Rightarrow> string \<Rightarrow> string \<Rightarrow> (string, 'pub fed_peer) gomap
   \<Rightarrow> 'pub option \<times> (string, 'pub fed_peer) gomap" where
  "fetch_matching E attempt issuer kid [] = (None, [])"
| "fetch_matching E attempt issuer kid ((fid, p) # ps) =
     (if pc_jwks_endpoint (fp_config p) \<noteq> issuer
      then let (r, ps') = fetch_matching E attempt issuer kid ps in (r, (fid, p) # ps')
      else case fetchPeerKeys E attempt p of
        (Some _, p') \<Rightarrow> let (r, ps') = fetch_matching E attempt issuer kid ps in (r, (fid, p') # ps')
      | (None, p') \<Rightarrow>
          (case map_of (fp_keys p') kid of
             Some key \<Rightarrow> (Some key, (fid, p') # ps)
           | None \<Rightarrow> let (r, ps') = fetch_matching E attempt issuer kid ps in (r, (fid, p') # ps')))"

datatype federation_error = KeyNotFound string string nat

definition Resolver_ResolveKey ::
  "('l, 'e, 'pub) local_resolve \<Rightarrow> 'pub jwks_env \<Rightarrow> go_time \<Rightarrow> string \<Rightarrow> string \<Rightarrow> ('l, 'pub) fed_resolver
   \<Rightarrow> (federation_error + 'pub) \<times> ('l, 'pub) fed_resolver" where
  "Resolver_ResolveKey local_resolve E attempt issuer kid r =
     (let (found, r1) =
            (case fr_local r of
               None \<Rightarrow> (None, r)
             | Some l \<Rightarrow>
                 case local_resolve issuer kid l of
                   (Inr key, l') \<Rightarrow> (Some key, r\<lparr>fr_local := Some l'\<rparr>)
                 | (Inl _, l') \<Rightarrow> (None, r\<lparr>fr_local := Some l'\<rparr>))
      in case found of
           Some key \<Rightarrow> (Inr key, r1)
         | None \<Rightarrow>
             case find_cached issuer kid (fr_peers r1) of
               Some key \<Rightarrow> (Inr key, r1)
             | None \<Rightarrow>
                 let (fetched, ps) = fetch_matching E attempt issuer kid (fr_peers r1);
                     r2 = r1\<lparr>fr_peers := ps\<rparr>
                 in case fetched of
                      Some key \<Rightarrow> (Inr key, r2)
                    | None \<Rightarrow> (Inl (KeyNotFound kid issuer (length (fr_peers r1))), r2))"

definition Resolver_Prefetch ::
  "('l \<Rightarrow> 'l) \<Rightarrow> 'pub jwks_env \<Rightarrow> go_time \<Rightarrow> ('l, 'pub) fed_resolver \<Rightarrow> ('l, 'pub) fed_resolver" where
  "Resolver_Prefetch local_prefetch E attempt r =
     r\<lparr>fr_local := map_option local_prefetch (fr_local r),
       fr_peers := map (\<lambda>(fid, p). (fid, snd (fetchPeerKeys E attempt p))) (fr_peers r)\<rparr>"

text \<open>One round of the refresh loop of a peer.\<close>

definition refresh_peer ::
  "'pub jwks_env \<Rightarrow> go_time \<Rightarrow> string \<Rightarrow> ('l, 'pub) fed_resolver \<Rightarrow> ('l, 'pub) fed_resolver" where
  "refresh_peer E attempt fid r =
     r\<lparr>fr_peers := map (\<lambda>(f, p). (f, if f = fid then snd (fetchPeerKeys E attempt p) else p)) (fr_peers r)\<rparr>"

definition computePeerStatus :: "go_time \<Rightarrow> 'pub fed_peer \<Rightarrow> peer_status" where
  "computePeerStatus now p =
     (if time_is_zero (fp_last_seen p) then (if fp_last_error p \<noteq> None then PeerUnreachable else PeerStale)
      else
        let age = time_sub now (fp_last_seen p)
        in if age > pc_staleness_threshold (fp_config p)
           then (if fp_last_error p \<noteq> None then PeerUnreachable else PeerStale)
           else PeerHealthy)"

definition Resolver_State ::
  "(peer_fetch_error \<Rightarrow> string) \<Rightarrow> go_time \<Rightarrow> ('l, 'pub) fed_resolver \<Rightarrow> federation_state" where
  "Resolver_State error_text now r =
     \<lparr>fs_peers = map (\<lambda>(fid, p). (fid,
        \<lparr>ps_config = fp_config p, ps_status = computePeerStatus now p, ps_last_seen = fp_last_seen p,
         ps_last_attempt = fp_last_attempt p,
         ps_last_error = (case fp_last_error p of None \<Rightarrow> '''' | Some e \<Rightarrow> error_text e),
         ps_key_count = int (length (fp_keys p)), ps_fetch_count = uint (fp_fetch_count p),
         ps_error_count = uint (fp_error_count p)\<rparr>)) (fr_peers r),
      fs_updated_at = now\<rparr>"

section \<open>Resolvers with named keys\<close>

text \<open>
  What every resolver of the fabric promises: in the states it reaches, a key is only ever
  found under a non-empty identifier. \<open>'v\<close> is what the outside world contributes to a call.
\<close>

locale key_resolver =
  fixes resolve :: "'v \<Rightarrow> string \<Rightarrow> string \<Rightarrow> 's \<Rightarrow> ('e + 'pub) \<times> 's"
    and good :: "'s \<Rightarrow> bool"
  assumes resolve_good: "good s \<Longrightarrow> good (snd (resolve v issuer kid s))"
    and resolve_named: "good s \<Longrightarrow> fst (resolve v issuer kid s) = Inr key \<Longrightarrow> kid \<noteq> ''''"
begin

lemma empty_kid: "good s \<Longrightarrow> \<exists>e. fst (resolve v issuer '''' s) = Inl e"
  using resolve_named by (cases "fst (resolve v issuer '''' s)") blast+

lemma unidentified:
  assumes "good s" and "\<not> vr_dev_mode cfg"
    and "vr_resolve cfg = (\<lambda>issuer kid. map_sum show_error (\<lambda>k. k) (fst (resolve v issuer kid s)))"
  shows "\<exists>e. call_identity V cfg tokenStr = Inl (InvalidToken e)"
proof -
  have "\<exists>e. vr_resolve cfg issuer [] = Inl e" for issuer
    using empty_kid [OF assms(1), of v issuer] by (auto simp: assms(3))
  then obtain er where er: "vr_resolve cfg issuer [] = Inl (er issuer)" for issuer by metis
  show ?thesis
    using assms(2) by (simp add: call_identity_def extractKID_empty Let_def er split: option.split)
qed

end

interpretation cached: key_resolver Cache_ResolveKey "cache_ok UNIV"
proof unfold_locales
  fix s :: "'pub key_cache" and v issuer kid
  assume ok: "cache_ok UNIV s"
  then show "cache_ok UNIV (snd (Cache_ResolveKey v issuer kid s))" by (rule cache_ok_Resolve) simp
  fix key
  assume "fst (Cache_ResolveKey v issuer kid s) = Inr key"
  then obtain E' e where "entry_from E' (ca_cfg s) issuer e" "getKey kid e = Some key"
    using Cache_ResolveKey_source [OF ok] by blast
  then show "kid \<noteq> ''''" by (rule conjunct1 [OF entry_from_source])
qed

section \<open>The keys of the peers\<close>

definition peer_ok :: "'pub fed_peer \<Rightarrow> bool" where
  "peer_ok p \<longleftrightarrow> map_of (fp_keys p) '''' = None \<and> length (fp_keys p) \<le> maxKeysPerPeer"

lemma parseJWKSResponse_ok:
  assumes "parseJWKSResponse E body = Inr keys"
  shows "map_of keys '''' = None \<and> length keys \<le> maxKeysPerPeer"
proof -
  obtain ks where keys: "keys = index_keys (take maxKeysPerPeer ks) []"
    using assms by (auto simp: parseJWKSResponse_def split: option.splits)
  then have "map_of keys '''' = None"
    using index_keys_source [of "take maxKeysPerPeer ks" "[]" "''''"] by (cases "map_of keys ''''") auto
  then show ?thesis using keys index_keys_length [of "take maxKeysPerPeer ks" "[]"] by simp
qed

lemma fetchPeerKeys_ok: "peer_ok p \<Longrightarrow> peer_ok (snd (fetchPeerKeys E t p))"
  by (auto simp: peer_ok_def fetchPeerKeys_def Let_def parseJWKSResponse_ok
      split: option.split prod.split sum.split)

lemma fetchPeerKeys_config [simp]: "fp_config (snd (fetchPeerKeys E t p)) = fp_config p"
  by (simp add: fetchPeerKeys_def Let_def split: option.split prod.split sum.split)

lemma fetchPeerKeys_failed:
  assumes "fst (fetchPeerKeys E t p) = Some e"
  shows "fp_keys (snd (fetchPeerKeys E t p)) = fp_keys p
    \<and> fp_last_seen (snd (fetchPeerKeys E t p)) = fp_last_seen p
    \<and> fp_last_error (snd (fetchPeerKeys E t p)) = Some e"
  using assms by (auto simp: fetchPeerKeys_def Let_def split: option.splits prod.splits sum.splits if_splits)

definition fed_good :: "('l \<Rightarrow> bool) \<Rightarrow> ('l, 'pub) fed_resolver \<Rightarrow> bool" where
  "fed_good lgood r \<longleftrightarrow> (\<forall>l. fr_local r = Some l \<longrightarrow> lgood l) \<and> (\<forall>(fid, p) \<in> set (fr_peers r). peer_ok p)"

lemma find_cached_named:
  "\<forall>(fid, p) \<in> set ps. peer_ok p \<Longrightarrow> find_cached issuer kid ps = Some key \<Longrightarrow> kid \<noteq> ''''"
  by (induction issuer kid ps rule: find_cached.induct)
    (auto simp: peer_ok_def split: if_splits option.splits)

lemma fetch_matching_ok:
  assumes "\<forall>(fid, p) \<in> set ps. peer_ok p"
  shows "(\<forall>(fid, p) \<in> set (snd (fetch_matching E t issuer kid ps)). peer_ok p)
    \<and> (fst (fetch_matching E t issuer kid ps) \<noteq> None \<longrightarrow> kid \<noteq> '''')"
  using assms
proof (induction E t issuer kid ps rule: fetch_matching.induct)
  case (2 E t issuer kid fid p ps)
  obtain er p' where f: "fetchPeerKeys E t p = (er, p')" by fastforce
  have p': "peer_ok p'" using fetchPeerKeys_ok [of p E t] 2 f by simp
  then show ?case
    using 2 f by (auto simp: Let_def case_prod_beta peer_ok_def split: option.split)
qed simp

lemma Resolver_ResolveKey_eq:
  "Resolver_ResolveKey lr E t issuer kid r =
     (let r1 = (case fr_local r of None \<Rightarrow> r | Some l \<Rightarrow> r\<lparr>fr_local := Some (snd (lr issuer kid l))\<rparr>);
          f = fetch_matching E t issuer kid (fr_peers r)
      in case (case fr_local r of None \<Rightarrow> None
               | Some l \<Rightarrow> (case fst (lr issuer kid l) of Inl _ \<Rightarrow> None | Inr key \<Rightarrow> Some key)) of
           Some key \<Rightarrow> (Inr key, r1)
         | None \<Rightarrow>
             case find_cached issuer kid (fr_peers r) of
               Some key \<Rightarrow> (Inr key, r1)
             | None \<Rightarrow>
                 case fst f of
                   Some key \<Rightarrow> (Inr key, r1\<lparr>fr_peers := snd f\<rparr>)
                 | None \<Rightarrow> (Inl (KeyNotFound kid issuer (length (fr_peers r))), r1\<lparr>fr_peers := snd f\<rparr>))"
  by (auto simp: Resolver_ResolveKey_def Let_def case_prod_beta split: option.split sum.split prod.split)

text \<open>A resolver over a local one with named keys has named keys.\<close>

locale peer_resolver = key_resolver local_resolve local_good
  for local_resolve :: "'v \<Rightarrow> string \<Rightarrow> string \<Rightarrow> 'l \<Rightarrow> ('e + 'pub) \<times> 'l" and local_good :: "'l \<Rightarrow> bool"

sublocale peer_resolver \<subseteq> federated: key_resolver
  "\<lambda>(v, E, t). Resolver_ResolveKey (local_resolve v) E t" "fed_good local_good"
proof unfold_locales
  fix s :: "('l, 'pub) fed_resolver" and v :: "'v \<times> 'pub jwks_env \<times> go_time" and issuer kid
  obtain u E t where v: "v = (u, E, t)" by (cases v)
  assume ok: "fed_good local_good s"
  note fetched = fetch_matching_ok [of "fr_peers s" E t issuer kid]
  show "fed_good local_good (snd ((case v of (v, E, t) \<Rightarrow> Resolver_ResolveKey (local_resolve v) E t) issuer kid s))"
    using ok fetched
    by (auto simp: v Resolver_ResolveKey_eq Let_def fed_good_def resolve_good split: option.split)
  fix key
  assume "fst ((case v of (v, E, t) \<Rightarrow> Resolver_ResolveKey (local_resolve v) E t) issuer kid s) = Inr key"
  then show "kid \<noteq> ''''"
    using ok fetched find_cached_named [of "fr_peers s" issuer kid]
    by (auto simp: v Resolver_ResolveKey_eq Let_def fed_good_def dest: resolve_named
        split: option.splits sum.splits)
qed

interpretation over_cache: peer_resolver Cache_ResolveKey "cache_ok UNIV"
  by unfold_locales

section \<open>Runs\<close>

text \<open>The resolver of a unit, over its own key set cache.\<close>

datatype 'pub fed_op =
    FedResolve "'pub jwks_env" "'pub jwks_env" go_time string string
  | FedPrefetch "'pub jwks_env" "'pub jwks_env" go_time "string list"
  | FedRefresh "'pub jwks_env" go_time string

primrec fed_step ::
  "'pub fed_op \<Rightarrow> ('pub key_cache, 'pub) fed_resolver \<Rightarrow> ('pub key_cache, 'pub) fed_resolver" where
  "fed_step (FedResolve L E t issuer kid) r = snd (Resolver_ResolveKey (Cache_ResolveKey L) E t issuer kid r)"
| "fed_step (FedPrefetch L E t issuers) r = Resolver_Prefetch (Cache_Prefetch L issuers) E t r"
| "fed_step (FedRefresh E t fid) r = refresh_peer E t fid r"

primrec fed_env :: "'pub fed_op \<Rightarrow> 'pub jwks_env" where
  "fed_env (FedResolve L E t issuer kid) = E"
| "fed_env (FedPrefetch L E t issuers) = E"
| "fed_env (FedRefresh E t fid) = E"

primrec fed_local_envs :: "'pub fed_op \<Rightarrow> 'pub jwks_env set" where
  "fed_local_envs (FedResolve L E t issuer kid) = {L}"
| "fed_local_envs (FedPrefetch L E t issuers) = {L}"
| "fed_local_envs (FedRefresh E t fid) = {}"

lemma fed_good_step: "fed_good (cache_ok UNIV) r \<Longrightarrow> fed_good (cache_ok UNIV) (fed_step x r)"
proof (cases x)
  case (FedResolve L E t issuer kid)
  moreover assume "fed_good (cache_ok UNIV) r"
  ultimately show ?thesis
    using over_cache.federated.resolve_good [of r "(L, E, t)" issuer kid] by simp
qed (auto simp: fed_good_def Resolver_Prefetch_def refresh_peer_def cache_ok_Prefetch fetchPeerKeys_ok)

lemma fed_good_run: "fed_good (cache_ok UNIV) r \<Longrightarrow> fed_good (cache_ok UNIV) (fold fed_step ops r)"
  by (induction ops arbitrary: r) (simp_all add: fed_good_step)

lemma add_peers_new: "(fid, p) \<in> set (add_peers pcs m) \<Longrightarrow> (fid, p) \<in> set m \<or> (\<exists>pc. p = new_peer pc)"
proof (induction pcs m rule: add_peers.induct)
  case (2 pc0 pcs m)
  then show ?case
    using set_update_subset [of "pc_fabric_id (PeerConfig_ApplyDefaults pc0)"
        "new_peer (PeerConfig_ApplyDefaults pc0)" m]
    by (auto simp: Let_def)
qed simp

lemma fed_good_New: "fed_good (cache_ok UNIV) (NewResolver (Some (New cfg)) peers)"
  using cache_ok_mono [OF cache_ok_New, of UNIV cfg] add_peers_new [of _ _ peers "[]"]
  by (fastforce simp: fed_good_def NewResolver_def peer_ok_def new_peer_def)

text \<open>
  C39. Outside development mode, no tool call is ever accepted by either verifier when its keys
  come from the fabric's key set cache or from its federated resolver: both verifiers ask for
  the key without an identifier, and neither resolver ever answers that, whatever it has
  fetched before and whatever the issuers serve.
\<close>

theorem tool_calls_only_in_dev_mode:
  assumes "resolve = (\<lambda>issuer kid. map_sum show_err (\<lambda>k. k)
      (fst (Cache_ResolveKey L issuer kid (fold cache_step cops (New cfg)))))
    \<or> resolve = (\<lambda>issuer kid. map_sum show_fed (\<lambda>k. k)
      (fst (Resolver_ResolveKey (Cache_ResolveKey L) E t issuer kid
        (fold fed_step fops (NewResolver (Some (New cfg)) peers)))))"
    and "vr_resolve mcp = resolve" and "\<not> vr_dev_mode mcp"
    and "vv_resolve ver = resolve" and "\<not> vv_dev_mode ver"
  shows "(\<exists>e. VerifyToolCall V mcp tokenStr toolID opts = Inl (InvalidToken e))
    \<and> (\<exists>e. Verify W ver req = Inl (Shared e))"
proof -
  have "cache_ok UNIV (fold cache_step cops (New cfg))"
    using cache_ok_mono [OF cache_ok_run [OF cache_ok_New]] by blast
  note cached = cached.unidentified [OF this]
  note fed = over_cache.federated.unidentified [OF fed_good_run [OF fed_good_New]]
  have no_identity: "\<exists>e. call_identity V' mcp' tok = Inl (InvalidToken e)"
    if "vr_resolve mcp' = resolve" "\<not> vr_dev_mode mcp'" for V' mcp' tok
    using assms(1)
  proof
    assume "resolve = (\<lambda>issuer kid. map_sum show_err (\<lambda>k. k)
      (fst (Cache_ResolveKey L issuer kid (fold cache_step cops (New cfg)))))"
    with that show ?thesis by (intro cached [where show_error = show_err and v = L]) simp_all
  next
    assume "resolve = (\<lambda>issuer kid. map_sum show_fed (\<lambda>k. k)
      (fst (Resolver_ResolveKey (Cache_ResolveKey L) E t issuer kid
        (fold fed_step fops (NewResolver (Some (New cfg)) peers)))))"
    with that show ?thesis by (intro fed [where show_error = show_fed and v = "(L, E, t)"]) simp_all
  qed
  have "\<exists>e. verify_identity W ver tok = Inl (Shared (InvalidToken e))" for tok
    using no_identity [of "mcp_view p ver" W tok] assms(4,5)
    by (auto simp: verify_identity_eq [of W ver tok p])
  then obtain er where "verify_identity W ver tok = Inl (Shared (InvalidToken (er tok)))" for tok by metis
  then have "\<exists>e. Verify W ver req = Inl (Shared e)" by (simp add: Verify_def)
  with no_identity [OF assms(2,3), of V tokenStr] show ?thesis by (auto simp: VerifyToolCall_def)
qed

definition peer_jwks_env :: "bool \<Rightarrow> unit jwks_env" where
  "peer_jwks_env up = \<lparr>jx_request_ok = (\<lambda>u. True),
     jx_get = (\<lambda>u. if up then Some (200, Some ''keys'') else None),
     jx_parse = (\<lambda>b. Some [(None, Some ()), (Some ''a'', Some ())]),
     jx_expiry_clock = 1, jx_fetch_clock = (\<lambda>u. 1), jx_grace_clock = 1\<rparr>"

definition demo_jwks_peer :: peer_config where
  "demo_jwks_peer = \<lparr>pc_fabric_id = ''b'', pc_jwks_endpoint = ''https://b/jwks'', pc_mtls_secret = '''',
     pc_refresh_interval = 0, pc_staleness_threshold = 0\<rparr>"

definition demo_fed :: "(unit key_cache, unit) fed_resolver" where
  "demo_fed = NewResolver (Some (New demo_cache_config)) [demo_jwks_peer]"

definition demo_fed_resolve :: "string \<Rightarrow> string \<Rightarrow> string + unit" where
  "demo_fed_resolve issuer kid = map_sum (\<lambda>e. ''unresolved'') (\<lambda>k. k)
     (fst (Resolver_ResolveKey (Cache_ResolveKey (peer_jwks_env True)) (peer_jwks_env True) 1 issuer kid
       demo_fed))"

text \<open>The issuer does serve a key, and with it the calls would be accepted.\<close>

theorem tool_calls_only_in_dev_mode_witness:
  "demo_fed_resolve ''unit'' ''a'' = Inr ()
   \<and> isl (Verify demo_verify_env demo_verifier (demo_call ''plain'')) = False
   \<and> (\<exists>e. VerifyToolCall demo_verify_env
        ((mcp_view ''mcp'' demo_verifier)\<lparr>vr_resolve := demo_fed_resolve\<rparr>) ''plain'' ''db'' [] = Inl (InvalidToken e))
   \<and> (\<exists>e. Verify demo_verify_env (demo_verifier\<lparr>vv_resolve := demo_fed_resolve\<rparr>) (demo_call ''plain'') =
        Inl (Shared e))"
proof -
  have 1: "demo_fed_resolve ''unit'' ''a'' = Inr ()" by code_simp
  have 2: "isl (Verify demo_verify_env demo_verifier (demo_call ''plain'')) = False" by code_simp
  have eq: "demo_fed_resolve = (\<lambda>issuer kid. map_sum (\<lambda>e. ''unresolved'') (\<lambda>k. k)
      (fst (Resolver_ResolveKey (Cache_ResolveKey (peer_jwks_env True)) (peer_jwks_env True) 1 issuer kid
        (fold fed_step [] (NewResolver (Some (New demo_cache_config)) [demo_jwks_peer])))))"
    by (simp add: demo_fed_resolve_def demo_fed_def fun_eq_iff)
  show ?thesis
    using 1 2 tool_calls_only_in_dev_mode [OF disjI2 [OF eq],
        of "(mcp_view ''mcp'' demo_verifier)\<lparr>vr_resolve := demo_fed_resolve\<rparr>"
          "demo_verifier\<lparr>vv_resolve := demo_fed_resolve\<rparr>"]
    by (simp add: demo_verifier_def)
qed

section \<open>Where the keys of the peers come from\<close>

definition served :: "'pub jwks_env set \<Rightarrow> string \<Rightarrow> string \<Rightarrow> 'pub \<Rightarrow> bool" where
  "served Es url kid key \<longleftrightarrow> (\<exists>E \<in> Es. \<exists>body ks b. jx_get E url = Some (200, Some body)
     \<and> jx_parse E b = Some ks \<and> (b = body \<or> b = take maxJWKSResponseSize body) \<and> (Some kid, Some key) \<in> set ks)"

definition peers_from :: "'pub jwks_env set \<Rightarrow> (string, 'pub fed_peer) gomap \<Rightarrow> bool" where
  "peers_from Es ps \<longleftrightarrow> (\<forall>(fid, p) \<in> set ps. \<forall>kid key. map_of (fp_keys p) kid = Some key \<longrightarrow>
     served Es (pc_jwks_endpoint (fp_config p)) kid key)"

lemma served_mono: "served Es url kid key \<Longrightarrow> Es \<subseteq> Es' \<Longrightarrow> served Es' url kid key"
  unfolding served_def by blast

lemma peers_from_mono: "peers_from Es ps \<Longrightarrow> Es \<subseteq> Es' \<Longrightarrow> peers_from Es' ps"
  unfolding peers_from_def by (fastforce intro: served_mono)

lemma peers_from_Cons [simp]:
  "peers_from Es ((fid, p) # ps) \<longleftrightarrow>
     (\<forall>kid key. map_of (fp_keys p) kid = Some key \<longrightarrow> served Es (pc_jwks_endpoint (fp_config p)) kid key)
     \<and> peers_from Es ps"
  by (auto simp: peers_from_def)

lemma parseJWKSResponse_source:
  assumes "parseJWKSResponse E body = Inr keys" and "map_of keys kid = Some key"
    and "jx_get E url = Some (200, body)" and "E \<in> Es"
  shows "served Es url kid key"
proof -
  obtain b ks where b: "body = Some b" "jx_parse E (take maxJWKSResponseSize b) = Some ks"
    and keys: "keys = index_keys (take maxKeysPerPeer ks) []"
    using assms(1) by (auto simp: parseJWKSResponse_def split: option.splits)
  have "(Some kid, Some key) \<in> set ks"
    using index_keys_source [OF assms(2) [unfolded keys]] by (auto dest: in_set_takeD)
  with b assms(3,4) show ?thesis unfolding served_def by blast
qed

lemma fetchPeerKeys_source:
  assumes "\<forall>kid key. map_of (fp_keys p) kid = Some key \<longrightarrow> served Es (pc_jwks_endpoint (fp_config p)) kid key"
    and "E \<in> Es" and "map_of (fp_keys (snd (fetchPeerKeys E t p))) kid = Some key"
  shows "served Es (pc_jwks_endpoint (fp_config p)) kid key"
proof (cases "fst (fetchPeerKeys E t p)")
  case None
  then obtain body where "jx_get E (pc_jwks_endpoint (fp_config p)) = Some (200, body)"
    "parseJWKSResponse E body = Inr (fp_keys (snd (fetchPeerKeys E t p)))"
    by (auto simp: fetchPeerKeys_def Let_def split: option.splits sum.splits if_splits)
  from parseJWKSResponse_source [OF this(2) assms(3) this(1) assms(2)] show ?thesis .
next
  case (Some e)
  with assms(1,3) fetchPeerKeys_failed [OF Some] show ?thesis by simp
qed

lemma fetch_matching_from:
  assumes "peers_from Es ps" and "E \<in> Es"
  shows "peers_from Es (snd (fetch_matching E t issuer kid ps))
    \<and> (\<forall>key. fst (fetch_matching E t issuer kid ps) = Some key \<longrightarrow> served Es issuer kid key)"
  using assms
proof (induction E t issuer kid ps rule: fetch_matching.induct)
  case (2 E t issuer kid fid p ps)
  obtain er p' where f: "fetchPeerKeys E t p = (er, p')" by fastforce
  have "fp_config p' = fp_config p" using fetchPeerKeys_config [of E t p] f by simp
  moreover have "\<forall>k key. map_of (fp_keys p') k = Some key \<longrightarrow> served Es (pc_jwks_endpoint (fp_config p)) k key"
    using fetchPeerKeys_source [of p Es E t] "2.prems" f by simp
  ultimately show ?case
    using 2 f by (auto simp: Let_def case_prod_beta split: option.split)
qed (simp add: peers_from_def)

lemma find_cached_from:
  "peers_from Es ps \<Longrightarrow> find_cached issuer kid ps = Some key \<Longrightarrow> served Es issuer kid key"
  by (induction issuer kid ps rule: find_cached.induct) (auto split: if_splits option.splits)

lemma peers_from_map:
  assumes "peers_from Es ps" and "E \<in> Es"
  shows "peers_from Es (map (\<lambda>(f, p). (f, if c f then snd (fetchPeerKeys E t p) else p)) ps)"
  using assms fetchPeerKeys_source [of _ Es E t] by (induction ps) (auto split: prod.split)

text \<open>The state of a run: the cache has seen \<open>Ls\<close>, the peers have been fetched in \<open>Es\<close>.\<close>

definition fed_from ::
  "'pub jwks_env set \<Rightarrow> 'pub jwks_env set \<Rightarrow> cache_config \<Rightarrow> ('pub key_cache, 'pub) fed_resolver \<Rightarrow> bool" where
  "fed_from Ls Es cfg r \<longleftrightarrow> peers_from Es (fr_peers r)
     \<and> (\<forall>c. fr_local r = Some c \<longrightarrow> cache_ok Ls c \<and> ca_cfg c = cfg)"

lemma Cache_ResolveKey_cfg: "ca_cfg (snd (Cache_ResolveKey E issuer kid c)) = ca_cfg c"
  using cache_cfg_run [of "[Resolve E issuer kid]" c] by simp

lemma Cache_Prefetch_cfg: "ca_cfg (Cache_Prefetch E issuers c) = ca_cfg c"
  using cache_cfg_run [of "[Warm E issuers]" c] by simp

lemma fed_from_resolve:
  assumes "fed_from Ls Es cfg r" and "L \<in> Ls" and "E \<in> Es"
  shows "fed_from Ls Es cfg (snd (Resolver_ResolveKey (Cache_ResolveKey L) E t issuer kid r))"
proof -
  let ?r' = "snd (Resolver_ResolveKey (Cache_ResolveKey L) E t issuer kid r)"
  have loc: "fr_local ?r' = map_option (\<lambda>c. snd (Cache_ResolveKey L issuer kid c)) (fr_local r)"
    by (simp add: Resolver_ResolveKey_eq Let_def split: option.split)
  have "fr_peers ?r' = fr_peers r \<or> fr_peers ?r' = snd (fetch_matching E t issuer kid (fr_peers r))"
    by (simp add: Resolver_ResolveKey_eq Let_def split: option.split)
  moreover have src: "peers_from Es (fr_peers r)" using assms(1) by (simp add: fed_from_def)
  ultimately have "peers_from Es (fr_peers ?r')"
    using fetch_matching_from [OF src assms(3), of t issuer kid] by metis
  moreover have "cache_ok Ls c' \<and> ca_cfg c' = cfg" if "fr_local ?r' = Some c'" for c'
  proof -
    from that loc obtain c where c: "fr_local r = Some c" "c' = snd (Cache_ResolveKey L issuer kid c)"
      by (cases "fr_local r") simp_all
    then have "cache_ok Ls c" "ca_cfg c = cfg" using assms(1) by (simp_all add: fed_from_def)
    with c(2) show ?thesis by (simp add: cache_ok_Resolve [OF _ assms(2)] Cache_ResolveKey_cfg)
  qed
  ultimately show ?thesis unfolding fed_from_def by blast
qed

lemma fed_from_step:
  assumes "fed_from Ls Es cfg r" and "fed_local_envs x \<subseteq> Ls" and "fed_env x \<in> Es"
  shows "fed_from Ls Es cfg (fed_step x r)"
proof (cases x)
  case (FedResolve L E t issuer kid)
  with assms show ?thesis by (simp add: fed_from_resolve)
next
  case (FedPrefetch L E t issuers)
  with assms peers_from_map [of Es "fr_peers r" E "\<lambda>_. True" t] show ?thesis
    by (auto simp: fed_from_def Resolver_Prefetch_def cache_ok_Prefetch Cache_Prefetch_cfg)
next
  case (FedRefresh E t fid)
  with assms peers_from_map [of Es "fr_peers r" E "\<lambda>f. f = fid" t] show ?thesis
    by (auto simp: fed_from_def refresh_peer_def)
qed

lemma fed_from_run:
  "fed_from Ls Es cfg r \<Longrightarrow> \<forall>x \<in> set ops. fed_local_envs x \<subseteq> Ls \<and> fed_env x \<in> Es \<Longrightarrow>
   fed_from Ls Es cfg (fold fed_step ops r)"
  by (induction ops arbitrary: r) (simp_all add: fed_from_step)

lemma fed_from_New: "fed_from Ls Es (withDefaults cfg) (NewResolver (Some (New cfg)) peers)"
proof -
  have "fp_keys p = []" if "(fid, p) \<in> set (add_peers peers [])" for fid and p :: "'a fed_peer"
    using add_peers_new [OF that] by (auto simp: new_peer_def)
  then have "peers_from Es (add_peers peers [])" by (auto simp: peers_from_def)
  moreover have "cache_ok Ls (New cfg)" by (rule cache_ok_mono [OF cache_ok_New]) simp
  ultimately show ?thesis by (auto simp: fed_from_def NewResolver_def New_def)
qed

lemma entry_from_served:
  assumes "entry_from E cfg issuer e" and "getKey kid e = Some key" and "E \<in> Es"
  shows "served Es (jwksURLForIssuer issuer) kid key"
  using entry_from_source [OF assms(1,2)] assms(3) unfolding served_def by blast

text \<open>
  Whatever the federated resolver has done before: a key it returns for an issuer was
  served under the requested identifier either at the issuer's own key set address, or at
  the endpoint of a configured peer that is literally equal to the issuer. No peer can
  supply a key for another issuer than the one named by its endpoint.
\<close>

theorem federated_keys_authentic:
  assumes "r = fold fed_step ops (NewResolver (Some (New cfg)) peers)"
    and "fst (Resolver_ResolveKey (Cache_ResolveKey L) E t issuer kid r) = Inr key"
  shows "served (insert L (\<Union> (fed_local_envs ` set ops))) (jwksURLForIssuer issuer) kid key
    \<or> served (insert E (fed_env ` set ops)) issuer kid key"
proof -
  let ?Ls = "insert L (\<Union> (fed_local_envs ` set ops))" and ?Es = "insert E (fed_env ` set ops)"
  have r: "fed_from ?Ls ?Es (withDefaults cfg) r"
    unfolding assms(1) by (rule fed_from_run [OF fed_from_New]) auto
  have local: "served ?Ls (jwksURLForIssuer issuer) kid k"
    if "fr_local r = Some c" "fst (Cache_ResolveKey L issuer kid c) = Inr k" for c k
  proof -
    have "cache_ok ?Ls c" using r that(1) by (simp add: fed_from_def)
    from Cache_ResolveKey_source [OF this that(2)] obtain E' e where
      "entry_from E' (ca_cfg c) issuer e" "getKey kid e = Some k" "E' \<in> ?Ls" by blast
    then show ?thesis by (rule entry_from_served)
  qed
  have peers: "peers_from ?Es (fr_peers r)" using r by (simp add: fed_from_def)
  note fetched = fetch_matching_from [OF peers, of E t issuer kid]
  show ?thesis
    using assms(2) local find_cached_from [OF peers, of issuer kid] fetched
    by (auto simp: Resolver_ResolveKey_eq Let_def split: option.splits sum.splits)
qed

theorem federated_keys_authentic_witness:
  "fst (Resolver_ResolveKey (Cache_ResolveKey (peer_jwks_env True)) (peer_jwks_env False) 1 ''unit'' ''a'' demo_fed)
     = Inr ()
   \<and> (served {peer_jwks_env True} (jwksURLForIssuer ''unit'') ''a'' ()
      \<or> served {peer_jwks_env False} ''unit'' ''a'' ())"
proof -
  have res: "fst (Resolver_ResolveKey (Cache_ResolveKey (peer_jwks_env True)) (peer_jwks_env False) 1
      ''unit'' ''a'' demo_fed) = Inr ()" by code_simp
  have "demo_fed = fold fed_step [] (NewResolver (Some (New demo_cache_config)) [demo_jwks_peer])"
    by (simp add: demo_fed_def)
  from federated_keys_authentic [OF this res] res show ?thesis by simp
qed

section \<open>An unreachable peer\<close>

lemma fetchPeerKeys_unreachable:
  "jx_get E (pc_jwks_endpoint (fp_config p)) = None \<Longrightarrow> fp_keys (snd (fetchPeerKeys E t p)) = fp_keys p"
  by (simp add: fetchPeerKeys_def Let_def)

lemma find_cached_fetch:
  assumes "jx_get E issuer = None"
  shows "find_cached issuer kid (map (\<lambda>(f, p). (f, if c f then snd (fetchPeerKeys E t p) else p)) ps) =
    find_cached issuer kid ps"
proof (induction ps)
  case (Cons x ps)
  obtain f p where x: "x = (f, p)" by fastforce
  have "fp_keys (snd (fetchPeerKeys E t p)) = fp_keys p" if "pc_jwks_endpoint (fp_config p) = issuer"
    using that assms fetchPeerKeys_unreachable by blast
  with Cons show ?case by (auto simp: x split: option.split)
qed simp

lemma find_cached_fetch_matching:
  assumes "jx_get E issuer = None"
  shows "find_cached issuer kid (snd (fetch_matching E t issuer' kid' ps)) = find_cached issuer kid ps"
proof (induction ps)
  case (Cons x ps)
  obtain f p where x: "x = (f, p)" by fastforce
  obtain er p' where f: "fetchPeerKeys E t p = (er, p')" by fastforce
  have "fp_config p' = fp_config p" using fetchPeerKeys_config [of E t p] f by simp
  moreover have "fp_keys p' = fp_keys p" if "pc_jwks_endpoint (fp_config p) = issuer"
    using that assms f fetchPeerKeys_unreachable [of E p t] by simp
  ultimately show ?case
    using Cons f by (auto simp: x Let_def case_prod_beta split: option.split)
qed simp

lemma find_cached_step:
  assumes "jx_get (fed_env x) issuer = None"
  shows "find_cached issuer kid (fr_peers (fed_step x r)) = find_cached issuer kid (fr_peers r)"
proof (cases x)
  case (FedResolve L E t i k)
  then have "jx_get E issuer = None" using assms by simp
  from find_cached_fetch_matching [OF this, of kid t i k "fr_peers r"] FedResolve show ?thesis
    by (auto simp: Resolver_ResolveKey_eq Let_def split: option.split)
next
  case (FedPrefetch L E t issuers)
  with assms find_cached_fetch [of E issuer kid "\<lambda>_. True" t "fr_peers r"] show ?thesis
    by (simp add: Resolver_Prefetch_def)
next
  case (FedRefresh E t fid)
  with assms find_cached_fetch [of E issuer kid "\<lambda>f. f = fid" t "fr_peers r"] show ?thesis
    by (simp add: refresh_peer_def)
qed

text \<open>
  A peer that becomes unreachable keeps its keys for ever: however many refreshes fail
  and however much time passes, a key cached for the peer is still returned when the local
  cache does not know the issuer. The staleness threshold affects the reported status only.
\<close>

theorem peer_keys_outlive_peer:
  assumes "find_cached issuer kid (fr_peers r) = Some key"
    and "\<forall>x \<in> set ops. jx_get (fed_env x) issuer = None" and "r' = fold fed_step ops r"
    and "\<forall>c. fr_local r' = Some c \<longrightarrow> (\<exists>err. fst (Cache_ResolveKey L issuer kid c) = Inl err)"
  shows "fst (Resolver_ResolveKey (Cache_ResolveKey L) E t issuer kid r') = Inr key"
proof -
  have "find_cached issuer kid (fr_peers (fold fed_step ops r)) = find_cached issuer kid (fr_peers r)"
    using assms(2) by (induction ops arbitrary: r) (simp_all add: find_cached_step)
  then show ?thesis
    using assms(1,3,4) by (auto simp: Resolver_ResolveKey_eq Let_def split: option.split sum.split)
qed

definition peer_fetched :: "(unit key_cache, unit) fed_resolver" where
  "peer_fetched = \<lparr>fr_local = None, fr_peers = [(''b'', (new_peer demo_jwks_peer)\<lparr>fp_keys := [(''a'', ())]\<rparr>)]\<rparr>"

theorem peer_keys_outlive_peer_witness:
  "fst (Resolver_ResolveKey (Cache_ResolveKey (peer_jwks_env False)) (peer_jwks_env False) 9 ''https://b/jwks'' ''a''
     (fold fed_step (replicate 100 (FedRefresh (peer_jwks_env False) 7 ''b'')) peer_fetched)) = Inr ()"
proof -
  let ?ops = "replicate 100 (FedRefresh (peer_jwks_env False) 7 ''b'')"
  have found: "find_cached ''https://b/jwks'' ''a'' (fr_peers peer_fetched) = Some ()" by code_simp
  have down: "\<forall>x \<in> set ?ops. jx_get (fed_env x) ''https://b/jwks'' = None"
    by (simp add: peer_jwks_env_def)
  have "fr_local (fold fed_step (replicate n (FedRefresh (peer_jwks_env False) 7 ''b'')) r) = fr_local r" for n r
    by (induction n arbitrary: r) (simp_all add: refresh_peer_def)
  then have "\<forall>c. fr_local (fold fed_step ?ops peer_fetched) = Some c \<longrightarrow>
      (\<exists>err. fst (Cache_ResolveKey (peer_jwks_env False) ''https://b/jwks'' ''a'' c) = Inl err)"
    by (simp add: peer_fetched_def)
  from peer_keys_outlive_peer [OF found down refl this] show ?thesis .
qed

end
