(* ===== verification/Compliance.thy ===== *)
theory Compliance
  imports Rotation Revocation
begin

text \<open>
  \<open>src/pkg/lifecycle/compliance_workflow.go\<close>, \<open>compliance_types.go\<close> and the shared activities of
  \<open>activities.go\<close>: the compliance scan, a workflow over the same retrying activities as the key
  rotation (\<open>ExecuteActivity\<close>). The formatting of durations and floats, the clocks and the fate
  of every attempt are values of the environment. The state is the revocation index and the
  security events emitted.
\<close>

section \<open>Types\<close>

record finding =
  fd_id :: string
  fd_severity :: string
  fd_category :: string
  fd_subject :: string
  fd_description :: string
  fd_recommendation :: string
  fd_auto_remediable :: bool
  fd_detected_at :: go_time

record scan_report =
  sr_total_credentials :: nat
  sr_compliant :: int
  sr_non_compliant :: nat
  sr_findings :: "finding list"
  sr_duration :: duration
  sr_timestamp :: go_time

record scan_params =
  sp_scope :: "string list"
  sp_emit_findings :: bool
  sp_auto_remediate :: bool

definition DefaultScanParams :: scan_params where
  "DefaultScanParams = \<lparr>sp_scope = [], sp_emit_findings = True, sp_auto_remediate = False\<rparr>"

record performance_thresholds =
  pt_exchange_p99_ms :: rat
  pt_revocation_lookup_ms :: rat
  pt_signal_cascade_s :: rat

definition DefaultPerformanceThresholds :: performance_thresholds where
  "DefaultPerformanceThresholds =
     \<lparr>pt_exchange_p99_ms = 15, pt_revocation_lookup_ms = 1, pt_signal_cascade_s = 2\<rparr>"

record compliance_policy =
  cp_max_ttl :: duration
  cp_require_dpop :: bool
  cp_max_delegation_depth :: int
  cp_max_blast_radius :: string
  cp_performance :: performance_thresholds

definition DefaultCompliancePolicy :: compliance_policy where
  "DefaultCompliancePolicy =
     \<lparr>cp_max_ttl = 5 * go_minute, cp_require_dpop = False, cp_max_delegation_depth = 5,
      cp_max_blast_radius = ''namespace'', cp_performance = DefaultPerformanceThresholds\<rparr>"

definition EventTypeComplianceScanStart :: string where
  "EventTypeComplianceScanStart =
     ''https://schemas.openid.net/secevent/starfly/event-type/compliance-scan-started''"

definition EventTypeComplianceFinding :: string where
  "EventTypeComplianceFinding =
     ''https://schemas.openid.net/secevent/starfly/event-type/compliance-finding''"

definition EventTypeComplianceScanDone :: string where
  "EventTypeComplianceScanDone =
     ''https://schemas.openid.net/secevent/starfly/event-type/compliance-scan-complete''"

section \<open>Shared activities\<close>

record revoke_request =
  rr_subject_id :: string
  rr_reason :: string
  rr_expires_in :: duration

definition RevokeCredential ::
  "go_time \<Rightarrow> go_time \<Rightarrow> revoke_request \<Rightarrow> revocation_map \<Rightarrow> revocation_error option \<times> revocation_map" where
  "RevokeCredential now revoke_now req idx =
     (let expiresAt = (if rr_expires_in req = 0 then time_add now (24 * go_hour)
                       else time_add now (rr_expires_in req))
      in Revoke revoke_now (rr_subject_id req) (rr_reason req) expiresAt idx)"

record revocation_result =
  rw_revoked :: bool
  rw_reason :: string
  rw_revoked_at :: go_time

definition CheckRevocationStatus :: "go_time \<Rightarrow> string \<Rightarrow> revocation_map \<Rightarrow> revocation_result" where
  "CheckRevocationStatus now subjectID idx =
     (case IsRevoked now subjectID idx of
        None \<Rightarrow> \<lparr>rw_revoked = False, rw_reason = '''', rw_revoked_at = 0\<rparr>
      | Some entry \<Rightarrow> \<lparr>rw_revoked = True, rw_reason = re_reason entry, rw_revoked_at = re_revoked_at entry\<rparr>)"

text \<open>\<open>MintExecutionScopedToken\<close> over the exchanger of the unit.\<close>

definition mint_request :: "string \<Rightarrow> execution_scope \<Rightarrow> token_exchange_request" where
  "mint_request unitID scope =
     \<lparr>rq_grant_type = ''urn:ietf:params:oauth:grant-type:token-exchange'',
      rq_subject_token = ''urn:starfly:lifecycle-worker:'' @ unitID,
      rq_subject_token_type = ''urn:ietf:params:oauth:token-type:jwt'', rq_audience = ''urn:starfly:internal'',
      rq_scope = '''', rq_actor_token = '''', rq_actor_token_type = '''', rq_requested_token_type = '''',
      rq_dpop_proof = '''', rq_attestation = None, rq_execution_scope = Some scope\<rparr>"

definition MintExecutionScopedToken ::
  "(token_exchange_request \<Rightarrow> 's \<Rightarrow> ('e + token_exchange_response) \<times> 's) \<Rightarrow> string \<Rightarrow> execution_scope
   \<Rightarrow> 's \<Rightarrow> ('e + string) \<times> 's" where
  "MintExecutionScopedToken exchange unitID scope s =
     (case exchange (mint_request unitID scope) s of
        (Inl e, s') \<Rightarrow> (Inl e, s')
      | (Inr resp, s') \<Rightarrow> (Inr (rs_access_token resp), s'))"

section \<open>Compliance activities\<close>

record scan_format =
  sf_duration :: "duration \<Rightarrow> string"
  sf_fixed1 :: "rat \<Rightarrow> string"

text \<open>The long dash of the descriptions, in UTF-8.\<close>

definition utf8_dash :: string where
  "utf8_dash = [char_of (226 :: nat), char_of (128 :: nat), char_of (148 :: nat)]"

definition policy_finding ::
  "go_time \<Rightarrow> string \<Rightarrow> string \<Rightarrow> string \<Rightarrow> string \<Rightarrow> string \<Rightarrow> string \<Rightarrow> finding" where
  "policy_finding now stem severity category subject description recommendation =
     \<lparr>fd_id = stem @ ''-'' @ show_int (unix_seconds now), fd_severity = severity,
      fd_category = category, fd_subject = subject, fd_description = description,
      fd_recommendation = recommendation, fd_auto_remediable = False, fd_detected_at = now\<rparr>"

definition EvaluatePolicy ::
  "scan_format \<Rightarrow> compliance_policy \<Rightarrow> string list \<Rightarrow> go_time \<Rightarrow> finding list" where
  "EvaluatePolicy F pol scope now =
     (if cp_max_ttl pol = 0 then
        [policy_finding now ''policy-ttl'' ''warning'' ''ttl'' ''urn:starfly:policy''
           (''MaxTTL is not configured '' @ utf8_dash @ '' tokens may have unbounded lifetimes'')
           ''Set lifecycle.compliance.max_ttl to a value <= 5m'']
      else if cp_max_ttl pol > 10 * go_minute then
        [policy_finding now ''policy-ttl-long'' ''warning'' ''ttl'' ''urn:starfly:policy''
           (''MaxTTL is '' @ sf_duration F (cp_max_ttl pol) @ '' '' @ utf8_dash
              @ '' consider reducing to <= 5m for agent workloads'')
           ''Set lifecycle.compliance.max_ttl to 5m or less'']
      else
        [policy_finding now ''policy-ttl-ok'' ''info'' ''ttl'' ''urn:starfly:policy''
           (''MaxTTL is '' @ sf_duration F (cp_max_ttl pol) @ '' '' @ utf8_dash
              @ '' within recommended bounds'') ''''])
     @ (if cp_max_delegation_depth pol > 10 then
          [policy_finding now ''policy-delegation'' ''warning'' ''delegation'' ''urn:starfly:policy''
             (''MaxDelegationDepth is '' @ show_int (cp_max_delegation_depth pol) @ '' '' @ utf8_dash
                @ '' deep chains increase blast radius'')
             ''Set max_delegation_depth to 5 or fewer'']
        else
          [policy_finding now ''policy-delegation-ok'' ''info'' ''delegation'' ''urn:starfly:policy''
             (''MaxDelegationDepth is '' @ show_int (cp_max_delegation_depth pol) @ '' '' @ utf8_dash
                @ '' within recommended bounds'') ''''])
     @ (if \<not> cp_require_dpop pol then
          [policy_finding now ''policy-dpop'' ''info'' ''dpop'' ''urn:starfly:policy''
             (''DPoP proof-of-possession is not required '' @ utf8_dash @ '' tokens are bearer tokens'')
             ''Consider enabling require_dpop for production workloads'']
        else [])"

definition CheckPerformance :: "scan_format \<Rightarrow> compliance_policy \<Rightarrow> go_time \<Rightarrow> finding list" where
  "CheckPerformance F pol now =
     (let thresholds = cp_performance pol in
      (if pt_exchange_p99_ms thresholds = 0 then
         [policy_finding now ''perf-exchange'' ''warning'' ''performance'' ''urn:starfly:performance''
            ''Exchange P99 threshold not configured''
            ''Set performance.exchange_p99_ms (recommended: 15)'']
       else
         [policy_finding now ''perf-exchange-ok'' ''info'' ''performance'' ''urn:starfly:performance''
            (''Exchange P99 threshold: '' @ sf_fixed1 F (pt_exchange_p99_ms thresholds) @ ''ms'') ''''])
      @ (if pt_revocation_lookup_ms thresholds = 0 then
           [policy_finding now ''perf-revocation'' ''warning'' ''performance'' ''urn:starfly:performance''
              ''Revocation lookup threshold not configured''
              ''Set performance.revocation_lookup_ms (recommended: 1)'']
         else [])
      @ (if pt_signal_cascade_s thresholds = 0 then
           [policy_finding now ''perf-cascade'' ''warning'' ''performance'' ''urn:starfly:performance''
              ''Signal cascade threshold not configured''
              ''Set performance.signal_cascade_s (recommended: 2)'']
         else []))"

definition CheckRevocationHealth :: "go_time \<Rightarrow> finding list" where
  "CheckRevocationHealth now =
     [policy_finding now ''rev-health'' ''info'' ''revocation-health'' ''urn:starfly:revocation-index''
        ''Revocation index health check passed'' '''']"

section \<open>The workflow\<close>

record scan_state =
  sc_index :: revocation_map
  sc_emitted :: "security_event list"

text \<open>
  The environment of one run: the attempts of every activity, by the position of the finding
  where there is one per finding, and the clocks of the attempts.
\<close>

record scan_env =
  sv_unit_id :: string
  sv_format :: scan_format
  sv_start :: "attempt list"
  sv_evaluate :: "attempt list"
  sv_performance :: "attempt list"
  sv_health :: "attempt list"
  sv_finding :: "nat \<Rightarrow> attempt list"
  sv_remediate :: "nat \<Rightarrow> attempt list"
  sv_done :: "attempt list"
  sv_activity_clock :: "string \<Rightarrow> nat \<Rightarrow> go_time"
  sv_event_clock :: "string \<Rightarrow> nat \<Rightarrow> int"
  sv_started :: go_time
  sv_finished :: go_time

datatype scan_error = EvaluatingPolicy | CheckingPerformance | CheckingRevocationHealth

definition scan_signal ::
  "scan_env \<Rightarrow> string \<Rightarrow> string \<Rightarrow> claims \<Rightarrow> nat \<Rightarrow> scan_state \<Rightarrow> unit option \<times> scan_state" where
  "scan_signal V eventType subjectID payload i s =
     (Some (), s\<lparr>sc_emitted := sc_emitted s @
        [\<lparr>se_issuer = sv_unit_id V,
          se_jti = ''lifecycle-'' @ eventType @ ''-'' @ show_int (sv_event_clock V eventType i),
          se_issued_at = sv_event_clock V eventType i div go_second,
          se_audience = ''urn:starfly:fabric'',
          se_subject_id = Some \<lparr>si_format = ''uri'', si_spiffe_id = '''', si_email = '''', si_uri = subjectID\<rparr>,
          se_events = [(eventType, payload)], se_transaction_id = ''''\<rparr>]\<rparr>)"

definition scan_revoke ::
  "scan_env \<Rightarrow> revoke_request \<Rightarrow> nat \<Rightarrow> scan_state \<Rightarrow> unit option \<times> scan_state" where
  "scan_revoke V req i s =
     (case RevokeCredential (sv_activity_clock V ''revoke'' i) (sv_activity_clock V ''revoke'' i) req (sc_index s) of
        (Some _, idx) \<Rightarrow> (None, s\<lparr>sc_index := idx\<rparr>)
      | (None, idx) \<Rightarrow> (Some (), s\<lparr>sc_index := idx\<rparr>))"

definition milliseconds :: "duration \<Rightarrow> int" where
  "milliseconds d = sgn d * (\<bar>d\<bar> div 1000000)"

text \<open>Steps 5 and 6; the errors of their activities are ignored.\<close>

fun emit_findings :: "scan_env \<Rightarrow> nat \<Rightarrow> finding list \<Rightarrow> scan_state \<Rightarrow> scan_state" where
  "emit_findings V i [] s = s"
| "emit_findings V i (f # fs) s =
     emit_findings V (Suc i) fs
       (if fd_severity f = ''info'' then s
        else snd (ExecuteActivity
               (scan_signal V EventTypeComplianceFinding (fd_subject f)
                  [(''finding_id'', JStr (fd_id f)), (''severity'', JStr (fd_severity f)),
                   (''category'', JStr (fd_category f)), (''description'', JStr (fd_description f))])
               (sv_finding V i) s))"

fun remediate_findings :: "scan_env \<Rightarrow> nat \<Rightarrow> finding list \<Rightarrow> scan_state \<Rightarrow> scan_state" where
  "remediate_findings V i [] s = s"
| "remediate_findings V i (f # fs) s =
     remediate_findings V (Suc i) fs
       (if fd_severity f = ''critical'' \<and> fd_auto_remediable f
        then snd (ExecuteActivity
               (scan_revoke V \<lparr>rr_subject_id = fd_subject f, rr_reason = ''compliance: '' @ fd_category f,
                               rr_expires_in = go_hour\<rparr>)
               (sv_remediate V i) s)
        else s)"

definition report_of :: "scan_env \<Rightarrow> finding list \<Rightarrow> scan_report" where
  "report_of V findings =
     (let nonCompliant = length (filter (\<lambda>f. fd_severity f = ''warning'' \<or> fd_severity f = ''critical'') findings)
      in \<lparr>sr_total_credentials = length findings,
          sr_compliant = int (length findings) - int nonCompliant, sr_non_compliant = nonCompliant,
          sr_findings = findings, sr_duration = time_sub (sv_finished V) (sv_started V),
          sr_timestamp = sv_finished V\<rparr>)"

definition scan_publish :: "scan_env \<Rightarrow> scan_params \<Rightarrow> scan_report \<Rightarrow> scan_state \<Rightarrow> scan_state" where
  "scan_publish V params report s =
     (let s1 = (if sp_emit_findings params then emit_findings V 0 (sr_findings report) s else s);
          s2 = (if sp_auto_remediate params then remediate_findings V 0 (sr_findings report) s1 else s1)
      in snd (ExecuteActivity
           (scan_signal V EventTypeComplianceScanDone ''urn:starfly:compliance''
              [(''total'', JNum (of_nat (sr_total_credentials report))),
               (''compliant'', JNum (of_int (sr_compliant report))),
               (''non_compliant'', JNum (of_nat (sr_non_compliant report))),
               (''duration_ms'', JNum (of_int (milliseconds (sr_duration report))))])
           (sv_done V) s2))"

definition ComplianceScanWorkflow ::
  "scan_env \<Rightarrow> compliance_policy \<Rightarrow> scan_params \<Rightarrow> scan_state \<Rightarrow> (scan_error + scan_report) \<times> scan_state" where
  "ComplianceScanWorkflow V pol params s0 =
     (let s1 = snd (ExecuteActivity
                 (scan_signal V EventTypeComplianceScanStart ''urn:starfly:compliance''
                    [(''scope'', JArr (map JStr (sp_scope params)))]) (sv_start V) s0)
      in case ExecuteActivity
                (\<lambda>i s. (Some (EvaluatePolicy (sv_format V) pol (sp_scope params)
                               (sv_activity_clock V ''evaluate'' i)), s)) (sv_evaluate V) s1 of
           (None, s2) \<Rightarrow> (Inl EvaluatingPolicy, s2)
         | (Some findings, s2) \<Rightarrow>
             case ExecuteActivity
                    (\<lambda>i s. (Some (CheckPerformance (sv_format V) pol (sv_activity_clock V ''performance'' i)), s))
                    (sv_performance V) s2 of
               (None, s3) \<Rightarrow> (Inl CheckingPerformance, s3)
             | (Some perfFindings, s3) \<Rightarrow>
                 case ExecuteActivity
                        (\<lambda>i s. (Some (CheckRevocationHealth (sv_activity_clock V ''health'' i)), s))
                        (sv_health V) s3 of
                   (None, s4) \<Rightarrow> (Inl CheckingRevocationHealth, s4)
                 | (Some revFindings, s4) \<Rightarrow>
                     let report = report_of V (findings @ perfFindings @ revFindings)
                     in (Inr report, scan_publish V params report s4))"

section \<open>Guarantees\<close>

text \<open>An activity without effects returns exactly if one of three attempts completes.\<close>

lemma run_attempts_pure:
  "\<exists>j. run_attempts (\<lambda>i s. (Some (g i), s)) i as s =
     ((if Completed \<in> set as then Some (g j) else None), s)"
proof (induction as arbitrary: i)
  case (Cons a as)
  then show ?case by (cases a) auto
qed simp

lemma ExecuteActivity_pure:
  obtains j where "ExecuteActivity (\<lambda>i s. (Some (g i), s)) as s =
    ((if Completed \<in> set (take 3 as) then Some (g j) else None), s)"
  using run_attempts_pure [of g 0 "take 3 as" s] by (auto simp: ExecuteActivity_def)

lemma scan_signal_index [simp]:
  "sc_index (snd (ExecuteActivity (scan_signal V ty sub pl) as s)) = sc_index s"
  by (rule ExecuteActivity_keeps [where P = "\<lambda>t. sc_index t = sc_index s"]) (simp_all add: scan_signal_def)

lemma emit_findings_index [simp]: "sc_index (emit_findings V i fs s) = sc_index s"
  by (induction V i fs s rule: emit_findings.induct) simp_all

text \<open>No check ever reports a critical finding, or one that can be remediated.\<close>

definition mild :: "finding \<Rightarrow> bool" where
  "mild f \<longleftrightarrow> fd_severity f \<in> {''info'', ''warning''} \<and> \<not> fd_auto_remediable f"

lemma policy_finding_mild: "sev \<in> {''info'', ''warning''} \<Longrightarrow> mild (policy_finding now st sev cat sub desc rec)"
  by (simp add: mild_def policy_finding_def)

lemma EvaluatePolicy_mild: "list_all mild (EvaluatePolicy F pol scope now)"
  by (simp add: EvaluatePolicy_def policy_finding_mild)

lemma CheckPerformance_mild: "list_all mild (CheckPerformance F pol now)"
  by (simp add: CheckPerformance_def Let_def policy_finding_mild)

lemma CheckRevocationHealth_mild: "list_all mild (CheckRevocationHealth now)"
  by (simp add: CheckRevocationHealth_def policy_finding_mild)

lemma remediate_mild: "list_all mild fs \<Longrightarrow> remediate_findings V i fs s = s"
  by (induction V i fs s rule: remediate_findings.induct) (auto simp: mild_def)

lemma scan_publish_index:
  "list_all mild (sr_findings report) \<Longrightarrow> sc_index (scan_publish V params report s) = sc_index s"
  by (simp add: scan_publish_def Let_def remediate_mild)

lemma ComplianceScanWorkflow_cases:
  obtains (failed) e s' where "ComplianceScanWorkflow V pol params s = (Inl e, s')" "sc_index s' = sc_index s"
      "\<not> (Completed \<in> set (take 3 (sv_evaluate V)) \<and> Completed \<in> set (take 3 (sv_performance V))
          \<and> Completed \<in> set (take 3 (sv_health V)))"
  | (reported) t1 t2 t3 fs s1 where
      "fs = EvaluatePolicy (sv_format V) pol (sp_scope params) t1 @ CheckPerformance (sv_format V) pol t2
         @ CheckRevocationHealth t3"
      "ComplianceScanWorkflow V pol params s =
         (Inr (report_of V fs), scan_publish V params (report_of V fs) s1)" "sc_index s1 = sc_index s"
      "Completed \<in> set (take 3 (sv_evaluate V))" "Completed \<in> set (take 3 (sv_performance V))"
      "Completed \<in> set (take 3 (sv_health V))"
proof -
  define s1 where "s1 = snd (ExecuteActivity (scan_signal V EventTypeComplianceScanStart ''urn:starfly:compliance''
    [(''scope'', JArr (map JStr (sp_scope params)))]) (sv_start V) s)"
  have idx: "sc_index s1 = sc_index s" by (simp add: s1_def)
  obtain i where e: "ExecuteActivity (\<lambda>i s. (Some (EvaluatePolicy (sv_format V) pol (sp_scope params)
      (sv_activity_clock V ''evaluate'' i)), s)) (sv_evaluate V) s1 =
    ((if Completed \<in> set (take 3 (sv_evaluate V)) then Some (EvaluatePolicy (sv_format V) pol (sp_scope params)
      (sv_activity_clock V ''evaluate'' i)) else None), s1)"
    by (rule ExecuteActivity_pure)
  obtain j where p: "ExecuteActivity (\<lambda>i s. (Some (CheckPerformance (sv_format V) pol
      (sv_activity_clock V ''performance'' i)), s)) (sv_performance V) s1 =
    ((if Completed \<in> set (take 3 (sv_performance V)) then Some (CheckPerformance (sv_format V) pol
      (sv_activity_clock V ''performance'' j)) else None), s1)"
    by (rule ExecuteActivity_pure)
  obtain k where h: "ExecuteActivity (\<lambda>i s. (Some (CheckRevocationHealth (sv_activity_clock V ''health'' i)), s))
      (sv_health V) s1 =
    ((if Completed \<in> set (take 3 (sv_health V)) then Some (CheckRevocationHealth
      (sv_activity_clock V ''health'' k)) else None), s1)"
    by (rule ExecuteActivity_pure)
  note eq = ComplianceScanWorkflow_def [of V pol params s, folded s1_def, unfolded Let_def e p h]
  show thesis
  proof (cases "Completed \<in> set (take 3 (sv_evaluate V)) \<and> Completed \<in> set (take 3 (sv_performance V))
      \<and> Completed \<in> set (take 3 (sv_health V))")
    case True
    then show thesis using eq p h by (intro reported [OF refl _ idx]) simp_all
  next
    case False
    then have "\<exists>er. ComplianceScanWorkflow V pol params s = (Inl er, s1)" using eq p h by simp
    with False idx failed show thesis by blast
  qed
qed

text \<open>
  A compliance scan changes no entry of the revocation index: with automatic remediation
  switched on or off, for every policy, every scope and every fate of its activities. None of
  the checks can report a critical finding, so the remediation step has nothing to act on.
\<close>

theorem scan_never_revokes: "sc_index (snd (ComplianceScanWorkflow V pol params s)) = sc_index s"
proof (cases rule: ComplianceScanWorkflow_cases [of V pol params s, case_names failed reported])
  case (reported t1 t2 t3 fs s1)
  have "list_all mild fs"
    by (simp add: reported(1) EvaluatePolicy_mild CheckPerformance_mild CheckRevocationHealth_mild)
  then show ?thesis
    by (simp add: reported(2,3) scan_publish_index report_of_def Let_def)
qed simp

text \<open>Adding up the violations of a list of findings.\<close>

definition violations :: "finding list \<Rightarrow> nat" where
  "violations fs = length (filter (\<lambda>f. fd_severity f = ''warning'' \<or> fd_severity f = ''critical'') fs)"

lemma violations_append [simp]: "violations (fs @ gs) = violations fs + violations gs"
  by (simp add: violations_def)

lemma violations_single [simp]:
  "violations [] = 0"
  "violations [policy_finding now st sev cat sub desc rec] = of_bool (sev = ''warning'' \<or> sev = ''critical'')"
  by (simp_all add: violations_def policy_finding_def)

lemma violations_EvaluatePolicy:
  "violations (EvaluatePolicy F pol scope now) =
     of_bool (cp_max_ttl pol = 0 \<or> cp_max_ttl pol > 10 * go_minute) + of_bool (cp_max_delegation_depth pol > 10)"
  by (simp add: EvaluatePolicy_def)

lemma violations_CheckPerformance:
  "violations (CheckPerformance F pol now) = of_bool (pt_exchange_p99_ms (cp_performance pol) = 0)
     + of_bool (pt_revocation_lookup_ms (cp_performance pol) = 0)
     + of_bool (pt_signal_cascade_s (cp_performance pol) = 0)"
  by (simp add: CheckPerformance_def Let_def)

lemma violations_CheckRevocationHealth: "violations (CheckRevocationHealth now) = 0"
  by (simp add: CheckRevocationHealth_def)

lemmas violations_checks =
  violations_EvaluatePolicy violations_CheckPerformance violations_CheckRevocationHealth

lemma report_of_sel:
  "sr_non_compliant (report_of V fs) = violations fs"
  "sr_compliant (report_of V fs) = int (length fs) - int (violations fs)"
  "sr_total_credentials (report_of V fs) = length fs"
  "violations fs \<le> length fs"
  by (simp_all add: report_of_def violations_def Let_def)

text \<open>
  The scan returns a report exactly if each of its three checks completes in one of its
  three attempts. The report then counts one violation for an unset or long token lifetime,
  one for a delegation depth above ten, and one for each unset performance threshold,
  whatever the scope; compliant and non-compliant checks add up to the total.
\<close>

theorem scan_report_exact:
  "((\<exists>report. fst (ComplianceScanWorkflow V pol params s) = Inr report) \<longleftrightarrow>
     Completed \<in> set (take 3 (sv_evaluate V)) \<and> Completed \<in> set (take 3 (sv_performance V))
     \<and> Completed \<in> set (take 3 (sv_health V)))
   \<and> (\<forall>report. fst (ComplianceScanWorkflow V pol params s) = Inr report \<longrightarrow>
     sr_non_compliant report = of_bool (cp_max_ttl pol = 0 \<or> cp_max_ttl pol > 10 * go_minute)
       + of_bool (cp_max_delegation_depth pol > 10) + of_bool (pt_exchange_p99_ms (cp_performance pol) = 0)
       + of_bool (pt_revocation_lookup_ms (cp_performance pol) = 0)
       + of_bool (pt_signal_cascade_s (cp_performance pol) = 0)
     \<and> sr_compliant report + int (sr_non_compliant report) = int (sr_total_credentials report)
     \<and> 0 \<le> sr_compliant report)"
proof (cases rule: ComplianceScanWorkflow_cases [of V pol params s, case_names failed reported])
  case (failed e s')
  then show ?thesis by auto
next
  case (reported t1 t2 t3 fs s1)
  have "violations fs = of_bool (cp_max_ttl pol = 0 \<or> cp_max_ttl pol > 10 * go_minute)
      + of_bool (cp_max_delegation_depth pol > 10) + of_bool (pt_exchange_p99_ms (cp_performance pol) = 0)
      + of_bool (pt_revocation_lookup_ms (cp_performance pol) = 0)
      + of_bool (pt_signal_cascade_s (cp_performance pol) = 0)"
    unfolding reported(1) by (simp add: violations_checks)
  moreover have "0 \<le> sr_compliant (report_of V fs)" "sr_compliant (report_of V fs)
      + int (sr_non_compliant (report_of V fs)) = int (sr_total_credentials (report_of V fs))"
    using report_of_sel(4) [of fs] by (simp_all add: report_of_sel)
  ultimately show ?thesis
    using reported(4-6) report_of_sel(1) [of V fs] unfolding reported(2) by auto
qed

definition demo_scan_env :: scan_env where
  "demo_scan_env = \<lparr>sv_unit_id = ''u'', sv_format = \<lparr>sf_duration = (\<lambda>d. ''5m0s''), sf_fixed1 = (\<lambda>r. ''15.0'')\<rparr>,
     sv_start = [NotRun, NotRun, NotRun], sv_evaluate = [NotRun, Completed], sv_performance = [Completed],
     sv_health = [ResultLost, NotRun, Completed], sv_finding = (\<lambda>i. [Completed]), sv_remediate = (\<lambda>i. [Completed]),
     sv_done = [Completed], sv_activity_clock = (\<lambda>a i. 1), sv_event_clock = (\<lambda>a i. 1), sv_started = 1,
     sv_finished = 2\<rparr>"

theorem scan_report_exact_witness:
  "\<exists>report. fst (ComplianceScanWorkflow demo_scan_env
       (DefaultCompliancePolicy\<lparr>cp_max_ttl := 0\<rparr>) DefaultScanParams \<lparr>sc_index = [], sc_emitted = []\<rparr>) = Inr report
     \<and> sr_non_compliant report = 1"
proof -
  have "Completed \<in> set (take 3 (sv_evaluate demo_scan_env))" "Completed \<in> set (take 3 (sv_performance demo_scan_env))"
    "Completed \<in> set (take 3 (sv_health demo_scan_env))" by (simp_all add: demo_scan_env_def)
  with scan_report_exact [of demo_scan_env "DefaultCompliancePolicy\<lparr>cp_max_ttl := 0\<rparr>" DefaultScanParams
      "\<lparr>sc_index = [], sc_emitted = []\<rparr>"]
  obtain report where "fst (ComplianceScanWorkflow demo_scan_env
       (DefaultCompliancePolicy\<lparr>cp_max_ttl := 0\<rparr>) DefaultScanParams \<lparr>sc_index = [], sc_emitted = []\<rparr>) = Inr report"
    "sr_non_compliant report = 1"
    by (auto simp: DefaultCompliancePolicy_def DefaultPerformanceThresholds_def)
  then show ?thesis by blast
qed

text \<open>
  A credential revoked by a workflow is reported as revoked, with the reason given, for
  as long as was asked for, or for a day if nothing was asked for, and no longer; the status
  of no other subject changes.
\<close>

theorem revoked_credential_reported:
  assumes "RevokeCredential now t req idx = (None, idx')" and "0 < now" and "0 \<le> rr_expires_in req"
  shows "CheckRevocationStatus u (rr_subject_id req) idx' =
      (if u \<le> time_add now (if rr_expires_in req = 0 then 24 * go_hour else rr_expires_in req)
       then \<lparr>rw_revoked = True, rw_reason = rr_reason req, rw_revoked_at = t\<rparr>
       else \<lparr>rw_revoked = False, rw_reason = '''', rw_revoked_at = 0\<rparr>)
    \<and> (\<forall>w. w \<noteq> rr_subject_id req \<longrightarrow> CheckRevocationStatus u w idx' = CheckRevocationStatus u w idx)"
proof -
  let ?x = "time_add now (if rr_expires_in req = 0 then 24 * go_hour else rr_expires_in req)"
  have "?x \<noteq> 0" using assms(2,3) by (simp add: time_add_def go_hour_def go_minute_def go_second_def)
  moreover have "idx' = AList.update (rr_subject_id req) \<lparr>re_subject_id = rr_subject_id req,
      re_reason = rr_reason req, re_revoked_at = t, re_expires_at = ?x, re_event_jti = ''''\<rparr> idx"
    using assms(1) by (auto simp: RevokeCredential_def Revoke_def Let_def split: if_splits)
  ultimately show ?thesis
    by (auto simp: CheckRevocationStatus_def IsRevoked_def entry_expired_def gomap_simps time_is_zero_def
        time_after_def)
qed

theorem revoked_credential_reported_witness:
  "rw_revoked (CheckRevocationStatus (go_hour + 1) ''w''
     (snd (RevokeCredential 1 2 \<lparr>rr_subject_id = ''w'', rr_reason = ''r'', rr_expires_in = go_hour\<rparr> [])))
   \<and> \<not> rw_revoked (CheckRevocationStatus (go_hour + 2) ''w''
     (snd (RevokeCredential 1 2 \<lparr>rr_subject_id = ''w'', rr_reason = ''r'', rr_expires_in = go_hour\<rparr> [])))"
proof -
  let ?q = "\<lparr>rr_subject_id = ''w'', rr_reason = ''r'', rr_expires_in = go_hour\<rparr>"
  obtain idx where idx: "RevokeCredential 1 2 ?q [] = (None, idx)"
    by (simp add: RevokeCredential_def Revoke_def Let_def)
  have "0 \<le> rr_expires_in ?q" by (simp add: go_hour_def go_minute_def go_second_def)
  from revoked_credential_reported [OF idx zero_less_one this, of "go_hour + 1"]
    revoked_credential_reported [OF idx zero_less_one this, of "go_hour + 2"] idx
  show ?thesis by (simp add: time_add_def go_hour_def go_minute_def go_second_def)
qed

end
