(* ===== verification/Soul_Manifest.thy ===== *)
theory Soul_Manifest
  imports Revocation Go_Http "HOL-Library.Word"
begin

text \<open>
  \<open>src/pkg/soul/manifest.go\<close>, \<open>anchor_fs.go\<close>, \<open>keeper.go\<close> and \<open>recovery.go\<close>: the manifest of a
  fabric's state, the file-system anchor it is written to, the keeper that takes the
  snapshots and the recovery at boot. The YAML library and the fate of each file operation
  are parameters (\<open>anchor_env\<close>); a failed write may leave the file untouched or torn. Metrics
  and the loop around \<open>Snapshot\<close> are left out.
\<close>

section \<open>The manifest\<close>

definition APIVersionV1 :: string where "APIVersionV1 = ''starfly.io/v1''"
definition KindManifest :: string where "KindManifest = ''SoulManifest''"

record soul_metadata =
  md_fabric_id :: string
  md_generated_at :: go_time
  md_sequence :: "64 word"

record signing_key_ref =
  sk_kms_key_id :: string
  sk_algorithm :: string
  sk_kid :: string
  sk_status :: string

record trust_domain_spec =
  td_name :: string
  td_type :: string
  td_issuer :: string
  td_jwks_url :: string
  td_enabled :: bool

record soul_revocations =
  sv_count :: int
  sv_hash :: string
  sv_exported_at :: go_time

record ssf_stream_spec =
  fs_stream_id :: string
  fs_transmitter :: string
  fs_events_requested :: "string list"

record federation_peer =
  fdp_fabric_id :: string
  fdp_last_seen :: go_time
  fdp_key_count :: int
  fdp_revocation_hash :: string

record audit_state =
  at_last_flushed_sequence :: "64 word"
  at_external_sink :: string

record soul_manifest =
  sm_api_version :: string
  sm_kind :: string
  sm_metadata :: soul_metadata
  sm_signing_keys :: "signing_key_ref list"
  sm_trust_domains :: "trust_domain_spec list"
  sm_revocations :: soul_revocations
  sm_ssf_streams :: "ssf_stream_spec list"
  sm_peers :: "federation_peer list"
  sm_audit :: audit_state

text \<open>The zero value of the struct, which \<open>NewManifest\<close> and the comparisons start from.\<close>

definition zero_manifest :: soul_manifest where
  "zero_manifest =
     \<lparr>sm_api_version = '''', sm_kind = '''',
      sm_metadata = \<lparr>md_fabric_id = '''', md_generated_at = 0, md_sequence = 0\<rparr>,
      sm_signing_keys = [], sm_trust_domains = [],
      sm_revocations = \<lparr>sv_count = 0, sv_hash = '''', sv_exported_at = 0\<rparr>,
      sm_ssf_streams = [], sm_peers = [],
      sm_audit = \<lparr>at_last_flushed_sequence = 0, at_external_sink = ''''\<rparr>\<rparr>"

definition NewManifest :: "go_time \<Rightarrow> string \<Rightarrow> 64 word \<Rightarrow> soul_manifest" where
  "NewManifest now fabricID seq =
     zero_manifest\<lparr>sm_api_version := APIVersionV1, sm_kind := KindManifest,
       sm_metadata := \<lparr>md_fabric_id = fabricID, md_generated_at = now, md_sequence = seq\<rparr>\<rparr>"

datatype manifest_error =
    ApiVersionRequired
  | UnsupportedApiVersion string
  | UnexpectedKind string
  | FabricIdMissing
  | SequenceZero
  | NoSigningKeyRefs
  | KeyKidRequired nat
  | KeyStatusRequired nat

fun validate_keys :: "nat \<Rightarrow> signing_key_ref list \<Rightarrow> manifest_error option" where
  "validate_keys i [] = None"
| "validate_keys i (k # ks) =
     (if sk_kid k = '''' then Some (KeyKidRequired i)
      else if sk_status k = '''' then Some (KeyStatusRequired i)
      else validate_keys (Suc i) ks)"

definition Manifest_Validate :: "soul_manifest \<Rightarrow> manifest_error option" where
  "Manifest_Validate m =
     (if sm_api_version m = '''' then Some ApiVersionRequired
      else if sm_api_version m \<noteq> APIVersionV1 then Some (UnsupportedApiVersion (sm_api_version m))
      else if sm_kind m \<noteq> KindManifest then Some (UnexpectedKind (sm_kind m))
      else if md_fabric_id (sm_metadata m) = '''' then Some FabricIdMissing
      else if md_sequence (sm_metadata m) = 0 then Some SequenceZero
      else if length (sm_signing_keys m) = 0 then Some NoSigningKeyRefs
      else validate_keys 0 (sm_signing_keys m))"

section \<open>Paths\<close>

text \<open>
  \<open>filepath.Clean\<close> of a slash-separated path: whether it is rooted, and its components.
  Appending a plain name to a clean path keeps it clean.
\<close>

type_synonym path = "bool \<times> string list"

fun clean_parts :: "bool \<Rightarrow> string list \<Rightarrow> string list \<Rightarrow> string list" where
  "clean_parts rooted [] acc = rev acc"
| "clean_parts rooted (c # cs) acc =
     (if c = '''' \<or> c = ''.'' then clean_parts rooted cs acc
      else if c = ''..'' then
        (case acc of
           [] \<Rightarrow> clean_parts rooted cs (if rooted then [] else [''..''])
         | a # acc' \<Rightarrow> clean_parts rooted cs (if a = ''..'' then ''..'' # acc else acc'))
      else clean_parts rooted cs (c # acc))"

definition path_clean :: "string \<Rightarrow> path" where
  "path_clean s = (has_prefix s ''/'', clean_parts (has_prefix s ''/'') (split_on (CHR ''/'') s) [])"

definition path_join :: "string \<Rightarrow> string \<Rightarrow> path" where
  "path_join a b = path_clean (if a = '''' then b else a @ ''/'' @ b)"

definition path_child :: "path \<Rightarrow> string \<Rightarrow> path" where
  "path_child p name = (fst p, snd p @ [name])"

fun join_parts :: "string list \<Rightarrow> string" where
  "join_parts [] = ''''"
| "join_parts [p] = p"
| "join_parts (p # ps) = p @ ''/'' @ join_parts ps"

definition path_string :: "path \<Rightarrow> string" where
  "path_string p = (if fst p then ''/'' @ join_parts (snd p)
     else if snd p = [] then ''.'' else join_parts (snd p))"

section \<open>The file-system anchor\<close>

type_synonym files = "(path, string) gomap"

datatype write_fate = Written | Untouched | Torn string

record anchor_env =
  an_mkdir_ok :: "path \<Rightarrow> bool"
  an_write :: "path \<Rightarrow> write_fate"
  an_read_error :: "path \<Rightarrow> string option"
  an_marshal :: "soul_manifest \<Rightarrow> string option"
  an_unmarshal :: "string \<Rightarrow> string + soul_manifest"

datatype anchor_error =
    CreatingAnchorDir
  | MarshalingManifest
  | WritingLatest
  | WritingArchive
  | NoManifest string string
  | ReadingManifest string
  | UnmarshalingManifest string
  | WritingRevocations
  | NoRevocations string string
  | ReadingRevocations string
  | WritingAudit

text \<open>The text of an error, as far as recovery looks at it.\<close>

fun anchor_error_text :: "anchor_error \<Rightarrow> string" where
  "anchor_error_text (NoManifest fid cause) = ''no manifest found for fabric '' @ fid @ '': '' @ cause"
| "anchor_error_text (ReadingManifest cause) = ''reading manifest: '' @ cause"
| "anchor_error_text (UnmarshalingManifest cause) = ''unmarshaling soul manifest: '' @ cause"
| "anchor_error_text (NoRevocations fid cause) = ''no revocation snapshot for fabric '' @ fid @ '': '' @ cause"
| "anchor_error_text (ReadingRevocations cause) = ''reading revocation snapshot: '' @ cause"
| "anchor_error_text _ = ''''"

definition os_write_file :: "anchor_env \<Rightarrow> path \<Rightarrow> string \<Rightarrow> files \<Rightarrow> bool \<times> files" where
  "os_write_file E p data fs =
     (case an_write E p of
        Written \<Rightarrow> (True, AList.update p data fs)
      | Untouched \<Rightarrow> (False, fs)
      | Torn x \<Rightarrow> (False, AList.update p x fs))"

text \<open>An error carries whether the file does not exist, and the text of the system.\<close>

definition os_read_file :: "anchor_env \<Rightarrow> path \<Rightarrow> files \<Rightarrow> (bool \<times> string) + string" where
  "os_read_file E p fs =
     (case map_of fs p of
        None \<Rightarrow> Inl (True, ''open '' @ path_string p @ '': no such file or directory'')
      | Some data \<Rightarrow>
          case an_read_error E p of Some t \<Rightarrow> Inl (False, t) | None \<Rightarrow> Inr data)"

definition fabricDir :: "string \<Rightarrow> string \<Rightarrow> path" where
  "fabricDir base fabricID = path_join base fabricID"

definition archiveDir :: "string \<Rightarrow> string \<Rightarrow> path" where
  "archiveDir base fabricID = path_child (fabricDir base fabricID) ''archive''"

definition manifest_path :: "string \<Rightarrow> string \<Rightarrow> path" where
  "manifest_path base fabricID = path_child (fabricDir base fabricID) ''soul-manifest.yaml''"

definition archive_path :: "string \<Rightarrow> string \<Rightarrow> 64 word \<Rightarrow> path" where
  "archive_path base fabricID seq =
     path_child (archiveDir base fabricID) (''soul-manifest-'' @ show_nat (unat seq) @ ''.yaml'')"

definition revocation_path :: "string \<Rightarrow> string \<Rightarrow> path" where
  "revocation_path base fabricID = path_child (fabricDir base fabricID) ''revocation-index.bin''"

definition WriteManifest ::
  "anchor_env \<Rightarrow> string \<Rightarrow> soul_manifest \<Rightarrow> files \<Rightarrow> anchor_error option \<times> files" where
  "WriteManifest E base manifest fs =
     (let fid = md_fabric_id (sm_metadata manifest) in
      if \<not> an_mkdir_ok E (archiveDir base fid) then (Some CreatingAnchorDir, fs)
      else case an_marshal E manifest of
        None \<Rightarrow> (Some MarshalingManifest, fs)
      | Some data \<Rightarrow>
          let (ok, fs1) = os_write_file E (manifest_path base fid) data fs
          in if \<not> ok then (Some WritingLatest, fs1)
             else let (ok2, fs2) = os_write_file E (archive_path base fid (md_sequence (sm_metadata manifest))) data fs1
                  in if \<not> ok2 then (Some WritingArchive, fs2) else (None, fs2))"

definition ReadManifest ::
  "anchor_env \<Rightarrow> string \<Rightarrow> string \<Rightarrow> files \<Rightarrow> anchor_error + soul_manifest" where
  "ReadManifest E base fabricID fs =
     (case os_read_file E (manifest_path base fabricID) fs of
        Inl (notExist, t) \<Rightarrow> Inl (if notExist then NoManifest fabricID t else ReadingManifest t)
      | Inr data \<Rightarrow>
          case an_unmarshal E data of Inl t \<Rightarrow> Inl (UnmarshalingManifest t) | Inr m \<Rightarrow> Inr m)"

definition WriteRevocationSnapshot ::
  "anchor_env \<Rightarrow> string \<Rightarrow> string \<Rightarrow> string \<Rightarrow> files \<Rightarrow> anchor_error option \<times> files" where
  "WriteRevocationSnapshot E base fabricID data fs =
     (if \<not> an_mkdir_ok E (fabricDir base fabricID) then (Some CreatingAnchorDir, fs)
      else let (ok, fs1) = os_write_file E (revocation_path base fabricID) data fs
           in if ok then (None, fs1) else (Some WritingRevocations, fs1))"

definition ReadRevocationSnapshot ::
  "anchor_env \<Rightarrow> string \<Rightarrow> string \<Rightarrow> files \<Rightarrow> anchor_error + string" where
  "ReadRevocationSnapshot E base fabricID fs =
     (case os_read_file E (revocation_path base fabricID) fs of
        Inl (notExist, t) \<Rightarrow> Inl (if notExist then NoRevocations fabricID t else ReadingRevocations t)
      | Inr data \<Rightarrow> Inr data)"

definition WriteAuditBuffer ::
  "anchor_env \<Rightarrow> string \<Rightarrow> string \<Rightarrow> string \<Rightarrow> files \<Rightarrow> anchor_error option \<times> files" where
  "WriteAuditBuffer E base fabricID data fs =
     (if \<not> an_mkdir_ok E (fabricDir base fabricID) then (Some CreatingAnchorDir, fs)
      else let (ok, fs1) = os_write_file E (path_child (fabricDir base fabricID) ''audit-buffer.jsonl'') data fs
           in if ok then (None, fs1) else (Some WritingAudit, fs1))"

record manifest_version =
  mv_sequence :: "64 word"
  mv_generated_at :: go_time
  mv_size :: nat

text \<open>
  The readable manifests of the archive directory, newest sequence first. The directory is
  read in the order of the files; the sort is taken to be stable.
\<close>

definition ListManifestVersions ::
  "anchor_env \<Rightarrow> string \<Rightarrow> string \<Rightarrow> int \<Rightarrow> files \<Rightarrow> manifest_version list" where
  "ListManifestVersions E base fabricID limit fs =
     (let dir = archiveDir base fabricID;
          entries = filter (\<lambda>(p, data). fst p = fst dir \<and> snd p \<noteq> [] \<and> butlast (snd p) = snd dir) fs;
          versions = List.map_filter (\<lambda>(p, data).
            if an_read_error E p \<noteq> None then None
            else case an_unmarshal E data of
              Inl _ \<Rightarrow> None
            | Inr m \<Rightarrow> Some \<lparr>mv_sequence = md_sequence (sm_metadata m),
                             mv_generated_at = md_generated_at (sm_metadata m), mv_size = length data\<rparr>) entries;
          ordered = rev (sort_key mv_sequence (rev versions))
      in if limit > 0 \<and> int (length ordered) > limit then take (nat limit) ordered else ordered)"

end
