(* ===== verification/Soul_Keeper.thy ===== *)
theory Soul_Keeper
  imports Soul_Manifest
begin

text \<open>
  \<open>src/pkg/soul/keeper.go\<close> and \<open>recovery.go\<close> over the \<open>Anchor\<close> interface (the record
  \<open>anchor\<close>), which \<open>FSAnchor\<close> provides. The locale \<open>soul_anchor\<close> states what the two rely on: what
  was written can be read back. The main results are that a snapshot can be recovered with
  its revocations, and the two ways in which the units of this repository cannot.
\<close>

section \<open>The keeper\<close>

record 's anchor =
  ac_write_manifest :: "soul_manifest \<Rightarrow> 's \<Rightarrow> anchor_error option \<times> 's"
  ac_read_manifest :: "string \<Rightarrow> 's \<Rightarrow> anchor_error + soul_manifest"
  ac_write_revocations :: "string \<Rightarrow> string \<Rightarrow> 's \<Rightarrow> anchor_error option \<times> 's"
  ac_read_revocations :: "string \<Rightarrow> 's \<Rightarrow> anchor_error + string"

definition FSAnchor :: "anchor_env \<Rightarrow> string \<Rightarrow> files anchor" where
  "FSAnchor E base =
     \<lparr>ac_write_manifest = WriteManifest E base, ac_read_manifest = ReadManifest E base,
      ac_write_revocations = WriteRevocationSnapshot E base,
      ac_read_revocations = ReadRevocationSnapshot E base\<rparr>"

record keeper_config =
  kc_fabric_id :: string
  kc_has_anchor :: bool
  kc_has_bus :: bool
  kc_interval :: duration
  kc_unit_id :: string
  kc_on_snapshot :: bool

record keeper =
  kp_fabric_id :: string
  kp_interval :: duration
  kp_unit_id :: string
  kp_has_bus :: bool
  kp_on_snapshot :: bool
  kp_sequence :: "64 word"
  kp_signing_keys :: "signing_key_ref list"
  kp_trust_domains :: "trust_domain_spec list"
  kp_audit_state :: audit_state

datatype keeper_error = KeeperFabricIdRequired | KeeperAnchorRequired

definition NewKeeper :: "keeper_config \<Rightarrow> keeper_error + keeper" where
  "NewKeeper cfg =
     (if kc_fabric_id cfg = '''' then Inl KeeperFabricIdRequired
      else if \<not> kc_has_anchor cfg then Inl KeeperAnchorRequired
      else Inr \<lparr>kp_fabric_id = kc_fabric_id cfg,
                kp_interval = (if kc_interval cfg \<le> 0 then 60 * go_second else kc_interval cfg),
                kp_unit_id = (if kc_unit_id cfg = '''' then ''unknown'' else kc_unit_id cfg),
                kp_has_bus = kc_has_bus cfg, kp_on_snapshot = kc_on_snapshot cfg, kp_sequence = 0,
                kp_signing_keys = [], kp_trust_domains = [],
                kp_audit_state = \<lparr>at_last_flushed_sequence = 0, at_external_sink = ''''\<rparr>\<rparr>)"

definition SetIdentity :: "signing_key_ref list \<Rightarrow> trust_domain_spec list \<Rightarrow> keeper \<Rightarrow> keeper" where
  "SetIdentity keys domains k = k\<lparr>kp_signing_keys := keys, kp_trust_domains := domains\<rparr>"

definition TrustDomains :: "keeper \<Rightarrow> trust_domain_spec list" where
  "TrustDomains k = kp_trust_domains k"

definition SigningKeys :: "keeper \<Rightarrow> signing_key_ref list" where
  "SigningKeys k = kp_signing_keys k"

definition SetAuditState :: "audit_state \<Rightarrow> keeper \<Rightarrow> keeper" where
  "SetAuditState st k = k\<lparr>kp_audit_state := st\<rparr>"

definition Keeper_Sequence :: "keeper \<Rightarrow> 64 word" where
  "Keeper_Sequence k = kp_sequence k"

text \<open>
  What a snapshot reaches: the store, and what is logged, notified and flashed. The
  revocation index is there or not; the clocks are read in the order of the code.
\<close>

record 's soul_world =
  sw_store :: 's
  sw_split_brain :: "(64 word \<times> 64 word) list"
  sw_notified :: "(string \<times> 64 word) list"
  sw_signals :: "signal list"

record soul_clock =
  sx_manifest :: go_time
  sx_exported :: go_time
  sx_export :: go_time

datatype snapshot_error =
    ExportingRevocations revocation_error
  | SnapshotRevocations anchor_error
  | SnapshotManifest anchor_error

definition split_brain_check :: "'s anchor \<Rightarrow> string \<Rightarrow> 64 word \<Rightarrow> 's soul_world \<Rightarrow> 's soul_world" where
  "split_brain_check A fid seq w =
     (case ac_read_manifest A fid (sw_store w) of
        Inl _ \<Rightarrow> w
      | Inr existing \<Rightarrow>
          if md_sequence (sm_metadata existing) \<ge> seq
          then w\<lparr>sw_split_brain := sw_split_brain w @ [(md_sequence (sm_metadata existing), seq)]\<rparr>
          else w)"

definition build_manifest ::
  "soul_clock \<Rightarrow> (snapshot_codec \<times> revocation_map) option \<Rightarrow> keeper \<Rightarrow> 64 word \<Rightarrow> soul_manifest" where
  "build_manifest ck revIndex k seq =
     (let m = (NewManifest (sx_manifest ck) (kp_fabric_id k) seq)
            \<lparr>sm_signing_keys := kp_signing_keys k, sm_trust_domains := kp_trust_domains k,
             sm_audit := kp_audit_state k\<rparr>
      in case revIndex of
           None \<Rightarrow> m
         | Some (C, idx) \<Rightarrow>
             m\<lparr>sm_revocations := \<lparr>sv_count = int (Revocation_Len idx), sv_hash = Revocation_Hash C idx,
                                   sv_exported_at = sx_exported ck\<rparr>\<rparr>)"

definition snapshot_revocations ::
  "'s anchor \<Rightarrow> soul_clock \<Rightarrow> (snapshot_codec \<times> revocation_map) option \<Rightarrow> string \<Rightarrow> 's
   \<Rightarrow> snapshot_error option \<times> 's" where
  "snapshot_revocations A ck revIndex fid s =
     (case revIndex of
        None \<Rightarrow> (None, s)
      | Some (C, idx) \<Rightarrow>
          case Revocation_Export C (sx_export ck) idx of
            Inl e \<Rightarrow> (Some (ExportingRevocations e), s)
          | Inr revData \<Rightarrow>
              case ac_write_revocations A fid revData s of
                (Some e, s') \<Rightarrow> (Some (SnapshotRevocations e), s')
              | (None, s') \<Rightarrow> (None, s'))"

definition announce :: "keeper \<Rightarrow> soul_manifest \<Rightarrow> 's soul_world \<Rightarrow> 's soul_world" where
  "announce k m w =
     (let seq = md_sequence (sm_metadata m);
          w1 = (if kp_on_snapshot k then w\<lparr>sw_notified := sw_notified w @ [(kp_fabric_id k, seq)]\<rparr> else w)
      in if kp_has_bus k
         then w1\<lparr>sw_signals := sw_signals w1 @
           [\<lparr>sg_type = ''fabric.soul'', sg_source = '''', sg_timestamp = 0,
             sg_payload = [(''fabric_id'', JStr (kp_fabric_id k)), (''sequence'', JNum (of_nat (unat seq))),
               (''revocation_count'', JNum (of_int (sv_count (sm_revocations m))))]\<rparr>]\<rparr>
         else w1)"

definition Snapshot ::
  "'s anchor \<Rightarrow> soul_clock \<Rightarrow> (snapshot_codec \<times> revocation_map) option \<Rightarrow> keeper \<Rightarrow> 's soul_world
   \<Rightarrow> snapshot_error option \<times> keeper \<times> 's soul_world" where
  "Snapshot A ck revIndex k0 w0 =
     (let k = k0\<lparr>kp_sequence := kp_sequence k0 + 1\<rparr>; seq = kp_sequence k;
          w1 = split_brain_check A (kp_fabric_id k) seq w0; manifest = build_manifest ck revIndex k seq
      in case snapshot_revocations A ck revIndex (kp_fabric_id k) (sw_store w1) of
           (Some e, s) \<Rightarrow> (Some e, k, w1\<lparr>sw_store := s\<rparr>)
         | (None, s) \<Rightarrow>
             case ac_write_manifest A manifest s of
               (Some e, s') \<Rightarrow> (Some (SnapshotManifest e), k, w1\<lparr>sw_store := s'\<rparr>)
             | (None, s') \<Rightarrow> (None, k, announce k manifest (w1\<lparr>sw_store := s'\<rparr>)))"

section \<open>Recovery\<close>

definition searchSubstr :: "string \<Rightarrow> string \<Rightarrow> bool" where
  "searchSubstr s sub \<longleftrightarrow>
     list_ex (\<lambda>i. take (length sub) (drop i s) = sub) [0 ..< Suc (length s - length sub)]"

definition containsSubstring :: "string \<Rightarrow> string \<Rightarrow> bool" where
  "containsSubstring s sub \<longleftrightarrow> length s \<ge> length sub \<and> searchSubstr s sub"

definition isNotFound :: "anchor_error \<Rightarrow> bool" where
  "isNotFound err \<longleftrightarrow>
     list_ex (containsSubstring (anchor_error_text err))
       [''not found'', ''no such file'', ''does not exist'', ''NoSuchKey'', ''not exist'']"

datatype recovery_mode = ModeRecovery | ModeFreshInstall

record recovery_result =
  rx_mode :: recovery_mode
  rx_manifest :: "soul_manifest option"
  rx_revocation_data :: "string option"
  rx_gap_seconds :: rat

datatype recovery_error =
    RecoverManifest anchor_error
  | ErrFabricMismatch string string
  | ManifestInvalid manifest_error
  | RecoverRevocations anchor_error

definition Recover :: "'s anchor \<Rightarrow> go_time \<Rightarrow> string \<Rightarrow> 's \<Rightarrow> recovery_error + recovery_result" where
  "Recover A now fabricID s =
     (case ac_read_manifest A fabricID s of
        Inl err \<Rightarrow>
          if isNotFound err
          then Inr \<lparr>rx_mode = ModeFreshInstall, rx_manifest = None, rx_revocation_data = None, rx_gap_seconds = 0\<rparr>
          else Inl (RecoverManifest err)
      | Inr manifest \<Rightarrow>
          if md_fabric_id (sm_metadata manifest) \<noteq> fabricID
          then Inl (ErrFabricMismatch (md_fabric_id (sm_metadata manifest)) fabricID)
          else case Manifest_Validate manifest of
            Some e \<Rightarrow> Inl (ManifestInvalid e)
          | None \<Rightarrow>
              let gap = of_int (time_sub now (md_generated_at (sm_metadata manifest))) / of_int go_second
              in case ac_read_revocations A fabricID s of
                   Inl err \<Rightarrow>
                     if isNotFound err
                     then Inr \<lparr>rx_mode = ModeRecovery, rx_manifest = Some manifest,
                               rx_revocation_data = None, rx_gap_seconds = gap\<rparr>
                     else Inl (RecoverRevocations err)
                 | Inr revData \<Rightarrow>
                     Inr \<lparr>rx_mode = ModeRecovery, rx_manifest = Some manifest,
                          rx_revocation_data = Some revData, rx_gap_seconds = gap\<rparr>)"

section \<open>The contract of an anchor\<close>

text \<open>
  \<open>A\<close> is the anchor of the unit that writes, \<open>B\<close> that of the unit that reads later: what is
  written without an error is read back, and writing the manifest does not disturb the
  revocations.
\<close>

locale soul_anchor =
  fixes A B :: "'s anchor"
  assumes manifest_read:
      "ac_write_manifest A m s = (None, s') \<Longrightarrow> ac_read_manifest B (md_fabric_id (sm_metadata m)) s' = Inr m"
    and revocations_read:
      "ac_write_revocations A fid d s = (None, s') \<Longrightarrow> ac_read_revocations B fid s' = Inr d"
    and manifest_keeps_revocations:
      "ac_read_revocations B fid (snd (ac_write_manifest A m s)) = ac_read_revocations B fid s"
begin

lemma snapshot_stored:
  assumes "Snapshot A ck revIndex k w = (None, k', w')"
  shows "ac_read_manifest B (kp_fabric_id k) (sw_store w') = Inr (build_manifest ck revIndex k' (kp_sequence k'))"
    and "k' = k\<lparr>kp_sequence := kp_sequence k + 1\<rparr>"
    and "\<And>C idx. revIndex = Some (C, idx) \<Longrightarrow> \<exists>data. Revocation_Export C (sx_export ck) idx = Inr data
      \<and> ac_read_revocations B (kp_fabric_id k) (sw_store w') = Inr data"
proof -
  let ?k = "k\<lparr>kp_sequence := kp_sequence k + 1\<rparr>"
  let ?m = "build_manifest ck revIndex ?k (kp_sequence ?k)"
  obtain s s' where 1: "snapshot_revocations A ck revIndex (kp_fabric_id k)
      (sw_store (split_brain_check A (kp_fabric_id k) (kp_sequence ?k) w)) = (None, s)"
    and 2: "ac_write_manifest A ?m s = (None, s')" and 3: "k' = ?k" and 4: "sw_store w' = s'"
    using assms
    by (auto simp: Snapshot_def Let_def announce_def split: prod.splits option.splits if_splits)
  show "k' = ?k" by (rule 3)
  have "md_fabric_id (sm_metadata ?m) = kp_fabric_id k"
    by (simp add: build_manifest_def NewManifest_def Let_def split: option.split)
  with manifest_read [OF 2] show "ac_read_manifest B (kp_fabric_id k) (sw_store w') =
      Inr (build_manifest ck revIndex k' (kp_sequence k'))" by (simp add: 3 4)
  fix C idx
  assume "revIndex = Some (C, idx)"
  with 1 obtain data where data: "Revocation_Export C (sx_export ck) idx = Inr data"
    "ac_write_revocations A (kp_fabric_id k) data
       (sw_store (split_brain_check A (kp_fabric_id k) (kp_sequence ?k) w)) = (None, s)"
    by (auto simp: snapshot_revocations_def split: sum.splits prod.splits option.splits)
  with revocations_read manifest_keeps_revocations [of "kp_fabric_id k" ?m s] 2
  show "\<exists>data. Revocation_Export C (sx_export ck) idx = Inr data
      \<and> ac_read_revocations B (kp_fabric_id k) (sw_store w') = Inr data" by (simp add: 4)
qed

lemma validate_built:
  assumes "kp_fabric_id k \<noteq> ''''" and "seq \<noteq> 0"
  shows "Manifest_Validate (build_manifest ck revIndex k seq) =
    (if kp_signing_keys k = [] then Some NoSigningKeyRefs else validate_keys 0 (kp_signing_keys k))"
  using assms
  by (simp add: Manifest_Validate_def build_manifest_def NewManifest_def APIVersionV1_def Let_def
      split: option.split)

lemma built_sel:
  "sm_signing_keys (build_manifest ck revIndex k seq) = kp_signing_keys k"
  "sm_trust_domains (build_manifest ck revIndex k seq) = kp_trust_domains k"
  "sm_audit (build_manifest ck revIndex k seq) = kp_audit_state k"
  "md_sequence (sm_metadata (build_manifest ck revIndex k seq)) = seq"
  "md_fabric_id (sm_metadata (build_manifest ck revIndex k seq)) = kp_fabric_id k"
  by (simp_all add: build_manifest_def NewManifest_def Let_def split: option.split)

lemma recovered:
  assumes "Snapshot A ck (Some (C, idx)) k w = (None, k', w')" and "kp_fabric_id k \<noteq> ''''"
    and "kp_sequence k + 1 \<noteq> 0" and "kp_signing_keys k \<noteq> []" and "validate_keys 0 (kp_signing_keys k) = None"
  shows "\<exists>res m data. Recover B now (kp_fabric_id k) (sw_store w') = Inr res
    \<and> rx_mode res = ModeRecovery \<and> rx_manifest res = Some m \<and> rx_revocation_data res = Some data
    \<and> sm_signing_keys m = kp_signing_keys k \<and> sm_trust_domains m = kp_trust_domains k
    \<and> sm_audit m = kp_audit_state k \<and> md_sequence (sm_metadata m) = kp_sequence k + 1
    \<and> Revocation_Export C (sx_export ck) idx = Inr data"
proof -
  let ?m = "build_manifest ck (Some (C, idx)) k' (kp_sequence k')"
  obtain data where data: "Revocation_Export C (sx_export ck) idx = Inr data"
    "ac_read_revocations B (kp_fabric_id k) (sw_store w') = Inr data"
    using snapshot_stored(3) [OF assms(1) refl] by blast
  note stored = snapshot_stored(1,2) [OF assms(1)]
  have "Manifest_Validate ?m = None" using assms(2-5) stored(2) by (simp add: validate_built)
  then show ?thesis
    using stored data by (simp add: Recover_def built_sel Let_def)
qed

lemma not_recovered:
  assumes "Snapshot A ck revIndex k w = (None, k', w')" and "kp_fabric_id k \<noteq> ''''"
    and "kp_sequence k + 1 \<noteq> 0" and "kp_signing_keys k = []"
  shows "Recover B now (kp_fabric_id k) (sw_store w') = Inl (ManifestInvalid NoSigningKeyRefs)"
  using snapshot_stored(1,2) [OF assms(1)] assms(2-4) by (simp add: Recover_def built_sel validate_built)

end

section \<open>The file system as an anchor\<close>

definition anchor_compatible :: "anchor_env \<Rightarrow> anchor_env \<Rightarrow> bool" where
  "anchor_compatible W E \<longleftrightarrow> (\<forall>m d. an_marshal W m = Some d \<longrightarrow> an_unmarshal E d = Inr m)
     \<and> (\<forall>p. an_read_error E p = None)"

lemma paths_distinct:
  "manifest_path base fid \<noteq> archive_path base fid seq"
  "manifest_path base fid \<noteq> revocation_path base fid'"
  "archive_path base fid seq \<noteq> revocation_path base fid'"
  by (auto simp: manifest_path_def archive_path_def revocation_path_def archiveDir_def path_child_def)

lemma os_write_file_ok:
  "os_write_file W p d fs = (True, fs') \<Longrightarrow> fs' = AList.update p d fs"
  by (auto simp: os_write_file_def split: write_fate.splits)

lemma os_write_file_other:
  "q \<noteq> p \<Longrightarrow> map_of (snd (os_write_file W p d fs)) q = map_of fs q"
  by (simp add: os_write_file_def gomap_simps split: write_fate.split)

lemma WriteManifest_ok:
  assumes "WriteManifest W base m fs = (None, fs')"
  obtains d where "an_marshal W m = Some d"
    "fs' = AList.update (archive_path base (md_fabric_id (sm_metadata m)) (md_sequence (sm_metadata m))) d
       (AList.update (manifest_path base (md_fabric_id (sm_metadata m))) d fs)"
  using assms
  by (auto simp: WriteManifest_def Let_def dest!: os_write_file_ok split: if_splits option.splits prod.splits)

lemma WriteManifest_other:
  assumes "q \<noteq> manifest_path base (md_fabric_id (sm_metadata m))"
    and "q \<noteq> archive_path base (md_fabric_id (sm_metadata m)) (md_sequence (sm_metadata m))"
  shows "map_of (snd (WriteManifest W base m fs)) q = map_of fs q"
  using assms by (simp add: WriteManifest_def Let_def case_prod_beta os_write_file_other split: option.split)

lemma os_read_file_cong: "map_of fs p = map_of fs' p \<Longrightarrow> os_read_file E p fs = os_read_file E p fs'"
  by (simp add: os_read_file_def)

locale fs_anchor =
  fixes W E :: anchor_env and base :: string
  assumes compatible: "anchor_compatible W E"

sublocale fs_anchor \<subseteq> soul_anchor "FSAnchor W base" "FSAnchor E base"
proof unfold_locales
  have readable: "an_read_error E p = None" for p
    using compatible unfolding anchor_compatible_def by blast
  fix m s s'
  assume "ac_write_manifest (FSAnchor W base) m s = (None, s')"
  then have "WriteManifest W base m s = (None, s')" by (simp add: FSAnchor_def)
  then obtain d where "an_marshal W m = Some d"
    "s' = AList.update (archive_path base (md_fabric_id (sm_metadata m)) (md_sequence (sm_metadata m))) d
       (AList.update (manifest_path base (md_fabric_id (sm_metadata m))) d s)"
    by (rule WriteManifest_ok)
  moreover from this(1) have "an_unmarshal E d = Inr m"
    using compatible unfolding anchor_compatible_def by blast
  ultimately show "ac_read_manifest (FSAnchor E base) (md_fabric_id (sm_metadata m)) s' = Inr m"
    by (simp add: FSAnchor_def ReadManifest_def os_read_file_def gomap_simps readable paths_distinct)
next
  fix fid d s s'
  assume "ac_write_revocations (FSAnchor W base) fid d s = (None, s')"
  then have "s' = AList.update (revocation_path base fid) d s"
    by (auto simp: FSAnchor_def WriteRevocationSnapshot_def Let_def dest!: os_write_file_ok
        split: if_splits prod.splits)
  moreover have "an_read_error E p = None" for p
    using compatible unfolding anchor_compatible_def by blast
  ultimately show "ac_read_revocations (FSAnchor E base) fid s' = Inr d"
    by (simp add: FSAnchor_def ReadRevocationSnapshot_def os_read_file_def gomap_simps)
next
  fix fid m s
  have "map_of (snd (WriteManifest W base m s)) (revocation_path base fid) = map_of s (revocation_path base fid)"
    by (rule WriteManifest_other) (use paths_distinct in metis)+
  then show "ac_read_revocations (FSAnchor E base) fid (snd (ac_write_manifest (FSAnchor W base) m s)) =
      ac_read_revocations (FSAnchor E base) fid s"
    by (simp add: FSAnchor_def ReadRevocationSnapshot_def cong: os_read_file_cong)
qed

context fs_anchor
begin

lemmas fs_recovered = recovered
lemmas fs_not_recovered = not_recovered
lemmas fs_stored = snapshot_stored

end

section \<open>Guarantees\<close>



definition demo_keeper :: "signing_key_ref list \<Rightarrow> keeper" where
  "demo_keeper keys = \<lparr>kp_fabric_id = ''fab'', kp_interval = 60 * go_second, kp_unit_id = ''u'', kp_has_bus = True,
     kp_on_snapshot = False, kp_sequence = 0, kp_signing_keys = keys, kp_trust_domains = [],
     kp_audit_state = \<lparr>at_last_flushed_sequence = 0, at_external_sink = ''''\<rparr>\<rparr>"

definition demo_soul_clock :: soul_clock where
  "demo_soul_clock = \<lparr>sx_manifest = 5, sx_exported = 5, sx_export = 5\<rparr>"

definition demo_index :: revocation_map where
  "demo_index = [(''a'', demo_entry ''a'' 0)]"

definition demo_world :: "files soul_world" where
  "demo_world = \<lparr>sw_store = [], sw_split_brain = [], sw_notified = [], sw_signals = []\<rparr>"

text \<open>An anchor on which one manifest can be encoded.\<close>

definition demo_anchor_env :: "soul_manifest \<Rightarrow> anchor_env" where
  "demo_anchor_env m = \<lparr>an_mkdir_ok = (\<lambda>p. True), an_write = (\<lambda>p. Written), an_read_error = (\<lambda>p. None),
     an_marshal = (\<lambda>x. if x = m then Some ''M'' else None),
     an_unmarshal = (\<lambda>d. if d = ''M'' then Inr m else Inl ''bad'')\<rparr>"

definition demo_soul :: "signing_key_ref list \<Rightarrow> soul_manifest" where
  "demo_soul keys = build_manifest demo_soul_clock (Some (demo_codec, demo_index)) (demo_keeper keys) 1"

lemma demo_compatible: "anchor_compatible (demo_anchor_env m) (demo_anchor_env m)"
  by (simp add: anchor_compatible_def demo_anchor_env_def)

interpretation demo_fs: fs_anchor "demo_anchor_env m" "demo_anchor_env m" base for m base
  by unfold_locales (rule demo_compatible)



text \<open>
  Without signing key references nothing can be recovered: a keeper set up without them
  takes snapshots without an error, and every recovery from such a snapshot is refused as
  invalid. The unit sets up its keeper in exactly this way.
\<close>

theorem keyless_snapshot_unrecoverable:
  assumes "anchor_compatible W E" and "NewKeeper cfg = Inr k0"
    and "k = (SetIdentity [] domains k0)\<lparr>kp_sequence := n\<rparr>" and "n + 1 \<noteq> 0"
    and "Snapshot (FSAnchor W base) ck revIndex k w = (None, k', w')"
  shows "Recover (FSAnchor E base) now (kc_fabric_id cfg) (sw_store w') = Inl (ManifestInvalid NoSigningKeyRefs)"
proof -
  have k: "kp_fabric_id k = kc_fabric_id cfg" "kc_fabric_id cfg \<noteq> ''''" "kp_signing_keys k = []"
    using assms(2,3) by (auto simp: NewKeeper_def SetIdentity_def split: if_splits)
  moreover have "kp_sequence k + 1 \<noteq> 0" using assms(3,4) by simp
  ultimately show ?thesis
    using fs_anchor.fs_not_recovered [OF fs_anchor.intro [OF assms(1)] assms(5), of now] by simp
qed

definition demo_keeper_config :: keeper_config where
  "demo_keeper_config = \<lparr>kc_fabric_id = ''fab'', kc_has_anchor = True, kc_has_bus = True, kc_interval = 0,
     kc_unit_id = ''u'', kc_on_snapshot = False\<rparr>"

theorem keyless_snapshot_unrecoverable_witness:
  "fst (Snapshot (FSAnchor (demo_anchor_env (demo_soul [])) ''/soul'') demo_soul_clock
     (Some (demo_codec, demo_index)) (demo_keeper []) demo_world) = None
   \<and> Recover (FSAnchor (demo_anchor_env (demo_soul [])) ''/soul'') 9 ''fab''
       (sw_store (snd (snd (Snapshot (FSAnchor (demo_anchor_env (demo_soul [])) ''/soul'') demo_soul_clock
         (Some (demo_codec, demo_index)) (demo_keeper []) demo_world)))) =
     Inl (ManifestInvalid NoSigningKeyRefs)"
proof -
  let ?s = "Snapshot (FSAnchor (demo_anchor_env (demo_soul [])) ''/soul'') demo_soul_clock
     (Some (demo_codec, demo_index)) (demo_keeper []) demo_world"
  have ok: "fst ?s = None" by code_simp
  have new: "NewKeeper demo_keeper_config = Inr (demo_keeper [])"
    by (simp add: NewKeeper_def demo_keeper_config_def demo_keeper_def)
  have k: "demo_keeper [] = (SetIdentity [] [] (demo_keeper []))\<lparr>kp_sequence := 0\<rparr>"
    by (simp add: SetIdentity_def demo_keeper_def)
  have "?s = (None, fst (snd ?s), snd (snd ?s))" by (simp add: ok [symmetric] del: One_nat_def)
  from keyless_snapshot_unrecoverable [OF demo_compatible new k _ this, of 9] ok
  show ?thesis by (simp add: demo_keeper_config_def)
qed

text \<open>
  A unit that restarts begins to count its snapshots from one again: its first snapshot
  replaces the stored manifest, whatever higher sequence that has, and the archived manifest
  with sequence one. The split-brain check notices this and only logs it.
\<close>

theorem restart_overwrites_manifest:
  assumes "anchor_compatible W E" and "NewKeeper cfg = Inr k0" and "k = SetIdentity keys domains k0"
    and "ReadManifest W base (kc_fabric_id cfg) (sw_store w) = Inr old" and "1 \<le> md_sequence (sm_metadata old)"
    and "Snapshot (FSAnchor W base) ck None k w = (None, k', w')"
  shows "\<exists>m. ReadManifest E base (kc_fabric_id cfg) (sw_store w') = Inr m \<and> md_sequence (sm_metadata m) = 1
    \<and> sw_split_brain w' = sw_split_brain w @ [(md_sequence (sm_metadata old), 1)]
    \<and> map_of (sw_store w') (archive_path base (kc_fabric_id cfg) 1) = an_marshal W m"
proof -
  have k: "kp_fabric_id k = kc_fabric_id cfg" "kp_sequence k = 0"
    using assms(2,3) by (auto simp: NewKeeper_def SetIdentity_def split: if_splits)
  note stored = fs_anchor.fs_stored(1,2) [OF fs_anchor.intro [OF assms(1)] assms(6)]
  let ?m = "build_manifest ck None k' (kp_sequence k')"
  have m: "md_fabric_id (sm_metadata ?m) = kc_fabric_id cfg" "md_sequence (sm_metadata ?m) = 1"
    using stored(2) k by (simp_all add: build_manifest_def NewManifest_def Let_def)
  have "\<exists>s s'. WriteManifest W base ?m s = (None, s') \<and> sw_store w' = s'"
    using assms(6) stored(2) k
    by (auto simp: Snapshot_def snapshot_revocations_def announce_def Let_def FSAnchor_def
        split: prod.splits option.splits if_splits)
  then have "map_of (sw_store w') (archive_path base (kc_fabric_id cfg) 1) = an_marshal W ?m"
    using m by (auto elim!: WriteManifest_ok simp: gomap_simps)
  moreover have "sw_split_brain w' = sw_split_brain w @ [(md_sequence (sm_metadata old), 1)]"
    using assms(4-6) k
    by (auto simp: Snapshot_def snapshot_revocations_def split_brain_check_def announce_def Let_def FSAnchor_def
        split: prod.splits option.splits if_splits)
  moreover have "ReadManifest E base (kc_fabric_id cfg) (sw_store w') = Inr ?m"
    using stored(1) k by (simp add: FSAnchor_def)
  ultimately show ?thesis using m(2) by blast
qed

definition demo_anchor :: "files anchor" where
  "demo_anchor = FSAnchor (demo_anchor_env (build_manifest demo_soul_clock None (demo_keeper []) 1)) ''/soul''"

definition demo_restarted :: "files soul_world" where
  "demo_restarted = snd (snd (Snapshot demo_anchor demo_soul_clock None (demo_keeper [])
     (snd (snd (Snapshot demo_anchor demo_soul_clock None (demo_keeper []) demo_world)))))"

theorem restart_overwrites_manifest_witness:
  "sw_split_brain demo_restarted = [(1, 1)]"
proof -
  let ?env = "demo_anchor_env (build_manifest demo_soul_clock None (demo_keeper []) 1)"
  let ?w = "snd (snd (Snapshot demo_anchor demo_soul_clock None (demo_keeper []) demo_world))"
  let ?s = "Snapshot demo_anchor demo_soul_clock None (demo_keeper []) ?w"
  let ?old = "build_manifest demo_soul_clock None (demo_keeper []) 1"
  have new: "NewKeeper demo_keeper_config = Inr (demo_keeper [])"
    by (simp add: NewKeeper_def demo_keeper_config_def demo_keeper_def)
  have k: "demo_keeper [] = SetIdentity [] [] (demo_keeper [])" by (simp add: SetIdentity_def demo_keeper_def)
  have old: "ReadManifest ?env ''/soul'' (kc_fabric_id demo_keeper_config) (sw_store ?w) = Inr ?old" by code_simp
  have "(1 :: 64 word) \<le> md_sequence (sm_metadata ?old) \<and> fst ?s = None \<and> md_sequence (sm_metadata ?old) = 1
    \<and> sw_split_brain ?w = []" by code_simp
  then have one: "1 \<le> md_sequence (sm_metadata ?old)" and ok: "fst ?s = None"
    and calc: "md_sequence (sm_metadata ?old) = 1" "sw_split_brain ?w = []" by blast+
  have "Snapshot (FSAnchor ?env ''/soul'') demo_soul_clock None (demo_keeper []) ?w =
      (None, fst (snd ?s), demo_restarted)"
    using ok by (simp add: demo_anchor_def [symmetric] demo_restarted_def prod_eq_iff)
  from restart_overwrites_manifest [OF demo_compatible new k old one this] show ?thesis
    unfolding calc by (elim exE conjE) simp
qed

end
