(* ===== verification/Soul_Converge.thy ===== *)
theory Soul_Converge
  imports Soul_Manifest
begin

text \<open>
  \<open>src/pkg/soul/diff.go\<close> and \<open>upgrade.go\<close>: the comparison of two manifests, and the plan of actions
  that is to take a fabric from one to the other. The four comparisons of keyed lists share
  the shape \<open>diff_by\<close>, with what differs between them as arguments; where the code walks a Go
  map, the order of the list stands for the order of the walk.
\<close>

section \<open>Differences\<close>

datatype diff_type = DiffAdded | DiffRemoved | DiffChanged

record diff_entry =
  de_type :: diff_type
  de_category :: string
  de_name :: string
  de_detail :: string

record soul_diff =
  sd_from_sequence :: "64 word"
  sd_to_sequence :: "64 word"
  sd_changes :: "diff_entry list"

text \<open>The map that a list is indexed by; later elements win.\<close>

definition index_by :: "('a \<Rightarrow> string) \<Rightarrow> 'a list \<Rightarrow> (string, 'a) gomap" where
  "index_by key xs = fold (\<lambda>x. AList.update (key x) x) xs []"

fun comma_join :: "string list \<Rightarrow> string" where
  "comma_join [] = ''''"
| "comma_join [s] = s"
| "comma_join (s # ss) = s @ '', '' @ comma_join ss"

definition diff_by ::
  "('a \<Rightarrow> string) \<Rightarrow> string \<Rightarrow> ('a \<Rightarrow> string) \<Rightarrow> ('a \<Rightarrow> 'a \<Rightarrow> string list) \<Rightarrow> 'a list \<Rightarrow> 'a list \<Rightarrow> diff_entry list" where
  "diff_by key category detail changes from to =
     concat (map (\<lambda>x.
       case map_of (index_by key from) (key x) of
         None \<Rightarrow> [\<lparr>de_type = DiffAdded, de_category = category, de_name = key x, de_detail = detail x\<rparr>]
       | Some old \<Rightarrow>
           if changes old x = [] then []
           else [\<lparr>de_type = DiffChanged, de_category = category, de_name = key x,
                  de_detail = comma_join (changes old x)\<rparr>]) to)
     @ map (\<lambda>x. \<lparr>de_type = DiffRemoved, de_category = category, de_name = key x, de_detail = detail x\<rparr>)
         (filter (\<lambda>x. \<not> gomap_has (index_by key to) (key x)) from)"

definition show_bool :: "bool \<Rightarrow> string" where
  "show_bool b = (if b then ''true'' else ''false'')"

definition field_change :: "string \<Rightarrow> string \<Rightarrow> string \<Rightarrow> string list" where
  "field_change name old new = (if old \<noteq> new then [name @ '': '' @ old @ '' -> '' @ new] else [])"

definition diffTrustDomains :: "trust_domain_spec list \<Rightarrow> trust_domain_spec list \<Rightarrow> diff_entry list" where
  "diffTrustDomains =
     diff_by td_name ''trust_domain'' (\<lambda>td. ''type: '' @ td_type td @ '', issuer: '' @ td_issuer td)
       (\<lambda>old td. field_change ''issuer'' (td_issuer old) (td_issuer td)
          @ field_change ''type'' (td_type old) (td_type td)
          @ field_change ''enabled'' (show_bool (td_enabled old)) (show_bool (td_enabled td))
          @ field_change ''jwksUrl'' (td_jwks_url old) (td_jwks_url td))"

definition diffSigningKeys :: "signing_key_ref list \<Rightarrow> signing_key_ref list \<Rightarrow> diff_entry list" where
  "diffSigningKeys =
     diff_by sk_kid ''signing_key'' (\<lambda>k. ''algorithm: '' @ sk_algorithm k @ '', status: '' @ sk_status k)
       (\<lambda>old k. field_change ''status'' (sk_status old) (sk_status k)
          @ field_change ''kmsKeyId'' (sk_kms_key_id old) (sk_kms_key_id k)
          @ field_change ''algorithm'' (sk_algorithm old) (sk_algorithm k))"

definition diffSSFStreams :: "ssf_stream_spec list \<Rightarrow> ssf_stream_spec list \<Rightarrow> diff_entry list" where
  "diffSSFStreams =
     diff_by fs_stream_id ''ssf_stream'' (\<lambda>s. ''transmitter: '' @ fs_transmitter s) (\<lambda>old s. [])"

definition diffFederationPeers :: "federation_peer list \<Rightarrow> federation_peer list \<Rightarrow> diff_entry list" where
  "diffFederationPeers =
     diff_by fdp_fabric_id ''federation_peer'' (\<lambda>p. ''keyCount: '' @ show_int (fdp_key_count p))
       (\<lambda>old p. (if fdp_key_count old \<noteq> fdp_key_count p
                  then [''keyCount: '' @ show_int (fdp_key_count old) @ '' -> '' @ show_int (fdp_key_count p)] else [])
          @ (if fdp_revocation_hash old \<noteq> fdp_revocation_hash p then [''revocationHash changed''] else []))"

definition signed_delta :: "int \<Rightarrow> string" where
  "signed_delta d = (if d < 0 then '''' else ''+'') @ show_int d"

definition diffRevocations :: "soul_revocations \<Rightarrow> soul_revocations \<Rightarrow> diff_entry list" where
  "diffRevocations from to =
     (if sv_count from \<noteq> sv_count to
      then [\<lparr>de_type = DiffChanged, de_category = ''revocation'', de_name = ''count'',
             de_detail = ''count '' @ show_int (sv_count from) @ '' -> '' @ show_int (sv_count to)
               @ '' ('' @ signed_delta (sv_count to - sv_count from) @ '')''\<rparr>]
      else [])"

text \<open>The difference of the sequence numbers is taken in 64-bit two's complement.\<close>

definition diffAudit :: "audit_state \<Rightarrow> audit_state \<Rightarrow> diff_entry list" where
  "diffAudit from to =
     (if at_last_flushed_sequence from \<noteq> at_last_flushed_sequence to
      then [\<lparr>de_type = DiffChanged, de_category = ''audit'', de_name = ''sequence'',
             de_detail = ''sequence '' @ show_nat (unat (at_last_flushed_sequence from)) @ '' -> ''
               @ show_nat (unat (at_last_flushed_sequence to)) @ '' (''
               @ signed_delta (sint (at_last_flushed_sequence to - at_last_flushed_sequence from)) @ '')''\<rparr>]
      else [])"

definition diffMetadata :: "soul_metadata \<Rightarrow> soul_metadata \<Rightarrow> diff_entry list" where
  "diffMetadata from to =
     (if md_fabric_id from \<noteq> '''' \<and> md_fabric_id to \<noteq> '''' \<and> md_fabric_id from \<noteq> md_fabric_id to
      then [\<lparr>de_type = DiffChanged, de_category = ''metadata'', de_name = ''fabricId'',
             de_detail = ''WARNING: fabricId changed: '' @ md_fabric_id from @ '' -> '' @ md_fabric_id to\<rparr>]
      else [])"

definition Diff :: "soul_manifest option \<Rightarrow> soul_manifest option \<Rightarrow> soul_diff" where
  "Diff from0 to0 =
     (let seq = (\<lambda>m. case m of None \<Rightarrow> 0 | Some x \<Rightarrow> md_sequence (sm_metadata x));
          from = (case from0 of None \<Rightarrow> zero_manifest | Some m \<Rightarrow> m);
          to = (case to0 of None \<Rightarrow> zero_manifest | Some m \<Rightarrow> m)
      in \<lparr>sd_from_sequence = seq from0, sd_to_sequence = seq to0,
          sd_changes =
            (if from0 = None \<and> to0 = None then []
             else diffMetadata (sm_metadata from) (sm_metadata to)
               @ diffTrustDomains (sm_trust_domains from) (sm_trust_domains to)
               @ diffSigningKeys (sm_signing_keys from) (sm_signing_keys to)
               @ diffSSFStreams (sm_ssf_streams from) (sm_ssf_streams to)
               @ diffFederationPeers (sm_peers from) (sm_peers to)
               @ diffRevocations (sm_revocations from) (sm_revocations to)
               @ diffAudit (sm_audit from) (sm_audit to))\<rparr>)"

definition Diff_IsEmpty :: "soul_diff \<Rightarrow> bool" where
  "Diff_IsEmpty d \<longleftrightarrow> length (sd_changes d) = 0"

definition diff_prefix :: "diff_type \<Rightarrow> string" where
  "diff_prefix t = (case t of DiffAdded \<Rightarrow> ''+'' | DiffRemoved \<Rightarrow> ''-'' | DiffChanged \<Rightarrow> ''~'')"

definition Diff_Format :: "soul_diff \<Rightarrow> string" where
  "Diff_Format d =
     (if Diff_IsEmpty d then ''No changes.''
      else ''Changes: seq '' @ show_nat (unat (sd_from_sequence d)) @ '' -> seq ''
        @ show_nat (unat (sd_to_sequence d)) @ [CHR 0x0A]
        @ concat (map (\<lambda>c. ''  '' @ diff_prefix (de_type c) @ '' '' @ de_category c @ '': '' @ de_name c
            @ (if de_detail c \<noteq> '''' then '' ('' @ de_detail c @ '')'' else '''') @ [CHR 0x0A]) (sd_changes d)))"

section \<open>Convergence\<close>

datatype action_type =
    ActionAddTrustDomain
  | ActionRemoveTrustDomain
  | ActionUpdateTrustDomain
  | ActionRotateSigningKey
  | ActionImportRevocations
  | ActionResetRevocations
  | ActionAddSSFStream
  | ActionRemoveSSFStream
  | ActionAddPeer
  | ActionRemovePeer

record convergence_action =
  co_type :: action_type
  co_description :: string
  co_target :: string

text \<open>\<open>%q\<close> of a name without quotes, backslashes and unprintable characters.\<close>

definition go_quote :: "string \<Rightarrow> string" where
  "go_quote s = [CHR 0x22] @ s @ [CHR 0x22]"

definition target_action :: "action_type \<Rightarrow> string \<Rightarrow> string \<Rightarrow> convergence_action" where
  "target_action ty what name = \<lparr>co_type = ty, co_description = what @ '' '' @ go_quote name, co_target = name\<rparr>"

definition domainChanged :: "trust_domain_spec \<Rightarrow> trust_domain_spec \<Rightarrow> bool" where
  "domainChanged a b \<longleftrightarrow> td_enabled a \<noteq> td_enabled b \<or> td_issuer a \<noteq> td_issuer b
     \<or> td_jwks_url a \<noteq> td_jwks_url b \<or> td_type a \<noteq> td_type b"

definition of_manifest :: "(soul_manifest \<Rightarrow> 'a list) \<Rightarrow> soul_manifest option \<Rightarrow> 'a list" where
  "of_manifest sel m = (case m of None \<Rightarrow> [] | Some x \<Rightarrow> sel x)"

definition convergeTrustDomains ::
  "soul_manifest option \<Rightarrow> soul_manifest option \<Rightarrow> convergence_action list" where
  "convergeTrustDomains current spec =
     (let currentDomains = index_by td_name (of_manifest sm_trust_domains current);
          specDomains = index_by td_name (of_manifest sm_trust_domains spec)
      in concat (map (\<lambda>(name, specDomain).
           case map_of currentDomains name of
             None \<Rightarrow> [target_action ActionAddTrustDomain ''add trust domain'' name]
           | Some curDomain \<Rightarrow>
               if domainChanged curDomain specDomain
               then [target_action ActionUpdateTrustDomain ''update trust domain'' name] else []) specDomains)
         @ map (\<lambda>(name, _). target_action ActionRemoveTrustDomain ''remove trust domain'' name)
             (filter (\<lambda>(name, _). \<not> gomap_has specDomains name) currentDomains))"

definition convergeSigningKeys ::
  "soul_manifest option \<Rightarrow> soul_manifest option \<Rightarrow> convergence_action list" where
  "convergeSigningKeys current spec =
     (let currentKeys = index_by sk_kid (of_manifest sm_signing_keys current);
          specKeys = index_by sk_kid (of_manifest sm_signing_keys spec)
      in map (\<lambda>(kid, specKey).
           \<lparr>co_type = ActionRotateSigningKey,
            co_description = ''rotate signing key '' @ go_quote kid @ '' (status: '' @ sk_status specKey @ '')'',
            co_target = kid\<rparr>)
         (filter (\<lambda>(kid, specKey).
            case map_of currentKeys kid of
              None \<Rightarrow> True
            | Some curKey \<Rightarrow> sk_kms_key_id curKey \<noteq> sk_kms_key_id specKey \<or> sk_status curKey \<noteq> sk_status specKey)
          specKeys))"

definition converge_ids ::
  "action_type \<Rightarrow> string \<Rightarrow> action_type \<Rightarrow> string \<Rightarrow> (string, 'a) gomap \<Rightarrow> (string, 'a) gomap
   \<Rightarrow> convergence_action list" where
  "converge_ids add addWhat remove removeWhat current spec =
     map (\<lambda>(i, _). target_action add addWhat i) (filter (\<lambda>(i, _). \<not> gomap_has current i) spec)
     @ map (\<lambda>(i, _). target_action remove removeWhat i) (filter (\<lambda>(i, _). \<not> gomap_has spec i) current)"

definition convergeSSFStreams ::
  "soul_manifest option \<Rightarrow> soul_manifest option \<Rightarrow> convergence_action list" where
  "convergeSSFStreams current spec =
     converge_ids ActionAddSSFStream ''add SSF stream'' ActionRemoveSSFStream ''remove SSF stream''
       (index_by fs_stream_id (of_manifest sm_ssf_streams current))
       (index_by fs_stream_id (of_manifest sm_ssf_streams spec))"

definition convergeFederationPeers ::
  "soul_manifest option \<Rightarrow> soul_manifest option \<Rightarrow> convergence_action list" where
  "convergeFederationPeers current spec =
     converge_ids ActionAddPeer ''add federation peer'' ActionRemovePeer ''remove federation peer''
       (index_by fdp_fabric_id (of_manifest sm_peers current))
       (index_by fdp_fabric_id (of_manifest sm_peers spec))"

text \<open>The options reduce to whether revocations are imported, which they are by default.\<close>

definition Converge ::
  "bool \<Rightarrow> soul_manifest option \<Rightarrow> soul_manifest option \<Rightarrow> convergence_action list" where
  "Converge importRevocations current spec =
     convergeTrustDomains current spec @ convergeSigningKeys current spec
     @ convergeSSFStreams current spec @ convergeFederationPeers current spec
     @ (if importRevocations
        then case current of
               None \<Rightarrow> []
             | Some c \<Rightarrow>
                 if sv_count (sm_revocations c) > 0
                 then [\<lparr>co_type = ActionImportRevocations,
                        co_description = ''import '' @ show_int (sv_count (sm_revocations c))
                          @ '' revocations from snapshot'', co_target = ''''\<rparr>]
                 else []
        else [\<lparr>co_type = ActionResetRevocations,
               co_description = ''reset revocation index (clean start)'', co_target = ''''\<rparr>])"

definition Plan_IsEmpty :: "convergence_action list \<Rightarrow> bool" where
  "Plan_IsEmpty actions \<longleftrightarrow> length actions = 0"

section \<open>Keyed lists\<close>

lemma map_of_index_by_fold:
  "map_of (fold (\<lambda>x. AList.update (key x) x) xs m) k =
     (case filter (\<lambda>x. key x = k) xs of [] \<Rightarrow> map_of m k | ys \<Rightarrow> Some (last ys))"
  by (induction xs arbitrary: m) (auto simp: gomap_simps split: list.split)

lemma map_of_index_by:
  "map_of (index_by key xs) k = (case filter (\<lambda>x. key x = k) xs of [] \<Rightarrow> None | ys \<Rightarrow> Some (last ys))"
  by (simp add: index_by_def map_of_index_by_fold split: list.split)

lemma distinct_keyD: "distinct (map key xs) \<Longrightarrow> x \<in> set xs \<Longrightarrow> filter (\<lambda>y. key y = key x) xs = [x]"
  by (induction xs) (auto simp: filter_empty_conv image_iff)

lemma map_of_index_by_in [simp]:
  "distinct (map key xs) \<Longrightarrow> x \<in> set xs \<Longrightarrow> map_of (index_by key xs) (key x) = Some x"
  by (simp add: map_of_index_by distinct_keyD)

lemma map_of_index_by_Some:
  "map_of (index_by key xs) k = Some x \<Longrightarrow> x \<in> set xs \<and> key x = k"
proof -
  assume "map_of (index_by key xs) k = Some x"
  then have "x = last (filter (\<lambda>x. key x = k) xs)" "filter (\<lambda>x. key x = k) xs \<noteq> []"
    by (auto simp: map_of_index_by split: list.splits)
  then have "x \<in> set (filter (\<lambda>x. key x = k) xs)" using last_in_set by metis
  then show ?thesis by simp
qed

lemma index_by_has [simp]: "gomap_has (index_by key xs) k \<longleftrightarrow> k \<in> key ` set xs"
  by (auto simp: gomap_has_def map_of_index_by filter_empty_conv split: list.split)
    (metis (mono_tags, lifting) filter_eq_ConsD list.set_intros(1) mem_Collect_eq set_filter UnCI set_append image_eqI)

lemma index_by_keys:
  "distinct (map fst (index_by key xs))" "fst ` set (index_by key xs) = key ` set xs"
proof -
  have dist: "distinct (map fst m) \<Longrightarrow> distinct (map fst (fold (\<lambda>x. AList.update (key x) x) xs m))" for m
    by (induction xs arbitrary: m) (simp_all add: distinct_update)
  then show "distinct (map fst (index_by key xs))" by (simp add: index_by_def)
  have "k \<in> fst ` set (index_by key xs) \<longleftrightarrow> gomap_has (index_by key xs) k" for k
    by (simp add: gomap_has_def map_of_eq_None_iff)
  then show "fst ` set (index_by key xs) = key ` set xs" by auto
qed

lemma diff_by_Nil_iff:
  "diff_by key cat detail changes from to = [] \<longleftrightarrow>
     (\<forall>x \<in> set to. \<exists>old. map_of (index_by key from) (key x) = Some old \<and> changes old x = [])
     \<and> key ` set from \<subseteq> key ` set to"
proof -
  have "(case o' of None \<Rightarrow> [a] | Some old \<Rightarrow> if changes old x = [] then [] else [b old]) = [] \<longleftrightarrow>
      (\<exists>old. o' = Some old \<and> changes old x = [])" for o' x and a :: diff_entry and b
    by (simp split: option.split)
  note each = this
  have "filter (\<lambda>x. \<not> gomap_has (index_by key to) (key x)) from = [] \<longleftrightarrow> key ` set from \<subseteq> key ` set to"
    by (auto simp: filter_empty_conv)
  then show ?thesis by (simp add: diff_by_def each)
qed

text \<open>When the changes detect every difference, two lists with distinct keys differ iff their sets do.\<close>

lemma diff_by_exact:
  assumes "distinct (map key from)" and "distinct (map key to)"
    and "\<And>old x. key old = key x \<Longrightarrow> changes old x = [] \<longleftrightarrow> f old = f x"
    and "\<And>old x. f old = f x \<Longrightarrow> key old = key x"
  shows "diff_by key cat detail changes from to = [] \<longleftrightarrow> f ` set from = f ` set to"
proof
  assume L: "diff_by key cat detail changes from to = []"
  have "\<exists>old \<in> set from. f old = f x" if "x \<in> set to" for x
  proof -
    from L that obtain old where "map_of (index_by key from) (key x) = Some old" "changes old x = []"
      by (auto simp: diff_by_Nil_iff)
    then show ?thesis using map_of_index_by_Some [of key "from" "key x" old] assms(3) by blast
  qed
  moreover have "\<exists>x \<in> set to. f old = f x" if "old \<in> set from" for old
  proof -
    from L that have "key old \<in> key ` set to" by (auto simp: diff_by_Nil_iff)
    then obtain x where x: "x \<in> set to" "key x = key old" by (metis imageE)
    with L obtain old' where "map_of (index_by key from) (key x) = Some old'" "changes old' x = []"
      by (auto simp: diff_by_Nil_iff)
    moreover from this(1) x that assms(1) have "old' = old" by simp
    ultimately show ?thesis using x assms(3) by auto
  qed
  ultimately show "f ` set from = f ` set to" by (auto simp: image_iff) metis
next
  assume R: "f ` set from = f ` set to"
  have "\<exists>old. map_of (index_by key from) (key x) = Some old \<and> changes old x = []" if "x \<in> set to" for x
  proof -
    from R that obtain old where "old \<in> set from" "f old = f x" by (metis imageE imageI)
    moreover from this assms(4) have "key old = key x" by blast
    ultimately show ?thesis using assms(1,3) map_of_index_by_in by metis
  qed
  moreover have "key ` set from \<subseteq> key ` set to"
  proof
    fix k assume "k \<in> key ` set from"
    then obtain old where "old \<in> set from" "k = key old" by blast
    with R obtain x where x: "x \<in> set to" "f old = f x" by (metis imageE imageI)
    have "key x = k" using assms(4) [OF x(2)] \<open>k = key old\<close> by simp
    with x(1) show "k \<in> key ` set to" by blast
  qed
  ultimately show "diff_by key cat detail changes from to = []" by (simp add: diff_by_Nil_iff)
qed

lemma field_change_Nil [simp]: "field_change n a b = [] \<longleftrightarrow> a = b"
  by (simp add: field_change_def)

lemma show_bool_inj [simp]: "show_bool a = show_bool b \<longleftrightarrow> a = b"
  by (simp add: show_bool_def)

section \<open>Guarantees\<close>

text \<open>The manifests that the comparison is meant for: no name occurs twice.\<close>

definition manifest_names_ok :: "soul_manifest \<Rightarrow> bool" where
  "manifest_names_ok m \<longleftrightarrow> distinct (map td_name (sm_trust_domains m)) \<and> distinct (map sk_kid (sm_signing_keys m))
     \<and> distinct (map fs_stream_id (sm_ssf_streams m)) \<and> distinct (map fdp_fabric_id (sm_peers m))"

lemma diff_domains_exact:
  assumes "distinct (map td_name xs)" and "distinct (map td_name ys)"
  shows "diffTrustDomains xs ys = [] \<longleftrightarrow> set xs = set ys"
  unfolding diffTrustDomains_def
  by (subst diff_by_exact [OF assms, where f = "\<lambda>x. x"]) auto

lemma diff_keys_exact:
  assumes "distinct (map sk_kid xs)" and "distinct (map sk_kid ys)"
  shows "diffSigningKeys xs ys = [] \<longleftrightarrow> set xs = set ys"
  unfolding diffSigningKeys_def
  by (subst diff_by_exact [OF assms, where f = "\<lambda>x. x"]) auto

lemma diff_streams_exact:
  assumes "distinct (map fs_stream_id xs)" and "distinct (map fs_stream_id ys)"
  shows "diffSSFStreams xs ys = [] \<longleftrightarrow> fs_stream_id ` set xs = fs_stream_id ` set ys"
  unfolding diffSSFStreams_def
  by (subst diff_by_exact [OF assms, where f = fs_stream_id]) auto

lemma diff_peers_exact:
  assumes "distinct (map fdp_fabric_id xs)" and "distinct (map fdp_fabric_id ys)"
  shows "diffFederationPeers xs ys = [] \<longleftrightarrow>
    (\<lambda>p. (fdp_fabric_id p, fdp_key_count p, fdp_revocation_hash p)) ` set xs =
    (\<lambda>p. (fdp_fabric_id p, fdp_key_count p, fdp_revocation_hash p)) ` set ys"
  unfolding diffFederationPeers_def
  by (subst diff_by_exact [OF assms, where f = "\<lambda>p. (fdp_fabric_id p, fdp_key_count p, fdp_revocation_hash p)"]) auto

text \<open>
  C33. The comparison of two manifests is exact: it reports no change if and only if the
  fabrics do not contradict each other, trust domains and signing keys are the same up to
  order, the same streams exist, the peers agree in identifier, key count and revocation
  hash, and revocation count and audit position are equal. Any other difference is reported.
\<close>

theorem diff_empty_iff:
  assumes "manifest_names_ok a" and "manifest_names_ok b"
  shows "Diff_IsEmpty (Diff (Some a) (Some b)) \<longleftrightarrow>
    (md_fabric_id (sm_metadata a) = '''' \<or> md_fabric_id (sm_metadata b) = ''''
       \<or> md_fabric_id (sm_metadata a) = md_fabric_id (sm_metadata b))
    \<and> set (sm_trust_domains a) = set (sm_trust_domains b)
    \<and> set (sm_signing_keys a) = set (sm_signing_keys b)
    \<and> fs_stream_id ` set (sm_ssf_streams a) = fs_stream_id ` set (sm_ssf_streams b)
    \<and> (\<lambda>p. (fdp_fabric_id p, fdp_key_count p, fdp_revocation_hash p)) ` set (sm_peers a) =
      (\<lambda>p. (fdp_fabric_id p, fdp_key_count p, fdp_revocation_hash p)) ` set (sm_peers b)
    \<and> sv_count (sm_revocations a) = sv_count (sm_revocations b)
    \<and> at_last_flushed_sequence (sm_audit a) = at_last_flushed_sequence (sm_audit b)"
proof -
  have "Diff_IsEmpty (Diff (Some a) (Some b)) \<longleftrightarrow> diffMetadata (sm_metadata a) (sm_metadata b) = []
      \<and> diffTrustDomains (sm_trust_domains a) (sm_trust_domains b) = []
      \<and> diffSigningKeys (sm_signing_keys a) (sm_signing_keys b) = []
      \<and> diffSSFStreams (sm_ssf_streams a) (sm_ssf_streams b) = []
      \<and> diffFederationPeers (sm_peers a) (sm_peers b) = []
      \<and> diffRevocations (sm_revocations a) (sm_revocations b) = []
      \<and> diffAudit (sm_audit a) (sm_audit b) = []"
    by (simp add: Diff_IsEmpty_def Diff_def Let_def)
  with assms show ?thesis
    by (simp add: manifest_names_ok_def diff_domains_exact diff_keys_exact diff_streams_exact diff_peers_exact
        diffMetadata_def diffRevocations_def diffAudit_def)
qed


theorem diff_empty_iff_witness:
  "let a = (NewManifest 1 ''fab'' 1)\<lparr>sm_peers := [\<lparr>fdp_fabric_id = ''p'', fdp_last_seen = 5, fdp_key_count = 1,
         fdp_revocation_hash = ''h''\<rparr>]\<rparr>;
       b = (NewManifest 2 ''fab'' 2)\<lparr>sm_peers := [\<lparr>fdp_fabric_id = ''p'', fdp_last_seen = 9, fdp_key_count = 1,
         fdp_revocation_hash = ''h''\<rparr>]\<rparr>
   in Diff_IsEmpty (Diff (Some a) (Some b)) \<and> \<not> Diff_IsEmpty (Diff (Some a) (Some (b\<lparr>sm_peers := []\<rparr>)))"
  unfolding Let_def
  by (subst (1 2) diff_empty_iff) (simp_all add: manifest_names_ok_def NewManifest_def zero_manifest_def)

end
