(* ===== verification/Operator.thy ===== *)
theory Operator
  imports Soul_Keeper Soul_Converge Keyring Transmitter
begin

text \<open>
  \<open>src/pkg/operator\<close>: \<open>converter.go\<close>, \<open>webhook.go\<close>, \<open>applier.go\<close>, \<open>inprocess.go\<close>: the
  conversion and validation of a fabric resource, and the in-process connection that reaches
  the soul keeper, the keyring, the transmitter and the revocation index of the running unit.
  Clocks and random bytes are parameters. The controller is in \<open>Reconciler\<close>.
\<close>

section \<open>The resource\<close>

record signing_key_spec =
  ks_kid :: string
  ks_algorithm :: string
  ks_kms_key_id :: string
  ks_status :: string

record crd_trust_domain =
  ct_name :: string
  ct_type :: string
  ct_issuer :: string
  ct_jwks_uri :: string
  ct_enabled :: bool

record anchor_spec =
  as_type :: string
  as_bucket :: string
  as_path :: string

record fabric_spec =
  fsp_trust_domains :: "crd_trust_domain list"
  fsp_signing_keys :: "signing_key_spec list"
  fsp_ssf_streams :: "ssf_stream_spec list"
  fsp_anchor :: "anchor_spec option"
  fsp_peers :: "string list option"

record condition =
  cn_type :: string
  cn_status :: string
  cn_transition :: go_time
  cn_reason :: string
  cn_message :: string

record fabric_status =
  ft_phase :: string
  ft_soul_sequence :: int
  ft_trust_domains_active :: int
  ft_signing_keys_active :: int
  ft_ssf_streams_active :: int
  ft_peers_total :: int
  ft_last_convergence :: "go_time option"
  ft_last_duration :: string
  ft_conditions :: "condition list"

definition PhaseConverged :: string where "PhaseConverged = ''Converged''"
definition PhaseConverging :: string where "PhaseConverging = ''Converging''"
definition PhaseDegraded :: string where "PhaseDegraded = ''Degraded''"
definition ConditionReady :: string where "ConditionReady = ''Ready''"
definition ConditionConverged :: string where "ConditionConverged = ''Converged''"
definition ConditionDegraded :: string where "ConditionDegraded = ''Degraded''"

text \<open>\<open>converter.go\<close>.\<close>

definition SpecToManifest :: "go_time \<Rightarrow> string \<Rightarrow> fabric_spec \<Rightarrow> soul_manifest" where
  "SpecToManifest now fabricID spec =
     (NewManifest now fabricID 0)
       \<lparr>sm_trust_domains := map (\<lambda>td. \<lparr>td_name = ct_name td, td_type = ct_type td, td_issuer = ct_issuer td,
           td_jwks_url = ct_jwks_uri td, td_enabled = ct_enabled td\<rparr>) (fsp_trust_domains spec),
        sm_signing_keys := map (\<lambda>sk. \<lparr>sk_kms_key_id = ks_kms_key_id sk, sk_algorithm = ks_algorithm sk,
           sk_kid = ks_kid sk, sk_status = (if ks_status sk = '''' then ''active'' else ks_status sk)\<rparr>)
           (fsp_signing_keys spec),
        sm_ssf_streams := fsp_ssf_streams spec,
        sm_peers := (case fsp_peers spec of
            None \<Rightarrow> []
          | Some ps \<Rightarrow> map (\<lambda>p. \<lparr>fdp_fabric_id = p, fdp_last_seen = 0, fdp_key_count = 0,
              fdp_revocation_hash = ''''\<rparr>) ps)\<rparr>"

definition ManifestToStatus :: "soul_manifest \<Rightarrow> fabric_status" where
  "ManifestToStatus m =
     \<lparr>ft_phase = '''', ft_soul_sequence = sint (md_sequence (sm_metadata m)),
      ft_trust_domains_active = int (length (filter td_enabled (sm_trust_domains m))),
      ft_signing_keys_active = int (length (filter (\<lambda>k. sk_status k = ''active'') (sm_signing_keys m))),
      ft_ssf_streams_active = int (length (sm_ssf_streams m)), ft_peers_total = int (length (sm_peers m)),
      ft_last_convergence = None, ft_last_duration = '''', ft_conditions = []\<rparr>"

text \<open>\<open>webhook.go\<close>; \<open>url_scheme\<close> is the scheme of a URL that parses.\<close>

datatype spec_error =
    NameRequired
  | DomainNameRequired nat | DomainDuplicate nat string | DomainTypeRequired nat | DomainTypeUnsupported nat string
  | KidRequired nat | KidDuplicate nat string | AlgorithmRequired nat | AlgorithmUnsupported nat string
  | KmsKeyIdRequired nat
  | StreamIdRequired nat | StreamDuplicate nat string | TransmitterRequired nat | TransmitterInvalid nat string
  | AnchorBucketRequired | AnchorPathRequired | AnchorTypeRequired | AnchorTypeUnsupported string

fun validate_named ::
  "('a \<Rightarrow> string) \<Rightarrow> (nat \<Rightarrow> spec_error) \<Rightarrow> (nat \<Rightarrow> string \<Rightarrow> spec_error) \<Rightarrow> (nat \<Rightarrow> 'a \<Rightarrow> spec_error list)
   \<Rightarrow> string list \<Rightarrow> nat \<Rightarrow> 'a list \<Rightarrow> spec_error list" where
  "validate_named key missing duplicate rest seen i [] = []"
| "validate_named key missing duplicate rest seen i (x # xs) =
     (if key x = '''' then missing i # validate_named key missing duplicate rest seen (Suc i) xs
      else (if key x \<in> set seen then [duplicate i (key x)] else []) @ rest i x
        @ validate_named key missing duplicate rest (key x # seen) (Suc i) xs)"

definition validateTrustDomains :: "crd_trust_domain list \<Rightarrow> spec_error list" where
  "validateTrustDomains =
     validate_named ct_name DomainNameRequired DomainDuplicate
       (\<lambda>i td. if ct_type td \<in> set [''oidc'', ''spiffe'', ''aws-sts'', ''kerberos'', ''saml''] then []
               else if ct_type td = '''' then [DomainTypeRequired i] else [DomainTypeUnsupported i (ct_type td)]) [] 0"

definition validateSigningKeys :: "signing_key_spec list \<Rightarrow> spec_error list" where
  "validateSigningKeys =
     validate_named ks_kid KidRequired KidDuplicate
       (\<lambda>i sk. (if ks_algorithm sk \<in> set [''ES256'', ''RS256'', ''EdDSA''] then []
                else if ks_algorithm sk = '''' then [AlgorithmRequired i]
                else [AlgorithmUnsupported i (ks_algorithm sk)])
             @ (if ks_kms_key_id sk = '''' then [KmsKeyIdRequired i] else [])) [] 0"

definition validateSSFStreams :: "(string \<Rightarrow> string option) \<Rightarrow> ssf_stream_spec list \<Rightarrow> spec_error list" where
  "validateSSFStreams url_scheme =
     validate_named fs_stream_id StreamIdRequired StreamDuplicate
       (\<lambda>i ss. if fs_transmitter ss = '''' then [TransmitterRequired i]
               else if url_scheme (fs_transmitter ss) = None \<or> url_scheme (fs_transmitter ss) = Some ''''
               then [TransmitterInvalid i (fs_transmitter ss)] else []) [] 0"

definition validateAnchor :: "anchor_spec option \<Rightarrow> spec_error list" where
  "validateAnchor a =
     (case a of
        None \<Rightarrow> []
      | Some an \<Rightarrow>
          if as_type an = ''s3'' \<or> as_type an = ''gcs'' then (if as_bucket an = '''' then [AnchorBucketRequired] else [])
          else if as_type an = ''filesystem'' then (if as_path an = '''' then [AnchorPathRequired] else [])
          else if as_type an = '''' then [AnchorTypeRequired] else [AnchorTypeUnsupported (as_type an)])"

definition ValidateFabric :: "(string \<Rightarrow> string option) \<Rightarrow> string \<Rightarrow> fabric_spec \<Rightarrow> spec_error list" where
  "ValidateFabric url_scheme name spec =
     (if name = '''' then [NameRequired] else [])
     @ validateTrustDomains (fsp_trust_domains spec) @ validateSigningKeys (fsp_signing_keys spec)
     @ validateSSFStreams url_scheme (fsp_ssf_streams spec) @ validateAnchor (fsp_anchor spec)"

section \<open>Applying a plan\<close>

text \<open>\<open>applier.go\<close>, over the action of a connection; the duration is left out.\<close>

record apply_result =
  ar_actions_applied :: nat
  ar_actions_total :: nat

definition of_types :: "action_type list \<Rightarrow> convergence_action list \<Rightarrow> convergence_action list" where
  "of_types tys actions = filter (\<lambda>a. co_type a \<in> set tys) actions"

definition sortActions :: "convergence_action list \<Rightarrow> convergence_action list" where
  "sortActions actions =
     of_types [ActionRotateSigningKey] actions
     @ of_types [ActionAddTrustDomain, ActionUpdateTrustDomain, ActionRemoveTrustDomain] actions
     @ of_types [ActionAddSSFStream, ActionRemoveSSFStream] actions
     @ of_types [ActionAddPeer, ActionRemovePeer] actions
     @ of_types [ActionImportRevocations, ActionResetRevocations] actions"

fun apply_actions ::
  "(nat \<Rightarrow> convergence_action \<Rightarrow> 's \<Rightarrow> 'e option \<times> 's) \<Rightarrow> nat \<Rightarrow> convergence_action list \<Rightarrow> 's
   \<Rightarrow> nat \<times> (convergence_action \<times> 'e) option \<times> 's" where
  "apply_actions act n [] s = (n, None, s)"
| "apply_actions act n (a # as) s =
     (case act n a s of
        (Some e, s') \<Rightarrow> (n, Some (a, e), s')
      | (None, s') \<Rightarrow> apply_actions act (Suc n) as s')"

definition ExecutePlan ::
  "(nat \<Rightarrow> convergence_action \<Rightarrow> 's \<Rightarrow> 'e option \<times> 's) \<Rightarrow> convergence_action list \<Rightarrow> 's
   \<Rightarrow> apply_result \<times> (convergence_action \<times> 'e) option \<times> 's" where
  "ExecutePlan act plan s =
     (if Plan_IsEmpty plan then (\<lparr>ar_actions_applied = 0, ar_actions_total = length plan\<rparr>, None, s)
      else let ordered = sortActions plan; (n, err, s') = apply_actions act 0 ordered s
           in (\<lparr>ar_actions_applied = n, ar_actions_total = length ordered\<rparr>, err, s'))"

section \<open>The in-process connection\<close>

record ('key, 'skey) in_process =
  ip_fabric_id :: string
  ip_keeper :: "keeper option"
  ip_keyring :: "'key keyring option"
  ip_transmitter :: "('skey transmitter \<times> transmitter_state) option"
  ip_rev_index :: "(snapshot_codec \<times> revocation_map) option"
  ip_trust_domains :: "trust_domain list"
  ip_desired :: "soul_manifest option"

record apply_env =
  av_url_parse :: "string \<Rightarrow> (string \<times> string) option"
  av_bytes :: string
  av_now :: go_time

datatype apply_error =
    KeyringNotConfigured
  | RotateMissingTarget
  | ActivatingKey keyring_error
  | DomainNotInSpec string
  | DomainNotFound string
  | TransmitterNotConfigured
  | RemoveStreamMissingTarget
  | StreamFailed transmit_error

definition SetDesiredSpec :: "soul_manifest \<Rightarrow> ('key, 'skey) in_process \<Rightarrow> ('key, 'skey) in_process" where
  "SetDesiredSpec spec c = c\<lparr>ip_desired := Some spec\<rparr>"

definition boot_specs :: "('key, 'skey) in_process \<Rightarrow> trust_domain_spec list" where
  "boot_specs c =
     map (\<lambda>td. \<lparr>td_name = bd_name td, td_type = '''', td_issuer = bd_issuer td, td_jwks_url = bd_jwks_url td,
                td_enabled = bd_enabled td\<rparr>) (ip_trust_domains c)"

definition currentTrustDomains :: "('key, 'skey) in_process \<Rightarrow> trust_domain_spec list" where
  "currentTrustDomains c =
     (case ip_keeper c of
        None \<Rightarrow> boot_specs c
      | Some k \<Rightarrow> if length (TrustDomains k) > 0 then TrustDomains k else boot_specs c)"

definition persistTrustDomains ::
  "trust_domain_spec list \<Rightarrow> ('key, 'skey) in_process \<Rightarrow> ('key, 'skey) in_process" where
  "persistTrustDomains domains c =
     (case ip_keeper c of None \<Rightarrow> c | Some k \<Rightarrow> c\<lparr>ip_keeper := Some (SetIdentity (SigningKeys k) domains k)\<rparr>)"

definition lookupDesiredDomain :: "string \<Rightarrow> ('key, 'skey) in_process \<Rightarrow> trust_domain_spec option" where
  "lookupDesiredDomain name c =
     (case ip_desired c of None \<Rightarrow> None | Some m \<Rightarrow> find (\<lambda>d. td_name d = name) (sm_trust_domains m))"

fun replace_domain :: "string \<Rightarrow> trust_domain_spec \<Rightarrow> trust_domain_spec list \<Rightarrow> trust_domain_spec list" where
  "replace_domain name spec [] = [spec]"
| "replace_domain name spec (d # ds) =
     (if td_name d = name then spec # ds else d # replace_domain name spec ds)"

definition applyTrustDomainChange ::
  "string \<Rightarrow> ('key, 'skey) in_process \<Rightarrow> apply_error option \<times> ('key, 'skey) in_process" where
  "applyTrustDomainChange name c =
     (case lookupDesiredDomain name c of
        None \<Rightarrow> (Some (DomainNotInSpec name), c)
      | Some spec \<Rightarrow> (None, persistTrustDomains (replace_domain name spec (currentTrustDomains c)) c))"

definition removeTrustDomain ::
  "string \<Rightarrow> ('key, 'skey) in_process \<Rightarrow> apply_error option \<times> ('key, 'skey) in_process" where
  "removeTrustDomain name c =
     (let domains = currentTrustDomains c; out = filter (\<lambda>d. td_name d \<noteq> name) domains
      in if \<not> list_ex (\<lambda>d. td_name d = name) domains then (Some (DomainNotFound name), c)
         else (None, persistTrustDomains out c))"

definition with_transmitter ::
  "('skey transmitter \<Rightarrow> 'r transmit_stage) \<Rightarrow> ('key, 'skey) in_process
   \<Rightarrow> apply_error option \<times> ('key, 'skey) in_process" where
  "with_transmitter f c =
     (case ip_transmitter c of
        None \<Rightarrow> (Some TransmitterNotConfigured, c)
      | Some (tx, st) \<Rightarrow>
          case f tx st of
            (Inl e, st') \<Rightarrow> (Some (StreamFailed e), c\<lparr>ip_transmitter := Some (tx, st')\<rparr>)
          | (Inr _, st') \<Rightarrow> (None, c\<lparr>ip_transmitter := Some (tx, st')\<rparr>))"

definition ApplyAction ::
  "apply_env \<Rightarrow> convergence_action \<Rightarrow> ('key, 'skey) in_process \<Rightarrow> apply_error option \<times> ('key, 'skey) in_process" where
  "ApplyAction E action c =
     (case co_type action of
        ActionRotateSigningKey \<Rightarrow>
          (case ip_keyring c of
             None \<Rightarrow> (Some KeyringNotConfigured, c)
           | Some kr \<Rightarrow>
               if co_target action = '''' then (Some RotateMissingTarget, c)
               else case ActivateKey (co_target action) kr of
                 (e, kr') \<Rightarrow> (map_option ActivatingKey e, c\<lparr>ip_keyring := Some kr'\<rparr>))
      | ActionAddTrustDomain \<Rightarrow> applyTrustDomainChange (co_target action) c
      | ActionUpdateTrustDomain \<Rightarrow> applyTrustDomainChange (co_target action) c
      | ActionRemoveTrustDomain \<Rightarrow> removeTrustDomain (co_target action) c
      | ActionAddSSFStream \<Rightarrow>
          with_transmitter (\<lambda>tx. CreateStream (av_url_parse E) (av_bytes E) (av_now E) tx
            \<lparr>sc_issuer = [], sc_audience = co_target action, sc_events_requested = [],
             sc_events_delivered = [], sc_delivery_method = [], sc_endpoint_url = []\<rparr>) c
      | ActionRemoveSSFStream \<Rightarrow>
          if ip_transmitter c = None then (Some TransmitterNotConfigured, c)
          else if co_target action = '''' then (Some RemoveStreamMissingTarget, c)
          else with_transmitter (\<lambda>tx. DeleteStream tx (co_target action)) c
      | ActionImportRevocations \<Rightarrow> (None, c)
      | ActionResetRevocations \<Rightarrow> (None, c)
      | ActionAddPeer \<Rightarrow> (None, c)
      | ActionRemovePeer \<Rightarrow> (None, c))"

definition ApplyPlan ::
  "(nat \<Rightarrow> apply_env) \<Rightarrow> convergence_action list \<Rightarrow> ('key, 'skey) in_process
   \<Rightarrow> apply_result \<times> (convergence_action \<times> apply_error) option \<times> ('key, 'skey) in_process" where
  "ApplyPlan E plan c = ExecutePlan (\<lambda>i. ApplyAction (E i)) plan c"

definition CurrentManifest :: "go_time \<Rightarrow> go_time \<Rightarrow> ('key, 'skey) in_process \<Rightarrow> soul_manifest" where
  "CurrentManifest now exported_now c =
     (let seq = (case ip_keeper c of None \<Rightarrow> 0 | Some k \<Rightarrow> Keeper_Sequence k)
      in (NewManifest now (ip_fabric_id c) seq)
        \<lparr>sm_signing_keys :=
           (case ip_keyring c of
              Some kr \<Rightarrow> [\<lparr>sk_kms_key_id = '''', sk_algorithm = ''RS256'', sk_kid = ActiveKid kr,
                           sk_status = ''active''\<rparr>]
            | None \<Rightarrow> (case ip_keeper c of None \<Rightarrow> [] | Some k \<Rightarrow> SigningKeys k)),
         sm_trust_domains := currentTrustDomains c,
         sm_ssf_streams :=
           (case ip_transmitter c of
              None \<Rightarrow> []
            | Some (tx, st) \<Rightarrow> map (\<lambda>info. \<lparr>fs_stream_id = inf_stream_id info, fs_transmitter = inf_endpoint_url info,
                fs_events_requested = inf_events_requested info\<rparr>) (ListStreams st)),
         sm_revocations :=
           (case ip_rev_index c of
              None \<Rightarrow> \<lparr>sv_count = 0, sv_hash = '''', sv_exported_at = 0\<rparr>
            | Some (C, idx) \<Rightarrow> \<lparr>sv_count = int (Revocation_Len idx), sv_hash = Revocation_Hash C idx,
                sv_exported_at = exported_now\<rparr>)\<rparr>)"

record health_status =
  hs_healthy :: bool
  hs_trust_domains_active :: nat
  hs_signing_keys_active :: nat
  hs_ssf_streams_active :: nat
  hs_soul_sequence :: "64 word"

definition Health :: "('key, 'skey) in_process \<Rightarrow> health_status" where
  "Health c =
     \<lparr>hs_healthy = True, hs_trust_domains_active = length (currentTrustDomains c),
      hs_signing_keys_active = (case ip_keyring c of None \<Rightarrow> 0 | Some kr \<Rightarrow> Keyring_Len kr),
      hs_ssf_streams_active = (case ip_transmitter c of None \<Rightarrow> 0 | Some (tx, st) \<Rightarrow> StreamCount st),
      hs_soul_sequence = (case ip_keeper c of None \<Rightarrow> 0 | Some k \<Rightarrow> Keeper_Sequence k)\<rparr>"

end
