(* ===== verification/Reconciler.thy ===== *)
theory Reconciler
  imports Operator
begin

text \<open>
  \<open>src/pkg/operator/status.go\<close>, \<open>controller.go\<close> and \<open>bridge.go\<close>: the conditions of a fabric
  resource and its reconciliation over a connection, the interface \<open>FabricConnection\<close> as a record of
  operations on a state of the unit. Errors that are only logged are left out, and the writes of the
  status are collected in the order in which they are made; whether a write fails is a parameter.
\<close>

section \<open>Conditions\<close>

definition ConditionTrue :: string where "ConditionTrue = ''True''"
definition ConditionFalse :: string where "ConditionFalse = ''False''"

fun set_condition :: "go_time \<Rightarrow> condition \<Rightarrow> condition list \<Rightarrow> condition list" where
  "set_condition now c [] = [if time_is_zero (cn_transition c) then c\<lparr>cn_transition := now\<rparr> else c]"
| "set_condition now c (x # xs) =
     (if cn_type x = cn_type c
      then c\<lparr>cn_transition := (if cn_status x \<noteq> cn_status c then now else cn_transition x)\<rparr> # xs
      else x # set_condition now c xs)"

definition SetCondition :: "go_time \<Rightarrow> condition \<Rightarrow> fabric_status \<Rightarrow> fabric_status" where
  "SetCondition now c st = st\<lparr>ft_conditions := set_condition now c (ft_conditions st)\<rparr>"

definition FindCondition :: "string \<Rightarrow> fabric_status \<Rightarrow> condition option" where
  "FindCondition condType st = find (\<lambda>c. cn_type c = condType) (ft_conditions st)"

definition condition_true :: "string \<Rightarrow> fabric_status \<Rightarrow> bool" where
  "condition_true condType st \<longleftrightarrow>
     (case FindCondition condType st of None \<Rightarrow> False | Some c \<Rightarrow> cn_status c = ConditionTrue)"

definition IsReady :: "fabric_status \<Rightarrow> bool" where
  "IsReady st \<longleftrightarrow> condition_true ConditionReady st"

definition IsConverged :: "fabric_status \<Rightarrow> bool" where
  "IsConverged st \<longleftrightarrow> condition_true ConditionConverged st"

section \<open>The controller\<close>

record ('s, 'e) fabric_connection =
  fc_current :: "'s \<Rightarrow> 'e + soul_manifest"
  fc_apply_plan :: "convergence_action list \<Rightarrow> 's \<Rightarrow> (apply_result \<times> string) \<times> 'e option \<times> 's"
  fc_health :: "'s \<Rightarrow> 'e + health_status"
  fc_set_desired :: "soul_manifest \<Rightarrow> 's \<Rightarrow> 's"

record fabric =
  fb_name :: string
  fb_spec :: fabric_spec
  fb_status :: fabric_status

text \<open>
  The clock and the outcome of the writes, both by the number of writes made before; the first
  time is that of the desired manifest.
\<close>

record ('e) reconcile_env =
  rv_manifest_now :: go_time
  rv_clock :: "nat \<Rightarrow> go_time"
  rv_write_error :: "nat \<Rightarrow> 'e option"
  rv_show :: "'e \<Rightarrow> string"

record 's reconcile_state =
  rs_fabric :: fabric
  rs_unit :: 's
  rs_written :: "fabric_status list"

definition writeStatus :: "'e reconcile_env \<Rightarrow> 's reconcile_state \<Rightarrow> 'e option \<times> 's reconcile_state" where
  "writeStatus V s =
     (rv_write_error V (length (rs_written s)), s\<lparr>rs_written := rs_written s @ [fb_status (rs_fabric s)]\<rparr>)"

definition conditionForPhase :: "string \<Rightarrow> string" where
  "conditionForPhase phase =
     (if phase = PhaseConverging then ConditionConverged
      else if phase = PhaseDegraded then ConditionDegraded else ConditionReady)"

definition with_status :: "(fabric_status \<Rightarrow> fabric_status) \<Rightarrow> 's reconcile_state \<Rightarrow> 's reconcile_state" where
  "with_status f s = s\<lparr>rs_fabric := (rs_fabric s)\<lparr>fb_status := f (fb_status (rs_fabric s))\<rparr>\<rparr>"

definition setPhase ::
  "'e reconcile_env \<Rightarrow> string \<Rightarrow> string \<Rightarrow> string \<Rightarrow> 's reconcile_state \<Rightarrow> 'e option \<times> 's reconcile_state" where
  "setPhase V phase reason message s =
     (let now = rv_clock V (length (rs_written s))
      in writeStatus V (with_status (\<lambda>st. SetCondition now
           \<lparr>cn_type = conditionForPhase phase, cn_status = ConditionTrue, cn_transition = now,
            cn_reason = reason, cn_message = message\<rparr> (st\<lparr>ft_phase := phase\<rparr>)) s))"

definition final_condition :: "go_time \<Rightarrow> string \<Rightarrow> string \<Rightarrow> string \<Rightarrow> fabric_status \<Rightarrow> fabric_status" where
  "final_condition now ty status message =
     SetCondition now \<lparr>cn_type = ty, cn_status = status, cn_transition = now, cn_reason = ''Converged'',
       cn_message = message\<rparr>"

text \<open>A duration that is not positive has the empty text here.\<close>

definition updateStatus ::
  "'e reconcile_env \<Rightarrow> health_status option \<Rightarrow> (apply_result \<times> string) option \<Rightarrow> 's reconcile_state
   \<Rightarrow> 'e option \<times> 's reconcile_state" where
  "updateStatus V health result s =
     (let now = rv_clock V (length (rs_written s));
          counts = (\<lambda>st. case health of
              None \<Rightarrow> st
            | Some h \<Rightarrow> st\<lparr>ft_trust_domains_active := int (hs_trust_domains_active h),
                ft_signing_keys_active := int (hs_signing_keys_active h),
                ft_ssf_streams_active := int (hs_ssf_streams_active h),
                ft_soul_sequence := sint (hs_soul_sequence h)\<rparr>);
          duration = (\<lambda>st. case result of
              None \<Rightarrow> st | Some (_, d) \<Rightarrow> if d \<noteq> '''' then st\<lparr>ft_last_duration := d\<rparr> else st)
      in writeStatus V (with_status (\<lambda>st.
           final_condition now ConditionDegraded ConditionFalse ''fabric recovered''
             (final_condition now ConditionConverged ConditionTrue ''all convergence actions applied''
               (final_condition now ConditionReady ConditionTrue ''fabric state matches spec''
                 (duration (counts (st\<lparr>ft_phase := PhaseConverged, ft_last_convergence := Some now\<rparr>)))))) s))"

text \<open>The result is the number of seconds to the next reconciliation, with the error if there is one.\<close>

definition degraded ::
  "'e reconcile_env \<Rightarrow> string \<Rightarrow> 'e \<Rightarrow> 's reconcile_state \<Rightarrow> (nat \<times> 'e option) \<times> 's reconcile_state" where
  "degraded V reason err s = ((30, Some err), snd (setPhase V PhaseDegraded reason (rv_show V err) s))"

definition reconcile_finish ::
  "('s, 'e) fabric_connection \<Rightarrow> 'e reconcile_env \<Rightarrow> (apply_result \<times> string) option \<Rightarrow> 's reconcile_state
   \<Rightarrow> (nat \<times> 'e option) \<times> 's reconcile_state" where
  "reconcile_finish C V result s =
     (let health = (case fc_health C (rs_unit s) of Inl _ \<Rightarrow> None | Inr h \<Rightarrow> Some h)
      in case updateStatus V health result s of
           (Some err, s') \<Rightarrow> ((10, Some err), s')
         | (None, s') \<Rightarrow> ((60, None), s'))"

definition desired_manifest :: "'e reconcile_env \<Rightarrow> 's reconcile_state \<Rightarrow> soul_manifest" where
  "desired_manifest V s = SpecToManifest (rv_manifest_now V) (fb_name (rs_fabric s)) (fb_spec (rs_fabric s))"

definition ReconcileFabric ::
  "('s, 'e) fabric_connection \<Rightarrow> 'e reconcile_env \<Rightarrow> 's reconcile_state
   \<Rightarrow> (nat \<times> 'e option) \<times> 's reconcile_state" where
  "ReconcileFabric C V s =
     (case fc_current C (rs_unit s) of
        Inl err \<Rightarrow> degraded V ''FailedReadManifest'' err s
      | Inr current \<Rightarrow>
          let desired = desired_manifest V s;
              s1 = s\<lparr>rs_unit := fc_set_desired C desired (rs_unit s)\<rparr>;
              plan = Converge True (Some current) (Some desired)
          in if Plan_IsEmpty plan then reconcile_finish C V None s1
             else
               let s2 = snd (setPhase V PhaseConverging ''Converging''
                          (''applying '' @ show_nat (length plan) @ '' actions'') s1)
               in case fc_apply_plan C plan (rs_unit s2) of
                    (result, Some err, u) \<Rightarrow> degraded V ''ApplyFailed'' err (s2\<lparr>rs_unit := u\<rparr>)
                  | (result, None, u) \<Rightarrow> reconcile_finish C V (Some result) (s2\<lparr>rs_unit := u\<rparr>))"

lemma setPhase_unit [simp]: "rs_unit (snd (setPhase V p r m s)) = rs_unit s"
  by (simp add: setPhase_def writeStatus_def with_status_def Let_def)

text \<open>The four ways through a reconciliation.\<close>

lemma ReconcileFabric_cases:
  obtains (unread) err where "fc_current C (rs_unit s) = Inl err"
      and "ReconcileFabric C V s = degraded V ''FailedReadManifest'' err s"
  | (idle) current where "fc_current C (rs_unit s) = Inr current"
      and "Converge True (Some current) (Some (desired_manifest V s)) = []"
      and "ReconcileFabric C V s =
        reconcile_finish C V None (s\<lparr>rs_unit := fc_set_desired C (desired_manifest V s) (rs_unit s)\<rparr>)"
  | (failed) current plan m result err u where "fc_current C (rs_unit s) = Inr current"
      and "plan = Converge True (Some current) (Some (desired_manifest V s))" and "plan \<noteq> []"
      and "fc_apply_plan C plan (fc_set_desired C (desired_manifest V s) (rs_unit s)) = (result, Some err, u)"
      and "ReconcileFabric C V s = degraded V ''ApplyFailed'' err
        ((snd (setPhase V PhaseConverging ''Converging'' m
           (s\<lparr>rs_unit := fc_set_desired C (desired_manifest V s) (rs_unit s)\<rparr>)))\<lparr>rs_unit := u\<rparr>)"
  | (applied) current plan m result u where "fc_current C (rs_unit s) = Inr current"
      and "plan = Converge True (Some current) (Some (desired_manifest V s))" and "plan \<noteq> []"
      and "fc_apply_plan C plan (fc_set_desired C (desired_manifest V s) (rs_unit s)) = (result, None, u)"
      and "ReconcileFabric C V s = reconcile_finish C V (Some result)
        ((snd (setPhase V PhaseConverging ''Converging'' m
           (s\<lparr>rs_unit := fc_set_desired C (desired_manifest V s) (rs_unit s)\<rparr>)))\<lparr>rs_unit := u\<rparr>)"
proof (cases "fc_current C (rs_unit s)")
  case (Inl err)
  with unread [of err] show ?thesis by (simp add: ReconcileFabric_def)
next
  case (Inr current)
  define D where "D = desired_manifest V s"
  define plan where "plan = Converge True (Some current) (Some D)"
  obtain result e u where A: "fc_apply_plan C plan (fc_set_desired C D (rs_unit s)) = (result, e, u)"
    by (metis prod_cases3)
  have R: "ReconcileFabric C V s =
      (if plan = [] then reconcile_finish C V None (s\<lparr>rs_unit := fc_set_desired C D (rs_unit s)\<rparr>)
       else case e of
         Some err \<Rightarrow> degraded V ''ApplyFailed'' err ((snd (setPhase V PhaseConverging ''Converging''
             (''applying '' @ show_nat (length plan) @ '' actions'')
             (s\<lparr>rs_unit := fc_set_desired C D (rs_unit s)\<rparr>)))\<lparr>rs_unit := u\<rparr>)
       | None \<Rightarrow> reconcile_finish C V (Some result) ((snd (setPhase V PhaseConverging ''Converging''
             (''applying '' @ show_nat (length plan) @ '' actions'')
             (s\<lparr>rs_unit := fc_set_desired C D (rs_unit s)\<rparr>)))\<lparr>rs_unit := u\<rparr>))"
    using Inr A unfolding D_def plan_def
    by (simp add: ReconcileFabric_def Let_def Plan_IsEmpty_def split: option.split)
  show ?thesis
  proof (cases "plan = []")
    case True
    then show ?thesis using idle [OF Inr] R plan_def D_def by simp
  next
    case False
    show ?thesis
    proof (cases e)
      case None
      with A have "fc_apply_plan C plan (fc_set_desired C (desired_manifest V s) (rs_unit s)) = (result, None, u)"
        by (simp add: D_def)
      then show ?thesis
        by (rule applied [OF Inr plan_def [unfolded D_def] False]) (use R None False D_def in simp)
    next
      case (Some err)
      with A have "fc_apply_plan C plan (fc_set_desired C (desired_manifest V s) (rs_unit s)) = (result, Some err, u)"
        by (simp add: D_def)
      then show ?thesis
        by (rule failed [OF Inr plan_def [unfolded D_def] False]) (use R Some False D_def in simp)
    qed
  qed
qed

text \<open>
  The in-process connection as the controller sees it; the times are those of the manifest and of the
  export of its revocations, the text is that of the duration.
\<close>

definition in_process_connection ::
  "go_time \<Rightarrow> go_time \<Rightarrow> (nat \<Rightarrow> apply_env) \<Rightarrow> string
   \<Rightarrow> (('key, 'skey) in_process, convergence_action \<times> apply_error) fabric_connection" where
  "in_process_connection now exported_now E duration =
     \<lparr>fc_current = (\<lambda>c. Inr (CurrentManifest now exported_now c)),
      fc_apply_plan = (\<lambda>plan c. case ApplyPlan E plan c of (r, e, c') \<Rightarrow> ((r, duration), e, c')),
      fc_health = (\<lambda>c. Inr (Health c)),
      fc_set_desired = SetDesiredSpec\<rparr>"

end
