(* ===== verification/Operator_Guarantees.thy ===== *)
theory Operator_Guarantees
  imports Reconciler
begin

text \<open>
  The guarantees of the operator: what a reconciliation writes to the status of a resource, and
  what a plan does to the trust domains, the signing keys and the streams of the running unit.
\<close>

section \<open>The status of a resource\<close>


lemma set_condition_find:
  "\<exists>c'. find (\<lambda>x. cn_type x = cn_type c) (set_condition now c xs) = Some c' \<and> cn_status c' = cn_status c"
  by (induction xs) auto

lemma set_condition_find_other:
  "t \<noteq> cn_type c \<Longrightarrow> find (\<lambda>x. cn_type x = t) (set_condition now c xs) = find (\<lambda>x. cn_type x = t) xs"
  by (induction xs) auto

lemma condition_true_SetCondition:
  "condition_true t (SetCondition now c st) \<longleftrightarrow>
     (if t = cn_type c then cn_status c = ConditionTrue else condition_true t st)"
  using set_condition_find [of c now "ft_conditions st"] set_condition_find_other [of t c now "ft_conditions st"]
  by (auto simp: condition_true_def FindCondition_def SetCondition_def)

lemma SetCondition_phase [simp]: "ft_phase (SetCondition now c st) = ft_phase st"
  by (simp add: SetCondition_def)

lemma condition_true_update [simp]:
  "condition_true t (st\<lparr>ft_phase := p\<rparr>) = condition_true t st"
  by (simp add: condition_true_def FindCondition_def)

lemmas status_simps = setPhase_def updateStatus_def writeStatus_def with_status_def degraded_def final_condition_def
  conditionForPhase_def IsConverged_def IsReady_def condition_true_SetCondition Let_def
  ConditionConverged_def ConditionReady_def ConditionDegraded_def ConditionTrue_def ConditionFalse_def
  PhaseConverging_def PhaseDegraded_def PhaseConverged_def

definition condition_types :: "'s reconcile_state \<Rightarrow> string list" where
  "condition_types s = map cn_type (ft_conditions (fb_status (rs_fabric s)))"




lemma condition_types_unit [simp]:
  "condition_types (s\<lparr>rs_unit := u\<rparr>) = condition_types s"
  by (simp add: condition_types_def)


lemma reconcile_finish_state:
  "snd (reconcile_finish C V r s) =
     snd (updateStatus V (case fc_health C (rs_unit s) of Inl _ \<Rightarrow> None | Inr h \<Rightarrow> Some h) r s)"
  by (simp add: reconcile_finish_def Let_def split: prod.split option.split)


text \<open>
  When applying the plan fails, the resource is reported as degraded and as converged at once: the
  phase is \<open>Degraded\<close>, yet the condition \<open>Converged\<close> was set to true before the first action ran
  and stays true in every status that is written from then on.
\<close>

theorem failed_apply_reports_converged:
  assumes "fc_current C (rs_unit s) = Inr current"
    and "plan = Converge True (Some current) (Some (desired_manifest V s))" and "plan \<noteq> []"
    and "fc_apply_plan C plan (fc_set_desired C (desired_manifest V s) (rs_unit s)) = (result, Some err, u)"
    and "ReconcileFabric C V s = ((requeue, e), s')"
  shows "e = Some err \<and> requeue = 30 \<and> ft_phase (fb_status (rs_fabric s')) = PhaseDegraded
    \<and> IsConverged (fb_status (rs_fabric s'))
    \<and> (\<exists>st1 st2. rs_written s' = rs_written s @ [st1, st2] \<and> IsConverged st1 \<and> IsConverged st2)"
proof (cases rule: ReconcileFabric_cases [of C s V])
  case (failed current' plan' m result' err' u')
  with assms(1,2,4) have "err' = err" by simp
  with failed(5) assms(5) show ?thesis by (auto simp: status_simps)
qed (use assms in auto)

section \<open>Plans\<close>

lemma apply_actions_append:
  "apply_actions act n (as @ bs) s =
     (case apply_actions act n as s of
        (n', Some e, s') \<Rightarrow> (n', Some e, s')
      | (n', None, s') \<Rightarrow> apply_actions act n' bs s')"
  by (induction as arbitrary: n s) (auto split: prod.split option.split)

lemma apply_actions_invariant:
  assumes "\<And>i a s e s'. a \<in> set as \<Longrightarrow> P s \<Longrightarrow> act i a s = (e, s') \<Longrightarrow> P s'" and "P s"
    and "apply_actions act n as s = (n', err, s')"
  shows "P s'"
  using assms
proof (induction as arbitrary: n s)
  case Nil
  then show ?case by simp
next
  case (Cons a as)
  obtain e s1 where A: "act n a s = (e, s1)" by fastforce
  have "P s1" using Cons.prems(1) [OF _ Cons.prems(2) A] by simp
  show ?case
  proof (cases e)
    case None
    with Cons.prems(3) A have "apply_actions act (Suc n) as s1 = (n', err, s')" by simp
    then show ?thesis using Cons.IH [OF _ \<open>P s1\<close>] Cons.prems(1) by (meson list.set_intros(2))
  next
    case (Some x)
    with Cons.prems(3) A \<open>P s1\<close> show ?thesis by simp
  qed
qed


abbreviation domain_types :: "action_type list" where
  "domain_types \<equiv> [ActionAddTrustDomain, ActionUpdateTrustDomain, ActionRemoveTrustDomain]"





lemma converge_types:
  "a \<in> set (convergeTrustDomains current spec) \<Longrightarrow> co_type a \<in> set domain_types"
  "a \<in> set (convergeSigningKeys current spec) \<Longrightarrow> co_type a = ActionRotateSigningKey"
  "a \<in> set (convergeSSFStreams current spec) \<Longrightarrow> co_type a \<in> {ActionAddSSFStream, ActionRemoveSSFStream}"
  "a \<in> set (convergeFederationPeers current spec) \<Longrightarrow> co_type a \<in> {ActionAddPeer, ActionRemovePeer}"
  by (auto simp: convergeTrustDomains_def convergeSigningKeys_def convergeSSFStreams_def convergeFederationPeers_def
      converge_ids_def target_action_def Let_def split: option.splits if_splits)

lemma of_types_append: "of_types tys (as @ bs) = of_types tys as @ of_types tys bs"
  by (simp add: of_types_def)

lemma of_types_in: "\<forall>a \<in> set xs. co_type a \<in> A \<Longrightarrow> A \<subseteq> set tys \<Longrightarrow> of_types tys xs = xs"
  by (auto simp: of_types_def filter_id_conv)

lemma of_types_out: "\<forall>a \<in> set xs. co_type a \<in> A \<Longrightarrow> A \<inter> set tys = {} \<Longrightarrow> of_types tys xs = []"
  by (auto simp: of_types_def filter_empty_conv)

lemma sort_phases:
  assumes ks: "\<forall>a \<in> set ks. co_type a \<in> {ActionRotateSigningKey}"
    and ds: "\<forall>a \<in> set ds. co_type a \<in> set domain_types"
    and ss: "\<forall>a \<in> set ss. co_type a \<in> {ActionAddSSFStream, ActionRemoveSSFStream}"
    and ps: "\<forall>a \<in> set ps. co_type a \<in> {ActionAddPeer, ActionRemovePeer}"
    and rs: "\<forall>a \<in> set rs. co_type a \<in> {ActionImportRevocations, ActionResetRevocations}"
  shows "sortActions (ds @ ks @ ss @ ps @ rs) = ks @ ds @ ss @ ps @ rs"
  by (simp add: sortActions_def of_types_append of_types_in [OF ks] of_types_out [OF ks] of_types_in [OF ds]
      of_types_out [OF ds] of_types_in [OF ss] of_types_out [OF ss] of_types_in [OF ps] of_types_out [OF ps]
      of_types_in [OF rs] of_types_out [OF rs])

lemma sortActions_Converge:
  obtains revs where "\<And>a. a \<in> set revs \<Longrightarrow> co_type a \<in> {ActionImportRevocations, ActionResetRevocations}"
    and "sortActions (Converge imp current spec) = convergeSigningKeys current spec
      @ convergeTrustDomains current spec @ convergeSSFStreams current spec
      @ convergeFederationPeers current spec @ revs"
proof -
  define revs where "revs = (if imp
        then case current of
               None \<Rightarrow> []
             | Some c \<Rightarrow>
                 if sv_count (sm_revocations c) > 0
                 then [\<lparr>co_type = ActionImportRevocations,
                        co_description = ''import '' @ show_int (sv_count (sm_revocations c))
                          @ '' revocations from snapshot'', co_target = ''''\<rparr>]
                 else []
        else [\<lparr>co_type = ActionResetRevocations,
               co_description = ''reset revocation index (clean start)'', co_target = ''''\<rparr>])"
  have revs: "co_type a \<in> {ActionImportRevocations, ActionResetRevocations}" if "a \<in> set revs" for a
    using that by (auto simp: revs_def split: if_splits option.splits)
  have C: "Converge imp current spec = convergeTrustDomains current spec @ convergeSigningKeys current spec
      @ convergeSSFStreams current spec @ convergeFederationPeers current spec @ revs"
    by (simp add: Converge_def revs_def)
  have "sortActions (Converge imp current spec) = convergeSigningKeys current spec
      @ convergeTrustDomains current spec @ convergeSSFStreams current spec
      @ convergeFederationPeers current spec @ revs"
    unfolding C by (rule sort_phases) (use converge_types revs in blast)+
  with that revs show thesis by blast
qed


section \<open>Trust domains\<close>

text \<open>The connection holds the domains \<open>D\<close> and is to reach the manifest \<open>m\<close>.\<close>

definition has_domains :: "soul_manifest \<Rightarrow> trust_domain_spec list \<Rightarrow> ('key, 'skey) in_process \<Rightarrow> bool" where
  "has_domains m D c \<longleftrightarrow> ip_keeper c \<noteq> None \<and> ip_desired c = Some m \<and> currentTrustDomains c = D"





lemma replace_domain_not_Nil [simp]: "replace_domain n d D \<noteq> []"
  by (cases D) auto















lemma CurrentManifest_domains [simp]: "sm_trust_domains (CurrentManifest now x c) = currentTrustDomains c"
  by (simp add: CurrentManifest_def Let_def)

lemma SetDesiredSpec_domains [simp]:
  "currentTrustDomains (SetDesiredSpec m c) = currentTrustDomains c"
  "has_domains m D (SetDesiredSpec m c) \<longleftrightarrow> ip_keeper c \<noteq> None \<and> currentTrustDomains c = D"
  by (auto simp: SetDesiredSpec_def currentTrustDomains_def boot_specs_def has_domains_def split: option.split)



lemma reconcile_finish_unit:
  "reconcile_finish C V r s = (x, s') \<Longrightarrow> rs_unit s' = rs_unit s"
  by (auto simp: reconcile_finish_def updateStatus_def writeStatus_def with_status_def Let_def
      split: option.splits prod.splits)


lemma reconcile_in_process:
  assumes "ReconcileFabric (in_process_connection now exported_now E duration) V s = ((requeue, err), s')"
  shows "\<exists>r e. ApplyPlan E (Converge True (Some (CurrentManifest now exported_now (rs_unit s)))
      (Some (desired_manifest V s))) (SetDesiredSpec (desired_manifest V s) (rs_unit s)) = (r, e, rs_unit s')
    \<and> (e \<noteq> None \<longrightarrow> requeue = 30 \<and> err = e)"
proof (cases rule: ReconcileFabric_cases [of "in_process_connection now exported_now E duration" s V])
  case (unread err)
  then show ?thesis by (simp add: in_process_connection_def)
next
  case (idle current)
  have "rs_unit s' = SetDesiredSpec (desired_manifest V s) (rs_unit s)"
    using reconcile_finish_unit [OF idle(3) [symmetric, THEN trans, OF assms]] by (simp add: in_process_connection_def)
  with idle(1,2) show ?thesis
    by (simp add: in_process_connection_def ApplyPlan_def ExecutePlan_def Plan_IsEmpty_def)
next
  case (failed current plan msg result err' u')
  have "rs_unit s' = u' \<and> requeue = 30 \<and> err = Some err'"
    using failed(5) assms by (auto simp: degraded_def)
  with failed(1,2,4) show ?thesis by (auto simp: in_process_connection_def split: prod.splits)
next
  case (applied current plan msg result u')
  have "rs_unit s' = u'"
    using reconcile_finish_unit [OF applied(5) [symmetric, THEN trans, OF assms]] by simp
  with applied(1,2,4) show ?thesis by (auto simp: in_process_connection_def split: prod.splits)
qed

lemma reconcile_keeps_spec:
  "fb_spec (rs_fabric (snd (ReconcileFabric C V s))) = fb_spec (rs_fabric s)"
  by (cases rule: ReconcileFabric_cases [of C s V])
    (simp_all add: degraded_def setPhase_def writeStatus_def with_status_def Let_def reconcile_finish_state updateStatus_def)


section \<open>Signing keys\<close>

lemma update_new_key: "k \<notin> fst ` set m \<Longrightarrow> AList.update k v m = m @ [(k, v)]"
  by (induction m) auto

lemma index_by_distinct: "distinct (map key xs) \<Longrightarrow> index_by key xs = map (\<lambda>x. (key x, x)) xs"
proof -
  have "distinct (map key xs) \<Longrightarrow> fst ` set m \<inter> key ` set xs = {} \<Longrightarrow>
      fold (\<lambda>x. AList.update (key x) x) xs m = m @ map (\<lambda>x. (key x, x)) xs" for m
    by (induction xs arbitrary: m) (auto simp: update_new_key)
  then show "distinct (map key xs) \<Longrightarrow> ?thesis" by (simp add: index_by_def)
qed

lemma converge_all_keys:
  assumes "distinct (map sk_kid (sm_signing_keys m))" and "\<forall>k \<in> set (sm_signing_keys m). sk_kms_key_id k \<noteq> ''''"
    and "ip_keyring c = Some kr"
  shows "map co_target (convergeSigningKeys (Some (CurrentManifest now x c)) (Some m)) = map sk_kid (sm_signing_keys m)"
proof -
  have "filter (\<lambda>(kid, specKey).
      case map_of (index_by sk_kid (sm_signing_keys (CurrentManifest now x c))) kid of
        None \<Rightarrow> True
      | Some curKey \<Rightarrow> sk_kms_key_id curKey \<noteq> sk_kms_key_id specKey \<or> sk_status curKey \<noteq> sk_status specKey)
      (map (\<lambda>k. (sk_kid k, k)) (sm_signing_keys m)) = map (\<lambda>k. (sk_kid k, k)) (sm_signing_keys m)"
    using assms(2,3)
    by (auto simp: filter_id_conv CurrentManifest_def Let_def index_by_def split: option.split if_splits)
  then show ?thesis
    by (simp add: convergeSigningKeys_def of_manifest_def Let_def index_by_distinct [OF assms(1)] comp_def)
qed

lemma apply_rotations:
  assumes "\<And>a. a \<in> set as \<Longrightarrow> co_type a = ActionRotateSigningKey \<and> co_target a \<noteq> ''''
      \<and> map_of (kr_keys kr) (co_target a) \<noteq> None"
    and "ip_keyring c = Some kr" and "as \<noteq> []"
  shows "\<exists>n' c'. apply_actions (\<lambda>i. ApplyAction (E i)) n as c = (n', None, c')
    \<and> ip_keyring c' = Some (kr\<lparr>kr_active_kid := co_target (last as)\<rparr>)"
  using assms
proof (induction as arbitrary: n c kr)
  case (Cons a as)
  let ?kr = "kr\<lparr>kr_active_kid := co_target a\<rparr>" and ?c = "c\<lparr>ip_keyring := Some (kr\<lparr>kr_active_kid := co_target a\<rparr>)\<rparr>"
  have A: "ApplyAction (E n) a c = (None, ?c)"
    using Cons.prems(1) [of a] Cons.prems(2) by (auto simp: ApplyAction_def ActivateKey_def)
  show ?case
  proof (cases "as = []")
    case False
    have "\<exists>n' c'. apply_actions (\<lambda>i. ApplyAction (E i)) (Suc n) as ?c = (n', None, c')
        \<and> ip_keyring c' = Some (?kr\<lparr>kr_active_kid := co_target (last as)\<rparr>)"
      by (rule Cons.IH) (use Cons.prems(1) False in auto)
    with A False show ?thesis by simp
  qed (use A in simp)
qed simp

lemma apply_actions_keyring:
  assumes "\<And>a. a \<in> set as \<Longrightarrow> co_type a \<noteq> ActionRotateSigningKey"
    and "apply_actions (\<lambda>i. ApplyAction (E i)) n as c = (n', err, c')"
  shows "ip_keyring c' = ip_keyring c"
proof (rule apply_actions_invariant [where P = "\<lambda>x. ip_keyring x = ip_keyring c", OF _ refl assms(2)])
  fix i a s e s' assume "a \<in> set as" "ip_keyring s = ip_keyring c" "ApplyAction (E i) a s = (e, s')"
  with assms(1) [of a] show "ip_keyring s' = ip_keyring c"
    by (cases "co_type a")
      (auto simp: ApplyAction_def applyTrustDomainChange_def removeTrustDomain_def persistTrustDomains_def Let_def
        with_transmitter_def split: option.splits prod.splits sum.splits if_splits)
qed


lemma plan_keys_first:
  assumes "ApplyPlan E (Converge imp current spec) c = (res, err, c')"
  obtains rest n where "\<And>a. a \<in> set rest \<Longrightarrow> co_type a \<noteq> ActionRotateSigningKey"
    and "apply_actions (\<lambda>i. ApplyAction (E i)) 0 (convergeSigningKeys current spec @ rest) c = (n, err, c')"
proof -
  obtain rs where rs: "\<And>a. a \<in> set rs \<Longrightarrow> co_type a \<in> {ActionImportRevocations, ActionResetRevocations}"
    and sorted: "sortActions (Converge imp current spec) = convergeSigningKeys current spec
      @ convergeTrustDomains current spec @ convergeSSFStreams current spec @ convergeFederationPeers current spec @ rs"
    by (rule sortActions_Converge [of imp current spec]) blast
  define rest where "rest = convergeTrustDomains current spec @ convergeSSFStreams current spec
    @ convergeFederationPeers current spec @ rs"
  have "co_type a \<noteq> ActionRotateSigningKey" if "a \<in> set rest" for a
    using that converge_types(1,3,4) [of a current spec] rs [of a] by (auto simp: rest_def)
  moreover have "\<exists>n. apply_actions (\<lambda>i. ApplyAction (E i)) 0 (convergeSigningKeys current spec @ rest) c = (n, err, c')"
  proof (cases "Converge imp current spec = []")
    case True
    then have "convergeSigningKeys current spec @ rest = []"
      using sorted by (simp add: rest_def sortActions_def of_types_def)
    with True assms show ?thesis by (simp add: ApplyPlan_def ExecutePlan_def Plan_IsEmpty_def)
  next
    case False
    with assms sorted show ?thesis
      by (auto simp: ApplyPlan_def ExecutePlan_def Plan_IsEmpty_def Let_def rest_def split: prod.splits)
  qed
  ultimately show thesis using that by blast
qed

text \<open>
  A reconciliation activates the last signing key of the resource, whatever status the resource
  gives it, revoked or rotated included. The running manifest has no KMS identifier, so that every
  key of the resource, which must name one, looks changed and is activated in turn, and again with
  every reconciliation; Go walks the keys in no fixed order.
\<close>

theorem reconcile_activates_last_key:
  assumes "ReconcileFabric (in_process_connection now exported_now E duration) V s = (r, s')"
    and "ip_keyring (rs_unit s) = Some kr"
    and "keys = fsp_signing_keys (fb_spec (rs_fabric s))" and "keys \<noteq> []" and "distinct (map ks_kid keys)"
    and "\<forall>k \<in> set keys. ks_kid k \<noteq> '''' \<and> ks_kms_key_id k \<noteq> '''' \<and> map_of (kr_keys kr) (ks_kid k) \<noteq> None"
  shows "\<exists>kr'. ip_keyring (rs_unit s') = Some kr' \<and> ActiveKid kr' = ks_kid (last keys)"
proof -
  define m where "m = desired_manifest V s"
  define u where "u = SetDesiredSpec m (rs_unit s)"
  let ?K = "convergeSigningKeys (Some (CurrentManifest now exported_now (rs_unit s))) (Some m)"
  have kids: "map sk_kid (sm_signing_keys m) = map ks_kid keys"
    and kms: "\<forall>k \<in> set (sm_signing_keys m). sk_kms_key_id k \<noteq> ''''"
    using assms(3,6) by (auto simp: m_def desired_manifest_def SpecToManifest_def)
  have targets: "map co_target ?K = map ks_kid keys"
    using converge_all_keys [OF _ kms assms(2)] assms(5) kids by simp
  then have last: "co_target (last ?K) = ks_kid (last keys)" and "?K \<noteq> []"
    using assms(4) by (metis last_map map_is_Nil_conv)+
  have "co_type a = ActionRotateSigningKey \<and> co_target a \<noteq> '''' \<and> map_of (kr_keys kr) (co_target a) \<noteq> None"
    if "a \<in> set ?K" for a
  proof -
    have "co_target a \<in> ks_kid ` set keys" using targets that by (metis image_eqI list.set_map)
    with assms(6) converge_types(2) [OF that] show ?thesis by auto
  qed
  moreover have "ip_keyring u = Some kr" using assms(2) by (simp add: u_def SetDesiredSpec_def)
  ultimately obtain n1 c1 where 1: "apply_actions (\<lambda>i. ApplyAction (E i)) 0 ?K u = (n1, None, c1)"
      "ip_keyring c1 = Some (kr\<lparr>kr_active_kid := ks_kid (last keys)\<rparr>)"
    using apply_rotations [of ?K kr u E 0] \<open>?K \<noteq> []\<close> last by auto
  obtain r' e where run: "ApplyPlan E (Converge True (Some (CurrentManifest now exported_now (rs_unit s))) (Some m)) u =
      (r', e, rs_unit s')"
    using reconcile_in_process [of now exported_now E duration V s "fst r" "snd r" s'] assms(1)
    by (auto simp: m_def u_def)
  obtain rest n where rest: "\<And>a. a \<in> set rest \<Longrightarrow> co_type a \<noteq> ActionRotateSigningKey"
      "apply_actions (\<lambda>i. ApplyAction (E i)) 0 (?K @ rest) u = (n, e, rs_unit s')"
    by (rule plan_keys_first [OF run]) blast
  have "apply_actions (\<lambda>i. ApplyAction (E i)) n1 rest c1 = (n, e, rs_unit s')"
    using rest(2) 1(1) by (simp add: apply_actions_append)
  then have "ip_keyring (rs_unit s') = ip_keyring c1" using apply_actions_keyring rest(1) by blast
  with 1(2) show ?thesis by (simp add: ActiveKid_def)
qed


section \<open>Streams\<close>

definition unit_streams :: "('key, 'skey) in_process \<Rightarrow> string set" where
  "unit_streams c = (case ip_transmitter c of None \<Rightarrow> {} | Some (tx, st) \<Rightarrow> inf_stream_id ` set (ListStreams st))"

lemma ListStreams_ids: "inf_stream_id ` set (ListStreams st) = (\<lambda>(_, x). st_id (sm_stream x)) ` set (tx_streams st)"
  by (force simp: ListStreams_def)

lemma tx_log_same_streams: "tx_log tx ty a sub tg st = (r, st') \<Longrightarrow> tx_streams st' = tx_streams st"
  by (auto simp: tx_log_def sreturn_apply smodify_apply split: if_splits)

lemma CreateStream_ids:
  assumes "CreateStream up bytes now tx cfg st = (r, st')"
  shows "inf_stream_id ` set (ListStreams st') \<subseteq> insert (generateJTI bytes) (inf_stream_id ` set (ListStreams st))"
proof -
  define new where "new = \<lparr>sm_stream = \<lparr>st_id = generateJTI bytes, st_issuer = tm_issuer tx,
            st_audience = sc_audience cfg, st_events_supported = EventTypes, st_status = StreamStatusEnabled\<rparr>,
          sm_config = cfg, sm_created = now\<rparr>"
  have "tx_streams st' = tx_streams st \<or> tx_streams st' = AList.update (generateJTI bytes) new (tx_streams st)"
    using assms
    by (auto simp: CreateStream_def Let_def sbind_apply smodify_apply sreturn_apply sfail_apply new_def
        split: if_splits option.splits sum.splits prod.splits dest: tx_log_same_streams)
  then have "set (tx_streams st') \<subseteq> insert (generateJTI bytes, new) (set (tx_streams st))"
    using set_update_subset [of "generateJTI bytes" new "tx_streams st"] by auto
  then show ?thesis unfolding ListStreams_ids by (force simp: new_def)
qed

lemma DeleteStream_ids:
  assumes "DeleteStream tx x st = (r, st')"
  shows "inf_stream_id ` set (ListStreams st') \<subseteq> inf_stream_id ` set (ListStreams st)"
proof -
  have "set (tx_streams st') \<subseteq> set (tx_streams st)"
    using assms by (auto simp: DeleteStream_def AList.delete_eq split: option.splits dest!: tx_log_same_streams)
  then show ?thesis unfolding ListStreams_ids by blast
qed

lemma with_transmitter_streams:
  assumes "with_transmitter f c = (e, c')"
    and "\<And>tx st r st'. f tx st = (r, st') \<Longrightarrow> inf_stream_id ` set (ListStreams st') \<subseteq> A \<union> inf_stream_id ` set (ListStreams st)"
  shows "unit_streams c' \<subseteq> A \<union> unit_streams c"
proof (cases "ip_transmitter c")
  case None
  with assms(1) show ?thesis by (simp add: with_transmitter_def)
next
  case (Some p)
  obtain tx st where p: "p = (tx, st)" by fastforce
  obtain r st' where f: "f tx st = (r, st')" by fastforce
  with Some p assms(1) have "ip_transmitter c' = Some (tx, st')"
    by (auto simp: with_transmitter_def split: sum.splits)
  with Some p assms(2) [OF f] show ?thesis by (simp add: unit_streams_def)
qed

lemma ApplyAction_transmitter:
  assumes "ApplyAction E a c = (e, c')" and "co_type a \<notin> {ActionAddSSFStream, ActionRemoveSSFStream}"
  shows "unit_streams c' = unit_streams c"
  using assms
  by (cases "co_type a")
    (auto simp: ApplyAction_def applyTrustDomainChange_def removeTrustDomain_def persistTrustDomains_def Let_def
      unit_streams_def split: option.splits if_splits prod.splits)

lemma ApplyAction_streams:
  assumes "ApplyAction E a c = (e, c')"
  shows "unit_streams c' \<subseteq> {generateJTI (av_bytes E)} \<union> unit_streams c"
proof (cases "co_type a")
  case ActionAddSSFStream
  show ?thesis
  proof (rule with_transmitter_streams)
    show "with_transmitter (\<lambda>tx. CreateStream (av_url_parse E) (av_bytes E) (av_now E) tx
        \<lparr>sc_issuer = [], sc_audience = co_target a, sc_events_requested = [],
             sc_events_delivered = [], sc_delivery_method = [], sc_endpoint_url = []\<rparr>) c = (e, c')"
      using assms ActionAddSSFStream by (simp add: ApplyAction_def)
    fix tx st r st'
    assume "CreateStream (av_url_parse E) (av_bytes E) (av_now E) tx
        \<lparr>sc_issuer = [], sc_audience = co_target a, sc_events_requested = [],
             sc_events_delivered = [], sc_delivery_method = [], sc_endpoint_url = []\<rparr> st = (r, st')"
    from CreateStream_ids [OF this]
    show "inf_stream_id ` set (ListStreams st') \<subseteq> {generateJTI (av_bytes E)} \<union> inf_stream_id ` set (ListStreams st)"
      by simp
  qed
next
  case ActionRemoveSSFStream
  with assms have "c' = c \<or> with_transmitter (\<lambda>tx. DeleteStream tx (co_target a)) c = (e, c')"
    by (auto simp: ApplyAction_def split: if_splits)
  then show ?thesis
  proof
    assume "with_transmitter (\<lambda>tx. DeleteStream tx (co_target a)) c = (e, c')"
    then have "unit_streams c' \<subseteq> {} \<union> unit_streams c"
      by (rule with_transmitter_streams) (drule DeleteStream_ids, simp)
    then show ?thesis by auto
  qed auto
qed (use ApplyAction_transmitter [OF assms] in auto)

lemma ApplyPlan_streams:
  assumes "ApplyPlan E plan c = (r, e, c')" and "x \<notin> unit_streams c" and "\<And>i. generateJTI (av_bytes (E i)) \<noteq> x"
  shows "x \<notin> unit_streams c'"
proof (cases "plan = []")
  case True
  with assms(1,2) show ?thesis by (simp add: ApplyPlan_def ExecutePlan_def Plan_IsEmpty_def)
next
  case False
  then obtain n where run: "apply_actions (\<lambda>i. ApplyAction (E i)) 0 (sortActions plan) c = (n, e, c')"
    using assms(1) by (auto simp: ApplyPlan_def ExecutePlan_def Plan_IsEmpty_def Let_def split: prod.splits)
  show ?thesis
    by (rule apply_actions_invariant [where P = "\<lambda>c. x \<notin> unit_streams c", OF _ assms(2) run])
      (use ApplyAction_streams assms(3) in blast)
qed

text \<open>
  A stream of the resource never converges: the unit names a new stream itself, by random bytes,
  so a stream that the unit does not have under the name of the resource is still missing after a
  reconciliation, and the next plan adds it once more (and removes the one just created).
\<close>

theorem spec_stream_never_converges:
  assumes "ReconcileFabric (in_process_connection now exported_now E duration) V s = (r, s')"
    and "x \<in> fs_stream_id ` set (fsp_ssf_streams (fb_spec (rs_fabric s)))"
    and "x \<notin> unit_streams (rs_unit s)" and "\<And>i. generateJTI (av_bytes (E i)) \<noteq> x"
  shows "x \<notin> unit_streams (rs_unit s')
    \<and> target_action ActionAddSSFStream ''add SSF stream'' x \<in> set (Converge True
        (Some (CurrentManifest now' exported_now' (rs_unit s'))) (Some (desired_manifest V' s')))"
proof -
  define c where "c = SetDesiredSpec (desired_manifest V s) (rs_unit s)"
  have "x \<notin> unit_streams c" using assms(3) by (simp add: c_def SetDesiredSpec_def unit_streams_def)
  then have missing: "x \<notin> unit_streams (rs_unit s')"
    using reconcile_in_process [of now exported_now E duration V s "fst r" "snd r" s'] assms(1,4)
      ApplyPlan_streams [of E _ c _ _ "rs_unit s'" x] by (auto simp: c_def)
  have "fb_spec (rs_fabric s') = fb_spec (rs_fabric s)"
    using reconcile_keeps_spec [of "in_process_connection now exported_now E duration" V s] assms(1) by simp
  then have "x \<in> fs_stream_id ` set (sm_ssf_streams (desired_manifest V' s'))"
    using assms(2) by (simp add: desired_manifest_def SpecToManifest_def)
  then obtain y where "(x, y) \<in> set (index_by fs_stream_id (sm_ssf_streams (desired_manifest V' s')))"
    using index_by_keys(2) [of fs_stream_id "sm_ssf_streams (desired_manifest V' s')"] by (metis imageE prod.collapse)
  moreover have "\<not> gomap_has (index_by fs_stream_id
      (sm_ssf_streams (CurrentManifest now' exported_now' (rs_unit s')))) x"
    using missing
    by (auto simp: CurrentManifest_def Let_def unit_streams_def split: option.splits)
  ultimately have "target_action ActionAddSSFStream ''add SSF stream'' x \<in> set (convergeSSFStreams
        (Some (CurrentManifest now' exported_now' (rs_unit s'))) (Some (desired_manifest V' s')))"
    by (force simp: convergeSSFStreams_def converge_ids_def of_manifest_def)
  with missing show ?thesis by (simp add: Converge_def)
qed


section \<open>Examples\<close>

definition demo_unit :: "(string, string) in_process" where
  "demo_unit = \<lparr>ip_fabric_id = ''fab'', ip_keeper = Some (demo_keeper []),
     ip_keyring = Some \<lparr>kr_active_kid = ''k1'', kr_keys = [(''k1'', ''K1''), (''k2'', ''K2'')]\<rparr>,
     ip_transmitter = None, ip_rev_index = None,
     ip_trust_domains = [\<lparr>bd_name = ''old'', bd_enabled = True, bd_jwks_url = '''', bd_issuer = ''''\<rparr>],
     ip_desired = None\<rparr>"

definition demo_status :: fabric_status where
  "demo_status = \<lparr>ft_phase = '''', ft_soul_sequence = 0, ft_trust_domains_active = 0, ft_signing_keys_active = 0,
     ft_ssf_streams_active = 0, ft_peers_total = 0, ft_last_convergence = None, ft_last_duration = '''',
     ft_conditions = []\<rparr>"

definition demo_domain :: crd_trust_domain where
  "demo_domain = \<lparr>ct_name = ''new'', ct_type = ''oidc'', ct_issuer = ''https://i'', ct_jwks_uri = '''', ct_enabled = True\<rparr>"

definition demo_revoked_key :: signing_key_spec where
  "demo_revoked_key = \<lparr>ks_kid = ''k2'', ks_algorithm = ''RS256'', ks_kms_key_id = ''kms'', ks_status = ''revoked''\<rparr>"

definition demo_reconcile ::
  "signing_key_spec list \<Rightarrow> ssf_stream_spec list \<Rightarrow> (string, string) in_process reconcile_state" where
  "demo_reconcile keys streams = \<lparr>rs_fabric = \<lparr>fb_name = ''fab'',
     fb_spec = \<lparr>fsp_trust_domains = [demo_domain], fsp_signing_keys = keys, fsp_ssf_streams = streams,
       fsp_anchor = None, fsp_peers = None\<rparr>, fb_status = demo_status\<rparr>,
     rs_unit = demo_unit, rs_written = []\<rparr>"

definition demo_connection ::
  "((string, string) in_process, convergence_action \<times> apply_error) fabric_connection" where
  "demo_connection = in_process_connection 1 1
     (\<lambda>i. \<lparr>av_url_parse = (\<lambda>u. None), av_bytes = ''abc'', av_now = 1\<rparr>) ''1ms''"

definition demo_reconcile_env :: "(convergence_action \<times> apply_error) reconcile_env" where
  "demo_reconcile_env = \<lparr>rv_manifest_now = 1, rv_clock = (\<lambda>n. 2), rv_write_error = (\<lambda>n. None), rv_show = (\<lambda>e. ''failed'')\<rparr>"

definition demo_stream_spec :: ssf_stream_spec where
  "demo_stream_spec = \<lparr>fs_stream_id = ''stream-1'', fs_transmitter = ''https://t'', fs_events_requested = []\<rparr>"




theorem reconcile_activates_last_key_witness:
  "\<exists>kr'. ip_keyring (rs_unit (snd (ReconcileFabric demo_connection demo_reconcile_env
       (demo_reconcile [demo_revoked_key] [])))) = Some kr' \<and> ActiveKid kr' = ''k2''"
  using reconcile_activates_last_key [OF prod.collapse [symmetric, of "ReconcileFabric demo_connection
      demo_reconcile_env (demo_reconcile [demo_revoked_key] [])", unfolded demo_connection_def]]
  by (simp add: demo_reconcile_def demo_unit_def demo_revoked_key_def demo_connection_def)

theorem spec_stream_never_converges_witness:
  "''stream-1'' \<notin> unit_streams (rs_unit (snd (ReconcileFabric demo_connection demo_reconcile_env
     (demo_reconcile [] [demo_stream_spec]))))"
proof -
  let ?s = "demo_reconcile [] [demo_stream_spec]"
  let ?E = "\<lambda>i :: nat. \<lparr>av_url_parse = (\<lambda>u. None), av_bytes = ''abc'', av_now = 1\<rparr>"
  have run: "ReconcileFabric (in_process_connection 1 1 ?E ''1ms'') demo_reconcile_env ?s =
      (fst (ReconcileFabric demo_connection demo_reconcile_env ?s),
       snd (ReconcileFabric demo_connection demo_reconcile_env ?s))"
    by (simp add: demo_connection_def)
  have "''stream-1'' \<in> fs_stream_id ` set (fsp_ssf_streams (fb_spec (rs_fabric ?s)))"
    by (simp add: demo_reconcile_def demo_stream_spec_def)
  moreover have "''stream-1'' \<notin> unit_streams (rs_unit ?s)"
    by (simp add: demo_reconcile_def demo_unit_def unit_streams_def)
  moreover have "generateJTI (av_bytes (?E i)) \<noteq> ''stream-1''" for i by simp code_simp
  ultimately show ?thesis using spec_stream_never_converges [OF run, of "''stream-1''" 0 0 demo_reconcile_env] by blast
qed

theorem failed_apply_reports_converged_witness:
  "IsConverged (fb_status (rs_fabric (snd (ReconcileFabric demo_connection demo_reconcile_env
     (demo_reconcile [] [demo_stream_spec])))))"
proof -
  let ?s = "demo_reconcile [] [demo_stream_spec]" and ?V = demo_reconcile_env and ?C = demo_connection
  have current: "fc_current ?C (rs_unit ?s) = Inr (CurrentManifest 1 1 (rs_unit ?s))"
    by (simp add: demo_connection_def in_process_connection_def)
  define plan where "plan = Converge True (Some (CurrentManifest 1 1 (rs_unit ?s))) (Some (desired_manifest ?V ?s))"
  have "plan \<noteq> []" unfolding plan_def by code_simp
  moreover obtain r e u where "fc_apply_plan ?C plan (fc_set_desired ?C (desired_manifest ?V ?s) (rs_unit ?s)) = (r, e, u)"
    by (metis prod_cases3)
  moreover have "fst (snd (fc_apply_plan ?C plan (fc_set_desired ?C (desired_manifest ?V ?s) (rs_unit ?s)))) \<noteq> None"
    unfolding plan_def by code_simp
  ultimately show ?thesis
    using failed_apply_reports_converged [OF current plan_def, of _ _ u] by (metis fst_conv option.exhaust prod.collapse snd_conv)
qed

end
