(* ===== verification/Identity_Tokens.thy ===== *)
theory Identity_Tokens
  imports Go_Http Jwks_Cache
begin

text \<open>
  The identity providers of \<open>src/pkg/identity\<close> that read JWTs: Kubernetes service accounts
  (\<open>provider.go\<close>), SPIFFE SVIDs (\<open>spiffe\<close>), OIDC tokens (\<open>oidc\<close>), Google and Azure tokens (\<open>gcp\<close>,
  \<open>azure\<close>) and OAuth 2 access tokens (\<open>oauth2\<close>). Each takes a credential and its type and returns a
  workload identity or an error, a value of \<open>id_error\<close> with the data of its text. The JWT library,
  the key resolver and the HTTP exchanges are parameters; tracing is left out. A walk over a Go
  map follows the order of the list.
\<close>

section \<open>Common parts\<close>

datatype id_error =
    UnsupportedCredential string
  | MalformedCredential
  | MissingClaim string
  | InvalidSpiffeID string
  | UnknownTrustDomain string
  | FetchingKeys string
  | NoKeySource string
  | ParsingSignature
  | NoSignatures
  | MissingHeader string
  | ResolvingSigner string
  | ImportingKey
  | ValidationFailed
  | WrongIssuer string
  | WrongAudience "string list"
  | NotAllowed string
  | NoIntrospection
  | AmbiguousIntrospection
  | IntrospectionFailed
  | TokenInactive
  | EmptyCredential
  | UnknownApiKey
  | ApiKeyExpired
  | NoSubjectInCertificate
  | UntrustedCertificate
  | InvalidStsMethod string
  | InvalidStsUrl string
  | StaleStsRequest
  | StsFailed
  | NoKeytab
  | TicketDecryptionFailed
  | ReplayDetected
  | NoIdpCertificate string
  | NotYetValid
  | AssertionExpired
  | InvalidCondition
  | NoProvider string "string list"

text \<open>
  The JWT library. \<open>jl_insecure\<close> is \<open>jwt.ParseInsecure\<close>; \<open>jl_signatures\<close> lists the key identifier and
  the algorithm of every signature; \<open>jl_parse_key\<close> and \<open>jl_parse_set\<close> are \<open>jwt.Parse\<close> with validation,
  under one key or under a key set; \<open>jl_fetch\<close> is \<open>jwk.Fetch\<close>, \<open>jl_lookup\<close> the library's own cache.
\<close>

record ('pub, 'key, 'ks, 'alg) jwt_lib =
  jl_insecure :: "string \<Rightarrow> claims option"
  jl_signatures :: "string \<Rightarrow> (string option \<times> 'alg option) list option"
  jl_import :: "'pub \<Rightarrow> 'key option"
  jl_parse_key :: "'alg option \<Rightarrow> 'key \<Rightarrow> string \<Rightarrow> claims option"
  jl_parse_set :: "'ks \<Rightarrow> string \<Rightarrow> claims option"
  jl_fetch :: "string \<Rightarrow> 'ks option"
  jl_lookup :: "string \<Rightarrow> 'ks option"

type_synonym 'pub key_source = "string \<Rightarrow> string \<Rightarrow> string + 'pub"

definition wimse_uri :: "string \<Rightarrow> string \<Rightarrow> string \<Rightarrow> string" where
  "wimse_uri td kind rest = ''wimse://'' @ td @ ''/'' @ kind @ ''/'' @ rest"

definition mk_identity :: "string \<Rightarrow> string \<Rightarrow> string \<Rightarrow> go_time \<Rightarrow> claims \<Rightarrow> workload_identity" where
  "mk_identity uri td method now cs =
     \<lparr>wi_id = uri, wi_trust_domain = td,
      wi_attestation = Some \<lparr>ae_method = method, ae_timestamp = now, ae_node_id = '''', ae_namespace = ''''\<rparr>,
      wi_claims = cs\<rparr>"

text \<open>\<open>WithTrustDomains\<close>: the enabled domains, by name or by issuer; later ones win.\<close>

definition domains_by_name :: "trust_domain list \<Rightarrow> (string, trust_domain) gomap" where
  "domains_by_name ds = fold (\<lambda>d m. if bd_enabled d then AList.update (bd_name d) d m else m) ds []"

definition domains_by_issuer :: "trust_domain list \<Rightarrow> (string, trust_domain) gomap" where
  "domains_by_issuer ds =
     fold (\<lambda>d m. if bd_enabled d \<and> bd_issuer d \<noteq> '''' then AList.update (bd_issuer d) d m else m) ds []"

definition domains_by_nonempty_name :: "trust_domain list \<Rightarrow> (string, trust_domain) gomap" where
  "domains_by_nonempty_name ds =
     fold (\<lambda>d m. if bd_enabled d \<and> bd_name d \<noteq> '''' then AList.update (bd_name d) d m else m) ds []"

definition opt_claim :: "string \<Rightarrow> string \<Rightarrow> claims \<Rightarrow> claims" where
  "opt_claim key v cs = (if v \<noteq> '''' then AList.update key (JStr v) cs else cs)"

text \<open>
  \<open>verifyWithResolver\<close>: the five copies differ in that two of them insist on a key identifier
  and an algorithm in the header of the first signature.
\<close>

definition verify_with_resolver ::
  "bool \<Rightarrow> ('pub, 'key, 'ks, 'alg) jwt_lib \<Rightarrow> 'pub key_source \<Rightarrow> string \<Rightarrow> string \<Rightarrow> id_error option" where
  "verify_with_resolver strict L resolve credential jwksURL =
     (case jl_signatures L credential of
        None \<Rightarrow> Some ParsingSignature
      | Some [] \<Rightarrow> Some NoSignatures
      | Some ((kid, alg) # _) \<Rightarrow>
          if strict \<and> kid = None then Some (MissingHeader ''kid'')
          else if strict \<and> alg = None then Some (MissingHeader ''alg'')
          else case resolve jwksURL (case kid of None \<Rightarrow> '''' | Some k \<Rightarrow> k) of
            Inl e \<Rightarrow> Some (ResolvingSigner e)
          | Inr pub \<Rightarrow>
              case jl_import L pub of
                None \<Rightarrow> Some ImportingKey
              | Some key \<Rightarrow> if jl_parse_key L alg key credential = None then Some ValidationFailed else None)"

definition verify_with_fetch :: "('pub, 'key, 'ks, 'alg) jwt_lib \<Rightarrow> string \<Rightarrow> string \<Rightarrow> id_error option" where
  "verify_with_fetch L credential jwksURL =
     (case jl_fetch L jwksURL of
        None \<Rightarrow> Some (FetchingKeys jwksURL)
      | Some ks \<Rightarrow> if jl_parse_set L ks credential = None then Some ValidationFailed else None)"

text \<open>The choice between a resolver and a direct fetch, in the providers of configured issuers.\<close>

definition verify_issuer_token ::
  "bool \<Rightarrow> ('pub, 'key, 'ks, 'alg) jwt_lib \<Rightarrow> 'pub key_source option \<Rightarrow> string \<Rightarrow> string \<Rightarrow> id_error option" where
  "verify_issuer_token strict L resolver credential jwksURL =
     (case resolver of
        Some resolve \<Rightarrow> verify_with_resolver strict L resolve credential jwksURL
      | None \<Rightarrow> if jwksURL \<noteq> '''' then verify_with_fetch L credential jwksURL else Some (NoKeySource jwksURL))"

section \<open>Kubernetes service accounts\<close>

record k8s_provider =
  k8_trust_domains :: "(string, trust_domain) gomap"
  k8_dev_mode :: bool

definition New_k8s :: "(string \<Rightarrow> bool) \<Rightarrow> trust_domain list \<Rightarrow> bool \<Rightarrow> k8s_provider" where
  "New_k8s registered domains devMode =
     \<lparr>k8_trust_domains =
        fold (\<lambda>d m.
          if \<not> bd_enabled d then m
          else if bd_issuer d = '''' \<or> bd_jwks_url d = '''' then m
          else if \<not> registered (bd_jwks_url d) then m
          else AList.update (bd_issuer d) d m) domains [],
      k8_dev_mode = devMode\<rparr>"

text \<open>
  The walk of \<open>claimString\<close>: at a value that is not an object it stops with that value, at a
  missing member with nil.
\<close>

fun walk_claim :: "json \<Rightarrow> string list \<Rightarrow> json" where
  "walk_claim v [] = v"
| "walk_claim v (k # ks) =
     (case as_obj v of
        None \<Rightarrow> v
      | Some m \<Rightarrow> case map_of m k of None \<Rightarrow> JNull | Some w \<Rightarrow> walk_claim w ks)"

definition claimString :: "claims \<Rightarrow> string \<Rightarrow> string list \<Rightarrow> string" where
  "claimString token flatKey path =
     (let flat = (if flatKey \<noteq> '''' then str_member token flatKey else '''')
      in if length path \<ge> 2
         then case map_of token (hd path) of
                None \<Rightarrow> flat
              | Some v \<Rightarrow> case as_str (walk_claim v (tl path)) of None \<Rightarrow> flat | Some s \<Rightarrow> s
         else flat)"

definition k8s_ValidateWorkload ::
  "('pub, 'key, 'ks, 'alg) jwt_lib \<Rightarrow> go_time \<Rightarrow> k8s_provider \<Rightarrow> string \<Rightarrow> string \<Rightarrow> id_error + workload_identity" where
  "k8s_ValidateWorkload L now p credential credType =
     (if credType \<noteq> ''k8s-sa'' then Inl (UnsupportedCredential credType)
      else case jl_insecure L credential of
        None \<Rightarrow> Inl MalformedCredential
      | Some insecure \<Rightarrow>
          if k8_dev_mode p then
            let sub0 = str_member insecure ''sub''; issuer = str_member insecure ''iss'';
                sub = (if sub0 = '''' then ''dev-workload'' else sub0);
                ns0 = claimString insecure ''namespace'' [''kubernetes.io'', ''namespace''];
                sa0 = claimString insecure ''serviceaccount'' [''kubernetes.io'', ''serviceaccount'', ''name''];
                ns = (if ns0 = '''' then ''default'' else ns0);
                sa = (if sa0 = '''' then sub else sa0);
                uri = (if has_prefix sa ''wimse://'' then sa else ''wimse://dev.local/ns/'' @ ns @ ''/sa/'' @ sa)
            in Inr \<lparr>wi_id = uri, wi_trust_domain = ''dev.local'',
                 wi_attestation = Some \<lparr>ae_method = ''dev-bypass'', ae_timestamp = now, ae_node_id = '''',
                   ae_namespace = ns\<rparr>,
                 wi_claims = [(''namespace'', JStr ns), (''serviceaccount'', JStr sa), (''issuer'', JStr issuer),
                   (''dev_mode'', JBool True)]\<rparr>
          else
            let issuer = str_member insecure ''iss''
            in case map_of (k8_trust_domains p) issuer of
              None \<Rightarrow> Inl (WrongIssuer issuer)
            | Some td \<Rightarrow>
                case jl_lookup L (bd_jwks_url td) of
                  None \<Rightarrow> Inl (FetchingKeys (bd_jwks_url td))
                | Some keyset \<Rightarrow>
                    case jl_parse_set L keyset credential of
                      None \<Rightarrow> Inl ValidationFailed
                    | Some token \<Rightarrow>
                        let ns = claimString token ''namespace'' [''kubernetes.io'', ''namespace''];
                            sa = claimString token ''serviceaccount'' [''kubernetes.io'', ''serviceaccount'', ''name''];
                            pod = claimString token '''' [''kubernetes.io'', ''pod'', ''name''];
                            node = claimString token '''' [''kubernetes.io'', ''node'', ''name'']
                        in Inr \<lparr>wi_id = wimse_uri (bd_name td) ''ns'' (ns @ ''/sa/'' @ sa),
                             wi_trust_domain = bd_name td,
                             wi_attestation = Some \<lparr>ae_method = ''k8s-sa'', ae_timestamp = now, ae_node_id = node,
                               ae_namespace = ns\<rparr>,
                             wi_claims = opt_claim ''node'' node (opt_claim ''pod'' pod
                               [(''namespace'', JStr ns), (''serviceaccount'', JStr sa)])\<rparr>)"

section \<open>SPIFFE\<close>

record 'pub spiffe_provider =
  sf_trust_domains :: "(string, trust_domain) gomap"
  sf_resolver :: "'pub key_source option"
  sf_dev_mode :: bool

definition spiffe_NewProvider :: "trust_domain list \<Rightarrow> 'pub key_source option \<Rightarrow> bool \<Rightarrow> 'pub spiffe_provider" where
  "spiffe_NewProvider domains resolver dev =
     \<lparr>sf_trust_domains = domains_by_name domains, sf_resolver = resolver, sf_dev_mode = dev\<rparr>"

text \<open>\<open>url_parse\<close> gives scheme, host and path.\<close>

definition trim_prefix :: "string \<Rightarrow> string \<Rightarrow> string" where
  "trim_prefix s p = (if has_prefix s p then drop (length p) s else s)"

definition parseSpiffeID ::
  "(string \<Rightarrow> (string \<times> string \<times> string) option) \<Rightarrow> string \<Rightarrow> id_error + string \<times> string" where
  "parseSpiffeID url_parse spiffeID =
     (case url_parse spiffeID of
        None \<Rightarrow> Inl (InvalidSpiffeID spiffeID)
      | Some (scheme, host, path0) \<Rightarrow>
          if scheme \<noteq> ''spiffe'' then Inl (InvalidSpiffeID spiffeID)
          else if host = '''' then Inl (InvalidSpiffeID spiffeID)
          else let path = trim_prefix path0 ''/''
               in if path = '''' then Inl (InvalidSpiffeID spiffeID) else Inr (host, path))"

definition spiffe_ValidateWorkload ::
  "('pub, 'key, 'ks, 'alg) jwt_lib \<Rightarrow> (string \<Rightarrow> (string \<times> string \<times> string) option) \<Rightarrow> go_time
   \<Rightarrow> 'pub spiffe_provider \<Rightarrow> string \<Rightarrow> string \<Rightarrow> id_error + workload_identity" where
  "spiffe_ValidateWorkload L url_parse now p credential ct =
     (if ct \<noteq> ''spiffe-svid'' then Inl (UnsupportedCredential ct)
      else case jl_insecure L credential of
        None \<Rightarrow> Inl MalformedCredential
      | Some insecure \<Rightarrow>
          let sub = str_member insecure ''sub''
          in if sub = '''' then Inl (MissingClaim ''sub'')
             else case parseSpiffeID url_parse sub of
               Inl e \<Rightarrow> Inl e
             | Inr (td, workloadPath) \<Rightarrow>
                 if sf_dev_mode p then
                   Inr (mk_identity (wimse_uri ''dev.local'' ''spiffe'' workloadPath) ''dev.local'' ''spiffe-svid'' now
                     [(''spiffe_id'', JStr sub), (''trust_domain'', JStr td), (''dev_mode'', JBool True)])
                 else case map_of (sf_trust_domains p) td of
                   None \<Rightarrow> Inl (UnknownTrustDomain td)
                 | Some domain \<Rightarrow>
                     case verify_issuer_token True L (sf_resolver p) credential (bd_jwks_url domain) of
                       Some e \<Rightarrow> Inl e
                     | None \<Rightarrow>
                         Inr (mk_identity (wimse_uri td ''spiffe'' workloadPath) td ''spiffe-svid'' now
                           [(''spiffe_id'', JStr sub), (''trust_domain'', JStr td)]))"

section \<open>OIDC\<close>

record 'pub oidc_provider =
  oi_trust_domains :: "(string, trust_domain) gomap"
  oi_resolver :: "'pub key_source option"
  oi_audiences :: "string list"
  oi_dev_mode :: bool

definition oidc_NewProvider ::
  "trust_domain list \<Rightarrow> 'pub key_source option \<Rightarrow> string list \<Rightarrow> bool \<Rightarrow> 'pub oidc_provider" where
  "oidc_NewProvider domains resolver audiences dev =
     \<lparr>oi_trust_domains = domains_by_issuer domains, oi_resolver = resolver, oi_audiences = audiences,
      oi_dev_mode = dev\<rparr>"

definition extractOptionalClaim :: "claims \<Rightarrow> string \<Rightarrow> claims \<Rightarrow> claims" where
  "extractOptionalClaim tok key out =
     (case map_of tok key of
        None \<Rightarrow> out | Some v \<Rightarrow> if v = JNull then out else AList.update key v out)"

definition audience_error :: "string list \<Rightarrow> claims \<Rightarrow> id_error option" where
  "audience_error expected tok =
     (if expected = [] then None
      else if \<not> gomap_has tok ''aud'' then Some (MissingClaim ''aud'')
      else if list_ex (\<lambda>ta. ta \<in> set expected) (token_audience tok) then None
      else Some (WrongAudience (token_audience tok)))"

definition oidc_claims :: "claims \<Rightarrow> string \<Rightarrow> string \<Rightarrow> claims" where
  "oidc_claims tok issuer sub =
     extractOptionalClaim tok ''azp'' (extractOptionalClaim tok ''roles'' (extractOptionalClaim tok ''groups''
       (extractOptionalClaim tok ''email'' [(''issuer'', JStr issuer), (''subject'', JStr sub)])))"

definition oidc_ValidateWorkload ::
  "('pub, 'key, 'ks, 'alg) jwt_lib \<Rightarrow> go_time \<Rightarrow> 'pub oidc_provider \<Rightarrow> string \<Rightarrow> string
   \<Rightarrow> id_error + workload_identity" where
  "oidc_ValidateWorkload L now p credential ct =
     (if ct \<noteq> ''oidc'' then Inl (UnsupportedCredential ct)
      else case jl_insecure L credential of
        None \<Rightarrow> Inl MalformedCredential
      | Some insecure \<Rightarrow>
          let issuer = str_member insecure ''iss''; sub = str_member insecure ''sub''; cs = oidc_claims insecure issuer sub
          in if issuer = '''' then Inl (MissingClaim ''iss'')
             else if sub = '''' then Inl (MissingClaim ''sub'')
             else if oi_dev_mode p then
               Inr (mk_identity (wimse_uri ''dev.local'' ''oidc'' sub) ''dev.local'' ''oidc'' now
                 (AList.update ''dev_mode'' (JBool True) cs))
             else case map_of (oi_trust_domains p) issuer of
               None \<Rightarrow> Inl (WrongIssuer issuer)
             | Some td \<Rightarrow>
                 case verify_issuer_token True L (oi_resolver p) credential (bd_jwks_url td) of
                   Some e \<Rightarrow> Inl e
                 | None \<Rightarrow>
                     case audience_error (oi_audiences p) insecure of
                       Some e \<Rightarrow> Inl e
                     | None \<Rightarrow> Inr (mk_identity (wimse_uri (bd_name td) ''oidc'' sub) (bd_name td) ''oidc'' now cs))"


section \<open>Google\<close>

record 'pub gcp_provider =
  gc_trust_domains :: "(string, trust_domain) gomap"
  gc_allowed_projects :: "string list"
  gc_resolver :: "'pub key_source option"
  gc_dev_mode :: bool

definition gcp_NewProvider ::
  "trust_domain list \<Rightarrow> string list \<Rightarrow> 'pub key_source option \<Rightarrow> bool \<Rightarrow> 'pub gcp_provider" where
  "gcp_NewProvider domains projects resolver dev =
     \<lparr>gc_trust_domains = domains_by_nonempty_name domains, gc_allowed_projects = projects, gc_resolver = resolver,
      gc_dev_mode = dev\<rparr>"

definition googleIssuer :: string where "googleIssuer = ''https://accounts.google.com''"
definition googleJWKSURL :: string where "googleJWKSURL = ''https://www.googleapis.com/oauth2/v3/certs''"

text \<open>The members of \<open>google.compute_engine\<close>, each empty unless it is a string.\<close>

definition compute_engine :: "claims \<Rightarrow> string \<Rightarrow> string" where
  "compute_engine tok key =
     (case get_obj tok ''google'' of
        None \<Rightarrow> ''''
      | Some g \<Rightarrow> case get_obj g ''compute_engine'' of None \<Rightarrow> '''' | Some ce \<Rightarrow> str_member ce key)"

definition gcp_project :: "claims \<Rightarrow> string" where
  "gcp_project tok =
     (let projectID = compute_engine tok ''project_id''
      in if projectID = '''' then str_member tok ''project_id'' else projectID)"

definition verify_remote ::
  "('pub, 'key, 'ks, 'alg) jwt_lib \<Rightarrow> 'pub key_source option \<Rightarrow> string \<Rightarrow> string \<Rightarrow> id_error option" where
  "verify_remote L resolver credential jwksURL =
     (case resolver of
        Some resolve \<Rightarrow> verify_with_resolver False L resolve credential jwksURL
      | None \<Rightarrow> verify_with_fetch L credential jwksURL)"

definition gcp_ValidateWorkload ::
  "('pub, 'key, 'ks, 'alg) jwt_lib \<Rightarrow> go_time \<Rightarrow> 'pub gcp_provider \<Rightarrow> string \<Rightarrow> string
   \<Rightarrow> id_error + workload_identity" where
  "gcp_ValidateWorkload L now p credential ct =
     (if ct \<noteq> ''gcp-wif'' then Inl (UnsupportedCredential ct)
      else case jl_insecure L credential of
        None \<Rightarrow> Inl MalformedCredential
      | Some insecure \<Rightarrow>
          let issuer = str_member insecure ''iss''; sub = str_member insecure ''sub'';
              email = str_member insecure ''email''; projectID = gcp_project insecure;
              principal = (if email \<noteq> '''' then email else sub);
              cs = opt_claim ''instance_id'' (compute_engine insecure ''instance_id'')
                (opt_claim ''zone'' (compute_engine insecure ''zone'') (opt_claim ''project_id'' projectID
                  (opt_claim ''email'' email [(''sub'', JStr sub)])))
          in if issuer \<noteq> googleIssuer then Inl (WrongIssuer issuer)
             else if sub = '''' then Inl (MissingClaim ''sub'')
             else if gc_dev_mode p then
               Inr (mk_identity (wimse_uri ''dev.local'' ''gcp'' principal) ''dev.local'' ''gcp-wif'' now
                 (AList.update ''dev_mode'' (JBool True) cs))
             else case verify_remote L (gc_resolver p) credential googleJWKSURL of
               Some e \<Rightarrow> Inl e
             | None \<Rightarrow>
                 case map_of (gc_trust_domains p) projectID of
                   None \<Rightarrow> Inl (UnknownTrustDomain projectID)
                 | Some td \<Rightarrow>
                     if gc_allowed_projects p \<noteq> [] \<and> projectID \<notin> set (gc_allowed_projects p)
                     then Inl (NotAllowed projectID)
                     else Inr (mk_identity (wimse_uri (bd_name td) ''gcp'' principal) (bd_name td) ''gcp-wif'' now cs))"

section \<open>Azure\<close>

record 'pub azure_provider =
  az_trust_domains :: "(string, trust_domain) gomap"
  az_allowed_tenants :: "string list"
  az_resolver :: "'pub key_source option"
  az_dev_mode :: bool

definition azure_NewProvider ::
  "trust_domain list \<Rightarrow> string list \<Rightarrow> 'pub key_source option \<Rightarrow> bool \<Rightarrow> 'pub azure_provider" where
  "azure_NewProvider domains tenants resolver dev =
     \<lparr>az_trust_domains = domains_by_nonempty_name domains, az_allowed_tenants = tenants, az_resolver = resolver,
      az_dev_mode = dev\<rparr>"

definition azureIssuerPrefix :: string where "azureIssuerPrefix = ''https://login.microsoftonline.com/''"
definition azureSTSPrefix :: string where "azureSTSPrefix = ''https://sts.windows.net/''"

definition trim_suffix :: "string \<Rightarrow> string \<Rightarrow> string" where
  "trim_suffix s q = (if has_prefix (rev s) (rev q) then take (length s - length q) s else s)"

definition extractTenantID :: "string \<Rightarrow> id_error + string" where
  "extractTenantID issuer =
     (let rest = (if has_prefix issuer azureIssuerPrefix then Some (trim_prefix issuer azureIssuerPrefix)
                  else if has_prefix issuer azureSTSPrefix then Some (trim_prefix issuer azureSTSPrefix) else None)
      in case rest of
           None \<Rightarrow> Inl (WrongIssuer issuer)
         | Some path0 \<Rightarrow>
             let path = trim_suffix (trim_suffix (trim_suffix path0 ''/'') ''/v2.0'') ''/'';
                 tenant = hd (split_n2 (CHR ''/'') path)
             in if tenant = '''' then Inl (WrongIssuer issuer) else Inr tenant)"

definition azure_keys_url :: "string \<Rightarrow> string" where
  "azure_keys_url tenantID = azureIssuerPrefix @ tenantID @ ''/discovery/v2.0/keys''"

text \<open>The tenant of the issuer is never empty, so the claim \<open>tid\<close> never stands in for it.\<close>

definition azure_claims :: "claims \<Rightarrow> string \<Rightarrow> claims" where
  "azure_claims tok tenantID =
     (let appid = str_member tok ''appid''; appID = (if appid = '''' then str_member tok ''azp'' else appid);
          cs = opt_claim ''name'' (str_member tok ''name'') (opt_claim ''app_id'' appID
            (opt_claim ''object_id'' (str_member tok ''oid'')
              [(''tenant_id'', JStr tenantID), (''sub'', JStr (str_member tok ''sub''))]))
      in extractOptionalClaim tok ''roles'' cs)"

definition azure_ValidateWorkload ::
  "('pub, 'key, 'ks, 'alg) jwt_lib \<Rightarrow> go_time \<Rightarrow> 'pub azure_provider \<Rightarrow> string \<Rightarrow> string
   \<Rightarrow> id_error + workload_identity" where
  "azure_ValidateWorkload L now p credential ct =
     (if ct \<noteq> ''azure-mi'' then Inl (UnsupportedCredential ct)
      else case jl_insecure L credential of
        None \<Rightarrow> Inl MalformedCredential
      | Some insecure \<Rightarrow>
          let issuer = str_member insecure ''iss''; sub = str_member insecure ''sub'';
              oid = str_member insecure ''oid''; principal = (if oid \<noteq> '''' then oid else sub)
          in if \<not> has_prefix issuer azureIssuerPrefix \<and> \<not> has_prefix issuer azureSTSPrefix then Inl (WrongIssuer issuer)
             else if sub = '''' then Inl (MissingClaim ''sub'')
             else case extractTenantID issuer of
               Inl e \<Rightarrow> Inl e
             | Inr tenantID \<Rightarrow>
                 let cs = azure_claims insecure tenantID
                 in if az_dev_mode p then
                      Inr (mk_identity (wimse_uri ''dev.local'' ''azure'' principal) ''dev.local'' ''azure-mi'' now
                        (AList.update ''dev_mode'' (JBool True) cs))
                    else case verify_remote L (az_resolver p) credential (azure_keys_url tenantID) of
                      Some e \<Rightarrow> Inl e
                    | None \<Rightarrow>
                        case map_of (az_trust_domains p) tenantID of
                          None \<Rightarrow> Inl (UnknownTrustDomain tenantID)
                        | Some td \<Rightarrow>
                            if az_allowed_tenants p \<noteq> [] \<and> tenantID \<notin> set (az_allowed_tenants p)
                            then Inl (NotAllowed tenantID)
                            else Inr (mk_identity (wimse_uri (bd_name td) ''azure'' principal) (bd_name td)
                              ''azure-mi'' now cs))"

section \<open>OAuth 2\<close>

record introspection_response =
  ir_active :: bool
  ir_sub :: string
  ir_client_id :: string
  ir_scope :: string
  ir_issuer :: string

text \<open>
  The introspection endpoints by issuer, each with its client credentials; \<open>oa_introspect\<close> is the
  answer of an endpoint to a token, \<open>None\<close> when the request, its status or its decoding fails.
\<close>

record 'pub oauth2_provider =
  oa_trust_domains :: "(string, trust_domain) gomap"
  oa_resolver :: "'pub key_source option"
  oa_endpoints :: "(string, string \<times> string \<times> string) gomap"
  oa_introspect :: "string \<times> string \<times> string \<Rightarrow> string \<Rightarrow> introspection_response option"
  oa_dev_mode :: bool

definition oauth2_NewProvider ::
  "trust_domain list \<Rightarrow> 'pub key_source option \<Rightarrow> (string, string \<times> string \<times> string) gomap
   \<Rightarrow> (string \<times> string \<times> string \<Rightarrow> string \<Rightarrow> introspection_response option) \<Rightarrow> bool \<Rightarrow> 'pub oauth2_provider" where
  "oauth2_NewProvider domains resolver endpoints introspect dev =
     \<lparr>oa_trust_domains = domains_by_issuer domains, oa_resolver = resolver, oa_endpoints = endpoints,
      oa_introspect = introspect, oa_dev_mode = dev\<rparr>"

definition validateJWT ::
  "('pub, 'key, 'ks, 'alg) jwt_lib \<Rightarrow> go_time \<Rightarrow> 'pub oauth2_provider \<Rightarrow> string \<Rightarrow> claims
   \<Rightarrow> id_error + workload_identity" where
  "validateJWT L now p credential tok =
     (let issuer = str_member tok ''iss''; sub = str_member tok ''sub''; clientID = str_member tok ''client_id'';
          principal = (if clientID = '''' then sub else clientID);
          cs = opt_claim ''scope'' (str_member tok ''scope'') (opt_claim ''client_id'' clientID (opt_claim ''sub'' sub
            [(''issuer'', JStr issuer), (''token_type'', JStr ''jwt'')]))
      in if issuer = '''' then Inl (MissingClaim ''iss'')
         else if principal = '''' then Inl (MissingClaim ''sub'')
         else if oa_dev_mode p then
           Inr (mk_identity (wimse_uri ''dev.local'' ''oauth2'' principal) ''dev.local'' ''oauth2'' now
             (AList.update ''dev_mode'' (JBool True) cs))
         else case map_of (oa_trust_domains p) issuer of
           None \<Rightarrow> Inl (WrongIssuer issuer)
         | Some td \<Rightarrow>
             case verify_issuer_token False L (oa_resolver p) credential (bd_jwks_url td) of
               Some e \<Rightarrow> Inl e
             | None \<Rightarrow> Inr (mk_identity (wimse_uri (bd_name td) ''oauth2'' principal) (bd_name td) ''oauth2'' now cs))"

definition validateOpaque ::
  "go_time \<Rightarrow> 'pub oauth2_provider \<Rightarrow> string \<Rightarrow> id_error + workload_identity" where
  "validateOpaque now p credential =
     (if oa_dev_mode p then
        Inr (mk_identity ''wimse://dev.local/oauth2/opaque-token'' ''dev.local'' ''oauth2'' now
          [(''dev_mode'', JBool True), (''token_type'', JStr ''opaque''), (''key_prefix'', JStr (take 8 credential))])
      else case oa_endpoints p of
        [] \<Rightarrow> Inl NoIntrospection
      | _ # _ # _ \<Rightarrow> Inl AmbiguousIntrospection
      | [(issuerKey, endpoint)] \<Rightarrow>
          case oa_introspect p endpoint credential of
            None \<Rightarrow> Inl IntrospectionFailed
          | Some r \<Rightarrow>
              if \<not> ir_active r then Inl TokenInactive
              else
                let principal0 = (if ir_client_id r = '''' then ir_sub r else ir_client_id r);
                    principal = (if principal0 = '''' then ''unknown'' else principal0);
                    responseIssuer = (if ir_issuer r = '''' then issuerKey else ir_issuer r);
                    cs = opt_claim ''scope'' (ir_scope r) (opt_claim ''client_id'' (ir_client_id r)
                      (opt_claim ''sub'' (ir_sub r)
                        [(''issuer'', JStr responseIssuer), (''token_type'', JStr ''opaque'')]))
                in case map_of (oa_trust_domains p) responseIssuer of
                     None \<Rightarrow> Inl (WrongIssuer responseIssuer)
                   | Some td \<Rightarrow>
                       Inr (mk_identity (wimse_uri (bd_name td) ''oauth2'' principal) (bd_name td) ''oauth2'' now cs))"

definition oauth2_ValidateWorkload ::
  "('pub, 'key, 'ks, 'alg) jwt_lib \<Rightarrow> go_time \<Rightarrow> 'pub oauth2_provider \<Rightarrow> string \<Rightarrow> string
   \<Rightarrow> id_error + workload_identity" where
  "oauth2_ValidateWorkload L now p credential ct =
     (if ct \<noteq> ''oauth2'' then Inl (UnsupportedCredential ct)
      else if credential = '''' then Inl EmptyCredential
      else case jl_insecure L credential of
        Some insecure \<Rightarrow> validateJWT L now p credential insecure
      | None \<Rightarrow> validateOpaque now p credential)"

section \<open>The registry\<close>

type_synonym 'e identity_provider = "string \<Rightarrow> string \<Rightarrow> 'e + workload_identity"

type_synonym 'e identity_registry = "(string, 'e identity_provider) gomap"

definition Identity_Register :: "string \<Rightarrow> 'e identity_provider \<Rightarrow> 'e identity_registry \<Rightarrow> 'e identity_registry" where
  "Identity_Register credType p r = AList.update credType p r"

definition Identity_Unregister :: "string \<Rightarrow> 'e identity_registry \<Rightarrow> bool \<times> 'e identity_registry" where
  "Identity_Unregister credType r = (gomap_has r credType, AList.delete credType r)"

definition Identity_List :: "'e identity_registry \<Rightarrow> string list" where
  "Identity_List r = sort (map fst r)"

definition Registry_ValidateWorkload :: "id_error identity_registry \<Rightarrow> id_error identity_provider" where
  "Registry_ValidateWorkload r credential credType =
     (case map_of r credType of
        None \<Rightarrow> Inl (NoProvider credType (Identity_List r))
      | Some p \<Rightarrow> p credential credType)"

end
