(* ===== verification/Identity_Credentials.thy ===== *)
theory Identity_Credentials
  imports Identity_Tokens
begin

text \<open>
  The identity providers of \<open>src/pkg/identity\<close> for other credentials: API keys (\<open>apikey\<close>), client
  certificates (\<open>mtls\<close>), presigned AWS requests (\<open>aws\<close>), Kerberos tickets (\<open>kerberos\<close>) and SAML
  assertions (\<open>saml\<close>), and the issuer of agent identities (\<open>agent\<close>). Decoders, X.509 and XML signature
  checks, ticket decryption, hashes and HTTP exchanges are parameters; tracing is left out.
\<close>

section \<open>API keys\<close>

record key_identity =
  ki_workload_id :: string
  ki_trust_domain :: string
  ki_claims :: "(string, string) gomap"
  ki_expires_at :: go_time

record apikey_provider =
  ap_keys :: "(string, key_identity) gomap"
  ap_dev_mode :: bool

definition apikey_NewProvider :: "(string, key_identity) gomap \<Rightarrow> bool \<Rightarrow> apikey_provider" where
  "apikey_NewProvider keys dev = \<lparr>ap_keys = keys, ap_dev_mode = dev\<rparr>"

text \<open>\<open>sha256_hex\<close> is the hexadecimal digest.\<close>

definition apikey_ValidateWorkload ::
  "(string \<Rightarrow> string) \<Rightarrow> go_time \<Rightarrow> apikey_provider \<Rightarrow> string \<Rightarrow> string \<Rightarrow> id_error + workload_identity" where
  "apikey_ValidateWorkload sha256_hex now p credential ct =
     (if ct \<noteq> ''api-key'' then Inl (UnsupportedCredential ct)
      else if credential = '''' then Inl EmptyCredential
      else
        let hashHex = sha256_hex credential; pre = take 8 hashHex;
            cs = [(''key_prefix'', JStr pre), (''migration_path'', JStr ''true'')]
        in if ap_dev_mode p then
             Inr (mk_identity (wimse_uri ''dev.local'' ''apikey'' pre) ''dev.local'' ''api-key'' now cs)
           else case map_of (ap_keys p) hashHex of
             None \<Rightarrow> Inl UnknownApiKey
           | Some entry \<Rightarrow>
               if \<not> time_is_zero (ki_expires_at entry) \<and> time_after now (ki_expires_at entry) then Inl ApiKeyExpired
               else Inr (mk_identity (ki_workload_id entry) (ki_trust_domain entry) ''api-key'' now
                 (fold (\<lambda>(k, v). AList.update k (JStr v)) (ki_claims entry) cs)))"

section \<open>Client certificates\<close>

text \<open>A certificate by the fields that are read; a URI has scheme, path and text.\<close>

record certificate =
  ce_uris :: "(string \<times> string \<times> string) list"
  ce_dns_names :: "string list"
  ce_emails :: "string list"
  ce_subject_cn :: string
  ce_issuer_cn :: string
  ce_serial :: string
  ce_not_after :: string

record 'pool mtls_provider =
  mt_trust_domains :: "(string, trust_domain) gomap"
  mt_root_cas :: "(string, 'pool) gomap"
  mt_dev_mode :: bool

definition mtls_NewProvider :: "trust_domain list \<Rightarrow> (string, 'pool) gomap \<Rightarrow> bool \<Rightarrow> 'pool mtls_provider" where
  "mtls_NewProvider domains pools dev =
     \<lparr>mt_trust_domains = domains_by_name domains, mt_root_cas = pools, mt_dev_mode = dev\<rparr>"

definition cert_identity :: "certificate \<Rightarrow> id_error + string" where
  "cert_identity cert =
     (case find (\<lambda>(scheme, _, _). scheme = ''spiffe'') (ce_uris cert) of
        Some (_, path, _) \<Rightarrow> Inr (''wimse://{td}/mtls/spiffe/'' @ trim_prefix path ''/'')
      | None \<Rightarrow>
          if ce_dns_names cert \<noteq> [] then Inr (''wimse://{td}/mtls/dns/'' @ hd (ce_dns_names cert))
          else if ce_subject_cn cert \<noteq> '''' then Inr (''wimse://{td}/mtls/cn/'' @ ce_subject_cn cert)
          else Inl NoSubjectInCertificate)"

text \<open>\<open>strings.Replace(s, old, new, 1)\<close> for a non-empty \<open>old\<close>.\<close>

fun replace_first :: "string \<Rightarrow> string \<Rightarrow> string \<Rightarrow> string" where
  "replace_first old new [] = []"
| "replace_first old new (c # cs) =
     (if has_prefix (c # cs) old then new @ drop (length old) (c # cs) else c # replace_first old new cs)"

definition replaceIDTrustDomain :: "string \<Rightarrow> string \<Rightarrow> string" where
  "replaceIDTrustDomain idURI td = replace_first ''{td}'' td idURI"

definition buildClaims :: "certificate \<Rightarrow> claims" where
  "buildClaims cert =
     [(''subject_cn'', JStr (ce_subject_cn cert)), (''issuer_cn'', JStr (ce_issuer_cn cert)),
      (''serial'', JStr (ce_serial cert)), (''not_after'', JStr (ce_not_after cert))]
     @ (if ce_dns_names cert \<noteq> [] then [(''sans_dns'', JArr (map JStr (ce_dns_names cert)))] else [])
     @ (if ce_uris cert \<noteq> [] then [(''sans_uri'', JArr (map (\<lambda>(_, _, t). JStr t) (ce_uris cert)))] else [])
     @ (if ce_emails cert \<noteq> [] then [(''sans_email'', JArr (map JStr (ce_emails cert)))] else [])"

text \<open>
  \<open>decode\<close> is base64, \<open>pem\<close> the first block, \<open>x509\<close> the certificate in it; \<open>chain_ok\<close> is
  \<open>cert.Verify\<close> against a pool of roots at the present time.
\<close>

record 'pool x509_lib =
  xl_decode :: "string \<Rightarrow> string option"
  xl_pem :: "string \<Rightarrow> string option"
  xl_parse :: "string \<Rightarrow> certificate option"
  xl_chain_ok :: "'pool \<Rightarrow> certificate \<Rightarrow> bool"

definition mtls_ValidateWorkload ::
  "'pool x509_lib \<Rightarrow> go_time \<Rightarrow> 'pool mtls_provider \<Rightarrow> string \<Rightarrow> string \<Rightarrow> id_error + workload_identity" where
  "mtls_ValidateWorkload X now p credential ct =
     (if ct \<noteq> ''mtls'' then Inl (UnsupportedCredential ct)
      else case Option.bind (Option.bind (xl_decode X credential) (xl_pem X)) (xl_parse X) of
        None \<Rightarrow> Inl MalformedCredential
      | Some cert \<Rightarrow>
          case cert_identity cert of
            Inl e \<Rightarrow> Inl e
          | Inr idURI \<Rightarrow>
              if mt_dev_mode p then
                Inr (mk_identity (replaceIDTrustDomain idURI ''dev.local'') ''dev.local'' ''mtls'' now
                  (AList.update ''dev_mode'' (JBool True) (buildClaims cert)))
              else case find (\<lambda>(_, pool). xl_chain_ok X pool cert) (mt_root_cas p) of
                None \<Rightarrow> Inl UntrustedCertificate
              | Some (td, _) \<Rightarrow>
                  Inr (mk_identity (replaceIDTrustDomain idURI td) td ''mtls'' now (buildClaims cert)))"

section \<open>AWS\<close>

record sts_credential =
  sq_url :: string
  sq_method :: string
  sq_headers :: "(string, string) gomap"
  sq_body :: string

record caller_identity =
  cl_account :: string
  cl_arn :: string
  cl_user_id :: string

record aws_provider =
  aw_trust_domains :: "(string, trust_domain) gomap"
  aw_allowed_roles :: "string list"
  aw_sts_endpoint :: string
  aw_dev_mode :: bool

definition defaultSTSURL :: string where "defaultSTSURL = ''https://sts.amazonaws.com''"

definition maxRequestAge :: duration where "maxRequestAge = 15 * go_minute"

definition aws_NewProvider :: "trust_domain list \<Rightarrow> string list \<Rightarrow> string option \<Rightarrow> bool \<Rightarrow> aws_provider" where
  "aws_NewProvider domains roles endpoint dev =
     \<lparr>aw_trust_domains = domains_by_name domains, aw_allowed_roles = roles,
      aw_sts_endpoint = (case endpoint of None \<Rightarrow> defaultSTSURL | Some u \<Rightarrow> u), aw_dev_mode = dev\<rparr>"

definition isAllowedSTSURL :: "aws_provider \<Rightarrow> string \<Rightarrow> bool" where
  "isAllowedSTSURL p u \<longleftrightarrow>
     str_contains u ''sts.amazonaws.com'' \<or> aw_sts_endpoint p \<noteq> defaultSTSURL \<and> has_prefix u (aw_sts_endpoint p)"

text \<open>\<open>strings.SplitN\<close> by one byte.\<close>

fun split_n :: "nat \<Rightarrow> char \<Rightarrow> string \<Rightarrow> string list" where
  "split_n 0 c s = []"
| "split_n (Suc 0) c s = [s]"
| "split_n (Suc (Suc n)) c s =
     (case cut_before c s of
        None \<Rightarrow> [s]
      | Some p \<Rightarrow> p # split_n (Suc n) c (drop (length p + 1) s))"

definition extractRoleName :: "string \<Rightarrow> string" where
  "extractRoleName arn =
     (let parts = split_n 6 (CHR '':'') arn
      in if length parts < 6 then arn
         else let resource = parts ! 5; segments = split_on (CHR ''/'') resource
              in if length segments \<ge> 2 then segments ! 1 else resource)"

text \<open>
  \<open>parse_amz_date\<close> reads \<open>20060102T150405Z\<close>; \<open>sts_call\<close> is the whole request to the endpoint with the
  method, the headers and the body of the credential, down to the decoded XML.
\<close>

record aws_lib =
  aw_unmarshal :: "string \<Rightarrow> sts_credential option"
  aw_parse_date :: "string \<Rightarrow> go_time option"
  aw_sts_call :: "string \<Rightarrow> string \<Rightarrow> (string, string) gomap \<Rightarrow> string \<Rightarrow> caller_identity option"

definition validateFreshness :: "aws_lib \<Rightarrow> go_time \<Rightarrow> sts_credential \<Rightarrow> id_error option" where
  "validateFreshness A now cred =
     (let dateStr = (case map_of (sq_headers cred) ''X-Amz-Date'' of
            Some d \<Rightarrow> Some d | None \<Rightarrow> map_of (sq_headers cred) ''x-amz-date'')
      in case dateStr of
           None \<Rightarrow> Some StaleStsRequest
         | Some d \<Rightarrow>
             case aw_parse_date A d of
               None \<Rightarrow> Some StaleStsRequest
             | Some t \<Rightarrow> if time_sub now t > maxRequestAge then Some StaleStsRequest else None)"

definition callSTS :: "aws_lib \<Rightarrow> aws_provider \<Rightarrow> sts_credential \<Rightarrow> id_error + caller_identity" where
  "callSTS A p cred =
     (case aw_sts_call A (sq_method cred) (aw_sts_endpoint p) (sq_headers cred) (sq_body cred) of
        None \<Rightarrow> Inl StsFailed | Some r \<Rightarrow> Inr r)"

definition devIdentity :: "go_time \<Rightarrow> sts_credential \<Rightarrow> workload_identity" where
  "devIdentity now cred =
     mk_identity (wimse_uri ''dev.local'' ''aws''
         (case map_of (sq_headers cred) ''X-Starfly-Dev-Arn'' of
            None \<Rightarrow> ''unknown-role'' | Some arn \<Rightarrow> extractRoleName arn))
       ''dev.local'' ''aws-sts'' now [(''dev_mode'', JBool True)]"

definition aws_ValidateWorkload ::
  "aws_lib \<Rightarrow> go_time \<Rightarrow> aws_provider \<Rightarrow> string \<Rightarrow> string \<Rightarrow> id_error + workload_identity" where
  "aws_ValidateWorkload A now p credential ct =
     (if ct \<noteq> ''aws-sts'' then Inl (UnsupportedCredential ct)
      else case aw_unmarshal A credential of
        None \<Rightarrow> Inl MalformedCredential
      | Some cred \<Rightarrow>
          if sq_method cred \<noteq> ''POST'' then Inl (InvalidStsMethod (sq_method cred))
          else if \<not> isAllowedSTSURL p (sq_url cred) then Inl (InvalidStsUrl (sq_url cred))
          else if aw_dev_mode p then Inr (devIdentity now cred)
          else case validateFreshness A now cred of
            Some e \<Rightarrow> Inl e
          | None \<Rightarrow>
              case callSTS A p cred of
                Inl e \<Rightarrow> Inl e
              | Inr r \<Rightarrow>
                  case map_of (aw_trust_domains p) (cl_account r) of
                    None \<Rightarrow> Inl (UnknownTrustDomain (cl_account r))
                  | Some domain \<Rightarrow>
                      if aw_allowed_roles p \<noteq> [] \<and> cl_arn r \<notin> set (aw_allowed_roles p) then Inl (NotAllowed (cl_arn r))
                      else
                        let roleName = extractRoleName (cl_arn r)
                        in Inr (mk_identity (wimse_uri (bd_name domain) ''aws'' roleName) (bd_name domain) ''aws-sts'' now
                             [(''account_id'', JStr (cl_account r)), (''arn'', JStr (cl_arn r)),
                              (''role_name'', JStr roleName), (''user_id'', JStr (cl_user_id r))]))"

section \<open>Kerberos\<close>

text \<open>A ticket as far as it is read: realm, and after decryption client name and key type.\<close>

record 'kt kerberos_provider =
  kb_trust_domains :: "(string, trust_domain) gomap"
  kb_keytab :: "'kt option"
  kb_replay_window :: duration
  kb_dev_mode :: bool

record ('kt, 'tk) kerberos_lib =
  kl_decode :: "string \<Rightarrow> string option"
  kl_unmarshal :: "string \<Rightarrow> 'tk option"
  kl_realm :: "'tk \<Rightarrow> string"
  kl_decrypt :: "'kt \<Rightarrow> 'tk \<Rightarrow> (string list \<times> int) option"
  kl_sha256_hex :: "string \<Rightarrow> string"

type_synonym replay_cache = "(string, go_time) gomap"

definition kerberos_NewProvider ::
  "(string \<Rightarrow> 'kt option) \<Rightarrow> trust_domain list \<Rightarrow> string \<Rightarrow> duration \<Rightarrow> bool \<Rightarrow> 'kt kerberos_provider option" where
  "kerberos_NewProvider load domains keytabPath window dev =
     (if \<not> dev \<and> keytabPath \<noteq> '''' \<and> load keytabPath = None then None
      else Some \<lparr>kb_trust_domains = domains_by_name domains,
        kb_keytab = (if \<not> dev \<and> keytabPath \<noteq> '''' then load keytabPath else None),
        kb_replay_window = window, kb_dev_mode = dev\<rparr>)"

fun slash_join :: "string list \<Rightarrow> string" where
  "slash_join [] = ''''"
| "slash_join [s] = s"
| "slash_join (s # ss) = s @ ''/'' @ slash_join ss"

definition composePrincipal :: "string list \<Rightarrow> string \<Rightarrow> string" where
  "composePrincipal names realm = slash_join names @ ''@'' @ realm"

definition devModeValidate :: "go_time \<Rightarrow> string \<Rightarrow> id_error + workload_identity" where
  "devModeValidate now principal0 =
     (if principal0 = '''' then Inl EmptyCredential
      else
        let parts = split_n2 (CHR ''@'') principal0;
            realm = (if length parts = 2 then parts ! 1 else ''DEV.LOCAL'');
            principal = parts ! 0
        in Inr (mk_identity (wimse_uri ''dev.local'' ''kerberos'' principal) ''dev.local'' ''kerberos'' now
             [(''principal'', JStr principal), (''realm'', JStr realm), (''dev_mode'', JBool True)]))"

definition replay_window :: "'kt kerberos_provider \<Rightarrow> duration" where
  "replay_window p = (if kb_replay_window p = 0 then 5 * go_minute else kb_replay_window p)"

definition prodValidate ::
  "('kt, 'tk) kerberos_lib \<Rightarrow> go_time \<Rightarrow> 'kt kerberos_provider \<Rightarrow> string \<Rightarrow> replay_cache
   \<Rightarrow> (id_error + workload_identity) \<times> replay_cache" where
  "prodValidate K now p raw seen =
     (case kb_keytab p of
        None \<Rightarrow> (Inl NoKeytab, seen)
      | Some kt \<Rightarrow>
          case kl_unmarshal K raw of
            None \<Rightarrow> (Inl MalformedCredential, seen)
          | Some ticket \<Rightarrow>
              case kl_decrypt K kt ticket of
                None \<Rightarrow> (Inl TicketDecryptionFailed, seen)
              | Some (cname, etype) \<Rightarrow>
                  let realm = kl_realm K ticket; replayKey = kl_sha256_hex K raw;
                      principal = composePrincipal cname realm
                  in if gomap_has seen replayKey then (Inl ReplayDetected, seen)
                     else case map_of (kb_trust_domains p) (to_lower realm) of
                       None \<Rightarrow> (Inl (UnknownTrustDomain realm), seen)
                     | Some domain \<Rightarrow>
                         (Inr (mk_identity (wimse_uri (bd_name domain) ''kerberos'' principal) (bd_name domain)
                            ''kerberos'' now
                            [(''principal'', JStr principal), (''realm'', JStr realm), (''etype'', JNum (of_int etype))]),
                          AList.update replayKey (time_add now (replay_window p)) seen))"

definition kerberos_ValidateWorkload ::
  "('kt, 'tk) kerberos_lib \<Rightarrow> go_time \<Rightarrow> 'kt kerberos_provider \<Rightarrow> string \<Rightarrow> string \<Rightarrow> replay_cache
   \<Rightarrow> (id_error + workload_identity) \<times> replay_cache" where
  "kerberos_ValidateWorkload K now p credential ct seen =
     (if ct \<noteq> ''kerberos'' then (Inl (UnsupportedCredential ct), seen)
      else case kl_decode K credential of
        None \<Rightarrow> (Inl MalformedCredential, seen)
      | Some raw \<Rightarrow> if kb_dev_mode p then (devModeValidate now raw, seen) else prodValidate K now p raw seen)"

definition CleanupReplayCache :: "go_time \<Rightarrow> replay_cache \<Rightarrow> nat \<times> replay_cache" where
  "CleanupReplayCache now seen =
     (let kept = filter (\<lambda>(_, expires). \<not> time_after now expires) seen in (length seen - length kept, kept))"

section \<open>SAML\<close>

record saml_conditions =
  sd_not_before :: string
  sd_not_on_or_after :: string
  sd_audiences :: "string list option"

record saml_assertion =
  sa_issuer :: string
  sa_name_id :: string
  sa_conditions :: saml_conditions
  sa_attributes :: "(string \<times> string list) list"

record 'cert saml_provider =
  sl_trust_domains :: "(string, trust_domain) gomap"
  sl_idp_certificates :: "(string, 'cert) gomap"
  sl_audiences :: "string list"
  sl_clock_skew :: duration
  sl_dev_mode :: bool

definition saml_NewProvider ::
  "trust_domain list \<Rightarrow> (string, 'cert) gomap \<Rightarrow> string list \<Rightarrow> duration \<Rightarrow> bool \<Rightarrow> 'cert saml_provider" where
  "saml_NewProvider domains certs audiences skew dev =
     \<lparr>sl_trust_domains = domains_by_name domains, sl_idp_certificates = certs, sl_audiences = audiences,
      sl_clock_skew = skew, sl_dev_mode = dev\<rparr>"

text \<open>
  \<open>sx_signed\<close> is the XML signature check of the document against one root certificate;
  \<open>sx_trim\<close> is \<open>strings.TrimSpace\<close>.
\<close>

record 'cert saml_lib =
  sx_decode :: "string \<Rightarrow> string option"
  sx_unmarshal :: "string \<Rightarrow> saml_assertion option"
  sx_signed :: "'cert \<Rightarrow> string \<Rightarrow> bool"
  sx_parse_time :: "string \<Rightarrow> go_time option"
  sx_trim :: "string \<Rightarrow> string"

definition validateSignature :: "'cert saml_lib \<Rightarrow> 'cert saml_provider \<Rightarrow> string \<Rightarrow> string \<Rightarrow> id_error option" where
  "validateSignature S p rawXML issuer =
     (case map_of (sl_idp_certificates p) issuer of
        None \<Rightarrow> Some (NoIdpCertificate issuer)
      | Some cert \<Rightarrow> if sx_signed S cert rawXML then None else Some ValidationFailed)"

definition validateConditions ::
  "'cert saml_lib \<Rightarrow> go_time \<Rightarrow> 'cert saml_provider \<Rightarrow> saml_conditions \<Rightarrow> id_error option" where
  "validateConditions S now p conds =
     (let early = (if sd_not_before conds = '''' then None
            else case sx_parse_time S (sd_not_before conds) of
              None \<Rightarrow> Some InvalidCondition
            | Some nb \<Rightarrow> if time_before now (time_add nb (- sl_clock_skew p)) then Some NotYetValid else None);
          late = (if sd_not_on_or_after conds = '''' then None
            else case sx_parse_time S (sd_not_on_or_after conds) of
              None \<Rightarrow> Some InvalidCondition
            | Some noa \<Rightarrow>
                if time_after now (time_add noa (sl_clock_skew p)) \<or> now = time_add noa (sl_clock_skew p)
                then Some AssertionExpired else None);
          aud = (case sd_audiences conds of
              None \<Rightarrow> None
            | Some auds \<Rightarrow>
                if sl_audiences p \<noteq> [] \<and> \<not> list_ex (\<lambda>a. a \<in> set (sl_audiences p)) auds
                then Some (WrongAudience auds) else None)
      in if early \<noteq> None then early else if late \<noteq> None then late else aud)"

definition findTrustDomain :: "'cert saml_provider \<Rightarrow> string \<Rightarrow> string option" where
  "findTrustDomain p issuer =
     map_option fst (find (\<lambda>(_, td). bd_issuer td = issuer) (sl_trust_domains p))"

definition samlAttrMap :: "(string, string) gomap" where
  "samlAttrMap =
     [(''http://schemas.xmlsoap.org/ws/2005/05/identity/claims/emailaddress'', ''email''),
      (''http://schemas.xmlsoap.org/ws/2005/05/identity/claims/givenname'', ''given_name''),
      (''http://schemas.xmlsoap.org/ws/2005/05/identity/claims/surname'', ''surname''),
      (''http://schemas.xmlsoap.org/claims/emailaddress'', ''email''),
      (''http://schemas.xmlsoap.org/claims/Group'', ''groups''),
      (''http://schemas.xmlsoap.org/claims/group'', ''groups''),
      (''http://schemas.xmlsoap.org/claims/role'', ''roles''),
      (''http://schemas.xmlsoap.org/claims/department'', ''department''),
      (''http://schemas.microsoft.com/ws/2008/06/identity/claims/role'', ''roles''),
      (''http://schemas.microsoft.com/ws/2008/06/identity/claims/groups'', ''groups''),
      (''urn:oid:0.9.2342.19200300.100.1.3'', ''email''),
      (''urn:oid:2.5.4.42'', ''given_name''),
      (''urn:oid:2.5.4.4'', ''surname''),
      (''urn:oid:1.3.6.1.4.1.5923.1.1.1.7'', ''roles''),
      (''urn:oid:1.3.6.1.4.1.5923.1.5.1.1'', ''groups'')]"

definition samlAttrKey :: "string \<Rightarrow> string" where
  "samlAttrKey name = (case map_of samlAttrMap name of None \<Rightarrow> '''' | Some k \<Rightarrow> k)"

definition add_saml_attr :: "string \<times> string list \<Rightarrow> claims \<Rightarrow> claims" where
  "add_saml_attr attr cs =
     (let key = samlAttrKey (fst attr); vals = snd attr
      in if key = '''' then cs
         else case vals of
           [] \<Rightarrow> cs
         | [v] \<Rightarrow> AList.update key (JStr v) cs
         | _ \<Rightarrow> AList.update key (JArr (map JStr vals)) cs)"

definition buildIdentity ::
  "go_time \<Rightarrow> 'cert saml_provider \<Rightarrow> string \<Rightarrow> string \<Rightarrow> saml_assertion \<Rightarrow> workload_identity" where
  "buildIdentity now p trustDomain nameID assertion =
     mk_identity (wimse_uri trustDomain ''saml'' nameID) trustDomain ''saml'' now
       (fold add_saml_attr (sa_attributes assertion)
         ([(''issuer'', JStr (sa_issuer assertion)), (''name_id'', JStr nameID)]
          @ (if sl_dev_mode p then [(''dev_mode'', JBool True)] else [])))"

definition saml_ValidateWorkload ::
  "'cert saml_lib \<Rightarrow> go_time \<Rightarrow> 'cert saml_provider \<Rightarrow> string \<Rightarrow> string \<Rightarrow> id_error + workload_identity" where
  "saml_ValidateWorkload S now p credential ct =
     (if ct \<noteq> ''saml'' then Inl (UnsupportedCredential ct)
      else case sx_decode S credential of
        None \<Rightarrow> Inl MalformedCredential
      | Some raw \<Rightarrow>
          case sx_unmarshal S raw of
            None \<Rightarrow> Inl MalformedCredential
          | Some assertion \<Rightarrow>
              let nameID = sx_trim S (sa_name_id assertion)
              in if sa_issuer assertion = '''' then Inl (MissingClaim ''Issuer'')
                 else if nameID = '''' then Inl (MissingClaim ''NameID'')
                 else if sl_dev_mode p then Inr (buildIdentity now p ''dev.local'' nameID assertion)
                 else case validateSignature S p raw (sa_issuer assertion) of
                   Some e \<Rightarrow> Inl e
                 | None \<Rightarrow>
                     case validateConditions S now p (sa_conditions assertion) of
                       Some e \<Rightarrow> Inl e
                     | None \<Rightarrow>
                         case findTrustDomain p (sa_issuer assertion) of
                           None \<Rightarrow> Inl (WrongIssuer (sa_issuer assertion))
                         | Some domain \<Rightarrow> Inr (buildIdentity now p domain nameID assertion))"

section \<open>Agent identities\<close>

record agent_identity_request =
  ag_agent_name :: string
  ag_platform :: string
  ag_capabilities :: "string list"
  ag_on_behalf_of :: string
  ag_max_blast_radius :: string
  ag_metadata :: "(string, string) gomap"
  ag_delegation_depth :: int

record agent_identity =
  ai_workload_id :: string
  ai_token :: string
  ai_expires_at :: go_time

record agent_provider =
  gp_trust_domains :: "(string, trust_domain) gomap"
  gp_auditor :: bool
  gp_sync_bus :: bool
  gp_issuer :: string
  gp_ttl :: duration
  gp_dev_mode :: bool

datatype agent_error =
    MissingAgentName
  | InvalidPlatform string
  | EmptyCapabilities
  | InvalidIdentityID string
  | MintingFailed
  | FlashFailed

definition validPlatforms :: "(string, string) gomap" where
  "validPlatforms = [(''mcp'', ''mcp-client''), (''a2a'', ''a2a-passport''), (''watsonx'', ''watsonx-iam''),
     (''custom'', ''custom-agent'')]"

definition validateRequest :: "agent_identity_request \<Rightarrow> agent_error option" where
  "validateRequest req =
     (if ag_agent_name req = '''' then Some MissingAgentName
      else if \<not> gomap_has validPlatforms (ag_platform req) then Some (InvalidPlatform (ag_platform req))
      else if ag_capabilities req = [] then Some EmptyCapabilities else None)"

definition resolveTrustDomain :: "agent_provider \<Rightarrow> agent_identity_request \<Rightarrow> string" where
  "resolveTrustDomain p req =
     (if gp_dev_mode p then ''dev.local''
      else
        let hint = (case map_of (ag_metadata req) ''trust_domain'' of None \<Rightarrow> '''' | Some t \<Rightarrow> t)
        in if hint \<noteq> '''' \<and> gomap_has (gp_trust_domains p) hint then hint
           else case gp_trust_domains p of [] \<Rightarrow> ''dev.local'' | (name, _) # _ \<Rightarrow> name)"

definition agent_claims :: "agent_provider \<Rightarrow> string \<Rightarrow> agent_identity_request \<Rightarrow> string \<Rightarrow> go_time \<Rightarrow> go_time \<Rightarrow> claims" where
  "agent_claims p sub req td now until =
     [(''sub'', JStr sub), (''iss'', JStr (gp_issuer p)), (''iat'', JNum (of_int (unix_seconds now))),
      (''exp'', JNum (of_int (unix_seconds until))), (''td'', JStr td), (''agent_platform'', JStr (ag_platform req)),
      (''caps'', JArr (map JStr (ag_capabilities req)))]
     @ (if ag_max_blast_radius req \<noteq> '''' then [(''blast_radius'', JStr (ag_max_blast_radius req))] else [])
     @ (if ag_on_behalf_of req \<noteq> '''' then [(''obo'', JStr (ag_on_behalf_of req))] else [])
     @ (if ag_delegation_depth req > 0 then [(''delegation_depth'', JNum (of_int (ag_delegation_depth req)))] else [])"

text \<open>\<open>sign\<close> is \<open>jwt.Sign\<close> under the provider's own key; the audit trail is the list of the events.\<close>

definition IssueAgentIdentity ::
  "(claims \<Rightarrow> string option) \<Rightarrow> go_time \<Rightarrow> agent_provider \<Rightarrow> agent_identity_request \<Rightarrow> audit_event list
   \<Rightarrow> (agent_error + agent_identity) \<times> audit_event list" where
  "IssueAgentIdentity sign now p req trail =
     (case validateRequest req of
        Some e \<Rightarrow> (Inl e, trail)
      | None \<Rightarrow>
          let td = resolveTrustDomain p req;
              uri = wimse_uri td ''agent'' (ag_platform req @ ''/'' @ ag_agent_name req);
              until = time_add now (gp_ttl p)
          in case sign (agent_claims p uri req td now until) of
               None \<Rightarrow> (Inl MintingFailed, trail)
             | Some token \<Rightarrow>
                 (Inr \<lparr>ai_workload_id = uri, ai_token = token, ai_expires_at = until\<rparr>,
                  if gp_auditor p
                  then trail @ [audit_lit ''identity'' ''agent_identity_issued'' uri (ag_platform req) ''allowed'' ''''
                    [(''agent_name'', JStr (ag_agent_name req)), (''platform'', JStr (ag_platform req)),
                     (''capabilities'', JArr (map JStr (ag_capabilities req))),
                     (''delegation_depth'', JNum (of_int (ag_delegation_depth req))), (''trust_domain'', JStr td)]]
                  else trail))"

text \<open>\<open>flash\<close> says whether the bus accepts a signal; accepted signals are collected.\<close>

record agent_world =
  aw_trail :: "audit_event list"
  aw_signals :: "signal list"

definition revoked_signal :: "string \<Rightarrow> signal" where
  "revoked_signal identityID =
     \<lparr>sg_type = ''identity_event'', sg_source = '''', sg_timestamp = 0,
      sg_payload = [(''action'', JStr ''revoked''), (''identity_id'', JStr identityID)]\<rparr>"

definition RevokeIdentity ::
  "(signal \<Rightarrow> bool) \<Rightarrow> agent_provider \<Rightarrow> string \<Rightarrow> agent_world \<Rightarrow> agent_error option \<times> agent_world" where
  "RevokeIdentity flash p identityID w =
     (if \<not> has_prefix identityID ''wimse://'' then (Some (InvalidIdentityID identityID), w)
      else
        let w1 = (if gp_auditor p
                  then w\<lparr>aw_trail := aw_trail w @ [audit_lit ''identity'' ''agent_identity_revoked'' identityID '''' '''' '''' []]\<rparr>
                  else w);
            sig = revoked_signal identityID
        in if \<not> gp_sync_bus p then (None, w1)
           else if flash sig then (None, w1\<lparr>aw_signals := aw_signals w1 @ [sig]\<rparr>) else (Some FlashFailed, w1))"

end
