(* ===== verification/Identity_Guarantees.thy ===== *)
theory Identity_Guarantees
  imports Identity_Credentials Exchange_Guarantees
begin

text \<open>
  The contract of an identity provider in production as a locale, its interpretation on the eleven
  providers, and the registry that \<open>src/cmd/starfly/main.go\<close> builds of them: every identity lies in an
  enabled trust domain of the configuration, and names the domain and the kind of its provider.
\<close>

section \<open>The contract\<close>

definition in_domain :: "trust_domain list \<Rightarrow> string \<Rightarrow> workload_identity \<Rightarrow> bool" where
  "in_domain domains kind w \<longleftrightarrow>
     (\<exists>d \<in> set domains. \<exists>rest. bd_enabled d \<and> wi_trust_domain w = bd_name d \<and> wi_id w = wimse_uri (bd_name d) kind rest)"

lemma mk_identity_sel [simp]:
  "wi_id (mk_identity uri td me now cs) = uri" "wi_trust_domain (mk_identity uri td me now cs) = td"
  by (simp_all add: mk_identity_def)

lemma in_domain_mk [intro]:
  "d \<in> set domains \<Longrightarrow> bd_enabled d \<Longrightarrow> in_domain domains kind (mk_identity (wimse_uri (bd_name d) kind rest) (bd_name d) me now cs)"
  by (auto simp: in_domain_def)

lemma in_domain_record [intro]:
  "d \<in> set domains \<Longrightarrow> bd_enabled d \<Longrightarrow> in_domain domains kind
     \<lparr>wi_id = wimse_uri (bd_name d) kind rest, wi_trust_domain = bd_name d, wi_attestation = att, wi_claims = cs\<rparr>"
  by (auto simp: in_domain_def)

locale trusted_provider =
  fixes domains :: "trust_domain list" and credType kind :: string and validate :: "id_error identity_provider"
  assumes own_type: "validate credential ct = Inr w \<Longrightarrow> ct = credType"
    and trusted: "validate credential ct = Inr w \<Longrightarrow> in_domain domains kind w"
begin

lemma identity_source:
  assumes "validate credential ct = Inr w"
  obtains d rest where "d \<in> set domains" and "bd_enabled d" and "wi_trust_domain w = bd_name d"
    and "wi_id w = wimse_uri (bd_name d) kind rest" and "ct = credType"
  using own_type [OF assms] trusted [OF assms] unfolding in_domain_def by blast

end

lemma domains_fold:
  assumes "map_of (fold (\<lambda>d m. if P d then AList.update (key d) d m else m) ds m0) k = Some d"
  shows "map_of m0 k = Some d \<or> d \<in> set ds \<and> P d \<and> key d = k"
  using assms by (induction ds arbitrary: m0) (fastforce simp: gomap_simps split: if_splits)+

lemma enabled_by_name: "map_of (domains_by_name ds) k = Some d \<Longrightarrow> d \<in> set ds \<and> bd_enabled d \<and> bd_name d = k"
  using domains_fold [of bd_enabled bd_name ds "[]" k d] by (auto simp: domains_by_name_def)

lemma enabled_by_issuer: "map_of (domains_by_issuer ds) k = Some d \<Longrightarrow> d \<in> set ds \<and> bd_enabled d \<and> bd_issuer d = k"
  using domains_fold [of "\<lambda>d. bd_enabled d \<and> bd_issuer d \<noteq> ''''" bd_issuer ds "[]" k d]
  by (auto simp: domains_by_issuer_def)

lemma enabled_by_nonempty_name:
  "map_of (domains_by_nonempty_name ds) k = Some d \<Longrightarrow> d \<in> set ds \<and> bd_enabled d \<and> bd_name d = k"
  using domains_fold [of "\<lambda>d. bd_enabled d \<and> bd_name d \<noteq> ''''" bd_name ds "[]" k d]
  by (auto simp: domains_by_nonempty_name_def)

lemma k8s_domains:
  assumes "map_of (k8_trust_domains (New_k8s registered ds dev)) k = Some d"
  shows "d \<in> set ds \<and> bd_enabled d \<and> bd_issuer d = k \<and> bd_jwks_url d \<noteq> ''''"
proof -
  have "fold (\<lambda>d m. if \<not> bd_enabled d then m else if bd_issuer d = '''' \<or> bd_jwks_url d = '''' then m
          else if \<not> registered (bd_jwks_url d) then m else AList.update (bd_issuer d) d m) ds [] =
      fold (\<lambda>d m. if bd_enabled d \<and> bd_issuer d \<noteq> '''' \<and> bd_jwks_url d \<noteq> '''' \<and> registered (bd_jwks_url d)
          then AList.update (bd_issuer d) d m else m) ds []"
    by (rule fold_cong) auto
  then show ?thesis using assms domains_fold [of "\<lambda>d. bd_enabled d \<and> bd_issuer d \<noteq> '''' \<and> bd_jwks_url d \<noteq> '''' \<and> registered (bd_jwks_url d)"
        bd_issuer ds "[]" k d] by (simp add: New_k8s_def)
qed

interpretation k8s: trusted_provider domains "''k8s-sa''" "''ns''" "k8s_ValidateWorkload L now (New_k8s registered domains False)"
  for domains L now registered
proof
  fix credential ct w assume "k8s_ValidateWorkload L now (New_k8s registered domains False) credential ct = Inr w"
  moreover have "\<not> k8_dev_mode (New_k8s registered domains False)" by (simp add: New_k8s_def)
  ultimately show "ct = ''k8s-sa''" and "in_domain domains ''ns'' w"
    by (auto simp: k8s_ValidateWorkload_def Let_def split: if_splits option.splits dest!: k8s_domains)
qed

interpretation spiffe: trusted_provider domains "''spiffe-svid''" "''spiffe''"
    "spiffe_ValidateWorkload L url_parse now (spiffe_NewProvider domains resolver False)"
  for domains L url_parse now resolver
  by unfold_locales
    (auto simp: spiffe_ValidateWorkload_def spiffe_NewProvider_def Let_def
      split: if_splits option.splits sum.splits prod.splits dest!: enabled_by_name)

interpretation oidc: trusted_provider domains "''oidc''" "''oidc''"
    "oidc_ValidateWorkload L now (oidc_NewProvider domains resolver audiences False)"
  for domains L now resolver audiences
  by unfold_locales
    (auto simp: oidc_ValidateWorkload_def oidc_NewProvider_def Let_def
      split: if_splits option.splits dest!: enabled_by_issuer)

interpretation gcp: trusted_provider domains "''gcp-wif''" "''gcp''"
    "gcp_ValidateWorkload L now (gcp_NewProvider domains projects resolver False)"
  for domains L now projects resolver
  by unfold_locales
    (auto simp: gcp_ValidateWorkload_def gcp_NewProvider_def Let_def
      split: if_splits option.splits dest!: enabled_by_nonempty_name)

interpretation azure: trusted_provider domains "''azure-mi''" "''azure''"
    "azure_ValidateWorkload L now (azure_NewProvider domains tenants resolver False)"
  for domains L now tenants resolver
  by unfold_locales
    (auto simp: azure_ValidateWorkload_def azure_NewProvider_def Let_def
      split: if_splits option.splits sum.splits dest!: enabled_by_nonempty_name)

interpretation oauth2: trusted_provider domains "''oauth2''" "''oauth2''"
    "oauth2_ValidateWorkload L now (oauth2_NewProvider domains resolver endpoints introspect False)"
  for domains L now resolver endpoints introspect
  by unfold_locales
    (auto simp: oauth2_ValidateWorkload_def oauth2_NewProvider_def validateJWT_def validateOpaque_def Let_def
      split: if_splits option.splits list.splits prod.splits dest!: enabled_by_issuer)

interpretation aws: trusted_provider domains "''aws-sts''" "''aws''"
    "aws_ValidateWorkload A now (aws_NewProvider domains roles endpoint False)"
  for domains A now roles endpoint
  by unfold_locales
    (auto simp: aws_ValidateWorkload_def aws_NewProvider_def Let_def
      split: if_splits option.splits sum.splits dest!: enabled_by_name)

interpretation saml: trusted_provider domains "''saml''" "''saml''"
    "saml_ValidateWorkload S now (saml_NewProvider domains certs audiences skew False)"
  for domains S now certs audiences skew
proof
  fix credential ct w assume V: "saml_ValidateWorkload S now (saml_NewProvider domains certs audiences skew False) credential ct = Inr w"
  then show "ct = ''saml''" by (simp add: saml_ValidateWorkload_def split: if_splits)
  from V obtain issuer domain nameID assertion where
      D: "findTrustDomain (saml_NewProvider domains certs audiences skew False) issuer = Some domain"
      and w: "w = buildIdentity now (saml_NewProvider domains certs audiences skew False) domain nameID assertion"
    by (auto simp: saml_ValidateWorkload_def Let_def saml_NewProvider_def split: if_splits option.splits)
  have "distinct (map fst (fold (\<lambda>d m. if bd_enabled d then AList.update (bd_name d) d m else m) domains m))"
    if "distinct (map fst m)" for m :: "(string, trust_domain) gomap"
    using that by (induction domains arbitrary: m) (simp_all add: distinct_update)
  then have "distinct (map fst (domains_by_name domains))" by (simp add: domains_by_name_def)
  moreover from D obtain td where "(domain, td) \<in> set (domains_by_name domains)"
    by (auto simp: findTrustDomain_def saml_NewProvider_def find_Some_iff dest: nth_mem)
  ultimately have "map_of (domains_by_name domains) domain = Some td" by simp
  from enabled_by_name [OF this] show "in_domain domains ''saml'' w"
    by (auto simp: w buildIdentity_def)
qed

interpretation kerberos: trusted_provider domains "''kerberos''" "''kerberos''"
    "\<lambda>credential ct. fst (kerberos_ValidateWorkload K now \<lparr>kb_trust_domains = domains_by_name domains, kb_keytab = keytab,
       kb_replay_window = window, kb_dev_mode = False\<rparr> credential ct seen)"
  for domains K now keytab window seen
  by unfold_locales
    (auto simp: kerberos_ValidateWorkload_def prodValidate_def Let_def
      split: if_splits option.splits prod.splits dest!: enabled_by_name)

text \<open>Without root certificates and without registered keys the last two never succeed.\<close>

interpretation mtls: trusted_provider domains "''mtls''" "''mtls''"
    "mtls_ValidateWorkload X now (mtls_NewProvider domains [] False)"
  for domains X now
  by unfold_locales (auto simp: mtls_ValidateWorkload_def mtls_NewProvider_def split: if_splits option.splits sum.splits)

interpretation apikey: trusted_provider domains "''api-key''" "''apikey''"
    "apikey_ValidateWorkload sha256_hex now (apikey_NewProvider [] False)"
  for domains sha256_hex now
  by unfold_locales (auto simp: apikey_ValidateWorkload_def apikey_NewProvider_def Let_def split: if_splits)


section \<open>The registry of the unit\<close>

text \<open>What \<open>main.go\<close> registers, from the trust domains of the configuration and the shared resolver.\<close>

record ('pub, 'key, 'ks, 'alg, 'pool, 'cert, 'kt, 'tk) identity_env =
  ie_now :: go_time
  ie_jwt :: "('pub, 'key, 'ks, 'alg) jwt_lib"
  ie_resolver :: "'pub key_source"
  ie_registered :: "string \<Rightarrow> bool"
  ie_url_parse :: "string \<Rightarrow> (string \<times> string \<times> string) option"
  ie_introspect :: "string \<times> string \<times> string \<Rightarrow> string \<Rightarrow> introspection_response option"
  ie_kerberos :: "('kt, 'tk) kerberos_lib"
  ie_load_keytab :: "string \<Rightarrow> 'kt option"
  ie_replays :: replay_cache
  ie_saml :: "'cert saml_lib"
  ie_x509 :: "'pool x509_lib"
  ie_aws :: aws_lib
  ie_sha256_hex :: "string \<Rightarrow> string"

definition kerberos_validate ::
  "('pub, 'key, 'ks, 'alg, 'pool, 'cert, 'kt, 'tk) identity_env \<Rightarrow> trust_domain list \<Rightarrow> bool \<Rightarrow> id_error identity_provider" where
  "kerberos_validate V domains dev credential ct =
     (case kerberos_NewProvider (ie_load_keytab V) domains '''' 0 dev of
        None \<Rightarrow> Inl NoKeytab
      | Some p \<Rightarrow> fst (kerberos_ValidateWorkload (ie_kerberos V) (ie_now V) p credential ct (ie_replays V)))"

definition unit_providers ::
  "('pub, 'key, 'ks, 'alg, 'pool, 'cert, 'kt, 'tk) identity_env \<Rightarrow> trust_domain list \<Rightarrow> bool
   \<Rightarrow> (string \<times> id_error identity_provider) list" where
  "unit_providers V domains dev =
     (let L = ie_jwt V; now = ie_now V; res = Some (ie_resolver V)
      in [(''k8s-sa'', k8s_ValidateWorkload L now (New_k8s (ie_registered V) domains dev)),
          (''spiffe-svid'', spiffe_ValidateWorkload L (ie_url_parse V) now (spiffe_NewProvider domains res dev)),
          (''oidc'', oidc_ValidateWorkload L now (oidc_NewProvider domains res [] dev)),
          (''kerberos'', kerberos_validate V domains dev),
          (''saml'', saml_ValidateWorkload (ie_saml V) now (saml_NewProvider domains [] [] 0 dev)),
          (''mtls'', mtls_ValidateWorkload (ie_x509 V) now (mtls_NewProvider domains [] dev)),
          (''aws-sts'', aws_ValidateWorkload (ie_aws V) now (aws_NewProvider domains [] None dev)),
          (''gcp-wif'', gcp_ValidateWorkload L now (gcp_NewProvider domains [] res dev)),
          (''azure-mi'', azure_ValidateWorkload L now (azure_NewProvider domains [] res dev)),
          (''oauth2'', oauth2_ValidateWorkload L now (oauth2_NewProvider domains res [] (ie_introspect V) dev)),
          (''api-key'', apikey_ValidateWorkload (ie_sha256_hex V) now (apikey_NewProvider [] dev))])"

definition unit_registry ::
  "('pub, 'key, 'ks, 'alg, 'pool, 'cert, 'kt, 'tk) identity_env \<Rightarrow> trust_domain list \<Rightarrow> bool \<Rightarrow> id_error identity_registry" where
  "unit_registry V domains dev = fold (\<lambda>(t, p). Identity_Register t p) (unit_providers V domains dev) []"

definition provider_kinds :: "(string, string) gomap" where
  "provider_kinds =
     [(''k8s-sa'', ''ns''), (''spiffe-svid'', ''spiffe''), (''oidc'', ''oidc''), (''kerberos'', ''kerberos''),
      (''saml'', ''saml''), (''mtls'', ''mtls''), (''aws-sts'', ''aws''), (''gcp-wif'', ''gcp''), (''azure-mi'', ''azure''),
      (''oauth2'', ''oauth2''), (''api-key'', ''apikey'')]"

lemma unit_registry_eq: "unit_registry V domains dev = unit_providers V domains dev"
  by (simp add: unit_registry_def unit_providers_def Identity_Register_def Let_def)

lemma kerberos_unit:
  "kerberos_validate V domains False credential ct =
     fst (kerberos_ValidateWorkload (ie_kerberos V) (ie_now V) \<lparr>kb_trust_domains = domains_by_name domains,
       kb_keytab = None, kb_replay_window = 0, kb_dev_mode = False\<rparr> credential ct (ie_replays V))"
  by (simp add: kerberos_validate_def kerberos_NewProvider_def)

lemma unit_provider_trusted:
  assumes "map_of (unit_providers V domains False) t = Some p" and "p credential ct = Inr w"
  shows "\<exists>kind. map_of provider_kinds t = Some kind \<and> in_domain domains kind w"
  using assms
  unfolding unit_providers_def Let_def
  by (auto simp: provider_kinds_def kerberos_unit
      dest: k8s.trusted spiffe.trusted oidc.trusted kerberos.trusted saml.trusted mtls.trusted
        aws.trusted gcp.trusted azure.trusted oauth2.trusted apikey.trusted split: if_splits)


lemma wimse_uri_inj:
  assumes "wimse_uri td kind rest = wimse_uri td' kind' rest'"
    and "CHR ''/'' \<notin> set td" "CHR ''/'' \<notin> set td'" "CHR ''/'' \<notin> set kind" "CHR ''/'' \<notin> set kind'"
  shows "td = td' \<and> kind = kind' \<and> rest = rest'"
proof -
  have "td @ CHR ''/'' # (kind @ CHR ''/'' # rest) = td' @ CHR ''/'' # (kind' @ CHR ''/'' # rest')"
    using assms(1) by (simp add: wimse_uri_def)
  from split_n2_unique [OF assms(2,3) this] have "td = td'" "kind @ CHR ''/'' # rest = kind' @ CHR ''/'' # rest'"
    by auto
  with split_n2_unique [OF assms(4,5)] show ?thesis by auto
qed

lemma provider_kinds_slash: "map_of provider_kinds t = Some kind \<Longrightarrow> CHR ''/'' \<notin> set kind"
  by (auto simp: provider_kinds_def split: if_splits)

lemma provider_kinds_inj: "map_of provider_kinds t = Some kind \<Longrightarrow> map_of provider_kinds t' = Some kind \<Longrightarrow> t = t'"
  by (auto simp: provider_kinds_def split: if_splits)

lemma registry_trusted:
  assumes "Registry_ValidateWorkload (unit_registry V domains False) credential ct = Inr w"
  shows "\<exists>kind. map_of provider_kinds ct = Some kind \<and> in_domain domains kind w"
  using assms unit_provider_trusted [of V domains ct]
  by (auto simp: Registry_ValidateWorkload_def unit_registry_eq split: option.splits)

text \<open>
  C8. Identities do not collide across providers or domains. In production every identity the unit
  accepts lies in an enabled trust domain of the configuration; and when domain names contain no
  slash, two credentials that yield the same workload identifier are of the same type and
  belong to the same domain, so that no credential of one identity provider or of one domain can
  stand for a workload of another.
\<close>

theorem identities_keep_apart:
  assumes "Registry_ValidateWorkload (unit_registry V domains False) credential ct = Inr w"
    and "Registry_ValidateWorkload (unit_registry V' domains False) credential' ct' = Inr w'"
    and "\<forall>d \<in> set domains. CHR ''/'' \<notin> set (bd_name d)" and "wi_id w = wi_id w'"
  shows "ct = ct' \<and> wi_trust_domain w = wi_trust_domain w'
    \<and> (\<exists>d \<in> set domains. bd_enabled d \<and> wi_trust_domain w = bd_name d)"
proof -
  obtain kind kind' where k: "map_of provider_kinds ct = Some kind" "map_of provider_kinds ct' = Some kind'"
      "in_domain domains kind w" "in_domain domains kind' w'"
    using registry_trusted [OF assms(1)] registry_trusted [OF assms(2)] by blast
  then obtain d rest d' rest' where d: "d \<in> set domains" "bd_enabled d" "wi_trust_domain w = bd_name d"
      "wi_id w = wimse_uri (bd_name d) kind rest"
    and d': "d' \<in> set domains" "wi_trust_domain w' = bd_name d'" "wi_id w' = wimse_uri (bd_name d') kind' rest'"
    unfolding in_domain_def by blast
  have "wimse_uri (bd_name d) kind rest = wimse_uri (bd_name d') kind' rest'" using assms(4) d(4) d'(3) by simp
  then have "bd_name d = bd_name d' \<and> kind = kind' \<and> rest = rest'"
    using wimse_uri_inj assms(3) d(1) d'(1) provider_kinds_slash [OF k(1)] provider_kinds_slash [OF k(2)] by blast
  then show ?thesis using k(1,2) provider_kinds_inj [of ct kind ct'] d d' by auto
qed

lemma issued_allow_in:
  assumes "issued s' = issue_effect e req w sec (issued s)"
  shows "\<exists>ev \<in> set (xt_audit s'). au_subject ev = wi_id w \<and> au_decision ev = ''allowed''"
proof -
  have "allow_records s' = allow_records s @ [allow_event req w sec]"
    using assms by (simp add: issued_def issue_effect_def)
  then have "allow_event req w sec \<in> set (allow_records s')" by simp
  then have "allow_event req w sec \<in> set (xt_audit s')" by (simp add: allow_records_def)
  then show ?thesis by (rule bexI [rotated]) (simp add: allow_event_def audit_lit_def)
qed

text \<open>
  C7. A token is only issued to a workload of a trusted domain: when the engine validates
  workloads with the registry of the unit in production, a successful exchange rests on an
  identity of the provider for the type of the subject token, in an enabled domain of the
  configuration, and the audit trail names it.
\<close>

theorem exchange_subject_trusted:
  assumes "en_identity e = (\<lambda>credential ct. map_sum show_error (\<lambda>w. w)
      (Registry_ValidateWorkload (unit_registry V domains False) credential ct))"
    and "Exchange X e req s = (Inr resp, s')"
  shows "\<exists>ct kind d rest w. mapCredType (rq_subject_token_type req) = Inr ct \<and> map_of provider_kinds ct = Some kind
    \<and> Registry_ValidateWorkload (unit_registry V domains False) (rq_subject_token req) ct = Inr w
    \<and> d \<in> set domains \<and> bd_enabled d \<and> wi_id w = wimse_uri (bd_name d) kind rest
    \<and> (\<exists>ev \<in> set (xt_audit s'). au_subject ev = wi_id w \<and> au_decision ev = ''allowed'')"
proof -
  obtain g where g: "granted X e req s g" and eff: "issued s' = issue_effect e req (gr_workload g) (gr_secrets g) (issued s)"
    using Exchange_InrD [OF assms(2)] by blast
  let ?w = "gr_workload g" and ?ct = "gr_cred_type g"
  have val: "Registry_ValidateWorkload (unit_registry V domains False) (rq_subject_token req) ?ct = Inr ?w"
    using g assms(1) by (cases "Registry_ValidateWorkload (unit_registry V domains False) (rq_subject_token req) ?ct")
      (auto simp: granted_def)
  obtain kind d rest where k: "map_of provider_kinds ?ct = Some kind" "d \<in> set domains" "bd_enabled d"
      "wi_id ?w = wimse_uri (bd_name d) kind rest"
    using registry_trusted [OF val] unfolding in_domain_def by blast
  have "mapCredType (rq_subject_token_type req) = Inr ?ct" using g by (simp add: granted_def)
  moreover have "\<exists>ev \<in> set (xt_audit s'). au_subject ev = wi_id ?w \<and> au_decision ev = ''allowed''"
    using eff by (rule issued_allow_in)
  ultimately show ?thesis using val k by blast
qed


section \<open>Keys from the shared cache\<close>

text \<open>The key cache as the resolver of the providers, at one state of it.\<close>

definition cache_source :: "'pub jwks_env \<Rightarrow> (jwks_error \<Rightarrow> string) \<Rightarrow> 'pub key_cache \<Rightarrow> 'pub key_source" where
  "cache_source E show_error c url kid =
     (case fst (Cache_ResolveKey E url kid c) of Inl e \<Rightarrow> Inl (show_error e) | Inr key \<Rightarrow> Inr key)"

definition not_served :: "'pub jwks_env \<Rightarrow> string \<Rightarrow> bool" where
  "not_served E url \<longleftrightarrow> (case jx_get E url of None \<Rightarrow> True | Some (status, _) \<Rightarrow> status \<noteq> 200)"

lemma cache_asks_below:
  assumes "getEntry url c = None" and "not_served E (url @ ''/.well-known/jwks.json'')"
  shows "\<exists>e. cache_source E show_error c url kid = Inl e"
  using assms
  by (auto simp: cache_source_def Cache_ResolveKey_def not_served_def fetchAndCache_def fetch_keys_def
      jwksURLForIssuer_def Let_def split: option.splits prod.splits)

lemma verify_with_unserved:
  assumes "getEntry url c = None" and "not_served E (url @ ''/.well-known/jwks.json'')"
  shows "verify_with_resolver strict L (cache_source E show_error c) credential url \<noteq> None"
proof -
  have "\<exists>e. cache_source E show_error c url kid = Inl e" for kid by (rule cache_asks_below [OF assms])
  then show ?thesis
    by (auto simp: verify_with_resolver_def split: option.split list.split sum.split) (metis sum.distinct(1))+
qed

lemma unit_lookup:
  "map_of (unit_providers V domains dev) ''spiffe-svid'' = Some (spiffe_ValidateWorkload (ie_jwt V) (ie_url_parse V)
     (ie_now V) (spiffe_NewProvider domains (Some (ie_resolver V)) dev))"
  "map_of (unit_providers V domains dev) ''oidc'' = Some (oidc_ValidateWorkload (ie_jwt V) (ie_now V)
     (oidc_NewProvider domains (Some (ie_resolver V)) [] dev))"
  "map_of (unit_providers V domains dev) ''gcp-wif'' = Some (gcp_ValidateWorkload (ie_jwt V) (ie_now V)
     (gcp_NewProvider domains [] (Some (ie_resolver V)) dev))"
  "map_of (unit_providers V domains dev) ''azure-mi'' = Some (azure_ValidateWorkload (ie_jwt V) (ie_now V)
     (azure_NewProvider domains [] (Some (ie_resolver V)) dev))"
  "map_of (unit_providers V domains dev) ''oauth2'' = Some (oauth2_ValidateWorkload (ie_jwt V) (ie_now V)
     (oauth2_NewProvider domains (Some (ie_resolver V)) [] (ie_introspect V) dev))"
  by (simp_all add: unit_providers_def Let_def)

text \<open>
  The shared key cache is asked with the address of a key set where it expects an issuer, and
  looks for the keys below that address. In production a SPIFFE, OIDC, Google, Azure or OAuth 2
  token is therefore refused unless the server also answers at that longer address, whatever it
  serves at the configured one: for Google, \<open>.../oauth2/v3/certs/.well-known/jwks.json\<close>.
\<close>

theorem tokens_refused_over_shared_cache:
  assumes "\<And>url. getEntry url c = None" and "\<And>url. not_served E (url @ ''/.well-known/jwks.json'')"
    and "ct \<in> {''spiffe-svid'', ''oidc'', ''gcp-wif'', ''azure-mi''} \<or> ct = ''oauth2'' \<and> jl_insecure (ie_jwt V) credential \<noteq> None"
    and "ie_resolver V = cache_source E show_error c"
  shows "\<exists>e. Registry_ValidateWorkload (unit_registry V domains False) credential ct = Inl e"
proof -
  note refuse = verify_with_unserved [OF assms(1,2)]
  have 1: "verify_issuer_token strict L (Some (cache_source E show_error c)) credential url = None \<longleftrightarrow> False"
      "verify_remote L (Some (cache_source E show_error c)) credential url = None \<longleftrightarrow> False" for strict L url
    using refuse by (simp_all add: verify_issuer_token_def verify_remote_def)
  have r0: "\<exists>e. spiffe_ValidateWorkload (ie_jwt V) (ie_url_parse V) (ie_now V)
      (spiffe_NewProvider domains (Some (ie_resolver V)) False) credential ''spiffe-svid'' = Inl e"
    using assms(4) by (auto simp: 1 spiffe_ValidateWorkload_def spiffe_NewProvider_def Let_def
      split: option.split sum.split)
  have r1: "\<exists>e. oidc_ValidateWorkload (ie_jwt V) (ie_now V)
      (oidc_NewProvider domains (Some (ie_resolver V)) [] False) credential ''oidc'' = Inl e"
    using assms(4) by (auto simp: 1 oidc_ValidateWorkload_def oidc_NewProvider_def Let_def split: option.split)
  have r2: "\<exists>e. gcp_ValidateWorkload (ie_jwt V) (ie_now V)
      (gcp_NewProvider domains [] (Some (ie_resolver V)) False) credential ''gcp-wif'' = Inl e"
    using assms(4) by (auto simp: 1 gcp_ValidateWorkload_def gcp_NewProvider_def Let_def split: option.split)
  have r3: "\<exists>e. azure_ValidateWorkload (ie_jwt V) (ie_now V)
      (azure_NewProvider domains [] (Some (ie_resolver V)) False) credential ''azure-mi'' = Inl e"
    using assms(4) by (auto simp: 1 azure_ValidateWorkload_def azure_NewProvider_def Let_def
      split: option.split sum.split)
  have r4: "\<exists>e. oauth2_ValidateWorkload (ie_jwt V) (ie_now V)
      (oauth2_NewProvider domains (Some (ie_resolver V)) [] (ie_introspect V) False) credential ''oauth2'' = Inl e"
    if "jl_insecure (ie_jwt V) credential \<noteq> None"
    using assms(4) that by (auto simp: 1 oauth2_ValidateWorkload_def oauth2_NewProvider_def validateJWT_def Let_def
      split: option.split)
  note registry = Registry_ValidateWorkload_def unit_registry_eq unit_lookup
  from assms(3) consider "ct = ''spiffe-svid''" | "ct = ''oidc''" | "ct = ''gcp-wif''" | "ct = ''azure-mi''"
    | "ct = ''oauth2''" "jl_insecure (ie_jwt V) credential \<noteq> None"
    by (elim disjE insertE emptyE conjE)
  then show ?thesis
  proof cases
    case 1
    then show ?thesis using r0 by (simp only: registry option.case)
  next
    case 2
    then show ?thesis using r1 by (simp only: registry option.case)
  next
    case 3
    then show ?thesis using r2 by (simp only: registry option.case)
  next
    case 4
    then show ?thesis using r3 by (simp only: registry option.case)
  next
    case 5
    then show ?thesis using r4 [OF 5(2)] by (simp only: registry option.case)
  qed
qed


section \<open>Kerberos tickets\<close>












section \<open>Principals\<close>

text \<open>
  The issuer that an introspection endpoint reports decides the domain: a token that is no JWT
  gets an identity in the domain of whatever trusted issuer the answer names, not in that of the
  issuer the endpoint is configured for, so that the server of one domain can vouch for
  workloads of another.
\<close>

theorem introspection_crosses_domains:
  assumes "jl_insecure L credential = None" and "credential \<noteq> ''''" and "d \<in> set domains" and "bd_enabled d"
    and "map_of (domains_by_issuer domains) (bd_issuer d) = Some d" and "bd_issuer d \<noteq> ''''"
    and "introspect endpoint credential = Some r" and "ir_active r" and "ir_issuer r = bd_issuer d"
    and "ir_client_id r \<noteq> ''''"
  shows "\<exists>w. oauth2_ValidateWorkload L now (oauth2_NewProvider domains resolver [(issuerKey, endpoint)] introspect False)
      credential ''oauth2'' = Inr w
    \<and> wi_trust_domain w = bd_name d \<and> wi_id w = wimse_uri (bd_name d) ''oauth2'' (ir_client_id r)"
  using assms by (simp add: oauth2_ValidateWorkload_def oauth2_NewProvider_def validateOpaque_def Let_def)

lemma split_n_append:
  "c \<notin> set p \<Longrightarrow> split_n (Suc (Suc n)) c (p @ c # q) = p # split_n (Suc n) c q"
  by (simp add: cut_before_append)

lemma split_on_none: "c \<notin> set s \<Longrightarrow> split_on c s = [s]"
  by (induction s) auto

lemma extractRoleName_parts:
  assumes "CHR '':'' \<notin> set service" and "CHR '':'' \<notin> set account" and "CHR ''/'' \<notin> set kind" and "CHR ''/'' \<notin> set name"
    and "rest = '''' \<or> hd rest = CHR ''/''"
  shows "extractRoleName (''arn:aws:'' @ service @ ''::'' @ account @ '':'' @ kind @ ''/'' @ name @ rest) = name"
proof -
  let ?c = "CHR '':''" and ?s = "CHR ''/''"
  have "split_n 6 ?c (''arn'' @ ?c # (''aws'' @ ?c # (service @ ?c # ([] @ ?c # (account @ ?c # (kind @ ?s # name @ rest)))))) =
      [''arn'', ''aws'', service, [], account, kind @ ?s # name @ rest]"
    using assms(1,2)
    by (simp add: eval_nat_numeral split_n_append del: append_Nil append_Cons split_n.simps) simp
  moreover obtain ys where "split_on ?s (name @ rest) = name # ys"
    using assms(4,5) by (cases rest) (auto simp: split_on_none split_on_append)
  ultimately show ?thesis
    using assms(3) by (simp add: extractRoleName_def split_on_append Let_def)
qed

text \<open>
  AWS users and roles share their names: a user and an assumed role of the same name and account
  have the same workload identifier.
\<close>

theorem aws_user_is_role:
  assumes "CHR '':'' \<notin> set account" and "CHR ''/'' \<notin> set name"
  shows "extractRoleName (''arn:aws:iam::'' @ account @ '':user/'' @ name) =
    extractRoleName (''arn:aws:sts::'' @ account @ '':assumed-role/'' @ name @ ''/'' @ session)"
  using extractRoleName_parts [of "''iam''" account "''user''" name "''''"]
    extractRoleName_parts [of "''sts''" account "''assumed-role''" name "''/'' @ session"] assms
  by simp


text \<open>
  In production four of the eleven registered providers refuse every credential: the unit
  registers them without keytab, identity provider certificates, root certificates and API keys.
\<close>

theorem unconfigured_providers_refuse:
  assumes "ct \<in> {''kerberos'', ''saml'', ''mtls'', ''api-key''}"
  shows "\<exists>e. Registry_ValidateWorkload (unit_registry V domains False) credential ct = Inl e"
proof -
  have "\<exists>e. kerberos_validate V domains False credential ''kerberos'' = Inl e"
    by (auto simp: kerberos_unit kerberos_ValidateWorkload_def prodValidate_def split: option.split)
  moreover have "\<exists>e. saml_ValidateWorkload (ie_saml V) (ie_now V) (saml_NewProvider domains [] [] 0 False) credential ''saml'' = Inl e"
    by (auto simp: saml_ValidateWorkload_def saml_NewProvider_def validateSignature_def Let_def split: option.split)
  moreover have "\<exists>e. mtls_ValidateWorkload (ie_x509 V) (ie_now V) (mtls_NewProvider domains [] False) credential ''mtls'' = Inl e"
    by (auto simp: mtls_ValidateWorkload_def mtls_NewProvider_def split: option.split sum.split)
  moreover have "\<exists>e. apikey_ValidateWorkload (ie_sha256_hex V) (ie_now V) (apikey_NewProvider [] False) credential ''api-key'' = Inl e"
    by (auto simp: apikey_ValidateWorkload_def apikey_NewProvider_def Let_def)
  moreover have "map_of (unit_providers V domains False) ''kerberos'' = Some (kerberos_validate V domains False)"
    "map_of (unit_providers V domains False) ''saml'' =
       Some (saml_ValidateWorkload (ie_saml V) (ie_now V) (saml_NewProvider domains [] [] 0 False))"
    "map_of (unit_providers V domains False) ''mtls'' =
       Some (mtls_ValidateWorkload (ie_x509 V) (ie_now V) (mtls_NewProvider domains [] False))"
    "map_of (unit_providers V domains False) ''api-key'' =
       Some (apikey_ValidateWorkload (ie_sha256_hex V) (ie_now V) (apikey_NewProvider [] False))"
    by (simp_all add: unit_providers_def Let_def)
  ultimately show ?thesis
    using assms unfolding Registry_ValidateWorkload_def unit_registry_eq by (elim insertE emptyE) simp_all
qed

section \<open>Examples\<close>

definition demo_trust_domain :: trust_domain where
  "demo_trust_domain = \<lparr>bd_name = ''corp'', bd_enabled = True, bd_jwks_url = ''https://i/keys'', bd_issuer = ''https://i''\<rparr>"

text \<open>A JWT library that accepts one token of the issuer \<open>https://i\<close>.\<close>

definition demo_jwt_lib :: "(string, string, string, string) jwt_lib" where
  "demo_jwt_lib = \<lparr>jl_insecure = (\<lambda>t. if t = ''opaque'' then None else Some [(''iss'', JStr ''https://i''), (''sub'', JStr ''s'')]),
     jl_signatures = (\<lambda>t. Some [(Some ''k'', Some ''RS256'')]), jl_import = Some,
     jl_parse_key = (\<lambda>a k t. Some [(''sub'', JStr ''s'')]),
     jl_parse_set = (\<lambda>ks t. Some [(''namespace'', JStr ''n''), (''serviceaccount'', JStr ''a'')]),
     jl_fetch = Some, jl_lookup = Some\<rparr>"

definition demo_kerberos :: "(string, string) kerberos_lib" where
  "demo_kerberos = \<lparr>kl_decode = Some, kl_unmarshal = Some, kl_realm = (\<lambda>t. ''CORP''), kl_decrypt = (\<lambda>kt t. Some ([''svc''], 18)),
     kl_sha256_hex = id\<rparr>"

definition demo_identity_env ::
  "string key_source \<Rightarrow> (string, string, string, string, string, string, string, string) identity_env" where
  "demo_identity_env resolver = \<lparr>ie_now = 1000, ie_jwt = demo_jwt_lib, ie_resolver = resolver, ie_registered = (\<lambda>u. True),
     ie_url_parse = (\<lambda>u. None), ie_introspect = (\<lambda>e t. None), ie_kerberos = demo_kerberos, ie_load_keytab = (\<lambda>p. None),
     ie_replays = [],
     ie_saml = \<lparr>sx_decode = (\<lambda>c. None), sx_unmarshal = (\<lambda>r. None), sx_signed = (\<lambda>c r. False), sx_parse_time = (\<lambda>t. None),
       sx_trim = id\<rparr>,
     ie_x509 = \<lparr>xl_decode = (\<lambda>c. None), xl_pem = (\<lambda>c. None), xl_parse = (\<lambda>c. None), xl_chain_ok = (\<lambda>p c. False)\<rparr>,
     ie_aws = \<lparr>aw_unmarshal = (\<lambda>c. None), aw_parse_date = (\<lambda>d. None), aw_sts_call = (\<lambda>m u h b. None)\<rparr>,
     ie_sha256_hex = id\<rparr>"

theorem identities_keep_apart_witness:
  "\<exists>w. Registry_ValidateWorkload (unit_registry (demo_identity_env (\<lambda>u k. Inr k)) [demo_trust_domain] False) ''t'' ''oidc'' = Inr w
     \<and> wi_trust_domain w = ''corp''"
proof -
  let ?V = "demo_identity_env (\<lambda>u k. Inr k)"
  obtain w where w: "Registry_ValidateWorkload (unit_registry ?V [demo_trust_domain] False) ''t'' ''oidc'' = Inr w"
    by (simp add: Registry_ValidateWorkload_def unit_registry_eq unit_lookup oidc_ValidateWorkload_def oidc_NewProvider_def
        demo_identity_env_def demo_jwt_lib_def str_member_def Let_def domains_by_issuer_def demo_trust_domain_def
        verify_issuer_token_def verify_with_resolver_def audience_error_def)
  then show ?thesis
    using identities_keep_apart [OF w w] by (simp add: demo_trust_domain_def)
qed

definition demo_registry_engine :: "string engine" where
  "demo_registry_engine = demo_engine\<lparr>en_identity := (\<lambda>credential ct. map_sum (\<lambda>e. ''refused'') (\<lambda>w. w)
     (Registry_ValidateWorkload (unit_registry (demo_identity_env (\<lambda>u k. Inr k)) [demo_trust_domain] False) credential ct))\<rparr>"

theorem exchange_subject_trusted_witness:
  "\<exists>w. Registry_ValidateWorkload (unit_registry (demo_identity_env (\<lambda>u k. Inr k)) [demo_trust_domain] False) ''t'' ''k8s-sa'' = Inr w
     \<and> (\<exists>rest. wi_id w = wimse_uri ''corp'' ''ns'' rest)"
proof -
  let ?X = "(demo_env [])\<lparr>ev_sign := (\<lambda>k c. Inr ''token'')\<rparr>"
  have "\<not> isl (fst (Exchange ?X demo_registry_engine (demo_request ''t'' '''') demo_state))" by code_simp
  then obtain resp s' where run: "Exchange ?X demo_registry_engine (demo_request ''t'' '''') demo_state = (Inr resp, s')"
    by (metis isl_def old.sum.exhaust prod.collapse)
  show ?thesis
    using exchange_subject_trusted [OF _ run, of "\<lambda>e. ''refused''" "demo_identity_env (\<lambda>u k. Inr k)" "[demo_trust_domain]"]
    by (auto simp: demo_registry_engine_def demo_request_def mapCredType_def cred_types_def subjectTokenTypeJWT_def
        provider_kinds_def demo_trust_domain_def)
qed


text \<open>A server that answers nowhere below a configured address.\<close>

definition demo_unserved :: "string jwks_env" where
  "demo_unserved = \<lparr>jx_request_ok = (\<lambda>u. True), jx_get = (\<lambda>u. Some (404, Some '''')), jx_parse = (\<lambda>b. None),
     jx_expiry_clock = 0, jx_fetch_clock = (\<lambda>u. 0), jx_grace_clock = 0\<rparr>"

definition demo_source :: "string key_source" where
  "demo_source = cache_source demo_unserved (\<lambda>e. ''no key'') (New demo_cache_config)"

theorem tokens_refused_over_shared_cache_witness:
  "\<exists>e. Registry_ValidateWorkload (unit_registry (demo_identity_env demo_source) [demo_trust_domain] False) ''t'' ''oidc'' = Inl e"
  by (rule tokens_refused_over_shared_cache [where E = demo_unserved and c = "New demo_cache_config" and
        show_error = "\<lambda>e. ''no key''"])
    (simp_all add: getEntry_def New_def not_served_def demo_unserved_def demo_identity_env_def demo_source_def)

theorem unconfigured_providers_refuse_witness:
  "\<exists>e. Registry_ValidateWorkload (unit_registry (demo_identity_env demo_source) [demo_trust_domain] False) ''c'' ''mtls'' = Inl e"
  by (rule unconfigured_providers_refuse) simp






theorem introspection_crosses_domains_witness:
  "\<exists>w. oauth2_ValidateWorkload demo_jwt_lib 0 (oauth2_NewProvider [demo_trust_domain] (None :: string key_source option)
      [(''https://other'', (''https://other/introspect'', ''c'', ''s''))]
      (\<lambda>e t. Some \<lparr>ir_active = True, ir_sub = '''', ir_client_id = ''admin'', ir_scope = '''', ir_issuer = ''https://i''\<rparr>) False)
      ''opaque'' ''oauth2'' = Inr w \<and> wi_trust_domain w = ''corp''"
  using introspection_crosses_domains [of demo_jwt_lib "''opaque''" demo_trust_domain "[demo_trust_domain]"
      "\<lambda>e t. Some \<lparr>ir_active = True, ir_sub = '''', ir_client_id = ''admin'', ir_scope = '''', ir_issuer = ''https://i''\<rparr>"
      "(''https://other/introspect'', ''c'', ''s'')"
      "\<lparr>ir_active = True, ir_sub = '''', ir_client_id = ''admin'', ir_scope = '''', ir_issuer = ''https://i''\<rparr>"
      0 "None :: string key_source option" "''https://other''"]
  by (auto simp: demo_jwt_lib_def demo_trust_domain_def domains_by_issuer_def)

theorem aws_user_is_role_witness:
  "extractRoleName ''arn:aws:iam::42:user/admin'' = extractRoleName ''arn:aws:sts::42:assumed-role/admin/s1''"
  using aws_user_is_role [of "''42''" "''admin''" "''s1''"] by simp

end
