(* ===== verification/Api_Exchange.thy ===== *)
theory Api_Exchange
  imports Token_Claims Exchange_Demo Federation_Sync
begin

text \<open>
  \<open>src/pkg/api/exchange.go\<close>: the endpoint \<open>POST /v1/exchange/token\<close>. JSON decoding is a
  parameter that says what \<open>Decoder.Decode\<close> finds in the bytes it gets: a value, an error, or
  that the bytes end before the value does. The reader set up by \<open>http.MaxBytesReader\<close> hands out
  at most the given number of bytes and then fails, which a decoder notices only if it needs
  more. Metrics are left out.
\<close>

section \<open>Request bodies\<close>

datatype 'a decoded =
    Decoded 'a
  | DecodeError
  | DecodeIncomplete

datatype body_error =
    BodyTooLarge
  | BodyMalformed

definition decode_limited :: "nat \<Rightarrow> (string \<Rightarrow> 'a decoded) \<Rightarrow> http_body \<Rightarrow> body_error + 'a" where
  "decode_limited limit decode body =
     (case body of
        Body b \<Rightarrow>
          (case decode (take limit b) of
             Decoded x \<Rightarrow> Inr x
           | DecodeError \<Rightarrow> Inl BodyMalformed
           | DecodeIncomplete \<Rightarrow> if limit < length b then Inl BodyTooLarge else Inl BodyMalformed)
      | _ \<Rightarrow> Inl BodyMalformed)"

definition decode_json :: "(string \<Rightarrow> 'a decoded) \<Rightarrow> http_body \<Rightarrow> 'a option" where
  "decode_json decode body =
     (case body of Body b \<Rightarrow> (case decode b of Decoded x \<Rightarrow> Some x | _ \<Rightarrow> None) | _ \<Rightarrow> None)"

text \<open>\<open>io.ReadAll\<close> over the same reader.\<close>

definition read_limited :: "nat \<Rightarrow> http_body \<Rightarrow> body_error + string" where
  "read_limited limit body =
     (case body of
        NoBody \<Rightarrow> Inr ''''
      | BodyError \<Rightarrow> Inl BodyMalformed
      | Body b \<Rightarrow> if limit < length b then Inl BodyTooLarge else Inr b)"

section \<open>The exchange endpoint\<close>

definition maxExchangeBodyBytes :: nat where
  "maxExchangeBodyBytes = 1048576"

definition AttestationHeaderName :: string where
  "AttestationHeaderName = ''X-Starfly-Attestation''"

definition response_json :: "token_exchange_response \<Rightarrow> json" where
  "response_json resp =
     JObj ([(''access_token'', JStr (rs_access_token resp)),
            (''issued_token_type'', JStr (rs_issued_token_type resp)),
            (''token_type'', JStr (rs_token_type resp)),
            (''expires_in'', JNum (of_int (rs_expires_in resp)))]
           @ (if rs_scope resp \<noteq> '''' then [(''scope'', JStr (rs_scope resp))] else []))"

text \<open>
  The switch over \<open>errors.Is\<close>: \<open>text\<close> is the text of an error. Attestation errors other than a stale
  timestamp, DPoP errors and incomplete execution scopes have no case of their own.
\<close>

definition exchange_refusal :: "(exchange_error \<Rightarrow> string) \<Rightarrow> exchange_error \<Rightarrow> int \<times> string \<times> string" where
  "exchange_refusal text err =
     (case err of
        EInvalidGrantType _ \<Rightarrow> (400, ''unsupported_grant_type'', text err)
      | EUnsupportedToken _ \<Rightarrow> (400, ''invalid_request'', text err)
      | EInvalidSubject _ \<Rightarrow> (400, ''invalid_request'', text err)
      | EWorkloadValidation _ \<Rightarrow> (401, ''invalid_client'', ''subject token validation failed'')
      | EActorTokenInvalid _ \<Rightarrow> (401, ''invalid_client'', ''subject token validation failed'')
      | EDelegation _ \<Rightarrow> (403, ''access_denied'', ''exchange not permitted'')
      | EExecutionScope (NonceReplay _) \<Rightarrow> (400, ''invalid_request'', ''invalid request parameters'')
      | EAttestation StaleTimestamp \<Rightarrow> (400, ''invalid_request'', ''invalid request parameters'')
      | EPolicyDenied _ \<Rightarrow> (403, ''access_denied'', ''exchange not permitted'')
      | ESubjectRevoked _ \<Rightarrow> (403, ''access_denied'', ''exchange not permitted'')
      | _ \<Rightarrow> (500, ''server_error'', ''internal error''))"

record exchange_api =
  xa_encode :: "json \<Rightarrow> string"
  xa_decode :: "string \<Rightarrow> token_exchange_request decoded"
  xa_decode_attestation :: "string \<Rightarrow> server_attestation option"
  xa_attestation_text :: "attestation_error \<Rightarrow> string"

definition write_error :: "(json \<Rightarrow> string) \<Rightarrow> int \<times> string \<times> string \<Rightarrow> response_writer \<Rightarrow> response_writer" where
  "write_error encode e w = (case e of (status, code, description) \<Rightarrow> writeJSON encode status (errorResponse code description) w)"

text \<open>
  The request as the engine gets it: decoded, with the attestation of the header if there is one.
  The fields \<open>DPoPProof\<close> and \<open>Attestation\<close> are tagged \<open>json:"-"\<close>, so decoding leaves them at their
  zero values.
\<close>

definition api_request ::
  "exchange_api \<Rightarrow> http_request \<Rightarrow> (int \<times> string \<times> string) + token_exchange_request" where
  "api_request A r =
     (case decode_limited maxExchangeBodyBytes (xa_decode A) (hq_body r) of
        Inl BodyTooLarge \<Rightarrow> Inl (413, ''invalid_request'', ''request body too large'')
      | Inl BodyMalformed \<Rightarrow> Inl (400, ''invalid_request'', ''malformed JSON body'')
      | Inr decoded \<Rightarrow>
          let req = decoded\<lparr>rq_dpop_proof := '''', rq_attestation := None\<rparr>;
              attestHeader = header_get r AttestationHeaderName
          in if attestHeader = '''' then Inr req
             else case ParseAttestationHeader (xa_decode_attestation A) attestHeader of
                    Inl e \<Rightarrow> Inl (400, ''invalid_request'', xa_attestation_text A e)
                  | Inr att \<Rightarrow> Inr (req\<lparr>rq_attestation := att\<rparr>))"

definition handleExchangeToken ::
  "exchange_api \<Rightarrow> ('signer, 'key, 'pub, 'alg, 'raw) exchange_env \<Rightarrow> 'key engine \<Rightarrow> http_request
   \<Rightarrow> response_writer \<Rightarrow> exchange_state \<Rightarrow> response_writer \<times> exchange_state" where
  "handleExchangeToken A V e r w s =
     (case api_request A r of
        Inl refusal \<Rightarrow> (write_error (xa_encode A) refusal w, s)
      | Inr req \<Rightarrow>
          case Exchange V e req s of
            (Inl err, s') \<Rightarrow> (write_error (xa_encode A) (exchange_refusal (ev_err_text V) err) w, s')
          | (Inr resp, s') \<Rightarrow> (writeJSON (xa_encode A) 200 (response_json resp) w, s'))"

section \<open>What it answers\<close>

lemma write_error_reply [simp]:
  "reply_of (write_error encode e new_writer) = (fst e, Some (encode (errorResponse (fst (snd e)) (snd (snd e)))))"
  by (cases e) (simp add: write_error_def)

lemma exchange_refusal_status: "fst (exchange_refusal text err) \<in> {400, 401, 403, 500}"
  by (simp add: exchange_refusal_def split: exchange_error.split attestation_error.split execution_error.split)

lemma api_request_status: "api_request A r = Inl e \<Longrightarrow> fst e \<in> {400, 413}"
  by (auto simp: api_request_def Let_def split: sum.splits body_error.splits if_splits)

lemma handleExchangeToken_cases:
  assumes "handleExchangeToken A V e r new_writer s = (w', s')"
  obtains (unread) refusal where "api_request A r = Inl refusal" "s' = s" "fst (reply_of w') = fst refusal"
  | (refused) req err where "api_request A r = Inr req" "Exchange V e req s = (Inl err, s')"
      "fst (reply_of w') = fst (exchange_refusal (ev_err_text V) err)"
  | (granted) req resp where "api_request A r = Inr req" "Exchange V e req s = (Inr resp, s')"
      "reply_of w' = (200, Some (xa_encode A (response_json resp)))"
proof (cases "api_request A r")
  case (Inl refusal)
  then show thesis using assms unread by (auto simp: handleExchangeToken_def)
next
  case (Inr req)
  obtain out t where run: "Exchange V e req s = (out, t)" by fastforce
  then show thesis
  proof (cases out)
    case (Inl err)
    then show thesis using assms Inr run refused by (auto simp: handleExchangeToken_def)
  next
    case (Inr resp)
    then show thesis using assms \<open>api_request A r = Inr req\<close> run granted by (auto simp: handleExchangeToken_def)
  qed
qed

text \<open>
  C18. The endpoint answers 200 exactly if the request can be read and the engine grants the exchange,
  and then with the token the engine issued. A request that cannot be read changes nothing and
  leaves no trace; a refused one is answered with one of five error codes and issues nothing.
\<close>

theorem exchange_endpoint_exact:
  assumes "handleExchangeToken A V e r new_writer s = (w', s')" and "reply_of w' = (status, body)"
  shows "(status = 200 \<longleftrightarrow> (\<exists>req resp. api_request A r = Inr req \<and> Exchange V e req s = (Inr resp, s')))
    \<and> (\<forall>req resp. api_request A r = Inr req \<longrightarrow> Exchange V e req s = (Inr resp, s') \<longrightarrow>
         body = Some (xa_encode A (response_json resp)))
    \<and> (status \<noteq> 200 \<longrightarrow> status \<in> {400, 401, 403, 413, 500} \<and> issued s' = issued s)
    \<and> ((\<exists>refusal. api_request A r = Inl refusal) \<longrightarrow> s' = s)"
proof (cases rule: handleExchangeToken_cases [OF assms(1), case_names unread refused granted])
  case (unread refusal)
  then show ?thesis using api_request_status [OF unread(1)] assms(2) by auto
next
  case (refused req err)
  then show ?thesis
    using exchange_refusal_status [of "ev_err_text V" err] Exchange_InlD [OF refused(2)] assms(2) by auto
next
  case (granted req resp)
  then show ?thesis using assms(2) by auto
qed

text \<open>
  A client cannot tell from the answer why it is denied: a revoked subject, a denial of the policy and
  a violated delegation rule are answered with the same bytes, as are an invalid subject token and an
  invalid actor token.
\<close>

theorem denials_look_alike:
  assumes "api_request A r = Inr req" and "Exchange V e req s = (Inl err, s1)"
    and "api_request A r' = Inr req'" and "Exchange V' e' req' s' = (Inl err', s1')"
    and "(\<exists>w. err = ESubjectRevoked w) \<or> (\<exists>why. err = EPolicyDenied why) \<or> (\<exists>d. err = EDelegation d)"
    and "(\<exists>w. err' = ESubjectRevoked w) \<or> (\<exists>why. err' = EPolicyDenied why) \<or> (\<exists>d. err' = EDelegation d)"
  shows "fst (handleExchangeToken A V e r w s) = fst (handleExchangeToken A V' e' r' w s')"
proof -
  have "exchange_refusal (ev_err_text V) err = exchange_refusal (ev_err_text V') err'"
    using assms(5,6) by (auto simp: exchange_refusal_def)
  then show ?thesis using assms(1-4) by (simp add: handleExchangeToken_def)
qed

lemma api_request_no_proof: "api_request A r = Inr req \<Longrightarrow> rq_dpop_proof req = ''''"
  by (auto simp: api_request_def Let_def split: sum.splits body_error.splits if_splits)

text \<open>
  C40. No token issued at the endpoint is bound to a key. The proof is documented to come from the \<open>DPoP\<close>
  header, but the endpoint reads no such header and the JSON body cannot carry it: whatever a client
  sends, its token has no \<open>cnf\<close> claim, so that a tool-call check accepts it without any proof.
\<close>

theorem endpoint_never_binds:
  assumes "handleExchangeToken A V e r new_writer s = (w', s')" and "fst (reply_of w') = 200"
  shows "\<exists>resp tok. snd (reply_of w') = Some (xa_encode A (response_json resp))
    \<and> ev_sign V (active_key e) tok = Inr (rs_access_token resp) \<and> map_of tok ''cnf'' = None"
proof -
  obtain req resp where req: "api_request A r = Inr req" "Exchange V e req s = (Inr resp, s')"
      and body: "snd (reply_of w') = Some (xa_encode A (response_json resp))"
  proof (cases rule: handleExchangeToken_cases [OF assms(1), case_names unread refused granted])
    case (unread refusal)
    then show thesis using api_request_status [OF unread(1)] assms(2) by auto
  next
    case (refused req err)
    then show thesis using exchange_refusal_status [of "ev_err_text V" err] assms(2) by auto
  next
    case (granted req resp)
    then show thesis using that by auto
  qed
  from req(2) have "fst (Exchange V e req s) = Inr resp" by simp
  then obtain g where gr: "granted V e req s g" and g:
    "ev_sign V (active_key e) (gr_claims g) = Inr (rs_access_token resp)"
    "token_claims V e req (gr_workload g) (gr_decision g) (gr_delegation g) (gr_dpop g)
       (rq_execution_scope req) (gr_secrets g) = Inr (gr_claims g)"
    by (rule Exchange_claims)
  have "gr_dpop g = None"
    using gr api_request_no_proof [OF req(1)] by (auto simp: granted_def dpop_granted_def split: option.splits)
  with g(2) obtain t1 t2 t3 where
    l: "identity_claims V e req (gr_workload g) (gr_decision g) (gr_delegation g) (rq_execution_scope req) = Inr t1"
      "binding_claims V e req None t1 = Inr t2" "scope_claims V (rq_execution_scope req) t2 = Inr t3"
      "set_str_claim V ''secrets'' (gr_secrets g) t3 = Inr (gr_claims g)"
    by (metis token_claims_layers)
  have "map_of (gr_claims g) ''cnf'' = None"
    by (simp add: map_of_set_str_claim [OF l(4)] map_of_scope_claims_other [OF l(3)]
        map_of_binding_claims [OF l(2)] scope_keys_def identity_claims_keys [OF l(1)])
  with g(1) body show ?thesis by blast
qed

section \<open>An instance\<close>

definition demo_api :: exchange_api where
  "demo_api = \<lparr>xa_encode = (\<lambda>j. case j of JObj ((_, JStr v) # _) \<Rightarrow> v | _ \<Rightarrow> ''''),
     xa_decode = (\<lambda>b. Decoded (demo_request b '''')), xa_decode_attestation = (\<lambda>h. None),
     xa_attestation_text = (\<lambda>e. ''attestation'')\<rparr>"

definition demo_post :: "string \<Rightarrow> http_request" where
  "demo_post b = \<lparr>hq_method = ''POST'', hq_path = ''/v1/exchange/token'', hq_headers = [(''DPoP'', ''key7'')],
     hq_body = Body b, hq_remote_addr = ''10.0.0.1:99''\<rparr>"

definition demo_api_env :: "(string, string, string, string, string) exchange_env" where
  "demo_api_env = (demo_env [])\<lparr>ev_sign := (\<lambda>k c. Inr ''token'')\<rparr>"

lemma demo_api_request: "api_request demo_api (demo_post ''w1'') = Inr (demo_request ''w1'' '''')"
  by (simp add: api_request_def decode_limited_def demo_api_def demo_post_def maxExchangeBodyBytes_def
      header_get_def header_values_def AttestationHeaderName_def equal_fold_def to_lower_def demo_request_def)

lemma demo_api_exchange:
  "fst (Exchange demo_api_env demo_engine (demo_request ''w1'' '''') demo_state) =
     Inr (ex_response demo_engine (demo_request ''w1'' '''') None None ''token'')"
  by code_simp

lemma demo_api_reply:
  "reply_of (fst (handleExchangeToken demo_api demo_api_env demo_engine (demo_post ''w1'') new_writer demo_state)) =
     (200, Some ''token'')"
proof -
  obtain t where "Exchange demo_api_env demo_engine (demo_request ''w1'' '''') demo_state =
      (Inr (ex_response demo_engine (demo_request ''w1'' '''') None None ''token''), t)"
    using demo_api_exchange by (metis prod.collapse)
  then show ?thesis
    by (simp add: handleExchangeToken_def demo_api_request) (simp add: demo_api_def response_json_def ex_response_def)
qed

theorem exchange_endpoint_exact_witness:
  "\<exists>req resp. api_request demo_api (demo_post ''w1'') = Inr req
     \<and> Exchange demo_api_env demo_engine req demo_state = (Inr resp,
         snd (handleExchangeToken demo_api demo_api_env demo_engine (demo_post ''w1'') new_writer demo_state))"
  using exchange_endpoint_exact [OF prod.collapse [symmetric] demo_api_reply] by blast

theorem endpoint_never_binds_witness:
  "\<exists>resp tok. ''token'' = xa_encode demo_api (response_json resp)
     \<and> ev_sign demo_api_env (active_key demo_engine) tok = Inr (rs_access_token resp) \<and> map_of tok ''cnf'' = None"
  using endpoint_never_binds [OF prod.collapse [symmetric], of demo_api demo_api_env demo_engine "demo_post ''w1''" demo_state]
    demo_api_reply by auto

definition demo_revoked_engine :: "string engine" where
  "demo_revoked_engine = demo_engine\<lparr>en_revocation := Some (\<lambda>w. Inr (Some
     \<lparr>re_subject_id = w, re_reason = '''', re_revoked_at = 0, re_expires_at = 0, re_event_jti = ''''\<rparr>))\<rparr>"

definition demo_denied_engine :: "string engine" where
  "demo_denied_engine = demo_engine\<lparr>en_policy := (\<lambda>i. Inr \<lparr>pd_allowed = False, pd_reason = ''no'', pd_claims = []\<rparr>)\<rparr>"

lemma demo_denials:
  "fst (Exchange demo_api_env demo_revoked_engine (demo_request ''w1'' '''') demo_state) = Inl (ESubjectRevoked ''w1'')"
  "fst (Exchange demo_api_env demo_denied_engine (demo_request ''w1'' '''') demo_state) = Inl (EPolicyDenied ''no'')"
  by code_simp+

theorem denials_look_alike_witness:
  "fst (handleExchangeToken demo_api demo_api_env demo_revoked_engine (demo_post ''w1'') new_writer demo_state) =
   fst (handleExchangeToken demo_api demo_api_env demo_denied_engine (demo_post ''w1'') new_writer demo_state)"
proof (rule denials_look_alike)
  show "Exchange demo_api_env demo_revoked_engine (demo_request ''w1'' '''') demo_state =
      (Inl (ESubjectRevoked ''w1''), snd (Exchange demo_api_env demo_revoked_engine (demo_request ''w1'' '''') demo_state))"
    using demo_denials(1) by (metis prod.collapse)
  show "Exchange demo_api_env demo_denied_engine (demo_request ''w1'' '''') demo_state =
      (Inl (EPolicyDenied ''no''), snd (Exchange demo_api_env demo_denied_engine (demo_request ''w1'' '''') demo_state))"
    using demo_denials(2) by (metis prod.collapse)
qed (simp_all add: demo_api_request)

end
