(* ===== verification/Api_Server.thy ===== *)
theory Api_Server
  imports Api_Exchange Receiver Transmitter Mcp_Middleware Identity_Credentials
begin

text \<open>
  \<open>src/pkg/api\<close>: the other handlers of the unit (\<open>signals_handler.go\<close>, \<open>agent_identity.go\<close>,
  \<open>encryption_key.go\<close>, \<open>mcp.go\<close>, \<open>tools.go\<close>, \<open>jwks.go\<close>), the mTLS middleware and the routes of
  \<open>server.go\<close>. A handler maps the request, the response writer and the part of the state it works on
  to their new values. JSON decoding, the encoding of structs, query parameters, the key set with its
  JWT parser and the clock are parameters; metrics and logging are left out.
\<close>

record ('pub, 'jwk) api_env =
  ax_encode :: "json \<Rightarrow> string"
  ax_query :: "http_request \<Rightarrow> string \<Rightarrow> string"
  ax_dev_mode :: bool
  ax_jwks :: "(string + 'pub list) option"
  ax_parse :: "'pub list \<Rightarrow> string \<Rightarrow> claims option"
  ax_now :: go_time

definition fail_with :: "('pub, 'jwk, 'm) api_env_scheme \<Rightarrow> int \<Rightarrow> string \<Rightarrow> string \<Rightarrow> response_writer \<Rightarrow> response_writer" where
  "fail_with X status code description w = writeJSON (ax_encode X) status (errorResponse code description) w"

definition plain_error :: "('pub, 'jwk, 'm) api_env_scheme \<Rightarrow> int \<Rightarrow> string \<Rightarrow> response_writer \<Rightarrow> response_writer" where
  "plain_error X status msg w = writeJSON (ax_encode X) status (JObj [(''error'', JStr msg)]) w"

section \<open>Bearer tokens\<close>

text \<open>\<open>strings.TrimPrefix(authHeader, "Bearer ")\<close>, after the prefix has been checked.\<close>

definition bearer_token :: "http_request \<Rightarrow> string" where
  "bearer_token r = drop (length ''Bearer '') (header_get r ''Authorization'')"

text \<open>\<open>None\<close> lets the request pass; otherwise the response has been written.\<close>

definition requireBearerAuth ::
  "('pub, 'jwk, 'm) api_env_scheme \<Rightarrow> http_request \<Rightarrow> response_writer \<Rightarrow> response_writer option" where
  "requireBearerAuth X r w =
     (case ax_jwks X of
        None \<Rightarrow> None
      | Some provider \<Rightarrow>
          let authHeader = header_get r ''Authorization''
          in if \<not> has_prefix authHeader ''Bearer ''
             then Some (fail_with X 401 ''unauthorized'' ''Authorization Bearer token required'' w)
             else case provider of
               Inl _ \<Rightarrow> Some (fail_with X 500 ''server_error'' ''internal error'' w)
             | Inr keySet \<Rightarrow>
                 if ax_parse X keySet (bearer_token r) = None
                 then Some (fail_with X 401 ''unauthorized'' ''invalid token'' w) else None)"

section \<open>Signals\<close>

definition maxSignalBodyBytes :: nat where
  "maxSignalBodyBytes = 1048576"

definition signal_refusal :: "receiver_error \<Rightarrow> int \<times> string \<times> string" where
  "signal_refusal err =
     (case err of
        DuplicateJTI _ \<Rightarrow> (409, ''invalid_request'', ''duplicate event'')
      | SignalDenied _ \<Rightarrow> (403, ''access_denied'', ''exchange not permitted'')
      | SignalPolicyError _ \<Rightarrow> (500, ''server_error'', ''internal error'')
      | _ \<Rightarrow> (400, ''invalid_request'', ''invalid request parameters''))"

definition answer_signal ::
  "('pub, 'jwk, 'm) api_env_scheme \<Rightarrow> unit receive_stage \<Rightarrow> response_writer \<Rightarrow> receiver_state
   \<Rightarrow> response_writer \<times> receiver_state" where
  "answer_signal X receive w s =
     (case receive s of
        (Inl err, s') \<Rightarrow> (write_error (ax_encode X) (signal_refusal err) w, s')
      | (Inr _, s') \<Rightarrow> (writeJSON (ax_encode X) 202 (JObj [(''status'', JStr ''accepted'')]) w, s'))"

definition body_refusal :: "string \<Rightarrow> body_error \<Rightarrow> int \<times> string \<times> string" where
  "body_refusal malformed e =
     (case e of
        BodyTooLarge \<Rightarrow> (413, ''invalid_request'', ''request body too large'')
      | BodyMalformed \<Rightarrow> (400, ''invalid_request'', malformed))"

definition handleSignalEvent ::
  "('pub, 'jwk, 'm) api_env_scheme \<Rightarrow> (string \<Rightarrow> security_event decoded) \<Rightarrow> ('pubkey, 'key, 'alg) set_parser
   \<Rightarrow> receive_clock \<Rightarrow> 'pubkey receiver option \<Rightarrow> http_request \<Rightarrow> response_writer \<Rightarrow> receiver_state
   \<Rightarrow> response_writer \<times> receiver_state" where
  "handleSignalEvent X decode P ck receiver r w s =
     (case receiver of
        None \<Rightarrow> (fail_with X 501 ''not_implemented'' ''signal receiver not configured'' w, s)
      | Some rx \<Rightarrow>
          if \<not> ax_dev_mode X
          then if \<not> has_prefix (header_get r ''Content-Type'') ''application/secevent+jwt''
               then (fail_with X 415 ''invalid_request'' ''Content-Type must be application/secevent+jwt'' w, s)
               else case read_limited maxSignalBodyBytes (hq_body r) of
                 Inl e \<Rightarrow> (write_error (ax_encode X) (body_refusal ''invalid request parameters'' e) w, s)
               | Inr rawSET \<Rightarrow> answer_signal X (ReceiveSET P rx ck rawSET) w s
          else case decode_limited maxSignalBodyBytes decode (hq_body r) of
                 Inl e \<Rightarrow> (write_error (ax_encode X) (body_refusal ''malformed request body'' e) w, s)
               | Inr event \<Rightarrow> answer_signal X (ReceiveEvent rx ck (Some event)) w s)"

definition stream_json :: "ssf_stream \<Rightarrow> json" where
  "stream_json st =
     JObj [(''stream_id'', JStr (st_id st)), (''iss'', JStr (st_issuer st)), (''aud'', JStr (st_audience st)),
           (''events_supported'', JArr (map JStr (st_events_supported st))), (''status'', JStr (st_status st))]"

definition status_json :: "stream_status \<Rightarrow> json" where
  "status_json ss =
     JObj ([(''stream_id'', JStr (ss_stream_id ss)), (''status'', JStr (ss_status ss))]
           @ (if ss_subject ss \<noteq> '''' then [(''subject'', JStr (ss_subject ss))] else []))"

text \<open>\<open>text\<close> is the text of an error of the transmitter.\<close>

definition handleStreamConfig ::
  "('pub, 'jwk, 'm) api_env_scheme \<Rightarrow> (string \<Rightarrow> stream_config decoded) \<Rightarrow> (string \<Rightarrow> (string \<times> string) option) \<Rightarrow> string
   \<Rightarrow> (transmit_error \<Rightarrow> string) \<Rightarrow> 'key transmitter option \<Rightarrow> http_request \<Rightarrow> response_writer \<Rightarrow> transmitter_state
   \<Rightarrow> response_writer \<times> transmitter_state" where
  "handleStreamConfig X decode url_parse bytes error_text transmitter r w s =
     (case transmitter of
        None \<Rightarrow> (fail_with X 501 ''not_implemented'' ''signal transmitter not configured'' w, s)
      | Some tx \<Rightarrow>
          if hq_method r = ''POST''
          then case decode_json decode (hq_body r) of
                 None \<Rightarrow> (fail_with X 400 ''invalid_request'' ''malformed request body'' w, s)
               | Some cfg \<Rightarrow>
                   case CreateStream url_parse bytes (ax_now X) tx cfg s of
                     (Inl err, s') \<Rightarrow> (fail_with X 500 ''server_error'' (error_text err) w, s')
                   | (Inr stream, s') \<Rightarrow> (writeJSON (ax_encode X) 201 (stream_json stream) w, s')
          else if hq_method r = ''DELETE''
          then let streamID = ax_query X r ''stream_id''
               in if streamID = ''''
                  then (fail_with X 400 ''invalid_request'' ''stream_id query parameter required'' w, s)
                  else case DeleteStream tx streamID s of
                         (Inl err, s') \<Rightarrow> (fail_with X 404 ''not_found'' (error_text err) w, s')
                       | (Inr _, s') \<Rightarrow> (rw_write_header 204 w, s')
          else (writeJSON (ax_encode X) 405 (errorResponse ''method_not_allowed'' '''') w, s))"

definition handleStreamStatus ::
  "('pub, 'jwk, 'm) api_env_scheme \<Rightarrow> (transmit_error \<Rightarrow> string) \<Rightarrow> bool \<Rightarrow> http_request \<Rightarrow> response_writer
   \<Rightarrow> transmitter_state \<Rightarrow> response_writer" where
  "handleStreamStatus X error_text configured r w s =
     (if \<not> configured then fail_with X 501 ''not_implemented'' ''signal transmitter not configured'' w
      else
        let streamID = ax_query X r ''stream_id''
        in if streamID = '''' then fail_with X 400 ''invalid_request'' ''stream_id query parameter required'' w
           else case GetStreamStatus streamID s of
                  Inl err \<Rightarrow> fail_with X 404 ''not_found'' (error_text err) w
                | Inr status \<Rightarrow> writeJSON (ax_encode X) 200 (status_json status) w)"

section \<open>Agents\<close>

definition handleAgentIdentity ::
  "('pub, 'jwk, 'm) api_env_scheme \<Rightarrow> (string \<Rightarrow> agent_identity_request decoded) \<Rightarrow> (agent_identity \<Rightarrow> json)
   \<Rightarrow> (agent_error \<Rightarrow> string) \<Rightarrow> (claims \<Rightarrow> string option) \<Rightarrow> agent_provider option \<Rightarrow> http_request \<Rightarrow> response_writer
   \<Rightarrow> audit_event list \<Rightarrow> response_writer \<times> audit_event list" where
  "handleAgentIdentity X decode identity_json error_text sign provider r w trail =
     (case requireBearerAuth X r w of
        Some w' \<Rightarrow> (w', trail)
      | None \<Rightarrow>
          case provider of
            None \<Rightarrow> (fail_with X 501 ''not_implemented'' ''agent identity provider not configured'' w, trail)
          | Some p \<Rightarrow>
              case decode_json decode (hq_body r) of
                None \<Rightarrow> (fail_with X 400 ''invalid_request'' ''malformed request body'' w, trail)
              | Some req \<Rightarrow>
                  case IssueAgentIdentity sign (ax_now X) p req trail of
                    (Inl err, trail') \<Rightarrow>
                      (case err of
                         MissingAgentName \<Rightarrow> fail_with X 400 ''invalid_request'' (error_text err) w
                       | InvalidPlatform _ \<Rightarrow> fail_with X 400 ''invalid_request'' (error_text err) w
                       | EmptyCapabilities \<Rightarrow> fail_with X 400 ''invalid_request'' (error_text err) w
                       | _ \<Rightarrow> fail_with X 500 ''server_error'' (error_text err) w, trail')
                  | (Inr identity, trail') \<Rightarrow> (writeJSON (ax_encode X) 200 (identity_json identity) w, trail'))"




section \<open>Tool registries\<close>

record tool_json =
  tj_mcp_decode :: "string \<Rightarrow> tool_entry decoded"
  tj_mcp_json :: "tool_entry \<Rightarrow> json"
  tj_decode :: "string \<Rightarrow> universal_tool_entry decoded"
  tj_json :: "universal_tool_entry \<Rightarrow> json"
  tj_error_text :: "registry_error \<Rightarrow> string"
  tj_decode_text :: "http_body \<Rightarrow> string"

definition registry_gate ::
  "('pub, 'jwk, 'm) api_env_scheme \<Rightarrow> http_request \<Rightarrow> response_writer \<Rightarrow> response_writer option" where
  "registry_gate X r w = (if ax_dev_mode X then None else requireBearerAuth X r w)"

definition mcp_unconfigured :: "('pub, 'jwk, 'm) api_env_scheme \<Rightarrow> response_writer \<Rightarrow> response_writer" where
  "mcp_unconfigured X w = fail_with X 503 ''mcp_not_configured'' ''MCP tool registry is not configured'' w"

definition handleMCPToolList ::
  "('pub, 'jwk, 'm) api_env_scheme \<Rightarrow> tool_json \<Rightarrow> http_request \<Rightarrow> response_writer \<Rightarrow> mcp_registry option \<Rightarrow> response_writer" where
  "handleMCPToolList X J r w reg =
     (case reg of
        None \<Rightarrow> mcp_unconfigured X w
      | Some tools \<Rightarrow>
          writeJSON (ax_encode X) 200 (JObj [(''tools'', JArr (map (tj_mcp_json J) (McpRegistry_List tools))),
            (''count'', JNum (of_nat (McpRegistry_Count tools)))]) w)"

definition handleMCPToolRegister ::
  "('pub, 'jwk, 'm) api_env_scheme \<Rightarrow> tool_json \<Rightarrow> http_request \<Rightarrow> response_writer \<Rightarrow> mcp_registry option
   \<Rightarrow> response_writer \<times> mcp_registry option" where
  "handleMCPToolRegister X J r w reg =
     (case registry_gate X r w of
        Some w' \<Rightarrow> (w', reg)
      | None \<Rightarrow>
          case reg of
            None \<Rightarrow> (mcp_unconfigured X w, reg)
          | Some tools \<Rightarrow>
              case decode_json (tj_mcp_decode J) (hq_body r) of
                None \<Rightarrow> (fail_with X 400 ''invalid_request'' (''invalid JSON body: '' @ tj_decode_text J (hq_body r)) w, reg)
              | Some entry \<Rightarrow>
                  if te_tool_id entry = '''' then (fail_with X 400 ''invalid_request'' ''tool_id is required'' w, reg)
                  else case McpRegistry_Register (ax_now X) entry tools of
                    (Some err, tools') \<Rightarrow> (fail_with X 409 ''tool_exists'' (tj_error_text J err) w, Some tools')
                  | (None, tools') \<Rightarrow>
                      (writeJSON (ax_encode X) 201 (case McpRegistry_Get tools' (te_tool_id entry) of
                         None \<Rightarrow> JNull | Some stored \<Rightarrow> tj_mcp_json J stored) w, Some tools'))"

definition deregistered_json :: "string \<Rightarrow> json" where
  "deregistered_json toolID = JObj [(''status'', JStr ''deregistered''), (''tool_id'', JStr toolID)]"

definition handleMCPToolDeregister ::
  "('pub, 'jwk, 'm) api_env_scheme \<Rightarrow> tool_json \<Rightarrow> http_request \<Rightarrow> response_writer \<Rightarrow> mcp_registry option
   \<Rightarrow> response_writer \<times> mcp_registry option" where
  "handleMCPToolDeregister X J r w reg =
     (case registry_gate X r w of
        Some w' \<Rightarrow> (w', reg)
      | None \<Rightarrow>
          case reg of
            None \<Rightarrow> (mcp_unconfigured X w, reg)
          | Some tools \<Rightarrow>
              let toolID = ax_query X r ''tool_id''
              in if toolID = ''''
                 then (fail_with X 400 ''invalid_request'' ''tool_id query parameter is required'' w, reg)
                 else case McpRegistry_Deregister toolID tools of
                   (Some err, tools') \<Rightarrow> (fail_with X 404 ''tool_not_found'' (tj_error_text J err) w, Some tools')
                 | (None, tools') \<Rightarrow> (writeJSON (ax_encode X) 200 (deregistered_json toolID) w, Some tools'))"

definition toolRegistryReady ::
  "('pub, 'jwk, 'm) api_env_scheme \<Rightarrow> response_writer \<Rightarrow> universal_registry option \<Rightarrow> response_writer option" where
  "toolRegistryReady X w reg =
     (case reg of
        None \<Rightarrow> Some (fail_with X 503 ''registry_not_configured'' ''universal tool registry is not configured'' w)
      | Some _ \<Rightarrow> None)"

definition handleToolList ::
  "('pub, 'jwk, 'm) api_env_scheme \<Rightarrow> tool_json \<Rightarrow> http_request \<Rightarrow> response_writer \<Rightarrow> universal_registry option
   \<Rightarrow> response_writer" where
  "handleToolList X J r w reg =
     (case toolRegistryReady X w reg of
        Some w' \<Rightarrow> w'
      | None \<Rightarrow>
          let p = ax_query X r ''protocol'';
              tools = Universal_List (if p \<noteq> '''' then Some p else None) (the reg)
          in writeJSON (ax_encode X) 200 (JObj [(''tools'', JArr (map (tj_json J) tools)),
               (''count'', JNum (of_nat (length tools)))]) w)"

definition handleToolRegister ::
  "('pub, 'jwk, 'm) api_env_scheme \<Rightarrow> tool_json \<Rightarrow> http_request \<Rightarrow> response_writer \<Rightarrow> universal_registry option
   \<Rightarrow> response_writer \<times> universal_registry option" where
  "handleToolRegister X J r w reg =
     (case registry_gate X r w of
        Some w' \<Rightarrow> (w', reg)
      | None \<Rightarrow>
          case toolRegistryReady X w reg of
            Some w' \<Rightarrow> (w', reg)
          | None \<Rightarrow>
              case decode_json (tj_decode J) (hq_body r) of
                None \<Rightarrow> (fail_with X 400 ''invalid_request'' (''invalid JSON body: '' @ tj_decode_text J (hq_body r)) w, reg)
              | Some entry \<Rightarrow>
                  if te_tool_id entry = '''' then (fail_with X 400 ''invalid_request'' ''tool_id is required'' w, reg)
                  else case Universal_Register (ax_now X) entry (the reg) of
                    (Some err, tools') \<Rightarrow> (fail_with X 409 ''tool_exists'' (tj_error_text J err) w, Some tools')
                  | (None, tools') \<Rightarrow>
                      (writeJSON (ax_encode X) 201 (case Universal_Get tools' (te_tool_id entry) of
                         None \<Rightarrow> JNull | Some stored \<Rightarrow> tj_json J stored) w, Some tools'))"

definition tool_missing :: "('pub, 'jwk, 'm) api_env_scheme \<Rightarrow> string \<Rightarrow> response_writer \<Rightarrow> response_writer" where
  "tool_missing X toolID w = fail_with X 404 ''tool_not_found'' (''tool '' @ toolID @ '' is not registered'') w"

definition handleToolGet ::
  "('pub, 'jwk, 'm) api_env_scheme \<Rightarrow> tool_json \<Rightarrow> string \<Rightarrow> response_writer \<Rightarrow> universal_registry option \<Rightarrow> response_writer" where
  "handleToolGet X J toolID w reg =
     (case toolRegistryReady X w reg of
        Some w' \<Rightarrow> w'
      | None \<Rightarrow>
          case Universal_Get (the reg) toolID of
            None \<Rightarrow> tool_missing X toolID w
          | Some entry \<Rightarrow> writeJSON (ax_encode X) 200 (tj_json J entry) w)"

definition handleToolDeregister ::
  "('pub, 'jwk, 'm) api_env_scheme \<Rightarrow> tool_json \<Rightarrow> string \<Rightarrow> http_request \<Rightarrow> response_writer \<Rightarrow> universal_registry option
   \<Rightarrow> response_writer \<times> universal_registry option" where
  "handleToolDeregister X J toolID r w reg =
     (case registry_gate X r w of
        Some w' \<Rightarrow> (w', reg)
      | None \<Rightarrow>
          case toolRegistryReady X w reg of
            Some w' \<Rightarrow> (w', reg)
          | None \<Rightarrow>
              case Universal_Deregister toolID (the reg) of
                (Some err, tools') \<Rightarrow> (fail_with X 404 ''tool_not_found'' (tj_error_text J err) w, Some tools')
              | (None, tools') \<Rightarrow> (writeJSON (ax_encode X) 200 (deregistered_json toolID) w, Some tools'))"

definition handleToolAudit ::
  "('pub, 'jwk, 'm) api_env_scheme \<Rightarrow> string \<Rightarrow> response_writer \<Rightarrow> universal_registry option \<Rightarrow> response_writer" where
  "handleToolAudit X toolID w reg =
     (case toolRegistryReady X w reg of
        Some w' \<Rightarrow> w'
      | None \<Rightarrow>
          case Universal_Get (the reg) toolID of
            None \<Rightarrow> tool_missing X toolID w
          | Some _ \<Rightarrow> writeJSON (ax_encode X) 200 (JObj [(''tool_id'', JStr toolID), (''events'', JArr []), (''count'', JNum 0)]) w)"

section \<open>Verification of a call for another server\<close>

record mcp_verify_request =
  mv_token :: string
  mv_tool_id :: string
  mv_dpop_proof :: string

definition handleMCPVerify ::
  "('pub, 'jwk, 'm) api_env_scheme \<Rightarrow> (string \<Rightarrow> mcp_verify_request decoded) \<Rightarrow> (verified_claims \<Rightarrow> json)
   \<Rightarrow> (mcp_error \<Rightarrow> string) \<Rightarrow> (http_body \<Rightarrow> string) \<Rightarrow> ('pk, 'key, 'alg, 'raw) verify_env \<Rightarrow> 'pk verify_config
   \<Rightarrow> http_request \<Rightarrow> response_writer \<Rightarrow> response_writer" where
  "handleMCPVerify X decode claims_json error_text decode_text V cfg r w =
     (case decode_json decode (hq_body r) of
        None \<Rightarrow> fail_with X 400 ''invalid_request'' (''invalid JSON body: '' @ decode_text (hq_body r)) w
      | Some req \<Rightarrow>
          if mv_token req = '''' then fail_with X 400 ''invalid_request'' ''token is required'' w
          else
            let header = header_get r ''DPoP'';
                dpopProof = (if header = '''' then mv_dpop_proof req else header)
            in case VerifyToolCall V (cfg\<lparr>vr_dev_mode := ax_dev_mode X\<rparr>) (mv_token req) (mv_tool_id req)
                      [Some \<lparr>vo_request_body = None, vo_dpop_proof = dpopProof\<rparr>] of
                 Inl err \<Rightarrow> fail_with X 403 ''verification_failed'' (error_text err) w
               | Inr claims \<Rightarrow> writeJSON (ax_encode X) 200 (JObj [(''verified'', JBool True), (''claims'', claims_json claims)]) w)"

definition mcpCheckName :: "mcp_error \<Rightarrow> string" where
  "mcpCheckName err =
     (case err of
        InvalidToken _ \<Rightarrow> ''signature''
      | MissingToken \<Rightarrow> ''signature''
      | DPoPInvalid _ \<Rightarrow> ''dpop''
      | AudienceMismatch _ _ \<Rightarrow> ''audience''
      | BlastRadiusExceeded _ _ \<Rightarrow> ''blast_radius''
      | TokenRevoked _ \<Rightarrow> ''revocation''
      | PolicyDenied _ \<Rightarrow> ''policy''
      | CapabilityDenied _ \<Rightarrow> ''policy''
      | ExecOpMismatch _ _ \<Rightarrow> ''exec_act''
      | ExecPayloadMismatch _ _ \<Rightarrow> ''inp_hash''
      | ExecPayloadMissing \<Rightarrow> ''inp_hash''
      | ExecTargetMismatch _ _ \<Rightarrow> ''target''
      | ToolNotRegistered _ \<Rightarrow> ''registration''
      | _ \<Rightarrow> ''unknown'')"

section \<open>Keys and peers\<close>

definition handleJWKS ::
  "('pub, 'jwk, 'm) api_env_scheme \<Rightarrow> ('pub list \<Rightarrow> json) \<Rightarrow> response_writer \<Rightarrow> response_writer" where
  "handleJWKS X set_json w =
     (case ax_jwks X of
        None \<Rightarrow> plain_error X 503 ''jwks provider not configured'' w
      | Some (Inl _) \<Rightarrow> plain_error X 500 ''failed to retrieve signing keys'' w
      | Some (Inr keySet) \<Rightarrow>
          writeJSON (ax_encode X) 200 (set_json keySet)
            (rw_set_header ''Cache-Control'' (if ax_dev_mode X then ''no-store'' else ''public, max-age=3600'') w))"

record peer_certificate =
  pc_common_name :: string
  pc_serial_hex :: string
  pc_uris :: "(string \<times> string) list"

record peer_identity =
  pid_subject :: string
  pid_spiffe_uris :: "string list"
  pid_serial :: string

text \<open>\<open>tls\<close> is \<open>None\<close> for a connection without TLS; a URI is its scheme and its text.\<close>

definition extractPeerIdentity :: "peer_certificate list option \<Rightarrow> peer_identity option" where
  "extractPeerIdentity tls =
     (case tls of
        None \<Rightarrow> None
      | Some [] \<Rightarrow> None
      | Some (cert # _) \<Rightarrow>
          Some \<lparr>pid_subject = pc_common_name cert,
                pid_spiffe_uris = map snd (filter (\<lambda>(scheme, _). scheme = ''spiffe'') (pc_uris cert)),
                pid_serial = pc_serial_hex cert\<rparr>)"

definition mtlsMiddleware ::
  "('pub, 'jwk, 'm) api_env_scheme \<Rightarrow> (peer_identity \<Rightarrow> http_request \<Rightarrow> response_writer \<Rightarrow> 's \<Rightarrow> response_writer \<times> 's)
   \<Rightarrow> peer_certificate list option \<Rightarrow> http_request \<Rightarrow> response_writer \<Rightarrow> 's \<Rightarrow> response_writer \<times> 's" where
  "mtlsMiddleware X next tls r w s =
     (case extractPeerIdentity tls of
        None \<Rightarrow> (plain_error X 401 ''client certificate required'' w, s)
      | Some identity \<Rightarrow> next identity r w s)"

section \<open>Routes\<close>

datatype endpoint =
    Health | TrustDomains | JWKS | MetricsPage | OpenAPI | Events
  | ExchangeToken | SSFConfiguration | SignalEvent | StreamConfig | StreamStatus | AgentIdentity
  | RevocationHash | RevocationExport | McpToolList | McpToolRegister | McpToolDeregister | McpVerify
  | EncryptionKey | ToolList | ToolRegister | ToolGet | ToolDeregister | ToolAudit

definition public_routes :: "(string \<times> string \<times> endpoint) list" where
  "public_routes =
     [(''GET'', ''/v1/sys/health'', Health), (''GET'', ''/v1/sys/trust-domains'', TrustDomains),
      (''GET'', ''/v1/identity/jwks'', JWKS), (''GET'', ''/metrics'', MetricsPage),
      (''GET'', ''/openapi.yaml'', OpenAPI), (''GET'', ''/v1/events'', Events)]"

definition protected_routes :: "(string \<times> string \<times> endpoint) list" where
  "protected_routes =
     [(''POST'', ''/v1/exchange/token'', ExchangeToken), (''GET'', ''/.well-known/ssf-configuration'', SSFConfiguration),
      (''POST'', ''/v1/signals/events'', SignalEvent), (''POST'', ''/v1/signals/stream'', StreamConfig),
      (''DELETE'', ''/v1/signals/stream'', StreamConfig), (''GET'', ''/v1/signals/status'', StreamStatus),
      (''POST'', ''/v1/identity/agent'', AgentIdentity), (''GET'', ''/v1/federation/revocation-hash'', RevocationHash),
      (''GET'', ''/v1/federation/revocation-export'', RevocationExport), (''GET'', ''/v1/mcp/tools'', McpToolList),
      (''POST'', ''/v1/mcp/tools'', McpToolRegister), (''DELETE'', ''/v1/mcp/tools'', McpToolDeregister),
      (''POST'', ''/v1/mcp/verify'', McpVerify), (''POST'', ''/v1/identity/agent/encryption-key'', EncryptionKey),
      (''GET'', ''/v1/tools'', ToolList), (''POST'', ''/v1/tools'', ToolRegister),
      (''GET'', ''/v1/tools/{tool_id}'', ToolGet), (''DELETE'', ''/v1/tools/{tool_id}'', ToolDeregister),
      (''GET'', ''/v1/tools/{tool_id}/audit'', ToolAudit)]"

text \<open>
  The multiplexer: a segment in braces matches any one non-empty segment and is the path value; a
  pattern for GET also takes HEAD. No two of the patterns of a method match the same path, so their
  order does not matter. Paths are taken as already clean (the multiplexer redirects others).
\<close>

fun match_segments :: "string list \<Rightarrow> string list \<Rightarrow> string option" where
  "match_segments [] [] = Some ''''"
| "match_segments (p # ps) (x # xs) =
     (if p = ''{tool_id}'' then if x = '''' then None else map_option (\<lambda>_. x) (match_segments ps xs)
      else if p = x then match_segments ps xs else None)"
| "match_segments _ _ = None"

definition path_value :: "string \<Rightarrow> http_request \<Rightarrow> string option" where
  "path_value pat r = match_segments (split_on (CHR ''/'') pat) (split_on (CHR ''/'') (hq_path r))"

definition method_matches :: "string \<Rightarrow> http_request \<Rightarrow> bool" where
  "method_matches m r \<longleftrightarrow> m = hq_method r \<or> m = ''GET'' \<and> hq_method r = ''HEAD''"

definition route_request ::
  "(string \<times> string \<times> endpoint) list \<Rightarrow> http_request \<Rightarrow> (endpoint \<times> string) option" where
  "route_request routes r =
     (case filter (\<lambda>(m, pat, _). method_matches m r \<and> path_value pat r \<noteq> None) routes of
        [] \<Rightarrow> None
      | (_, pat, ep) # _ \<Rightarrow> Some (ep, the (path_value pat r)))"

definition public_mux :: "bool \<Rightarrow> (string \<times> string \<times> endpoint) list" where
  "public_mux tls = public_routes @ (if tls then [] else protected_routes)"

text \<open>
  Serving a request on one of the two ports: with TLS the protected endpoints are on the port whose
  handler is the mTLS middleware, without it all are on the plaintext port. A request without a
  route is answered by the multiplexer itself, with 405 if a route for another method has its path.
  The rate limits and request identifiers in front of both ports are not part of this definition.
\<close>

datatype port = PlainPort | MtlsPort

definition dispatch ::
  "(endpoint \<Rightarrow> string \<Rightarrow> http_request \<Rightarrow> response_writer \<Rightarrow> 's \<Rightarrow> response_writer \<times> 's)
   \<Rightarrow> (string \<times> string \<times> endpoint) list \<Rightarrow> http_request \<Rightarrow> response_writer \<Rightarrow> 's \<Rightarrow> response_writer \<times> 's" where
  "dispatch handle routes r w s =
     (case route_request routes r of
        None \<Rightarrow> (rw_write_header (if \<exists>(_, pat, _) \<in> set routes. path_value pat r \<noteq> None then 405 else 404) w, s)
      | Some (ep, value) \<Rightarrow> handle ep value r w s)"

definition serve ::
  "('pub, 'jwk, 'm) api_env_scheme \<Rightarrow> bool
   \<Rightarrow> (endpoint \<Rightarrow> string \<Rightarrow> http_request \<Rightarrow> response_writer \<Rightarrow> 's \<Rightarrow> response_writer \<times> 's)
   \<Rightarrow> port \<Rightarrow> peer_certificate list option \<Rightarrow> http_request \<Rightarrow> response_writer \<Rightarrow> 's \<Rightarrow> response_writer \<times> 's" where
  "serve X tls handle port cert r w s =
     (case port of
        PlainPort \<Rightarrow> dispatch handle (public_mux tls) r w s
      | MtlsPort \<Rightarrow>
          if tls then mtlsMiddleware X (\<lambda>_. dispatch handle protected_routes) cert r w s else (w, s))"

section \<open>What the server guarantees\<close>

lemma route_request_in:
  assumes "route_request routes r = Some (ep, v)"
  shows "ep \<in> (snd \<circ> snd) ` set routes"
proof -
  obtain m pat rest where "filter (\<lambda>(m, pat, _). method_matches m r \<and> path_value pat r \<noteq> None) routes = (m, pat, ep) # rest"
    using assms by (auto simp: route_request_def split: list.splits prod.splits)
  then have "(m, pat, ep) \<in> set routes" by (auto dest: Cons_eq_filterD [OF sym])
  then show ?thesis by force
qed

text \<open>
  With TLS enabled nothing that a client without a certificate sends changes the state of the unit:
  protected endpoints are not routed on the plaintext port, and the other port turns such a client
  away. The public endpoints are assumed only to read.
\<close>

theorem state_changes_need_certificate:
  assumes "\<And>ep v r w s. ep \<in> {Health, TrustDomains, JWKS, MetricsPage, OpenAPI, Events} \<Longrightarrow> snd (handle ep v r w s) = s"
    and "snd (serve X True handle port cert r w s) \<noteq> s"
  shows "port = MtlsPort \<and> (\<exists>c cs. cert = Some (c # cs))"
proof (cases port)
  case PlainPort
  have "ep \<in> {Health, TrustDomains, JWKS, MetricsPage, OpenAPI, Events}" if "route_request public_routes r = Some (ep, v)" for ep v
    using route_request_in [OF that] by (simp add: public_routes_def)
  then have "snd (dispatch handle public_routes r w s) = s"
    using assms(1) by (auto simp: dispatch_def split: option.split)
  then show ?thesis using assms(2) PlainPort by (simp add: serve_def public_mux_def)
next
  case MtlsPort
  then show ?thesis
    using assms(2) by (auto simp: serve_def mtlsMiddleware_def extractPeerIdentity_def split: option.splits list.splits)
qed

lemma requireBearerAuth_pass:
  assumes "requireBearerAuth X r w = None" and "ax_jwks X \<noteq> None"
  shows "\<exists>keySet token. ax_jwks X = Some (Inr keySet) \<and> has_prefix (header_get r ''Authorization'') ''Bearer ''
    \<and> ax_parse X keySet (bearer_token r) = Some token"
  using assms by (auto simp: requireBearerAuth_def Let_def split: option.splits sum.splits if_splits)

text \<open>
  Outside development mode, and with the unit's key set in place, only the bearer of a token that
  verifies under that key set can change a tool registry.
\<close>

theorem registry_changes_authenticated:
  assumes "\<not> ax_dev_mode X" and "ax_jwks X \<noteq> None"
    and "snd (handleMCPToolRegister X J r w mcp) \<noteq> mcp \<or> snd (handleMCPToolDeregister X J r w mcp) \<noteq> mcp
      \<or> snd (handleToolRegister X J r w tools) \<noteq> tools \<or> snd (handleToolDeregister X J toolID r w tools) \<noteq> tools"
  shows "\<exists>keySet token. ax_jwks X = Some (Inr keySet) \<and> has_prefix (header_get r ''Authorization'') ''Bearer ''
    \<and> ax_parse X keySet (bearer_token r) = Some token"
proof (cases "requireBearerAuth X r w")
  case None
  then show ?thesis by (rule requireBearerAuth_pass [OF _ assms(2)])
next
  case (Some w')
  then show ?thesis
    using assms(1,3) by (simp add: handleMCPToolRegister_def handleMCPToolDeregister_def handleToolRegister_def
        handleToolDeregister_def registry_gate_def)
qed


lemma plain_error_reply [simp]:
  "reply_of (plain_error X st msg new_writer) = (st, Some (ax_encode X (JObj [(''error'', JStr msg)])))"
  by (simp add: plain_error_def)


lemma answer_signal_reply:
  assumes "answer_signal X receive new_writer s = (w', s')" and "receive s = (out, t)"
  shows "s' = t" "fst (reply_of w') = 202 \<longleftrightarrow> out = Inr ()"
proof -
  have "s' = t \<and> (fst (reply_of w') = 202 \<longleftrightarrow> out = Inr ())"
  proof (cases out)
    case (Inl err)
    then have "w' = write_error (ax_encode X) (signal_refusal err) new_writer" "s' = t"
      using assms by (simp_all add: answer_signal_def)
    moreover have "fst (signal_refusal err) \<noteq> 202" by (simp add: signal_refusal_def split: receiver_error.split)
    ultimately show ?thesis using Inl by simp
  next
    case (Inr u)
    then have "w' = writeJSON (ax_encode X) 202 (JObj [(''status'', JStr ''accepted'')]) new_writer" "s' = t"
      using assms by (simp_all add: answer_signal_def)
    then show ?thesis using Inr by simp
  qed
  then show "s' = t" "fst (reply_of w') = 202 \<longleftrightarrow> out = Inr ()" by simp_all
qed

text \<open>
  In production a signal reaches the unit only as a signed security event token: unless the body of the
  request is one that the receiver verifies, the endpoint changes nothing, neither the revocation index
  nor the memory of events nor the audit trail; it answers 202 exactly if the receiver accepts the event.
\<close>

theorem signals_are_signed:
  assumes "\<not> ax_dev_mode X" and "handleSignalEvent X decode P ck (Some rx) r new_writer s = (w', s')"
  shows "(fst (reply_of w') = 202 \<longleftrightarrow> has_prefix (header_get r ''Content-Type'') ''application/secevent+jwt''
        \<and> (\<exists>raw event. read_limited maxSignalBodyBytes (hq_body r) = Inr raw \<and> parseSET P rx raw = Inr event
             \<and> ReceiveEvent rx ck (Some event) s = (Inr (), s')))
    \<and> (s' \<noteq> s \<longrightarrow> (\<exists>raw event. read_limited maxSignalBodyBytes (hq_body r) = Inr raw \<and> parseSET P rx raw = Inr event
             \<and> s' = snd (ReceiveEvent rx ck (Some event) s)))"
proof -
  have refusal: "fst (signal_refusal err) \<noteq> 202" for err by (simp add: signal_refusal_def split: receiver_error.split)
  have body: "fst (body_refusal m e) \<noteq> 202" for m e by (simp add: body_refusal_def split: body_error.split)
  have fail: "fst (reply_of (fail_with X st c d new_writer)) = st" for st c d by (simp add: fail_with_def)
  show ?thesis
  proof (cases "read_limited maxSignalBodyBytes (hq_body r)")
    case (Inl e)
    then show ?thesis using assms body by (auto simp: handleSignalEvent_def fail split: if_splits)
  next
    case (Inr raw)
    show ?thesis
    proof (cases "parseSET P rx raw")
      case (Inl err)
      then show ?thesis
        using assms Inr refusal by (auto simp: handleSignalEvent_def answer_signal_def ReceiveSET_def sfail_def fail split: if_splits)
    next
      case (Inr event)
      obtain out t where run: "ReceiveEvent rx ck (Some event) s = (out, t)" by fastforce
      note read = \<open>read_limited maxSignalBodyBytes (hq_body r) = Inr raw\<close>
      show ?thesis
      proof (cases "has_prefix (header_get r ''Content-Type'') ''application/secevent+jwt''")
        case False
        then have "w' = fail_with X 415 ''invalid_request'' ''Content-Type must be application/secevent+jwt'' new_writer" "s' = s"
          using assms by (simp_all add: handleSignalEvent_def)
        then show ?thesis using False fail by simp
      next
        case True
        then have ans: "answer_signal X (ReceiveSET P rx ck raw) new_writer s = (w', s')"
          using assms read by (simp add: handleSignalEvent_def)
        have "ReceiveSET P rx ck raw s = (out, t)" using Inr run by (simp add: ReceiveSET_def)
        note answer = answer_signal_reply [OF ans this]
        have "s' = t" by (rule answer(1))
        moreover have "fst (reply_of w') = 202 \<longleftrightarrow> out = Inr ()" by (rule answer(2))
        ultimately show ?thesis using True read Inr run by simp
      qed
    qed
  qed
qed

section \<open>An instance\<close>

definition demo_server_env :: "(string, string) api_env" where
  "demo_server_env = \<lparr>ax_encode = (\<lambda>j. ''''), ax_query = (\<lambda>r k. ''''), ax_dev_mode = False,
     ax_jwks = Some (Inr [''key'']), ax_parse = (\<lambda>ks t. if t = ''jwt'' then Some [(''sub'', JStr ''w1'')] else None),
     ax_now = 0\<rparr>"





text \<open>Handlers whose state counts the requests that reach the exchange endpoint.\<close>

definition demo_handle :: "endpoint \<Rightarrow> string \<Rightarrow> http_request \<Rightarrow> response_writer \<Rightarrow> nat \<Rightarrow> response_writer \<times> nat" where
  "demo_handle ep v r w s = (if ep = ExchangeToken then (rw_write_header 200 w, Suc s) else (w, s))"

definition demo_token_post :: http_request where
  "demo_token_post = \<lparr>hq_method = ''POST'', hq_path = ''/v1/exchange/token'', hq_headers = [], hq_body = Body '''', hq_remote_addr = ''''\<rparr>"

definition demo_certificate :: peer_certificate where
  "demo_certificate = \<lparr>pc_common_name = ''agent'', pc_serial_hex = ''1f'', pc_uris = [(''spiffe'', ''spiffe://td/agent'')]\<rparr>"

theorem state_changes_need_certificate_witness:
  "snd (serve demo_server_env True demo_handle MtlsPort (Some [demo_certificate]) demo_token_post new_writer 0) = 1
   \<and> (\<exists>c cs. Some [demo_certificate] = Some (c # cs))"
proof -
  have run: "snd (serve demo_server_env True demo_handle MtlsPort (Some [demo_certificate]) demo_token_post new_writer 0) = 1"
    by code_simp
  then have "snd (serve demo_server_env True demo_handle MtlsPort (Some [demo_certificate]) demo_token_post new_writer 0) \<noteq> 0"
    by simp
  from state_changes_need_certificate [OF _ this] run show ?thesis by (auto simp: demo_handle_def)
qed

end
