(* ===== verification/Locked_Store.thy ===== *)
theory Locked_Store
  imports Core_Types
begin

text \<open>
  \<open>src/pkg/lock\<close> and \<open>src/pkg/store\<close>: the lockers that seal what is stored, the store of versioned entries
  on top of them, and the migration of a store from one locker to another. Badger is a map of keys to
  values, as an association list in the order of iteration; its failures, the KMS service and JSON are
  parameters. Durations in audit records are left out.
\<close>

section \<open>Base64\<close>

text \<open>The standard alphabet with padding, as \<open>base64.StdEncoding\<close> encodes and decodes; line breaks are skipped.\<close>

definition b64_alphabet :: string where
  "b64_alphabet = ''ABCDEFGHIJKLMNOPQRSTUVWXYZabcdefghijklmnopqrstuvwxyz0123456789+/''"

definition b64_digit :: "nat \<Rightarrow> char" where
  "b64_digit n = b64_alphabet ! n"

definition b64_value :: "char \<Rightarrow> nat option" where
  "b64_value c = map_of (zip b64_alphabet [0..<64]) c"

fun b64_encode :: "string \<Rightarrow> string" where
  "b64_encode [] = []"
| "b64_encode [a] = (let n = of_char a * 16 in [b64_digit (n div 64), b64_digit (n mod 64), CHR ''='', CHR ''=''])"
| "b64_encode [a, b] =
     (let n = of_char a * 1024 + of_char b * 4
      in [b64_digit (n div 4096), b64_digit (n div 64 mod 64), b64_digit (n mod 64), CHR ''=''])"
| "b64_encode (a # b # c # rest) =
     (let n = of_char a * 65536 + of_char b * 256 + of_char c
      in b64_digit (n div 262144) # b64_digit (n div 4096 mod 64) # b64_digit (n div 64 mod 64) # b64_digit (n mod 64)
         # b64_encode rest)"

fun b64_groups :: "string \<Rightarrow> string option" where
  "b64_groups [] = Some []"
| "b64_groups (w # x # y # z # rest) =
     (if y = CHR ''='' \<and> z = CHR ''='' \<and> rest = []
      then case (b64_value w, b64_value x) of
             (Some i, Some j) \<Rightarrow> Some [char_of ((i * 64 + j) div 16)]
           | _ \<Rightarrow> None
      else if z = CHR ''='' \<and> rest = []
      then case (b64_value w, b64_value x, b64_value y) of
             (Some i, Some j, Some k) \<Rightarrow>
               let n = (i * 4096 + j * 64 + k) div 4 in Some [char_of (n div 256), char_of (n mod 256)]
           | _ \<Rightarrow> None
      else case (b64_value w, b64_value x, b64_value y, b64_value z, b64_groups rest) of
             (Some i, Some j, Some k, Some l, Some bytes) \<Rightarrow>
               let n = i * 262144 + j * 4096 + k * 64 + l
               in Some (char_of (n div 65536) # char_of (n div 256 mod 256) # char_of (n mod 256) # bytes)
           | _ \<Rightarrow> None)"
| "b64_groups _ = None"

definition b64_decode :: "string \<Rightarrow> string option" where
  "b64_decode s = b64_groups (filter (\<lambda>c. of_char c \<noteq> (10 :: nat) \<and> of_char c \<noteq> (13 :: nat)) s)"

lemma b64_digits:
  "\<forall>n \<in> set [0..<64]. b64_value (b64_digit n) = Some n \<and> b64_digit n \<noteq> CHR ''=''
     \<and> of_char (b64_digit n) \<noteq> (10 :: nat) \<and> of_char (b64_digit n) \<noteq> (13 :: nat)"
  by code_simp

lemma b64_digit_facts:
  assumes "n < 64"
  shows "b64_value (b64_digit n) = Some n" "b64_digit n \<noteq> CHR ''=''"
    "of_char (b64_digit n) \<noteq> (10 :: nat)" "of_char (b64_digit n) \<noteq> (13 :: nat)"
  using b64_digits assms by auto

lemma b64_sum2: "n div 4096 * 4096 + n div 64 mod 64 * 64 + n mod 64 = (n :: nat)"
proof -
  have "n div 4096 * 64 + n div 64 mod 64 = n div 64"
    using div_mult_mod_eq [of "n div 64" 64] by (simp add: div_mult2_eq [symmetric])
  then show ?thesis using div_mult_mod_eq [of n 64] by linarith
qed

lemma b64_sum3: "n div 262144 * 262144 + n div 4096 mod 64 * 4096 + n div 64 mod 64 * 64 + n mod 64 = (n :: nat)"
proof -
  have "n div 262144 * 64 + n div 4096 mod 64 = n div 4096"
    using div_mult_mod_eq [of "n div 4096" 64] by (simp add: div_mult2_eq [symmetric])
  then show ?thesis using b64_sum2 [of n] by linarith
qed

lemma b64_tops:
  "of_char a * 16 div 64 < (64 :: nat)"
  "(of_char a * 1024 + of_char b * 4) div 4096 < (64 :: nat)"
  "(of_char a * 65536 + of_char b * 256 + of_char c) div 262144 < (64 :: nat)"
proof -
  have lt: "(of_char a :: nat) < 256" "(of_char b :: nat) < 256" "(of_char c :: nat) < 256" by (rule nat_of_char_less_256)+
  show "of_char a * 16 div 64 < (64 :: nat)" by (rule less_mult_imp_div_less) (use lt in linarith)
  show "(of_char a * 1024 + of_char b * 4) div 4096 < (64 :: nat)" by (rule less_mult_imp_div_less) (use lt in linarith)
  show "(of_char a * 65536 + of_char b * 256 + of_char c) div 262144 < (64 :: nat)"
    by (rule less_mult_imp_div_less) (use lt in linarith)
qed

lemma byte_digits:
  "(of_char a * 256 + of_char b) div 256 = (of_char a :: nat)" "(of_char a * 256 + of_char b) mod 256 = (of_char b :: nat)"
  using nat_of_char_less_256 [of b] by simp_all

lemma char_of_low: "char_of (of_char a * 256 + of_char b :: nat) = b"
proof -
  have "char_of ((of_char a * 256 + of_char b :: nat) mod 256) = b" by (simp only: byte_digits char_of_char)
  then show ?thesis by (simp only: char_of_mod_256)
qed

lemma b64_groups_encode: "b64_groups (b64_encode s) = Some s"
proof (induction s rule: b64_encode.induct)
  case 1
  then show ?case by simp
next
  case (2 a)
  define n :: nat where "n = of_char a * 16"
  have "n div 64 < 64" "n div 16 = of_char a" using b64_tops(1) [of a] by (simp_all add: n_def)
  then show ?case by (simp add: b64_digit_facts flip: n_def)
next
  case (3 a b)
  define n :: nat where "n = of_char a * 1024 + of_char b * 4"
  have "n = (of_char a * 256 + of_char b) * 4" by (simp add: n_def)
  then have "n div 4 = of_char a * 256 + of_char b" by simp
  moreover have "n div 4096 < 64" using b64_tops(2) [of a b] by (simp only: n_def)
  ultimately show ?case by (simp add: Let_def b64_digit_facts b64_sum2 byte_digits char_of_low flip: n_def)
next
  case (4 a b c rest)
  define n :: nat where "n = of_char a * 65536 + of_char b * 256 + of_char c"
  define m :: nat where "m = of_char a * 256 + of_char b"
  have n: "n = m * 256 + of_char c" by (simp add: n_def m_def)
  have "n div 256 = m" "n mod 256 = of_char c" unfolding n using nat_of_char_less_256 [of c] by simp_all
  then have "n div 256 = of_char a * 256 + of_char b" "n mod 256 = of_char c" by (simp_all add: m_def)
  moreover from this(2) have "char_of n = c" by (metis char_of_char char_of_mod_256)
  moreover from calculation(1) have "n div 65536 = of_char a" using div_mult2_eq [of n 256 256] by (simp add: byte_digits)
  moreover have "n div 262144 < 64" using b64_tops(3) [of a b c] by (simp only: n_def)
  ultimately show ?case using 4 by (simp add: Let_def b64_digit_facts b64_sum3 byte_digits char_of_low flip: n_def)
qed

lemma b64_encode_no_breaks: "c \<in> set (b64_encode s) \<Longrightarrow> of_char c \<noteq> (10 :: nat) \<and> of_char c \<noteq> (13 :: nat)"
proof (induction s rule: b64_encode.induct)
  case (2 a)
  then show ?case using b64_digit_facts(3,4) [OF b64_tops(1) [of a]] by (auto simp: Let_def b64_digit_facts)
next
  case (3 a b)
  then show ?case using b64_tops(2) [of a b] by (auto simp: Let_def b64_digit_facts)
next
  case (4 a b c rest)
  then show ?case using b64_tops(3) [of a b c] by (auto simp: Let_def b64_digit_facts)
qed simp

lemma b64_roundtrip: "b64_decode (b64_encode s) = Some s"
proof -
  have "filter (\<lambda>c. of_char c \<noteq> (10 :: nat) \<and> of_char c \<noteq> (13 :: nat)) (b64_encode s) = b64_encode s"
    using b64_encode_no_breaks by (intro filter_True) blast
  then show ?thesis by (simp add: b64_decode_def b64_groups_encode)
qed

section \<open>Lockers\<close>

record locker =
  lk_lock :: "string \<Rightarrow> string option"
  lk_unlock :: "string \<Rightarrow> string option"

definition DevLocker :: locker where
  "DevLocker = \<lparr>lk_lock = (\<lambda>data. Some (b64_encode data)), lk_unlock = b64_decode\<rparr>"

text \<open>
  The KMS client: encryption under a key identifier, decryption of a blob that names its key, and
  whether the AWS configuration can be loaded for a region.
\<close>

record kms_lib =
  km_encrypt :: "string \<Rightarrow> string \<Rightarrow> string option"
  km_decrypt :: "string \<Rightarrow> string option"
  km_config_ok :: "string \<Rightarrow> bool"

record awskms_config =
  kc_key_id :: string
  kc_region :: string

record lock_config =
  lc_type :: string
  lc_awskms :: awskms_config

datatype lock_error =
    EmptyKeyId
  | LoadingAwsConfig
  | NotYetImplemented string
  | UnknownLockType string
  | UnsupportedForMigration string

definition KMSLocker :: "kms_lib \<Rightarrow> string \<Rightarrow> locker" where
  "KMSLocker K keyID = \<lparr>lk_lock = km_encrypt K keyID, lk_unlock = km_decrypt K\<rparr>"

definition NewKMSLocker :: "kms_lib \<Rightarrow> awskms_config \<Rightarrow> lock_error + locker" where
  "NewKMSLocker K cfg =
     (if kc_key_id cfg = '''' then Inl EmptyKeyId
      else if \<not> km_config_ok K (kc_region cfg) then Inl LoadingAwsConfig
      else Inr (KMSLocker K (kc_key_id cfg)))"

definition New_locker :: "kms_lib \<Rightarrow> lock_config \<Rightarrow> lock_error + locker" where
  "New_locker K cfg =
     (if lc_type cfg = ''dev'' then Inr DevLocker
      else if lc_type cfg = ''awskms'' then NewKMSLocker K (lc_awskms cfg)
      else if lc_type cfg \<in> {''gcpckms'', ''azurekeyvault''} then Inl (NotYetImplemented (lc_type cfg))
      else Inl (UnknownLockType (lc_type cfg)))"

definition NewFromTypeAndKey :: "kms_lib \<Rightarrow> string \<Rightarrow> string \<Rightarrow> lock_error + locker" where
  "NewFromTypeAndKey K lockType key =
     (if lockType = ''dev'' then Inr DevLocker
      else if lockType = ''awskms'' then NewKMSLocker K \<lparr>kc_key_id = key, kc_region = ''''\<rparr>
      else Inl (UnsupportedForMigration lockType))"

section \<open>The store\<close>

record store_entry =
  sn_key :: string
  sn_value :: string
  sn_version :: "64 word"
  sn_created_at :: go_time
  sn_updated_at :: go_time

text \<open>JSON, and whether Badger reads a key and commits a transaction.\<close>

record store_lib =
  sj_marshal :: "store_entry \<Rightarrow> string option"
  sj_unmarshal :: "string \<Rightarrow> store_entry option"
  sj_read_ok :: "string \<Rightarrow> bool"
  sj_commit_ok :: "string \<Rightarrow> bool"

type_synonym database = "(string, string) gomap"

datatype store_error =
    StoreNotFound
  | BadgerError
  | UnlockFailed
  | LockFailed
  | EntryUndecodable
  | EntryUnencodable

definition open_entry :: "store_lib \<Rightarrow> locker \<Rightarrow> string \<Rightarrow> store_error + store_entry" where
  "open_entry J L val =
     (case lk_unlock L val of
        None \<Rightarrow> Inl UnlockFailed
      | Some plain \<Rightarrow> (case sj_unmarshal J plain of None \<Rightarrow> Inl EntryUndecodable | Some entry \<Rightarrow> Inr entry))"

definition Store_Get :: "store_lib \<Rightarrow> locker \<Rightarrow> database \<Rightarrow> string \<Rightarrow> store_error + store_entry" where
  "Store_Get J L db key =
     (if \<not> sj_read_ok J key then Inl BadgerError
      else case map_of db key of None \<Rightarrow> Inl StoreNotFound | Some val \<Rightarrow> open_entry J L val)"

definition seal_entry :: "store_lib \<Rightarrow> locker \<Rightarrow> store_entry \<Rightarrow> store_error + string" where
  "seal_entry J L entry =
     (case sj_marshal J entry of
        None \<Rightarrow> Inl EntryUnencodable
      | Some bytes \<Rightarrow> (case lk_lock L bytes of None \<Rightarrow> Inl LockFailed | Some locked \<Rightarrow> Inr locked))"

definition next_entry :: "go_time \<Rightarrow> string \<Rightarrow> string \<Rightarrow> store_entry option \<Rightarrow> store_entry" where
  "next_entry now key value existing =
     \<lparr>sn_key = key, sn_value = value,
      sn_version = (case existing of None \<Rightarrow> 0 | Some e \<Rightarrow> sn_version e) + 1,
      sn_created_at = (case existing of None \<Rightarrow> now | Some e \<Rightarrow> sn_created_at e), sn_updated_at = now\<rparr>"

definition Store_Put ::
  "store_lib \<Rightarrow> locker \<Rightarrow> go_time \<Rightarrow> string \<Rightarrow> string \<Rightarrow> database \<Rightarrow> (store_error + store_entry) \<times> database" where
  "Store_Put J L now key value db =
     (case (case Store_Get J L db key of
              Inr existing \<Rightarrow> Inr (Some existing)
            | Inl StoreNotFound \<Rightarrow> Inr None
            | Inl e \<Rightarrow> Inl e) of
        Inl e \<Rightarrow> (Inl e, db)
      | Inr existing \<Rightarrow>
          let result = next_entry now key value existing
          in case seal_entry J L result of
               Inl e \<Rightarrow> (Inl e, db)
             | Inr locked \<Rightarrow>
                 if sj_commit_ok J key then (Inr result, AList.update key locked db) else (Inl BadgerError, db))"

definition Store_Delete :: "store_lib \<Rightarrow> string \<Rightarrow> database \<Rightarrow> store_error option \<times> database" where
  "Store_Delete J key db = (if sj_commit_ok J key then (None, AList.delete key db) else (Some BadgerError, db))"

definition Store_List :: "database \<Rightarrow> string \<Rightarrow> string list" where
  "Store_List db pre = filter (\<lambda>k. has_prefix k pre) (map fst db)"

section \<open>Migration\<close>

datatype migrate_error =
    UnlockKey string
  | LockKey string
  | BatchSet string
  | FlushFailed

text \<open>
  The scan collects the new values of all keys in a write batch; \<open>set_ok\<close> says whether the batch takes
  a key.
\<close>

fun reseal :: "locker \<Rightarrow> locker \<Rightarrow> (string \<Rightarrow> bool) \<Rightarrow> database \<Rightarrow> migrate_error + database" where
  "reseal src dst set_ok [] = Inr []"
| "reseal src dst set_ok ((key, val) # db) =
     (case lk_unlock src val of
        None \<Rightarrow> Inl (UnlockKey key)
      | Some plain \<Rightarrow>
          case lk_lock dst plain of
            None \<Rightarrow> Inl (LockKey key)
          | Some cipher \<Rightarrow>
              if \<not> set_ok key then Inl (BatchSet key)
              else (case reseal src dst set_ok db of Inl e \<Rightarrow> Inl e | Inr batch \<Rightarrow> Inr ((key, cipher) # batch)))"



section \<open>What sealing promises\<close>

text \<open>A locker opens what it has sealed.\<close>

locale sealing =
  fixes L :: locker
  assumes unlock_lock: "lk_lock L plain = Some sealed \<Longrightarrow> lk_unlock L sealed = Some plain"
begin

lemma open_sealed:
  assumes "\<And>bytes. sj_marshal J entry = Some bytes \<Longrightarrow> sj_unmarshal J bytes = Some entry"
    and "seal_entry J L entry = Inr locked"
  shows "open_entry J L locked = Inr entry"
  using assms by (auto simp: seal_entry_def open_entry_def split: option.splits dest!: unlock_lock)

lemma put_get:
  assumes codec: "\<And>entry bytes. sj_marshal J entry = Some bytes \<Longrightarrow> sj_unmarshal J bytes = Some entry"
    and "Store_Put J L now key value db = (Inr entry, db')"
  shows "Store_Get J L db' key = Inr entry"
    and "k \<noteq> key \<Longrightarrow> Store_Get J L db' k = Store_Get J L db k"
    and "entry = next_entry now key value (case Store_Get J L db key of Inr e \<Rightarrow> Some e | Inl _ \<Rightarrow> None)"
proof -
  obtain existing locked where
    old: "(case Store_Get J L db key of Inr e \<Rightarrow> Inr (Some e) | Inl StoreNotFound \<Rightarrow> Inr None | Inl e \<Rightarrow> Inl e) = Inr existing"
    and entry: "entry = next_entry now key value existing" and locked: "seal_entry J L entry = Inr locked"
    and db': "db' = AList.update key locked db"
    using assms(2) by (auto simp: Store_Put_def Let_def split: sum.splits if_splits)
  have "sj_read_ok J key" using old by (auto simp: Store_Get_def split: sum.splits store_error.splits if_splits)
  then show "Store_Get J L db' key = Inr entry" by (simp add: Store_Get_def db' open_sealed [OF codec locked] update_conv')
  show "Store_Get J L db' k = Store_Get J L db k" if "k \<noteq> key" using that by (simp add: Store_Get_def db' update_conv')
  show "entry = next_entry now key value (case Store_Get J L db key of Inr e \<Rightarrow> Some e | Inl _ \<Rightarrow> None)"
    using old entry by (auto split: sum.splits store_error.splits)
qed

lemma reseal_values:
  "reseal src L ok db = Inr batch \<Longrightarrow>
    map_option (lk_unlock L) (map_of batch k) = map_option (lk_unlock src) (map_of db k)"
proof (induction db arbitrary: batch)
  case Nil
  then show ?case by simp
next
  case (Cons p db)
  obtain key val where p: "p = (key, val)" by fastforce
  from Cons.prems obtain plain cipher rest where
    step: "lk_unlock src val = Some plain" "lk_lock L plain = Some cipher" "reseal src L ok db = Inr rest"
      "batch = (key, cipher) # rest"
    by (auto simp: p split: option.splits if_splits sum.splits)
  show ?case using Cons.IH [OF step(3)] unlock_lock [OF step(2)] step(1) by (simp add: p step(4))
qed

lemma migrated_reads:
  assumes "reseal src L ok db = Inr batch"
  shows "Store_Get J L batch key = Store_Get J src db key"
  using reseal_values [OF assms, of key]
  by (cases "map_of batch key"; cases "map_of db key") (auto simp: Store_Get_def open_entry_def)

end


interpretation dev: sealing DevLocker
  by unfold_locales (auto simp: DevLocker_def b64_roundtrip)

text \<open>
  The development locker loses nothing: it seals every value, and opening the sealed value gives it back.
\<close>

theorem dev_locker_roundtrip:
  "\<exists>sealed. lk_lock DevLocker plain = Some sealed \<and> lk_unlock DevLocker sealed = Some plain"
  using dev.unlock_lock [of plain "b64_encode plain"] by (simp add: DevLocker_def)

text \<open>
  The store is a map of versioned entries: an entry that has been put is what a read returns, with
  the version one above the last and the time of its first write kept; other keys are untouched. The
  locker is assumed to open what it seals, and JSON to decode what it encodes.
\<close>

theorem store_put_get:
  assumes "\<And>plain sealed. lk_lock L plain = Some sealed \<Longrightarrow> lk_unlock L sealed = Some plain"
    and "\<And>entry bytes. sj_marshal J entry = Some bytes \<Longrightarrow> sj_unmarshal J bytes = Some entry"
    and "Store_Put J L now key value db = (Inr entry, db')"
  shows "Store_Get J L db' key = Inr entry \<and> sn_value entry = value \<and> sn_updated_at entry = now
    \<and> (\<forall>old. Store_Get J L db key = Inr old \<longrightarrow> sn_version entry = sn_version old + 1 \<and> sn_created_at entry = sn_created_at old)
    \<and> (Store_Get J L db key = Inl StoreNotFound \<longrightarrow> sn_version entry = 1 \<and> sn_created_at entry = now)
    \<and> (\<forall>k. k \<noteq> key \<longrightarrow> Store_Get J L db' k = Store_Get J L db k)"
proof -
  have "sealing L" by unfold_locales (rule assms(1))
  from sealing.put_get [OF this assms(2,3)] show ?thesis by (auto simp: next_entry_def)
qed


section \<open>An instance\<close>

text \<open>A codec that keeps the value of an entry of the first version, and a service that tags what it encrypts.\<close>

definition demo_store :: store_lib where
  "demo_store = \<lparr>sj_marshal = (\<lambda>e. if e = next_entry 3 ''a'' (sn_value e) None then Some (sn_value e) else None),
     sj_unmarshal = (\<lambda>b. Some (next_entry 3 ''a'' b None)), sj_read_ok = (\<lambda>k. True), sj_commit_ok = (\<lambda>k. True)\<rparr>"


theorem store_put_get_witness:
  "Store_Get demo_store DevLocker (snd (Store_Put demo_store DevLocker 3 ''a'' ''v'' [])) ''a'' = Inr (next_entry 3 ''a'' ''v'' None)"
proof -
  have put: "Store_Put demo_store DevLocker 3 ''a'' ''v'' [] =
      (Inr (next_entry 3 ''a'' ''v'' None), snd (Store_Put demo_store DevLocker 3 ''a'' ''v'' []))"
    by (simp add: Store_Put_def Store_Get_def demo_store_def seal_entry_def DevLocker_def next_entry_def)
  have codec: "sj_unmarshal demo_store bytes = Some entry" if "sj_marshal demo_store entry = Some bytes" for entry bytes
    using that by (auto simp: demo_store_def split: if_splits)
  show ?thesis using store_put_get [OF dev.unlock_lock codec put] by simp
qed



end
