(* ===== verification/Api_Limits.thy ===== *)
theory Api_Limits
  imports Federation_Sync
begin

text \<open>
  \<open>src/pkg/api/ratelimit.go\<close>: the global and the per-address limit on requests. The limiter of
  \<open>golang.org/x/time/rate\<close> and the parsing of addresses are parameters; rates are the rational numbers
  that the configuration gives. Every request reads the clock once.
\<close>

section \<open>Client addresses\<close>

record ('ip, 'net) addr_lib =
  al_split_host_port :: "string \<Rightarrow> string option"
  al_parse_ip :: "string \<Rightarrow> 'ip option"
  al_parse_cidr :: "string \<Rightarrow> 'net option"
  al_contains :: "'net \<Rightarrow> 'ip \<Rightarrow> bool"

definition parseTrustedProxies :: "('ip, 'net) addr_lib \<Rightarrow> string list \<Rightarrow> 'net list" where
  "parseTrustedProxies P cidrs = List.map_filter (al_parse_cidr P) cidrs"

definition remoteHost :: "('ip, 'net) addr_lib \<Rightarrow> http_request \<Rightarrow> string" where
  "remoteHost P r =
     (case al_split_host_port P (hq_remote_addr r) of None \<Rightarrow> hq_remote_addr r | Some host \<Rightarrow> host)"

text \<open>\<open>strings.TrimSpace\<close>, for the ASCII spaces.\<close>

definition is_space :: "char \<Rightarrow> bool" where
  "is_space c \<longleftrightarrow> of_char c \<in> {9, 10, 11, 12, 13, 32 :: nat}"

definition trim_space :: "string \<Rightarrow> string" where
  "trim_space s = rev (dropWhile is_space (rev (dropWhile is_space s)))"

text \<open>The first entry of \<open>X-Forwarded-For\<close>; empty if there is none.\<close>

definition forwarded_for :: "http_request \<Rightarrow> string" where
  "forwarded_for r = trim_space (hd (split_n2 (CHR '','') (header_get r ''X-Forwarded-For'')))"

definition clientIPWith :: "('ip, 'net) addr_lib \<Rightarrow> http_request \<Rightarrow> 'net list \<Rightarrow> string" where
  "clientIPWith P r trusted =
     (let peer = remoteHost P r; xff = forwarded_for r
      in if trusted \<noteq> []
         then let fromTrustedProxy = (case al_parse_ip P peer of
                    None \<Rightarrow> False | Some peerIP \<Rightarrow> list_ex (\<lambda>ipnet. al_contains P ipnet peerIP) trusted)
              in if fromTrustedProxy \<and> xff \<noteq> '''' then xff else peer
         else if xff \<noteq> '''' then xff else peer)"

section \<open>The middleware\<close>

record 'lim limiter_lib =
  ll_new :: "rat \<Rightarrow> int \<Rightarrow> 'lim"
  ll_allow :: "go_time \<Rightarrow> 'lim \<Rightarrow> bool \<times> 'lim"
  ll_reserve :: "go_time \<Rightarrow> 'lim \<Rightarrow> duration \<times> 'lim"

record rate_limit_config =
  rl_global_rate :: rat
  rl_global_burst :: int
  rl_per_ip_rate :: rat
  rl_per_ip_burst :: int
  rl_trusted_proxies :: "string list"

record 'lim limits =
  lt_global :: 'lim
  lt_ips :: "(string, 'lim \<times> go_time) gomap"

definition new_limits :: "'lim limiter_lib \<Rightarrow> rate_limit_config \<Rightarrow> 'lim limits" where
  "new_limits L cfg = \<lparr>lt_global = ll_new L (rl_global_rate cfg) (rl_global_burst cfg), lt_ips = []\<rparr>"

text \<open>
  \<open>limiter.Allow()\<close>; a refused request asks for the delay with \<open>Reserve().Delay()\<close>, and never cancels
  the reservation. The result is the delay of a refused request.
\<close>

definition take_token :: "'lim limiter_lib \<Rightarrow> go_time \<Rightarrow> 'lim \<Rightarrow> duration option \<times> 'lim" where
  "take_token L now l =
     (case ll_allow L now l of
        (True, l') \<Rightarrow> (None, l')
      | (False, l') \<Rightarrow> case ll_reserve L now l' of (delay, l'') \<Rightarrow> (Some delay, l''))"

definition check_limits ::
  "('ip, 'net) addr_lib \<Rightarrow> 'lim limiter_lib \<Rightarrow> rate_limit_config \<Rightarrow> go_time \<Rightarrow> http_request
   \<Rightarrow> 'lim limits \<Rightarrow> duration option \<times> 'lim limits" where
  "check_limits P L cfg now r lt =
     (let ip = clientIPWith P r (parseTrustedProxies P (rl_trusted_proxies cfg))
      in case take_token L now (lt_global lt) of
           (Some delay, g) \<Rightarrow> (Some delay, lt\<lparr>lt_global := g\<rparr>)
         | (None, g) \<Rightarrow>
             let il = (case map_of (lt_ips lt) ip of
                         None \<Rightarrow> ll_new L (rl_per_ip_rate cfg) (rl_per_ip_burst cfg) | Some (l, _) \<Rightarrow> l)
             in case take_token L now il of
                  (refused, il') \<Rightarrow>
                    (refused, \<lparr>lt_global = g, lt_ips = AList.update ip (il', now) (lt_ips lt)\<rparr>))"

text \<open>\<open>math.Ceil(retryAfter.Seconds())\<close>, at least one second.\<close>

definition retry_seconds :: "duration \<Rightarrow> int" where
  "retry_seconds d = max 1 (- ((- d) div go_second))"

definition writeRateLimited :: "(json \<Rightarrow> string) \<Rightarrow> (int \<Rightarrow> string) \<Rightarrow> duration \<Rightarrow> response_writer \<Rightarrow> response_writer" where
  "writeRateLimited encode dec retryAfter w =
     rw_write (encode (JObj [(''error'', JStr ''rate_limit_exceeded''),
         (''error_description'', JStr ''Too many requests. Please retry after the indicated delay.'')]))
       (rw_write_header 429 (rw_set_header ''Retry-After'' (dec (retry_seconds retryAfter))
         (rw_set_header ''Content-Type'' ''application/json'' w)))"

definition rateLimitMiddleware ::
  "('ip, 'net) addr_lib \<Rightarrow> 'lim limiter_lib \<Rightarrow> (json \<Rightarrow> string) \<Rightarrow> (int \<Rightarrow> string) \<Rightarrow> rate_limit_config \<Rightarrow> bool
   \<Rightarrow> (http_request \<Rightarrow> response_writer \<Rightarrow> 's \<Rightarrow> response_writer \<times> 's)
   \<Rightarrow> go_time \<Rightarrow> http_request \<Rightarrow> response_writer \<Rightarrow> 'lim limits \<times> 's \<Rightarrow> response_writer \<times> 'lim limits \<times> 's" where
  "rateLimitMiddleware P L encode dec cfg dev next now r w st =
     (case st of (lt, s) \<Rightarrow>
        if dev then (case next r w s of (w', s') \<Rightarrow> (w', lt, s'))
        else case check_limits P L cfg now r lt of
               (Some delay, lt') \<Rightarrow> (writeRateLimited encode dec delay w, lt', s)
             | (None, lt') \<Rightarrow> (case next r w s of (w', s') \<Rightarrow> (w', lt', s')))"

text \<open>The background clean-up, every five minutes.\<close>

definition limits_cleanup :: "go_time \<Rightarrow> 'lim limits \<Rightarrow> 'lim limits" where
  "limits_cleanup now lt =
     lt\<lparr>lt_ips := filter (\<lambda>(_, _, lastSeen). \<not> lastSeen < time_add now (- 10 * go_minute)) (lt_ips lt)\<rparr>"

section \<open>Whose address counts\<close>

lemma split_n2_empty [simp]: "hd (split_n2 c '''') = ''''"
  by (simp add: split_n2_none)

text \<open>
  With trusted proxies configured, a client that does not come through one of them is counted under its
  own address, whatever headers it sends.
\<close>

theorem direct_client_address:
  assumes "list_ex (\<lambda>c. al_parse_cidr P c \<noteq> None) (rl_trusted_proxies cfg)"
    and "\<forall>net ip. net \<in> set (parseTrustedProxies P (rl_trusted_proxies cfg)) \<longrightarrow>
      al_parse_ip P (remoteHost P r) = Some ip \<longrightarrow> \<not> al_contains P net ip"
  shows "clientIPWith P r (parseTrustedProxies P (rl_trusted_proxies cfg)) = remoteHost P r"
proof -
  obtain c net where "c \<in> set (rl_trusted_proxies cfg)" "al_parse_cidr P c = Some net"
    using assms(1) by (auto simp: list_ex_iff)
  then have "net \<in> set (parseTrustedProxies P (rl_trusted_proxies cfg))"
    by (force simp: parseTrustedProxies_def List.map_filter_def)
  then have "parseTrustedProxies P (rl_trusted_proxies cfg) \<noteq> []" by auto
  then show ?thesis using assms(2) by (auto simp: clientIPWith_def Let_def list_ex_iff split: option.split)
qed

section \<open>Runs\<close>

fun limits_run ::
  "('ip, 'net) addr_lib \<Rightarrow> 'lim limiter_lib \<Rightarrow> rate_limit_config \<Rightarrow> (go_time \<times> http_request) list \<Rightarrow> 'lim limits
   \<Rightarrow> duration option list" where
  "limits_run P L cfg [] lt = []"
| "limits_run P L cfg ((now, r) # reqs) lt =
     (case check_limits P L cfg now r lt of (d, lt') \<Rightarrow> d # limits_run P L cfg reqs lt')"

text \<open>
  What the limiter is documented to do: a bucket of the given size, initially full and refilled at the
  given rate, from which an allowed event takes one token; a reservation takes one in any case, and the
  limiter takes it into account when it allows later events. \<open>tokens\<close> is the number of tokens at an
  instant.
\<close>

definition token_bucket ::
  "'lim limiter_lib \<Rightarrow> (go_time \<Rightarrow> 'lim \<Rightarrow> rat) \<Rightarrow> ('lim \<Rightarrow> rat) \<Rightarrow> ('lim \<Rightarrow> int) \<Rightarrow> bool" where
  "token_bucket L tokens speed cap \<longleftrightarrow>
     (\<forall>r b. speed (ll_new L r b) = r \<and> cap (ll_new L r b) = b \<and> (\<forall>t. tokens t (ll_new L r b) = of_int b))
     \<and> (\<forall>t l. fst (ll_allow L t l) \<longleftrightarrow> 1 \<le> tokens t l)
     \<and> (\<forall>t l. speed (snd (ll_allow L t l)) = speed l \<and> cap (snd (ll_allow L t l)) = cap l
          \<and> (\<forall>t' \<ge> t. 0 \<le> speed l \<longrightarrow> tokens t' (snd (ll_allow L t l)) \<le>
               tokens t l - (if 1 \<le> tokens t l then 1 else 0) + speed l * of_int (t' - t) / of_int go_second))
     \<and> (\<forall>t l. speed (snd (ll_reserve L t l)) = speed l \<and> cap (snd (ll_reserve L t l)) = cap l
          \<and> (\<forall>t' \<ge> t. 0 \<le> speed l \<longrightarrow> 1 \<le> cap l \<longrightarrow> tokens t' (snd (ll_reserve L t l)) \<le>
               tokens t l - 1 + speed l * of_int (t' - t) / of_int go_second))"

lemma token_bucketD:
  assumes "token_bucket L tokens speed cap"
  shows "speed (ll_new L r b) = r" "cap (ll_new L r b) = b" "tokens t (ll_new L r b) = of_int b"
    "fst (ll_allow L t l) \<longleftrightarrow> 1 \<le> tokens t l"
    "speed (snd (ll_allow L t l)) = speed l" "cap (snd (ll_allow L t l)) = cap l"
    "t \<le> t' \<Longrightarrow> 0 \<le> speed l \<Longrightarrow> tokens t' (snd (ll_allow L t l)) \<le>
       tokens t l - (if 1 \<le> tokens t l then 1 else 0) + speed l * of_int (t' - t) / of_int go_second"
    "speed (snd (ll_reserve L t l)) = speed l" "cap (snd (ll_reserve L t l)) = cap l"
    "t \<le> t' \<Longrightarrow> 0 \<le> speed l \<Longrightarrow> 1 \<le> cap l \<Longrightarrow> tokens t' (snd (ll_reserve L t l)) \<le>
       tokens t l - 1 + speed l * of_int (t' - t) / of_int go_second"
  using assms unfolding token_bucket_def by blast+

lemma take_token_effect:
  assumes law: "token_bucket L tokens speed cap" and "1 \<le> cap l" and "0 \<le> speed l" and "take_token L t l = (d, l')"
  shows "(d = None \<longleftrightarrow> 1 \<le> tokens t l) \<and> speed l' = speed l \<and> cap l' = cap l
    \<and> (\<forall>t' \<ge> t. tokens t' l' \<le> tokens t l - 1 + speed l * of_int (t' - t) / of_int go_second)"
proof (cases "1 \<le> tokens t l")
  case True
  then have "fst (ll_allow L t l)" by (simp add: token_bucketD(4) [OF law])
  then have "d = None" "l' = snd (ll_allow L t l)"
    using assms(4) by (auto simp: take_token_def split: prod.splits bool.splits)
  then show ?thesis using True assms(3) token_bucketD(5-7) [OF law, where t = t and l = l] by auto
next
  case False
  then have f: "\<not> fst (ll_allow L t l)" by (simp add: token_bucketD(4) [OF law])
  let ?m = "snd (ll_allow L t l)"
  have l': "d \<noteq> None" "l' = snd (ll_reserve L t ?m)"
    using assms(4) f by (auto simp: take_token_def split: prod.splits bool.splits)
  have m: "tokens t ?m \<le> tokens t l" using token_bucketD(7) [OF law, where t = t and t' = t and l = l] False assms(3) by simp
  have "tokens t' l' \<le> tokens t l - 1 + speed l * of_int (t' - t) / of_int go_second" if "t \<le> t'" for t'
    using token_bucketD(10) [OF law that, of ?m] token_bucketD(5,6) [OF law, where t = t and l = l] assms(2,3) m l'(2) by simp
  then show ?thesis using l' False token_bucketD(5,6) [OF law, where t = t and l = l] token_bucketD(8,9) [OF law, where t = t and l = ?m] by simp
qed


text \<open>The limiter of an address: the one in the table, or a new one.\<close>

definition ip_limiter :: "'lim limiter_lib \<Rightarrow> rate_limit_config \<Rightarrow> string \<Rightarrow> 'lim limits \<Rightarrow> 'lim" where
  "ip_limiter L cfg ip lt =
     (case map_of (lt_ips lt) ip of
        None \<Rightarrow> ll_new L (rl_per_ip_rate cfg) (rl_per_ip_burst cfg) | Some (l, _) \<Rightarrow> l)"

abbreviation client_of :: "('ip, 'net) addr_lib \<Rightarrow> rate_limit_config \<Rightarrow> http_request \<Rightarrow> string" where
  "client_of P cfg r \<equiv> clientIPWith P r (parseTrustedProxies P (rl_trusted_proxies cfg))"

lemma check_limits_eq:
  "check_limits P L cfg now r lt =
     (case take_token L now (lt_global lt) of
        (Some delay, g) \<Rightarrow> (Some delay, lt\<lparr>lt_global := g\<rparr>)
      | (None, g) \<Rightarrow>
          case take_token L now (ip_limiter L cfg (client_of P cfg r) lt) of
            (refused, il') \<Rightarrow> (refused, \<lparr>lt_global = g, lt_ips = AList.update (client_of P cfg r) (il', now) (lt_ips lt)\<rparr>))"
  by (simp only: check_limits_def Let_def ip_limiter_def)

lemma ip_limiter_simps [simp]:
  "ip_limiter L cfg ip (lt\<lparr>lt_global := g\<rparr>) = ip_limiter L cfg ip lt"
  "ip_limiter L cfg ip \<lparr>lt_global = g, lt_ips = AList.update k (il, now) (lt_ips lt)\<rparr> =
     (if ip = k then il else ip_limiter L cfg ip lt)"
  by (simp_all add: ip_limiter_def update_conv)





text \<open>
  Refused requests are charged: the delay that a refused client is told comes from a reservation, which is
  never cancelled. Once the global limit has refused a request, all further requests are refused for as
  long as they keep arriving at the permitted rate or faster, although the limit is meant to let that
  many through.
\<close>

theorem refused_requests_starve:
  assumes law: "token_bucket L tokens speed cap" and "1 \<le> cap (lt_global lt)" and "0 \<le> speed (lt_global lt)"
    and "tokens now (lt_global lt) < 1" and "ts = now # map fst reqs" and "sorted ts"
    and "\<forall>i. Suc i < length ts \<longrightarrow> speed (lt_global lt) * of_int (ts ! Suc i - ts ! i) / of_int go_second \<le> 1"
  shows "None \<notin> set (limits_run P L cfg ((now, r) # reqs) lt)"
  using assms(2-)
proof (induction reqs arbitrary: now r lt ts)
  case Nil
  obtain d g where tk: "take_token L now (lt_global lt) = (d, g)" by fastforce
  have "d \<noteq> None" using take_token_effect [OF law _ _ tk] Nil.prems(1-3) by auto
  then show ?case using tk by (auto simp: check_limits_eq)
next
  case (Cons x reqs)
  obtain t q where x: "x = (t, q)" by fastforce
  obtain d g where tk: "take_token L now (lt_global lt) = (d, g)" by fastforce
  have eff: "d \<noteq> None" "speed g = speed (lt_global lt)" "cap g = cap (lt_global lt)"
      "\<forall>t' \<ge> now. tokens t' g \<le> tokens now (lt_global lt) - 1 + speed (lt_global lt) * of_int (t' - now) / of_int go_second"
    using take_token_effect [OF law _ _ tk] Cons.prems(1,2,3) by auto
  then have c: "check_limits P L cfg now r lt = (d, lt\<lparr>lt_global := g\<rparr>)"
    using tk by (auto simp: check_limits_eq)
  have le: "now \<le> t" using Cons.prems(4,5) x by simp
  have "speed (lt_global lt) * of_int (t - now) / of_int go_second \<le> 1"
    using Cons.prems(6) [rule_format, of 0] Cons.prems(4) x by simp
  then have "tokens t g < 1" using eff(4) [rule_format, OF le] Cons.prems(3) by linarith
  then have "None \<notin> set (limits_run P L cfg ((t, q) # reqs) (lt\<lparr>lt_global := g\<rparr>))"
  proof (intro Cons.IH [where ts = "t # map fst reqs"])
    show "\<forall>i. Suc i < length (t # map fst reqs) \<longrightarrow> speed (lt_global (lt\<lparr>lt_global := g\<rparr>)) *
        of_int ((t # map fst reqs) ! Suc i - (t # map fst reqs) ! i) / of_int go_second \<le> 1"
      using Cons.prems(6) [rule_format, of "Suc i" for i] Cons.prems(4) x eff(2) by simp
  qed (use Cons.prems x eff in auto)
  then show ?case using c eff(1) x by auto
qed

text \<open>
  Without trusted proxies the limit for addresses is void: a client that names a new address in
  \<open>X-Forwarded-For\<close> with every request is limited by the global bucket alone, since each of these names
  gets a full bucket of its own.
\<close>

theorem forged_addresses_unlimited:
  assumes law: "token_bucket L tokens speed cap" and "rl_trusted_proxies cfg = []" and "1 \<le> rl_per_ip_burst cfg"
    and "distinct (map (forwarded_for \<circ> snd) reqs)" and "'''' \<notin> set (map (forwarded_for \<circ> snd) reqs)"
    and "\<forall>x \<in> set reqs. map_of (lt_ips lt) (forwarded_for (snd x)) = None"
  shows "limits_run P L cfg reqs lt = fst (foldl (\<lambda>(ds, g) (now, _). case take_token L now g of (d, g') \<Rightarrow> (ds @ [d], g'))
    ([], lt_global lt) reqs)"
proof -
  define f where "f = (\<lambda>(ds :: duration option list, g) (now, _ :: http_request).
    case take_token L now g of (d, g') \<Rightarrow> (ds @ [d], g'))"
  have "ds @ limits_run P L cfg reqs lt = fst (foldl f (ds, lt_global lt) reqs)" for ds
    using assms(4-6)
  proof (induction reqs arbitrary: lt ds)
    case (Cons x reqs)
    obtain now r where x: "x = (now, r)" by fastforce
    obtain d g where tk: "take_token L now (lt_global lt) = (d, g)" by fastforce
    let ?ip = "forwarded_for r" and ?new = "ll_new L (rl_per_ip_rate cfg) (rl_per_ip_burst cfg)"
    have ip: "client_of P cfg r = ?ip"
      using assms(2) Cons.prems(2) x by (auto simp: clientIPWith_def parseTrustedProxies_def List.map_filter_def Let_def)
    have "fst (ll_allow L now ?new)"
      using assms(3) by (simp add: token_bucketD(3,4) [OF law])
    then obtain il where "ll_allow L now ?new = (True, il)" by (metis prod.collapse)
    then have new: "take_token L now ?new = (None, il)" by (simp add: take_token_def)
    have lim: "ip_limiter L cfg ?ip lt = ?new" using Cons.prems(3) x by (simp add: ip_limiter_def)
    obtain lt' where c: "check_limits P L cfg now r lt = (d, lt')" "lt_global lt' = g"
        "\<forall>k. k \<noteq> ?ip \<longrightarrow> map_of (lt_ips lt') k = map_of (lt_ips lt) k"
      by (cases d) (simp_all add: check_limits_eq tk ip lim new update_conv)
    have "(ds @ [d]) @ limits_run P L cfg reqs lt' = fst (foldl f (ds @ [d], lt_global lt') reqs)"
    proof (rule Cons.IH)
      have "forwarded_for (snd y) \<noteq> ?ip" if "y \<in> set reqs" for y using Cons.prems(1) x that by force
      then show "\<forall>y \<in> set reqs. map_of (lt_ips lt') (forwarded_for (snd y)) = None" using Cons.prems(3) c(3) by simp
    qed (use Cons.prems(1,2) in simp_all)
    then show ?case using c(1,2) tk x by (simp add: f_def)
  qed simp
  from this [of "[]"] show ?thesis by (simp add: f_def)
qed


section \<open>A concrete bucket\<close>

text \<open>Rate, size, tokens and the instant at which they were counted.\<close>

type_synonym demo_limiter = "rat \<times> int \<times> rat \<times> go_time option"

definition demo_left :: "go_time \<Rightarrow> demo_limiter \<Rightarrow> rat" where
  "demo_left t l = (case l of (r, b, n, counted) \<Rightarrow>
     (case counted of None \<Rightarrow> n | Some u \<Rightarrow> min (of_int b) (n + r * of_int (t - u) / of_int go_second)))"

definition demo_take :: "go_time \<Rightarrow> demo_limiter \<Rightarrow> demo_limiter" where
  "demo_take t l = (case l of (r, b, _, _) \<Rightarrow> (r, b, demo_left t l - 1, Some t))"

definition demo_limiter_lib :: "demo_limiter limiter_lib" where
  "demo_limiter_lib = \<lparr>ll_new = (\<lambda>r b. (r, b, of_int b, None)),
     ll_allow = (\<lambda>t l. if 1 \<le> demo_left t l then (True, demo_take t l) else (False, l)),
     ll_reserve = (\<lambda>t l. (0, demo_take t l))\<rparr>"

lemma demo_take_tokens:
  "demo_left t' (demo_take t l) \<le> demo_left t l - 1 + fst l * of_int (t' - t) / of_int go_second"
  by (cases l) (simp add: demo_take_def demo_left_def)


lemma demo_refill:
  assumes "t \<le> t'" and "0 \<le> fst l"
  shows "demo_left t' l \<le> demo_left t l + fst l * of_int (t' - t) / of_int go_second"
proof -
  obtain r b n c where l: "l = (r, b, n, c)" by (cases l)
  define \<delta> where "\<delta> = r * of_int (t' - t) / of_int go_second"
  have "0 \<le> \<delta>" using assms l by (simp add: go_second_def \<delta>_def)
  moreover have "r * of_int (t' - u) / of_int go_second = r * of_int (t - u) / of_int go_second + \<delta>" for u
    by (simp add: right_diff_distrib diff_divide_distrib \<delta>_def)
  moreover have "min (of_int b) (n + (x + \<delta>)) \<le> min (of_int b) (n + x) + \<delta>" for x using \<open>0 \<le> \<delta>\<close> by linarith
  ultimately have "demo_left t' l \<le> demo_left t l + \<delta>" using l by (cases c) (simp_all add: demo_left_def)
  then show ?thesis by (simp add: l \<delta>_def)
qed

lemma demo_bucket: "token_bucket demo_limiter_lib demo_left fst (\<lambda>l. fst (snd l))"
  unfolding token_bucket_def
proof (intro conjI allI impI)
  fix t t' :: go_time and l :: demo_limiter
  assume "t \<le> t'" "0 \<le> fst l"
  then show "demo_left t' (snd (ll_allow demo_limiter_lib t l)) \<le> demo_left t l - (if 1 \<le> demo_left t l then 1 else 0) +
      fst l * of_int (t' - t) / of_int go_second"
    using demo_take_tokens [of t' t l] demo_refill [of t t' l] by (simp add: demo_limiter_lib_def)
  show "demo_left t' (snd (ll_reserve demo_limiter_lib t l)) \<le> demo_left t l - 1 + fst l * of_int (t' - t) / of_int go_second"
    using demo_take_tokens [of t' t l] by (simp add: demo_limiter_lib_def)
qed (simp_all add: demo_limiter_lib_def demo_left_def demo_take_def split: prod.split)

definition demo_limit_config :: rate_limit_config where
  "demo_limit_config = \<lparr>rl_global_rate = 2, rl_global_burst = 1, rl_per_ip_rate = 1, rl_per_ip_burst = 1,
     rl_trusted_proxies = []\<rparr>"

definition demo_addr :: "(string, string) addr_lib" where
  "demo_addr = \<lparr>al_split_host_port = (\<lambda>a. Some a), al_parse_ip = Some, al_parse_cidr = Some, al_contains = (=)\<rparr>"

definition demo_from :: "string \<Rightarrow> string \<Rightarrow> http_request" where
  "demo_from peer xff = \<lparr>hq_method = ''GET'', hq_path = ''/'', hq_headers = [(''X-Forwarded-For'', xff)],
     hq_body = NoBody, hq_remote_addr = peer\<rparr>"

definition demo_burst :: "(go_time \<times> http_request) list" where
  "demo_burst = [(0, demo_from ''p'' ''a''), (go_second, demo_from ''p'' ''b'')]"


theorem refused_requests_starve_witness:
  "None \<notin> set (limits_run demo_addr demo_limiter_lib demo_limit_config
     [(0, demo_from ''p'' ''a''), (go_second div 2, demo_from ''p'' ''b'')]
     \<lparr>lt_global = (2, 1, 0, Some 0), lt_ips = []\<rparr>)"
  by (rule refused_requests_starve [OF demo_bucket _ _ _ refl])
    (auto simp: demo_left_def go_second_def less_Suc_eq)

theorem direct_client_address_witness:
  "clientIPWith demo_addr (demo_from ''10.9.9.9'' ''1.1.1.1'') (parseTrustedProxies demo_addr [''10.0.0.1'']) = ''10.9.9.9''"
  using direct_client_address [of demo_addr "demo_limit_config\<lparr>rl_trusted_proxies := [''10.0.0.1'']\<rparr>" "demo_from ''10.9.9.9'' ''1.1.1.1''"]
  by (simp add: demo_addr_def demo_from_def parseTrustedProxies_def List.map_filter_def remoteHost_def)

lemma demo_forwarded: "forwarded_for (demo_from p ''a'') = ''a''" "forwarded_for (demo_from p ''b'') = ''b''"
  by (simp_all add: forwarded_for_def demo_from_def header_get_def header_values_def equal_fold_def split_n2_none
      trim_space_def is_space_def)

theorem forged_addresses_unlimited_witness:
  "limits_run demo_addr demo_limiter_lib demo_limit_config demo_burst (new_limits demo_limiter_lib demo_limit_config) = [None, None]"
proof -
  have "limits_run demo_addr demo_limiter_lib demo_limit_config demo_burst (new_limits demo_limiter_lib demo_limit_config) =
      fst (foldl (\<lambda>(ds, g) (now, _). case take_token demo_limiter_lib now g of (d, g') \<Rightarrow> (ds @ [d], g'))
        ([], lt_global (new_limits demo_limiter_lib demo_limit_config)) demo_burst)"
    by (rule forged_addresses_unlimited [OF demo_bucket])
      (simp_all add: demo_limit_config_def demo_burst_def demo_forwarded new_limits_def)
  also have "\<dots> = [None, None]"
    by (simp add: demo_burst_def demo_limit_config_def new_limits_def demo_limiter_lib_def take_token_def
        demo_left_def demo_take_def go_second_def)
  finally show ?thesis .
qed

end
