(* ===== verification/Policy_Engine.thy ===== *)
theory Policy_Engine
  imports Engine_Props Exchange_Demo
begin

text \<open>
  \<open>src/pkg/policy\<close>: loading and verifying a policy bundle, and evaluating decisions. The bundle is a
  tree of files as \<open>filepath.Walk\<close> sees it, in its order, and stays the same during a call; the
  OPA library (parsing, compiling and evaluating Rego, checking signatures and hashes) and JSON are
  parameters.
\<close>

section \<open>Bundles\<close>

datatype fs_node =
    FsFile string "string option"
  | FsDir string "fs_node list"
  | FsUnreadable

text \<open>
  One step of a walk: a file with its path below the bundle, its name and its contents (if it can be
  read), or an error of the walk itself. A directory for which \<open>skip\<close> holds is not entered.
\<close>

datatype visit =
    VisitFile string string "string option"
  | VisitError

definition join_path :: "string \<Rightarrow> string \<Rightarrow> string" where
  "join_path p name = (if p = '''' then name else p @ ''/'' @ name)"

fun walk_tree :: "(string \<Rightarrow> bool) \<Rightarrow> string \<Rightarrow> fs_node \<Rightarrow> visit list" where
  "walk_tree skip p (FsFile name content) = [VisitFile (join_path p name) name content]"
| "walk_tree skip p (FsDir name nodes) =
     (if skip name then [] else concat (map (walk_tree skip (join_path p name)) nodes))"
| "walk_tree skip p FsUnreadable = [VisitError]"

record bundle_dir =
  bu_base :: string
  bu_nodes :: "fs_node list"

text \<open>The root itself is the first directory of the walk, with its base name; paths are relative to it.\<close>

definition walk_bundle :: "(string \<Rightarrow> bool) \<Rightarrow> bundle_dir \<Rightarrow> visit list" where
  "walk_bundle skip b = (if skip (bu_base b) then [] else concat (map (walk_tree skip '''') (bu_nodes b)))"

definition has_suffix :: "string \<Rightarrow> string \<Rightarrow> bool" where
  "has_suffix s q \<longleftrightarrow> has_prefix (rev s) (rev q)"

definition policy_file :: "string \<Rightarrow> bool" where
  "policy_file name \<longleftrightarrow> has_suffix name ''.rego'' \<or> name = ''data.json''"

section \<open>Signatures\<close>

record ('sc, 'kc, 'h) bundle_lib =
  bl_read_key :: "string \<Rightarrow> string option"
  bl_detect_alg :: "string \<Rightarrow> string option"
  bl_key_config :: "string \<Rightarrow> string \<Rightarrow> 'kc option"
  bl_parse_signatures :: "string \<Rightarrow> 'sc option"
  bl_verify_signature :: "'sc \<Rightarrow> string \<Rightarrow> 'kc \<Rightarrow> (string, 'h) gomap option"
  bl_verify_file :: "string \<Rightarrow> string \<Rightarrow> (string, 'h) gomap \<Rightarrow> bool"

record policy_config =
  pg_bundle_path :: string
  pg_signing_key_file :: string
  pg_signing_key_id :: string

datatype bundle_error =
    ReadingSigningKey
  | DetectingAlgorithm
  | ParsingSigningKey
  | ReadingSignatures
  | ParsingSignatures
  | SignatureVerificationFailed
  | WalkFailed
  | ReadingForVerification string
  | IntegrityCheckFailed string
  | SignedFileMissing string

definition signatures_file :: string where
  "signatures_file = ''.signatures.json''"

text \<open>\<open>os.ReadFile\<close> of the signatures, at the top of the bundle.\<close>

fun read_top :: "string \<Rightarrow> fs_node list \<Rightarrow> string option" where
  "read_top n [] = None"
| "read_top n (FsFile name content # nodes) = (if name = n then content else read_top n nodes)"
| "read_top n (_ # nodes) = read_top n nodes"

fun verify_files ::
  "('sc, 'kc, 'h) bundle_lib \<Rightarrow> visit list \<Rightarrow> (string, 'h) gomap \<Rightarrow> bundle_error + (string, 'h) gomap" where
  "verify_files B [] files = Inr files"
| "verify_files B (VisitError # vs) files = Inl WalkFailed"
| "verify_files B (VisitFile rel name content # vs) files =
     (if rel = signatures_file \<or> \<not> policy_file name then verify_files B vs files
      else case content of
        None \<Rightarrow> Inl (ReadingForVerification rel)
      | Some data \<Rightarrow>
          if bl_verify_file B rel data files then verify_files B vs (AList.delete rel files)
          else Inl (IntegrityCheckFailed rel))"

definition signed_files ::
  "('sc, 'kc, 'h) bundle_lib \<Rightarrow> bundle_dir \<Rightarrow> policy_config \<Rightarrow> bundle_error + (string, 'h) gomap" where
  "signed_files B b cfg =
     (case bl_read_key B (pg_signing_key_file cfg) of
        None \<Rightarrow> Inl ReadingSigningKey
      | Some keyPEM \<Rightarrow>
          let keyID = (if pg_signing_key_id cfg = '''' then ''starfly'' else pg_signing_key_id cfg)
          in case bl_detect_alg B keyPEM of
               None \<Rightarrow> Inl DetectingAlgorithm
             | Some alg \<Rightarrow>
                 case bl_key_config B keyPEM alg of
                   None \<Rightarrow> Inl ParsingSigningKey
                 | Some kc \<Rightarrow>
                     case read_top signatures_file (bu_nodes b) of
                       None \<Rightarrow> Inl ReadingSignatures
                     | Some sigData \<Rightarrow>
                         case bl_parse_signatures B sigData of
                           None \<Rightarrow> Inl ParsingSignatures
                         | Some sc \<Rightarrow>
                             case bl_verify_signature B sc keyID kc of
                               None \<Rightarrow> Inl SignatureVerificationFailed
                             | Some files \<Rightarrow> Inr files)"

definition VerifyBundle ::
  "('sc, 'kc, 'h) bundle_lib \<Rightarrow> bundle_dir \<Rightarrow> policy_config \<Rightarrow> bundle_error option" where
  "VerifyBundle B b cfg =
     (if pg_signing_key_file cfg = '''' then None
      else case signed_files B b cfg of
        Inl e \<Rightarrow> Some e
      | Inr files \<Rightarrow>
          case verify_files B (walk_bundle (\<lambda>_. False) b) files of
            Inl e \<Rightarrow> Some e
          | Inr rest \<Rightarrow>
              case filter (\<lambda>(name, _). name \<noteq> signatures_file) rest of
                [] \<Rightarrow> None
              | (name, _) # _ \<Rightarrow> Some (SignedFileMissing name))"

text \<open>The algorithm of a public key: \<open>None\<close> for an unsupported curve or type.\<close>

datatype public_key_kind = EcdsaCurve string | RsaPublic | OtherPublic

definition detectKeyAlgorithm :: "(string \<Rightarrow> string option) \<Rightarrow> (string \<Rightarrow> public_key_kind option) \<Rightarrow> string \<Rightarrow> string option" where
  "detectKeyAlgorithm pem_decode parse_pkix pemData =
     (case Option.bind (pem_decode pemData) parse_pkix of
        None \<Rightarrow> None
      | Some (EcdsaCurve c) \<Rightarrow>
          map_of [(''P-256'', ''ES256''), (''P-384'', ''ES384''), (''P-521'', ''ES512'')] c
      | Some RsaPublic \<Rightarrow> Some ''RS256''
      | Some OtherPublic \<Rightarrow> None)"

section \<open>Loading\<close>

record ('m, 'c, 's) opa =
  op_parse_module :: "string \<Rightarrow> string \<Rightarrow> 'm option"
  op_parse_data :: "string \<Rightarrow> claims option"
  op_compile :: "(string, 'm) gomap \<Rightarrow> 'c option"
  op_store :: "claims \<Rightarrow> 's"
  op_eval :: "'c \<Rightarrow> 's option \<Rightarrow> string \<Rightarrow> claims \<Rightarrow> string + json option"
  op_show_time :: "go_time \<Rightarrow> json"

datatype load_error =
    BundleInaccessible
  | BundleNotDirectory
  | BundleVerificationFailed bundle_error
  | BundleWalkFailed
  | NoRegoFiles
  | CompilationFailed

record ('c, 's) policy_engine =
  pe_compiler :: "'c option"
  pe_store :: "'s option"
  pe_auditor :: bool
  pe_config :: policy_config

definition New_policy_engine :: "bool \<Rightarrow> policy_config \<Rightarrow> ('c, 's) policy_engine" where
  "New_policy_engine auditor cfg = \<lparr>pe_compiler = None, pe_store = None, pe_auditor = auditor, pe_config = cfg\<rparr>"

fun load_files ::
  "('m, 'c, 's) opa \<Rightarrow> visit list \<Rightarrow> (string, 'm) gomap \<Rightarrow> claims \<Rightarrow> ((string, 'm) gomap \<times> claims) option" where
  "load_files P [] modules storeData = Some (modules, storeData)"
| "load_files P (VisitError # vs) modules storeData = None"
| "load_files P (VisitFile rel name content # vs) modules storeData =
     (if has_suffix name ''.rego''
      then case Option.bind content (op_parse_module P rel) of
             None \<Rightarrow> None
           | Some m \<Rightarrow> load_files P vs (AList.update rel m modules) storeData
      else if name = ''data.json''
      then case Option.bind content (op_parse_data P) of
             None \<Rightarrow> None
           | Some doc \<Rightarrow> load_files P vs modules (fold (\<lambda>(k, v). AList.update k v) doc storeData)
      else load_files P vs modules storeData)"

text \<open>\<open>os.Stat\<close> of the path: absent, a file, or a directory.\<close>

datatype bundle_source = NoBundle | BundleFile | BundleDir bundle_dir

definition LoadBundle ::
  "('m, 'c, 's) opa \<Rightarrow> ('sc, 'kc, 'h) bundle_lib \<Rightarrow> (bundle_error \<Rightarrow> string) \<Rightarrow> string \<Rightarrow> bundle_source
   \<Rightarrow> ('c, 's) policy_engine \<Rightarrow> audit_event list
   \<Rightarrow> load_error option \<times> ('c, 's) policy_engine \<times> audit_event list" where
  "LoadBundle P B error_text bundlePath src e trail =
     (case src of
        NoBundle \<Rightarrow> (Some BundleInaccessible, e, trail)
      | BundleFile \<Rightarrow> (Some BundleNotDirectory, e, trail)
      | BundleDir b \<Rightarrow>
          case VerifyBundle B b (pe_config e) of
            Some err \<Rightarrow>
              (Some (BundleVerificationFailed err), e,
               if pe_auditor e
               then trail @ [audit_lit ''policy'' ''bundle_rejected'' '''' bundlePath ''denied'' (error_text err) []]
               else trail)
          | None \<Rightarrow>
              case load_files P (walk_bundle (\<lambda>name. has_prefix name ''..'') b) [] [] of
                None \<Rightarrow> (Some BundleWalkFailed, e, trail)
              | Some (modules, storeData) \<Rightarrow>
                  if modules = [] then (Some NoRegoFiles, e, trail)
                  else case op_compile P modules of
                    None \<Rightarrow> (Some CompilationFailed, e, trail)
                  | Some c \<Rightarrow> (None, e\<lparr>pe_compiler := Some c, pe_store := Some (op_store P storeData)\<rparr>, trail))"

section \<open>Decisions\<close>

definition attestation_map :: "('m, 'c, 's) opa \<Rightarrow> attestation_evidence \<Rightarrow> json" where
  "attestation_map P a =
     JObj [(''method'', JStr (ae_method a)), (''timestamp'', op_show_time P (ae_timestamp a)),
           (''node_id'', JStr (ae_node_id a)), (''namespace'', JStr (ae_namespace a))]"

definition toMap :: "('m, 'c, 's) opa \<Rightarrow> policy_input \<Rightarrow> claims" where
  "toMap P input =
     [(''action'', JStr (pi_action input)), (''target'', JStr (pi_target input))]
     @ (case pi_subject input of
          None \<Rightarrow> []
        | Some s \<Rightarrow>
            [(''subject'', JObj ([(''id'', JStr (wi_id s)), (''trust_domain'', JStr (wi_trust_domain s)),
                (''claims'', JObj (wi_claims s))]
              @ (case wi_attestation s of None \<Rightarrow> [] | Some a \<Rightarrow> [(''attestation'', attestation_map P a)])))])
     @ (if pi_context input \<noteq> [] then [(''context'', JObj (pi_context input))] else [])"

definition evalRule ::
  "('m, 'c, 's) opa \<Rightarrow> 'c \<Rightarrow> 's option \<Rightarrow> string \<Rightarrow> string \<Rightarrow> policy_input \<Rightarrow> string + json option" where
  "evalRule P c st action rule input = op_eval P c st (''data.starfly.'' @ action @ ''.'' @ rule) (toMap P input)"

definition Evaluate ::
  "('m, 'c, 's) opa \<Rightarrow> ('c, 's) policy_engine \<Rightarrow> policy_input \<Rightarrow> string + policy_decision" where
  "Evaluate P e input =
     (case pe_compiler e of
        None \<Rightarrow> Inr \<lparr>pd_allowed = False, pd_reason = ''no policy found'', pd_claims = []\<rparr>
      | Some c \<Rightarrow>
          let eval = (\<lambda>rule. evalRule P c (pe_store e) (pi_action input) rule input)
          in rbind (eval ''allow'') (\<lambda>allowed.
             rbind (eval ''reason'') (\<lambda>reasonVal.
             rbind (eval ''claims'') (\<lambda>claimsVal.
               let (ok, r0) = (case allowed of Some (JBool b) \<Rightarrow> (b, '''') | _ \<Rightarrow> (False, ''no policy found''));
                   r = (case reasonVal of Some (JStr s) \<Rightarrow> s | _ \<Rightarrow> r0);
                   cs = (case claimsVal of Some (JObj m) \<Rightarrow> m | _ \<Rightarrow> [])
               in Inr \<lparr>pd_allowed = ok, pd_reason = r, pd_claims = cs\<rparr>))))"

section \<open>What a walk visits\<close>

lemma walk_tree_skip: "set (walk_tree skip p node) \<subseteq> set (walk_tree (\<lambda>_. False) p node)"
  by (induction skip p node rule: walk_tree.induct) auto

lemma walk_bundle_skip: "set (walk_bundle skip b) \<subseteq> set (walk_bundle (\<lambda>_. False) b)"
  by (auto simp: walk_bundle_def dest: subsetD [OF walk_tree_skip])

lemma has_suffix_append [simp]: "has_suffix (p @ q) q"
  by (simp add: has_suffix_def has_prefix_def)

lemma has_suffix_iff: "has_suffix s q \<longleftrightarrow> (\<exists>p. s = p @ q)"
proof
  assume "has_suffix s q"
  then obtain x where "rev s = rev q @ x" by (metis has_suffix_def has_prefix_def append_take_drop_id)
  then show "\<exists>p. s = p @ q" by (metis rev_append rev_rev_ident)
qed auto

lemma walk_tree_suffix: "VisitFile rel name c \<in> set (walk_tree skip p node) \<Longrightarrow> has_suffix rel name"
  by (induction skip p node rule: walk_tree.induct)
    (auto simp: join_path_def has_suffix_iff split: if_splits)

lemma walk_bundle_suffix: "VisitFile rel name c \<in> set (walk_bundle skip b) \<Longrightarrow> has_suffix rel name"
  by (auto simp: walk_bundle_def dest: walk_tree_suffix split: if_splits)

lemma policy_file_suffix:
  assumes "has_suffix rel name" and "policy_file name"
  shows "has_suffix rel ''.rego'' \<or> has_suffix rel ''data.json''"
  using assms unfolding policy_file_def has_suffix_iff by (metis append.assoc)

lemma signatures_no_policy: "\<not> has_suffix signatures_file ''.rego''" "\<not> has_suffix signatures_file ''data.json''"
  by (simp_all add: signatures_file_def has_suffix_def has_prefix_def)

lemma verified_file:
  assumes "verify_files B vs files = Inr rest" and "VisitFile rel name c \<in> set vs"
    and "rel \<noteq> signatures_file" and "policy_file name"
  shows "\<exists>data files'. c = Some data \<and> set files' \<subseteq> set files \<and> bl_verify_file B rel data files'"
  using assms(1,2)
proof (induction B vs files rule: verify_files.induct)
  case (3 B rel' name' content vs files)
  show ?case
  proof (cases "VisitFile rel name c = VisitFile rel' name' content")
    case True
    then show ?thesis using 3(3) assms(3,4) by (auto split: option.splits if_splits)
  next
    case False
    then have mem: "VisitFile rel name c \<in> set vs" using 3(4) by auto
    show ?thesis
    proof (cases "rel' = signatures_file \<or> \<not> policy_file name'")
      case True
      then show ?thesis using 3(1) [OF True _ mem] 3(3) by simp
    next
      case False
      then obtain data where d: "content = Some data" "bl_verify_file B rel' data files"
          "verify_files B vs (AList.delete rel' files) = Inr rest"
        using 3(3) by (auto split: option.splits if_splits)
      from 3(2) [OF False d(1,2,3) mem] show ?thesis by (auto simp: AList.delete_eq)
    qed
  qed
qed simp_all

lemma unsigned_kept:
  assumes "verify_files B vs files = Inr rest" and "x \<in> set files"
    and "\<forall>rel name c. VisitFile rel name c \<in> set vs \<longrightarrow> policy_file name \<longrightarrow> rel \<noteq> fst x"
  shows "x \<in> set rest"
  using assms
proof (induction B vs files rule: verify_files.induct)
  case (3 B rel name content vs files)
  have rest: "\<forall>rel name c. VisitFile rel name c \<in> set vs \<longrightarrow> policy_file name \<longrightarrow> rel \<noteq> fst x" using 3(5) by simp
  show ?case
  proof (cases "rel = signatures_file \<or> \<not> policy_file name")
    case True
    then show ?thesis using 3(1) [OF True _ 3(4) rest] 3(3) by simp
  next
    case False
    then obtain data where d: "content = Some data" "bl_verify_file B rel data files"
        "verify_files B vs (AList.delete rel files) = Inr rest"
      using 3(3) by (auto split: option.splits if_splits)
    have "rel \<noteq> fst x" using 3(5) False by (metis list.set_intros(1))
    then have "x \<in> set (AList.delete rel files)" using 3(4) by (auto simp: AList.delete_eq)
    from 3(2) [OF False d(1,2,3) this rest] show ?thesis .
  qed
qed simp_all

lemma loaded_module:
  assumes "load_files P vs modules data = Some (modules', data')" and "map_of modules' rel = Some m"
  shows "map_of modules rel = Some m
    \<or> (\<exists>name c. VisitFile rel name (Some c) \<in> set vs \<and> has_suffix name ''.rego'' \<and> op_parse_module P rel c = Some m)"
  using assms
proof (induction P vs modules data rule: load_files.induct)
  case (3 P rel' name' content vs modules data)
  consider (rego) c m' where "has_suffix name' ''.rego''" "content = Some c" "op_parse_module P rel' c = Some m'"
      "load_files P vs (AList.update rel' m' modules) data = Some (modules', data')"
    | (other) d where "load_files P vs modules d = Some (modules', data')"
        "\<not> has_suffix name' ''.rego''" "name' = ''data.json'' \<longrightarrow> (\<exists>c doc. content = Some c \<and> op_parse_data P c = Some doc
          \<and> d = fold (\<lambda>(k, v). AList.update k v) doc data)" "name' \<noteq> ''data.json'' \<longrightarrow> d = data"
    using 3(4) by (auto split: if_splits option.splits bind_splits)
  then show ?case
  proof cases
    case (rego c m')
    then have "map_of (AList.update rel' m' modules) rel = Some m \<or> (\<exists>name c. VisitFile rel name (Some c) \<in> set vs
        \<and> has_suffix name ''.rego'' \<and> op_parse_module P rel c = Some m)"
      by (intro 3(1) [OF _ _ _ 3(5)]) simp_all
    then show ?thesis using rego(1-3) by (auto simp: update_conv split: if_splits)
  next
    case (other d)
    then have "map_of modules rel = Some m \<or> (\<exists>name c. VisitFile rel name (Some c) \<in> set vs
        \<and> has_suffix name ''.rego'' \<and> op_parse_module P rel c = Some m)"
      using 3(2,3) 3(5) by (cases "name' = ''data.json''") force+
    then show ?thesis by auto
  qed
qed simp_all


section \<open>Guarantees\<close>

lemma VerifyBundle_None:
  assumes "VerifyBundle B b cfg = None" and "pg_signing_key_file cfg \<noteq> ''''"
  obtains files rest where "signed_files B b cfg = Inr files"
    "verify_files B (walk_bundle (\<lambda>_. False) b) files = Inr rest" "filter (\<lambda>(name, _). name \<noteq> signatures_file) rest = []"
  using assms by (auto simp: VerifyBundle_def split: sum.splits list.splits)

lemma LoadBundle_loaded:
  assumes "LoadBundle P B error_text path (BundleDir b) e trail = (None, e', trail')"
  obtains modules data where "VerifyBundle B b (pe_config e) = None"
    "load_files P (walk_bundle (\<lambda>name. has_prefix name ''..'') b) [] [] = Some (modules, data)"
    "op_compile P modules = pe_compiler e'" "pe_store e' = Some (op_store P data)" "modules \<noteq> []"
  using assms by (auto simp: LoadBundle_def split: option.splits if_splits prod.splits)

text \<open>
  C20. With a signing key configured, the policies in force are signed ones: when a bundle has been loaded,
  its signature list has been verified under that key, and every module that was compiled is the
  parse of a file of the bundle whose contents passed the check against the signed hashes.
\<close>

theorem loaded_policies_signed:
  assumes "LoadBundle P B error_text path (BundleDir b) e trail = (None, e', trail')"
    and "pg_signing_key_file (pe_config e) \<noteq> ''''"
  shows "\<exists>listed modules. signed_files B b (pe_config e) = Inr listed \<and> op_compile P modules = pe_compiler e'
    \<and> (\<forall>rel m. map_of modules rel = Some m \<longrightarrow> (\<exists>name c files'. VisitFile rel name (Some c) \<in> set (walk_bundle (\<lambda>_. False) b)
          \<and> op_parse_module P rel c = Some m \<and> set files' \<subseteq> set listed \<and> bl_verify_file B rel c files'))"
proof -
  obtain modules data where l: "VerifyBundle B b (pe_config e) = None"
      "load_files P (walk_bundle (\<lambda>name. has_prefix name ''..'') b) [] [] = Some (modules, data)"
      "op_compile P modules = pe_compiler e'"
    using assms(1) by (rule LoadBundle_loaded)
  obtain listed rest where v: "signed_files B b (pe_config e) = Inr listed"
      "verify_files B (walk_bundle (\<lambda>_. False) b) listed = Inr rest"
    using l(1) assms(2) by (rule VerifyBundle_None)
  have "\<exists>name c files'. VisitFile rel name (Some c) \<in> set (walk_bundle (\<lambda>_. False) b)
      \<and> op_parse_module P rel c = Some m \<and> set files' \<subseteq> set listed \<and> bl_verify_file B rel c files'"
    if compiled: "map_of modules rel = Some m" for rel m
  proof -
    obtain name c where f: "VisitFile rel name (Some c) \<in> set (walk_bundle (\<lambda>name. has_prefix name ''..'') b)"
        "has_suffix name ''.rego''" "op_parse_module P rel c = Some m"
      using loaded_module [OF l(2) compiled] by auto
    have vis: "VisitFile rel name (Some c) \<in> set (walk_bundle (\<lambda>_. False) b)" using f(1) walk_bundle_skip by blast
    have pol: "policy_file name" using f(2) by (simp add: policy_file_def)
    have "rel \<noteq> signatures_file"
      using policy_file_suffix [OF walk_bundle_suffix [OF vis] pol] signatures_no_policy by blast
    from verified_file [OF v(2) vis this pol] f(3) vis show ?thesis by blast
  qed
  then show ?thesis using v(1) l(3) by blast
qed

text \<open>A load that fails leaves the policies in force as they are.\<close>

lemma LoadBundle_failed: "LoadBundle P B error_text path src e trail = (Some err, e', trail') \<Longrightarrow> e' = e"
  by (auto simp: LoadBundle_def split: bundle_source.splits option.splits if_splits prod.splits)

text \<open>
  No policy, no tokens: a unit none of whose attempts to load a bundle has succeeded issues no token at
  all, whoever asks for it.
\<close>

theorem no_policy_no_tokens:
  assumes "\<forall>(path, src) \<in> set loads. fst (LoadBundle P B error_text path src (New_policy_engine auditor cfg) []) \<noteq> None"
    and "pe = fold (\<lambda>(path, src) x. fst (snd (LoadBundle P B error_text path src x []))) loads (New_policy_engine auditor cfg)"
    and "en_policy e = Evaluate P pe"
  shows "fst (Exchange V e req s) \<noteq> Inr resp"
proof -
  have "fold (\<lambda>(path, src) x. fst (snd (LoadBundle P B error_text path src x []))) loads (New_policy_engine auditor cfg) =
      New_policy_engine auditor cfg"
    using assms(1)
  proof (induction loads)
    case (Cons x loads)
    obtain path src where x: "x = (path, src)" by fastforce
    obtain r e' t where l: "LoadBundle P B error_text path src (New_policy_engine auditor cfg) [] = (r, e', t)"
      by (metis prod.collapse)
    then have "r \<noteq> None" using Cons.prems x by auto
    then obtain err where "r = Some err" by blast
    with l have "e' = New_policy_engine auditor cfg" using LoadBundle_failed [of P B error_text path src _ "[]" err e' t] by simp
    then show ?case using Cons l x by simp
  qed simp
  then have "pe_compiler pe = None" using assms(2) by (simp add: New_policy_engine_def)
  then have "Evaluate P pe input = Inr d \<Longrightarrow> \<not> pd_allowed d" for input d by (auto simp: Evaluate_def)
  then show ?thesis using assms(3) by (auto simp: Exchange_Inr_iff granted_def)
qed

text \<open>
  Signed bundles of a Kubernetes ConfigMap are refused. The files of such a mount live in a directory
  whose name begins with two dots; loading skips it, but verification does not, and finds there policy
  files that no signature lists under that path.
\<close>

theorem configmap_bundle_rejected:
  assumes "pg_signing_key_file (pe_config e) \<noteq> ''''"
    and "signed_files B b (pe_config e) = Inr listed" and "\<And>rel c files. bl_verify_file B rel c files \<Longrightarrow> rel \<in> fst ` set files"
    and "FsDir d nodes \<in> set (bu_nodes b)" and "FsFile n c \<in> set nodes" and "has_suffix n ''.rego''"
    and "d \<noteq> ''''" and "d @ ''/'' @ n \<notin> fst ` set listed"
  shows "\<exists>err. fst (LoadBundle P B error_text path (BundleDir b) e trail) = Some (BundleVerificationFailed err)"
proof -
  have vis: "VisitFile (d @ ''/'' @ n) n c \<in> set (walk_bundle (\<lambda>_. False) b)"
    using assms(4,5,7) by (force simp: walk_bundle_def join_path_def)
  have pol: "policy_file n" using assms(6) by (simp add: policy_file_def)
  have "VerifyBundle B b (pe_config e) \<noteq> None"
  proof
    assume "VerifyBundle B b (pe_config e) = None"
    then obtain files rest where v: "signed_files B b (pe_config e) = Inr files"
        "verify_files B (walk_bundle (\<lambda>_. False) b) files = Inr rest"
      using assms(1) by (rule VerifyBundle_None)
    have "d @ ''/'' @ n \<noteq> signatures_file"
      using policy_file_suffix [OF walk_bundle_suffix [OF vis] pol] signatures_no_policy by metis
    from verified_file [OF v(2) vis this pol] obtain files' where
      "set files' \<subseteq> set files" "d @ ''/'' @ n \<in> fst ` set files'" using assms(3) by blast
    then show False using assms(2,8) v(1) by auto
  qed
  then show ?thesis by (auto simp: LoadBundle_def)
qed

text \<open>
  So are bundles whose signature also covers files that are not policies, such as a manifest: they are never
  checked off, and count as missing although they are there.
\<close>

theorem signed_manifest_rejected:
  assumes "pg_signing_key_file (pe_config e) \<noteq> ''''" and "signed_files B b (pe_config e) = Inr listed"
    and "(n, h) \<in> set listed" and "n \<noteq> signatures_file" and "\<not> has_suffix n ''.rego''" and "\<not> has_suffix n ''data.json''"
  shows "\<exists>err. fst (LoadBundle P B error_text path (BundleDir b) e trail) = Some (BundleVerificationFailed err)"
proof -
  have "VerifyBundle B b (pe_config e) \<noteq> None"
  proof
    assume "VerifyBundle B b (pe_config e) = None"
    then obtain files rest where v: "signed_files B b (pe_config e) = Inr files"
        "verify_files B (walk_bundle (\<lambda>_. False) b) files = Inr rest"
        "filter (\<lambda>(name, _). name \<noteq> signatures_file) rest = []"
      using assms(1) by (rule VerifyBundle_None)
    have "(n, h) \<in> set rest"
    proof (rule unsigned_kept [OF v(2)])
      show "(n, h) \<in> set files" using v(1) assms(2,3) by simp
      show "\<forall>rel name c. VisitFile rel name c \<in> set (walk_bundle (\<lambda>_. False) b) \<longrightarrow> policy_file name \<longrightarrow> rel \<noteq> fst (n, h)"
        using policy_file_suffix walk_bundle_suffix assms(5,6) by (metis fst_conv)
    qed
    then show False using v(3) assms(4) by (auto simp: filter_empty_conv)
  qed
  then show ?thesis by (auto simp: LoadBundle_def)
qed


section \<open>An instance\<close>

text \<open>Signatures list each file with its contents; a module is its text.\<close>

definition demo_bundle_lib :: "(string) \<Rightarrow> ((string, string) gomap, string, string) bundle_lib" where
  "demo_bundle_lib rego = \<lparr>bl_read_key = Some, bl_detect_alg = (\<lambda>k. Some ''ES256''), bl_key_config = (\<lambda>k a. Some k),
     bl_parse_signatures = (\<lambda>x. Some [(''a.rego'', rego)]), bl_verify_signature = (\<lambda>sc k kc. Some sc),
     bl_verify_file = (\<lambda>rel c files. map_of files rel = Some c)\<rparr>"

definition demo_opa :: "(string, string, claims) opa" where
  "demo_opa = \<lparr>op_parse_module = (\<lambda>rel c. Some c), op_parse_data = (\<lambda>c. Some []), op_compile = (\<lambda>m. Some (snd (hd m))),
     op_store = (\<lambda>d. d), op_eval = (\<lambda>c st q i. Inr (Some (JBool True))), op_show_time = (\<lambda>t. JNum (of_int t))\<rparr>"

definition demo_policy_engine :: "(string, claims) policy_engine" where
  "demo_policy_engine = New_policy_engine True \<lparr>pg_bundle_path = ''p'', pg_signing_key_file = ''k'', pg_signing_key_id = ''''\<rparr>"

definition demo_bundle :: "fs_node list \<Rightarrow> bundle_dir" where
  "demo_bundle extra = \<lparr>bu_base = ''p'', bu_nodes = [FsFile ''.signatures.json'' (Some ''s''), FsFile ''a.rego'' (Some ''rule'')] @ extra\<rparr>"

lemma demo_load:
  "LoadBundle demo_opa (demo_bundle_lib ''rule'') (\<lambda>e. '''') ''p'' (BundleDir (demo_bundle [])) demo_policy_engine [] =
     (None, demo_policy_engine\<lparr>pe_compiler := Some ''rule'', pe_store := Some []\<rparr>, [])"
  by code_simp

theorem loaded_policies_signed_witness:
  "\<exists>listed modules. signed_files (demo_bundle_lib ''rule'') (demo_bundle []) (pe_config demo_policy_engine) = Inr listed
     \<and> op_compile demo_opa modules = Some ''rule''"
  using loaded_policies_signed [OF demo_load] by (auto simp: demo_policy_engine_def New_policy_engine_def)

theorem no_policy_no_tokens_witness:
  "\<forall>resp. fst (Exchange (demo_env []) (demo_engine\<lparr>en_policy := Evaluate demo_opa demo_policy_engine\<rparr>)
     (demo_request ''w1'' '''') demo_state) \<noteq> Inr resp"
  by (intro allI no_policy_no_tokens [where loads = "[(''p'', NoBundle)]" and B = "demo_bundle_lib ''rule''" and error_text = "\<lambda>e. ''''"])
    (simp_all add: LoadBundle_def demo_policy_engine_def)

lemma demo_signed: "signed_files (demo_bundle_lib c) (demo_bundle x) (pe_config demo_policy_engine) = Inr [(''a.rego'', c)]"
  by (simp add: signed_files_def demo_bundle_lib_def demo_bundle_def demo_policy_engine_def New_policy_engine_def signatures_file_def)

theorem configmap_bundle_rejected_witness:
  "\<exists>err. fst (LoadBundle demo_opa (demo_bundle_lib ''rule'') (\<lambda>e. '''') ''p''
      (BundleDir (demo_bundle [FsDir ''..2026'' [FsFile ''a.rego'' (Some ''rule'')]])) demo_policy_engine []) =
      Some (BundleVerificationFailed err)"
  by (rule configmap_bundle_rejected [OF _ demo_signed, where d = "''..2026''" and n = "''a.rego''" and
        nodes = "[FsFile ''a.rego'' (Some ''rule'')]" and c = "Some ''rule''"])
    (auto simp: demo_policy_engine_def New_policy_engine_def demo_bundle_lib_def demo_bundle_def has_suffix_def has_prefix_def
      dest: map_of_SomeD intro: rev_image_eqI)

definition demo_manifest_lib :: "((string, string) gomap, string, string) bundle_lib" where
  "demo_manifest_lib = (demo_bundle_lib ''rule'')\<lparr>bl_parse_signatures := (\<lambda>x. Some [(''.manifest'', ''m'')])\<rparr>"

theorem signed_manifest_rejected_witness:
  "\<exists>err. fst (LoadBundle demo_opa demo_manifest_lib (\<lambda>e. '''') ''p'' (BundleDir (demo_bundle [FsFile ''.manifest'' (Some ''m'')]))
      demo_policy_engine []) = Some (BundleVerificationFailed err)"
  by (rule signed_manifest_rejected [where listed = "[(''.manifest'', ''m'')]" and n = "''.manifest''" and h = "''m''"])
    (simp_all add: signed_files_def demo_manifest_lib_def demo_bundle_lib_def demo_bundle_def demo_policy_engine_def
      New_policy_engine_def signatures_file_def has_suffix_def has_prefix_def)

end
