(* ===== verification/Unit_Config.thy ===== *)
theory Unit_Config
  imports Locked_Store Api_Limits Policy_Engine
begin

text \<open>
  \<open>src/pkg/core/config.go\<close>: the configuration of a unit, its defaults, the layers it is loaded from
  (defaults, YAML file, environment) and its validation. YAML decoding over a given configuration,
  the parser of floating-point numbers, file and environment access and the random source are
  parameters.
\<close>

section \<open>The configuration\<close>

record tls_config =
  tlc_enabled :: bool
  tlc_listen_addr :: string
  tlc_cert_file :: string
  tlc_key_file :: string
  tlc_client_ca :: string

record nats_config =
  nac_embedded :: bool
  nac_url :: string
  nac_jetstream_dir :: string

record temporal_config =
  tpc_host_port :: string
  tpc_namespace :: string
  tpc_task_queue :: string

record lifecycle_config =
  lfc_enabled :: bool
  lfc_temporal :: temporal_config

record storage_config =
  stg_type :: string
  stg_path :: string

record federation_peer_config =
  fdp_fabric_id :: string
  fdp_endpoint :: string
  fdp_transport :: string
  fdp_mtls_secret :: string

record unit_config =
  uc_listen_addr :: string
  uc_log_level :: string
  uc_log_format :: string
  uc_dev_mode :: bool
  uc_lock :: lock_config
  uc_storage :: storage_config
  uc_policy :: policy_config
  uc_trust_domains :: "trust_domain list"
  uc_rate_limit :: rate_limit_config
  uc_nats :: nats_config
  uc_federation :: "federation_peer_config list"
  uc_otlp_endpoint :: string
  uc_tls :: tls_config
  uc_lifecycle :: lifecycle_config

definition DefaultConfig :: unit_config where
  "DefaultConfig =
     \<lparr>uc_listen_addr = '':8693'', uc_log_level = ''info'', uc_log_format = ''json'', uc_dev_mode = False,
      uc_lock = \<lparr>lc_type = ''awskms'', lc_awskms = \<lparr>kc_key_id = '''', kc_region = ''''\<rparr>\<rparr>,
      uc_storage = \<lparr>stg_type = ''badger'', stg_path = ''/data/starfly''\<rparr>,
      uc_policy = \<lparr>pg_bundle_path = ''/etc/starfly/policies/'', pg_signing_key_file = '''', pg_signing_key_id = ''''\<rparr>,
      uc_trust_domains = [],
      uc_rate_limit = \<lparr>rl_global_rate = 100, rl_global_burst = 100, rl_per_ip_rate = 10, rl_per_ip_burst = 10, rl_trusted_proxies = []\<rparr>,
      uc_nats = \<lparr>nac_embedded = True, nac_url = '''', nac_jetstream_dir = ''/data/starfly/nats''\<rparr>,
      uc_federation = [], uc_otlp_endpoint = '''',
      uc_tls = \<lparr>tlc_enabled = False, tlc_listen_addr = '':8694'', tlc_cert_file = '''', tlc_key_file = '''', tlc_client_ca = ''''\<rparr>,
      uc_lifecycle = \<lparr>lfc_enabled = False, lfc_temporal = \<lparr>tpc_host_port = '''', tpc_namespace = '''', tpc_task_queue = ''''\<rparr>\<rparr>\<rparr>"

section \<open>Loading\<close>

record config_lib =
  cg_read_file :: "string \<Rightarrow> string option"
  cg_unmarshal :: "string \<Rightarrow> unit_config \<Rightarrow> unit_config option"
  cg_getenv :: "string \<Rightarrow> string"
  cg_parse_float :: "string \<Rightarrow> rat option"

definition envStr :: "config_lib \<Rightarrow> string \<Rightarrow> string \<Rightarrow> string" where
  "envStr G key dest = (if cg_getenv G key \<noteq> '''' then cg_getenv G key else dest)"

definition envBool :: "config_lib \<Rightarrow> string \<Rightarrow> bool \<Rightarrow> bool" where
  "envBool G key dest =
     (let v = cg_getenv G key in if v \<noteq> '''' then equal_fold v ''true'' \<or> v = ''1'' else dest)"

definition envFloat :: "config_lib \<Rightarrow> string \<Rightarrow> rat \<Rightarrow> rat" where
  "envFloat G key dest =
     (let v = cg_getenv G key
      in if v \<noteq> '''' then (case cg_parse_float G v of None \<Rightarrow> dest | Some f \<Rightarrow> f) else dest)"

definition env_tls :: "config_lib \<Rightarrow> tls_config \<Rightarrow> tls_config" where
  "env_tls G t =
     \<lparr>tlc_enabled = envBool G ''STARFLY_TLS_ENABLED'' (tlc_enabled t),
      tlc_listen_addr = envStr G ''STARFLY_TLS_LISTEN_ADDR'' (tlc_listen_addr t),
      tlc_cert_file = envStr G ''STARFLY_TLS_CERT_FILE'' (tlc_cert_file t),
      tlc_key_file = envStr G ''STARFLY_TLS_KEY_FILE'' (tlc_key_file t),
      tlc_client_ca = envStr G ''STARFLY_TLS_CLIENT_CA'' (tlc_client_ca t)\<rparr>"

definition env_nats :: "config_lib \<Rightarrow> nats_config \<Rightarrow> nats_config" where
  "env_nats G n =
     (let url = cg_getenv G ''STARFLY_NATS_URL''
      in \<lparr>nac_embedded = (if url \<noteq> '''' then False else nac_embedded n), nac_url = (if url \<noteq> '''' then url else nac_url n),
          nac_jetstream_dir = envStr G ''STARFLY_NATS_JETSTREAM_DIR'' (nac_jetstream_dir n)\<rparr>)"

definition env_lifecycle :: "config_lib \<Rightarrow> lifecycle_config \<Rightarrow> lifecycle_config" where
  "env_lifecycle G l =
     \<lparr>lfc_enabled = envBool G ''STARFLY_LIFECYCLE_ENABLED'' (lfc_enabled l),
      lfc_temporal =
        \<lparr>tpc_host_port = envStr G ''STARFLY_LIFECYCLE_TEMPORAL_HOST_PORT'' (tpc_host_port (lfc_temporal l)),
         tpc_namespace = envStr G ''STARFLY_LIFECYCLE_TEMPORAL_NAMESPACE'' (tpc_namespace (lfc_temporal l)),
         tpc_task_queue = envStr G ''STARFLY_LIFECYCLE_TEMPORAL_TASK_QUEUE'' (tpc_task_queue (lfc_temporal l))\<rparr>\<rparr>"

definition env_lock :: "config_lib \<Rightarrow> lock_config \<Rightarrow> lock_config" where
  "env_lock G l =
     \<lparr>lc_type = envStr G ''STARFLY_LOCK_TYPE'' (lc_type l),
      lc_awskms = \<lparr>kc_key_id = envStr G ''STARFLY_LOCK_AWSKMS_KEY_ID'' (kc_key_id (lc_awskms l)),
        kc_region = envStr G ''STARFLY_LOCK_AWSKMS_REGION'' (kc_region (lc_awskms l))\<rparr>\<rparr>"

definition env_policy :: "config_lib \<Rightarrow> policy_config \<Rightarrow> policy_config" where
  "env_policy G p =
     \<lparr>pg_bundle_path = envStr G ''STARFLY_POLICY_BUNDLE_PATH'' (pg_bundle_path p),
      pg_signing_key_file = envStr G ''STARFLY_POLICY_SIGNING_KEY_FILE'' (pg_signing_key_file p),
      pg_signing_key_id = envStr G ''STARFLY_POLICY_SIGNING_KEY_ID'' (pg_signing_key_id p)\<rparr>"

definition env_rates :: "config_lib \<Rightarrow> rate_limit_config \<Rightarrow> rate_limit_config" where
  "env_rates G r =
     r\<lparr>rl_global_rate := envFloat G ''STARFLY_RATELIMIT_GLOBAL_RATE'' (rl_global_rate r),
       rl_per_ip_rate := envFloat G ''STARFLY_RATELIMIT_PER_IP_RATE'' (rl_per_ip_rate r)\<rparr>"

definition applyEnv :: "config_lib \<Rightarrow> unit_config \<Rightarrow> unit_config" where
  "applyEnv G cfg =
     cfg\<lparr>uc_listen_addr := envStr G ''STARFLY_LISTEN_ADDR'' (uc_listen_addr cfg),
         uc_log_level := envStr G ''STARFLY_LOG_LEVEL'' (uc_log_level cfg),
         uc_log_format := envStr G ''STARFLY_LOG_FORMAT'' (uc_log_format cfg),
         uc_dev_mode := envBool G ''STARFLY_DEV_MODE'' (uc_dev_mode cfg),
         uc_lock := env_lock G (uc_lock cfg),
         uc_storage := (uc_storage cfg)\<lparr>stg_path := envStr G ''STARFLY_STORAGE_PATH'' (stg_path (uc_storage cfg))\<rparr>,
         uc_policy := env_policy G (uc_policy cfg), uc_rate_limit := env_rates G (uc_rate_limit cfg),
         uc_nats := env_nats G (uc_nats cfg), uc_tls := env_tls G (uc_tls cfg),
         uc_otlp_endpoint := envStr G ''OTEL_EXPORTER_OTLP_ENDPOINT'' (uc_otlp_endpoint cfg),
         uc_lifecycle := env_lifecycle G (uc_lifecycle cfg)\<rparr>"

datatype config_error =
    ReadingConfig
  | ParsingConfig
  | EmptyListenAddr
  | BadLockType string
  | EmptyKmsKeyId
  | EmptyStoragePath
  | EmptyCertFile
  | EmptyKeyFile
  | EmptyClientCA
  | EmptyTlsListenAddr

definition LoadConfig :: "config_lib \<Rightarrow> string \<Rightarrow> config_error + unit_config" where
  "LoadConfig G configPath =
     rbind (if configPath = '''' then Inr DefaultConfig
            else case cg_read_file G configPath of
              None \<Rightarrow> Inl ReadingConfig
            | Some data \<Rightarrow> (case cg_unmarshal G data DefaultConfig of None \<Rightarrow> Inl ParsingConfig | Some cfg \<Rightarrow> Inr cfg)) (\<lambda>cfg.
     Inr (applyEnv G cfg))"

definition validLockTypes :: "string list" where
  "validLockTypes = [''dev'', ''awskms'', ''gcpckms'', ''azurekeyvault'']"

definition Validate_config :: "unit_config \<Rightarrow> config_error option" where
  "Validate_config c =
     (if uc_listen_addr c = '''' then Some EmptyListenAddr
      else if lc_type (uc_lock c) \<notin> set validLockTypes then Some (BadLockType (lc_type (uc_lock c)))
      else if lc_type (uc_lock c) = ''awskms'' \<and> kc_key_id (lc_awskms (uc_lock c)) = '''' then Some EmptyKmsKeyId
      else if stg_path (uc_storage c) = '''' then Some EmptyStoragePath
      else if tlc_enabled (uc_tls c) then
        if tlc_cert_file (uc_tls c) = '''' then Some EmptyCertFile
        else if tlc_key_file (uc_tls c) = '''' then Some EmptyKeyFile
        else if tlc_client_ca (uc_tls c) = '''' then Some EmptyClientCA
        else if tlc_listen_addr (uc_tls c) = '''' then Some EmptyTlsListenAddr
        else None
      else None)"

definition GenerateUnitID :: "string option \<Rightarrow> string" where
  "GenerateUnitID random = (case random of None \<Rightarrow> ''unit-0'' | Some bytes \<Rightarrow> hex_encode bytes)"

section \<open>What validation is worth\<close>

text \<open>
  Whether a validated configuration has a locker: for the development and the KMS types it has one,
  up to the loading of the AWS configuration; for the two other types that validation accepts the factory
  has none, so that the unit cannot start with them.
\<close>

theorem validated_locker:
  assumes "Validate_config c = None"
  shows "(lc_type (uc_lock c) \<in> {''dev'', ''awskms''} \<longrightarrow>
      (\<exists>L. New_locker K (uc_lock c) = Inr L) \<or> New_locker K (uc_lock c) = Inl LoadingAwsConfig)
    \<and> (lc_type (uc_lock c) \<notin> {''dev'', ''awskms''} \<longrightarrow>
      New_locker K (uc_lock c) = Inl (NotYetImplemented (lc_type (uc_lock c))))"
  using assms by (auto simp: Validate_config_def validLockTypes_def New_locker_def NewKMSLocker_def split: if_splits)

lemma Validate_tls:
  assumes "Validate_config c = None" and "tlc_enabled (uc_tls c)"
  shows "tlc_cert_file (uc_tls c) \<noteq> ''''" "tlc_key_file (uc_tls c) \<noteq> ''''" "tlc_client_ca (uc_tls c) \<noteq> ''''"
    "tlc_listen_addr (uc_tls c) \<noteq> ''''"
  using assms by (simp_all add: Validate_config_def split: if_splits)

text \<open>
  A unit with mutual TLS cannot be configured halfway: whatever file and environment say, if the loaded
  configuration is valid and enables TLS, it names certificate, key, client authority and address; and
  an address or key identifier that the environment sets takes precedence over the file.
\<close>

theorem valid_tls_complete:
  assumes "LoadConfig G path = Inr c" and "Validate_config c = None" and "tlc_enabled (uc_tls c)"
  shows "tlc_cert_file (uc_tls c) \<noteq> '''' \<and> tlc_key_file (uc_tls c) \<noteq> '''' \<and> tlc_client_ca (uc_tls c) \<noteq> ''''
    \<and> tlc_listen_addr (uc_tls c) \<noteq> ''''
    \<and> (cg_getenv G ''STARFLY_TLS_LISTEN_ADDR'' \<noteq> '''' \<longrightarrow> tlc_listen_addr (uc_tls c) = cg_getenv G ''STARFLY_TLS_LISTEN_ADDR'')
    \<and> (cg_getenv G ''STARFLY_LOCK_AWSKMS_KEY_ID'' \<noteq> '''' \<longrightarrow>
         kc_key_id (lc_awskms (uc_lock c)) = cg_getenv G ''STARFLY_LOCK_AWSKMS_KEY_ID'')"
proof -
  obtain base where c: "c = applyEnv G base" using assms(1) by (auto simp: LoadConfig_def rbind_Inr_iff)
  have "tlc_listen_addr (uc_tls c) = envStr G ''STARFLY_TLS_LISTEN_ADDR'' (tlc_listen_addr (uc_tls base))"
    "kc_key_id (lc_awskms (uc_lock c)) = envStr G ''STARFLY_LOCK_AWSKMS_KEY_ID'' (kc_key_id (lc_awskms (uc_lock base)))"
    by (simp_all add: c applyEnv_def env_tls_def env_lock_def)
  then show ?thesis using Validate_tls [OF assms(2,3)] by (simp add: envStr_def)
qed

text \<open>
  The defaults alone are not a configuration: they name the KMS type without a key. A unit configured
  by nothing but a key identifier in the environment is valid, has no mutual TLS, verifies no policy
  signature, and believes every \<open>X-Forwarded-For\<close> header.
\<close>

theorem defaults_with_key:
  assumes "cg_getenv G = (\<lambda>k. if k = ''STARFLY_LOCK_AWSKMS_KEY_ID'' then kid else '''')" and "LoadConfig G '''' = Inr c"
  shows "(Validate_config c = None \<longleftrightarrow> kid \<noteq> '''') \<and> \<not> tlc_enabled (uc_tls c)
    \<and> VerifyBundle B b (uc_policy c) = None \<and> clientIPWith P r (parseTrustedProxies P (rl_trusted_proxies (uc_rate_limit c))) =
        (if forwarded_for r \<noteq> '''' then forwarded_for r else remoteHost P r)"
proof -
  have c: "c = applyEnv G DefaultConfig" using assms(2) by (simp add: LoadConfig_def rbind_def)
  show ?thesis
    by (simp add: c applyEnv_def DefaultConfig_def assms(1) envStr_def envBool_def envFloat_def env_lock_def env_policy_def
        env_rates_def env_tls_def Validate_config_def validLockTypes_def VerifyBundle_def parseTrustedProxies_def
        clientIPWith_def List.map_filter_simps Let_def)
qed

section \<open>An instance\<close>

definition demo_config_lib :: "string \<Rightarrow> config_lib" where
  "demo_config_lib kid = \<lparr>cg_read_file = (\<lambda>p. Some ''yaml''),
     cg_unmarshal = (\<lambda>d c. Some (c\<lparr>uc_tls := \<lparr>tlc_enabled = True, tlc_listen_addr = '':1'', tlc_cert_file = ''c'', tlc_key_file = ''k'',
       tlc_client_ca = ''a''\<rparr>\<rparr>)),
     cg_getenv = (\<lambda>k. if k = ''STARFLY_LOCK_AWSKMS_KEY_ID'' then kid else ''''), cg_parse_float = (\<lambda>s. None)\<rparr>"

theorem validated_locker_witness:
  "New_locker K \<lparr>lc_type = ''gcpckms'', lc_awskms = \<lparr>kc_key_id = '''', kc_region = ''''\<rparr>\<rparr> = Inl (NotYetImplemented ''gcpckms'')"
proof -
  have "Validate_config (DefaultConfig\<lparr>uc_lock := \<lparr>lc_type = ''gcpckms'', lc_awskms = \<lparr>kc_key_id = '''', kc_region = ''''\<rparr>\<rparr>\<rparr>) = None"
    by code_simp
  from validated_locker [OF this, of K] show ?thesis by simp
qed

theorem valid_tls_complete_witness:
  "kc_key_id (lc_awskms (uc_lock (projr (LoadConfig (demo_config_lib ''arn'') ''f'')))) = ''arn''"
proof -
  have load: "LoadConfig (demo_config_lib ''arn'') ''f'' = Inr (projr (LoadConfig (demo_config_lib ''arn'') ''f''))"
    by (simp add: LoadConfig_def rbind_def demo_config_lib_def)
  have "Validate_config (projr (LoadConfig (demo_config_lib ''arn'') ''f'')) = None"
    "tlc_enabled (uc_tls (projr (LoadConfig (demo_config_lib ''arn'') ''f'')))"
    "cg_getenv (demo_config_lib ''arn'') ''STARFLY_LOCK_AWSKMS_KEY_ID'' = ''arn''"
    by code_simp+
  with valid_tls_complete [OF load] show ?thesis by simp
qed

theorem defaults_with_key_witness:
  "Validate_config (projr (LoadConfig (demo_config_lib ''arn'') '''')) = None"
proof -
  have load: "LoadConfig (demo_config_lib ''arn'') '''' = Inr (projr (LoadConfig (demo_config_lib ''arn'') ''''))"
    by (simp add: LoadConfig_def rbind_def)
  have "cg_getenv (demo_config_lib ''arn'') = (\<lambda>k. if k = ''STARFLY_LOCK_AWSKMS_KEY_ID'' then ''arn'' else '''')"
    by (simp add: demo_config_lib_def)
  from conjunct1 [OF defaults_with_key [OF this load]] show ?thesis by simp
qed

end
