(* ===== verification/Agent_Sidecar.thy ===== *)
theory Agent_Sidecar
  imports Api_Exchange Api_Limits Identity_Credentials
begin

text \<open>
  \<open>src/pkg/agent\<close>: the side-car that gathers attestations of a workload, exchanges them for a token at a
  unit, and keeps a token file fresh. The world of the agent (file system, environment, HTTP round
  trips, JSON, SHA-256, the clock) is a parameter. One record of it stands for one call of an attestor:
  an attestor is asked twice, whether it is available and then for its attestation, and what it
  sees may change in between. Metrics and logging are left out.
\<close>

section \<open>Results\<close>

record attestation_result =
  ar_source :: string
  ar_credential :: "string option"
  ar_cred_type :: string
  ar_hardware :: "server_attest_hardware option"
  ar_metadata :: "(string, string) gomap"

record attestation_bundle =
  ab_platform :: "attestation_result option"
  ab_hardware :: "attestation_result list"
  ab_workload :: server_attest_workload
  ab_agent_version :: string
  ab_timestamp :: go_time

record exchange_result =
  xr_access_token :: string
  xr_expires_in :: int
  xr_issued_at :: go_time

datatype attest_error =
    ReadingFile string
  | RequestFailed string
  | BadStatus int
  | BadDocument string
  | NoExecutable

section \<open>Attestors\<close>

text \<open>\<open>None\<close> for a round trip that fails, and for a body whose reading fails.\<close>

record agent_env =
  aq_file :: "string \<Rightarrow> string option"
  aq_exists :: "string \<Rightarrow> bool"
  aq_getenv :: "string \<Rightarrow> string"
  aq_executable :: "string option"
  aq_sha256_hex :: "string \<Rightarrow> string"
  aq_http :: "string \<Rightarrow> string \<Rightarrow> (string \<times> string) list \<Rightarrow> (int \<times> string option) option"
  aq_aws_document :: "string \<Rightarrow> (string \<times> string \<times> string \<times> string) option"
  aq_azure_token :: "string \<Rightarrow> string option"
  aq_azure_instance :: "string \<Rightarrow> (string \<times> string \<times> string \<times> string) option"

record attestor =
  at_name :: string
  at_available :: bool
  at_attest :: "attest_error + attestation_result"

definition limited :: "nat \<Rightarrow> string \<Rightarrow> string" where
  "limited n b = (if n < length b then take n b else b)"

text \<open>The requests to metadata services: send, read at most \<open>limit\<close> bytes, require status 200.\<close>

definition metadata_request ::
  "agent_env \<Rightarrow> nat \<Rightarrow> string \<Rightarrow> string \<Rightarrow> (string \<times> string) list \<Rightarrow> attest_error + string" where
  "metadata_request E limit verb url headers =
     (case aq_http E verb url headers of
        None \<Rightarrow> Inl (RequestFailed url)
      | Some (_, None) \<Rightarrow> Inl (RequestFailed url)
      | Some (status, Some body) \<Rightarrow> if status \<noteq> 200 then Inl (BadStatus status) else Inr (limited limit body))"

subsection \<open>Kubernetes\<close>

record k8s_attestor =
  ka_token_path :: string
  ka_namespace_path :: string

definition NewK8sAttestor :: "string \<Rightarrow> string \<Rightarrow> k8s_attestor" where
  "NewK8sAttestor tokenPath namespacePath =
     \<lparr>ka_token_path = (if tokenPath = '''' then ''/var/run/secrets/kubernetes.io/serviceaccount/token'' else tokenPath),
      ka_namespace_path =
        (if namespacePath = '''' then ''/var/run/secrets/kubernetes.io/serviceaccount/namespace'' else namespacePath)\<rparr>"

definition opt_entry :: "string \<Rightarrow> string option \<Rightarrow> (string, string) gomap" where
  "opt_entry k v = (case v of None \<Rightarrow> [] | Some x \<Rightarrow> [(k, x)])"

definition env_entry :: "agent_env \<Rightarrow> string \<Rightarrow> string \<Rightarrow> (string, string) gomap" where
  "env_entry E k var = (if aq_getenv E var \<noteq> '''' then [(k, aq_getenv E var)] else [])"

definition k8s_Attest :: "agent_env \<Rightarrow> k8s_attestor \<Rightarrow> attest_error + attestation_result" where
  "k8s_Attest E k =
     (case aq_file E (ka_token_path k) of
        None \<Rightarrow> Inl (ReadingFile (ka_token_path k))
      | Some token \<Rightarrow>
          Inr \<lparr>ar_source = ''k8s-sa'', ar_credential = Some token, ar_cred_type = ''urn:ietf:params:oauth:token-type:jwt'',
               ar_hardware = None,
               ar_metadata = opt_entry ''namespace'' (map_option trim_space (aq_file E (ka_namespace_path k)))
                 @ env_entry E ''pod_name'' ''POD_NAME'' @ env_entry E ''node_name'' ''NODE_NAME''\<rparr>)"

definition k8s_attestor_of :: "agent_env \<Rightarrow> agent_env \<Rightarrow> k8s_attestor \<Rightarrow> attestor" where
  "k8s_attestor_of E1 E2 k =
     \<lparr>at_name = ''k8s-sa'', at_available = aq_exists E1 (ka_token_path k), at_attest = k8s_Attest E2 k\<rparr>"

subsection \<open>AWS\<close>

definition NewAWSAttestor :: "string \<Rightarrow> string" where
  "NewAWSAttestor endpoint = (if endpoint = '''' then ''http://169.254.169.254'' else endpoint)"

definition aws_getToken :: "agent_env \<Rightarrow> string \<Rightarrow> attest_error + string" where
  "aws_getToken E endpoint =
     metadata_request E 1024 ''PUT'' (endpoint @ ''/latest/api/token'') [(''X-aws-ec2-metadata-token-ttl-seconds'', ''21600'')]"

definition aws_Attest :: "agent_env \<Rightarrow> string \<Rightarrow> attest_error + attestation_result" where
  "aws_Attest E endpoint =
     rbind (aws_getToken E endpoint) (\<lambda>token.
     rbind (metadata_request E 65536 ''GET'' (endpoint @ ''/latest/dynamic/instance-identity/document'')
              [(''X-aws-ec2-metadata-token'', token)]) (\<lambda>body.
     case aq_aws_document E body of
       None \<Rightarrow> Inl (BadDocument ''identity document'')
     | Some (accountID, instanceID, region, instanceType) \<Rightarrow>
         Inr \<lparr>ar_source = ''aws-imds'', ar_credential = Some body, ar_cred_type = ''urn:starfly:token-type:aws-sts'',
              ar_hardware = None,
              ar_metadata = [(''account_id'', accountID), (''instance_id'', instanceID), (''region'', region),
                (''instance_type'', instanceType)]\<rparr>))"

definition succeeded :: "'e + 'a \<Rightarrow> bool" where
  "succeeded r = (case r of Inl _ \<Rightarrow> False | Inr _ \<Rightarrow> True)"

definition aws_attestor_of :: "agent_env \<Rightarrow> agent_env \<Rightarrow> string \<Rightarrow> attestor" where
  "aws_attestor_of E1 E2 endpoint =
     \<lparr>at_name = ''aws-imds'', at_available = succeeded (aws_getToken E1 endpoint), at_attest = aws_Attest E2 endpoint\<rparr>"

subsection \<open>Google\<close>

record gcp_attestor =
  ga_endpoint :: string
  ga_audience :: string

definition NewGCPAttestor :: "string \<Rightarrow> string \<Rightarrow> gcp_attestor" where
  "NewGCPAttestor endpoint audience =
     \<lparr>ga_endpoint = (if endpoint = '''' then ''http://metadata.google.internal'' else endpoint), ga_audience = audience\<rparr>"

definition gcp_getMetadata :: "agent_env \<Rightarrow> gcp_attestor \<Rightarrow> string \<Rightarrow> attest_error + string" where
  "gcp_getMetadata E g path =
     rbind (metadata_request E 65536 ''GET'' (ga_endpoint g @ path) [(''Metadata-Flavor'', ''Google'')]) (\<lambda>body.
     Inr (trim_space body))"

definition gcp_entry ::
  "agent_env \<Rightarrow> gcp_attestor \<Rightarrow> string \<Rightarrow> string \<Rightarrow> (string \<Rightarrow> string) \<Rightarrow> (string, string) gomap" where
  "gcp_entry E g k path f = (case gcp_getMetadata E g path of Inl _ \<Rightarrow> [] | Inr v \<Rightarrow> [(k, f v)])"

definition gcp_Attest :: "agent_env \<Rightarrow> gcp_attestor \<Rightarrow> attest_error + attestation_result" where
  "gcp_Attest E g =
     rbind (gcp_getMetadata E g (''/computeMetadata/v1/instance/service-accounts/default/identity?audience='' @ ga_audience g
              @ ''&format=full'')) (\<lambda>token.
     Inr \<lparr>ar_source = ''gcp-metadata'', ar_credential = Some token, ar_cred_type = ''urn:starfly:token-type:gcp-wif'',
          ar_hardware = None,
          ar_metadata = gcp_entry E g ''project_id'' ''/computeMetadata/v1/project/project-id'' id
            @ gcp_entry E g ''zone'' ''/computeMetadata/v1/instance/zone'' (\<lambda>zone. last (split_on (CHR ''/'') zone))
            @ gcp_entry E g ''instance_name'' ''/computeMetadata/v1/instance/name'' id
            @ gcp_entry E g ''service_account'' ''/computeMetadata/v1/instance/service-accounts/default/email'' id\<rparr>)"

definition gcp_attestor_of :: "agent_env \<Rightarrow> agent_env \<Rightarrow> gcp_attestor \<Rightarrow> attestor" where
  "gcp_attestor_of E1 E2 g =
     \<lparr>at_name = ''gcp-metadata'', at_available = succeeded (gcp_getMetadata E1 g ''/computeMetadata/v1/project/project-id''),
      at_attest = gcp_Attest E2 g\<rparr>"

subsection \<open>Azure\<close>

record azure_attestor =
  za_endpoint :: string
  za_resource :: string

definition NewAzureAttestor :: "string \<Rightarrow> string \<Rightarrow> azure_attestor" where
  "NewAzureAttestor endpoint resource =
     \<lparr>za_endpoint = (if endpoint = '''' then ''http://169.254.169.254'' else endpoint),
      za_resource = (if resource = '''' then ''https://management.azure.com/'' else resource)\<rparr>"

definition azure_instance_url :: "azure_attestor \<Rightarrow> string" where
  "azure_instance_url a = za_endpoint a @ ''/metadata/instance?api-version=2021-02-01''"

text \<open>The availability check looks at the status only and does not read the body.\<close>

definition azure_Available :: "agent_env \<Rightarrow> azure_attestor \<Rightarrow> bool" where
  "azure_Available E a =
     (case aq_http E ''GET'' (azure_instance_url a) [(''Metadata'', ''true'')] of
        None \<Rightarrow> False | Some (status, _) \<Rightarrow> status = 200)"

definition getAzureToken :: "agent_env \<Rightarrow> string \<Rightarrow> attest_error + string" where
  "getAzureToken E url =
     rbind (metadata_request E 65536 ''GET'' url [(''Metadata'', ''true'')]) (\<lambda>body.
     case aq_azure_token E body of None \<Rightarrow> Inl (BadDocument ''token response'') | Some token \<Rightarrow> Inr token)"

definition getInstanceMetadata :: "agent_env \<Rightarrow> azure_attestor \<Rightarrow> attest_error + (string, string) gomap" where
  "getInstanceMetadata E a =
     rbind (metadata_request E 65536 ''GET'' (azure_instance_url a) [(''Metadata'', ''true'')]) (\<lambda>body.
     case aq_azure_instance E body of
       None \<Rightarrow> Inl (BadDocument ''instance metadata'')
     | Some (subscriptionID, resourceGroup, name, location) \<Rightarrow>
         Inr [(''subscription_id'', subscriptionID), (''resource_group'', resourceGroup), (''vm_name'', name),
              (''location'', location)])"

definition azure_Attest :: "agent_env \<Rightarrow> azure_attestor \<Rightarrow> attest_error + attestation_result" where
  "azure_Attest E a =
     rbind (getAzureToken E (za_endpoint a @ ''/metadata/identity/oauth2/token?api-version=2021-02-01&resource=''
              @ za_resource a)) (\<lambda>token.
     rbind (getInstanceMetadata E a) (\<lambda>metadata.
     Inr \<lparr>ar_source = ''azure-imds'', ar_credential = Some token, ar_cred_type = ''urn:starfly:token-type:azure-mi'',
          ar_hardware = None, ar_metadata = metadata\<rparr>))"

definition azure_attestor_of :: "agent_env \<Rightarrow> agent_env \<Rightarrow> azure_attestor \<Rightarrow> attestor" where
  "azure_attestor_of E1 E2 a =
     \<lparr>at_name = ''azure-imds'', at_available = azure_Available E1 a, at_attest = azure_Attest E2 a\<rparr>"

subsection \<open>The binary\<close>

definition hashFile :: "agent_env \<Rightarrow> string \<Rightarrow> attest_error + string" where
  "hashFile E path =
     (case aq_file E path of None \<Rightarrow> Inl (ReadingFile path) | Some content \<Rightarrow> Inr (aq_sha256_hex E content))"

definition binary_Attest :: "agent_env \<Rightarrow> string \<Rightarrow> attest_error + attestation_result" where
  "binary_Attest E execPath =
     rbind (if execPath = '''' then (case aq_executable E of None \<Rightarrow> Inl NoExecutable | Some path \<Rightarrow> Inr path)
            else Inr execPath) (\<lambda>path.
     rbind (hashFile E path) (\<lambda>hash.
     Inr \<lparr>ar_source = ''binary-self'', ar_credential = None, ar_cred_type = '''', ar_hardware = None,
          ar_metadata = [(''binary_hash'', ''sha256:'' @ hash)]\<rparr>))"

definition binary_attestor_of :: "agent_env \<Rightarrow> string \<Rightarrow> attestor" where
  "binary_attestor_of E execPath = \<lparr>at_name = ''binary-self'', at_available = True, at_attest = binary_Attest E execPath\<rparr>"

text \<open>The attestors that \<open>New\<close> discovers, in its order.\<close>

definition default_attestors :: "agent_env \<Rightarrow> agent_env \<Rightarrow> string \<Rightarrow> attestor list" where
  "default_attestors E1 E2 audience =
     [k8s_attestor_of E1 E2 (NewK8sAttestor '''' ''''), aws_attestor_of E1 E2 (NewAWSAttestor ''''),
      gcp_attestor_of E1 E2 (NewGCPAttestor '''' audience), azure_attestor_of E1 E2 (NewAzureAttestor '''' ''''),
      binary_attestor_of E2 '''']"

section \<open>The bundle\<close>

datatype sidecar_error =
    AttestorFailed string attest_error
  | NoPlatformCredential
  | MarshalingRequest
  | CreatingRequest
  | BuildingHeader
  | ExchangeUnreachable
  | ReadingResponse
  | ExchangeRefused int string string
  | ExchangeFailed int string
  | DecodingResponse

definition note_metadata :: "(string, string) gomap \<Rightarrow> server_attest_workload \<Rightarrow> server_attest_workload" where
  "note_metadata md w =
     (let get = (\<lambda>k old. case map_of md k of None \<Rightarrow> old | Some v \<Rightarrow> v)
      in w\<lparr>aw_binary_hash := get ''binary_hash'' (aw_binary_hash w), aw_namespace := get ''namespace'' (aw_namespace w),
           aw_pod_name := get ''pod_name'' (aw_pod_name w), aw_node_name := get ''node_name'' (aw_node_name w),
           aw_image_digest := get ''image_digest'' (aw_image_digest w)\<rparr>)"

definition add_result :: "attestation_result \<Rightarrow> attestation_bundle \<Rightarrow> attestation_bundle" where
  "add_result result bundle =
     (if ar_hardware result \<noteq> None then bundle\<lparr>ab_hardware := ab_hardware bundle @ [result]\<rparr>
      else bundle\<lparr>ab_platform := (if ar_credential result \<noteq> None \<and> ab_platform bundle = None then Some result
                                 else ab_platform bundle),
                  ab_workload := note_metadata (ar_metadata result) (ab_workload bundle)\<rparr>)"

fun gather :: "attestor list \<Rightarrow> attestation_bundle \<Rightarrow> sidecar_error + attestation_bundle" where
  "gather [] bundle = Inr bundle"
| "gather (a # rest) bundle =
     (if \<not> at_available a then gather rest bundle
      else case at_attest a of
        Inl e \<Rightarrow> Inl (AttestorFailed (at_name a) e)
      | Inr result \<Rightarrow> gather rest (add_result result bundle))"

definition new_bundle :: "int \<Rightarrow> go_time \<Rightarrow> string \<Rightarrow> attestation_bundle" where
  "new_bundle pid now agentVersion =
     \<lparr>ab_platform = None, ab_hardware = [],
      ab_workload = \<lparr>aw_pid = pid, aw_binary_hash = '''', aw_image_digest = '''', aw_namespace = '''', aw_pod_name = '''',
        aw_node_name = '''', aw_labels = []\<rparr>,
      ab_agent_version = agentVersion, ab_timestamp = now\<rparr>"

definition BundleAttestations :: "int \<Rightarrow> go_time \<Rightarrow> attestor list \<Rightarrow> string \<Rightarrow> sidecar_error + attestation_bundle" where
  "BundleAttestations pid now attestors agentVersion =
     rbind (gather attestors (new_bundle pid now agentVersion)) (\<lambda>bundle.
     if ab_platform bundle = None then Inl NoPlatformCredential else Inr bundle)"

section \<open>The exchange client\<close>

record exchange_client_config =
  xk_server_url :: string
  xk_audience :: string
  xk_scope :: string
  xk_ca_cert_path :: string
  xk_timeout :: duration

text \<open>\<open>xc_root_cas\<close> is the PEM text of the pool; without one the system's roots are used.\<close>

record exchange_client =
  xc_server_url :: string
  xc_audience :: string
  xc_scope :: string
  xc_timeout :: duration
  xc_root_cas :: "string option"

datatype client_error =
    ReadingCACert string
  | ParsingCACert string

definition NewExchangeClient ::
  "(string \<Rightarrow> string option) \<Rightarrow> (string \<Rightarrow> bool) \<Rightarrow> exchange_client_config \<Rightarrow> client_error + exchange_client" where
  "NewExchangeClient read_file pem_ok cfg =
     (let timeout = (if xk_timeout cfg = 0 then 5 * go_second else xk_timeout cfg);
          client = (\<lambda>roots. \<lparr>xc_server_url = xk_server_url cfg, xc_audience = xk_audience cfg, xc_scope = xk_scope cfg,
            xc_timeout = timeout, xc_root_cas = roots\<rparr>)
      in if xk_ca_cert_path cfg = '''' then Inr (client None)
         else case read_file (xk_ca_cert_path cfg) of
           None \<Rightarrow> Inl (ReadingCACert (xk_ca_cert_path cfg))
         | Some caCert \<Rightarrow>
             if \<not> pem_ok caCert then Inl (ParsingCACert (xk_ca_cert_path cfg)) else Inr (client (Some caCert)))"

record sidecar_request =
  tkq_grant_type :: string
  tkq_subject_token :: string
  tkq_subject_token_type :: string
  tkq_audience :: string
  tkq_scope :: string

record sidecar_response =
  tkp_access_token :: string
  tkp_expires_in :: int
  tkp_error :: string
  tkp_error_desc :: string

text \<open>
  Encoding and decoding of JSON. \<open>sc_response\<close> returns what the struct holds after decoding, and
  whether decoding succeeded: the code reads it in both cases.
\<close>

record sidecar_codec =
  sc_request :: "sidecar_request \<Rightarrow> string option"
  sc_header :: "server_attestation \<Rightarrow> string option"
  sc_response :: "string \<Rightarrow> sidecar_response \<times> bool"
  sc_url_ok :: "string \<Rightarrow> bool"

text \<open>
  The header has the JSON form of the server's \<open>ServerAttestation\<close>; an empty metadata map is omitted
  from it.
\<close>

definition attestation_header :: "attestation_result \<Rightarrow> attestation_bundle \<Rightarrow> server_attestation" where
  "attestation_header platform bundle =
     \<lparr>att_platform = \<lparr>ap_source = ar_source platform, ap_cred_type = ar_cred_type platform,
        ap_metadata = (if ar_metadata platform = [] then None else Some (ar_metadata platform))\<rparr>,
      att_hardware = List.map_filter ar_hardware (ab_hardware bundle), att_workload = Some (ab_workload bundle),
      att_agent_version = ab_agent_version bundle, att_timestamp = ab_timestamp bundle\<rparr>"

definition buildAttestationHeader :: "sidecar_codec \<Rightarrow> attestation_result \<Rightarrow> attestation_bundle \<Rightarrow> string option" where
  "buildAttestationHeader C platform bundle = sc_header C (attestation_header platform bundle)"

definition sidecar_request_of :: "exchange_client \<Rightarrow> attestation_result \<Rightarrow> sidecar_request" where
  "sidecar_request_of c platform =
     \<lparr>tkq_grant_type = ''urn:ietf:params:oauth:grant-type:token-exchange'',
      tkq_subject_token = (case ar_credential platform of None \<Rightarrow> '''' | Some cred \<Rightarrow> cred),
      tkq_subject_token_type = ar_cred_type platform, tkq_audience = xc_audience c, tkq_scope = xc_scope c\<rparr>"

definition sidecar_post :: "string \<Rightarrow> string \<Rightarrow> http_request" where
  "sidecar_post body attestHeader =
     \<lparr>hq_method = ''POST'', hq_path = ''/v1/exchange/token'',
      hq_headers = [(''Content-Type'', ''application/json''), (''X-Starfly-Attestation'', attestHeader)],
      hq_body = Body body, hq_remote_addr = ''''\<rparr>"

text \<open>What the client makes of status and body of the answer.\<close>

definition read_answer ::
  "sidecar_codec \<Rightarrow> go_time \<Rightarrow> (int \<times> string option) option \<Rightarrow> sidecar_error + exchange_result" where
  "read_answer C now answer =
     (case answer of
        None \<Rightarrow> Inl ExchangeUnreachable
      | Some (_, None) \<Rightarrow> Inl ReadingResponse
      | Some (status, Some full) \<Rightarrow>
          let respBody = limited 1048576 full
          in if status \<noteq> 200
             then let errResp = fst (sc_response C respBody)
                  in if tkp_error errResp \<noteq> '''' then Inl (ExchangeRefused status (tkp_error errResp) (tkp_error_desc errResp))
                     else Inl (ExchangeFailed status respBody)
             else case sc_response C respBody of
                    (_, False) \<Rightarrow> Inl DecodingResponse
                  | (resp, True) \<Rightarrow>
                      Inr \<lparr>xr_access_token = tkp_access_token resp, xr_expires_in = tkp_expires_in resp, xr_issued_at = now\<rparr>)"

text \<open>\<open>send\<close> is the round trip to the unit, whose state it may change.\<close>

definition client_Exchange ::
  "sidecar_codec \<Rightarrow> (string \<Rightarrow> http_request \<Rightarrow> 's \<Rightarrow> (int \<times> string option) option \<times> 's) \<Rightarrow> go_time \<Rightarrow> exchange_client
   \<Rightarrow> attestation_bundle \<Rightarrow> 's \<Rightarrow> (sidecar_error + exchange_result) \<times> 's" where
  "client_Exchange C send now c bundle s =
     (case ab_platform bundle of
        None \<Rightarrow> (Inl NoPlatformCredential, s)
      | Some platform \<Rightarrow>
          case sc_request C (sidecar_request_of c platform) of
            None \<Rightarrow> (Inl MarshalingRequest, s)
          | Some body \<Rightarrow>
              let url = xc_server_url c @ ''/v1/exchange/token''
              in if \<not> sc_url_ok C url then (Inl CreatingRequest, s)
                 else case buildAttestationHeader C platform bundle of
                   None \<Rightarrow> (Inl BuildingHeader, s)
                 | Some attestHeader \<Rightarrow>
                     case send url (sidecar_post body attestHeader) s of
                       (answer, s') \<Rightarrow> (read_answer C now answer, s'))"

definition exchangeOnce ::
  "sidecar_codec \<Rightarrow> (string \<Rightarrow> http_request \<Rightarrow> 's \<Rightarrow> (int \<times> string option) option \<times> 's) \<Rightarrow> int \<Rightarrow> go_time \<Rightarrow> go_time
   \<Rightarrow> attestor list \<Rightarrow> string \<Rightarrow> exchange_client \<Rightarrow> 's \<Rightarrow> (sidecar_error + exchange_result) \<times> 's" where
  "exchangeOnce C send pid now1 now2 attestors version c s =
     (case BundleAttestations pid now1 attestors version of
        Inl e \<Rightarrow> (Inl e, s)
      | Inr bundle \<Rightarrow> client_Exchange C send now2 c bundle s)"

section \<open>Renewal\<close>

record renewer =
  rn_ratio :: rat
  rn_backoff_delays :: "duration list"

definition NewRenewer :: "rat \<Rightarrow> duration list \<Rightarrow> renewer" where
  "NewRenewer refreshRatio backoffDelays =
     \<lparr>rn_ratio = (if refreshRatio \<le> 0 \<or> 1 \<le> refreshRatio then 4 / 5 else refreshRatio), rn_backoff_delays = backoffDelays\<rparr>"

definition backoff_delays :: "renewer \<Rightarrow> duration list" where
  "backoff_delays r =
     (if rn_backoff_delays r = [] then map (\<lambda>n. n * go_second) [1, 2, 4, 8, 16, 30] else rn_backoff_delays r)"

text \<open>
  The multiplication by \<open>time.Second\<close> wraps at 64 bits; the product with the ratio is taken exactly
  and truncated.
\<close>

definition renewal_wait :: "renewer \<Rightarrow> int \<Rightarrow> duration" where
  "renewal_wait r expiresIn = float_to_int (of_int (sint (word_of_int (expiresIn * go_second) :: 64 word)) * rn_ratio r)"

text \<open>
  The loop over the outcomes of the exchanges it makes, in their order, until the context is
  cancelled, which is the end of the list.
\<close>

type_synonym outcomes = "(sidecar_error + exchange_result) list"

datatype renewer_event =
    Attempted
  | Waited duration
  | Served string

datatype backoff_end = BackoffDone | BackoffExhausted | BackoffCancelled

fun backoff :: "duration list \<Rightarrow> outcomes \<Rightarrow> backoff_end \<times> renewer_event list \<times> outcomes" where
  "backoff [] os = (BackoffExhausted, [], os)"
| "backoff (d # ds) [] = (BackoffCancelled, [], [])"
| "backoff (d # ds) (Inr _ # os) = (BackoffDone, [Waited d, Attempted], os)"
| "backoff (d # ds) (Inl _ # os) =
     (case backoff ds os of (ending, evs, rest) \<Rightarrow> (ending, Waited d # Attempted # evs, rest))"

lemma backoff_rest: "backoff ds os = (ending, evs, rest) \<Longrightarrow> length rest \<le> length os"
  by (induction ds os arbitrary: ending evs rest rule: backoff.induct) (auto split: prod.splits simp: le_SucI)

text \<open>\<open>update\<close> says whether the token server takes a token; the result is whether \<open>Run\<close> ends with an error.\<close>

function renewer_Run :: "renewer \<Rightarrow> (string \<Rightarrow> bool) \<Rightarrow> outcomes \<Rightarrow> renewer_event list \<times> bool" where
  "renewer_Run r update [] = ([], False)"
| "renewer_Run r update (Inl _ # os) =
     (case backoff (backoff_delays r) os of
        (ending, evs, rest) \<Rightarrow>
          if ending = BackoffCancelled then (Attempted # evs, False)
          else case renewer_Run r update rest of (evs', failed) \<Rightarrow> (Attempted # evs @ evs', failed))"
| "renewer_Run r update (Inr result # os) =
     (if \<not> update (xr_access_token result) then ([Attempted], True)
      else case renewer_Run r update os of
        (evs, failed) \<Rightarrow>
          (Attempted # Served (xr_access_token result) # Waited (renewal_wait r (xr_expires_in result)) # evs, failed))"
  by pat_completeness auto

termination
  by (relation "measure (\<lambda>(_, _, os). length os)") (auto dest: backoff_rest [OF sym])

section \<open>The token file\<close>

datatype update_fate = WriteFails | RenameFails bool | Replaced

datatype token_file_error = WritingTmp | AtomicRename

text \<open>
  \<open>UpdateToken\<close> as the states of the file system it passes through: \<open>partials\<close> are the contents of the
  temporary file while it is written, \<open>RenameFails\<close> says whether its removal works.
\<close>

definition UpdateToken ::
  "string list \<Rightarrow> update_fate \<Rightarrow> string \<Rightarrow> string \<Rightarrow> (string, string) gomap
   \<Rightarrow> (string, string) gomap list \<times> token_file_error option" where
  "UpdateToken partials fate path token files =
     (let tmp = path @ ''.tmp''; writing = map (\<lambda>c. AList.update tmp c files) partials;
          written = AList.update tmp token files
      in case fate of
           WriteFails \<Rightarrow> (files # writing, Some WritingTmp)
         | RenameFails removed \<Rightarrow>
             (files # writing @ [written, if removed then AList.delete tmp written else written], Some AtomicRename)
         | Replaced \<Rightarrow> (files # writing @ [written, AList.update path token (AList.delete tmp written)], None))"

section \<open>What the bundle holds\<close>

definition successes :: "attestor list \<Rightarrow> attestation_result list" where
  "successes attestors =
     List.map_filter (\<lambda>a. if at_available a then (case at_attest a of Inl _ \<Rightarrow> None | Inr r \<Rightarrow> Some r) else None) attestors"

definition all_succeed :: "attestor list \<Rightarrow> bool" where
  "all_succeed attestors \<longleftrightarrow> (\<forall>a \<in> set attestors. at_available a \<longrightarrow> succeeded (at_attest a))"

definition is_platform :: "attestation_result \<Rightarrow> bool" where
  "is_platform r \<longleftrightarrow> ar_hardware r = None \<and> ar_credential r \<noteq> None"

lemma succeeded_simps [simp]: "\<not> succeeded (Inl err)" "succeeded (Inr x)"
  by (simp_all add: succeeded_def)

lemma successes_simps [simp]:
  "successes [] = []"
  "successes (a # attestors) =
     (if at_available a then (case at_attest a of Inl _ \<Rightarrow> [] | Inr r \<Rightarrow> [r]) else []) @ successes attestors"
  by (auto simp: successes_def List.map_filter_simps split: sum.split)

lemma gather_cases:
  "gather attestors b = (case find (\<lambda>a. at_available a \<and> \<not> succeeded (at_attest a)) attestors of
     None \<Rightarrow> Inr (fold add_result (successes attestors) b)
   | Some a \<Rightarrow> Inl (AttestorFailed (at_name a) (projl (at_attest a))))"
proof (induction attestors arbitrary: b)
  case Nil
  then show ?case by simp
next
  case (Cons a attestors)
  then show ?case by (cases "at_attest a") (auto split: option.split)
qed

lemma fold_add_result:
  "ab_platform (fold add_result rs b) = (if ab_platform b = None then find is_platform rs else ab_platform b)"
  "ab_hardware (fold add_result rs b) = ab_hardware b @ filter (\<lambda>r. ar_hardware r \<noteq> None) rs"
  "ab_agent_version (fold add_result rs b) = ab_agent_version b" "ab_timestamp (fold add_result rs b) = ab_timestamp b"
  by (induction rs arbitrary: b) (auto simp: add_result_def is_platform_def)

lemma all_succeed_find:
  "all_succeed attestors \<longleftrightarrow> find (\<lambda>a. at_available a \<and> \<not> succeeded (at_attest a)) attestors = None"
  by (auto simp: all_succeed_def find_None_iff)

text \<open>
  The bundle is complete exactly if every attestor that claims to be available attests and one of them
  yields a credential: one failing attestor is enough to leave the agent without any. The
  credential of the first of them in the order of the list, hardware apart, is the one exchanged, and
  every hardware proof is passed on in order.
\<close>

theorem bundle_exact:
  "((\<exists>b. BundleAttestations pid now attestors version = Inr b)
     \<longleftrightarrow> all_succeed attestors \<and> (\<exists>r \<in> set (successes attestors). is_platform r))
   \<and> (\<forall>b. BundleAttestations pid now attestors version = Inr b \<longrightarrow>
        ab_platform b = find is_platform (successes attestors)
        \<and> ab_hardware b = filter (\<lambda>r. ar_hardware r \<noteq> None) (successes attestors)
        \<and> ab_agent_version b = version \<and> ab_timestamp b = now)"
proof -
  have find_ex: "find is_platform rs \<noteq> None \<longleftrightarrow> (\<exists>r \<in> set rs. is_platform r)" for rs
    by (auto simp: find_None_iff)
  have run: "BundleAttestations pid now attestors version =
      (if all_succeed attestors
       then if find is_platform (successes attestors) = None then Inl NoPlatformCredential
            else Inr (fold add_result (successes attestors) (new_bundle pid now version))
       else gather attestors (new_bundle pid now version))"
    by (auto simp: BundleAttestations_def gather_cases all_succeed_find fold_add_result rbind_def new_bundle_def
        split: option.split)
  have fails: "\<not> all_succeed attestors \<Longrightarrow> \<exists>e. gather attestors (new_bundle pid now version) = Inl e"
    by (auto simp: gather_cases all_succeed_find)
  show ?thesis
    using run fails find_ex [of "successes attestors"] by (auto simp: fold_add_result new_bundle_def split: if_splits)
qed

section \<open>The exchange, end to end\<close>



lemma sidecar_post_header [simp]: "header_get (sidecar_post body h) AttestationHeaderName = h"
  by (simp add: sidecar_post_def header_get_def header_values_def AttestationHeaderName_def equal_fold_def to_lower_def
      to_lower_char_def)



section \<open>Renewal in time\<close>

lemma sint_small: "0 \<le> n \<Longrightarrow> n < 2 ^ 63 \<Longrightarrow> sint (word_of_int n :: 64 word) = n"
  by (simp add: signed_of_int signed_take_bit_int_eq_self)

lemma rn_ratio_bounds: "0 < rn_ratio (NewRenewer ratio ds)" "rn_ratio (NewRenewer ratio ds) < 1"
  by (simp_all add: NewRenewer_def)

text \<open>
  A token is renewed while it is valid: whatever ratio is configured, the wait after an exchange is less
  than the lifetime of the token, as long as that is positive and its nanoseconds fit into 64 bits.
\<close>

theorem renewed_before_expiry:
  assumes "0 < expiresIn" and "expiresIn * go_second \<le> max_duration"
  shows "0 \<le> renewal_wait (NewRenewer ratio ds) expiresIn \<and> renewal_wait (NewRenewer ratio ds) expiresIn < expiresIn * go_second"
proof -
  define r n where "r = rn_ratio (NewRenewer ratio ds)" and "n = expiresIn * go_second"
  have n: "0 < n" "n < 2 ^ 63" using assms by (simp_all add: n_def go_second_def max_duration_def)
  have r: "0 < r" "r < 1" using rn_ratio_bounds [of ratio ds] by (simp_all add: r_def)
  have "0 \<le> of_int n * r" "of_int n * r < of_int n" using n(1) r by simp_all
  then have fl: "0 \<le> \<lfloor>of_int n * r\<rfloor>" "\<lfloor>of_int n * r\<rfloor> < n" and pos: "0 \<le> of_int n * r"
    by (simp_all add: floor_less_iff)
  then have "- (2 ^ 63) \<le> \<lfloor>of_int n * r\<rfloor> \<and> \<lfloor>of_int n * r\<rfloor> < 2 ^ 63" "rat_trunc (of_int n * r) = \<lfloor>of_int n * r\<rfloor>"
    using n(2) by (linarith, simp add: rat_trunc_def)
  then have "float_to_int (of_int n * r) = \<lfloor>of_int n * r\<rfloor>"
    by (simp only: float_to_int_def Let_def if_True simp_thms)
  moreover have "sint (word_of_int n :: 64 word) = n" using n by (simp add: sint_small)
  ultimately show ?thesis using fl by (simp add: renewal_wait_def flip: n_def r_def)
qed

section \<open>What the loop serves\<close>

definition served_tokens :: "renewer_event list \<times> bool \<Rightarrow> string list" where
  "served_tokens run = List.map_filter (\<lambda>ev. case ev of Served t \<Rightarrow> Some t | _ \<Rightarrow> None) (fst run)"

lemma served_tokens_simps:
  "served_tokens ([], f) = []" "served_tokens (Attempted # evs, f) = served_tokens (evs, f)" "served_tokens (Waited d # evs, f) = served_tokens (evs, f)"
  "served_tokens (Served t # evs, f) = t # served_tokens (evs, f)"
  by (simp_all add: served_tokens_def List.map_filter_simps)

lemma served_tokens_append: "served_tokens (evs @ evs', f) = served_tokens (evs, f') @ served_tokens (evs', f)"
  by (simp add: served_tokens_def List.map_filter_def)

lemma backoff_serves_nothing: "backoff ds os = (ending, evs, rest) \<Longrightarrow> served_tokens (evs, f) = []"
  by (induction ds os arbitrary: ending evs rest rule: backoff.induct) (auto split: prod.splits simp: served_tokens_simps)

lemma served_failure:
  "served_tokens (renewer_Run r update (Inl err # os)) =
     (case backoff (backoff_delays r) os of
        (ending, evs, rest) \<Rightarrow> if ending = BackoffCancelled then [] else served_tokens (renewer_Run r update rest))"
proof -
  obtain ending evs rest where b: "backoff (backoff_delays r) os = (ending, evs, rest)" by (metis prod_cases3)
  obtain evs' f where run: "renewer_Run r update rest = (evs', f)" by fastforce
  show ?thesis
    using backoff_serves_nothing [OF b] by (simp add: b run served_tokens_simps served_tokens_append [of evs evs' f f])
qed

lemma backoff_success:
  "length es < length ds \<Longrightarrow> \<exists>evs. backoff ds (map Inl es @ Inr x # os) = (BackoffDone, evs, os)"
proof (induction es arbitrary: ds)
  case Nil
  then show ?case by (cases ds) auto
next
  case (Cons e es)
  then obtain d ds' where "ds = d # ds'" by (cases ds) auto
  then show ?case using Cons by (fastforce split: prod.split)
qed

lemma backoff_failures:
  "length ds \<le> length es \<Longrightarrow> \<exists>evs. backoff ds (map Inl es @ os) = (BackoffExhausted, evs, map Inl (drop (length ds) es) @ os)"
proof (induction ds arbitrary: es)
  case Nil
  then show ?case by simp
next
  case (Cons d ds)
  then obtain e es' where "es = e # es'" by (cases es) auto
  then show ?case using Cons by (fastforce split: prod.split)
qed

lemma backoff_delays_nonempty: "backoff_delays r \<noteq> []"
  by (simp add: backoff_delays_def)

text \<open>
  A token that a retry obtains is thrown away: after a failed exchange, the first success within the
  schedule of delays is not served, and the loop goes on with the exchange after it.
\<close>

theorem retried_token_discarded:
  assumes "length es < length (backoff_delays r)"
  shows "served_tokens (renewer_Run r update (Inl err # map Inl es @ Inr x # os)) = served_tokens (renewer_Run r update os)"
  using backoff_success [OF assms, of x os] by (auto simp: served_failure simp del: renewer_Run.simps)

text \<open>
  The loop recovers all the same: after any number of failures, of two exchanges in a row that succeed
  one is served before anything else.
\<close>

theorem recovers_with_two_successes:
  assumes "\<And>t. update t"
  shows "\<exists>rest. served_tokens (renewer_Run r update (map Inl es @ Inr x # Inr y # os)) = xr_access_token x # rest
    \<or> served_tokens (renewer_Run r update (map Inl es @ Inr x # Inr y # os)) = xr_access_token y # rest"
proof (induction es rule: length_induct)
  case (1 es)
  have direct: "\<exists>rest. served_tokens (renewer_Run r update (Inr z # qs)) = xr_access_token z # rest" for z qs
    using assms by (cases "renewer_Run r update qs") (simp add: served_tokens_simps)
  show ?case
  proof (cases es)
    case Nil
    then show ?thesis using direct [of x "Inr y # os"] by auto
  next
    case (Cons e es')
    show ?thesis
    proof (cases "length es' < length (backoff_delays r)")
      case True
      from backoff_success [OF this, of x "Inr y # os"] direct [of y os] show ?thesis
        by (auto simp: Cons served_failure simp del: renewer_Run.simps)
    next
      case False
      then have "length (backoff_delays r) \<le> length es'" by simp
      note exhausted = backoff_failures [OF this, of "Inr x # Inr y # os"]
      have "length (drop (length (backoff_delays r)) es') < length es" by (simp add: Cons)
      with 1 exhausted show ?thesis by (fastforce simp: Cons served_failure simp del: renewer_Run.simps)
    qed
  qed
qed

section \<open>The token file\<close>

text \<open>
  A reader of the token file sees the old token or the new one and nothing in between, whenever it looks
  while the file is updated and however the update ends; the new one is there at the end exactly if no
  error is reported, and no other file than the temporary one is touched.
\<close>

theorem token_file_atomic:
  assumes "UpdateToken partials fate path token files = (states, err)" and "st \<in> set states"
  shows "map_of st path \<in> {map_of files path, Some token}
    \<and> map_of (last states) path = (if err = None then Some token else map_of files path)
    \<and> (\<forall>f. f \<noteq> path \<longrightarrow> f \<noteq> path @ ''.tmp'' \<longrightarrow> map_of st f = map_of files f)"
proof -
  have "map_of (last (files # map (\<lambda>c. AList.update (path @ ''.tmp'') c files) partials)) path = map_of files path"
    by (cases partials rule: rev_cases) (simp_all add: update_conv')
  then show ?thesis
    using assms by (cases fate) (auto simp: UpdateToken_def Let_def update_conv' delete_conv' split: if_splits)
qed

section \<open>AWS\<close>

text \<open>
  The attestation of an AWS instance is of no use at the unit: the side-car sends the instance identity
  document under the type of signed STS requests, which the provider for that type reads as such a
  request. A document without a method \<open>POST\<close>, as identity documents are, is refused in any
  configuration, development mode included.
\<close>

theorem aws_instance_refused:
  assumes "aws_Attest E endpoint = Inr result" and "ar_credential result = Some document"
    and "mapCredType (ar_cred_type result) = Inr c"
    and "\<And>cred. aw_unmarshal A document = Some cred \<Longrightarrow> sq_method cred = ''''"
  shows "\<exists>err. aws_ValidateWorkload A now p document c = Inl err"
  using assms(4) by (cases "aw_unmarshal A document") (auto simp: aws_ValidateWorkload_def)

section \<open>An instance\<close>









theorem renewed_before_expiry_witness:
  "renewal_wait (NewRenewer 2 []) 300 < 300 * go_second"
  using renewed_before_expiry [of 300 2 "[]"] by (simp add: go_second_def max_duration_def)

definition demo_result :: "string \<Rightarrow> exchange_result" where
  "demo_result t = \<lparr>xr_access_token = t, xr_expires_in = 60, xr_issued_at = 0\<rparr>"

theorem retried_token_discarded_witness:
  "served_tokens (renewer_Run (NewRenewer 0 []) (\<lambda>t. True) [Inl ExchangeUnreachable, Inr (demo_result ''a'')]) = []"
  using retried_token_discarded [of "[]" "NewRenewer 0 []" "\<lambda>t. True" ExchangeUnreachable "demo_result ''a''" "[]"]
  by (simp add: backoff_delays_def NewRenewer_def served_tokens_simps)

theorem recovers_with_two_successes_witness:
  "served_tokens (renewer_Run (NewRenewer 0 []) (\<lambda>t. True) (map Inl (replicate 9 ExchangeUnreachable)
     @ [Inr (demo_result ''a''), Inr (demo_result ''a'')])) \<noteq> []"
  using recovers_with_two_successes [of "\<lambda>t. True" "NewRenewer 0 []" "replicate 9 ExchangeUnreachable" "demo_result ''a''"
      "demo_result ''a''" "[]"] by auto

theorem token_file_atomic_witness:
  "map_of [(''t.tmp'', ''ne''), (''t'', ''old'')] ''t'' \<in> {Some ''old'', Some ''new''}"
proof -
  have "UpdateToken [''ne''] Replaced ''t'' ''new'' [(''t'', ''old'')] =
      ([[(''t'', ''old'')], [(''t'', ''old''), (''t.tmp'', ''ne'')], [(''t'', ''old''), (''t.tmp'', ''new'')], [(''t'', ''new'')]], None)"
    by (simp add: UpdateToken_def Let_def)
  from token_file_atomic [OF this, of "[(''t'', ''old''), (''t.tmp'', ''ne'')]"] show ?thesis by simp
qed

theorem aws_instance_refused_witness:
  "\<exists>err. aws_ValidateWorkload \<lparr>aw_unmarshal = (\<lambda>d. Some \<lparr>sq_url = '''', sq_method = '''', sq_headers = [], sq_body = ''''\<rparr>),
       aw_parse_date = (\<lambda>d. None), aw_sts_call = (\<lambda>u m h b. None)\<rparr> 0 p ''{}'' ''aws-sts'' = Inl err"
proof -
  let ?E = "\<lparr>aq_file = (\<lambda>f. None), aq_exists = (\<lambda>f. False), aq_getenv = (\<lambda>v. ''''), aq_executable = None, aq_sha256_hex = (\<lambda>c. c),
    aq_http = (\<lambda>v u h. Some (200, Some ''{}'')), aq_aws_document = (\<lambda>d. Some ('''', '''', '''', '''')),
    aq_azure_token = (\<lambda>d. None), aq_azure_instance = (\<lambda>d. None)\<rparr>"
  show ?thesis
    by (rule aws_instance_refused [where E = ?E and endpoint = "''''" and
          result = "\<lparr>ar_source = ''aws-imds'', ar_credential = Some ''{}'', ar_cred_type = ''urn:starfly:token-type:aws-sts'',
            ar_hardware = None, ar_metadata = [(''account_id'', ''''), (''instance_id'', ''''), (''region'', ''''), (''instance_type'', '''')]\<rparr>"])
      (auto simp: aws_Attest_def aws_getToken_def metadata_request_def rbind_def limited_def mapCredType_def cred_types_def
        subjectTokenTypeJWT_def)
qed

end
