(* ===== verification/Mcp_Client.thy ===== *)
theory Mcp_Client
  imports Mcp_Middleware Agent_Sidecar
begin














section \<open>From the unit to the tool\<close>







section \<open>An instance\<close>








end
