(* ===== verification/Cert_Reload.thy ===== *)
theory Cert_Reload
  imports Go_Prelude
begin

text \<open>
  \<open>src/pkg/api/tls.go\<close>: the reloader that serves the server certificate of the mTLS port. What the two
  files hold is a parameter, once for each access the code makes: the pair that loads from them, if it
  does, and their modification times.
\<close>

record 'c cert_files =
  cf_pair :: "'c option"
  cf_cert_mtime :: "go_time option"
  cf_key_mtime :: "go_time option"

record 'c cert_reloader =
  cw_cert :: "'c option"
  cw_mod_time :: go_time

definition latestModTime :: "'c cert_files \<Rightarrow> go_time option" where
  "latestModTime f =
     (case cf_cert_mtime f of
        None \<Rightarrow> None
      | Some t \<Rightarrow> (case cf_key_mtime f of None \<Rightarrow> None | Some u \<Rightarrow> Some (if time_after u t then u else t)))"

text \<open>The pair is loaded first, the modification times are read afterwards.\<close>

definition reload :: "'c cert_files \<Rightarrow> 'c cert_files \<Rightarrow> 'c cert_reloader \<Rightarrow> bool \<times> 'c cert_reloader" where
  "reload loaded statted r =
     (case cf_pair loaded of
        None \<Rightarrow> (False, r)
      | Some cert \<Rightarrow>
          (case latestModTime statted of
             None \<Rightarrow> (False, r)
           | Some modTime \<Rightarrow> (True, r\<lparr>cw_cert := Some cert, cw_mod_time := modTime\<rparr>)))"

definition newCertReloader :: "'c cert_files \<Rightarrow> 'c cert_files \<Rightarrow> 'c cert_reloader option" where
  "newCertReloader loaded statted =
     (case reload loaded statted \<lparr>cw_cert = None, cw_mod_time = 0\<rparr> of (ok, r) \<Rightarrow> if ok then Some r else None)"

definition GetCertificate ::
  "'c cert_files \<Rightarrow> 'c cert_files \<Rightarrow> 'c cert_files \<Rightarrow> 'c cert_reloader \<Rightarrow> 'c option \<times> 'c cert_reloader" where
  "GetCertificate seen loaded statted r =
     (case latestModTime seen of
        None \<Rightarrow> (cw_cert r, r)
      | Some modTime \<Rightarrow>
          if \<not> time_after modTime (cw_mod_time r) then (cw_cert r, r)
          else let r' = snd (reload loaded statted r) in (cw_cert r', r'))"

text \<open>\<open>expiry\<close> parses a certificate and tells its end of validity.\<close>

definition CertExpiry :: "('c \<Rightarrow> go_time option) \<Rightarrow> 'c cert_reloader \<Rightarrow> go_time" where
  "CertExpiry expiry r =
     (case cw_cert r of None \<Rightarrow> 0 | Some cert \<Rightarrow> (case expiry cert of None \<Rightarrow> 0 | Some t \<Rightarrow> t))"

text \<open>A run of handshakes over files that do not change during one of them.\<close>

fun handshakes :: "'c cert_files list \<Rightarrow> 'c cert_reloader \<Rightarrow> 'c option list \<times> 'c cert_reloader" where
  "handshakes [] r = ([], r)"
| "handshakes (f # fs) r =
     (case GetCertificate f f f r of (cert, r1) \<Rightarrow> (case handshakes fs r1 of (certs, r2) \<Rightarrow> (cert # certs, r2)))"

section \<open>What a handshake gets\<close>

definition loadable :: "'c cert_files \<Rightarrow> bool" where
  "loadable f \<longleftrightarrow> cf_pair f \<noteq> None \<and> latestModTime f \<noteq> None"

text \<open>The reloader holds the pair of some files it has seen, at their modification time.\<close>

definition holds_from :: "'c cert_files set \<Rightarrow> 'c cert_reloader \<Rightarrow> bool" where
  "holds_from S r \<longleftrightarrow> (\<exists>f \<in> S. cf_pair f = cw_cert r \<and> latestModTime f = Some (cw_mod_time r) \<and> loadable f)"

lemma newCertReloader_holds: "newCertReloader f f = Some r \<Longrightarrow> holds_from {f} r"
  by (auto simp: newCertReloader_def reload_def holds_from_def loadable_def split: option.splits)

lemma GetCertificate_cases:
  assumes "GetCertificate f f f r = (cert, r')"
  obtains (cached) "r' = r" "cert = cw_cert r" "loadable f \<Longrightarrow> the (latestModTime f) \<le> cw_mod_time r"
  | (loaded) "loadable f" "cert = cf_pair f" "cw_cert r' = cf_pair f" "latestModTime f = Some (cw_mod_time r')"
  using assms
  by (auto simp: GetCertificate_def reload_def loadable_def time_after_def Let_def split: option.splits if_splits)

lemma GetCertificate_holds:
  assumes "holds_from S r" and "GetCertificate f f f r = (cert, r')"
  shows "holds_from (insert f S) r'" "\<exists>c. cert = Some c"
proof -
  have "holds_from (insert f S) r' \<and> (\<exists>c. cert = Some c)"
  proof (cases rule: GetCertificate_cases [OF assms(2), case_names cached loaded])
    case cached
    moreover have "holds_from (insert f S) r" using assms(1) by (auto simp: holds_from_def)
    moreover have "cw_cert r \<noteq> None" using assms(1) unfolding holds_from_def loadable_def by metis
    ultimately show ?thesis by auto
  next
    case loaded
    then show ?thesis by (auto simp: holds_from_def loadable_def)
  qed
  then show "holds_from (insert f S) r'" "\<exists>c. cert = Some c" by blast+
qed

lemma holds_from_mono: "holds_from S r \<Longrightarrow> S \<subseteq> T \<Longrightarrow> holds_from T r"
  by (auto simp: holds_from_def)

lemma handshakes_holds:
  assumes "holds_from S r" and "handshakes fs r = (certs, r')"
  shows "holds_from (S \<union> set fs) r' \<and> (\<forall>cert \<in> set certs. \<exists>c. cert = Some c)"
  using assms
proof (induction fs arbitrary: S r certs)
  case Nil
  then show ?case by simp
next
  case (Cons f fs)
  obtain cert r1 where g: "GetCertificate f f f r = (cert, r1)" by fastforce
  obtain rest where h: "handshakes fs r1 = (rest, r')" and certs: "certs = cert # rest"
    using Cons.prems(2) g by (auto split: prod.splits)
  show ?case
    using certs Cons.IH [OF GetCertificate_holds(1) [OF Cons.prems(1) g] h] GetCertificate_holds(2) [OF Cons.prems(1) g] by auto
qed

text \<open>
  After a good start every handshake gets a certificate, whatever happens to the files, and while the
  files hold a loadable pair it is that pair: the reloader serves what is on disk, provided that files
  with different pairs have different modification times, the later ones later, and do not change in the
  middle of a handshake.
\<close>

theorem current_certificate_served:
  assumes "newCertReloader f0 f0 = Some r" and "handshakes (fs @ [f]) r = (certs, r')"
    and honest: "\<forall>g \<in> insert f0 (set fs). loadable g \<longrightarrow> loadable f \<longrightarrow> cf_pair g \<noteq> cf_pair f \<longrightarrow>
      the (latestModTime g) < the (latestModTime f)"
  shows "(\<forall>cert \<in> set certs. cert \<noteq> None) \<and> (loadable f \<longrightarrow> last certs = cf_pair f)"
proof -
  have start: "holds_from {f0} r" by (rule newCertReloader_holds [OF assms(1)])
  obtain cs r1 where h: "handshakes fs r = (cs, r1)" by fastforce
  obtain cert r2 where g: "GetCertificate f f f r1 = (cert, r2)" by fastforce
  have split: "handshakes (xs @ [f]) u = (let (cs, u1) = handshakes xs u; (c, u2) = GetCertificate f f f u1 in (cs @ [c], u2))" for xs u
    by (induction xs arbitrary: u) (auto split: prod.splits)
  have certs: "certs = cs @ [cert]" using assms(2) by (simp add: split h g)
  have held: "holds_from (insert f0 (set fs)) r1" using handshakes_holds [OF start h] by simp
  then obtain w where w: "w \<in> insert f0 (set fs)" "cf_pair w = cw_cert r1" "latestModTime w = Some (cw_mod_time r1)" "loadable w"
    by (auto simp: holds_from_def)
  have "cert = cf_pair f" if "loadable f"
  proof (cases rule: GetCertificate_cases [OF g, case_names cached loaded])
    case cached
    then show ?thesis using honest w that by force
  next
    case loaded
    then show ?thesis by simp
  qed
  then show ?thesis
    using handshakes_holds [OF start assms(2)] certs by auto
qed

text \<open>
  A pair that is replaced while it is being reloaded is missed for good: if the files change after the
  old pair has been read and before the modification times are, the reloader keeps the old pair under
  the new time, and no later handshake loads the new one as long as the files stay as they are.
\<close>

theorem replaced_during_reload_missed:
  assumes "latestModTime seen = Some t" and "cw_mod_time r < t"
    and "cf_pair old = Some c" and "latestModTime new = Some u"
    and "GetCertificate seen old new r = (cert, r')"
  shows "cert = Some c \<and> handshakes (replicate n new) r' = (replicate n (Some c), r')"
proof -
  have r': "cert = Some c" "cw_cert r' = Some c" "cw_mod_time r' = u"
    using assms by (auto simp: GetCertificate_def reload_def time_after_def Let_def)
  have "GetCertificate new new new r' = (Some c, r')"
    using assms(4) r' by (simp add: GetCertificate_def time_after_def)
  then have "handshakes (replicate n new) r' = (replicate n (Some c), r')" by (induction n) simp_all
  with r'(1) show ?thesis by simp
qed

section \<open>An instance\<close>

definition demo_files :: "string \<Rightarrow> go_time \<Rightarrow> string cert_files" where
  "demo_files c t = \<lparr>cf_pair = Some c, cf_cert_mtime = Some t, cf_key_mtime = Some t\<rparr>"

theorem current_certificate_served_witness:
  "last (fst (handshakes ([demo_files ''a'' 1] @ [demo_files ''b'' 2]) \<lparr>cw_cert = Some ''a'', cw_mod_time = 1\<rparr>)) = Some ''b''"
proof -
  have "newCertReloader (demo_files ''a'' 1) (demo_files ''a'' 1) = Some \<lparr>cw_cert = Some ''a'', cw_mod_time = 1\<rparr>" by code_simp
  from current_certificate_served [OF this prod.collapse [symmetric], of "[demo_files ''a'' 1]" "demo_files ''b'' 2"]
  show ?thesis by (simp add: demo_files_def loadable_def latestModTime_def time_after_def)
qed

theorem replaced_during_reload_missed_witness:
  "fst (handshakes (replicate 3 (demo_files ''c'' 9)) \<lparr>cw_cert = Some ''b'', cw_mod_time = 9\<rparr>) = replicate 3 (Some ''b'')"
proof -
  have "GetCertificate (demo_files ''b'' 5) (demo_files ''b'' 5) (demo_files ''c'' 9) \<lparr>cw_cert = Some ''a'', cw_mod_time = 1\<rparr> =
      (Some ''b'', \<lparr>cw_cert = Some ''b'', cw_mod_time = 9\<rparr>)" by code_simp
  from replaced_during_reload_missed [OF _ _ _ _ this, where t = 5 and u = 9 and n = 3 and c = "''b''"]
  show ?thesis by (simp add: demo_files_def latestModTime_def time_after_def)
qed

end
