(* ===== verification/Vault_Source.thy ===== *)
theory Vault_Source
  imports Secrets
begin

text \<open>
  \<open>src/pkg/secrets/vault.go\<close>: the source that reads secrets from HashiCorp Vault. The Vault service is a
  parameter: health, logins and reads under a client token. The state of a source is the token of its
  client.
\<close>

record vault_config =
  vtc_auth_method :: string
  vtc_jwt_mount :: string
  vtc_tls_mount :: string
  vtc_role :: string
  vtc_ttl :: duration
  vtc_jwt_token :: "string option"

record vault_source =
  vts_config :: vault_config
  vts_ttl :: duration
  vts_token :: string

text \<open>The answer to a read: the call fails, there is no data, or the data of the path.\<close>

datatype vault_read = ReadFails | ReadNoData | ReadData "(string, json) gomap"

text \<open>The answer to a login: the call fails (\<open>None\<close>), there is no auth (\<open>Some None\<close>), or the client token.\<close>

record vault_lib =
  vb_client_ok :: bool
  vb_health :: "(bool \<times> bool) option"
  vb_login :: "string \<Rightarrow> (string \<times> string) list \<Rightarrow> string option option"
  vb_read :: "string \<Rightarrow> string \<Rightarrow> vault_read"

datatype vault_error =
    CreatingVaultClient
  | UnsupportedAuthMethod string
  | NoTokenFunction
  | LoginFailed
  | LoginNoAuth
  | ReadingPath string
  | PathNoData string
  | KeyMissing string string
  | KeyNotString string string

definition NewVaultSource :: "vault_lib \<Rightarrow> vault_config \<Rightarrow> vault_error + vault_source" where
  "NewVaultSource V cfg =
     (if \<not> vb_client_ok V then Inl CreatingVaultClient
      else Inr \<lparr>vts_config = cfg, vts_ttl = (if vtc_ttl cfg = 0 then 5 * go_minute else vtc_ttl cfg), vts_token = ''''\<rparr>)"

definition vault_Available :: "vault_lib \<Rightarrow> bool" where
  "vault_Available V = (case vb_health V of None \<Rightarrow> False | Some (initialized, sealed) \<Rightarrow> initialized \<and> \<not> sealed)"

definition take_login :: "string option option \<Rightarrow> vault_source \<Rightarrow> vault_error option \<times> vault_source" where
  "take_login answer v =
     (case answer of
        None \<Rightarrow> (Some LoginFailed, v)
      | Some None \<Rightarrow> (Some LoginNoAuth, v)
      | Some (Some token) \<Rightarrow> (None, v\<lparr>vts_token := token\<rparr>))"

definition authJWT :: "vault_lib \<Rightarrow> vault_source \<Rightarrow> vault_error option \<times> vault_source" where
  "authJWT V v =
     (case vtc_jwt_token (vts_config v) of
        None \<Rightarrow> (Some NoTokenFunction, v)
      | Some token \<Rightarrow>
          let mount = (if vtc_jwt_mount (vts_config v) = '''' then ''jwt'' else vtc_jwt_mount (vts_config v))
          in take_login (vb_login V (''auth/'' @ mount @ ''/login'') [(''role'', vtc_role (vts_config v)), (''jwt'', token)]) v)"

definition authTLS :: "vault_lib \<Rightarrow> vault_source \<Rightarrow> vault_error option \<times> vault_source" where
  "authTLS V v =
     (let mount = (if vtc_tls_mount (vts_config v) = '''' then ''cert'' else vtc_tls_mount (vts_config v))
      in take_login (vb_login V (''auth/'' @ mount @ ''/login'') [(''name'', vtc_role (vts_config v))]) v)"

definition ensureAuth :: "vault_lib \<Rightarrow> vault_source \<Rightarrow> vault_error option \<times> vault_source" where
  "ensureAuth V v =
     (if vts_token v \<noteq> '''' then (None, v)
      else if vtc_auth_method (vts_config v) = ''jwt'' then authJWT V v
      else if vtc_auth_method (vts_config v) = ''tls'' then authTLS V v
      else (Some (UnsupportedAuthMethod (vtc_auth_method (vts_config v))), v))"

definition ref_alias :: "secret_ref \<Rightarrow> string" where
  "ref_alias ref = (if sr_alias ref = '''' then sr_key ref else sr_alias ref)"

definition read_ref :: "vault_lib \<Rightarrow> string \<Rightarrow> secret_ref \<Rightarrow> vault_error + string" where
  "read_ref V token ref =
     (case vb_read V token (sr_path ref) of
        ReadFails \<Rightarrow> Inl (ReadingPath (sr_path ref))
      | ReadNoData \<Rightarrow> Inl (PathNoData (sr_path ref))
      | ReadData data \<Rightarrow>
          (case map_of data (sr_key ref) of
             None \<Rightarrow> Inl (KeyMissing (sr_key ref) (sr_path ref))
           | Some val \<Rightarrow>
               (case as_str val of
                  None \<Rightarrow> Inl (KeyNotString (sr_key ref) (sr_path ref))
                | Some strVal \<Rightarrow> Inr strVal)))"

fun read_refs ::
  "vault_lib \<Rightarrow> string \<Rightarrow> secret_ref list \<Rightarrow> (string, string) gomap \<Rightarrow> vault_error + (string, string) gomap" where
  "read_refs V token [] claims = Inr claims"
| "read_refs V token (ref # refs) claims =
     (case read_ref V token ref of
        Inl e \<Rightarrow> Inl e
      | Inr strVal \<Rightarrow> read_refs V token refs (AList.update (ref_alias ref) strVal claims))"

definition vault_Fetch ::
  "vault_lib \<Rightarrow> secret_ref list \<Rightarrow> vault_source \<Rightarrow> (vault_error + secret_bundle) \<times> vault_source" where
  "vault_Fetch V refs v =
     (case ensureAuth V v of
        (Some e, v') \<Rightarrow> (Inl e, v')
      | (None, v') \<Rightarrow>
          (case read_refs V (vts_token v') refs [] of
             Inl e \<Rightarrow> (Inl e, v')
           | Inr claims \<Rightarrow> (Inr \<lparr>sb_claims = claims, sb_ttl = vts_ttl v'\<rparr>, v')))"

section \<open>What a fetch returns\<close>

lemma read_refs_ok:
  assumes "read_refs V token refs claims = Inr out"
  shows "(\<forall>ref \<in> set refs. \<exists>val. read_ref V token ref = Inr val)
    \<and> (\<forall>a. a \<notin> ref_alias ` set refs \<longrightarrow> map_of out a = map_of claims a)
    \<and> (distinct (map ref_alias refs) \<longrightarrow> (\<forall>ref \<in> set refs. read_ref V token ref = Inr (the (map_of out (ref_alias ref)))
         \<and> map_of out (ref_alias ref) \<noteq> None))"
  using assms
proof (induction V token refs claims rule: read_refs.induct)
  case (1 V token claims)
  then show ?case by simp
next
  case (2 V token ref refs claims)
  then obtain val where val: "read_ref V token ref = Inr val"
      "read_refs V token refs (AList.update (ref_alias ref) val claims) = Inr out"
    by (auto split: sum.splits)
  note IH = 2(1) [OF val]
  have here: "map_of out (ref_alias ref) = Some val" if "ref_alias ref \<notin> ref_alias ` set refs"
    using IH that by (simp add: update_conv')
  show ?case using IH val(1) here by (auto simp: update_conv')
qed

text \<open>
  A fetch is complete and exact: when it succeeds, every reference has been read as a string, and with
  different names the bundle holds, under the name of each reference, the value that Vault has at its
  path and key, and nothing else.
\<close>

theorem vault_fetch_exact:
  assumes "vault_Fetch V refs v = (Inr bundle, v')" and "distinct (map ref_alias refs)"
  shows "(\<forall>ref \<in> set refs. \<exists>val. read_ref V (vts_token v') ref = Inr val \<and> map_of (sb_claims bundle) (ref_alias ref) = Some val)
    \<and> (\<forall>a. a \<notin> ref_alias ` set refs \<longrightarrow> map_of (sb_claims bundle) a = None)"
proof -
  have "read_refs V (vts_token v') refs [] = Inr (sb_claims bundle)"
    using assms(1) by (auto simp: vault_Fetch_def split: prod.splits option.splits sum.splits)
  from read_refs_ok [OF this] assms(2) show ?thesis by (metis map_of.simps(1) option.collapse)
qed

section \<open>Expired tokens\<close>

fun fetches :: "(vault_lib \<times> secret_ref list) list \<Rightarrow> vault_source \<Rightarrow> (vault_error + secret_bundle) list \<times> vault_source" where
  "fetches [] v = ([], v)"
| "fetches ((V, refs) # calls) v =
     (case vault_Fetch V refs v of (r, v') \<Rightarrow> (case fetches calls v' of (rs, v'') \<Rightarrow> (r # rs, v'')))"

lemma token_kept: "vts_token v \<noteq> '''' \<Longrightarrow> snd (vault_Fetch V refs v) = v"
  by (simp add: vault_Fetch_def ensureAuth_def split: sum.split)

text \<open>
  The source logs in once: it keeps the client token it was given for good, so that after the token has
  expired at Vault no fetch of a secret succeeds any more, although a login would.
\<close>

theorem expired_token_kept:
  assumes "vts_token v \<noteq> ''''" and "\<forall>(V, refs) \<in> set calls. refs \<noteq> [] \<and> (\<forall>path. vb_read V (vts_token v) path = ReadFails)"
  shows "snd (fetches calls v) = v \<and> (\<forall>r \<in> set (fst (fetches calls v)). \<exists>path. r = Inl (ReadingPath path))"
  using assms(2)
proof (induction calls)
  case Nil
  then show ?case by simp
next
  case (Cons p calls)
  obtain V refs where p: "p = (V, refs)" by fastforce
  obtain ref more where refs: "refs = ref # more" using Cons.prems p by (cases refs) auto
  have "vb_read V (vts_token v) (sr_path ref) = ReadFails" using Cons.prems p by auto
  then have "vault_Fetch V refs v = (Inl (ReadingPath (sr_path ref)), v)"
    using assms(1) by (simp add: vault_Fetch_def ensureAuth_def refs read_ref_def)
  then show ?case using Cons by (auto simp: p split: prod.splits)
qed

section \<open>An instance\<close>

definition demo_vault :: "bool \<Rightarrow> vault_lib" where
  "demo_vault valid = \<lparr>vb_client_ok = True, vb_health = Some (True, False), vb_login = (\<lambda>p d. Some (Some ''tok'')),
     vb_read = (\<lambda>t p. if valid then ReadData [(''password'', JStr ''pw'')] else ReadFails)\<rparr>"

definition demo_vault_ref :: secret_ref where
  "demo_vault_ref = \<lparr>sr_source = ''vault'', sr_path = ''db'', sr_key = ''password'', sr_alias = ''DB''\<rparr>"

definition demo_vault_source :: vault_source where
  "demo_vault_source = \<lparr>vts_config = \<lparr>vtc_auth_method = ''tls'', vtc_jwt_mount = '''', vtc_tls_mount = '''', vtc_role = ''r'', vtc_ttl = 0,
     vtc_jwt_token = None\<rparr>, vts_ttl = 5, vts_token = ''''\<rparr>"

theorem vault_fetch_exact_witness:
  "map_of (sb_claims (projr (fst (vault_Fetch (demo_vault True) [demo_vault_ref] demo_vault_source)))) ''DB'' = Some ''pw''"
proof -
  have run: "vault_Fetch (demo_vault True) [demo_vault_ref] demo_vault_source =
      (Inr (projr (fst (vault_Fetch (demo_vault True) [demo_vault_ref] demo_vault_source))), demo_vault_source\<lparr>vts_token := ''tok''\<rparr>)"
    by (simp add: vault_Fetch_def ensureAuth_def authTLS_def take_login_def demo_vault_def demo_vault_source_def demo_vault_ref_def
        read_ref_def Let_def)
  have "read_ref (demo_vault True) ''tok'' demo_vault_ref = Inr ''pw''" "ref_alias demo_vault_ref = ''DB''" by code_simp+
  with vault_fetch_exact [OF run] show ?thesis by simp
qed

theorem expired_token_kept_witness:
  "snd (fetches (replicate 3 (demo_vault False, [demo_vault_ref])) (demo_vault_source\<lparr>vts_token := ''tok''\<rparr>)) =
     demo_vault_source\<lparr>vts_token := ''tok''\<rparr>"
  using expired_token_kept [of "demo_vault_source\<lparr>vts_token := ''tok''\<rparr>" "replicate 3 (demo_vault False, [demo_vault_ref])"]
  by (simp add: demo_vault_def)

end
