(* ===== verification/Spec2Isabelle.thy ===== *)
theory Spec2Isabelle
  imports Exchange_Guarantees Exchange_Runs Rotation_Guarantees Signals_Guarantees Audit_Ledger
    Mcp_Guarantees Issued_Calls Toolcall_Guarantees Federation_Gateway Federation_Keys Compliance
    Operator_Guarantees Identity_Guarantees Api_Server Unit_Config Mcp_Client
    Cert_Reload Vault_Source
begin

text \<open>
  A verification development of Starfly Fabrics, an identity exchange for workloads: a unit
  takes a workload's native credential, asks a policy, and mints a short-lived JWT; units
  exchange security signals, and revoke identities on them.

  \<^bold>\<open>The program.\<close> The core of a unit is the exchange engine (\<open>src/pkg/exchange/engine.go\<close>).
  One call of \<open>Exchange\<close> maps the token type, validates the workload through the identity
  provider, asks the revocation index (\<open>src/pkg/signals/revocation.go\<close>), checks the
  attestation header (\<open>attestation.go\<close>), asks the policy engine, checks the delegation chain
  (\<open>delegation.go\<close>), the DPoP proof (\<open>dpop.go\<close>) and the execution scope with its nonce
  (\<open>execution.go\<close>), fetches secrets (\<open>src/pkg/secrets\<close>), signs with the active key of the
  keyring (\<open>keyring.go\<close>), and leaves an audit record, a fabric signal and a callback. The
  rotation workflow (\<open>src/pkg/lifecycle/rotation_workflow.go\<close>) replaces the key of the keyring
  under Temporal's retries. The receiver (\<open>src/pkg/signals/receiver.go\<close>) turns security event
  tokens into revocation entries, the transmitter (\<open>transmitter.go\<close>) signs and posts them.
  Before the engine stands the registry of identity providers (\<open>src/pkg/identity\<close>), one for
  each type of credential, which \<open>cmd/starfly/main.go\<close> builds; their keys come from the key set
  cache (\<open>src/pkg/jwks\<close>). Behind it, tool calls with the issued tokens are checked by the MCP
  middleware (\<open>src/pkg/mcp\<close>) and by the generic verifier with its adapters
  (\<open>src/pkg/toolcall\<close>), and recorded in the hash-chained ledger (\<open>src/pkg/audit/ledger.go\<close>);
  audit events may be HMAC-signed (\<open>signing.go\<close>). Units of a fabric share signals over a bus
  (\<open>src/pkg/sync\<close>); fabrics relay, receive and reconcile revocations and resolve each other's
  keys (\<open>src/pkg/federation\<close>). The soul keeper (\<open>src/pkg/soul\<close>) saves the state of a unit and
  plans its convergence, which the operator (\<open>src/pkg/operator\<close>) applies to a running unit; a
  compliance workflow (\<open>src/pkg/lifecycle\<close>) scans it. Clients reach all this over HTTP
  (\<open>src/pkg/api\<close>), behind rate limits and, for what changes state, mutual TLS; among them are the
  side-car (\<open>src/pkg/agent\<close>) and the tool client (\<open>src/pkg/mcp/client.go\<close>). The policies are Rego
  bundles that \<open>src/pkg/policy\<close> verifies, loads and evaluates; what is stored is sealed by a locker
  (\<open>src/pkg/lock\<close>, \<open>src/pkg/store\<close>).

  \<^bold>\<open>The theories.\<close>
  \<^item> \<open>Go_Prelude\<close>: Go's time, maps, strings, dynamic JSON values, hexadecimal, and the \<open>stage\<close>
    monad in which fallible, state-changing methods are written, with its \<open>keeps\<close> calculus
    (what a stage leaves alone). \<open>Go_Http\<close>: requests, responses, headers. \<open>Core_Types\<close>: the
    structs of \<open>src/pkg/core\<close>.
  \<^item> \<open>Delegation\<close>, \<open>Execution_Scope\<close>, \<open>Attestation\<close>, \<open>Dpop\<close>, \<open>Keyring\<close>, \<open>Secrets\<close>,
    \<open>Revocation\<close>: one theory for each file of the same topic, with its data, its operations,
    its invariant and the guarantees that concern it alone.
  \<^item> \<open>Engine\<close>: \<open>Exchange\<close> as the composition of its stages, each named after its step.
    \<open>Engine_Props\<close>: what each stage keeps and when it succeeds; the predicate \<open>granted\<close>
    collects all checks, \<open>issue_effect\<close> all traces. \<open>Token_Claims\<close>: the value of every claim
    of a minted token. \<open>Exchange_Guarantees\<close> and \<open>Exchange_Runs\<close>: the properties of single
    exchanges, of chains of delegations and of runs that share the nonce tracker.
    \<open>Exchange_Demo\<close>: a concrete unit on which their hypotheses hold.
  \<^item> \<open>Identity_Tokens\<close>: the providers of signed tokens (Kubernetes, SPIFFE, OIDC, Google, Azure,
    OAuth 2) and the registry; \<open>Identity_Credentials\<close>: API keys, mTLS, AWS, Kerberos, SAML and
    agent identities. \<open>Identity_Guarantees\<close>: the contract all of them meet, the registry of the
    unit, and what it means for the exchange; what the shared cache makes of their requests.
  \<^item> \<open>Rotation\<close>: the saga over any key manager; \<open>Rotation_Guarantees\<close>: on the keyring.
    \<open>Compliance\<close>: the compliance scan.
  \<^item> \<open>Transmitter\<close>, \<open>Receiver\<close>, \<open>Signals_Guarantees\<close>: the signal path.
  \<^item> \<open>Audit_Ledger\<close>: the ledger and the signing logger.
  \<^item> \<open>Tool_Registry\<close>, \<open>Workflow_Graph\<close>, \<open>Mcp_Verify\<close>, \<open>Mcp_Middleware\<close>: tool registries, the
    graph of workflow tasks, the verification of a call, the HTTP middleware;
    \<open>Tool_Guarantees\<close>, \<open>Mcp_Guarantees\<close>, \<open>Issued_Calls\<close>: their properties, and that a granted
    exchange leads to an accepted call. \<open>Toolcall_Verify\<close>, \<open>Toolcall_Middleware\<close>,
    \<open>Toolcall_Guarantees\<close>: the generic verifier, its adapters, and its relation to the former.
  \<^item> \<open>Sync_Bus\<close>: the bus. \<open>Federation_Types\<close>, \<open>Federation_Relay\<close>, \<open>Federation_Inbound\<close>,
    \<open>Federation_Sync\<close>, \<open>Federation_Gateway\<close>: the paths of a revocation between fabrics;
    \<open>Jwks_Cache\<close>, \<open>Federation_Keys\<close>: the paths of a key.
  \<^item> \<open>Soul_Manifest\<close>, \<open>Soul_Keeper\<close>, \<open>Soul_Converge\<close>: manifests, snapshots and recovery,
    comparison and plans. \<open>Operator\<close>, \<open>Reconciler\<close>, \<open>Operator_Guarantees\<close>: the resource, the
    controller, the in-process connection, and what a reconciliation reaches and what it never
    reaches.
  \<^item> \<open>Api_Exchange\<close>: the exchange endpoint with its body limit, attestation header and error
    codes; \<open>Api_Server\<close>: the endpoints for signals, streams, agents, encryption keys, tools and
    verification, the mTLS middleware and the routes; \<open>Api_Limits\<close>: the rate limits in front of
    them; \<open>Cert_Reload\<close>: the server certificate. \<open>Policy_Engine\<close>: bundle verification, loading
    and evaluation. \<open>Unit_Config\<close>: configuration, its layers and validation.
  \<^item> \<open>Locked_Store\<close>: lockers, the store and lock migration; \<open>Vault_Source\<close>: secrets from Vault.
  \<^item> \<open>Agent_Sidecar\<close> and \<open>Mcp_Client\<close>: the two clients of the exchange endpoint, the side-car with
    its attestors, renewal loop and token file, and the client that calls tools, each composed with
    the endpoint it talks to.
  \<^item> This theory: the property that spans signal endpoint, receiver, index, engine and exchange
    endpoint.

  \<^bold>\<open>Interfaces.\<close> Locales state what components promise each other, and every one is
  interpreted on the model: \<open>replay_guard\<close> (the nonce tracker and the receiver's JTI memory),
  \<open>bounded_memory\<close> (the relay's and the inbound handler's memory of events),
  \<open>revocation_index\<close> (the in-memory index), \<open>key_manager\<close> (the keyring, as the rotation
  workflow sees it), \<open>narrowing\<close> (blast radii and capability sets along a delegation chain),
  \<open>tool_registry\<close> (both registries), \<open>tool_adapter\<close> (the three adapters), \<open>key_resolver\<close> and
  \<open>peer_resolver\<close> (cache and federated resolver), \<open>soul_anchor\<close> and \<open>fs_anchor\<close> (the file
  system anchor), \<open>sealing\<close> (the development locker) and \<open>trusted_provider\<close> (the eleven identity
  providers). Their lemmas are
  proved once from the laws and used through the interpretations.

  \<^bold>\<open>How code becomes definitions.\<close> A struct is a record and a pointer that may be nil an
  option; a Go map is an association list with distinct keys, whose order stands for one
  iteration order; an error is a value of a datatype with one constructor for each error of
  the source. Instants and durations are integers of nanoseconds. Mutable state is passed
  explicitly; a call runs to completion, as under the mutexes of the source. Clock readings,
  randomness and the code outside the repository (the JWT, JWS, JWK, x509, SAML, Kerberos and
  NATS libraries, JSON and YAML encoding, SHA-256 and HMAC, URL parsing, HTTP round trips, the
  file system, Temporal, the Kubernetes API, the token-bucket limiter and OPA) are parameters;
  a component sees another it is configured with, such as the policy engine, as the function it
  calls. Where a
  property needs a fact about one of them, such as that the library verifies what it signed,
  it is a hypothesis of that property, with a concrete instance that satisfies it.

  \<^bold>\<open>Bounds.\<close> Loops are structural recursions, or functions with a termination proof, as the
  walk over the ancestors of a workflow task, which the source limits to ten thousand steps;
  the retries of an activity are the list of its attempts, of which the retry policy runs at
  most three. Ledger and manifest sequence numbers are 64-bit words, the delegation depth is
  read through the saturating conversion of a float to a 64-bit integer.

  \<^bold>\<open>Not modelled.\<close> Tracing, logging and metrics; connections, listeners and the event stream of
  the HTTP server; the durations handed to callbacks; goroutine interleavings inside one method;
  the embedded NATS server, the Kubernetes manager, the insides of AWS KMS, Vault, Badger and OPA;
  the error type of \<open>src/pkg/errors\<close>, which nothing uses; the conformance suite, the signal
  generator, the command line and the Terraform provider.
\<close>

section \<open>From a security event to a refused exchange\<close>

text \<open>
  A revocation signal takes effect at the exchange: once a receiver has accepted an event
  for which the policy asks to revoke, the event's subject is revoked until the grace
  period is over, and an exchange engine that shares the index refuses every exchange of
  that workload in the meantime.
\<close>

lemma accepted_set_revokes:
  assumes "ReceiveEvent rx ck (Some event) s = (Inr (), s1)"
    and "rx_policy rx = Some evaluate"
    and "evaluate (signal_policy_input (ck_policy ck) event) = Inr d" and "wants_revocation d"
    and "rx_revocation rx" and "spiffe_or_uri '''' event \<noteq> ''''"
    and "u \<le> ck_expiry ck + rx_revocation_grace rx"
    and req: "rq_grant_type req = grantTypeTokenExchange"
      "mapCredType (rq_subject_token_type req) = Inr c"
      "en_identity e (rq_subject_token req) c = Inr w"
      "str_count (wi_id w) ''wimse://'' \<le> 1" "wi_id w = spiffe_or_uri '''' event"
    and engine: "en_revocation e = Some (\<lambda>wid. Inr (IsRevoked u wid (rc_index s1)))"
  shows "fst (Exchange V e req xs) = Inl (ESubjectRevoked (wi_id w))"
proof -
  let ?s0 = "snd (checkAndMarkJTI (rx_jti_ttl rx) (ck_jti ck) (se_jti event) s)"
  have idx: "rc_index s1 = rc_index (snd (rx_policy_stage rx ck event ?s0))"
    using ReceiveEvent_index [of rx ck event s] assms(1) by simp
  have "fst (rx_policy_stage rx ck event ?s0) = Inr ()"
    using assms(1) by (auto simp: ReceiveEvent_def sbind_def stage_simps split: if_splits prod.splits
        option.splits sum.splits)
  then have "pd_allowed d"
    using assms(2,3) by (auto simp: rx_policy_stage_def fst_sbind_Inr_iff stage_simps split: if_splits)
  then have "rx_policy_stage rx ck event ?s0 = handleRevocation rx ck event ?s0"
    using assms(2-4) by (simp add: rx_policy_stage_def)
  then have "rc_index s1 = snd (Revoke (ck_revoke ck) (wi_id w)
       (case se_events event of [] \<Rightarrow> ''caep-event'' | (t, _) # _ \<Rightarrow> t)
       (ck_expiry ck + rx_revocation_grace rx) (rc_index ?s0))"
    using idx handleRevocation_index [OF assms(5,6)] req(5) by simp
  then have "\<exists>entry. IsRevoked u (wi_id w) (rc_index s1) = Some entry"
    using assms(6,7) req(5) by (auto simp: IsRevoked_Revoke)
  then show ?thesis
    using engine req(1-4)
    by (auto simp: Exchange_def sbind_def ex_validate_workload_def ex_check_revocation_def deny_def
        log_audit_def stage_simps)
qed

text \<open>
  C6. A revocation takes effect across the two endpoints of a unit: in production mode, once the
  signal endpoint has answered 202 to a request whose security event the policy asks to revoke for,
  the exchange endpoint answers every request for the event's subject with 403 and issues nothing,
  until the grace period is over.
\<close>

theorem posted_signal_revokes:
  assumes "\<not> ax_dev_mode X" and "handleSignalEvent X decode P ck (Some rx) r new_writer s = (w1, s1)"
    and "fst (reply_of w1) = 202"
    and signal: "read_limited maxSignalBodyBytes (hq_body r) = Inr raw" "parseSET P rx raw = Inr event"
    and policy: "rx_policy rx = Some evaluate"
      "evaluate (signal_policy_input (ck_policy ck) event) = Inr d" "wants_revocation d"
    and index: "rx_revocation rx" "spiffe_or_uri '''' event \<noteq> ''''" "u \<le> ck_expiry ck + rx_revocation_grace rx"
    and post: "api_request A r2 = Inr req" "handleExchangeToken A V e r2 new_writer xs = (w2, xs')"
    and req: "rq_grant_type req = grantTypeTokenExchange"
      "mapCredType (rq_subject_token_type req) = Inr c"
      "en_identity e (rq_subject_token req) c = Inr w"
      "str_count (wi_id w) ''wimse://'' \<le> 1" "wi_id w = spiffe_or_uri '''' event"
    and engine: "en_revocation e = Some (\<lambda>wid. Inr (IsRevoked u wid (rc_index s1)))"
  shows "reply_of w2 = (403, Some (xa_encode A (errorResponse ''access_denied'' ''exchange not permitted'')))
    \<and> issued xs' = issued xs"
proof -
  have "ReceiveEvent rx ck (Some event) s = (Inr (), s1)"
    using signals_are_signed [OF assms(1,2)] assms(3) signal by auto
  then have "fst (Exchange V e req xs) = Inl (ESubjectRevoked (wi_id w))"
    by (rule accepted_set_revokes [OF _ policy index req engine])
  then obtain t where run: "Exchange V e req xs = (Inl (ESubjectRevoked (wi_id w)), t)"
    by (metis prod.collapse)
  then show ?thesis using post Exchange_InlD [OF run] by (auto simp: handleExchangeToken_def exchange_refusal_def)
qed

definition demo_signal_api :: "(string, string) api_env" where
  "demo_signal_api = \<lparr>ax_encode = (\<lambda>j. ''''), ax_query = (\<lambda>r k. ''''), ax_dev_mode = False, ax_jwks = None,
     ax_parse = (\<lambda>ks t. None), ax_now = 0\<rparr>"

definition demo_signal_post :: http_request where
  "demo_signal_post = \<lparr>hq_method = ''POST'', hq_path = ''/v1/signals/events'',
     hq_headers = [(''Content-Type'', ''application/secevent+jwt'')], hq_body = Body ''SET'', hq_remote_addr = ''''\<rparr>"

definition demo_revoked_state :: receiver_state where
  "demo_revoked_state = snd (handleSignalEvent demo_signal_api (\<lambda>b. DecodeError) demo_parser (demo_clock 5) (Some demo_rx)
     demo_signal_post new_writer demo_rx_state)"

theorem posted_signal_revokes_witness:
  "reply_of (fst (handleExchangeToken demo_api demo_api_env
     (demo_engine\<lparr>en_revocation := Some (\<lambda>wid. Inr (IsRevoked 99 wid (rc_index demo_revoked_state)))\<rparr>)
     (demo_post ''w1'') new_writer demo_state)) =
   (403, Some ''access_denied'')"
proof -
  let ?run = "handleSignalEvent demo_signal_api (\<lambda>b. DecodeError) demo_parser (demo_clock 5) (Some demo_rx)
     demo_signal_post new_writer demo_rx_state"
  let ?e = "demo_engine\<lparr>en_revocation := Some (\<lambda>wid. Inr (IsRevoked 99 wid (rc_index demo_revoked_state)))\<rparr>"
  let ?d = "\<lparr>pd_allowed = True, pd_reason = '''', pd_claims = [(''revoke_tokens'', JBool True)]\<rparr>"
  have run: "?run = (fst ?run, demo_revoked_state)" by (simp add: demo_revoked_state_def)
  have read: "read_limited maxSignalBodyBytes (hq_body demo_signal_post) = Inr ''SET''"
    by (simp add: read_limited_def maxSignalBodyBytes_def demo_signal_post_def)
  have "fst (reply_of (fst (answer_signal demo_signal_api (ReceiveSET demo_parser demo_rx (demo_clock 5) ''SET'') new_writer demo_rx_state))) = 202"
    by code_simp
  then have reply: "fst (reply_of (fst ?run)) = 202"
    using read by (simp add: handleSignalEvent_def) (simp add: demo_signal_api_def demo_signal_post_def header_get_def
        header_values_def equal_fold_def to_lower_def has_prefix_def)
  have parse: "parseSET demo_parser demo_rx ''SET'' = Inr (demo_event\<lparr>se_issued_at := unix_seconds 0\<rparr>)" by code_simp
  have count: "str_count ''w1'' ''wimse://'' \<le> 1" by code_simp
  have "\<not> ax_dev_mode demo_signal_api" by (simp add: demo_signal_api_def)
  then have "reply_of (fst (handleExchangeToken demo_api demo_api_env ?e (demo_post ''w1'') new_writer demo_state)) =
      (403, Some (xa_encode demo_api (errorResponse ''access_denied'' ''exchange not permitted'')))
    \<and> issued (snd (handleExchangeToken demo_api demo_api_env ?e (demo_post ''w1'') new_writer demo_state)) = issued demo_state"
  proof (rule posted_signal_revokes [OF _ run reply read parse])
    show "rx_policy demo_rx = Some (\<lambda>i. Inr ?d)" by (simp add: demo_rx_def)
    show "wants_revocation ?d" by (simp add: wants_revocation_def)
    show "99 \<le> ck_expiry (demo_clock 5) + rx_revocation_grace demo_rx"
      by (simp add: demo_rx_def NewReceiver_def demo_clock_def go_minute_def go_second_def)
    show "en_identity ?e (rq_subject_token (demo_request ''w1'' '''')) ''k8s-sa'' =
        Inr \<lparr>wi_id = ''w1'', wi_trust_domain = ''td'', wi_attestation = None, wi_claims = []\<rparr>"
      by (simp add: demo_engine_def demo_request_def)
    show "api_request demo_api (demo_post ''w1'') = Inr (demo_request ''w1'' '''')" by (rule demo_api_request)
  qed (use count in \<open>simp_all add: demo_rx_def NewReceiver_def spiffe_or_uri_def demo_event_def demo_request_def
      mapCredType_def cred_types_def\<close>)
  then show ?thesis by (simp add: demo_api_def errorResponse_def)
qed

end
